(* ===== verification/Prelude.thy ===== *)
theory Prelude
  imports Main "HOL-Library.Char_ord" "HOL-Library.List_Lexorder"
begin

text \<open>
  Shared vocabulary of the development: tables as lists of rows, the SQL shaped list operations
  (\<open>update_where\<close> for an \<open>UPDATE ... WHERE\<close>, \<open>select_one\<close> for a destructured
  \<open>const [row] = await ...select()\<close>), sums over rows, character classes of the regular
  expressions of the contracts, and the theorem collections the component theories extend.
\<close>

named_theorems handler_simps "equations that unfold small handlers and queries"

type_synonym id = string
type_synonym instant = int
type_synonym micros = int
type_synonym currency = string
type_synonym labels = "(string \<times> string) list"

section \<open>Rows\<close>

definition select_one :: "('a \<Rightarrow> bool) \<Rightarrow> 'a list \<Rightarrow> 'a option" where
  "select_one P xs = find P xs"

definition update_where :: "('a \<Rightarrow> bool) \<Rightarrow> ('a \<Rightarrow> 'a) \<Rightarrow> 'a list \<Rightarrow> 'a list" where
  "update_where P f xs = map (\<lambda>x. if P x then f x else x) xs"

definition total :: "('a \<Rightarrow> int) \<Rightarrow> 'a list \<Rightarrow> int" where
  "total f xs = sum_list (map f xs)"

definition last_option :: "'a list \<Rightarrow> 'a option" where
  "last_option xs = (if xs = [] then None else Some (last xs))"

lemma select_one_SomeD: "select_one P xs = Some x \<Longrightarrow> x \<in> set xs \<and> P x"
  by (auto simp: select_one_def find_Some_iff)

lemma select_one_NoneD: "select_one P xs = None \<Longrightarrow> x \<in> set xs \<Longrightarrow> \<not> P x"
  by (auto simp: select_one_def find_None_iff)

lemma select_one_None_iff: "select_one P xs = None \<longleftrightarrow> (\<forall>x\<in>set xs. \<not> P x)"
  by (auto simp: select_one_def find_None_iff)

lemma select_one_simps [simp]:
  "select_one P [] = None"
  "select_one P (x # xs) = (if P x then Some x else select_one P xs)"
  by (simp_all add: select_one_def)

lemma select_one_unique:
  assumes "x \<in> set xs" "P x" "\<And>y. y \<in> set xs \<Longrightarrow> P y \<Longrightarrow> y = x"
  shows "select_one P xs = Some x"
proof (cases "select_one P xs")
  case None
  with assms(1,2) show ?thesis by (meson select_one_NoneD)
next
  case (Some y)
  then have "y = x" by (intro assms(3)) (blast dest: select_one_SomeD)+
  with Some show ?thesis by simp
qed

lemma length_update_where [simp]: "length (update_where P f xs) = length xs"
  by (simp add: update_where_def)

lemma update_where_Nil [simp]: "update_where P f [] = []"
  by (simp add: update_where_def)

lemma update_where_Cons [simp]:
  "update_where P f (x # xs) = (if P x then f x else x) # update_where P f xs"
  by (simp add: update_where_def)

lemma update_where_append [simp]:
  "update_where P f (xs @ ys) = update_where P f xs @ update_where P f ys"
  by (simp add: update_where_def)

lemma in_update_where:
  "y \<in> set (update_where P f xs) \<longleftrightarrow> (\<exists>x\<in>set xs. y = (if P x then f x else x))"
  by (auto simp: update_where_def)

lemma update_where_id: "(\<And>x. x \<in> set xs \<Longrightarrow> P x \<Longrightarrow> f x = x) \<Longrightarrow> update_where P f xs = xs"
  by (induction xs) auto

lemma map_update_where:
  "(\<And>x. P x \<Longrightarrow> g (f x) = g x) \<Longrightarrow> map g (update_where P f xs) = map g xs"
  by (induction xs) auto

lemma total_simps [simp]:
  "total f [] = 0"
  "total f (x # xs) = f x + total f xs"
  "total f (xs @ ys) = total f xs + total f ys"
  by (simp_all add: total_def)

lemma total_nonneg: "(\<And>x. x \<in> set xs \<Longrightarrow> 0 \<le> f x) \<Longrightarrow> 0 \<le> total f xs"
  by (induction xs) auto

lemma total_filter_le:
  "(\<And>x. x \<in> set xs \<Longrightarrow> 0 \<le> f x) \<Longrightarrow> total f (filter P xs) \<le> total f xs"
proof (induction xs)
  case (Cons x xs)
  then have "total f (filter P xs) \<le> total f xs" "0 \<le> f x" by simp_all
  then show ?case by simp
qed simp

lemma total_map: "total f (map g xs) = total (f \<circ> g) xs"
  by (simp add: total_def)

lemma last_option_Some: "last_option xs = Some x \<Longrightarrow> x \<in> set xs"
  by (auto simp: last_option_def split: if_splits)

section \<open>Labels\<close>

text \<open>A \<open>Record<string, string>\<close> is an association list; a lookup reads its first entry.\<close>

definition label_of :: "labels \<Rightarrow> string \<Rightarrow> string option" where
  "label_of ls k = map_of ls k"

section \<open>Character classes\<close>

definition is_digit :: "char \<Rightarrow> bool" where
  "is_digit c \<longleftrightarrow> (48::nat) \<le> of_char c \<and> of_char c \<le> (57::nat)"

definition is_lower :: "char \<Rightarrow> bool" where
  "is_lower c \<longleftrightarrow> (97::nat) \<le> of_char c \<and> of_char c \<le> (122::nat)"

definition is_upper :: "char \<Rightarrow> bool" where
  "is_upper c \<longleftrightarrow> (65::nat) \<le> of_char c \<and> of_char c \<le> (90::nat)"

definition is_hex :: "char \<Rightarrow> bool" where
  "is_hex c \<longleftrightarrow> is_digit c \<or> ((97::nat) \<le> of_char c \<and> of_char c \<le> (102::nat))"

definition is_alnum :: "char \<Rightarrow> bool" where
  "is_alnum c \<longleftrightarrow> is_digit c \<or> is_lower c \<or> is_upper c"

text \<open>The alphabet of base64url.\<close>

definition is_token_char :: "char \<Rightarrow> bool" where
  "is_token_char c \<longleftrightarrow> is_alnum c \<or> c = CHR ''_'' \<or> c = CHR ''-''"

lemmas char_class_defs = is_digit_def is_lower_def is_upper_def is_hex_def is_alnum_def

end
