(* ===== verification/Money.thy ===== *)
theory Money
  imports Prelude Complex_Main
begin

text \<open>
  \<^verbatim>\<open>packages/contracts/src/money.ts\<close>: parsing decimal provider prices and spending limits into
  integer micro-units. Schema failures (a thrown \<open>ZodError\<close>) and the explicit
  \<open>throw new Error\<close> are \<open>None\<close>. The \<open>BigInt\<close> arithmetic is exact; the conversion to
  \<open>Number\<close> can only round values above \<open>2^53\<close>, all of which \<open>microsSchema\<close> refuses.
\<close>

definition digit_value :: "char \<Rightarrow> nat" where
  "digit_value c = of_char c - 48"

definition nat_of_digits :: "string \<Rightarrow> nat" where
  "nat_of_digits s = foldl (\<lambda>n c. 10 * n + digit_value c) 0 s"

definition currency_ok :: "string \<Rightarrow> bool" where
  "currency_ok s \<longleftrightarrow> length s = 3 \<and> list_all is_upper s"

definition micros_ok :: "int \<Rightarrow> bool" where
  "micros_ok n \<longleftrightarrow> 0 \<le> n \<and> n \<le> 2147483647"

definition micros_parse :: "int \<Rightarrow> int option" where
  "micros_parse n = (if micros_ok n then Some n else None)"

definition whole_part :: "string \<Rightarrow> string" where
  "whole_part s = takeWhile (\<lambda>c. c \<noteq> CHR ''.'') s"

definition fraction_part :: "string \<Rightarrow> string" where
  "fraction_part s = drop 1 (dropWhile (\<lambda>c. c \<noteq> CHR ''.'') s)"

definition whole_ok :: "string \<Rightarrow> bool" where
  "whole_ok w \<longleftrightarrow> w = ''0'' \<or> (w \<noteq> [] \<and> list_all is_digit w \<and> hd w \<noteq> CHR ''0'')"

definition decimal_ok :: "string \<Rightarrow> bool" where
  "decimal_ok s \<longleftrightarrow> length s \<le> 40 \<and> whole_ok (whole_part s) \<and>
     (CHR ''.'' \<in> set s \<longrightarrow> fraction_part s \<noteq> [] \<and> list_all is_digit (fraction_part s))"

definition pad_end :: "nat \<Rightarrow> char \<Rightarrow> string \<Rightarrow> string" where
  "pad_end n c s = s @ replicate (n - length s) c"

definition has_nonzero_digit :: "string \<Rightarrow> bool" where
  "has_nonzero_digit s \<longleftrightarrow> list_ex (\<lambda>c. is_digit c \<and> c \<noteq> CHR ''0'') s"

definition decimalToMicros :: "string \<Rightarrow> int option" where
  "decimalToMicros value =
     (if decimal_ok value then
        (let fraction = fraction_part value;
             remainder = drop 6 fraction;
             micros = int (nat_of_digits (whole_part value)) * 1000000
                      + int (nat_of_digits (pad_end 6 CHR ''0'' (take 6 fraction)))
         in micros_parse (micros + (if has_nonzero_digit remainder then 1 else 0)))
      else None)"

definition decimalLimitToMicros :: "string \<Rightarrow> int option" where
  "decimalLimitToMicros value =
     (if decimal_ok value then
        (if has_nonzero_digit (drop 6 (fraction_part value)) then None
         else decimalToMicros value)
      else None)"

section \<open>The number a decimal string denotes\<close>

definition decimal_value :: "string \<Rightarrow> rat" where
  "decimal_value s = of_nat (nat_of_digits (whole_part s))
     + of_nat (nat_of_digits (fraction_part s)) / 10 ^ length (fraction_part s)"

lemma nat_of_digits_acc:
  "foldl (\<lambda>n c. 10 * n + digit_value c) m s
     = m * 10 ^ length s + foldl (\<lambda>n c. 10 * n + digit_value c) 0 s"
proof (induction s arbitrary: m)
  case Nil
  then show ?case by simp
next
  case (Cons c s)
  let ?F = "foldl (\<lambda>n c. 10 * n + digit_value c)"
  have "?F m (c # s) = (10 * m + digit_value c) * 10 ^ length s + ?F 0 s"
    using Cons.IH [of "10 * m + digit_value c"] by simp
  moreover have "?F 0 (c # s) = digit_value c * 10 ^ length s + ?F 0 s"
    using Cons.IH [of "digit_value c"] by simp
  ultimately show ?case by (simp add: algebra_simps)
qed

lemma nat_of_digits_append:
  "nat_of_digits (s @ t) = nat_of_digits s * 10 ^ length t + nat_of_digits t"
  unfolding nat_of_digits_def foldl_append by (rule nat_of_digits_acc)

lemma nat_of_digits_Cons:
  "nat_of_digits (c # s) = digit_value c * 10 ^ length s + nat_of_digits s"
  using nat_of_digits_append [of "[c]" s] by (simp add: nat_of_digits_def)

lemma nat_of_digits_Nil [simp]: "nat_of_digits [] = 0"
  by (simp add: nat_of_digits_def)

lemma nat_of_digits_zeros [simp]: "nat_of_digits (replicate n CHR ''0'') = 0"
  by (induction n) (simp_all add: nat_of_digits_Cons digit_value_def)

lemma digit_value_less: "is_digit c \<Longrightarrow> digit_value c < 10"
  unfolding digit_value_def is_digit_def by linarith

lemma digit_value_zero: "is_digit c \<Longrightarrow> digit_value c = 0 \<longleftrightarrow> c = CHR ''0''"
proof -
  assume d: "is_digit c"
  then have "digit_value c = 0 \<longleftrightarrow> of_char c = (48 :: nat)"
    unfolding digit_value_def is_digit_def by linarith
  also have "(48 :: nat) = of_char CHR ''0''" by simp
  finally show ?thesis by (simp only: of_char_eq_iff)
qed

lemma nat_of_digits_less: "list_all is_digit s \<Longrightarrow> nat_of_digits s < 10 ^ length s"
proof (induction s)
  case (Cons c s)
  then have "nat_of_digits s < 10 ^ length s" "digit_value c \<le> 9"
    using digit_value_less [of c] by auto
  then have "digit_value c * 10 ^ length s + nat_of_digits s < 9 * 10 ^ length s + 10 ^ length s"
    by (meson add_le_less_mono mult_le_mono1)
  then show ?case by (simp add: nat_of_digits_Cons)
qed simp

lemma has_nonzero_iff:
  "list_all is_digit s \<Longrightarrow> has_nonzero_digit s \<longleftrightarrow> nat_of_digits s \<noteq> 0"
  by (induction s) (auto simp: has_nonzero_digit_def nat_of_digits_Cons digit_value_zero)

section \<open>Scaling by a million\<close>

lemma pad_end_value:
  "length s \<le> n \<Longrightarrow> nat_of_digits (pad_end n CHR ''0'' s) = nat_of_digits s * 10 ^ (n - length s)"
  by (simp add: pad_end_def nat_of_digits_append)

lemma fraction_scaled:
  "of_nat (nat_of_digits f) / 10 ^ length f * (1000000 :: rat)
     = of_nat (nat_of_digits (pad_end 6 CHR ''0'' (take 6 f)))
       + of_nat (nat_of_digits (drop 6 f)) / 10 ^ length (drop 6 f)"
proof (cases "length f \<le> 6")
  case True
  then have eq: "(1000000 :: rat) = 10 ^ (6 - length f) * 10 ^ length f"
    by (simp flip: power_add)
  have "of_nat (nat_of_digits f) / 10 ^ length f * (1000000 :: rat)
      = of_nat (nat_of_digits f) * 10 ^ (6 - length f)"
    by (subst eq) simp
  with True show ?thesis by (simp add: pad_end_value)
next
  case False
  let ?n = "length f - 6"
  have n: "length f = 6 + ?n" using False by simp
  have "nat_of_digits f = nat_of_digits (take 6 f) * 10 ^ ?n + nat_of_digits (drop 6 f)"
    using nat_of_digits_append [of "take 6 f" "drop 6 f"] by simp
  moreover have "(10 :: rat) ^ length f = 1000000 * 10 ^ ?n"
    by (subst n) (simp add: power_add)
  moreover have "pad_end 6 CHR ''0'' (take 6 f) = take 6 f"
    using False by (simp add: pad_end_def)
  ultimately show ?thesis using False by (simp add: field_simps)
qed

lemma ceiling_nat_plus_fraction:
  assumes "r < 10 ^ k"
  shows "\<lceil>of_nat m + of_nat r / (10 :: rat) ^ k\<rceil> = int m + (if r = 0 then 0 else 1)"
proof (cases "r = 0")
  case False
  have "(of_nat r :: rat) < 10 ^ k" using assms by (metis of_nat_less_iff of_nat_numeral of_nat_power)
  then have "of_nat r / (10 :: rat) ^ k < 1" by simp
  moreover have "0 < of_nat r / (10 :: rat) ^ k" using False by simp
  ultimately show ?thesis using False by (intro ceiling_unique) auto
qed (simp add: ceiling_of_nat)

lemma scaled_value:
  "decimal_value s * 1000000
     = of_nat (nat_of_digits (whole_part s) * 1000000
               + nat_of_digits (pad_end 6 CHR ''0'' (take 6 (fraction_part s))))
       + of_nat (nat_of_digits (drop 6 (fraction_part s)))
         / 10 ^ length (drop 6 (fraction_part s))"
  unfolding decimal_value_def
  by (simp only: distrib_right fraction_scaled of_nat_add of_nat_mult of_nat_numeral add.assoc)

lemma fraction_digits: "decimal_ok s \<Longrightarrow> list_all is_digit (fraction_part s)"
proof (cases "CHR ''.'' \<in> set s")
  case False
  then have "dropWhile (\<lambda>c. c \<noteq> CHR ''.'') s = []" by (auto simp: dropWhile_eq_Nil_conv)
  then show ?thesis by (simp add: fraction_part_def del: dropWhile_eq_Nil_conv)
qed (simp add: decimal_ok_def)

lemma remainder_less:
  "decimal_ok s \<Longrightarrow> nat_of_digits (drop 6 (fraction_part s)) < 10 ^ length (drop 6 (fraction_part s))"
  by (rule nat_of_digits_less) (use fraction_digits [of s] in \<open>auto simp: list_all_iff dest: in_set_dropD\<close>)

lemma remainder_nonzero:
  "decimal_ok s \<Longrightarrow> has_nonzero_digit (drop 6 (fraction_part s))
     \<longleftrightarrow> nat_of_digits (drop 6 (fraction_part s)) \<noteq> 0"
  by (rule has_nonzero_iff) (use fraction_digits [of s] in \<open>auto simp: list_all_iff dest: in_set_dropD\<close>)

lemma decimalToMicros_ceiling:
  assumes "decimal_ok s"
  shows "decimalToMicros s = micros_parse \<lceil>decimal_value s * 1000000\<rceil>"
proof -
  have "\<lceil>decimal_value s * 1000000\<rceil>
      = int (nat_of_digits (whole_part s) * 1000000
             + nat_of_digits (pad_end 6 CHR ''0'' (take 6 (fraction_part s))))
        + (if nat_of_digits (drop 6 (fraction_part s)) = 0 then 0 else 1)"
    unfolding scaled_value by (rule ceiling_nat_plus_fraction [OF remainder_less [OF assms]])
  also have "\<dots> = int (nat_of_digits (whole_part s)) * 1000000
        + int (nat_of_digits (pad_end 6 CHR ''0'' (take 6 (fraction_part s))))
        + (if has_nonzero_digit (drop 6 (fraction_part s)) then 1 else 0)"
    by (simp add: remainder_nonzero [OF assms])
  finally have "\<lceil>decimal_value s * 1000000\<rceil> = \<dots>" .
  with assms show ?thesis by (simp add: decimalToMicros_def Let_def)
qed

text \<open>
  Every accepted price is converted to the least number of micro-units that is not below it
  (it is never rounded down), and the conversion fails exactly for malformed strings and for
  results outside the 31 bit range.
\<close>

theorem decimalToMicros_rounds_up:
  "decimalToMicros s
     = (if decimal_ok s then micros_parse \<lceil>decimal_value s * 1000000\<rceil> else None)"
  using decimalToMicros_ceiling [of s] by (simp add: decimalToMicros_def)

text \<open>
  A spending limit is accepted only when it is exactly representable in micro-units, and
  then the result is that exact number: parsing a limit never increases an authorization.
\<close>

theorem decimalLimitToMicros_exact:
  "decimalLimitToMicros s
     = (if decimal_ok s \<and> decimal_value s * 1000000 = of_int \<lfloor>decimal_value s * 1000000\<rfloor>
        then micros_parse \<lfloor>decimal_value s * 1000000\<rfloor> else None)"
proof (cases "decimal_ok s")
  case True
  let ?v = "decimal_value s * 1000000" and ?r = "nat_of_digits (drop 6 (fraction_part s))"
  let ?m = "nat_of_digits (whole_part s) * 1000000
               + nat_of_digits (pad_end 6 CHR ''0'' (take 6 (fraction_part s)))"
  let ?k = "length (drop 6 (fraction_part s))"
  have up: "\<lceil>?v\<rceil> = int ?m + (if ?r = 0 then 0 else 1)"
    unfolding scaled_value by (rule ceiling_nat_plus_fraction [OF remainder_less [OF True]])
  have integral: "?v = of_int \<lfloor>?v\<rfloor> \<longleftrightarrow> ?r = 0"
  proof
    assume v: "?v = of_int \<lfloor>?v\<rfloor>"
    then have "of_int \<lceil>?v\<rceil> = ?v" by (metis ceiling_of_int)
    then have "of_nat ?r / (10 :: rat) ^ ?k = of_int (if ?r = 0 then 0 else 1)"
      unfolding up by (simp add: scaled_value split: if_splits)
    moreover have "(of_nat ?r :: rat) < 10 ^ ?k"
      using remainder_less [OF True] by (metis of_nat_less_iff of_nat_numeral of_nat_power)
    ultimately show "?r = 0" by (auto split: if_splits)
  next
    assume "?r = 0"
    then have "?v = of_nat ?m" by (simp add: scaled_value)
    then show "?v = of_int \<lfloor>?v\<rfloor>" by (metis floor_of_nat of_int_of_nat_eq)
  qed
  show ?thesis
  proof (cases "?r = 0")
    case r: True
    then have "?v = of_int \<lfloor>?v\<rfloor>" using integral by blast
    moreover from this have "\<lceil>?v\<rceil> = \<lfloor>?v\<rfloor>" by (metis ceiling_of_int)
    ultimately show ?thesis
      using True r by (simp add: decimalLimitToMicros_def decimalToMicros_ceiling
          remainder_nonzero)
  next
    case False
    with True integral show ?thesis by (simp add: decimalLimitToMicros_def remainder_nonzero)
  qed
qed (simp add: decimalLimitToMicros_def)

end
