(* ===== verification/Contracts.thy ===== *)
theory Contracts
  imports Prelude Money
begin

text \<open>
  \<^verbatim>\<open>packages/contracts/src\<close>: the data model shared by every component. Zod enums and
  discriminated unions are datatypes, \<open>z.object\<close> schemas are records, and the constraints a
  schema adds beyond the shape are the \<open>*_ok\<close> predicates (\<open>schema.parse(x)\<close> succeeds exactly
  when the predicate holds). ISO timestamps are milliseconds. A failure keeps its code and its
  \<open>retryable\<close> flag; the free text of messages is not modelled.
\<close>

section \<open>Errors (errors.ts)\<close>

datatype error_code =
    Invalid_input | Unauthenticated | Permission_denied | Not_found | Idempotency_conflict
  | Resource_busy | Version_conflict | Quota_exceeded | Budget_exceeded | Capacity_unavailable
  | Provider_rejected | Provider_outcome_unknown | Provider_unavailable | Guest_unreachable
  | Data_loss_not_authorized | Internal_error

record failure =
  code :: error_code
  retryable :: bool

definition cloud_error :: "error_code \<Rightarrow> failure" where
  "cloud_error c = \<lparr>code = c, retryable = False\<rparr>"

definition cloud_error_retryable :: "error_code \<Rightarrow> failure" where
  "cloud_error_retryable c = \<lparr>code = c, retryable = True\<rparr>"

lemma cloud_error_fields [simp]:
  "code (cloud_error c) = c" "retryable (cloud_error c) = False"
  "code (cloud_error_retryable c) = c" "retryable (cloud_error_retryable c) = True"
  by (simp_all add: cloud_error_def cloud_error_retryable_def)

fun errorStatus :: "error_code \<Rightarrow> int" where
  "errorStatus Invalid_input = 400"
| "errorStatus Unauthenticated = 401"
| "errorStatus Permission_denied = 403"
| "errorStatus Data_loss_not_authorized = 403"
| "errorStatus Not_found = 404"
| "errorStatus Idempotency_conflict = 409"
| "errorStatus Resource_busy = 409"
| "errorStatus Version_conflict = 409"
| "errorStatus Budget_exceeded = 409"
| "errorStatus Provider_rejected = 409"
| "errorStatus Provider_outcome_unknown = 409"
| "errorStatus Quota_exceeded = 429"
| "errorStatus Capacity_unavailable = 503"
| "errorStatus Provider_unavailable = 503"
| "errorStatus Guest_unreachable = 503"
| "errorStatus Internal_error = 500"

section \<open>Identifiers (ids.ts)\<close>

definition is_uuid :: "string \<Rightarrow> bool" where
  "is_uuid s \<longleftrightarrow> length s = 36 \<and>
     list_all (\<lambda>i. if i \<in> {8, 13, 18, 23} then s ! i = CHR ''-'' else is_hex (s ! i)) [0..<36]"

definition prefixed_uuid :: "string \<Rightarrow> string \<Rightarrow> bool" where
  "prefixed_uuid p s \<longleftrightarrow> take (length p) s = p \<and> is_uuid (drop (length p) s)"

datatype id_kind = Account_id | Project_id | Machine_id | Allocation_id | Operation_id
  | Grant_id | Attempt_id | Access_session_id

fun id_prefix :: "id_kind \<Rightarrow> string" where
  "id_prefix Account_id = ''acc_''"
| "id_prefix Project_id = ''prj_''"
| "id_prefix Machine_id = ''vm_''"
| "id_prefix Allocation_id = ''alloc_''"
| "id_prefix Operation_id = ''op_''"
| "id_prefix Grant_id = ''grant_''"
| "id_prefix Attempt_id = ''att_''"
| "id_prefix Access_session_id = ''access_''"

definition id_ok :: "id_kind \<Rightarrow> string \<Rightarrow> bool" where
  "id_ok k s = prefixed_uuid (id_prefix k) s"

text \<open>\<open>newId.<kind>()\<close> for the value \<open>u\<close> that \<open>randomUUID()\<close> returned: the prefixed
  identifier, or the \<open>ZodError\<close> of the schema.\<close>

definition newId :: "id_kind \<Rightarrow> string \<Rightarrow> string option" where
  "newId k u = (let s = id_prefix k @ u in if id_ok k s then Some s else None)"

datatype resource_kind = Server | Primary_ip

text \<open>\<open>ResourceRef\<close>; the schema also asks for a non-empty identifier.\<close>

record resource_ref =
  ref_kind :: resource_kind
  ref_id :: string

definition resource_ref_ok :: "resource_ref \<Rightarrow> bool" where
  "resource_ref_ok r \<longleftrightarrow> ref_id r \<noteq> []"

section \<open>Catalog (catalog.ts)\<close>

datatype size = Small | Medium | Large
datatype region = Nbg1 | Fsn1 | Hel1
fun region_name :: "region \<Rightarrow> string" where
  "region_name Nbg1 = ''nbg1''"
| "region_name Fsn1 = ''fsn1''"
| "region_name Hel1 = ''hel1''"

datatype provider_kind = Simulated | Hetzner
datatype architecture = X86 | Arm
datatype price_basis = Basis_simulated | Basis_account_gross | Basis_legacy_estimate
datatype provider_backups = Backups_disabled | Backups_daily micros

record catalog_item =
  item_size :: size
  serverType :: string
  item_region :: region
  architecture_of :: architecture
  vcpus :: int
  memoryGb :: rat
  diskGb :: int
  available :: bool
  item_currency :: currency
  priceBasis :: price_basis
  serverHourlyMicros :: micros
  ipv4HourlyMicros :: micros
  providerBackups :: provider_backups
  item_hourlyMicros :: micros

fun backup_micros :: "provider_backups \<Rightarrow> micros" where
  "backup_micros Backups_disabled = 0"
| "backup_micros (Backups_daily m) = m"

definition catalog_item_ok :: "catalog_item \<Rightarrow> bool" where
  "catalog_item_ok i \<longleftrightarrow> serverType i \<noteq> [] \<and> 0 < vcpus i \<and> 0 < memoryGb i \<and> 0 < diskGb i
     \<and> currency_ok (item_currency i) \<and> micros_ok (serverHourlyMicros i)
     \<and> micros_ok (ipv4HourlyMicros i) \<and> micros_ok (backup_micros (providerBackups i))
     \<and> micros_ok (item_hourlyMicros i)
     \<and> item_hourlyMicros i = serverHourlyMicros i + ipv4HourlyMicros i
         + backup_micros (providerBackups i)"

record catalog =
  cat_provider :: provider_kind
  cat_currency :: currency
  pricing :: price_basis
  cat_observedAt :: instant
  cat_expiresAt :: instant
  cat_items :: "catalog_item list"

definition catalog_ok :: "catalog \<Rightarrow> bool" where
  "catalog_ok c \<longleftrightarrow> currency_ok (cat_currency c) \<and> pricing c \<noteq> Basis_legacy_estimate
     \<and> list_all catalog_item_ok (cat_items c)
     \<and> list_all (\<lambda>i. item_currency i = cat_currency c \<and> priceBasis i = pricing c) (cat_items c)
     \<and> distinct (map (\<lambda>i. (item_size i, item_region i)) (cat_items c))
     \<and> cat_observedAt c < cat_expiresAt c"

definition selectOffer :: "catalog \<Rightarrow> size \<Rightarrow> region \<Rightarrow> instant \<Rightarrow> failure + catalog_item" where
  "selectOffer c s r now =
     (if cat_expiresAt c \<le> now \<or> now + 5000 < cat_observedAt c
      then Inl (cloud_error_retryable Provider_unavailable)
      else (case select_one (\<lambda>i. item_size i = s \<and> item_region i = r) (cat_items c) of
              None \<Rightarrow> Inl (cloud_error_retryable Capacity_unavailable)
            | Some offer \<Rightarrow>
                if available offer then Inr offer
                else Inl (cloud_error_retryable Capacity_unavailable)))"

definition simulated_item :: "currency \<Rightarrow> region \<Rightarrow> size \<times> string \<times> int \<times> int \<times> int \<times> int \<Rightarrow> catalog_item" where
  "simulated_item cur r t = (case t of (s, type, cpus, memory, disk, hourly) \<Rightarrow>
     \<lparr>item_size = s, serverType = type, item_region = r, architecture_of = X86, vcpus = cpus,
      memoryGb = of_int memory, diskGb = disk, available = True, item_currency = cur,
      priceBasis = Basis_simulated, serverHourlyMicros = hourly - 1200, ipv4HourlyMicros = 1200,
      providerBackups = Backups_disabled, item_hourlyMicros = hourly\<rparr>)"

text \<open>\<open>simulatedCatalog\<close>; the two arguments after the currency are its two clock readings.\<close>

definition simulatedCatalog :: "currency \<Rightarrow> instant \<Rightarrow> instant \<Rightarrow> catalog option" where
  "simulatedCatalog cur observed now =
     (let types = [(Small, ''cx23'', 2, 4, 40, 9600), (Medium, ''cx33'', 4, 8, 80, 14400),
                   (Large, ''cx43'', 8, 16, 160, 26400)];
          c = \<lparr>cat_provider = Simulated, cat_currency = cur, pricing = Basis_simulated,
               cat_observedAt = observed, cat_expiresAt = now + 300000,
               cat_items = concat (map (\<lambda>t. map (\<lambda>r. simulated_item cur r t) [Nbg1, Fsn1, Hel1]) types)\<rparr>
      in if catalog_ok c then Some c else None)"

section \<open>Authority (auth.ts)\<close>

datatype capability =
    Project_read | Project_create | Machine_read | Machine_create | Machine_operate
  | Machine_destroy | Machine_destroy_data_loss | Machine_exec | Deploy_write | Route_publish
  | Backup_read | Backup_create | Backup_restore | Backup_purge | Grant_manage | Usage_read

datatype project_scope = All_projects | Selected_projects "id list"

record grant_policy =
  capabilities :: "capability list"
  policy_projects :: project_scope
  sizes :: "size list"
  regions :: "region list"
  policy_maxMachines :: int
  policy_currency :: currency
  policy_maxHourlyMicros :: micros

definition grant_policy_ok :: "grant_policy \<Rightarrow> bool" where
  "grant_policy_ok p \<longleftrightarrow>
     (case policy_projects p of All_projects \<Rightarrow> True
      | Selected_projects ids \<Rightarrow> ids \<noteq> [] \<and> list_all (id_ok Project_id) ids)
     \<and> sizes p \<noteq> [] \<and> regions p \<noteq> [] \<and> 0 \<le> policy_maxMachines p \<and> policy_maxMachines p \<le> 1000
     \<and> currency_ok (policy_currency p) \<and> micros_ok (policy_maxHourlyMicros p)"

record principal =
  accountId :: id
  grantId :: id
  policy :: grant_policy

section \<open>Lifecycle (lifecycle.ts)\<close>

definition name_ok :: "string \<Rightarrow> bool" where
  "name_ok s \<longleftrightarrow> s \<noteq> [] \<and> length s \<le> 63 \<and> is_lower (hd s)
     \<and> list_all (\<lambda>c. is_lower c \<or> is_digit c \<or> c = CHR ''-'') (tl s)"

definition idempotency_key_ok :: "string \<Rightarrow> bool" where
  "idempotency_key_ok s \<longleftrightarrow> 12 \<le> length s \<and> length s \<le> 128
     \<and> list_all (\<lambda>c. is_alnum c \<or> c \<in> set ''._:-'') s"

record machine_spec =
  spec_name :: string
  spec_size :: size
  spec_region :: region

definition machine_spec_ok :: "machine_spec \<Rightarrow> bool" where
  "machine_spec_ok s = name_ok (spec_name s)"

datatype machine_action =
    Reboot int
  | Power_off int
  | Power_on int
  | Resize int size
  | Destroy int bool

fun expectedVersion :: "machine_action \<Rightarrow> int" where
  "expectedVersion (Reboot v) = v"
| "expectedVersion (Power_off v) = v"
| "expectedVersion (Power_on v) = v"
| "expectedVersion (Resize v s) = v"
| "expectedVersion (Destroy v d) = v"

datatype lifecycle_command = Create machine_spec | Action machine_action

datatype operation_kind = Op_create | Op_reboot | Op_power_off | Op_power_on | Op_resize | Op_destroy

fun operation_kind_of :: "lifecycle_command \<Rightarrow> operation_kind" where
  "operation_kind_of (Create s) = Op_create"
| "operation_kind_of (Action (Reboot v)) = Op_reboot"
| "operation_kind_of (Action (Power_off v)) = Op_power_off"
| "operation_kind_of (Action (Power_on v)) = Op_power_on"
| "operation_kind_of (Action (Resize v s)) = Op_resize"
| "operation_kind_of (Action (Destroy v d)) = Op_destroy"

datatype operation_intent = Run | Compensate failure | Cleanup id

datatype guest_stage = Enrollment | Runtime

datatype blocked_reason =
    Blocked_outcome_unknown | Blocked_duplicate_resources | Blocked_resource_mismatch
  | Blocked_guest_unreachable | Blocked_guest_identity_mismatch | Blocked_guest_deadline_exceeded
  | Blocked_guest_signing_exhausted | Blocked_cleanup_retry_exhausted

datatype operation_progress =
    Queued
  | Submitting id
  | Waiting_provider id string resource_ref
  | Cleaning_up
  | Verifying resource_ref
  | Waiting_guest string guest_stage
  | Blocked blocked_reason
  | Succeeded instant
  | Cancelled instant
  | Failed instant failure

fun progress_terminal :: "operation_progress \<Rightarrow> bool" where
  "progress_terminal (Succeeded t) = True"
| "progress_terminal (Failed t e) = True"
| "progress_terminal (Cancelled t) = True"
| "progress_terminal _ = False"

datatype power = Power_running | Power_is_off | Power_starting | Power_stopping | Power_unknown

datatype guest_verification =
    Guest_pending
  | Guest_simulated instant
  | Guest_ssh instant string string string

datatype backup_status = Backup_unknown | Backup_disabled | Backup_enabled

datatype machine_state =
    Pending
  | Provisioning id
  | Allocated id string power guest_verification backup_status
  | Machine_failed failure
  | Destroyed instant

fun state_destroyed :: "machine_state \<Rightarrow> bool" where
  "state_destroyed (Destroyed t) = True"
| "state_destroyed _ = False"

section \<open>Provider boundary (provider.ts)\<close>

datatype network_profile = Legacy_network | Managed_ipv4

datatype provider_network = Net_legacy | Net_primary_ip string

record bootstrap_reference =
  bootstrap_version :: int
  bootstrap_allocation :: id

datatype provider_command =
    Create_primary_ip string string labels
  | Delete_primary_ip string
  | Create_server string string string labels provider_network
  | Create_guest string string string labels string bootstrap_reference
  | Reboot_server string
  | Power_off_server string
  | Power_on_server string
  | Enable_backup string
  | Resize_server string string
  | Destroy_server string

fun isServerCreateCommand :: "provider_command \<Rightarrow> bool" where
  "isServerCreateCommand (Create_server n t r l w) = True"
| "isServerCreateCommand (Create_guest n t r l w b) = True"
| "isServerCreateCommand _ = False"

fun isIpCreateCommand :: "provider_command \<Rightarrow> bool" where
  "isIpCreateCommand (Create_primary_ip n r l) = True"
| "isIpCreateCommand _ = False"

text \<open>The fields \<open>serverId\<close>, \<open>primaryIpId\<close> and \<open>labels\<close> of a command, for the commands that
  have them (\<open>'serverId' in command\<close>).\<close>

fun command_serverId :: "provider_command \<Rightarrow> string option" where
  "command_serverId (Reboot_server s) = Some s"
| "command_serverId (Power_off_server s) = Some s"
| "command_serverId (Power_on_server s) = Some s"
| "command_serverId (Enable_backup s) = Some s"
| "command_serverId (Resize_server s t) = Some s"
| "command_serverId (Destroy_server s) = Some s"
| "command_serverId _ = None"

fun command_primaryIpId :: "provider_command \<Rightarrow> string option" where
  "command_primaryIpId (Delete_primary_ip i) = Some i"
| "command_primaryIpId _ = None"

fun command_labels :: "provider_command \<Rightarrow> labels option" where
  "command_labels (Create_primary_ip n r l) = Some l"
| "command_labels (Create_server n t r l w) = Some l"
| "command_labels (Create_guest n t r l w b) = Some l"
| "command_labels _ = None"

datatype submission =
    Sub_accepted resource_ref string
  | Sub_completed resource_ref
  | Sub_rejected failure
  | Sub_unknown

datatype provider_action = Action_running | Action_succeeded | Action_failed failure

record provider_server =
  srv_id :: string
  srv_name :: string
  srv_serverType :: string
  srv_region :: string
  srv_power :: power
  srv_labels :: labels
  srv_ipv4 :: "string option"
  srv_primaryIpId :: "string option"
  srv_backupStatus :: backup_status

datatype ip_assignment = Unassigned | Assigned_server string

record provider_primary_ip =
  ip_id :: string
  ip_name :: string
  ip_region :: string
  ip_ipv4 :: string
  ip_labels :: labels
  ip_autoDelete :: bool
  ip_assignment :: ip_assignment

datatype resource_observation =
    Observed_server provider_server
  | Observed_primary_ip provider_primary_ip
  | Observed_absent resource_ref

datatype effect_resolution =
    Res_pending
  | Res_confirmed resource_observation
  | Res_failed failure
  | Res_operator_closed string
  | Res_control_closed string

datatype attempt_outcome =
    Prepared
  | Accepted resource_ref string
  | Completed resource_ref
  | Rejected failure
  | Unknown

fun outcome_of :: "submission \<Rightarrow> attempt_outcome" where
  "outcome_of (Sub_accepted r a) = Accepted r a"
| "outcome_of (Sub_completed r) = Completed r"
| "outcome_of (Sub_rejected e) = Rejected e"
| "outcome_of Sub_unknown = Unknown"

lemma outcome_of_not_prepared [simp]: "outcome_of s \<noteq> Prepared"
  by (cases s) simp_all

section \<open>Stored operations and machines (lifecycle.ts)\<close>

record operation =
  op_id :: id
  op_accountId :: id
  op_projectId :: id
  op_machineId :: id
  op_grantId :: id
  op_kind :: operation_kind
  op_intent :: operation_intent
  op_progress :: operation_progress
  op_createdAt :: instant

definition isOperationTerminal :: "'a operation_scheme \<Rightarrow> bool" where
  "isOperationTerminal op = progress_terminal (op_progress op)"

record machine =
  mc_id :: id
  mc_accountId :: id
  mc_projectId :: id
  mc_spec :: machine_spec
  mc_provider :: provider_kind
  mc_state :: machine_state
  mc_version :: int
  mc_createdAt :: instant

section \<open>Operator recovery requests (operator-recovery.ts)\<close>

datatype recovery_kind = Close_create bool "string list" | Retry_delete

record operator_recovery =
  rq_id :: string
  rq_accountId :: id
  rq_allocationId :: id
  rq_operationId :: id
  rq_attemptId :: id
  rq_expectedState :: string
  rq_operator :: string
  rq_reference :: string
  rq_sha256 :: string
  rq_kind :: recovery_kind

text \<open>The pattern of \<open>z.uuid()\<close>: version 1 to 8, variant 8, 9, a or b, hexadecimal digits of
  either case, or one of the two reserved values.\<close>

definition is_any_hex :: "char \<Rightarrow> bool" where
  "is_any_hex c \<longleftrightarrow> is_hex c \<or> ((65::nat) \<le> of_char c \<and> of_char c \<le> (70::nat))"

definition zod_uuid :: "string \<Rightarrow> bool" where
  "zod_uuid s \<longleftrightarrow> length s = 36 \<and>
     list_all (\<lambda>i. if i \<in> {8, 13, 18, 23} then s ! i = CHR ''-'' else is_any_hex (s ! i)) [0..<36]
     \<and> (s ! 14 \<in> set ''12345678'' \<and> s ! 19 \<in> set ''89abAB''
        \<or> list_all (\<lambda>c. c = CHR ''0'' \<or> c = CHR ''-'') s
        \<or> list_all (\<lambda>c. c = CHR ''f'' \<or> c = CHR ''-'') s)"

definition sha256_ok :: "string \<Rightarrow> bool" where
  "sha256_ok s \<longleftrightarrow> length s = 64 \<and> list_all is_hex s"

definition operator_ok :: "string \<Rightarrow> bool" where
  "operator_ok s \<longleftrightarrow> s \<noteq> [] \<and> length s \<le> 100 \<and> list_all (\<lambda>c. is_alnum c \<or> c \<in> set ''@._+-'') s"

definition operatorRecovery_ok :: "operator_recovery \<Rightarrow> bool" where
  "operatorRecovery_ok r \<longleftrightarrow> zod_uuid (rq_id r) \<and> id_ok Account_id (rq_accountId r)
     \<and> id_ok Allocation_id (rq_allocationId r) \<and> id_ok Operation_id (rq_operationId r)
     \<and> id_ok Attempt_id (rq_attemptId r) \<and> sha256_ok (rq_expectedState r)
     \<and> operator_ok (rq_operator r) \<and> rq_reference r \<noteq> [] \<and> length (rq_reference r) \<le> 256
     \<and> sha256_ok (rq_sha256 r)
     \<and> (case rq_kind r of
          Close_create finished ids \<Rightarrow> finished \<and> length ids \<le> 1000 \<and> distinct ids
            \<and> list_all (\<lambda>i. i \<noteq> [] \<and> length i \<le> 100) ids
        | Retry_delete \<Rightarrow> True)"

end
