(* ===== verification/Contract_Laws.thy ===== *)
theory Contract_Laws
  imports Contracts
begin

text \<open>
  What the catalog and identifier contracts guarantee: offer selection over a valid catalog, the
  simulator's catalog, and the separation of identifier kinds.
\<close>

section \<open>Properties of the contracts\<close>

text \<open>
  Over a valid catalog an offer is selected exactly when the catalog is fresh and lists an
  available offer of the requested size and region, and the selected offer is that one.
\<close>

theorem selectOffer_correct:
  assumes "catalog_ok c"
  shows "selectOffer c s r now = Inr offer
     \<longleftrightarrow> now < cat_expiresAt c \<and> cat_observedAt c \<le> now + 5000 \<and> offer \<in> set (cat_items c)
         \<and> item_size offer = s \<and> item_region offer = r \<and> available offer"
proof -
  have unique: "y = x" if "x \<in> set (cat_items c)" "y \<in> set (cat_items c)"
      "item_size y = item_size x" "item_region y = item_region x" for x y
    using assms that by (auto simp: catalog_ok_def distinct_map dest: inj_onD)
  have found: "select_one (\<lambda>i. item_size i = s \<and> item_region i = r) (cat_items c) = Some offer
      \<longleftrightarrow> offer \<in> set (cat_items c) \<and> item_size offer = s \<and> item_region offer = r" for offer
    by (auto dest: select_one_SomeD intro!: select_one_unique unique)
  show ?thesis
  proof (cases "select_one (\<lambda>i. item_size i = s \<and> item_region i = r) (cat_items c)")
    case None
    then have "\<not> (offer \<in> set (cat_items c) \<and> item_size offer = s \<and> item_region offer = r)"
      using found [of offer] by simp
    with None show ?thesis by (auto simp: selectOffer_def)
  next
    case (Some x)
    then have "x = offer \<longleftrightarrow> offer \<in> set (cat_items c) \<and> item_size offer = s \<and> item_region offer = r"
      using found [of offer] unfolding Some by simp
    with Some show ?thesis by (auto simp: selectOffer_def)
  qed
qed

lemma simulatedCatalog_ok:
  "simulatedCatalog cur t1 t2 = Some c \<Longrightarrow> catalog_ok c"
  by (auto simp: simulatedCatalog_def Let_def split: if_splits)

theorem selectOffer_correct_witness:
  "\<exists>c. simulatedCatalog ''EUR'' 0 0 = Some c \<and>
     (\<forall>offer. selectOffer c Medium Fsn1 10 = Inr offer \<longleftrightarrow>
        10 < cat_expiresAt c \<and> cat_observedAt c \<le> 10 + 5000 \<and> offer \<in> set (cat_items c)
         \<and> item_size offer = Medium \<and> item_region offer = Fsn1 \<and> available offer)"
proof -
  have "simulatedCatalog ''EUR'' 0 0 \<noteq> None" by code_simp
  then obtain c where "simulatedCatalog ''EUR'' 0 0 = Some c" by blast
  then show ?thesis using selectOffer_correct [OF simulatedCatalog_ok] by blast
qed

text \<open>
  The simulator's catalog is accepted by the catalog schema for every well-formed currency
  whose two clock readings are less than five minutes apart backwards, and then it offers every
  size in every region.
\<close>

theorem simulatedCatalog_complete:
  "(case simulatedCatalog cur t1 t2 of
      None \<Rightarrow> \<not> (currency_ok cur \<and> t1 < t2 + 300000)
    | Some c \<Rightarrow> currency_ok cur \<and> t1 < t2 + 300000 \<and>
        (\<forall>s r. \<exists>offer. offer \<in> set (cat_items c) \<and> item_size offer = s \<and> item_region offer = r
           \<and> available offer \<and> item_currency offer = cur))"
proof -
  have ok: "catalog_ok
     \<lparr>cat_provider = Simulated, cat_currency = cur, pricing = Basis_simulated,
      cat_observedAt = t1, cat_expiresAt = t2 + 300000,
      cat_items = concat (map (\<lambda>t. map (\<lambda>r. simulated_item cur r t) [Nbg1, Fsn1, Hel1])
        [(Small, ''cx23'', 2, 4, 40, 9600), (Medium, ''cx33'', 4, 8, 80, 14400),
         (Large, ''cx43'', 8, 16, 160, 26400)])\<rparr> \<longleftrightarrow> currency_ok cur \<and> t1 < t2 + 300000"
    by (auto simp: catalog_ok_def catalog_item_ok_def simulated_item_def micros_ok_def)
  have every: "\<exists>offer. offer \<in> set (concat (map (\<lambda>t. map (\<lambda>r. simulated_item cur r t) [Nbg1, Fsn1, Hel1])
        [(Small, ''cx23'', 2, 4, 40, 9600), (Medium, ''cx33'', 4, 8, 80, 14400),
         (Large, ''cx43'', 8, 16, 160, 26400)]))
     \<and> item_size offer = s \<and> item_region offer = r \<and> available offer \<and> item_currency offer = cur"
    for s r
    by (cases s; cases r) (simp_all add: simulated_item_def ex_disj_distrib conj_disj_distribR)
  show ?thesis
    unfolding simulatedCatalog_def Let_def ok using every by auto
qed

lemma newId_Some: "newId k u = Some s \<longleftrightarrow> is_uuid u \<and> s = id_prefix k @ u"
  by (auto simp: newId_def Let_def id_ok_def prefixed_uuid_def)

lemma id_ok_length: "id_ok k s \<Longrightarrow> length s = length (id_prefix k) + 36 \<and> take (length (id_prefix k)) s = id_prefix k"
  unfolding id_ok_def prefixed_uuid_def is_uuid_def
  by (metis append_take_drop_id length_append)

lemma id_kinds_differ:
  assumes "id_ok k s" "id_ok k' s"
  shows "k = k'"
proof -
  have "length (id_prefix k) = length (id_prefix k')" and "id_prefix k = id_prefix k'"
    using id_ok_length [OF assms(1)] id_ok_length [OF assms(2)] by auto
  then show ?thesis by (cases k; cases k'; simp)
qed

text \<open>
  An identifier is issued exactly when the generator returned a well-formed UUID, and an
  issued identifier is accepted by the schema of its own kind and by no other: identifiers of
  different kinds cannot be confused.
\<close>

theorem newId_kind_exact:
  "case newId k u of
     None \<Rightarrow> \<not> is_uuid u
   | Some s \<Rightarrow> is_uuid u \<and> s = id_prefix k @ u \<and> (\<forall>k'. id_ok k' s = (k' = k))"
proof (cases "newId k u")
  case None
  then show ?thesis by (simp add: newId_Some [of k u "id_prefix k @ u"] newId_def Let_def
      id_ok_def prefixed_uuid_def split: if_splits)
next
  case (Some s)
  then have ok: "id_ok k s" by (auto simp: newId_def Let_def split: if_splits)
  have "\<forall>k'. id_ok k' s = (k' = k)" using ok id_kinds_differ by blast
  with Some show ?thesis by (simp add: newId_Some [of k u s, THEN iffD1, OF Some])
qed

end
