(* ===== verification/Access_Contracts.thy ===== *)
theory Access_Contracts
  imports Contracts
begin

text \<open>
  \<^verbatim>\<open>packages/contracts/src/access.ts\<close> and the guard of \<^verbatim>\<open>packages/db/migrations/0020_access_sessions.sql\<close>:
  an access session is one SSH key admitted for one machine by one credential. Its request, its
  identity pin and its deadlines never change; its issuance moves from pending over one signing
  attempt to a certificate or a refusal, its connection from unclaimed over one claim to closed.
  Text formats of identifiers, keys, hashes, tickets and the gateway's origin are checked; the
  syntax of IP addresses and CIDR blocks, which zod decides, is not modelled.
\<close>

section \<open>Keys\<close>

text \<open>The six bits of a base64 digit and \<open>Buffer.from(encoded, 'base64')\<close> of the digits before
  the padding.\<close>

definition base64_value :: "char \<Rightarrow> nat" where
  "base64_value c = (if is_upper c then of_char c - 65 else if is_lower c then of_char c - 71
     else if is_digit c then of_char c + 4 else if c = CHR ''+'' then 62 else 63)"

definition is_base64 :: "char \<Rightarrow> bool" where
  "is_base64 c \<longleftrightarrow> is_alnum c \<or> c = CHR ''+'' \<or> c = CHR ''/''"

fun base64_bytes :: "nat list \<Rightarrow> nat list" where
  "base64_bytes (a # b # c # d # rest) =
     (a * 4 + b div 16) # (b mod 16 * 16 + c div 4) # (c mod 4 * 64 + d) # base64_bytes rest"
| "base64_bytes [a, b, c] = [a * 4 + b div 16, b mod 16 * 16 + c div 4]"
| "base64_bytes _ = []"

definition wire_text :: "string \<Rightarrow> nat list" where
  "wire_text s = map of_char s"

definition customerPublicKey_ok :: "string \<Rightarrow> bool" where
  "customerPublicKey_ok s \<longleftrightarrow> take 12 s = ''ssh-ed25519 '' \<and> length s = 80
     \<and> list_all is_base64 (drop 12 s)
     \<and> (let wire = base64_bytes (map base64_value (drop 12 s)) in
          length wire = 51 \<and> take 19 wire = [0, 0, 0, 11] @ wire_text ''ssh-ed25519'' @ [0, 0, 0, 32])"

text \<open>A P-256 key ends in one padding sign; its re-encoding is the same text when the two spare
  bits of the last digit are zero.\<close>

definition accessHostCa_ok :: "string \<Rightarrow> bool" where
  "accessHostCa_ok s \<longleftrightarrow> customerPublicKey_ok s \<or>
     (take 20 s = ''ecdsa-sha2-nistp256 '' \<and> length s = 160 \<and> s ! 159 = CHR ''=''
      \<and> (let digits = take 139 (drop 20 s); wire = base64_bytes (map base64_value digits) in
           list_all is_base64 digits \<and> base64_value (last digits) mod 4 = 0 \<and> length wire = 104
           \<and> take 40 wire = [0, 0, 0, 19] @ wire_text ''ecdsa-sha2-nistp256''
               @ [0, 0, 0, 8] @ wire_text ''nistp256'' @ [0, 0, 0, 65, 4]))"

section \<open>Requests and targets\<close>

record access_request =
  ar_publicKey :: string
  ar_ticketHash :: string

definition accessSessionRequest_ok :: "access_request \<Rightarrow> bool" where
  "accessSessionRequest_ok r \<longleftrightarrow> customerPublicKey_ok (ar_publicKey r) \<and> sha256_ok (ar_ticketHash r)"

record access_gateway =
  gw_id :: string
  gw_origin :: string
  gw_egressCidrs :: "string list"

text \<open>\<open>gatewayOriginSchema\<close>: a scheme, a host name or address literal, and a port. The names and
  texts of the regular expression are \<open>origin_host\<close> and what follows it.\<close>

definition dnsLabel :: "string \<Rightarrow> bool" where
  "dnsLabel s \<longleftrightarrow> s \<noteq> [] \<and> length s \<le> 63 \<and> hd s \<noteq> CHR ''-'' \<and> last s \<noteq> CHR ''-''
     \<and> list_all (\<lambda>c. is_lower c \<or> is_digit c \<or> c = CHR ''-'') s"

fun dot_labels :: "string \<Rightarrow> string list" where
  "dot_labels [] = [[]]"
| "dot_labels (c # s) = (if c = CHR ''.'' then [] # dot_labels s
     else (c # hd (dot_labels s)) # tl (dot_labels s))"

definition decimal_text :: "string \<Rightarrow> nat" where
  "decimal_text s = foldl (\<lambda>n c. n * 10 + (of_char c - 48)) 0 s"

definition origin_host :: "string \<Rightarrow> string" where
  "origin_host s = (if take 1 s = ''[''
     then take (length (takeWhile (\<lambda>c. is_hex c \<or> c = CHR '':'' \<or> c = CHR ''.'') (tl s)) + 2) s
     else takeWhile (\<lambda>c. is_lower c \<or> is_digit c \<or> c = CHR ''.'' \<or> c = CHR ''-'') s)"

definition origin_port_ok :: "string \<Rightarrow> bool" where
  "origin_port_ok s \<longleftrightarrow> s = [] \<or> (hd s = CHR '':'' \<and> tl s \<noteq> [] \<and> length (tl s) \<le> 5
     \<and> list_all is_digit (tl s) \<and> hd (tl s) \<noteq> CHR ''0'' \<and> decimal_text (tl s) \<le> 65535)"

definition origin_host_ok :: "bool \<Rightarrow> string \<Rightarrow> bool" where
  "origin_host_ok plain h \<longleftrightarrow> h \<noteq> []
     \<and> (plain \<longrightarrow> h \<in> {''localhost'', ''127.0.0.1'', ''[::1]''})
     \<and> (if hd h = CHR ''['' then 3 \<le> length h \<and> last h = CHR '']''
        else list_all (\<lambda>c. is_digit c \<or> c = CHR ''.'') h
          \<or> (length h \<le> 253 \<and> list_all dnsLabel (dot_labels h)))"

definition gatewayOrigin_ok :: "string \<Rightarrow> bool" where
  "gatewayOrigin_ok s \<longleftrightarrow> length s \<le> 2048
     \<and> (let plain = (take 5 s = ''ws://''); rest = drop (if plain then 5 else 6) s; h = origin_host rest in
          (plain \<or> take 6 s = ''wss://'') \<and> origin_host_ok plain h
          \<and> origin_port_ok (drop (length h) rest))"

definition accessGateway_ok :: "access_gateway \<Rightarrow> bool" where
  "accessGateway_ok g \<longleftrightarrow> gw_id g \<noteq> [] \<and> length (gw_id g) \<le> 63 \<and> hd (gw_id g) \<noteq> CHR ''-''
     \<and> list_all (\<lambda>c. is_lower c \<or> is_digit c \<or> c = CHR ''-'') (gw_id g)
     \<and> gatewayOrigin_ok (gw_origin g)
     \<and> gw_egressCidrs g \<noteq> [] \<and> length (gw_egressCidrs g) \<le> 16 \<and> distinct (gw_egressCidrs g)
     \<and> list_all (\<lambda>b. take 2 (rev b) \<noteq> ''0/'') (gw_egressCidrs g)"

record identity_pin =
  pin_provider :: provider_kind
  pin_serverId :: string
  pin_primaryIpId :: string
  pin_hostAlias :: string
  pin_sshHostCa :: string
  pin_guestHostPublicKey :: string
  pin_imageManifestDigest :: string

text \<open>\<open>`${allocationId.replace('alloc_', 'alloc-')}.guest.agent-cloud.internal`\<close>; the prefix is
  the one occurrence in an allocation identifier.\<close>

definition guest_domain :: string where
  "guest_domain = ''.guest.agent-cloud.internal''"

definition hostAlias :: "id \<Rightarrow> string" where
  "hostAlias allocation = (if take 6 allocation = ''alloc_'' then ''alloc-'' @ drop 6 allocation
     else allocation) @ guest_domain"

definition accessIdentityPin_ok :: "identity_pin \<Rightarrow> bool" where
  "accessIdentityPin_ok p \<longleftrightarrow> pin_serverId p \<noteq> [] \<and> length (pin_serverId p) \<le> 128
     \<and> pin_primaryIpId p \<noteq> [] \<and> length (pin_primaryIpId p) \<le> 128
     \<and> take 6 (pin_hostAlias p) = ''alloc-'' \<and> is_uuid (take 36 (drop 6 (pin_hostAlias p)))
     \<and> drop 42 (pin_hostAlias p) = guest_domain
     \<and> accessHostCa_ok (pin_sshHostCa p) \<and> customerPublicKey_ok (pin_guestHostPublicKey p)
     \<and> sha256_ok (pin_imageManifestDigest p)"

text \<open>The port of a target is the literal 22.\<close>

record owned_target = identity_pin +
  tg_address :: string

section \<open>Sessions\<close>

datatype unavailable_reason = Un_signing_unknown | Un_signing_failed | Un_provider_rejected
  | Un_authorization_changed | Un_target_changed | Un_deadline_exceeded

record issued_credential =
  is_certificate :: string
  is_issuedAt :: instant
  is_ticketDeadline :: instant
  is_certificateExpiresAt :: instant
  is_target :: owned_target

datatype access_issuance =
    Iss_pending
  | Iss_attempted instant
  | Iss_issued issued_credential
  | Iss_unavailable unavailable_reason

datatype close_reason = Client_closed | Target_closed | Authorization_changed | Target_changed
  | Expired | Gateway_unavailable | Transport_failed | Limit_exceeded

text \<open>A claim names the gateway instance and its connection; a closed connection retains it.\<close>

datatype access_claim = Unclaimed | Claimed string string instant
datatype access_connection = Open_connection access_claim | Closed_connection access_claim close_reason instant

record session_row =
  as_id :: id
  as_accountId :: id
  as_projectId :: id
  as_grantId :: id
  as_machineId :: id
  as_allocationId :: id
  as_machineVersion :: int
  as_requestKey :: string
  as_fingerprint :: string
  as_publicKey :: string
  as_ticketHash :: string
  as_identityPin :: identity_pin
  as_gateway :: access_gateway
  as_admittedAt :: instant
  as_issueDeadline :: instant
  as_hardDeadline :: instant
  as_issuance :: access_issuance
  as_connection :: access_connection

fun claim_of :: "access_connection \<Rightarrow> access_claim" where
  "claim_of (Open_connection c) = c"
| "claim_of (Closed_connection c r t) = c"

definition issue_limit :: "session_row \<Rightarrow> instant" where
  "issue_limit s = min (as_issueDeadline s) (as_hardDeadline s)"

text \<open>The refinements of \<open>accessSessionRecordSchema\<close> (its \<open>superRefine\<close>), in its order, and the
  positive version.\<close>

definition deadlines_ok :: "session_row \<Rightarrow> bool" where
  "deadlines_ok s \<longleftrightarrow> as_admittedAt s < as_issueDeadline s
     \<and> as_issueDeadline s \<le> as_admittedAt s + 90000
     \<and> as_admittedAt s < as_hardDeadline s \<and> as_hardDeadline s \<le> as_admittedAt s + 3600000"

definition credential_ok :: "session_row \<Rightarrow> issued_credential \<Rightarrow> bool" where
  "credential_ok s c \<longleftrightarrow> as_admittedAt s \<le> is_issuedAt c \<and> is_issuedAt c < issue_limit s
     \<and> is_issuedAt c < is_ticketDeadline c
     \<and> is_ticketDeadline c \<le> min (is_issuedAt c + 60000) (issue_limit s)
     \<and> is_issuedAt c < is_certificateExpiresAt c
     \<and> is_certificateExpiresAt c \<le> min (is_issuedAt c + 300000) (as_hardDeadline s)
     \<and> identity_pin.truncate (is_target c) = as_identityPin s"

definition issuance_ok :: "session_row \<Rightarrow> bool" where
  "issuance_ok s = (case as_issuance s of
      Iss_attempted t \<Rightarrow> as_admittedAt s \<le> t \<and> t < issue_limit s
    | Iss_issued c \<Rightarrow> credential_ok s c
    | _ \<Rightarrow> True)"

definition claim_ok :: "session_row \<Rightarrow> bool" where
  "claim_ok s = (case claim_of (as_connection s) of
      Unclaimed \<Rightarrow> True
    | Claimed gateway connection t \<Rightarrow> (case as_issuance s of
          Iss_issued c \<Rightarrow> is_issuedAt c \<le> t \<and> t < min (is_ticketDeadline c) (as_hardDeadline s)
        | _ \<Rightarrow> False))"

definition closure_ok :: "session_row \<Rightarrow> bool" where
  "closure_ok s = (case as_connection s of
      Closed_connection (Claimed gateway connection t) r ended \<Rightarrow> t \<le> ended
    | Closed_connection Unclaimed r ended \<Rightarrow> as_admittedAt s \<le> ended
    | Open_connection c \<Rightarrow> True)"

definition accessSession_refined :: "session_row \<Rightarrow> bool" where
  "accessSession_refined s \<longleftrightarrow> 0 < as_machineVersion s \<and> deadlines_ok s
     \<and> pin_hostAlias (as_identityPin s) = hostAlias (as_allocationId s)
     \<and> issuance_ok s \<and> claim_ok s \<and> closure_ok s"

lemmas accessSession_defs = accessSession_refined_def deadlines_ok_def issuance_ok_def claim_ok_def
  closure_ok_def credential_ok_def

text \<open>Public replies omit the lookup hashes.\<close>

record session_view =
  sv_id :: id
  sv_accountId :: id
  sv_projectId :: id
  sv_grantId :: id
  sv_machineId :: id
  sv_allocationId :: id
  sv_machineVersion :: int
  sv_requestKey :: string
  sv_publicKey :: string
  sv_identityPin :: identity_pin
  sv_gateway :: access_gateway
  sv_admittedAt :: instant
  sv_issueDeadline :: instant
  sv_hardDeadline :: instant
  sv_issuance :: access_issuance
  sv_connection :: access_connection

section \<open>The gateway's side\<close>

record gateway_claim =
  gc_ticket :: string
  gc_gatewayInstanceId :: string
  gc_connectionId :: string

record gateway_connection =
  gn_gatewayInstanceId :: string
  gn_connectionId :: string
  gn_sessionId :: id

definition accessTicket_ok :: "string \<Rightarrow> bool" where
  "accessTicket_ok s \<longleftrightarrow> length s = 48 \<and> take 5 s = ''aclt_'' \<and> list_all is_token_char (drop 5 s)"

text \<open>\<open>z.uuidv4()\<close>; \<open>stored_uuidv4\<close> is the lower-case form the database insists on.\<close>

definition uuidv4 :: "string \<Rightarrow> bool" where
  "uuidv4 s \<longleftrightarrow> length s = 36 \<and>
     list_all (\<lambda>i. if i \<in> {8, 13, 18, 23} then s ! i = CHR ''-'' else is_any_hex (s ! i)) [0..<36]
     \<and> s ! 14 = CHR ''4'' \<and> s ! 19 \<in> set ''89abAB''"

definition stored_uuidv4 :: "string \<Rightarrow> bool" where
  "stored_uuidv4 s \<longleftrightarrow> is_uuid s \<and> s ! 14 = CHR ''4'' \<and> s ! 19 \<in> set ''89ab''"

text \<open>The object of \<open>accessSessionRecordSchema\<close>, field by field, and the whole schema. The trimming
  of the request key is part of its alphabet, and the version, an \<open>integer\<close> column, is a safe
  integer. A claim's identifiers are asked for in the lower case
  into which the schema turns them: the trigger of the table stores no others.\<close>

definition owner_ids_ok :: "session_row \<Rightarrow> bool" where
  "owner_ids_ok s \<longleftrightarrow> id_ok Account_id (as_accountId s) \<and> id_ok Project_id (as_projectId s)
     \<and> id_ok Grant_id (as_grantId s) \<and> id_ok Machine_id (as_machineId s)
     \<and> id_ok Allocation_id (as_allocationId s)"

fun issuance_shape :: "access_issuance \<Rightarrow> bool" where
  "issuance_shape (Iss_issued c) \<longleftrightarrow> is_certificate c \<noteq> [] \<and> length (is_certificate c) \<le> 16384
     \<and> accessIdentityPin_ok (identity_pin.truncate (is_target c))"
| "issuance_shape _ = True"

fun claim_shape :: "access_claim \<Rightarrow> bool" where
  "claim_shape (Claimed gateway connection t) \<longleftrightarrow> stored_uuidv4 gateway \<and> stored_uuidv4 connection"
| "claim_shape Unclaimed = True"

definition accessSession_shape :: "session_row \<Rightarrow> bool" where
  "accessSession_shape s \<longleftrightarrow> id_ok Access_session_id (as_id s) \<and> owner_ids_ok s
     \<and> 0 < as_machineVersion s \<and> idempotency_key_ok (as_requestKey s)
     \<and> sha256_ok (as_fingerprint s) \<and> customerPublicKey_ok (as_publicKey s)
     \<and> sha256_ok (as_ticketHash s) \<and> accessIdentityPin_ok (as_identityPin s)
     \<and> accessGateway_ok (as_gateway s) \<and> issuance_shape (as_issuance s)
     \<and> claim_shape (claim_of (as_connection s))"

definition accessSession_ok :: "session_row \<Rightarrow> bool" where
  "accessSession_ok s \<longleftrightarrow> accessSession_shape s \<and> accessSession_refined s"

definition gatewayClaim_ok :: "gateway_claim \<Rightarrow> bool" where
  "gatewayClaim_ok c \<longleftrightarrow> accessTicket_ok (gc_ticket c) \<and> uuidv4 (gc_gatewayInstanceId c)
     \<and> uuidv4 (gc_connectionId c)"

definition gatewayConnection_ok :: "gateway_connection \<Rightarrow> bool" where
  "gatewayConnection_ok c \<longleftrightarrow> uuidv4 (gn_gatewayInstanceId c) \<and> uuidv4 (gn_connectionId c)
     \<and> id_ok Access_session_id (gn_sessionId c)"

definition gatewayCheck_ok :: "gateway_connection list \<Rightarrow> bool" where
  "gatewayCheck_ok cs \<longleftrightarrow> cs \<noteq> [] \<and> length cs \<le> 100 \<and> list_all gatewayConnection_ok cs"

record gateway_lease =
  ls_sessionId :: id
  ls_connectionId :: string
  ls_remainingMs :: int
  ls_target :: owned_target

definition gatewayLease_ok :: "gateway_lease \<Rightarrow> bool" where
  "gatewayLease_ok l \<longleftrightarrow> 0 < ls_remainingMs l \<and> ls_remainingMs l \<le> 3600000"

record access_config =
  ac_gateway :: access_gateway
  ac_tokenHash :: string

section \<open>The guard of the table (0020)\<close>

text \<open>\<open>guard_access_session\<close>: what an inserted row must look like, what the two states of any
  row must look like at the time of the write, and which moves an update may make.\<close>

definition guard_admission :: "instant \<Rightarrow> session_row \<Rightarrow> bool" where
  "guard_admission clock new \<longleftrightarrow> as_issuance new = Iss_pending
     \<and> as_connection new = Open_connection Unclaimed \<and> as_admittedAt new \<le> clock
     \<and> id_ok Access_session_id (as_id new) \<and> idempotency_key_ok (as_requestKey new)
     \<and> sha256_ok (as_ticketHash new) \<and> sha256_ok (as_fingerprint new)
     \<and> customerPublicKey_ok (as_publicKey new)
     \<and> (let p = as_identityPin new in
          pin_serverId p \<noteq> [] \<and> length (pin_serverId p) \<le> 128
          \<and> pin_primaryIpId p \<noteq> [] \<and> length (pin_primaryIpId p) \<le> 128
          \<and> pin_hostAlias p = hostAlias (as_allocationId new) \<and> accessHostCa_ok (pin_sshHostCa p)
          \<and> customerPublicKey_ok (pin_guestHostPublicKey p) \<and> sha256_ok (pin_imageManifestDigest p))
     \<and> accessGateway_ok (as_gateway new)"

definition guard_issuance :: "instant \<Rightarrow> session_row \<Rightarrow> bool" where
  "guard_issuance clock new = (case as_issuance new of
      Iss_attempted t \<Rightarrow> as_admittedAt new \<le> t \<and> t < issue_limit new \<and> t \<le> clock
    | Iss_issued c \<Rightarrow>
        is_certificate c \<noteq> [] \<and> length (is_certificate c) \<le> 16384
        \<and> identity_pin.truncate (is_target c) = as_identityPin new
        \<and> as_admittedAt new \<le> is_issuedAt c \<and> is_issuedAt c < issue_limit new \<and> is_issuedAt c \<le> clock
        \<and> is_issuedAt c < is_ticketDeadline c
        \<and> is_ticketDeadline c \<le> min (is_issuedAt c + 60000) (issue_limit new)
        \<and> is_issuedAt c < is_certificateExpiresAt c
        \<and> is_certificateExpiresAt c \<le> min (is_issuedAt c + 300000) (as_hardDeadline new)
    | _ \<Rightarrow> True)"

fun signing_outcome :: "access_issuance \<Rightarrow> bool" where
  "signing_outcome (Iss_unavailable r) \<longleftrightarrow> r = Un_signing_unknown \<or> r = Un_signing_failed"
| "signing_outcome _ = False"

fun issuance_move :: "access_issuance \<Rightarrow> access_issuance \<Rightarrow> bool" where
  "issuance_move Iss_pending (Iss_attempted t) = True"
| "issuance_move Iss_pending (Iss_unavailable r) = (\<not> signing_outcome (Iss_unavailable r))"
| "issuance_move (Iss_attempted t) (Iss_issued c) = (t \<le> is_issuedAt c)"
| "issuance_move (Iss_attempted t) (Iss_unavailable r) = True"
| "issuance_move _ _ = False"

definition guard_issuance_move :: "instant \<Rightarrow> session_row \<Rightarrow> session_row \<Rightarrow> bool" where
  "guard_issuance_move clock old new \<longleftrightarrow> as_issuance new = as_issuance old
     \<or> issuance_move (as_issuance old) (as_issuance new)
       \<and> (case as_issuance new of
            Iss_attempted t \<Rightarrow> as_connection new = Open_connection Unclaimed
              \<and> as_connection old = as_connection new \<and> clock < issue_limit new
          | Iss_issued c \<Rightarrow> as_connection new = Open_connection Unclaimed
              \<and> as_connection old = as_connection new \<and> clock < issue_limit new
              \<and> clock < min (is_ticketDeadline c) (is_certificateExpiresAt c)
          | _ \<Rightarrow> True)"

definition guard_connection :: "instant \<Rightarrow> session_row \<Rightarrow> bool" where
  "guard_connection clock new \<longleftrightarrow>
     (case as_connection new of
        Closed_connection c r t \<Rightarrow> as_admittedAt new \<le> t \<and> t \<le> clock
      | Open_connection c \<Rightarrow> True)
     \<and> (case claim_of (as_connection new) of
          Unclaimed \<Rightarrow> True
        | Claimed gateway connection t \<Rightarrow> stored_uuidv4 gateway \<and> stored_uuidv4 connection
            \<and> (case as_issuance new of
                 Iss_issued c \<Rightarrow> is_issuedAt c \<le> t
                   \<and> t < min (is_ticketDeadline c) (as_hardDeadline new) \<and> t \<le> clock
               | _ \<Rightarrow> False)
            \<and> (case as_connection new of Closed_connection p r ended \<Rightarrow> t \<le> ended
               | Open_connection p \<Rightarrow> True))"

definition guard_connection_move :: "instant \<Rightarrow> session_row \<Rightarrow> session_row \<Rightarrow> bool" where
  "guard_connection_move clock old new \<longleftrightarrow> as_connection new = as_connection old
     \<or> (case (as_connection old, as_connection new) of
          (Open_connection Unclaimed, Open_connection (Claimed gateway connection t)) \<Rightarrow>
            (case as_issuance old of
               Iss_issued c \<Rightarrow> as_issuance new = as_issuance old
                 \<and> clock < min (is_ticketDeadline c) (as_hardDeadline new)
             | _ \<Rightarrow> False)
        | (Open_connection c, Closed_connection previous r t) \<Rightarrow> previous = c
        | _ \<Rightarrow> False)"

definition guard_access_insert :: "instant \<Rightarrow> session_row \<Rightarrow> bool" where
  "guard_access_insert clock new \<longleftrightarrow> guard_admission clock new \<and> guard_issuance clock new
     \<and> guard_connection clock new"

definition guard_access_update :: "instant \<Rightarrow> session_row \<Rightarrow> session_row \<Rightarrow> bool" where
  "guard_access_update clock old new \<longleftrightarrow>
     new\<lparr>as_issuance := as_issuance old, as_connection := as_connection old\<rparr> = old
     \<and> guard_issuance clock new \<and> guard_issuance_move clock old new
     \<and> guard_connection clock new \<and> guard_connection_move clock old new"

text \<open>\<open>record_access_signing_attempt\<close>: the receipt a recorded attempt leaves.\<close>

definition signing_receipt :: "session_row \<times> session_row \<Rightarrow> (id \<times> instant) option" where
  "signing_receipt p = (case (as_issuance (fst p), as_issuance (snd p)) of
      (Iss_pending, Iss_attempted t) \<Rightarrow> Some (as_id (snd p), t)
    | _ \<Rightarrow> None)"

end
