(* ===== verification/Database.thy ===== *)
theory Database
  imports Access_Contracts
begin

text \<open>
  The PostgreSQL schema the control plane runs on: the row types of
  \<^verbatim>\<open>packages/db/src/schema.ts\<close> (tables of the machine lifecycle), the uniqueness, foreign key
  and check constraints, and the triggers of \<^verbatim>\<open>packages/db/migrations\<close> (0001, 0018, 0019, 0026,
  0027). A table is the list of its rows in insertion order. A write is a \<open>statement\<close>;
  \<open>apply_stmt\<close> gives the database after it, or \<open>None\<close> when a constraint or a trigger rejects it.
  Updates are an arbitrary \<open>WHERE\<close> predicate and \<open>SET\<close> function: what the triggers guarantee
  is proved for every update, not only for those the program issues.
\<close>

section \<open>Rows\<close>

record account_row =
  acc_id :: id
  acc_name :: string
  acc_maxMachines :: int
  acc_currency :: currency
  acc_maxHourlyMicros :: micros
  acc_createdAt :: instant

record project_row =
  prj_id :: id
  prj_accountId :: id
  prj_name :: string
  prj_createdAt :: instant

record grant_row =
  gr_id :: id
  gr_accountId :: id
  gr_parentId :: "id option"
  gr_name :: string
  gr_tokenHash :: string
  gr_policy :: grant_policy
  gr_expiresAt :: instant
  gr_revokedAt :: "instant option"
  gr_createdAt :: instant

record machine_row = machine +
  mc_name :: string

record allocation_row =
  al_id :: id
  al_accountId :: id
  al_machineId :: id
  al_provider :: provider_kind
  al_serverId :: "string option"
  al_networkProfile :: network_profile
  al_currency :: currency
  al_hourlyMicros :: micros
  al_offer :: "catalog_item option"
  al_retiredAt :: "instant option"
  al_createdAt :: instant

datatype reservation_kind = Admitted | Changed | Released | Baseline

record reservation_row =
  rv_id :: nat
  rv_accountId :: id
  rv_machineId :: id
  rv_allocationId :: id
  rv_kind :: reservation_kind
  rv_hourlyMicros :: micros
  rv_currency :: currency
  rv_occurredAt :: instant

record operation_row = operation +
  op_command :: lifecycle_command
  op_offer :: "catalog_item option"

record cleanup_row =
  cu_operationId :: id
  cu_accountId :: id
  cu_allocationId :: id
  cu_sourceOperationId :: id
  cu_grantId :: id
  cu_expectedVersion :: int
  cu_createdAt :: instant

record attempt_row =
  at_id :: id
  at_accountId :: id
  at_operationId :: id
  at_sequence :: int
  at_command :: provider_command
  at_outcome :: attempt_outcome
  at_resolution :: effect_resolution
  at_createdAt :: instant

record recovery_row =
  rec_id :: string
  rec_operationId :: id
  rec_attemptId :: id
  rec_request :: operator_recovery
  rec_createdAt :: instant

record idempotency_row =
  ik_accountId :: id
  ik_scope :: string
  ik_key :: string
  ik_requestHash :: string
  ik_operationId :: id

datatype audit_event =
    Grant_revoked id
  | Operation_admitted id id operation_kind
  | Cleanup_admitted id id id int
  | Operation_progressed operation_progress
  | Effect_resolved id effect_resolution
  | Operation_failed failure bool
  | Operation_succeeded id string
  | Absence_confirmed resource_ref
  | Cleanup_completed id id
  | Operator_recovered string id

record audit_row =
  au_accountId :: id
  au_subjectId :: id
  au_event :: audit_event

record resource_row =
  pr_provider :: provider_kind
  pr_kind :: resource_kind
  pr_providerId :: string
  pr_accountId :: id
  pr_allocationId :: id
  pr_labels :: labels
  pr_absentAt :: "instant option"
  pr_createdAt :: instant

text \<open>What the modelled components read of the guest provisioning and of the restores: the boot
  specification of an allocation, its claimed or issued identity, and whether the restore into a
  machine has been verified.\<close>

record bootstrap_image =
  gm_manifestDigest :: string
  gm_sshHostCa :: string
  gm_customerSsh :: bool

record bootstrap_spec =
  bs_accountId :: id
  bs_machineId :: id
  bs_allocationId :: id
  bs_operationId :: id
  bs_image :: bootstrap_image

record bootstrap_row =
  gb_allocationId :: id
  gb_spec :: bootstrap_spec

record guest_identity_row =
  gid_allocationId :: id
  gid_issued :: bool
  gid_sshHostPublicKey :: string

record restore_row =
  rs_machineId :: id
  rs_restored :: bool

text \<open>The guest tables, the restores and \<open>control_closures\<close>, the pairs (recovery, operation) of the
  fenced control recovery, are read here and written by components outside this model. \<open>jobs\<close> are
  the keys of the queued \<open>advance_operation\<close> jobs, \<open>access_jobs\<close> those of the queued
  \<open>issue_access_session\<close> jobs.\<close>

record db =
  accounts :: "account_row list"
  projects :: "project_row list"
  grants :: "grant_row list"
  machines :: "machine_row list"
  allocations :: "allocation_row list"
  reservations :: "reservation_row list"
  sessions :: "session_row list"
  signing_receipts :: "(id \<times> instant) list"
  operations :: "operation_row list"
  cleanups :: "cleanup_row list"
  attempts :: "attempt_row list"
  recoveries :: "recovery_row list"
  idempotency :: "idempotency_row list"
  audit_events :: "audit_row list"
  resources :: "resource_row list"
  guest_bootstraps :: "bootstrap_row list"
  guest_identities :: "guest_identity_row list"
  restores :: "restore_row list"
  control_closures :: "(string \<times> id) list"
  jobs :: "id list"
  access_jobs :: "id list"

text \<open>The allocations whose guest identity is issued.\<close>

definition issued_identities :: "db \<Rightarrow> id list" where
  "issued_identities d = map gid_allocationId (filter gid_issued (guest_identities d))"

definition operationRecord :: "operation_row \<Rightarrow> operation" where
  "operationRecord row = operation.truncate row"

definition machineRecord :: "machine_row \<Rightarrow> machine" where
  "machineRecord row = machine.truncate row"

section \<open>Constraints\<close>

definition unique_by :: "('a \<Rightarrow> 'k) \<Rightarrow> 'a list \<Rightarrow> bool" where
  "unique_by f xs = distinct (map f xs)"

definition references :: "('a \<Rightarrow> 'k) \<Rightarrow> 'a list \<Rightarrow> ('b \<Rightarrow> 'k) \<Rightarrow> 'b list \<Rightarrow> bool" where
  "references f xs g ys = list_all (\<lambda>x. list_ex (\<lambda>y. g y = f x) ys) xs"

definition live :: "allocation_row \<Rightarrow> bool" where
  "live a \<longleftrightarrow> al_retiredAt a = None"

definition int4 :: "int \<Rightarrow> bool" where
  "int4 n \<longleftrightarrow> -2147483648 \<le> n \<and> n \<le> 2147483647"

definition accounts_ok :: "db \<Rightarrow> bool" where
  "accounts_ok d \<longleftrightarrow> unique_by acc_id (accounts d)
     \<and> list_all (\<lambda>a. 0 \<le> acc_maxMachines a \<and> 0 \<le> acc_maxHourlyMicros a
         \<and> currency_ok (acc_currency a)) (accounts d)"

definition projects_ok :: "db \<Rightarrow> bool" where
  "projects_ok d \<longleftrightarrow> unique_by prj_id (projects d)
     \<and> unique_by (\<lambda>p. (prj_accountId p, prj_name p)) (projects d)
     \<and> references prj_accountId (projects d) acc_id (accounts d)"

definition grants_ok :: "db \<Rightarrow> bool" where
  "grants_ok d \<longleftrightarrow> unique_by gr_id (grants d) \<and> unique_by gr_tokenHash (grants d)
     \<and> references gr_accountId (grants d) acc_id (accounts d)
     \<and> references (\<lambda>g. (gr_accountId g, the (gr_parentId g)))
         (filter (\<lambda>g. gr_parentId g \<noteq> None) (grants d)) (\<lambda>g. (gr_accountId g, gr_id g)) (grants d)"

definition machines_ok :: "db \<Rightarrow> bool" where
  "machines_ok d \<longleftrightarrow> unique_by mc_id (machines d)
     \<and> references (\<lambda>m. (mc_accountId m, mc_projectId m)) (machines d)
         (\<lambda>p. (prj_accountId p, prj_id p)) (projects d)
     \<and> unique_by (\<lambda>m. (mc_projectId m, mc_name m))
         (filter (\<lambda>m. \<not> state_destroyed (mc_state m)) (machines d))
     \<and> list_all (\<lambda>m. 0 < mc_version m \<and> int4 (mc_version m)) (machines d)"

definition allocations_ok :: "db \<Rightarrow> bool" where
  "allocations_ok d \<longleftrightarrow> unique_by al_id (allocations d)
     \<and> references (\<lambda>a. (al_accountId a, al_machineId a)) (allocations d)
         (\<lambda>m. (mc_accountId m, mc_id m)) (machines d)
     \<and> references (\<lambda>a. (al_accountId a, al_currency a)) (allocations d)
         (\<lambda>a. (acc_id a, acc_currency a)) (accounts d)
     \<and> unique_by al_machineId (filter live (allocations d))
     \<and> unique_by (\<lambda>a. (al_provider a, al_serverId a))
         (filter (\<lambda>a. al_serverId a \<noteq> None) (allocations d))
     \<and> list_all (\<lambda>a. 0 \<le> al_hourlyMicros a \<and> int4 (al_hourlyMicros a)) (allocations d)"

definition reservations_ok :: "db \<Rightarrow> bool" where
  "reservations_ok d \<longleftrightarrow> unique_by rv_id (reservations d)
     \<and> references (\<lambda>r. (rv_accountId r, rv_machineId r, rv_allocationId r)) (reservations d)
         (\<lambda>a. (al_accountId a, al_machineId a, al_id a)) (allocations d)
     \<and> list_all (\<lambda>r. 0 \<le> rv_hourlyMicros r \<and> (rv_kind r \<noteq> Released \<or> rv_hourlyMicros r = 0))
         (reservations d)"

definition operations_ok :: "db \<Rightarrow> bool" where
  "operations_ok d \<longleftrightarrow> unique_by op_id (operations d)
     \<and> references (\<lambda>p. (op_accountId p, op_projectId p, op_machineId p)) (operations d)
         (\<lambda>m. (mc_accountId m, mc_projectId m, mc_id m)) (machines d)
     \<and> references (\<lambda>p. (op_accountId p, op_grantId p)) (operations d)
         (\<lambda>g. (gr_accountId g, gr_id g)) (grants d)
     \<and> unique_by op_machineId (filter (\<lambda>p. \<not> isOperationTerminal p) (operations d))"

definition cleanups_ok :: "db \<Rightarrow> bool" where
  "cleanups_ok d \<longleftrightarrow> unique_by cu_operationId (cleanups d)
     \<and> references (\<lambda>c. (cu_accountId c, cu_operationId c)) (cleanups d)
         (\<lambda>p. (op_accountId p, op_id p)) (operations d)
     \<and> references (\<lambda>c. (cu_accountId c, cu_sourceOperationId c)) (cleanups d)
         (\<lambda>p. (op_accountId p, op_id p)) (operations d)
     \<and> references (\<lambda>c. (cu_accountId c, cu_allocationId c)) (cleanups d)
         (\<lambda>a. (al_accountId a, al_id a)) (allocations d)
     \<and> references (\<lambda>c. (cu_accountId c, cu_grantId c)) (cleanups d)
         (\<lambda>g. (gr_accountId g, gr_id g)) (grants d)
     \<and> list_all (\<lambda>c. 0 < cu_expectedVersion c) (cleanups d)"

definition attempts_ok :: "db \<Rightarrow> bool" where
  "attempts_ok d \<longleftrightarrow> unique_by at_id (attempts d)
     \<and> unique_by (\<lambda>a. (at_operationId a, at_sequence a)) (attempts d)
     \<and> references (\<lambda>a. (at_accountId a, at_operationId a)) (attempts d)
         (\<lambda>p. (op_accountId p, op_id p)) (operations d)"

definition recoveries_ok :: "db \<Rightarrow> bool" where
  "recoveries_ok d \<longleftrightarrow> unique_by rec_id (recoveries d) \<and> unique_by rec_attemptId (recoveries d)
     \<and> references rec_operationId (recoveries d) cu_operationId (cleanups d)
     \<and> references rec_attemptId (recoveries d) at_id (attempts d)"

definition idempotency_ok :: "db \<Rightarrow> bool" where
  "idempotency_ok d \<longleftrightarrow> unique_by (\<lambda>k. (ik_accountId k, ik_scope k, ik_key k)) (idempotency d)
     \<and> references (\<lambda>k. (ik_accountId k, ik_operationId k)) (idempotency d)
         (\<lambda>p. (op_accountId p, op_id p)) (operations d)"

definition audit_ok :: "db \<Rightarrow> bool" where
  "audit_ok d = references au_accountId (audit_events d) acc_id (accounts d)"

definition resources_ok :: "db \<Rightarrow> bool" where
  "resources_ok d \<longleftrightarrow> unique_by (\<lambda>r. (pr_provider r, pr_kind r, pr_providerId r)) (resources d)
     \<and> references (\<lambda>r. (pr_accountId r, pr_allocationId r)) (resources d)
         (\<lambda>a. (al_accountId a, al_id a)) (allocations d)"

text \<open>The unique index over the claims; sessions without a claim have no entry.\<close>

definition claim_key :: "session_row \<Rightarrow> (string \<times> string \<times> string) option" where
  "claim_key s = (case claim_of (as_connection s) of
      Unclaimed \<Rightarrow> None | Claimed g c t \<Rightarrow> Some (gw_id (as_gateway s), g, c))"

definition sessions_ok :: "db \<Rightarrow> bool" where
  "sessions_ok d \<longleftrightarrow> unique_by as_id (sessions d) \<and> unique_by as_ticketHash (sessions d)
     \<and> unique_by (\<lambda>s. (as_accountId s, as_grantId s, as_requestKey s)) (sessions d)
     \<and> distinct (List.map_filter claim_key (sessions d))
     \<and> references (\<lambda>s. (as_accountId s, as_projectId s, as_machineId s)) (sessions d)
         (\<lambda>m. (mc_accountId m, mc_projectId m, mc_id m)) (machines d)
     \<and> references (\<lambda>s. (as_accountId s, as_machineId s, as_allocationId s)) (sessions d)
         (\<lambda>a. (al_accountId a, al_machineId a, al_id a)) (allocations d)
     \<and> references (\<lambda>s. (as_accountId s, as_grantId s)) (sessions d)
         (\<lambda>g. (gr_accountId g, gr_id g)) (grants d)
     \<and> list_all (\<lambda>s. 0 < as_machineVersion s \<and> deadlines_ok s) (sessions d)
     \<and> unique_by fst (signing_receipts d) \<and> references fst (signing_receipts d) as_id (sessions d)"

definition schema_ok :: "db \<Rightarrow> bool" where
  "schema_ok d \<longleftrightarrow> accounts_ok d \<and> projects_ok d \<and> grants_ok d \<and> machines_ok d \<and> allocations_ok d
     \<and> reservations_ok d \<and> sessions_ok d \<and> operations_ok d \<and> cleanups_ok d \<and> attempts_ok d
     \<and> recoveries_ok d \<and> idempotency_ok d \<and> audit_ok d \<and> resources_ok d"

section \<open>Triggers\<close>

text \<open>Small lookups the trigger functions share.\<close>

definition operation_in :: "db \<Rightarrow> id \<Rightarrow> operation_row option" where
  "operation_in d i = select_one (\<lambda>p. op_id p = i) (operations d)"

definition cleanup_in :: "db \<Rightarrow> id \<Rightarrow> cleanup_row option" where
  "cleanup_in d i = select_one (\<lambda>c. cu_operationId c = i) (cleanups d)"

definition cleanup_attempts :: "db \<Rightarrow> cleanup_row \<Rightarrow> attempt_row list" where
  "cleanup_attempts d c =
     filter (\<lambda>e. at_operationId e \<in> {cu_operationId c, cu_sourceOperationId c}) (attempts d)"

definition live_resources :: "db \<Rightarrow> id \<Rightarrow> resource_row list" where
  "live_resources d allocation =
     filter (\<lambda>r. pr_allocationId r = allocation \<and> pr_absentAt r = None) (resources d)"

definition cleanup_settled :: "db \<Rightarrow> cleanup_row \<Rightarrow> bool" where
  "cleanup_settled d c \<longleftrightarrow>
     list_all (\<lambda>e. at_resolution e \<noteq> Res_pending) (cleanup_attempts d c)
     \<and> live_resources d (cu_allocationId c) = []"

definition retry_granted :: "db \<Rightarrow> id \<Rightarrow> provider_command \<Rightarrow> recovery_row \<Rightarrow> bool" where
  "retry_granted d cleanup command r \<longleftrightarrow> rec_operationId r = cleanup
     \<and> rq_kind (rec_request r) = Retry_delete
     \<and> list_ex (\<lambda>e. at_id e = rec_attemptId r \<and> at_command e = command) (attempts d)"

definition cleanup_delete_limit :: "db \<Rightarrow> id \<Rightarrow> provider_command \<Rightarrow> int" where
  "cleanup_delete_limit d cleanup command =
     3 + int (length (filter (retry_granted d cleanup command) (recoveries d)))"

fun deletion_target :: "provider_command \<Rightarrow> (resource_kind \<times> string) option" where
  "deletion_target (Destroy_server s) = Some (Server, s)"
| "deletion_target (Delete_primary_ip i) = Some (Primary_ip, i)"
| "deletion_target _ = None"

text \<open>\<open>guard_operation_cleanup\<close> (0018), for an inserted row.\<close>

definition guard_operation_cleanup :: "db \<Rightarrow> cleanup_row \<Rightarrow> bool" where
  "guard_operation_cleanup d new =
     (case (select_one (\<lambda>p. op_id p = cu_sourceOperationId new \<and> op_accountId p = cu_accountId new) (operations d),
            select_one (\<lambda>p. op_id p = cu_operationId new \<and> op_accountId p = cu_accountId new) (operations d),
            select_one (\<lambda>a. al_id a = cu_allocationId new \<and> al_accountId a = cu_accountId new) (allocations d)) of
        (Some source, Some executor, Some allocation) \<Rightarrow>
          (case select_one (\<lambda>m. mc_id m = al_machineId allocation \<and> mc_accountId m = cu_accountId new) (machines d) of
             None \<Rightarrow> False
           | Some machine \<Rightarrow>
               op_kind source = Op_create \<and> op_machineId source = al_machineId allocation
               \<and> op_machineId executor = al_machineId allocation \<and> al_retiredAt allocation = None
               \<and> mc_version machine = cu_expectedVersion new
               \<and> op_intent executor = Cleanup (op_id source) \<and> op_progress executor = Cleaning_up
               \<and> (op_id executor = op_id source \<and> op_kind executor = Op_create
                  \<or> op_id executor \<noteq> op_id source \<and> op_kind executor = Op_destroy
                    \<and> (case op_progress source of Succeeded t \<Rightarrow> True | Failed t e \<Rightarrow> True | _ \<Rightarrow> False)
                    \<and> (case op_command executor of Action (Destroy v allow) \<Rightarrow> allow | _ \<Rightarrow> False)))
      | _ \<Rightarrow> False)"

text \<open>\<open>guard_cleanup_operation\<close> (0018), for an update of \<open>old\<close> to \<open>new\<close>.\<close>

definition guard_cleanup_operation :: "db \<Rightarrow> operation_row \<Rightarrow> operation_row \<Rightarrow> bool" where
  "guard_cleanup_operation d old new =
     (case cleanup_in d (op_id old) of
        None \<Rightarrow> True
      | Some cleanup \<Rightarrow>
          new\<lparr>op_progress := op_progress old\<rparr> = old
          \<and> \<not> (isOperationTerminal old \<and> op_progress new \<noteq> op_progress old)
          \<and> \<not> (isOperationTerminal new \<and>
                (\<not> (case op_progress new of
                       Cancelled t \<Rightarrow> op_kind new = Op_create
                     | Succeeded t \<Rightarrow> op_kind new \<noteq> Op_create
                     | _ \<Rightarrow> False)
                 \<or> \<not> cleanup_settled d cleanup
                 \<or> \<not> list_ex (\<lambda>a. al_id a = cu_allocationId cleanup \<and> al_retiredAt a \<noteq> None)
                       (allocations d))))"

text \<open>\<open>guard_cleanup_retirement\<close> (0018).\<close>

definition guard_cleanup_retirement :: "db \<Rightarrow> allocation_row \<Rightarrow> allocation_row \<Rightarrow> bool" where
  "guard_cleanup_retirement d old new \<longleftrightarrow>
     \<not> (al_retiredAt old = None \<and> al_retiredAt new \<noteq> None) \<or>
     list_all (\<lambda>c. cu_allocationId c = al_id old \<longrightarrow> cleanup_settled d c) (cleanups d)"

text \<open>\<open>guard_cleanup_effect\<close> (0018, replaced in 0019), for an inserted attempt at
  \<open>clock_timestamp()\<close>.\<close>

definition delete_backoff :: "nat \<Rightarrow> int" where
  "delete_backoff submitted = (if submitted = 1 then 5000 else 30000)"

definition guard_cleanup_effect :: "instant \<Rightarrow> db \<Rightarrow> attempt_row \<Rightarrow> bool" where
  "guard_cleanup_effect clock d new =
     (if list_ex (\<lambda>c. cu_sourceOperationId c = at_operationId new \<or> cu_operationId c = at_operationId new)
           (cleanups d)
      then (case (select_one (\<lambda>c. cu_operationId c = at_operationId new \<and> cu_accountId c = at_accountId new) (cleanups d),
                  deletion_target (at_command new)) of
              (Some cleanup, Some (kind, target)) \<Rightarrow>
                \<not> (case operation_in d (at_operationId new) of
                     Some executor \<Rightarrow> isOperationTerminal executor | None \<Rightarrow> False)
                \<and> list_ex (\<lambda>r. pr_accountId r = at_accountId new \<and> pr_kind r = kind \<and> pr_providerId r = target)
                    (live_resources d (cu_allocationId cleanup))
                \<and> (kind = Primary_ip \<longrightarrow>
                    \<not> list_ex (\<lambda>e. at_operationId e = cu_sourceOperationId cleanup
                         \<and> isServerCreateCommand (at_command e) \<and> at_resolution e = Res_pending) (attempts d)
                    \<and> \<not> list_ex (\<lambda>r. pr_kind r = Server) (live_resources d (cu_allocationId cleanup)))
                \<and> (let previous = filter (\<lambda>e. at_command e = at_command new) (cleanup_attempts d cleanup)
                   in int (length previous) < cleanup_delete_limit d (cu_operationId cleanup) (at_command new)
                      \<and> list_all (\<lambda>e. at_createdAt e + delete_backoff (length previous) \<le> clock) previous)
            | _ \<Rightarrow> False)
      else True)"

text \<open>\<open>guard_provider_attempt\<close> (0001, replaced in 0027).\<close>

definition guard_attempt_insert :: "attempt_row \<Rightarrow> bool" where
  "guard_attempt_insert new \<longleftrightarrow> at_outcome new = Prepared \<and> at_resolution new = Res_pending"

definition guard_attempt_update :: "db \<Rightarrow> attempt_row \<Rightarrow> attempt_row \<Rightarrow> bool" where
  "guard_attempt_update d old new \<longleftrightarrow>
     new\<lparr>at_outcome := at_outcome old, at_resolution := at_resolution old\<rparr> = old
     \<and> (at_outcome new = at_outcome old \<or> at_outcome old = Prepared)
     \<and> (at_resolution new = at_resolution old \<or> at_resolution old = Res_pending)
     \<and> (case at_resolution new of
          Res_operator_closed recovery \<Rightarrow>
            at_outcome new = at_outcome old \<and>
            list_ex (\<lambda>r. rec_id r = recovery \<and> rec_attemptId r = at_id new
              \<and> (case rq_kind (rec_request r) of Close_create f ids \<Rightarrow> True | _ \<Rightarrow> False)
              \<and> list_ex (\<lambda>c. cu_operationId c = rec_operationId r \<and> cu_sourceOperationId c = at_operationId new
                   \<and> cu_accountId c = at_accountId new) (cleanups d)) (recoveries d)
        | Res_control_closed recovery \<Rightarrow> (recovery, at_operationId new) \<in> set (control_closures d)
        | _ \<Rightarrow> True)"

text \<open>\<open>guard_operator_recovery\<close> (0019), for an inserted row.\<close>

definition latest_attempt :: "attempt_row list \<Rightarrow> attempt_row option" where
  "latest_attempt es = last_option (sort_key at_createdAt (sort_key at_sequence es))"

fun created_kind :: "provider_command \<Rightarrow> resource_kind option" where
  "created_kind (Create_server n t r l w) = Some Server"
| "created_kind (Create_guest n t r l w b) = Some Server"
| "created_kind (Create_primary_ip n r l) = Some Primary_ip"
| "created_kind _ = None"

definition source_resources :: "db \<Rightarrow> id \<Rightarrow> resource_kind \<Rightarrow> id \<Rightarrow> resource_row list" where
  "source_resources d allocation kind operation =
     filter (\<lambda>r. pr_allocationId r = allocation \<and> pr_kind r = kind
       \<and> label_of (pr_labels r) ''operation_id'' = Some operation) (resources d)"

definition guard_recovery_scope :: "cleanup_row \<Rightarrow> attempt_row \<Rightarrow> recovery_row \<Rightarrow> bool" where
  "guard_recovery_scope cleanup source new \<longleftrightarrow>
     at_accountId source = cu_accountId cleanup
     \<and> at_operationId source \<in> {cu_operationId cleanup, cu_sourceOperationId cleanup}
     \<and> rq_id (rec_request new) = rec_id new
     \<and> rq_operationId (rec_request new) = cu_operationId cleanup
     \<and> rq_allocationId (rec_request new) = cu_allocationId cleanup
     \<and> rq_accountId (rec_request new) = cu_accountId cleanup
     \<and> rq_attemptId (rec_request new) = at_id source
     \<and> sha256_ok (rq_expectedState (rec_request new)) \<and> operator_ok (rq_operator (rec_request new))
     \<and> sha256_ok (rq_sha256 (rec_request new))
     \<and> rq_reference (rec_request new) \<noteq> [] \<and> length (rq_reference (rec_request new)) \<le> 256"

definition guard_recovery_kind :: "db \<Rightarrow> cleanup_row \<Rightarrow> attempt_row \<Rightarrow> recovery_kind \<Rightarrow> bool" where
  "guard_recovery_kind d cleanup source kind =
     (case kind of
        Close_create finished ids \<Rightarrow>
          (case created_kind (at_command source) of
             None \<Rightarrow> False
           | Some target \<Rightarrow>
               at_operationId source = cu_sourceOperationId cleanup \<and> at_resolution source = Res_pending
               \<and> at_outcome source \<in> {Prepared, Unknown} \<and> finished
               \<and> sort (map pr_providerId (source_resources d (cu_allocationId cleanup) target (at_operationId source)))
                   = sort ids)
      | Retry_delete \<Rightarrow>
          (case deletion_target (at_command source) of
             None \<Rightarrow> False
           | Some (target, i) \<Rightarrow>
               list_ex (\<lambda>r. pr_kind r = target \<and> pr_providerId r = i) (live_resources d (cu_allocationId cleanup))
               \<and> (let same = filter (\<lambda>e. at_command e = at_command source) (cleanup_attempts d cleanup)
                  in map_option at_id (latest_attempt same) = Some (at_id source)
                     \<and> int (length same) = cleanup_delete_limit d (cu_operationId cleanup) (at_command source))))"

definition guard_operator_recovery :: "db \<Rightarrow> recovery_row \<Rightarrow> bool" where
  "guard_operator_recovery d new =
     (case (cleanup_in d (rec_operationId new),
            select_one (\<lambda>e. at_id e = rec_attemptId new) (attempts d)) of
        (Some cleanup, Some source) \<Rightarrow>
          \<not> list_ex (\<lambda>a. al_id a = cu_allocationId cleanup \<and> al_retiredAt a \<noteq> None) (allocations d)
          \<and> \<not> (case operation_in d (rec_operationId new) of
                Some executor \<Rightarrow> isOperationTerminal executor | None \<Rightarrow> False)
          \<and> guard_recovery_scope cleanup source new
          \<and> guard_recovery_kind d cleanup source (rq_kind (rec_request new))
      | _ \<Rightarrow> False)"

text \<open>\<open>record_allocation_reservation\<close> (0026): the history rows an insert or update appends.\<close>

definition reservation_event :: "instant \<Rightarrow> reservation_kind \<Rightarrow> allocation_row \<Rightarrow> nat \<Rightarrow> reservation_row" where
  "reservation_event clock kind new n =
     \<lparr>rv_id = n, rv_accountId = al_accountId new, rv_machineId = al_machineId new,
      rv_allocationId = al_id new,
      rv_kind = (if al_retiredAt new \<noteq> None then Released else kind),
      rv_hourlyMicros = (if al_retiredAt new = None then al_hourlyMicros new else 0),
      rv_currency = al_currency new, rv_occurredAt = clock\<rparr>"

fun append_reservations :: "instant \<Rightarrow> reservation_kind \<Rightarrow> allocation_row list \<Rightarrow> reservation_row list \<Rightarrow> reservation_row list" where
  "append_reservations clock kind [] rs = rs"
| "append_reservations clock kind (a # as) rs =
     append_reservations clock kind as (rs @ [reservation_event clock kind a (Suc (length rs))])"

definition reservation_changed :: "allocation_row \<times> allocation_row \<Rightarrow> bool" where
  "reservation_changed p \<longleftrightarrow> al_hourlyMicros (snd p) \<noteq> al_hourlyMicros (fst p)
     \<or> al_retiredAt (snd p) \<noteq> al_retiredAt (fst p)"

section \<open>Statements\<close>

datatype statement =
    Insert_grant grant_row
  | Update_grants "grant_row \<Rightarrow> bool" "grant_row \<Rightarrow> grant_row"
  | Insert_session session_row
  | Update_sessions "session_row \<Rightarrow> bool" "session_row \<Rightarrow> session_row"
  | Insert_machine machine_row
  | Update_machines "machine_row \<Rightarrow> bool" "machine_row \<Rightarrow> machine_row"
  | Insert_allocation allocation_row
  | Update_allocations "allocation_row \<Rightarrow> bool" "allocation_row \<Rightarrow> allocation_row"
  | Insert_operation operation_row
  | Update_operations "operation_row \<Rightarrow> bool" "operation_row \<Rightarrow> operation_row"
  | Insert_cleanup cleanup_row
  | Insert_attempt attempt_row
  | Update_attempts "attempt_row \<Rightarrow> bool" "attempt_row \<Rightarrow> attempt_row"
  | Insert_recovery recovery_row
  | Insert_idempotency idempotency_row
  | Insert_audit audit_row
  | Insert_resource resource_row
  | Update_resources "resource_row \<Rightarrow> bool" "resource_row \<Rightarrow> resource_row"
  | Enqueue id
  | Enqueue_access id

definition updated_rows :: "('a \<Rightarrow> bool) \<Rightarrow> ('a \<Rightarrow> 'a) \<Rightarrow> 'a list \<Rightarrow> ('a \<times> 'a) list" where
  "updated_rows P f xs = map (\<lambda>x. (x, f x)) (filter P xs)"

definition same_resource :: "resource_row \<Rightarrow> resource_row \<Rightarrow> bool" where
  "same_resource r s \<longleftrightarrow> pr_provider r = pr_provider s \<and> pr_kind r = pr_kind s
     \<and> pr_providerId r = pr_providerId s"

text \<open>The row-level triggers that may reject a statement.\<close>

fun triggers_ok :: "instant \<Rightarrow> statement \<Rightarrow> db \<Rightarrow> bool" where
  "triggers_ok clock (Update_allocations P f) d =
     list_all (\<lambda>(old, new). guard_cleanup_retirement d old new) (updated_rows P f (allocations d))"
| "triggers_ok clock (Update_operations P f) d =
     list_all (\<lambda>(old, new). guard_cleanup_operation d old new) (updated_rows P f (operations d))"
| "triggers_ok clock (Insert_session s) d = guard_access_insert clock s"
| "triggers_ok clock (Update_sessions P f) d =
     list_all (\<lambda>(old, new). guard_access_update clock old new) (updated_rows P f (sessions d))"
| "triggers_ok clock (Insert_cleanup c) d = guard_operation_cleanup d c"
| "triggers_ok clock (Insert_attempt a) d = (guard_attempt_insert a \<and> guard_cleanup_effect clock d a)"
| "triggers_ok clock (Update_attempts P f) d =
     list_all (\<lambda>(old, new). guard_attempt_update d old new) (updated_rows P f (attempts d))"
| "triggers_ok clock (Insert_recovery r) d = guard_operator_recovery d r"
| "triggers_ok clock _ d = True"

text \<open>The effect of a statement that is not rejected and the number of rows it reports.
  \<open>now\<close> is the transaction's \<open>now()\<close> (the default of \<open>created_at\<close>), \<open>clock\<close> is
  \<open>clock_timestamp()\<close>.\<close>

fun effect_of :: "instant \<Rightarrow> instant \<Rightarrow> statement \<Rightarrow> db \<Rightarrow> db \<times> nat" where
  "effect_of now clock (Insert_grant g) d = (d\<lparr>grants := grants d @ [g\<lparr>gr_createdAt := now\<rparr>]\<rparr>, 1)"
| "effect_of now clock (Update_grants P f) d =
     (d\<lparr>grants := update_where P f (grants d)\<rparr>, length (filter P (grants d)))"
| "effect_of now clock (Insert_session s) d = (d\<lparr>sessions := sessions d @ [s]\<rparr>, 1)"
| "effect_of now clock (Update_sessions P f) d =
     (d\<lparr>sessions := update_where P f (sessions d),
        signing_receipts := signing_receipts d
          @ List.map_filter signing_receipt (updated_rows P f (sessions d))\<rparr>,
      length (filter P (sessions d)))"
| "effect_of now clock (Insert_machine m) d = (d\<lparr>machines := machines d @ [m]\<rparr>, 1)"
| "effect_of now clock (Update_machines P f) d =
     (d\<lparr>machines := update_where P f (machines d)\<rparr>, length (filter P (machines d)))"
| "effect_of now clock (Insert_allocation a) d =
     (d\<lparr>allocations := allocations d @ [a\<lparr>al_createdAt := now\<rparr>],
        reservations := append_reservations clock Admitted [a] (reservations d)\<rparr>, 1)"
| "effect_of now clock (Update_allocations P f) d =
     (d\<lparr>allocations := update_where P f (allocations d),
        reservations := append_reservations clock Changed
          (map snd (filter reservation_changed (updated_rows P f (allocations d)))) (reservations d)\<rparr>,
      length (filter P (allocations d)))"
| "effect_of now clock (Insert_operation p) d = (d\<lparr>operations := operations d @ [p]\<rparr>, 1)"
| "effect_of now clock (Update_operations P f) d =
     (d\<lparr>operations := update_where P f (operations d)\<rparr>, length (filter P (operations d)))"
| "effect_of now clock (Insert_cleanup c) d = (d\<lparr>cleanups := cleanups d @ [c]\<rparr>, 1)"
| "effect_of now clock (Insert_attempt a) d =
     (d\<lparr>attempts := attempts d @ [a\<lparr>at_createdAt := now\<rparr>]\<rparr>, 1)"
| "effect_of now clock (Update_attempts P f) d =
     (d\<lparr>attempts := update_where P f (attempts d)\<rparr>, length (filter P (attempts d)))"
| "effect_of now clock (Insert_recovery r) d =
     (d\<lparr>recoveries := recoveries d @ [r\<lparr>rec_createdAt := now\<rparr>]\<rparr>, 1)"
| "effect_of now clock (Insert_idempotency k) d = (d\<lparr>idempotency := idempotency d @ [k]\<rparr>, 1)"
| "effect_of now clock (Insert_audit e) d = (d\<lparr>audit_events := audit_events d @ [e]\<rparr>, 1)"
| "effect_of now clock (Insert_resource r) d =
     (if list_ex (same_resource r) (resources d) then (d, 0)
      else (d\<lparr>resources := resources d @ [r\<lparr>pr_createdAt := now\<rparr>]\<rparr>, 1))"
| "effect_of now clock (Update_resources P f) d =
     (d\<lparr>resources := update_where P f (resources d)\<rparr>, length (filter P (resources d)))"
| "effect_of now clock (Enqueue i) d = (d\<lparr>jobs := List.insert i (jobs d)\<rparr>, 1)"
| "effect_of now clock (Enqueue_access i) d =
     (d\<lparr>access_jobs := List.insert i (access_jobs d)\<rparr>, 1)"

definition apply_stmt :: "instant \<Rightarrow> instant \<Rightarrow> statement \<Rightarrow> db \<Rightarrow> (db \<times> nat) option" where
  "apply_stmt now clock s d =
     (let r = effect_of now clock s d
      in if triggers_ok clock s d \<and> schema_ok (fst r) then Some r else None)"

text \<open>\<open>wrote d d'\<close>: \<open>d'\<close> is the result of a sequence of accepted statements.\<close>

definition writes :: "db \<Rightarrow> db \<Rightarrow> bool" where
  "writes d d' \<longleftrightarrow> (\<exists>now clock s n. apply_stmt now clock s d = Some (d', n))"

abbreviation wrote :: "db \<Rightarrow> db \<Rightarrow> bool" where
  "wrote \<equiv> writes\<^sup>*\<^sup>*"

end
