(* ===== verification/Effects.thy ===== *)
theory Effects
  imports Database
begin

text \<open>
  Programs over the database: the state an asynchronous handler sees, its exceptions, and the
  combinators the handlers are composed of. A program maps a state to a result or an exception and
  the state it leaves. Every interaction with the outside world (a query, a statement, a clock or
  random read, a lock, a commit, a provider call) consumes one tick, and an \<open>outside\<close> record fixes what
  happens at that tick: the reading it returns, whether the database connection fails, whether
  the reply is lost after the effect, and whether the process dies. The theorems hold for every
  outside, hence for a crash or fault at any point.

  \<open>withMachineLock\<close>, \<open>databaseTime\<close> and \<open>enqueueOperation\<close> are those of
  \<^verbatim>\<open>packages/db/src/connection.ts\<close>.
\<close>

section \<open>State and exceptions\<close>

record outside =
  or_uuid :: "nat \<Rightarrow> string"
  or_token :: "nat \<Rightarrow> string"
  or_wall :: "nat \<Rightarrow> instant"
  or_clock :: "nat \<Rightarrow> instant"
  or_busy :: "nat \<Rightarrow> bool"
  or_fault :: "nat \<Rightarrow> bool"
  or_lost :: "nat \<Rightarrow> bool"
  or_dies :: "nat \<Rightarrow> bool"

record process =
  outside :: outside
  ticks :: nat
  store :: db
  began :: "instant option"

record 'p world = process +
  cloud :: 'p
  submitted :: "(id \<times> provider_command) list"

text \<open>\<open>Cloud\<close> is a thrown \<open>CloudError\<close>, \<open>Defect\<close> any other exception (a \<open>ZodError\<close>, an
  \<open>Error\<close>, a rejected statement, a lost connection) and \<open>Died\<close> the end of the process, which
  no handler catches.\<close>

datatype exn = Cloud failure | Defect | Died

type_synonym ('s, 'a) prog = "'s \<Rightarrow> (exn + 'a) \<times> 's"
type_synonym ('e, 'a) tx = "('e process_scheme, 'a) prog"
type_synonym ('p, 'a) act = "('p world, 'a) prog"

section \<open>Combinators\<close>

definition ret :: "'a \<Rightarrow> ('s, 'a) prog" where
  "ret x s = (Inr x, s)"

definition raise :: "exn \<Rightarrow> ('s, 'a) prog" where
  "raise e s = (Inl e, s)"

definition throw :: "error_code \<Rightarrow> ('s, 'a) prog" where
  "throw c = raise (Cloud (cloud_error c))"

definition bind :: "('s, 'a) prog \<Rightarrow> ('a \<Rightarrow> ('s, 'b) prog) \<Rightarrow> ('s, 'b) prog" where
  "bind m f s = (case m s of (Inl e, s') \<Rightarrow> (Inl e, s') | (Inr x, s') \<Rightarrow> f x s')"

definition andThen :: "('s, 'a) prog \<Rightarrow> ('s, 'b) prog \<Rightarrow> ('s, 'b) prog" where
  "andThen m n = bind m (\<lambda>_. n)"

definition unless :: "bool \<Rightarrow> error_code \<Rightarrow> ('s, unit) prog" where
  "unless b c = (if b then ret () else throw c)"

definition present :: "error_code \<Rightarrow> 'a option \<Rightarrow> ('s, 'a) prog" where
  "present c x = (case x of None \<Rightarrow> throw c | Some v \<Rightarrow> ret v)"

definition parsed :: "'a option \<Rightarrow> ('s, 'a) prog" where
  "parsed x = (case x of None \<Rightarrow> raise Defect | Some v \<Rightarrow> ret v)"

definition pure_of :: "failure + 'a \<Rightarrow> ('s, 'a) prog" where
  "pure_of r = (case r of Inl f \<Rightarrow> raise (Cloud f) | Inr x \<Rightarrow> ret x)"

definition onlyIf :: "bool \<Rightarrow> ('s, unit) prog \<Rightarrow> ('s, unit) prog" where
  "onlyIf b m = (if b then m else ret ())"

fun foldM :: "('b \<Rightarrow> 'a \<Rightarrow> ('s, 'b) prog) \<Rightarrow> 'b \<Rightarrow> 'a list \<Rightarrow> ('s, 'b) prog" where
  "foldM f acc [] = ret acc"
| "foldM f acc (x # xs) = bind (f acc x) (\<lambda>acc'. foldM f acc' xs)"

text \<open>\<open>catch (error)\<close> that rethrows everything but a \<open>CloudError\<close>, and a bare \<open>catch\<close>.\<close>

definition catch_cloud :: "('s, 'a) prog \<Rightarrow> (failure \<Rightarrow> ('s, 'a) prog) \<Rightarrow> ('s, 'a) prog" where
  "catch_cloud m h s = (case m s of (Inl (Cloud f), s') \<Rightarrow> h f s' | r \<Rightarrow> r)"

definition catch_any :: "('s, 'a) prog \<Rightarrow> ('s, 'a) prog \<Rightarrow> ('s, 'a) prog" where
  "catch_any m h s = (case m s of (Inl (Cloud f), s') \<Rightarrow> h s' | (Inl Defect, s') \<Rightarrow> h s' | r \<Rightarrow> r)"

section \<open>Interactions\<close>

definition prim :: "(nat \<Rightarrow> ('e, 'a) tx) \<Rightarrow> ('e, 'a) tx" where
  "prim f s = (let i = ticks s; s' = s\<lparr>ticks := Suc i\<rparr>
     in if or_dies (outside s) i then (Inl Died, s') else f i s')"

text \<open>A \<open>SELECT\<close> sees \<open>now()\<close>, \<open>clock_timestamp()\<close> and the database.\<close>

definition tx_now :: "'e process_scheme \<Rightarrow> nat \<Rightarrow> instant" where
  "tx_now s i = (case began s of Some t \<Rightarrow> t | None \<Rightarrow> or_clock (outside s) i)"

definition observe :: "(instant \<Rightarrow> instant \<Rightarrow> db \<Rightarrow> 'a) \<Rightarrow> ('e, 'a) tx" where
  "observe g = prim (\<lambda>i s. if or_fault (outside s) i then (Inl Defect, s)
     else (Inr (g (tx_now s i) (or_clock (outside s) i) (store s)), s))"

definition query :: "(db \<Rightarrow> 'a) \<Rightarrow> ('e, 'a) tx" where
  "query g = observe (\<lambda>now clock d. g d)"

definition databaseTime :: "('e, instant) tx" where
  "databaseTime = observe (\<lambda>now clock d. clock)"

definition exec :: "statement \<Rightarrow> ('e, nat) tx" where
  "exec st = prim (\<lambda>i s.
     if or_fault (outside s) i then (Inl Defect, s)
     else (case apply_stmt (tx_now s i) (or_clock (outside s) i) st (store s) of
             None \<Rightarrow> (Inl Defect, s)
           | Some (d, n) \<Rightarrow>
               ((if or_lost (outside s) i then Inl Defect else Inr n), s\<lparr>store := d\<rparr>)))"

definition run :: "statement \<Rightarrow> ('e, unit) tx" where
  "run st = bind (exec st) (\<lambda>_. ret ())"

definition wallTime :: "('e, instant) tx" where
  "wallTime = prim (\<lambda>i s. (Inr (or_wall (outside s) i), s))"

definition randomUUID :: "('e, string) tx" where
  "randomUUID = prim (\<lambda>i s. (Inr (or_uuid (outside s) i), s))"

text \<open>\<open>randomBytes(32).toString('base64url')\<close>.\<close>

definition randomToken :: "('e, string) tx" where
  "randomToken = prim (\<lambda>i s. (Inr (or_token (outside s) i), s))"

definition new_id :: "id_kind \<Rightarrow> ('e, id) tx" where
  "new_id k = bind randomUUID (\<lambda>u. parsed (newId k u))"

definition tryLock :: "('e, bool) tx" where
  "tryLock = prim (\<lambda>i s. if or_fault (outside s) i then (Inl Defect, s)
     else (Inr (\<not> or_busy (outside s) i), s))"

definition enqueueOperation :: "id \<Rightarrow> ('e, unit) tx" where
  "enqueueOperation i = run (Enqueue i)"

text \<open>A transaction (or a savepoint, when one is open) restores the database it began with
  when its body or its commit fails. A commit whose reply is lost keeps its effect.\<close>

definition commit :: "('e, bool) tx" where
  "commit = prim (\<lambda>i s. if or_fault (outside s) i then (Inl Defect, s)
     else (Inr (or_lost (outside s) i), s))"

definition transaction :: "('e, 'a) tx \<Rightarrow> ('e, 'a) tx" where
  "transaction m = prim (\<lambda>i s.
     if or_fault (outside s) i then (Inl Defect, s)
     else (case bind m (\<lambda>x. bind commit (\<lambda>lost. ret (x, lost)))
                 (s\<lparr>began := Some (tx_now s i)\<rparr>) of
             (Inl e, s') \<Rightarrow> (Inl e, s'\<lparr>store := store s, began := began s\<rparr>)
           | (Inr (x, lost), s') \<Rightarrow>
               ((if lost then Inl Defect else Inr x), s'\<lparr>began := began s\<rparr>)))"

text \<open>\<open>withResourceLock\<close>: the work runs while the session holds the advisory lock, and the
  result is \<open>None\<close> (\<open>{ kind: 'busy' }\<close>) when another session holds it.\<close>

definition withMachineLock :: "('e, 'a) tx \<Rightarrow> ('e, 'a option) tx" where
  "withMachineLock work = bind tryLock (\<lambda>acquired.
     if acquired then bind work (\<lambda>x. ret (Some x)) else ret None)"

section \<open>Provider calls\<close>

text \<open>A provider operation gets the wall clock and the state of the provider. The process may
  die before the request, or after the provider has acted and before the reply is read.\<close>

type_synonym ('p, 'a) port = "instant \<Rightarrow> 'p \<Rightarrow> (exn + 'a) \<times> 'p"

definition reply :: "exn + 'a \<Rightarrow> ('e, 'a) tx" where
  "reply r = prim (\<lambda>i s. (r, s))"

definition call :: "('p, 'a) port \<Rightarrow> ('p, 'a) act" where
  "call f = bind (prim (\<lambda>i s. (let (r, p) = f (or_wall (outside s) i) (cloud s)
     in (Inr r, s\<lparr>cloud := p\<rparr>)))) reply"

definition call_submit :: "('p, submission) port \<Rightarrow> id \<Rightarrow> provider_command \<Rightarrow> ('p, submission) act" where
  "call_submit f attempt command = bind (prim (\<lambda>i s. (let (r, p) = f (or_wall (outside s) i) (cloud s)
     in (Inr r, s\<lparr>cloud := p, submitted := submitted s @ [(attempt, command)]\<rparr>)))) reply"

section \<open>Programs related to a step relation\<close>

definition stays :: "('s \<Rightarrow> 's \<Rightarrow> bool) \<Rightarrow> ('s, 'a) prog \<Rightarrow> bool" where
  "stays R m \<longleftrightarrow> (\<forall>s. R s (snd (m s)))"

lemma staysI: "(\<And>s. R s (snd (m s))) \<Longrightarrow> stays R m"
  by (simp add: stays_def)

lemma staysD: "stays R m \<Longrightarrow> m s = (r, s') \<Longrightarrow> R s s'"
  unfolding stays_def by (metis snd_conv)

lemma stays_mono: "stays R m \<Longrightarrow> (\<And>s s'. R s s' \<Longrightarrow> R' s s') \<Longrightarrow> stays R' m"
  by (simp add: stays_def)

named_theorems stays_intros "rules that derive stays R for composed programs"

locale step_relation =
  fixes R :: "'s \<Rightarrow> 's \<Rightarrow> bool"
  assumes step_refl: "R s s"
    and step_trans: "R s t \<Longrightarrow> R t u \<Longrightarrow> R s u"
begin

lemma ret: "stays R (ret x)"
  by (simp add: stays_def ret_def step_refl)

lemma raise: "stays R (raise e)"
  by (simp add: stays_def raise_def step_refl)

lemma throw: "stays R (throw c)"
  by (simp add: throw_def raise)

lemma bind: "stays R m \<Longrightarrow> (\<And>x. stays R (f x)) \<Longrightarrow> stays R (bind m f)"
  unfolding stays_def bind_def
  by (auto split: prod.splits sum.splits) (metis snd_conv step_trans)+

lemma andThen: "stays R m \<Longrightarrow> stays R n \<Longrightarrow> stays R (andThen m n)"
  by (simp add: andThen_def bind)

lemma unless: "stays R (unless b c)"
  by (simp add: unless_def ret throw)

lemma present: "stays R (present c x)"
  by (simp add: present_def ret throw split: option.splits)

lemma parsed: "stays R (parsed x)"
  by (simp add: parsed_def ret raise split: option.splits)

lemma pure_of: "stays R (pure_of r)"
  by (simp add: pure_of_def ret raise split: sum.splits)

lemma onlyIf: "stays R m \<Longrightarrow> stays R (onlyIf b m)"
  by (simp add: onlyIf_def ret)

lemma foldM: "(\<And>acc x. stays R (f acc x)) \<Longrightarrow> stays R (foldM f acc xs)"
  by (induction xs arbitrary: acc) (auto intro: ret bind)

lemma catch_cloud: "stays R m \<Longrightarrow> (\<And>f. stays R (h f)) \<Longrightarrow> stays R (catch_cloud m h)"
  unfolding stays_def catch_cloud_def
  by (auto split: prod.splits sum.splits exn.splits) (metis snd_conv step_trans)+

lemma catch_any: "stays R m \<Longrightarrow> stays R h \<Longrightarrow> stays R (catch_any m h)"
  unfolding stays_def catch_any_def
  by (auto split: prod.splits sum.splits exn.splits) (metis snd_conv step_trans)+

lemma if_split: "(b \<Longrightarrow> stays R m) \<Longrightarrow> (\<not> b \<Longrightarrow> stays R n) \<Longrightarrow> stays R (if b then m else n)"
  by simp

lemma option_split:
  "(x = None \<Longrightarrow> stays R m) \<Longrightarrow> (\<And>v. x = Some v \<Longrightarrow> stays R (f v)) \<Longrightarrow>
     stays R (case x of None \<Rightarrow> m | Some v \<Rightarrow> f v)"
  by (cases x) auto

lemma let_split: "stays R (f x) \<Longrightarrow> stays R (Let x f)"
  by simp

lemmas rules = ret raise throw bind andThen unless present parsed pure_of onlyIf foldM catch_cloud
  catch_any if_split option_split let_split

end

end
