(* ===== verification/Footprint.thy ===== *)
theory Footprint
  imports Effects
begin

text \<open>
  What a program may write. Every update the control plane issues keeps the identifying columns
  of a row (\<open>issued\<close>); a footprint is the set of statement forms a program may execute. From
  a footprint follow the tables a program leaves alone and every invariant of the database that
  accepted statements preserve, whatever faults and crashes the environment injects.
\<close>

section \<open>Statement forms\<close>

datatype stmt_tag = T_ins_grant | T_upd_grants | T_ins_session | T_upd_sessions | T_ins_machine | T_upd_machines
  | T_ins_allocation | T_upd_allocations | T_ins_operation | T_upd_operations | T_ins_cleanup
  | T_ins_attempt | T_upd_attempts | T_ins_recovery | T_ins_idempotency | T_ins_audit
  | T_ins_resource | T_upd_resources | T_enqueue | T_enqueue_access

fun tag_of :: "statement \<Rightarrow> stmt_tag" where
  "tag_of (Insert_grant g) = T_ins_grant"
| "tag_of (Update_grants P f) = T_upd_grants"
| "tag_of (Insert_session s) = T_ins_session"
| "tag_of (Update_sessions P f) = T_upd_sessions"
| "tag_of (Insert_machine m) = T_ins_machine"
| "tag_of (Update_machines P f) = T_upd_machines"
| "tag_of (Insert_allocation a) = T_ins_allocation"
| "tag_of (Update_allocations P f) = T_upd_allocations"
| "tag_of (Insert_operation p) = T_ins_operation"
| "tag_of (Update_operations P f) = T_upd_operations"
| "tag_of (Insert_cleanup c) = T_ins_cleanup"
| "tag_of (Insert_attempt a) = T_ins_attempt"
| "tag_of (Update_attempts P f) = T_upd_attempts"
| "tag_of (Insert_recovery r) = T_ins_recovery"
| "tag_of (Insert_idempotency k) = T_ins_idempotency"
| "tag_of (Insert_audit e) = T_ins_audit"
| "tag_of (Insert_resource r) = T_ins_resource"
| "tag_of (Update_resources P f) = T_upd_resources"
| "tag_of (Enqueue i) = T_enqueue"
| "tag_of (Enqueue_access i) = T_enqueue_access"

text \<open>The columns an update of each table may set.\<close>

definition keeps_grant :: "grant_row \<Rightarrow> grant_row \<Rightarrow> bool" where
  "keeps_grant g g' \<longleftrightarrow> g'\<lparr>gr_revokedAt := gr_revokedAt g\<rparr> = g
     \<and> (gr_revokedAt g \<noteq> None \<longrightarrow> gr_revokedAt g' \<noteq> None)"

definition keeps_session :: "session_row \<Rightarrow> session_row \<Rightarrow> bool" where
  "keeps_session a a' \<longleftrightarrow> a'\<lparr>as_issuance := as_issuance a, as_connection := as_connection a\<rparr> = a"

definition keeps_machine :: "machine_row \<Rightarrow> machine_row \<Rightarrow> bool" where
  "keeps_machine m m' \<longleftrightarrow>
     m'\<lparr>mc_spec := mc_spec m, mc_state := mc_state m, mc_version := mc_version m\<rparr> = m"

definition keeps_allocation :: "allocation_row \<Rightarrow> allocation_row \<Rightarrow> bool" where
  "keeps_allocation a a' \<longleftrightarrow>
     a'\<lparr>al_serverId := al_serverId a, al_hourlyMicros := al_hourlyMicros a, al_offer := al_offer a,
        al_retiredAt := al_retiredAt a\<rparr> = a
     \<and> (al_retiredAt a \<noteq> None \<longrightarrow> al_retiredAt a' \<noteq> None)"

definition keeps_operation :: "operation_row \<Rightarrow> operation_row \<Rightarrow> bool" where
  "keeps_operation p p' \<longleftrightarrow>
     p'\<lparr>op_intent := op_intent p, op_progress := op_progress p\<rparr> = p"

definition keeps_resource :: "resource_row \<Rightarrow> resource_row \<Rightarrow> bool" where
  "keeps_resource r r' \<longleftrightarrow> r'\<lparr>pr_absentAt := pr_absentAt r\<rparr> = r
     \<and> (pr_absentAt r \<noteq> None \<longrightarrow> pr_absentAt r' = pr_absentAt r)"

definition on_where :: "('a \<Rightarrow> 'a \<Rightarrow> bool) \<Rightarrow> ('a \<Rightarrow> bool) \<Rightarrow> ('a \<Rightarrow> 'a) \<Rightarrow> bool" where
  "on_where K P f \<longleftrightarrow> (\<forall>x. P x \<longrightarrow> K x (f x))"

fun issued :: "statement \<Rightarrow> bool" where
  "issued (Update_grants P f) = on_where keeps_grant P f"
| "issued (Update_sessions P f) = on_where keeps_session P f"
| "issued (Update_machines P f) = on_where keeps_machine P f"
| "issued (Update_allocations P f) = on_where keeps_allocation P f"
| "issued (Update_operations P f) = on_where keeps_operation P f"
| "issued (Update_resources P f) = on_where keeps_resource P f"
| "issued _ = True"

lemmas keeps_defs = keeps_grant_def keeps_session_def keeps_machine_def keeps_allocation_def
  keeps_operation_def keeps_resource_def on_where_def

section \<open>Writes of a footprint\<close>

definition writes_in :: "stmt_tag set \<Rightarrow> db \<Rightarrow> db \<Rightarrow> bool" where
  "writes_in T d d' \<longleftrightarrow>
     (\<exists>now clock s n. tag_of s \<in> T \<and> issued s \<and> apply_stmt now clock s d = Some (d', n))"

abbreviation wrote_in :: "stmt_tag set \<Rightarrow> db \<Rightarrow> db \<Rightarrow> bool" where
  "wrote_in T \<equiv> (writes_in T)\<^sup>*\<^sup>*"

lemma writes_inI:
  "apply_stmt now clock s d = Some (d', n) \<Longrightarrow> tag_of s \<in> T \<Longrightarrow> issued s \<Longrightarrow> writes_in T d d'"
  unfolding writes_in_def by blast

lemma writes_in_mono: "writes_in T d d' \<Longrightarrow> T \<subseteq> T' \<Longrightarrow> writes_in T' d d'"
  unfolding writes_in_def by blast

lemma wrote_in_mono: "wrote_in T d d' \<Longrightarrow> T \<subseteq> T' \<Longrightarrow> wrote_in T' d d'"
  by (induction rule: rtranclp_induct) (auto intro: rtranclp.rtrancl_into_rtrancl writes_in_mono)

definition footstep :: "stmt_tag set \<Rightarrow> 'e process_scheme \<Rightarrow> 'e process_scheme \<Rightarrow> bool" where
  "footstep T s s' \<longleftrightarrow> outside s' = outside s \<and> began s' = began s \<and> ticks s \<le> ticks s'
     \<and> process.more s' = process.more s \<and> wrote_in T (store s) (store s')"

abbreviation footprint :: "stmt_tag set \<Rightarrow> ('e, 'a) tx \<Rightarrow> bool" where
  "footprint T m \<equiv> stays (footstep T) m"

interpretation foot: step_relation "footstep T" for T
proof
  fix s t u :: "'e process_scheme"
  show "footstep T s s" by (simp add: footstep_def)
  show "footstep T s u" if "footstep T s t" "footstep T t u"
    using that by (auto simp: footstep_def)
qed

lemma footstep_mono: "footstep T s s' \<Longrightarrow> T \<subseteq> T' \<Longrightarrow> footstep T' s s'"
  by (auto simp: footstep_def intro: wrote_in_mono)

lemma footprint_mono: "footprint T m \<Longrightarrow> T \<subseteq> T' \<Longrightarrow> footprint T' m"
  by (erule stays_mono) (rule footstep_mono)

lemma footprint_prim:
  fixes f :: "nat \<Rightarrow> ('e, 'a) tx"
  assumes f: "\<And>i s. footstep T s (snd (f i s))"
  shows "footprint T (prim f)"
proof (rule staysI)
  fix s :: "'e process_scheme"
  have "footstep T s (s\<lparr>ticks := Suc (ticks s)\<rparr>)" by (simp add: footstep_def)
  with f [of "s\<lparr>ticks := Suc (ticks s)\<rparr>" "ticks s"] show "footstep T s (snd (prim f s))"
    by (auto simp: prim_def Let_def intro: foot.step_trans)
qed

lemma footprint_observe: "footprint T (observe g)"
  unfolding observe_def by (rule footprint_prim) (simp add: foot.step_refl)

lemma footprint_query: "footprint T (query g)"
  unfolding query_def by (rule footprint_observe)

lemma footprint_databaseTime: "footprint T databaseTime"
  unfolding databaseTime_def by (rule footprint_observe)

lemma footprint_randomToken: "footprint T randomToken"
  unfolding randomToken_def by (rule footprint_prim) (simp add: foot.step_refl)

lemma footprint_wallTime: "footprint T wallTime"
  unfolding wallTime_def by (rule footprint_prim) (simp add: foot.step_refl)

lemma footprint_randomUUID: "footprint T randomUUID"
  unfolding randomUUID_def by (rule footprint_prim) (simp add: foot.step_refl)

lemma footprint_tryLock: "footprint T tryLock"
  unfolding tryLock_def by (rule footprint_prim) (simp add: foot.step_refl)

lemma footprint_commit: "footprint T commit"
  unfolding commit_def by (rule footprint_prim) (simp add: foot.step_refl)

lemma footprint_reply: "footprint T (reply r)"
  unfolding reply_def by (rule footprint_prim) (simp add: foot.step_refl)

lemma footprint_new_id: "footprint T (new_id k)"
  unfolding new_id_def by (intro foot.rules footprint_randomUUID)

lemma footprint_exec: "tag_of st \<in> T \<Longrightarrow> issued st \<Longrightarrow> footprint T (exec st)"
  unfolding exec_def
  by (rule footprint_prim)
     (auto simp: footstep_def Let_def split: option.splits intro!: r_into_rtranclp
       intro: writes_inI)

lemma footprint_run: "tag_of st \<in> T \<Longrightarrow> issued st \<Longrightarrow> footprint T (run st)"
  unfolding run_def by (intro foot.rules footprint_exec)

lemma footprint_enqueue: "T_enqueue \<in> T \<Longrightarrow> footprint T (enqueueOperation i)"
  unfolding enqueueOperation_def by (rule footprint_run) auto

lemma footprint_transaction:
  fixes m :: "('e, 'a) tx"
  assumes "footprint T m"
  shows "footprint T (transaction m)"
  unfolding transaction_def
proof (rule footprint_prim)
  fix i and s :: "'e process_scheme"
  let ?s = "s\<lparr>began := Some (tx_now s i)\<rparr>"
  let ?m = "bind m (\<lambda>x. bind commit (\<lambda>lost. ret (x, lost)))"
  have "footprint T ?m" by (intro foot.rules assms footprint_commit)
  then have "footstep T ?s (snd (?m ?s))" by (simp add: stays_def)
  then show "footstep T s (snd (if or_fault (outside s) i then (Inl Defect, s)
     else case ?m ?s of
        (Inl e, s') \<Rightarrow> (Inl e, s'\<lparr>store := store s, began := began s\<rparr>)
      | (Inr (x, lost), s') \<Rightarrow> (if lost then Inl Defect else Inr x, s'\<lparr>began := began s\<rparr>)))"
    by (auto simp: footstep_def split: prod.splits sum.splits)
qed

lemma footprint_lock: "footprint T m \<Longrightarrow> footprint T (withMachineLock m)"
  unfolding withMachineLock_def by (intro foot.rules footprint_tryLock)

lemmas footprint_rules = foot.rules footprint_observe footprint_query footprint_randomToken footprint_databaseTime footprint_wallTime
  footprint_randomUUID footprint_tryLock footprint_commit footprint_reply footprint_new_id
  footprint_exec footprint_run footprint_enqueue footprint_transaction footprint_lock

section \<open>Laws of accepted writes\<close>

text \<open>An invariant of the database that every accepted statement of a footprint keeps.\<close>

locale write_invariant =
  fixes T :: "stmt_tag set" and I :: "db \<Rightarrow> bool"
  assumes kept: "writes_in T d d' \<Longrightarrow> I d \<Longrightarrow> I d'"
begin

lemma wrote: "wrote_in T d d' \<Longrightarrow> I d \<Longrightarrow> I d'"
  by (induction rule: rtranclp_induct) (auto intro: kept)

lemma footstep: "footstep T s s' \<Longrightarrow> I (store s) \<Longrightarrow> I (store s')"
  by (auto simp: footstep_def intro: wrote)

end

text \<open>A relation between earlier and later databases that every accepted statement obeys.\<close>

locale write_law =
  fixes T :: "stmt_tag set" and R :: "db \<Rightarrow> db \<Rightarrow> bool"
  assumes law_refl: "R d d"
    and law_trans: "R d e \<Longrightarrow> R e f \<Longrightarrow> R d f"
    and law: "writes_in T d d' \<Longrightarrow> R d d'"
begin

lemma wrote: "wrote_in T d d' \<Longrightarrow> R d d'"
  by (induction rule: rtranclp_induct) (auto intro: law_refl law_trans law)

lemma footstep: "footstep T s s' \<Longrightarrow> R (store s) (store s')"
  by (auto simp: footstep_def intro: wrote)

end

end
