(* ===== verification/Auth.thy ===== *)
theory Auth
  imports Footprint
begin

text \<open>
  \<^verbatim>\<open>apps/control/src/auth.ts\<close> and \<^verbatim>\<open>access-closure.ts\<close>: bearer credentials are delegated grants.
  An authority is loaded by walking the ancestry of a grant, at most 32 levels, and every grant of
  the chain must be unrevoked and unexpired. SHA-256 is a parameter of the definitions that hash.
\<close>

section \<open>Closing access (access-closure.ts)\<close>

fun closed_connection :: "access_connection \<Rightarrow> bool" where
  "closed_connection (Closed_connection c r t) = True"
| "closed_connection (Open_connection c) = False"

fun close_connection :: "close_reason \<Rightarrow> instant \<Rightarrow> access_connection \<Rightarrow> access_connection" where
  "close_connection reason stamp (Open_connection c) = Closed_connection c reason stamp"
| "close_connection reason stamp (Closed_connection c r t) = Closed_connection c r t"

definition close :: "id \<Rightarrow> (session_row \<Rightarrow> bool) \<Rightarrow> close_reason \<Rightarrow> ('e, unit) tx" where
  "close account selection reason = bind databaseTime (\<lambda>stamp.
     run (Update_sessions
       (\<lambda>s. as_accountId s = account \<and> \<not> closed_connection (as_connection s) \<and> selection s)
       (\<lambda>s. s\<lparr>as_connection := close_connection reason stamp (as_connection s)\<rparr>)))"

text \<open>The recursive query of \<open>closeGrantAccess\<close>: the grant and its descendants, level by level.\<close>

definition grant_children :: "grant_row list \<Rightarrow> id \<Rightarrow> id list \<Rightarrow> id list" where
  "grant_children gs account parents = map gr_id (filter (\<lambda>g. gr_accountId g = account
     \<and> (case gr_parentId g of None \<Rightarrow> False | Some p \<Rightarrow> p \<in> set parents)) gs)"

fun grant_levels :: "grant_row list \<Rightarrow> id \<Rightarrow> id list \<Rightarrow> nat \<Rightarrow> id list" where
  "grant_levels gs account frontier 0 = frontier"
| "grant_levels gs account frontier (Suc n) =
     frontier @ grant_levels gs account (grant_children gs account frontier) n"

definition grant_subtree :: "grant_row list \<Rightarrow> id \<Rightarrow> id \<Rightarrow> id list" where
  "grant_subtree gs account i =
     grant_levels gs account (map gr_id (filter (\<lambda>g. gr_id g = i \<and> gr_accountId g = account) gs)) 31"

definition closeGrantAccess :: "id \<Rightarrow> id \<Rightarrow> ('e, unit) tx" where
  "closeGrantAccess account grant = bind (query (\<lambda>d. grant_subtree (grants d) account grant)) (\<lambda>subtree.
     close account (\<lambda>s. as_grantId s \<in> set subtree) Authorization_changed)"

definition closeMachineAccess :: "id \<Rightarrow> id \<Rightarrow> ('e, unit) tx" where
  "closeMachineAccess account machine =
     close account (\<lambda>s. as_machineId s = machine) Target_changed"

section \<open>Authority\<close>

record authority =
  au_principal :: principal
  au_checkedAt :: instant
  au_expiresAt :: instant
  au_delegationDepth :: nat

text \<open>The recursive query of \<open>loadAuthority\<close>: the grant, its parent and so on, leaf first.\<close>

fun ancestry :: "grant_row list \<Rightarrow> id \<Rightarrow> nat \<Rightarrow> grant_row list" where
  "ancestry gs i 0 = []"
| "ancestry gs i (Suc n) = (case select_one (\<lambda>g. gr_id g = i) gs of
     None \<Rightarrow> []
   | Some g \<Rightarrow> g # (case gr_parentId g of None \<Rightarrow> [] | Some p \<Rightarrow> ancestry gs p n))"

text \<open>The loop over the chain: \<open>None\<close> is the thrown \<open>unauthenticated\<close>, otherwise the earliest
  expiry and the identifier expected after the last grant.\<close>

fun check_chain :: "id \<Rightarrow> instant \<Rightarrow> id list \<Rightarrow> id option \<Rightarrow> instant \<Rightarrow> grant_row list \<Rightarrow> (instant \<times> id option) option" where
  "check_chain account checkedAt seen expected earliest [] = Some (earliest, expected)"
| "check_chain account checkedAt seen expected earliest (current # rest) =
     (if gr_id current \<in> set seen \<or> Some (gr_id current) \<noteq> expected \<or> gr_accountId current \<noteq> account
         \<or> gr_revokedAt current \<noteq> None \<or> gr_expiresAt current \<le> checkedAt
      then None
      else check_chain account checkedAt (gr_id current # seen) (gr_parentId current)
             (if gr_expiresAt current < earliest then gr_expiresAt current else earliest) rest)"

definition principal_of :: "grant_row \<Rightarrow> principal" where
  "principal_of leaf = \<lparr>accountId = gr_accountId leaf, grantId = gr_id leaf, policy = gr_policy leaf\<rparr>"

definition authority_of :: "instant \<Rightarrow> id \<Rightarrow> grant_row list \<Rightarrow> authority option" where
  "authority_of checkedAt grant chain =
     (case chain of
        [] \<Rightarrow> None
      | leaf # _ \<Rightarrow>
          (case check_chain (gr_accountId leaf) checkedAt [] (Some grant) (gr_expiresAt leaf) chain of
             Some (earliest, None) \<Rightarrow>
               Some \<lparr>au_principal = principal_of leaf, au_checkedAt = checkedAt,
                     au_expiresAt = earliest, au_delegationDepth = length chain\<rparr>
           | _ \<Rightarrow> None))"

definition loadAuthority :: "id \<Rightarrow> ('e, authority) tx" where
  "loadAuthority grant = bind
     (observe (\<lambda>now clock d. authority_of clock grant (ancestry (grants d) grant 32)))
     (present Unauthenticated)"

definition loadPrincipal :: "id \<Rightarrow> ('e, principal) tx" where
  "loadPrincipal grant = bind (loadAuthority grant) (\<lambda>a. ret (au_principal a))"

definition bearer_ok :: "string \<Rightarrow> bool" where
  "bearer_ok s \<longleftrightarrow> length s = 55 \<and> take 12 s = ''Bearer acld_'' \<and> list_all is_token_char (drop 12 s)"

definition authenticate :: "(string \<Rightarrow> string) \<Rightarrow> string option \<Rightarrow> ('e, principal) tx" where
  "authenticate sha256 authorization =
     (case authorization of
        None \<Rightarrow> throw Unauthenticated
      | Some header \<Rightarrow>
          if \<not> bearer_ok header then throw Unauthenticated
          else bind (query (\<lambda>d. select_one (\<lambda>g. gr_tokenHash g = sha256 (drop 7 header)) (grants d))) (\<lambda>row.
            bind (present Unauthenticated row) (\<lambda>g. loadPrincipal (gr_id g))))"

definition authorize :: "principal \<Rightarrow> capability \<Rightarrow> id option \<Rightarrow> failure + unit" where
  "authorize p cap project =
     (if cap \<notin> set (capabilities (policy p)) then Inl (cloud_error Permission_denied)
      else (case (project, policy_projects (policy p)) of
              (Some i, Selected_projects ids) \<Rightarrow>
                if i \<notin> set ids then Inl (cloud_error Not_found) else Inr ()
            | _ \<Rightarrow> Inr ()))"

definition projects_allowed :: "project_scope \<Rightarrow> project_scope \<Rightarrow> bool" where
  "projects_allowed child parent =
     (case parent of
        All_projects \<Rightarrow> True
      | Selected_projects allowed \<Rightarrow>
          (case child of
             All_projects \<Rightarrow> False
           | Selected_projects ids \<Rightarrow> list_all (\<lambda>i. i \<in> set allowed) ids))"

definition assertPolicySubset :: "grant_policy \<Rightarrow> grant_policy \<Rightarrow> failure + unit" where
  "assertPolicySubset child parent =
     (if \<not> projects_allowed (policy_projects child) (policy_projects parent)
         \<or> policy_currency child \<noteq> policy_currency parent
         \<or> list_ex (\<lambda>c. c \<notin> set (capabilities parent)) (capabilities child)
         \<or> list_ex (\<lambda>s. s \<notin> set (sizes parent)) (sizes child)
         \<or> list_ex (\<lambda>r. r \<notin> set (regions parent)) (regions child)
         \<or> policy_maxMachines parent < policy_maxMachines child
         \<or> policy_maxHourlyMicros parent < policy_maxHourlyMicros child
      then Inl (cloud_error Permission_denied) else Inr ())"

record issued_grant =
  ig_id :: id
  ig_token :: string
  ig_expiresAt :: instant

definition generateToken :: "('e, string) tx" where
  "generateToken = bind randomToken (\<lambda>t. ret (''acld_'' @ t))"

definition issueGrant :: "(string \<Rightarrow> string) \<Rightarrow> principal \<Rightarrow> string \<Rightarrow> grant_policy \<Rightarrow> instant \<Rightarrow> ('e, issued_grant) tx" where
  "issueGrant sha256 actor name pol expires =
     bind (loadAuthority (grantId actor)) (\<lambda>authority.
     bind (pure_of (authorize (au_principal authority) Grant_manage None)) (\<lambda>_.
     bind (unless (au_delegationDepth authority < 32) Permission_denied) (\<lambda>_.
     bind (pure_of (assertPolicySubset pol (policy (au_principal authority)))) (\<lambda>_.
     bind (unless (\<not> (au_expiresAt authority < expires \<or> expires \<le> au_checkedAt authority)) Invalid_input) (\<lambda>_.
     bind (new_id Grant_id) (\<lambda>i.
     bind generateToken (\<lambda>token.
     bind (parsed (if grant_policy_ok pol then Some pol else None)) (\<lambda>checked.
     bind (run (Insert_grant
       \<lparr>gr_id = i, gr_accountId = accountId (au_principal authority),
        gr_parentId = Some (grantId (au_principal authority)), gr_name = name,
        gr_tokenHash = sha256 token, gr_policy = checked, gr_expiresAt = expires,
        gr_revokedAt = None, gr_createdAt = 0\<rparr>)) (\<lambda>_.
     ret \<lparr>ig_id = i, ig_token = token, ig_expiresAt = expires\<rparr>)))))))))"

text \<open>The ancestor walk of \<open>revokeGrant\<close>, for at most \<open>fuel\<close> steps.\<close>

fun is_descendant :: "nat \<Rightarrow> principal \<Rightarrow> id option \<Rightarrow> ('e, bool) tx" where
  "is_descendant 0 actor current = ret False"
| "is_descendant (Suc fuel) actor current =
     (case current of
        None \<Rightarrow> ret False
      | Some i \<Rightarrow>
          if i = grantId actor then ret True
          else bind (query (\<lambda>d. select_one (\<lambda>g. gr_id g = i \<and> gr_accountId g = accountId actor) (grants d))) (\<lambda>row.
            is_descendant fuel actor (case row of None \<Rightarrow> None | Some g \<Rightarrow> gr_parentId g)))"

definition revokeGrant :: "principal \<Rightarrow> id \<Rightarrow> ('e, unit) tx" where
  "revokeGrant actor grant =
     bind (if grant \<noteq> grantId actor then pure_of (authorize actor Grant_manage None) else ret ()) (\<lambda>_.
     bind (is_descendant 32 actor (Some grant)) (\<lambda>descendant.
     bind (unless descendant Not_found) (\<lambda>_.
     bind databaseTime (\<lambda>stamp.
     bind (run (Update_grants (\<lambda>g. gr_id g = grant \<and> gr_accountId g = accountId actor)
                 (\<lambda>g. g\<lparr>gr_revokedAt := Some stamp\<rparr>))) (\<lambda>_.
     bind (run (Insert_audit \<lparr>au_accountId = accountId actor, au_subjectId = grant,
                              au_event = Grant_revoked (grantId actor)\<rparr>)) (\<lambda>_.
     closeGrantAccess (accountId actor) grant))))))"

record grant_record =
  gv_id :: id
  gv_parentId :: id
  gv_name :: string
  gv_policy :: grant_policy
  gv_expiresAt :: instant
  gv_revokedAt :: "instant option"
  gv_createdAt :: instant

definition grant_view :: "grant_row \<Rightarrow> grant_record" where
  "grant_view g = \<lparr>gv_id = gr_id g, gv_parentId = the (gr_parentId g), gv_name = gr_name g,
     gv_policy = gr_policy g, gv_expiresAt = gr_expiresAt g, gv_revokedAt = gr_revokedAt g,
     gv_createdAt = gr_createdAt g\<rparr>"

text \<open>The recursive query of \<open>listGrants\<close>: children of the frontier, for at most 31 levels.\<close>

fun descendant_rows :: "grant_row list \<Rightarrow> id \<Rightarrow> id list \<Rightarrow> nat \<Rightarrow> grant_row list" where
  "descendant_rows gs account frontier 0 = []"
| "descendant_rows gs account frontier (Suc n) =
     (let level = filter (\<lambda>g. gr_accountId g = account
            \<and> (case gr_parentId g of None \<Rightarrow> False | Some p \<Rightarrow> p \<in> set frontier)) gs
      in level @ descendant_rows gs account (map gr_id level) n)"

definition listed_rows :: "grant_row list \<Rightarrow> principal \<Rightarrow> id option \<Rightarrow> grant_row list" where
  "listed_rows gs actor after = take 101 (sort_key gr_id
     (filter (\<lambda>g. gr_id g \<noteq> grantId actor \<and> (case after of None \<Rightarrow> True | Some a \<Rightarrow> a < gr_id g))
       (descendant_rows gs (accountId actor) [grantId actor] 31)))"

definition listGrants :: "principal \<Rightarrow> id option \<Rightarrow> ('e, grant_record list \<times> id option) tx" where
  "listGrants actor after =
     bind (pure_of (authorize actor Grant_manage None)) (\<lambda>_.
     bind (query (\<lambda>d. listed_rows (grants d) actor after)) (\<lambda>rows.
     (let page = map grant_view (take 100 rows)
      in ret (page, if 100 < length rows then map_option gv_id (last_option page) else None))))"

end
