(* ===== verification/Provider.thy ===== *)
theory Provider
  imports Effects
begin

text \<open>
  The interface \<^verbatim>\<open>MachineProvider\<close> of \<^verbatim>\<open>packages/contracts/src/provider.ts\<close> and the deployment
  limits of the configuration. A provider is a record of operations on a state of its own type;
  nothing is assumed about it unless a theorem says so. It may throw, answer wrongly, lose
  replies or change between calls.
\<close>

record 'p machine_provider =
  mp_kind :: provider_kind
  mp_getCatalog :: "('p, catalog) port"
  mp_submit :: "id \<Rightarrow> provider_command \<Rightarrow> ('p, submission) port"
  mp_getAction :: "string \<Rightarrow> ('p, provider_action) port"
  mp_getServer :: "string \<Rightarrow> ('p, provider_server option) port"
  mp_findServers :: "labels \<Rightarrow> ('p, provider_server list) port"
  mp_getPrimaryIp :: "string \<Rightarrow> ('p, provider_primary_ip option) port"
  mp_findPrimaryIps :: "labels \<Rightarrow> ('p, provider_primary_ip list) port"

record limits =
  lim_maxMachines :: int
  lim_currency :: currency
  lim_maxHourlyMicros :: micros

text \<open>A consultation asks code outside the model (guest provisioning), which may read the database and
  act on the outside world but writes no table of this model.\<close>

type_synonym ('p, 'a) consultation = "instant \<Rightarrow> db \<Rightarrow> 'p \<Rightarrow> (exn + 'a) \<times> 'p"

definition consult :: "('p, 'a) consultation \<Rightarrow> ('p, 'a) act" where
  "consult f = bind (prim (\<lambda>i s. (let (r, p) = f (or_clock (outside s) i) (store s) (cloud s)
     in (Inr r, s\<lparr>cloud := p\<rparr>)))) reply"

text \<open>\<open>Config['limits']\<close> also carries provider specific settings that the modelled code does not
  read.\<close>

end
