(* ===== verification/Journal.thy ===== *)
theory Journal
  imports Auth Provider
begin

text \<open>
  \<^verbatim>\<open>apps/control/src/resource-journal.ts\<close>, \<^verbatim>\<open>effect-journal.ts\<close> and \<open>authorizeCommand\<close> of
  \<^verbatim>\<open>lifecycle.ts\<close>: every provider effect is authorized and written to the attempt journal in one
  transaction, then submitted, then its outcome is recorded; a later evaluation compares the
  provider's answers with the journal and resolves the attempt.
\<close>

section \<open>Authorizing a command (lifecycle.ts)\<close>

definition check :: "bool \<Rightarrow> error_code \<Rightarrow> failure + unit" where
  "check b c = (if b then Inr () else Inl (cloud_error c))"

definition also_check :: "failure + unit \<Rightarrow> failure + unit \<Rightarrow> failure + unit" where
  "also_check a b = (case a of Inl e \<Rightarrow> Inl e | Inr u \<Rightarrow> b)"

fun authorizeCommand :: "principal \<Rightarrow> id \<Rightarrow> lifecycle_command \<Rightarrow> failure + unit" where
  "authorizeCommand p project (Create spec) =
     also_check (authorize p Machine_create (Some project))
       (check (spec_size spec \<in> set (sizes (policy p)) \<and> spec_region spec \<in> set (regions (policy p)))
          Permission_denied)"
| "authorizeCommand p project (Action (Destroy v allowDataLoss)) =
     also_check (authorize p Machine_destroy (Some project))
       (also_check (check allowDataLoss Data_loss_not_authorized)
          (authorize p Machine_destroy_data_loss (Some project)))"
| "authorizeCommand p project (Action (Resize v s)) =
     also_check (authorize p Machine_operate (Some project))
       (check (s \<in> set (sizes (policy p))) Permission_denied)"
| "authorizeCommand p project (Action (Reboot v)) = authorize p Machine_operate (Some project)"
| "authorizeCommand p project (Action (Power_on v)) = authorize p Machine_operate (Some project)"
| "authorizeCommand p project (Action (Power_off v)) = authorize p Machine_operate (Some project)"

text \<open>A string is falsy when it is \<open>null\<close> or empty.\<close>

definition nonempty :: "string option \<Rightarrow> string option" where
  "nonempty x = (if x = Some [] then None else x)"

section \<open>Owned resources (resource-journal.ts)\<close>

definition allocationLabels :: "operation \<Rightarrow> allocation_row \<Rightarrow> labels" where
  "allocationLabels op a = [(''managed_by'', ''agent-cloud''), (''account_id'', op_accountId op),
     (''machine_id'', op_machineId op), (''allocation_id'', al_id a)]"

definition effectLabels :: "operation \<Rightarrow> allocation_row \<Rightarrow> labels" where
  "effectLabels op a = allocationLabels op a @ [(''operation_id'', op_id op)]"

definition matchesLabels :: "labels \<Rightarrow> labels \<Rightarrow> bool" where
  "matchesLabels value expected = list_all (\<lambda>(k, l). label_of value k = Some l) expected"

definition ownedRef :: "resource_row \<Rightarrow> resource_ref" where
  "ownedRef r = \<lparr>ref_kind = pr_kind r, ref_id = pr_providerId r\<rparr>"

definition ownedLabels :: "resource_row \<Rightarrow> labels" where
  "ownedLabels r = pr_labels r"

definition server_ref :: "string \<Rightarrow> resource_ref" where
  "server_ref i = \<lparr>ref_kind = Server, ref_id = i\<rparr>"

definition ip_ref :: "string \<Rightarrow> resource_ref" where
  "ip_ref i = \<lparr>ref_kind = Primary_ip, ref_id = i\<rparr>"

definition is_row :: "provider_kind \<Rightarrow> resource_ref \<Rightarrow> resource_row \<Rightarrow> bool" where
  "is_row provider ref r \<longleftrightarrow> pr_provider r = provider \<and> pr_kind r = ref_kind ref
     \<and> pr_providerId r = ref_id ref"

definition audit :: "id \<Rightarrow> id \<Rightarrow> audit_event \<Rightarrow> ('e, unit) tx" where
  "audit account subject event =
     run (Insert_audit \<lparr>au_accountId = account, au_subjectId = subject, au_event = event\<rparr>)"

definition claimResource :: "allocation_row \<Rightarrow> resource_ref \<Rightarrow> labels \<Rightarrow> ('e, unit) tx" where
  "claimResource a ref ls =
     bind (run (Insert_resource \<lparr>pr_provider = al_provider a, pr_kind = ref_kind ref,
       pr_providerId = ref_id ref, pr_accountId = al_accountId a, pr_allocationId = al_id a,
       pr_labels = ls, pr_absentAt = None, pr_createdAt = 0\<rparr>)) (\<lambda>_.
     bind (query (\<lambda>d. select_one (is_row (al_provider a) ref) (resources d))) (\<lambda>stored.
     bind (unless (case stored of None \<Rightarrow> False
         | Some r \<Rightarrow> pr_allocationId r = al_id a \<and> pr_accountId r = al_accountId a \<and> pr_absentAt r = None)
       Provider_outcome_unknown) (\<lambda>_.
     onlyIf (ref_kind ref = Server)
       (run (Update_allocations (\<lambda>x. al_id x = al_id a) (\<lambda>x. x\<lparr>al_serverId := Some (ref_id ref)\<rparr>))))))"

definition recordAbsence :: "allocation_row \<Rightarrow> resource_ref \<Rightarrow> ('e, unit) tx" where
  "recordAbsence a ref =
     bind wallTime (\<lambda>now.
     bind (exec (Update_resources
       (\<lambda>r. is_row (al_provider a) ref r \<and> pr_allocationId r = al_id a
          \<and> pr_accountId r = al_accountId a \<and> pr_absentAt r = None)
       (\<lambda>r. r\<lparr>pr_absentAt := Some now\<rparr>))) (\<lambda>changed.
     onlyIf (0 < changed) (audit (al_accountId a) (al_id a) (Absence_confirmed ref))))"

definition cleanupDeleteLimit :: "id \<Rightarrow> provider_command \<Rightarrow> ('e, int) tx" where
  "cleanupDeleteLimit op command =
     bind (query (\<lambda>d. cleanup_delete_limit d op command)) (\<lambda>limit.
     bind (unless (3 \<le> limit) Internal_error) (\<lambda>_. ret limit))"

section \<open>Journaling an effect (effect-journal.ts)\<close>

definition setProgress :: "operation \<Rightarrow> operation_progress \<Rightarrow> ('e, unit) tx" where
  "setProgress op progress = transaction
     (bind (exec (Update_operations (\<lambda>p. op_id p = op_id op \<and> op_progress p \<noteq> progress)
                    (\<lambda>p. p\<lparr>op_progress := progress\<rparr>))) (\<lambda>changed.
      onlyIf (0 < changed) (audit (op_accountId op) (op_id op) (Operation_progressed progress))))"

fun resourceKind :: "provider_command \<Rightarrow> resource_kind" where
  "resourceKind (Create_primary_ip n r l) = Primary_ip"
| "resourceKind (Delete_primary_ip i) = Primary_ip"
| "resourceKind _ = Server"

datatype effect_authority = Fresh | Ip_cleanup | Admitted_cleanup

fun monetary :: "provider_command \<Rightarrow> bool" where
  "monetary (Create_primary_ip n r l) = True"
| "monetary (Create_server n t r l w) = True"
| "monetary (Create_guest n t r l w b) = True"
| "monetary (Resize_server s t) = True"
| "monetary (Enable_backup s) = True"
| "monetary _ = False"

definition parseOffer :: "catalog_item option \<Rightarrow> ('s, catalog_item) prog" where
  "parseOffer offer = parsed (case offer of None \<Rightarrow> None
     | Some i \<Rightarrow> if catalog_item_ok i then Some i else None)"

definition checkPrice :: "'p machine_provider \<Rightarrow> operation \<Rightarrow> allocation_row \<Rightarrow> ('p, unit) act" where
  "checkPrice P op a =
     bind (query (\<lambda>d. operation_in d (op_id op))) (\<lambda>stored.
     bind (parseOffer (Option.bind stored op_offer)) (\<lambda>offer.
     bind (call (mp_getCatalog P)) (\<lambda>catalog.
     bind wallTime (\<lambda>now.
     bind (pure_of (selectOffer catalog (item_size offer) (item_region offer) now)) (\<lambda>current.
     bind (unless (cat_provider catalog = al_provider a \<and> serverType current = serverType offer
         \<and> architecture_of current = architecture_of offer \<and> diskGb current = diskGb offer)
       Capacity_unavailable) (\<lambda>_.
     unless (item_currency current = item_currency offer
         \<and> item_hourlyMicros current \<le> item_hourlyMicros offer) Budget_exceeded))))))"

definition boots :: "operation_kind \<Rightarrow> bool" where
  "boots k \<longleftrightarrow> k = Op_create \<or> k = Op_reboot \<or> k = Op_power_on"

definition active_allocations :: "db \<Rightarrow> allocation_row list" where
  "active_allocations d = filter live (allocations d)"

definition owned_by :: "id \<Rightarrow> allocation_row list \<Rightarrow> allocation_row list" where
  "owned_by account as = filter (\<lambda>a. al_accountId a = account) as"

definition within_limits :: "limits \<Rightarrow> account_row \<Rightarrow> principal \<Rightarrow> currency \<Rightarrow> allocation_row list \<Rightarrow> bool" where
  "within_limits limits account p cur global \<longleftrightarrow>
     lim_currency limits = cur \<and> acc_currency account = cur \<and> policy_currency (policy p) = cur
     \<and> list_all (\<lambda>a. al_currency a = cur) global
     \<and> int (length global) \<le> lim_maxMachines limits
     \<and> total al_hourlyMicros global \<le> lim_maxHourlyMicros limits
     \<and> int (length (owned_by (acc_id account) global))
         \<le> min (acc_maxMachines account) (policy_maxMachines (policy p))
     \<and> total al_hourlyMicros (owned_by (acc_id account) global)
         \<le> min (acc_maxHourlyMicros account) (policy_maxHourlyMicros (policy p))"

definition boot_deadline :: "id \<Rightarrow> ('e, unit) tx" where
  "boot_deadline i =
     bind (observe (\<lambda>now clock d. map_option (\<lambda>p. op_createdAt p + 1800000 \<le> now) (operation_in d i)))
       (\<lambda>deadline. unless (deadline = Some False) Provider_rejected)"

definition authorizeFresh :: "provider_kind \<Rightarrow> limits \<Rightarrow> operation \<Rightarrow> provider_command \<Rightarrow> account_row \<Rightarrow> operation_row \<Rightarrow> ('e, unit) tx" where
  "authorizeFresh provider limits op command account stored =
     bind (unless (case op_intent stored of Cleanup i \<Rightarrow> False | _ \<Rightarrow> True) Resource_busy) (\<lambda>_.
     bind (query (\<lambda>d. cleanup_in d (op_id op))) (\<lambda>cleanup.
     bind (unless (cleanup = None) Resource_busy) (\<lambda>_.
     bind (onlyIf (provider = Hetzner \<and> boots (op_kind op)) (boot_deadline (op_id op))) (\<lambda>_.
     bind (loadPrincipal (op_grantId op)) (\<lambda>p.
     bind (pure_of (authorizeCommand p (op_projectId op) (op_command stored))) (\<lambda>_.
     onlyIf (monetary command)
       (bind (parseOffer (op_offer stored)) (\<lambda>offer.
        bind (query active_allocations) (\<lambda>global.
        unless (within_limits limits account p (item_currency offer) global) Budget_exceeded)))))))))"

definition owns_target :: "allocation_row \<Rightarrow> resource_kind \<Rightarrow> string \<Rightarrow> resource_row \<Rightarrow> bool" where
  "owns_target a kind i r \<longleftrightarrow> pr_allocationId r = al_id a \<and> pr_accountId r = al_accountId a
     \<and> pr_provider r = al_provider a \<and> pr_kind r = kind \<and> pr_providerId r = i \<and> pr_absentAt r = None"

definition authorizeCleanup :: "operation \<Rightarrow> allocation_row \<Rightarrow> provider_command \<Rightarrow> ('e, unit) tx" where
  "authorizeCleanup op a command =
     bind (query (\<lambda>d. select_one (\<lambda>c. cu_operationId c = op_id op \<and> cu_accountId c = al_accountId a
        \<and> cu_allocationId c = al_id a) (cleanups d))) (\<lambda>cleanup.
     case (cleanup, deletion_target command) of
       (Some c, Some (kind, i)) \<Rightarrow>
         bind (query (\<lambda>d. select_one (owns_target a kind i) (resources d))) (\<lambda>owned.
         unless (owned \<noteq> None) Permission_denied)
     | _ \<Rightarrow> throw Permission_denied)"

definition authorizeEffect :: "provider_kind \<Rightarrow> limits \<Rightarrow> operation \<Rightarrow> allocation_row \<Rightarrow> provider_command \<Rightarrow> effect_authority \<Rightarrow> account_row \<Rightarrow> operation_row \<Rightarrow> ('e, unit) tx" where
  "authorizeEffect provider limits op a command authority account stored =
     (case authority of
        Fresh \<Rightarrow> authorizeFresh provider limits op command account stored
      | Admitted_cleanup \<Rightarrow> authorizeCleanup op a command
      | Ip_cleanup \<Rightarrow> unless (command_primaryIpId command \<noteq> None) Internal_error)"

text \<open>\<open>pg_advisory_xact_lock\<close>: waits until the lock is free.\<close>

definition advisoryLock :: "('e, unit) tx" where
  "advisoryLock = observe (\<lambda>now clock d. ())"

text \<open>The journaling transaction: authorization, the prepared attempt and the operation's progress
  commit together.\<close>

definition prepareAttempt :: "provider_kind \<Rightarrow> limits \<Rightarrow> operation \<Rightarrow> allocation_row \<Rightarrow> provider_command \<Rightarrow> effect_authority \<Rightarrow> ('e, id) tx" where
  "prepareAttempt provider limits op a command authority = transaction
     (bind advisoryLock (\<lambda>_.
      bind (query (\<lambda>d. select_one (\<lambda>x. acc_id x = op_accountId op) (accounts d))) (\<lambda>found.
      bind (present Internal_error found) (\<lambda>account.
      bind (query (\<lambda>d. operation_in d (op_id op))) (\<lambda>row.
      bind (present Internal_error row) (\<lambda>stored.
      bind (authorizeEffect provider limits op a command authority account stored) (\<lambda>_.
      bind (query (\<lambda>d. length (filter (\<lambda>e. at_operationId e = op_id op) (attempts d)))) (\<lambda>prior.
      bind (new_id Attempt_id) (\<lambda>i.
      bind (run (Insert_attempt \<lparr>at_id = i, at_accountId = op_accountId op, at_operationId = op_id op,
        at_sequence = int prior + 1, at_command = command, at_outcome = Prepared,
        at_resolution = Res_pending, at_createdAt = 0\<rparr>)) (\<lambda>_.
      bind (run (Update_operations (\<lambda>p. op_id p = op_id op) (\<lambda>p. p\<lparr>op_progress := Submitting i\<rparr>))) (\<lambda>_.
      ret i)))))))))))"

definition submitAttempt :: "'p machine_provider \<Rightarrow> id \<Rightarrow> provider_command \<Rightarrow> ('p, submission) act" where
  "submitAttempt P i command =
     catch_any (call_submit (mp_submit P i command) i command) (ret Sub_unknown)"

definition recordOutcome :: "id \<Rightarrow> submission \<Rightarrow> ('e, unit) tx" where
  "recordOutcome i outcome =
     run (Update_attempts (\<lambda>e. at_id e = i) (\<lambda>e. e\<lparr>at_outcome := outcome_of outcome\<rparr>))"

fun submission_resource :: "submission \<Rightarrow> resource_ref option" where
  "submission_resource (Sub_accepted r a) = Some r"
| "submission_resource (Sub_completed r) = Some r"
| "submission_resource _ = None"

definition claimOutcome :: "allocation_row \<Rightarrow> provider_command \<Rightarrow> submission \<Rightarrow> ('e, unit) tx" where
  "claimOutcome a command outcome = transaction
     (case (submission_resource outcome, command_labels command) of
        (Some ref, Some ls) \<Rightarrow> onlyIf (ref_kind ref = resourceKind command) (claimResource a ref ls)
      | _ \<Rightarrow> ret ())"

definition journalEffect :: "'p machine_provider \<Rightarrow> limits \<Rightarrow> operation \<Rightarrow> allocation_row \<Rightarrow> provider_command \<Rightarrow> effect_authority \<Rightarrow> ('p, unit) act" where
  "journalEffect P limits op a command authority =
     bind (onlyIf (monetary command) (checkPrice P op a)) (\<lambda>_.
     bind (prepareAttempt (mp_kind P) limits op a command authority) (\<lambda>i.
     bind (submitAttempt P i command) (\<lambda>outcome.
     bind (recordOutcome i outcome) (\<lambda>_.
     claimOutcome a command outcome))))"

end
