(* ===== verification/Resolution.thy ===== *)
theory Resolution
  imports Journal
begin

text \<open>
  \<open>evaluate\<close> and \<open>resolveEffect\<close> of \<^verbatim>\<open>apps/control/src/effect-journal.ts\<close>: what the provider's
  answers say about a journaled attempt, and the transaction that records it once.
\<close>

datatype evaluation = Eval_confirmed resource_observation | Eval_failed failure
  | Eval_pending operation_progress

definition blocked :: "blocked_reason \<Rightarrow> evaluation" where
  "blocked reason = Eval_pending (Blocked reason)"

definition mismatch :: evaluation where
  "mismatch = blocked Blocked_resource_mismatch"

section \<open>Absence that settles a recovering deletion\<close>

fun deletes_server :: "provider_command \<Rightarrow> string option" where
  "deletes_server (Destroy_server s) = Some s"
| "deletes_server (Enable_backup s) = Some s"
| "deletes_server _ = None"

definition settledAbsence :: "'p machine_provider \<Rightarrow> bool \<Rightarrow> provider_command \<Rightarrow> ('p, resource_ref option) act" where
  "settledAbsence P recovering command =
     (if \<not> recovering then ret None
      else (case (deletes_server command, command_primaryIpId command) of
              (Some s, _) \<Rightarrow> bind (call (mp_getServer P s)) (\<lambda>found.
                ret (if found = None then Some (server_ref s) else None))
            | (None, Some i) \<Rightarrow> bind (call (mp_getPrimaryIp P i)) (\<lambda>found.
                ret (if found = None then Some (ip_ref i) else None))
            | (None, None) \<Rightarrow> ret None))"

section \<open>The resource an attempt is about\<close>

text \<open>The matches of an uncertain create: identifiers and labels the provider lists.\<close>

definition findMatches :: "'p machine_provider \<Rightarrow> provider_command \<Rightarrow> labels \<Rightarrow> ('p, (string \<times> labels) list) act" where
  "findMatches P command ls =
     (if isServerCreateCommand command
      then bind (call (mp_findServers P ls)) (\<lambda>found. ret (map (\<lambda>s. (srv_id s, srv_labels s)) found))
      else bind (call (mp_findPrimaryIps P ls)) (\<lambda>found. ret (map (\<lambda>s. (ip_id s, ip_labels s)) found)))"

definition claimMatch :: "allocation_row \<Rightarrow> resource_kind \<Rightarrow> labels \<Rightarrow> bool \<Rightarrow> string \<times> labels \<Rightarrow> ('e, bool) tx" where
  "claimMatch a kind ls ownershipMismatch m =
     (if \<not> matchesLabels (snd m) ls then ret True
      else catch_cloud (bind (claimResource a \<lparr>ref_kind = kind, ref_id = fst m\<rparr> ls) (\<lambda>_. ret ownershipMismatch))
             (\<lambda>e. ret True))"

definition discover :: "'p machine_provider \<Rightarrow> allocation_row \<Rightarrow> attempt_row \<Rightarrow> labels \<Rightarrow> ('p, evaluation + resource_ref) act" where
  "discover P a attempt ls =
     (let command = at_command attempt; kind = resourceKind command in
      bind (findMatches P command ls) (\<lambda>matches.
      bind (foldM (claimMatch a kind ls) False matches) (\<lambda>ownershipMismatch.
      if ownershipMismatch then ret (Inl mismatch)
      else bind (query (\<lambda>d. length (source_resources d (al_id a) kind (at_operationId attempt)))) (\<lambda>discovered.
        if 1 < length matches \<or> 1 < discovered then ret (Inl (blocked Blocked_duplicate_resources))
        else (case matches of
                [] \<Rightarrow> ret (Inl (blocked Blocked_outcome_unknown))
              | m # _ \<Rightarrow> ret (Inr \<lparr>ref_kind = kind, ref_id = fst m\<rparr>))))))"

text \<open>The identifier a command names, where it names one.\<close>

definition command_target :: "provider_command \<Rightarrow> resource_ref option" where
  "command_target command =
     (case command_primaryIpId command of
        Some i \<Rightarrow> Some (ip_ref i)
      | None \<Rightarrow> map_option server_ref (command_serverId command))"

definition uncertain :: "attempt_outcome \<Rightarrow> bool" where
  "uncertain outcome \<longleftrightarrow> outcome = Prepared \<or> outcome = Unknown"

definition reportedResource :: "provider_command \<Rightarrow> resource_ref \<Rightarrow> evaluation + resource_ref" where
  "reportedResource command ref =
     (if ref_kind ref \<noteq> resourceKind command
         \<or> (case command_serverId command of None \<Rightarrow> False | Some s \<Rightarrow> ref_id ref \<noteq> s)
         \<or> (case command_primaryIpId command of None \<Rightarrow> False | Some i \<Rightarrow> ref_id ref \<noteq> i)
      then Inl mismatch else Inr ref)"

definition locate :: "'p machine_provider \<Rightarrow> allocation_row \<Rightarrow> attempt_row \<Rightarrow> ('p, evaluation + resource_ref) act" where
  "locate P a attempt =
     (let command = at_command attempt in
      case at_outcome attempt of
        Rejected e \<Rightarrow> ret (Inl (Eval_failed e))
      | Completed ref \<Rightarrow> ret (reportedResource command ref)
      | Accepted ref action \<Rightarrow>
          (case reportedResource command ref of
             Inl ev \<Rightarrow> ret (Inl ev)
           | Inr r \<Rightarrow> bind (call (mp_getAction P action)) (\<lambda>state.
               case state of
                 Action_running \<Rightarrow> ret (Inl (Eval_pending (Waiting_provider (at_id attempt) action r)))
               | Action_failed e \<Rightarrow> ret (Inl (Eval_failed e))
               | Action_succeeded \<Rightarrow> ret (Inr r)))
      | _ \<Rightarrow> (case command_labels command of
               Some ls \<Rightarrow> discover P a attempt ls
             | None \<Rightarrow> (case command_target command of
                          Some ref \<Rightarrow> ret (Inr ref) | None \<Rightarrow> raise Defect)))"

section \<open>Comparing the provider with the command\<close>

definition not_yet :: "bool \<Rightarrow> resource_ref \<Rightarrow> evaluation" where
  "not_yet unsure ref = (if unsure then blocked Blocked_outcome_unknown else Eval_pending (Verifying ref))"

definition judgeIp :: "bool \<Rightarrow> bool \<Rightarrow> labels \<Rightarrow> provider_command \<Rightarrow> resource_ref \<Rightarrow> provider_primary_ip option \<Rightarrow> evaluation" where
  "judgeIp recovering unsure expected command ref found =
     (if (case found of None \<Rightarrow> False | Some ip \<Rightarrow> ip_id ip \<noteq> ref_id ref) then mismatch
      else (case command of
        Delete_primary_ip i \<Rightarrow>
          (case found of
             None \<Rightarrow> Eval_confirmed (Observed_absent ref)
           | Some ip \<Rightarrow> if \<not> matchesLabels (ip_labels ip) expected \<or> ip_assignment ip \<noteq> Unassigned
                        then mismatch else not_yet unsure ref)
      | Create_primary_ip n r ls \<Rightarrow>
          (case found of
             None \<Rightarrow> if recovering \<and> \<not> unsure then Eval_confirmed (Observed_absent ref) else not_yet unsure ref
           | Some ip \<Rightarrow> if \<not> matchesLabels (ip_labels ip) ls \<or> ip_region ip \<noteq> r \<or> \<not> ip_autoDelete ip
                          \<or> ip_assignment ip \<noteq> Unassigned
                        then mismatch else Eval_confirmed (Observed_primary_ip ip))
      | _ \<Rightarrow> mismatch))"

fun network_ip :: "provider_network \<Rightarrow> string option" where
  "network_ip (Net_primary_ip i) = Some i"
| "network_ip Net_legacy = None"

definition created_as :: "provider_server \<Rightarrow> string \<Rightarrow> string \<Rightarrow> string option \<Rightarrow> bool" where
  "created_as s type region_id ip \<longleftrightarrow> srv_serverType s = type \<and> srv_region s = region_id
     \<and> srv_primaryIpId s = ip"

text \<open>The \<open>switch\<close> over the command for a server that exists and carries the right labels.\<close>

fun judgeCommand :: "bool \<Rightarrow> provider_command \<Rightarrow> resource_ref \<Rightarrow> provider_server \<Rightarrow> evaluation" where
  "judgeCommand unsure (Create_server n t r ls net) ref s =
     (if \<not> created_as s t r (network_ip net) then mismatch
      else if srv_power s \<noteq> Power_running then not_yet unsure ref else Eval_confirmed (Observed_server s))"
| "judgeCommand unsure (Create_guest n t r ls ip b) ref s =
     (if \<not> created_as s t r (Some ip) then mismatch
      else if srv_power s \<noteq> Power_running then not_yet unsure ref else Eval_confirmed (Observed_server s))"
| "judgeCommand unsure (Resize_server i t) ref s =
     (if srv_serverType s \<noteq> t then not_yet unsure ref else Eval_confirmed (Observed_server s))"
| "judgeCommand unsure (Enable_backup i) ref s =
     (if srv_backupStatus s \<noteq> Backup_enabled then not_yet unsure ref else Eval_confirmed (Observed_server s))"
| "judgeCommand unsure (Power_off_server i) ref s =
     (if srv_power s \<noteq> Power_is_off then not_yet unsure ref else Eval_confirmed (Observed_server s))"
| "judgeCommand unsure (Power_on_server i) ref s =
     (if srv_power s \<noteq> Power_running then not_yet unsure ref else Eval_confirmed (Observed_server s))"
| "judgeCommand unsure (Reboot_server i) ref s =
     (if unsure \<or> srv_power s \<noteq> Power_running then not_yet unsure ref else Eval_confirmed (Observed_server s))"
| "judgeCommand unsure (Destroy_server i) ref s = not_yet unsure ref"
| "judgeCommand unsure (Create_primary_ip n r l) ref s = mismatch"
| "judgeCommand unsure (Delete_primary_ip i) ref s = mismatch"

fun is_destroy :: "provider_command \<Rightarrow> bool" where
  "is_destroy (Destroy_server s) = True"
| "is_destroy _ = False"

definition judgeServer :: "bool \<Rightarrow> bool \<Rightarrow> labels \<Rightarrow> provider_command \<Rightarrow> resource_ref \<Rightarrow> provider_server option \<Rightarrow> evaluation" where
  "judgeServer recovering unsure expected command ref found =
     (case found of
        None \<Rightarrow> if is_destroy command then Eval_confirmed (Observed_absent ref)
                else if recovering \<and> \<not> unsure \<and> isServerCreateCommand command
                then Eval_confirmed (Observed_absent ref) else not_yet unsure ref
      | Some s \<Rightarrow>
          if srv_id s \<noteq> ref_id ref then mismatch
          else if \<not> matchesLabels (srv_labels s)
                 (if isServerCreateCommand command then the (command_labels command) else expected)
          then mismatch
          else judgeCommand unsure command ref s)"

definition inspect :: "'p machine_provider \<Rightarrow> bool \<Rightarrow> labels \<Rightarrow> attempt_row \<Rightarrow> resource_ref \<Rightarrow> ('p, evaluation) act" where
  "inspect P recovering expected attempt ref =
     (let command = at_command attempt; unsure = uncertain (at_outcome attempt) in
      if ref_kind ref = Primary_ip
      then bind (call (mp_getPrimaryIp P (ref_id ref))) (\<lambda>found.
             ret (judgeIp recovering unsure expected command ref found))
      else bind (call (mp_getServer P (ref_id ref))) (\<lambda>found.
             ret (judgeServer recovering unsure expected command ref found)))"

definition evaluate :: "'p machine_provider \<Rightarrow> allocation_row \<Rightarrow> bool \<Rightarrow> attempt_row \<Rightarrow> labels \<Rightarrow> ('p, evaluation) act" where
  "evaluate P a recovering attempt expected =
     bind (settledAbsence P recovering (at_command attempt)) (\<lambda>absent.
     case absent of
       Some ref \<Rightarrow> ret (Eval_confirmed (Observed_absent ref))
     | None \<Rightarrow> bind (locate P a attempt) (\<lambda>target.
         case target of Inl ev \<Rightarrow> ret ev | Inr ref \<Rightarrow> inspect P recovering expected attempt ref))"

section \<open>Resolving an attempt\<close>

definition checkScope :: "operation \<Rightarrow> allocation_row \<Rightarrow> attempt_row \<Rightarrow> ('e, unit) tx" where
  "checkScope op a attempt =
     bind (unless (at_accountId attempt = op_accountId op) Permission_denied) (\<lambda>_.
     onlyIf (at_operationId attempt \<noteq> op_id op)
       (bind (query (\<lambda>d. select_one (\<lambda>c. cu_operationId c = op_id op
            \<and> cu_sourceOperationId c = at_operationId attempt \<and> cu_allocationId c = al_id a
            \<and> cu_accountId c = op_accountId op) (cleanups d))) (\<lambda>cleanup.
        unless (cleanup \<noteq> None) Permission_denied)))"

definition recordObservation :: "allocation_row \<Rightarrow> labels \<Rightarrow> provider_command \<Rightarrow> resource_observation \<Rightarrow> ('e, unit) tx" where
  "recordObservation a expected command observed =
     (let ls = (case command_labels command of Some l \<Rightarrow> l | None \<Rightarrow> expected) in
      case observed of
        Observed_absent ref \<Rightarrow> recordAbsence a ref
      | Observed_server s \<Rightarrow> claimResource a (server_ref (srv_id s)) ls
      | Observed_primary_ip ip \<Rightarrow> claimResource a (ip_ref (ip_id ip)) ls)"

definition recordResolution :: "operation \<Rightarrow> attempt_row \<Rightarrow> effect_resolution \<Rightarrow> ('e, unit) tx" where
  "recordResolution op attempt res =
     bind (run (Update_attempts (\<lambda>e. at_id e = at_id attempt) (\<lambda>e. e\<lparr>at_resolution := res\<rparr>))) (\<lambda>_.
     audit (op_accountId op) (op_id op) (Effect_resolved (at_id attempt) res))"

definition recordResult :: "operation \<Rightarrow> attempt_row \<Rightarrow> ('e, unit) tx \<Rightarrow> effect_resolution \<Rightarrow> ('e, unit) tx" where
  "recordResult op attempt observation res =
     catch_cloud (transaction (bind observation (\<lambda>_. recordResolution op attempt res)))
       (\<lambda>e. setProgress op (Blocked Blocked_resource_mismatch))"

definition recordEvaluation :: "operation \<Rightarrow> allocation_row \<Rightarrow> attempt_row \<Rightarrow> labels \<Rightarrow> evaluation \<Rightarrow> ('e, unit) tx" where
  "recordEvaluation op a attempt expected ev =
     (case ev of
        Eval_pending progress \<Rightarrow> setProgress op progress
      | Eval_failed e \<Rightarrow> recordResult op attempt (ret ()) (Res_failed e)
      | Eval_confirmed observed \<Rightarrow>
          recordResult op attempt (recordObservation a expected (at_command attempt) observed)
            (Res_confirmed observed))"

definition intent_cleanup :: "operation \<Rightarrow> bool" where
  "intent_cleanup op \<longleftrightarrow> (case op_intent op of Cleanup i \<Rightarrow> True | _ \<Rightarrow> False)"

definition resolveEffect :: "'p machine_provider \<Rightarrow> operation \<Rightarrow> allocation_row \<Rightarrow> attempt_row \<Rightarrow> labels \<Rightarrow> ('p, unit) act" where
  "resolveEffect P op a attempt expected =
     (if at_resolution attempt \<noteq> Res_pending then ret ()
      else bind (checkScope op a attempt) (\<lambda>_.
        bind (catch_cloud
            (bind (evaluate P a (intent_cleanup op) attempt expected) (\<lambda>ev. ret (Some ev)))
            (\<lambda>e. if code e = Provider_unavailable then raise (Cloud e)
                 else bind (setProgress op (Blocked Blocked_resource_mismatch)) (\<lambda>_. ret None))) (\<lambda>result.
        case result of None \<Rightarrow> ret () | Some ev \<Rightarrow> recordEvaluation op a attempt expected ev)))"

end
