(* ===== verification/Machine_Cleanup.thy ===== *)
theory Machine_Cleanup
  imports Resolution
begin

text \<open>
  \<^verbatim>\<open>apps/control/src/machine-cleanup.ts\<close>: one step of the cleanup that an admitted destroy owns.
  Pending attempts are resolved first, then one owned resource that still exists is deleted, servers
  before addresses, and the allocation is retired once the provider confirmed every absence.
\<close>

definition pending_attempt :: "attempt_row \<Rightarrow> bool" where
  "pending_attempt e \<longleftrightarrow> at_resolution e = Res_pending"

definition deletion :: "provider_command \<Rightarrow> bool" where
  "deletion command = (case command of Destroy_server s \<Rightarrow> True | Delete_primary_ip i \<Rightarrow> True | _ \<Rightarrow> False)"

definition targets :: "attempt_row \<Rightarrow> resource_ref \<Rightarrow> bool" where
  "targets e ref = (if ref_kind ref = Server then at_command e = Destroy_server (ref_id ref)
     else at_command e = Delete_primary_ip (ref_id ref))"

definition delete_command :: "resource_ref \<Rightarrow> provider_command" where
  "delete_command ref = (if ref_kind ref = Server then Destroy_server (ref_id ref)
     else Delete_primary_ip (ref_id ref))"

text \<open>The row of the resource a command names.\<close>

definition names_resource :: "provider_command \<Rightarrow> resource_row \<Rightarrow> bool" where
  "names_resource command r =
     (case command_primaryIpId command of
        Some i \<Rightarrow> pr_kind r = Primary_ip \<and> pr_providerId r = i
      | None \<Rightarrow> (case command_serverId command of
                   Some s \<Rightarrow> pr_kind r = Server \<and> pr_providerId r = s | None \<Rightarrow> False))"

definition present_row :: "resource_kind \<Rightarrow> resource_row \<Rightarrow> bool" where
  "present_row kind r \<longleftrightarrow> pr_kind r = kind \<and> pr_absentAt r = None"

section \<open>Reading the cleanup\<close>

definition cleanupAuthority :: "operation \<Rightarrow> allocation_row \<Rightarrow> ('e, cleanup_row) tx" where
  "cleanupAuthority op a =
     bind (query (\<lambda>d. select_one (\<lambda>c. cu_operationId c = op_id op \<and> cu_accountId c = op_accountId op
        \<and> cu_allocationId c = al_id a) (cleanups d))) (\<lambda>found.
     bind (present Permission_denied found) (\<lambda>c.
     bind (unless (op_intent op = Cleanup (cu_sourceOperationId c)) Permission_denied) (\<lambda>_.
     ret c)))"

definition readHistory :: "operation \<Rightarrow> cleanup_row \<Rightarrow> ('e, attempt_row list) tx" where
  "readHistory op c = query (\<lambda>d. sort_key at_createdAt (sort_key at_sequence
     (filter (\<lambda>e. at_operationId e \<in> {op_id op, cu_sourceOperationId c}) (attempts d))))"

definition readResources :: "allocation_row \<Rightarrow> ('e, resource_row list) tx" where
  "readResources a = query (\<lambda>d. sort_key pr_createdAt (sort_key pr_providerId
     (filter (\<lambda>r. pr_allocationId r = al_id a) (resources d))))"

section \<open>Resolving what is pending\<close>

definition cleanup_labels :: "resource_row option \<Rightarrow> provider_command \<Rightarrow> labels" where
  "cleanup_labels target command =
     (case target of Some r \<Rightarrow> ownedLabels r
      | None \<Rightarrow> (case command_labels command of Some ls \<Rightarrow> ls | None \<Rightarrow> []))"

definition enables_backup :: "provider_command \<Rightarrow> bool" where
  "enables_backup command = (case command of Enable_backup s \<Rightarrow> True | _ \<Rightarrow> False)"

definition resolvePending :: "'p machine_provider \<Rightarrow> operation \<Rightarrow> allocation_row \<Rightarrow> resource_row list \<Rightarrow> attempt_row \<Rightarrow> ('p, unit) act" where
  "resolvePending P op a rs e =
     (let command = at_command e; target = find (names_resource command) rs in
      bind (unless (\<not> ((deletion command \<or> enables_backup command) \<and> target = None)) Permission_denied) (\<lambda>_.
      resolveEffect P op a e (cleanup_labels target command)))"

definition resolveAllPending :: "'p machine_provider \<Rightarrow> operation \<Rightarrow> allocation_row \<Rightarrow> resource_row list \<Rightarrow> attempt_row list \<Rightarrow> ('p, unit) act" where
  "resolveAllPending P op a rs history =
     foldM (\<lambda>_. resolvePending P op a rs) () (filter pending_attempt history)"

section \<open>Deleting one resource\<close>

definition pending_vm :: "attempt_row list \<Rightarrow> bool" where
  "pending_vm history = list_ex (\<lambda>e. pending_attempt e \<and> isServerCreateCommand (at_command e)) history"

definition next_target :: "bool \<Rightarrow> resource_row list \<Rightarrow> resource_row option" where
  "next_target pendingVm rs =
     (case find (present_row Server) rs of
        Some r \<Rightarrow> Some r
      | None \<Rightarrow> if pendingVm then None else find (present_row Primary_ip) rs)"

text \<open>The waits before a resource is deleted again: \<open>False\<close> ends the step.\<close>

definition retryDue :: "'p machine_provider \<Rightarrow> operation \<Rightarrow> attempt_row list \<Rightarrow> resource_ref \<Rightarrow> ('p, bool) act" where
  "retryDue P op history ref =
     (let previous = filter (\<lambda>e. targets e ref) history in
      case last_option previous of
        None \<Rightarrow> ret True
      | Some latest \<Rightarrow>
          bind (case (pending_attempt latest, at_outcome latest) of
                  (True, Accepted r action) \<Rightarrow>
                    bind (call (mp_getAction P action)) (\<lambda>state. ret (state = Action_succeeded))
                | _ \<Rightarrow> ret True) (\<lambda>settled.
          if \<not> settled then ret False
          else bind (cleanupDeleteLimit (op_id op) (delete_command ref)) (\<lambda>limit.
            if limit \<le> int (length previous)
            then bind (setProgress op (Blocked Blocked_cleanup_retry_exhausted)) (\<lambda>_. ret False)
            else bind databaseTime (\<lambda>now.
              ret (at_createdAt latest + delete_backoff (length previous) \<le> now)))))"

definition deleteResource :: "'p machine_provider \<Rightarrow> limits \<Rightarrow> operation \<Rightarrow> allocation_row \<Rightarrow> attempt_row list \<Rightarrow> resource_ref \<Rightarrow> ('p, unit) act" where
  "deleteResource P limits op a history ref =
     bind (retryDue P op history ref) (\<lambda>due.
     onlyIf due (journalEffect P limits op a (delete_command ref) Admitted_cleanup))"

definition mismatched :: "operation \<Rightarrow> ('e, unit) tx" where
  "mismatched op = setProgress op (Blocked Blocked_resource_mismatch)"

definition cleanupAddress :: "'p machine_provider \<Rightarrow> limits \<Rightarrow> operation \<Rightarrow> allocation_row \<Rightarrow> attempt_row list \<Rightarrow> resource_row list \<Rightarrow> resource_row \<Rightarrow> ('p, unit) act" where
  "cleanupAddress P limits op a history rs target =
     (let ref = ownedRef target in
      bind (call (mp_getPrimaryIp P (ref_id ref))) (\<lambda>found.
      case found of
        None \<Rightarrow> recordAbsence a ref
      | Some ip \<Rightarrow>
          if ip_id ip \<noteq> ref_id ref \<or> \<not> matchesLabels (ip_labels ip) (ownedLabels target)
          then mismatched op
          else (case ip_assignment ip of
                  Assigned_server s \<Rightarrow>
                    setProgress op
                      (if list_ex (\<lambda>r. pr_kind r = Server \<and> pr_providerId r = s \<and> pr_absentAt r \<noteq> None) rs
                       then Verifying ref else Blocked Blocked_resource_mismatch)
                | Unassigned \<Rightarrow> deleteResource P limits op a history ref)))"

text \<open>The address attached to the server about to be deleted must be owned, present and attached
  to that server.\<close>

definition attached_ok :: "resource_row list \<Rightarrow> string \<Rightarrow> provider_server \<Rightarrow> provider_primary_ip option \<Rightarrow> bool" where
  "attached_ok rs i s found =
     (case (find (\<lambda>r. pr_kind r = Primary_ip \<and> pr_providerId r = i \<and> pr_absentAt r = None) rs, found) of
        (Some r, Some ip) \<Rightarrow> ip_id ip = pr_providerId r \<and> matchesLabels (ip_labels ip) (ownedLabels r)
          \<and> ip_assignment ip = Assigned_server (srv_id s)
      | _ \<Rightarrow> False)"

definition cleanupServer :: "'p machine_provider \<Rightarrow> limits \<Rightarrow> operation \<Rightarrow> allocation_row \<Rightarrow> attempt_row list \<Rightarrow> resource_row list \<Rightarrow> resource_row \<Rightarrow> ('p, unit) act" where
  "cleanupServer P limits op a history rs target =
     (let ref = ownedRef target in
      bind (call (mp_getServer P (ref_id ref))) (\<lambda>found.
      case found of
        None \<Rightarrow> recordAbsence a ref
      | Some s \<Rightarrow>
          if srv_id s \<noteq> ref_id ref \<or> \<not> matchesLabels (srv_labels s) (ownedLabels target)
          then mismatched op
          else (case srv_primaryIpId s of
                  None \<Rightarrow> deleteResource P limits op a history ref
                | Some i \<Rightarrow>
                    if i = [] then deleteResource P limits op a history ref
                    else bind (call (mp_getPrimaryIp P i)) (\<lambda>ip.
                      if \<not> attached_ok rs i s ip then mismatched op
                      else onlyIf (\<not> (pending_vm history \<and> (case ip of Some x \<Rightarrow> ip_autoDelete x | None \<Rightarrow> False)))
                             (deleteResource P limits op a history ref)))))"

section \<open>Retirement\<close>

definition destroy_machine :: "instant \<Rightarrow> machine_row \<Rightarrow> machine_row" where
  "destroy_machine now m = m\<lparr>mc_state := Destroyed now, mc_version := mc_version m + 1\<rparr>"

definition retireAllocation :: "operation \<Rightarrow> allocation_row \<Rightarrow> cleanup_row \<Rightarrow> ('e, unit) tx" where
  "retireAllocation op a c = transaction
     (bind databaseTime (\<lambda>now.
      bind (run (Update_allocations (\<lambda>x. al_id x = al_id a \<and> al_retiredAt x = None)
                   (\<lambda>x. x\<lparr>al_retiredAt := Some now\<rparr>))) (\<lambda>_.
      bind (run (Update_machines (\<lambda>m. mc_id m = op_machineId op) (destroy_machine now))) (\<lambda>_.
      bind (run (Update_operations (\<lambda>p. op_id p = op_id op)
                   (\<lambda>p. p\<lparr>op_progress := (if op_kind op = Op_create then Cancelled now else Succeeded now)\<rparr>))) (\<lambda>_.
      audit (op_accountId op) (op_id op) (Cleanup_completed (al_id a) (cu_sourceOperationId c)))))))"

section \<open>One step\<close>

definition cleanupStep :: "'p machine_provider \<Rightarrow> limits \<Rightarrow> operation \<Rightarrow> allocation_row \<Rightarrow> ('p, unit) act" where
  "cleanupStep P limits op a =
     bind (cleanupAuthority op a) (\<lambda>c.
     bind (readHistory op c) (\<lambda>history0.
     bind (readResources a) (\<lambda>rs0.
     bind (resolveAllPending P op a rs0 history0) (\<lambda>_.
     bind (readHistory op c) (\<lambda>history.
     bind (readResources a) (\<lambda>rs.
     case next_target (pending_vm history) rs of
       Some target \<Rightarrow>
         (if pr_kind target = Server then cleanupServer P limits op a history rs target
          else cleanupAddress P limits op a history rs target)
     | None \<Rightarrow>
         onlyIf (\<not> list_ex pending_attempt history \<and> list_all (\<lambda>r. pr_absentAt r \<noteq> None) rs)
           (retireAllocation op a c)))))))"

definition advanceCleanup :: "'p machine_provider \<Rightarrow> limits \<Rightarrow> operation \<Rightarrow> allocation_row \<Rightarrow> ('p, unit) act" where
  "advanceCleanup P limits op a =
     catch_cloud (cleanupStep P limits op a)
       (\<lambda>e. onlyIf (\<not> (code e = Provider_unavailable \<and> retryable e)) (mismatched op))"

end
