(* ===== verification/Advance.thy ===== *)
theory Advance
  imports Machine_Cleanup
begin

text \<open>
  \<^verbatim>\<open>apps/control/src/advance-operation.ts\<close>: the state machine of a lifecycle operation. One call
  of \<open>advanceOperation\<close> takes the machine lock and performs one step: it resolves the pending
  attempt, or cleans up, or submits the next effect, or completes or fails the operation. Guest
  provisioning (image resolution, bootstrap preparation, the runtime probe) is a parameter.
\<close>

datatype runtime_decision = Ready provider_server guest_verification | Waiting
  | Runtime_blocked blocked_reason

record ('p, 'i) guest_provisioning =
  gp_resolveImage :: "allocation_row \<Rightarrow> ('p, 'i) consultation"
  gp_prepareBootstrap :: "allocation_row \<Rightarrow> operation \<Rightarrow> 'i \<Rightarrow> ('p, bootstrap_reference) consultation"
  gp_check :: "operation \<Rightarrow> machine \<Rightarrow> allocation_row \<Rightarrow> ('p, runtime_decision) consultation"

text \<open>\<open>Work\<close>; \<open>wk_guest\<close> is \<open>None\<close> when guest provisioning is disabled.\<close>

record ('p, 'i) work =
  wk_operation :: operation
  wk_machine :: machine
  wk_allocation :: allocation_row
  wk_provider :: "'p machine_provider"
  wk_limits :: limits
  wk_history :: "attempt_row list"
  wk_resources :: "resource_row list"
  wk_guest :: "('p, 'i) guest_provisioning option"

section \<open>Failing an operation\<close>

definition bump_state :: "machine_state \<Rightarrow> machine_row \<Rightarrow> machine_row" where
  "bump_state state m = m\<lparr>mc_state := state, mc_version := mc_version m + 1\<rparr>"

definition fail :: "operation \<Rightarrow> machine \<Rightarrow> failure \<Rightarrow> bool \<Rightarrow> ('e, unit) tx" where
  "fail op m error allocationAbsent = transaction
     (bind wallTime (\<lambda>now.
      bind (run (Update_operations (\<lambda>p. op_id p = op_id op) (\<lambda>p. p\<lparr>op_progress := Failed now error\<rparr>))) (\<lambda>_.
      bind (onlyIf (op_kind op = Op_create)
        (bind (run (Update_machines (\<lambda>x. mc_id x = mc_id m) (bump_state (Machine_failed error)))) (\<lambda>_.
         onlyIf allocationAbsent
           (bind wallTime (\<lambda>retired.
            run (Update_allocations (\<lambda>x. al_machineId x = mc_id m \<and> al_retiredAt x = None)
                   (\<lambda>x. x\<lparr>al_retiredAt := Some retired\<rparr>))))))) (\<lambda>_.
      audit (op_accountId op) (op_id op) (Operation_failed error allocationAbsent)))))"

section \<open>Completing an operation\<close>

text \<open>A verified runtime completes only the operation that still waits for it, within its deadline.\<close>

definition runtimeGate :: "operation \<Rightarrow> provider_server option \<Rightarrow> guest_verification option \<Rightarrow> ('e, bool) tx" where
  "runtimeGate op server verification =
     (if verification = None then ret True
      else bind (observe (\<lambda>now clock d. map_option
             (\<lambda>p. (op_progress p, op_createdAt p + 1800000 \<le> now)) (operation_in d (op_id op)))) (\<lambda>found.
        bind (present Internal_error found) (\<lambda>current.
        if \<not> (case fst current of
                 Waiting_guest s Runtime \<Rightarrow> map_option srv_id server = Some s | _ \<Rightarrow> False)
        then ret False
        else if snd current
        then bind (setProgress op (Blocked Blocked_guest_deadline_exceeded)) (\<lambda>_. ret False)
        else ret True)))"

definition liveAllocation :: "id \<Rightarrow> db \<Rightarrow> allocation_row option" where
  "liveAllocation machine d = select_one (\<lambda>a. al_machineId a = machine \<and> al_retiredAt a = None) (allocations d)"

definition completeDestroy :: "machine \<Rightarrow> allocation_row \<Rightarrow> provider_server option \<Rightarrow> ('e, unit) tx" where
  "completeDestroy m a server =
     bind (unless (server = None) Provider_outcome_unknown) (\<lambda>_.
     bind (query (\<lambda>d. live_resources d (al_id a))) (\<lambda>remaining.
     bind (unless (remaining = []) Provider_outcome_unknown) (\<lambda>_.
     bind wallTime (\<lambda>retired.
     bind (run (Update_allocations (\<lambda>x. al_id x = al_id a) (\<lambda>x. x\<lparr>al_retiredAt := Some retired\<rparr>))) (\<lambda>_.
     bind wallTime (\<lambda>destroyed.
     run (Update_machines (\<lambda>x. mc_id x = mc_id m) (bump_state (Destroyed destroyed)))))))))"

fun repriced :: "lifecycle_command \<Rightarrow> bool" where
  "repriced (Create s) = True"
| "repriced (Action (Resize v s)) = True"
| "repriced _ = False"

fun size_after :: "lifecycle_command \<Rightarrow> size \<Rightarrow> size" where
  "size_after (Action (Resize v s)) old = s"
| "size_after _ old = old"

definition admittedOffer :: "operation_row \<Rightarrow> ('e, catalog_item option) tx" where
  "admittedOffer stored =
     (if repriced (op_command stored) then bind (parseOffer (op_offer stored)) (\<lambda>offer. ret (Some offer))
      else ret None)"

definition backups_satisfied :: "catalog_item option \<Rightarrow> provider_server \<Rightarrow> bool" where
  "backups_satisfied offer s =
     (case offer of
        None \<Rightarrow> True
      | Some i \<Rightarrow> (case providerBackups i of
                     Backups_daily m \<Rightarrow> srv_backupStatus s = Backup_enabled | Backups_disabled \<Rightarrow> True))"

definition guestVerification :: "machine \<Rightarrow> guest_verification option \<Rightarrow> ('e, guest_verification) tx" where
  "guestVerification m verification =
     (if mc_provider m = Simulated then bind wallTime (\<lambda>now. ret (Guest_simulated now))
      else ret (case verification of
             Some v \<Rightarrow> v
           | None \<Rightarrow> (case mc_state m of Allocated a s p guest b \<Rightarrow> guest | _ \<Rightarrow> Guest_pending)))"

definition adopt_server :: "provider_server \<Rightarrow> catalog_item option \<Rightarrow> allocation_row \<Rightarrow> allocation_row" where
  "adopt_server s offer x =
     (case offer of
        None \<Rightarrow> x\<lparr>al_serverId := Some (srv_id s)\<rparr>
      | Some i \<Rightarrow> x\<lparr>al_serverId := Some (srv_id s), al_offer := Some i, al_hourlyMicros := item_hourlyMicros i\<rparr>)"

definition adopt_machine :: "machine_spec \<Rightarrow> machine_state \<Rightarrow> machine_row \<Rightarrow> machine_row" where
  "adopt_machine spec state x = x\<lparr>mc_spec := spec, mc_version := mc_version x + 1, mc_state := state\<rparr>"

definition completeServer :: "operation \<Rightarrow> machine \<Rightarrow> allocation_row \<Rightarrow> provider_server option \<Rightarrow> guest_verification option \<Rightarrow> ('e, unit) tx" where
  "completeServer op m a server verification =
     bind (present Provider_outcome_unknown server) (\<lambda>s.
     bind (query (\<lambda>d. operation_in d (op_id op))) (\<lambda>found.
     bind (present Internal_error found) (\<lambda>stored.
     bind (admittedOffer stored) (\<lambda>offer.
     bind (unless (backups_satisfied offer s) Provider_rejected) (\<lambda>_.
     bind (guestVerification m verification) (\<lambda>guest.
     bind (run (Update_allocations (\<lambda>x. al_id x = al_id a) (adopt_server s offer))) (\<lambda>_.
     bind (parsed (if id_ok Allocation_id (al_id a) then Some (al_id a) else None)) (\<lambda>allocation.
     run (Update_machines (\<lambda>x. mc_id x = mc_id m)
       (adopt_machine ((mc_spec m)\<lparr>spec_size := size_after (op_command stored) (spec_size (mc_spec m))\<rparr>)
          (Allocated allocation (srv_id s) (srv_power s) guest (srv_backupStatus s))))))))))))"

definition verification_kind :: "machine \<Rightarrow> guest_verification option \<Rightarrow> string" where
  "verification_kind m verification =
     (if mc_provider m = Simulated then ''simulated'' else if verification \<noteq> None then ''ssh'' else ''provider'')"

definition complete :: "operation \<Rightarrow> machine \<Rightarrow> provider_server option \<Rightarrow> guest_verification option \<Rightarrow> ('e, unit) tx" where
  "complete op m server verification = transaction
     (bind (runtimeGate op server verification) (\<lambda>proceed.
      onlyIf proceed
        (bind (query (liveAllocation (mc_id m))) (\<lambda>found.
         bind (present Internal_error found) (\<lambda>a.
         bind (if op_kind op = Op_destroy then completeDestroy m a server
               else completeServer op m a server verification) (\<lambda>_.
         bind wallTime (\<lambda>now.
         bind (run (Update_operations (\<lambda>p. op_id p = op_id op) (\<lambda>p. p\<lparr>op_progress := Succeeded now\<rparr>))) (\<lambda>_.
         audit (op_accountId op) (op_id op)
           (Operation_succeeded (mc_id m) (verification_kind m verification))))))))))"

section \<open>Helpers of a step\<close>

definition workComplete :: "('p, 'i) work \<Rightarrow> provider_server option \<Rightarrow> guest_verification option \<Rightarrow> ('p, unit) act" where
  "workComplete w = complete (wk_operation w) (wk_machine w)"

definition workFail :: "('p, 'i) work \<Rightarrow> failure \<Rightarrow> bool \<Rightarrow> ('p, unit) act" where
  "workFail w = fail (wk_operation w) (wk_machine w)"

definition workProgress :: "('p, 'i) work \<Rightarrow> operation_progress \<Rightarrow> ('p, unit) act" where
  "workProgress w = setProgress (wk_operation w)"

definition workEffect :: "('p, 'i) work \<Rightarrow> provider_command \<Rightarrow> effect_authority \<Rightarrow> ('p, unit) act" where
  "workEffect w = journalEffect (wk_provider w) (wk_limits w) (wk_operation w) (wk_allocation w)"

definition verifyRuntime :: "('p, 'i) work \<Rightarrow> ('p, unit) act" where
  "verifyRuntime w =
     (case wk_guest w of
        None \<Rightarrow> workProgress w (Blocked Blocked_guest_unreachable)
      | Some g \<Rightarrow> bind (consult (gp_check g (wk_operation w) (wk_machine w) (wk_allocation w))) (\<lambda>decision.
          case decision of
            Waiting \<Rightarrow> ret ()
          | Runtime_blocked reason \<Rightarrow> workProgress w (Blocked reason)
          | Ready server verification \<Rightarrow> workComplete w (Some server) (Some verification)))"

fun command_kind :: "provider_command \<Rightarrow> string" where
  "command_kind (Create_primary_ip n r l) = ''create_primary_ip''"
| "command_kind (Delete_primary_ip i) = ''delete_primary_ip''"
| "command_kind (Create_server n t r l w) = ''create''"
| "command_kind (Create_guest n t r l w b) = ''create_guest''"
| "command_kind (Reboot_server s) = ''reboot''"
| "command_kind (Power_off_server s) = ''power_off''"
| "command_kind (Power_on_server s) = ''power_on''"
| "command_kind (Enable_backup s) = ''enable_backup''"
| "command_kind (Resize_server s t) = ''resize''"
| "command_kind (Destroy_server s) = ''destroy''"

definition effectOf :: "attempt_row list \<Rightarrow> string \<Rightarrow> attempt_row option" where
  "effectOf history kind = find (\<lambda>e. if kind = ''create'' then isServerCreateCommand (at_command e)
     else command_kind (at_command e) = kind) history"

definition ensureProviderBackups :: "('p, 'i) work \<Rightarrow> provider_server \<Rightarrow> catalog_item \<Rightarrow> ('p, provider_server option) act" where
  "ensureProviderBackups w server offer =
     (if providerBackups offer = Backups_disabled then ret (Some server)
      else bind (call (mp_getServer (wk_provider w) (srv_id server))) (\<lambda>found.
        case (find (\<lambda>r. pr_kind r = Server \<and> pr_providerId r = srv_id server \<and> pr_absentAt r = None)
                (wk_resources w), found) of
          (Some resource, Some observed) \<Rightarrow>
            (if srv_id observed \<noteq> srv_id server \<or> \<not> matchesLabels (srv_labels observed) (ownedLabels resource)
             then bind (workProgress w (Blocked Blocked_resource_mismatch)) (\<lambda>_. ret None)
             else if srv_backupStatus observed = Backup_enabled then ret (Some observed)
             else if srv_backupStatus observed = Backup_unknown
                  \<or> effectOf (wk_history w) ''enable_backup'' \<noteq> None
             then bind (workProgress w (Blocked Blocked_resource_mismatch)) (\<lambda>_. ret None)
             else bind (workEffect w (Enable_backup (srv_id server)) Fresh) (\<lambda>_. ret None))
        | _ \<Rightarrow> bind (workProgress w (Blocked Blocked_resource_mismatch)) (\<lambda>_. ret None)))"

definition possible_vm :: "attempt_row list \<Rightarrow> bool" where
  "possible_vm history =
     (case effectOf history ''create'' of
        None \<Rightarrow> False
      | Some e \<Rightarrow> (case at_outcome e of Rejected f \<Rightarrow> False | _ \<Rightarrow> True))"

definition beginFailure :: "('p, 'i) work \<Rightarrow> failure \<Rightarrow> ('p, unit) act" where
  "beginFailure w error =
     (let possibleVm = possible_vm (wk_history w);
          remaining = filter (\<lambda>r. pr_absentAt r = None) (wk_resources w) in
      if op_kind (wk_operation w) = Op_create
      then (if \<not> possibleVm \<and> remaining \<noteq> []
            then bind (run (Update_operations (\<lambda>p. op_id p = op_id (wk_operation w))
                   (\<lambda>p. p\<lparr>op_intent := Compensate error\<rparr>))) (\<lambda>_. workProgress w Cleaning_up)
            else workFail w error (\<not> possibleVm \<and> remaining = []))
      else workFail w error False)"

definition cleanupIp :: "('p, 'i) work \<Rightarrow> ('p, bool) act" where
  "cleanupIp w =
     (case find (present_row Primary_ip) (wk_resources w) of
        None \<Rightarrow> ret True
      | Some r \<Rightarrow> bind (call (mp_getPrimaryIp (wk_provider w) (pr_providerId r))) (\<lambda>found.
          case found of
            None \<Rightarrow> bind (recordAbsence (wk_allocation w) (ownedRef r)) (\<lambda>_. ret False)
          | Some ip \<Rightarrow>
              if ip_id ip \<noteq> pr_providerId r \<or> \<not> matchesLabels (ip_labels ip) (ownedLabels r)
                 \<or> ip_assignment ip \<noteq> Unassigned
              then bind (workProgress w (Blocked Blocked_resource_mismatch)) (\<lambda>_. ret False)
              else if find (\<lambda>e. at_command e = Delete_primary_ip (ip_id ip)) (wk_history w) \<noteq> None
              then bind (workProgress w (Blocked Blocked_outcome_unknown)) (\<lambda>_. ret False)
              else bind (workEffect w (Delete_primary_ip (ip_id ip)) Ip_cleanup) (\<lambda>_. ret False)))"

section \<open>Creating a machine\<close>

definition server_name :: "id \<Rightarrow> string" where
  "server_name machine = map (\<lambda>c. if c = CHR ''_'' then CHR ''-'' else c) machine"

text \<open>The address a server is about to be created with: owned, present, unassigned and deleted
  with its server.\<close>

definition checkAddress :: "('p, 'i) work \<Rightarrow> resource_row option \<Rightarrow> ('p, bool) act" where
  "checkAddress w ip =
     bind (present Internal_error ip) (\<lambda>r.
     bind (call (mp_getPrimaryIp (wk_provider w) (pr_providerId r))) (\<lambda>found.
     case found of
       None \<Rightarrow> bind (recordAbsence (wk_allocation w) (ownedRef r)) (\<lambda>_. throw Provider_rejected)
     | Some x \<Rightarrow>
         if ip_id x \<noteq> pr_providerId r \<or> \<not> matchesLabels (ip_labels x) (ownedLabels r)
            \<or> ip_assignment x \<noteq> Unassigned \<or> \<not> ip_autoDelete x
         then bind (workProgress w (Blocked Blocked_resource_mismatch)) (\<lambda>_. ret False)
         else ret True))"

definition createCommand :: "('p, 'i) work \<Rightarrow> catalog_item \<Rightarrow> labels \<Rightarrow> resource_row option \<Rightarrow> 'i option \<Rightarrow> ('p, provider_command) act" where
  "createCommand w offer ls ip img =
     (let name = server_name (mc_id (wk_machine w)); region_id = region_name (item_region offer);
          a = wk_allocation w in
      case (mp_kind (wk_provider w), wk_guest w, img) of
        (Hetzner, Some g, Some i) \<Rightarrow>
          (case (ip, al_networkProfile a) of
             (Some r, Managed_ipv4) \<Rightarrow>
               bind (transaction (consult (gp_prepareBootstrap g a (wk_operation w) i))) (\<lambda>bootstrap.
               ret (Create_guest name (serverType offer) region_id ls (pr_providerId r) bootstrap))
           | _ \<Rightarrow> throw Provider_rejected)
      | _ \<Rightarrow> ret (Create_server name (serverType offer) region_id ls
               (case ip of Some r \<Rightarrow> Net_primary_ip (pr_providerId r) | None \<Rightarrow> Net_legacy)))"

definition createServer :: "('p, 'i) work \<Rightarrow> catalog_item \<Rightarrow> labels \<Rightarrow> 'i option \<Rightarrow> ('p, unit) act" where
  "createServer w offer ls img =
     (let ip = find (present_row Primary_ip) (wk_resources w) in
      bind (if al_networkProfile (wk_allocation w) = Managed_ipv4 then checkAddress w ip else ret True) (\<lambda>ready.
      onlyIf ready
        (bind (createCommand w offer ls ip img) (\<lambda>command. workEffect w command Fresh))))"

fun confirmed_server :: "effect_resolution \<Rightarrow> provider_server option" where
  "confirmed_server (Res_confirmed (Observed_server s)) = Some s"
| "confirmed_server _ = None"

definition guestStage :: "allocation_row \<Rightarrow> ('e, guest_stage) tx" where
  "guestStage a = query (\<lambda>d. if al_id a \<in> set (issued_identities d) then Runtime else Enrollment)"

definition finishCreate :: "('p, 'i) work \<Rightarrow> catalog_item \<Rightarrow> attempt_row \<Rightarrow> ('p, unit) act" where
  "finishCreate w offer create =
     bind (present Internal_error (confirmed_server (at_resolution create))) (\<lambda>s.
     bind (ensureProviderBackups w s offer) (\<lambda>backedUp.
     case backedUp of
       None \<Rightarrow> ret ()
     | Some server \<Rightarrow>
         if mp_kind (wk_provider w) = Hetzner
         then bind (guestStage (wk_allocation w)) (\<lambda>stage.
              bind (workProgress w (Waiting_guest (srv_id s) stage)) (\<lambda>_. verifyRuntime w))
         else workComplete w (Some server) None))"

definition resolveImage :: "('p, 'i) work \<Rightarrow> bool \<Rightarrow> ('p, 'i option) act" where
  "resolveImage w created =
     (case (mp_kind (wk_provider w), wk_guest w) of
        (Hetzner, Some g) \<Rightarrow>
          if created then ret None
          else bind (consult (gp_resolveImage g (wk_allocation w))) (\<lambda>img. ret (Some img))
      | _ \<Rightarrow> ret None)"

definition advanceCreate :: "('p, 'i) work \<Rightarrow> operation_row \<Rightarrow> ('p, unit) act" where
  "advanceCreate w row =
     (let op = wk_operation w; a = wk_allocation w; P = wk_provider w; ls = effectLabels op a;
          create = effectOf (wk_history w) ''create'' in
      bind (parseOffer (op_offer row)) (\<lambda>offer.
      bind (unless (\<not> (create = None \<and> mp_kind P = Hetzner \<and> wk_guest w = None)) Provider_rejected) (\<lambda>_.
      bind (resolveImage w (create \<noteq> None)) (\<lambda>img.
      if al_networkProfile a = Managed_ipv4 \<and> effectOf (wk_history w) ''create_primary_ip'' = None
      then workEffect w (Create_primary_ip (server_name (mc_id (wk_machine w)) @ ''-ipv4'')
             (region_name (item_region offer)) ls) Fresh
      else (case create of
              None \<Rightarrow> createServer w offer ls img
            | Some e \<Rightarrow> finishCreate w offer e)))))"

section \<open>Acting on a machine\<close>

fun action_kind :: "machine_action \<Rightarrow> string" where
  "action_kind (Reboot v) = ''reboot''"
| "action_kind (Power_off v) = ''power_off''"
| "action_kind (Power_on v) = ''power_on''"
| "action_kind (Resize v s) = ''resize''"
| "action_kind (Destroy v d) = ''destroy''"

fun boot_action :: "machine_action \<Rightarrow> bool" where
  "boot_action (Reboot v) = True"
| "boot_action (Power_on v) = True"
| "boot_action _ = False"

fun is_destroy_action :: "machine_action \<Rightarrow> bool" where
  "is_destroy_action (Destroy v d) = True"
| "is_destroy_action _ = False"

definition completeDestruction :: "('p, 'i) work \<Rightarrow> ('p, unit) act" where
  "completeDestruction w = bind (cleanupIp w) (\<lambda>clean. onlyIf clean (workComplete w None None))"

text \<open>The command of an action on server \<open>i\<close>.\<close>

definition actionCommand :: "operation_row \<Rightarrow> machine_action \<Rightarrow> string \<Rightarrow> ('e, provider_command) tx" where
  "actionCommand row action i =
     (case action of
        Reboot v \<Rightarrow> ret (Reboot_server i)
      | Power_off v \<Rightarrow> ret (Power_off_server i)
      | Power_on v \<Rightarrow> ret (Power_on_server i)
      | Destroy v allow \<Rightarrow> ret (Destroy_server i)
      | Resize v s \<Rightarrow> bind (parseOffer (op_offer row)) (\<lambda>offer. ret (Resize_server i (serverType offer))))"

definition finishAction :: "('p, 'i) work \<Rightarrow> operation_row \<Rightarrow> machine_action \<Rightarrow> attempt_row \<Rightarrow> ('p, unit) act" where
  "finishAction w row action effect =
     bind (unless (case at_resolution effect of Res_confirmed obs \<Rightarrow> True | _ \<Rightarrow> False) Internal_error) (\<lambda>_.
     if is_destroy_action action then completeDestruction w
     else bind (present Internal_error (confirmed_server (at_resolution effect))) (\<lambda>s.
       if mp_kind (wk_provider w) = Hetzner \<and> boot_action action
       then bind (workProgress w (Waiting_guest (srv_id s) Runtime)) (\<lambda>_. verifyRuntime w)
       else bind (case action of
                    Resize v target \<Rightarrow> bind (parseOffer (op_offer row)) (\<lambda>offer. ensureProviderBackups w s offer)
                  | _ \<Rightarrow> ret (Some s)) (\<lambda>verified.
         case verified of None \<Rightarrow> ret () | Some server \<Rightarrow> workComplete w (Some server) None)))"

definition submitAction :: "('p, 'i) work \<Rightarrow> operation_row \<Rightarrow> machine_action \<Rightarrow> resource_row \<Rightarrow> string \<Rightarrow> ('p, unit) act" where
  "submitAction w row action resource i =
     bind (call (mp_getServer (wk_provider w) i)) (\<lambda>found.
     case found of
       None \<Rightarrow> (if is_destroy_action action then recordAbsence (wk_allocation w) (ownedRef resource)
                else throw Provider_rejected)
     | Some server \<Rightarrow>
         if srv_id server \<noteq> pr_providerId resource \<or> \<not> matchesLabels (srv_labels server) (ownedLabels resource)
         then workProgress w (Blocked Blocked_resource_mismatch)
         else if al_networkProfile (wk_allocation w) = Managed_ipv4
              \<and> \<not> list_ex (\<lambda>r. pr_kind r = Primary_ip \<and> Some (pr_providerId r) = srv_primaryIpId server
                     \<and> pr_absentAt r = None) (wk_resources w)
         then workProgress w (Blocked Blocked_resource_mismatch)
         else bind (actionCommand row action (srv_id server)) (\<lambda>command. workEffect w command Fresh))"

definition advanceAction :: "('p, 'i) work \<Rightarrow> operation_row \<Rightarrow> machine_action \<Rightarrow> ('p, unit) act" where
  "advanceAction w row action =
     (let server = find (present_row Server) (wk_resources w) in
      if is_destroy_action action \<and> server = None then completeDestruction w
      else (case effectOf (wk_history w) (action_kind action) of
              Some effect \<Rightarrow> finishAction w row action effect
            | None \<Rightarrow> (case (server, nonempty (al_serverId (wk_allocation w))) of
                         (Some resource, Some i) \<Rightarrow> submitAction w row action resource i
                       | _ \<Rightarrow> throw Provider_rejected)))"

section \<open>One step\<close>

definition lifecycleStep :: "('p, 'i) work \<Rightarrow> operation_row \<Rightarrow> ('p, unit) act" where
  "lifecycleStep w row =
     (case op_command row of Create spec \<Rightarrow> advanceCreate w row | Action action \<Rightarrow> advanceAction w row action)"

text \<open>A refusal after an effect was submitted must not turn an uncertain effect into cleanup.\<close>

definition stepRefused :: "('p, 'i) work \<Rightarrow> failure \<Rightarrow> ('p, unit) act" where
  "stepRefused w e =
     (if code e = Provider_unavailable \<and> retryable e then ret ()
      else bind (query (\<lambda>d. filter (\<lambda>x. at_operationId x = op_id (wk_operation w)) (attempts d))) (\<lambda>history.
        if list_ex pending_attempt history then workProgress w (Blocked Blocked_resource_mismatch)
        else bind (query (\<lambda>d. filter (\<lambda>r. pr_allocationId r = al_id (wk_allocation w)) (resources d))) (\<lambda>current.
          beginFailure (w\<lparr>wk_resources := current, wk_history := history\<rparr>) e)))"

text \<open>The first attempt of the history that failed.\<close>

fun failed_effect :: "attempt_row list \<Rightarrow> (provider_command \<times> failure) option" where
  "failed_effect [] = None"
| "failed_effect (e # es) =
     (case at_resolution e of Res_failed f \<Rightarrow> Some (at_command e, f) | _ \<Rightarrow> failed_effect es)"

definition advanceRun :: "('p, 'i) work \<Rightarrow> operation_row \<Rightarrow> ('p, unit) act" where
  "advanceRun w row =
     (case op_intent row of
        Compensate error \<Rightarrow> bind (cleanupIp w) (\<lambda>clean. onlyIf clean (workFail w error True))
      | _ \<Rightarrow>
        (case failed_effect (wk_history w) of
           Some (Delete_primary_ip i, error) \<Rightarrow> completeDestruction w
         | Some (command, error) \<Rightarrow> beginFailure w error
         | None \<Rightarrow> catch_cloud (lifecycleStep w row) (stepRefused w)))"

definition resolveStep :: "('p, 'i) work \<Rightarrow> attempt_row \<Rightarrow> ('p, unit) act" where
  "resolveStep w e =
     (let op = wk_operation w; a = wk_allocation w in
      resolveEffect (wk_provider w) op a e
        (case find (names_resource (at_command e)) (wk_resources w) of
           Some r \<Rightarrow> ownedLabels r | None \<Rightarrow> effectLabels op a))"

definition advanceWork :: "('p, 'i) work \<Rightarrow> operation_row \<Rightarrow> ('p, unit) act" where
  "advanceWork w row =
     (case find pending_attempt (wk_history w) of
        Some e \<Rightarrow> resolveStep w e
      | None \<Rightarrow> advanceRun w row)"

definition workHistory :: "id \<Rightarrow> ('e, attempt_row list) tx" where
  "workHistory op = query (\<lambda>d. sort_key at_sequence (filter (\<lambda>e. at_operationId e = op) (attempts d)))"

definition workResources :: "id \<Rightarrow> ('e, resource_row list) tx" where
  "workResources a = query (\<lambda>d. filter (\<lambda>r. pr_allocationId r = a) (resources d))"

definition advanceActive :: "operation_row \<Rightarrow> 'p machine_provider \<Rightarrow> limits \<Rightarrow> ('p, 'i) guest_provisioning option \<Rightarrow> ('p, unit) act" where
  "advanceActive row P limits guest =
     (let op = operationRecord row in
      bind (query (\<lambda>d. select_one (\<lambda>m. mc_id m = op_machineId op) (machines d))) (\<lambda>stored.
      bind (present Internal_error stored) (\<lambda>machineRow.
      let m = machineRecord machineRow in
      bind (unless (mc_provider m = mp_kind P) Internal_error) (\<lambda>_.
      bind (query (liveAllocation (mc_id m))) (\<lambda>found.
      bind (present Internal_error found) (\<lambda>a.
      if intent_cleanup op then advanceCleanup P limits op a
      else bind (workHistory (op_id op)) (\<lambda>history.
        bind (workResources (al_id a)) (\<lambda>rs.
        advanceWork \<lparr>wk_operation = op, wk_machine = m, wk_allocation = a, wk_provider = P,
          wk_limits = limits, wk_history = history, wk_resources = rs, wk_guest = guest\<rparr> row))))))))"

definition advanceLocked :: "id \<Rightarrow> 'p machine_provider \<Rightarrow> limits \<Rightarrow> ('p, 'i) guest_provisioning option \<Rightarrow> ('p, unit) act" where
  "advanceLocked i P limits guest =
     bind (query (\<lambda>d. operation_in d i)) (\<lambda>found.
     case found of
       None \<Rightarrow> ret ()
     | Some row \<Rightarrow> if isOperationTerminal row then ret () else advanceActive row P limits guest)"

definition advanceOperation :: "id \<Rightarrow> 'p machine_provider \<Rightarrow> limits \<Rightarrow> ('p, 'i) guest_provisioning option \<Rightarrow> ('p, unit) act" where
  "advanceOperation i P limits guest =
     bind (query (\<lambda>d. operation_in d i)) (\<lambda>found.
     case found of
       None \<Rightarrow> ret ()
     | Some row \<Rightarrow> bind (withMachineLock (advanceLocked i P limits guest)) (\<lambda>_. ret ()))"

end
