(* ===== verification/Lifecycle.thy ===== *)
theory Lifecycle
  imports Journal
begin

text \<open>
  Admission of lifecycle requests: \<^verbatim>\<open>apps/control/src/lifecycle.ts\<close> and
  \<^verbatim>\<open>apps/control/src/cleanup-admission.ts\<close>. A request is authorized, checked against the limits of the
  credential, the account and the deployment, made idempotent by its key, and stored together with
  its operation, reservation and job in one transaction. SHA-256, the catalog source and the
  optional image pinning are parameters.
\<close>

datatype admission = Create_request id machine_spec | Action_request id machine_action

section \<open>Request fingerprints\<close>

fun decimal_digits :: "nat \<Rightarrow> string" where
  "decimal_digits n = (if n < 10 then [char_of (48 + n)]
     else decimal_digits (n div 10) @ [char_of (48 + n mod 10)])"

declare decimal_digits.simps [simp del]

definition json_int :: "int \<Rightarrow> string" where
  "json_int n = (if n < 0 then ''-'' @ decimal_digits (nat (- n)) else decimal_digits (nat n))"

fun size_name :: "size \<Rightarrow> string" where
  "size_name Small = ''small''"
| "size_name Medium = ''medium''"
| "size_name Large = ''large''"

definition quoted :: "string \<Rightarrow> string" where
  "quoted s = ''\"'' @ s @ ''\"''"

definition member :: "string \<Rightarrow> string \<Rightarrow> string" where
  "member k v = quoted k @ '':'' @ v"

text \<open>\<open>JSON.stringify\<close> of a parsed command; its strings contain no character to escape.\<close>

definition versioned_json :: "string \<Rightarrow> int \<Rightarrow> string \<Rightarrow> string" where
  "versioned_json kind v rest = ''{'' @ member ''kind'' (quoted kind) @ '',''
     @ member ''expectedVersion'' (json_int v) @ rest @ ''}''"

fun command_json :: "lifecycle_command \<Rightarrow> string" where
  "command_json (Create s) =
     ''{'' @ member ''kind'' (quoted ''create'') @ '','' @ member ''spec''
       (''{'' @ member ''name'' (quoted (spec_name s)) @ '','' @ member ''size'' (quoted (size_name (spec_size s)))
         @ '','' @ member ''region'' (quoted (region_name (spec_region s))) @ ''}'') @ ''}''"
| "command_json (Action (Reboot v)) = versioned_json ''reboot'' v []"
| "command_json (Action (Power_off v)) = versioned_json ''power_off'' v []"
| "command_json (Action (Power_on v)) = versioned_json ''power_on'' v []"
| "command_json (Action (Resize v s)) =
     versioned_json ''resize'' v ('','' @ member ''size'' (quoted (size_name s)))"
| "command_json (Action (Destroy v allow)) =
     versioned_json ''destroy'' v ('','' @ member ''allowDataLoss'' (if allow then ''true'' else ''false''))"

definition requestHash :: "(string \<Rightarrow> string) \<Rightarrow> lifecycle_command \<Rightarrow> string" where
  "requestHash sha256 command = sha256 (command_json command)"

section \<open>Reservations\<close>

definition lockAccount :: "id \<Rightarrow> ('e, account_row) tx" where
  "lockAccount account =
     bind (query (\<lambda>d. select_one (\<lambda>x. acc_id x = account) (accounts d))) (present Unauthenticated)"

definition reservation_fits :: "principal \<Rightarrow> int \<Rightarrow> micros \<Rightarrow> currency \<Rightarrow> account_row \<Rightarrow> limits \<Rightarrow> allocation_row list \<Rightarrow> error_code option" where
  "reservation_fits p added price cur account limits active =
     (let owned = owned_by (accountId p) active;
          accountCount = int (length owned) + added;
          accountPrice = total al_hourlyMicros owned + price;
          globalCount = int (length active) + added;
          globalPrice = total al_hourlyMicros active + price in
      if \<not> list_all (\<lambda>c. c = cur)
            ([acc_currency account, policy_currency (policy p), lim_currency limits] @ map al_currency active)
      then Some Budget_exceeded
      else if min (acc_maxMachines account) (policy_maxMachines (policy p)) < accountCount
           \<or> lim_maxMachines limits < globalCount
      then Some Quota_exceeded
      else if min (acc_maxHourlyMicros account) (policy_maxHourlyMicros (policy p)) < accountPrice
           \<or> lim_maxHourlyMicros limits < globalPrice
      then Some Budget_exceeded
      else None)"

definition assertReservation :: "principal \<Rightarrow> int \<Rightarrow> micros \<Rightarrow> currency \<Rightarrow> account_row \<Rightarrow> limits \<Rightarrow> ('e, unit) tx" where
  "assertReservation p added price cur account limits =
     bind (query active_allocations) (\<lambda>active.
     case reservation_fits p added price cur account limits active of
       None \<Rightarrow> ret () | Some c \<Rightarrow> throw c)"

section \<open>Shared parts of an admission\<close>

definition remembered :: "id \<Rightarrow> string \<Rightarrow> string \<Rightarrow> idempotency_row \<Rightarrow> bool" where
  "remembered account scope key k \<longleftrightarrow> ik_accountId k = account \<and> ik_scope k = scope \<and> ik_key k = key"

text \<open>The operation an idempotency record names, or the conflict with another request.\<close>

definition replayed :: "id \<Rightarrow> string \<Rightarrow> idempotency_row \<Rightarrow> ('e, operation) tx" where
  "replayed account fingerprint previous =
     bind (unless (ik_requestHash previous = fingerprint) Idempotency_conflict) (\<lambda>_.
     bind (query (\<lambda>d. select_one (\<lambda>p. op_id p = ik_operationId previous \<and> op_accountId p = account)
        (operations d))) (\<lambda>found.
     bind (present Internal_error found) (\<lambda>row. ret (operationRecord row))))"

definition machine_ok :: "machine \<Rightarrow> bool" where
  "machine_ok m \<longleftrightarrow> id_ok Machine_id (mc_id m) \<and> id_ok Account_id (mc_accountId m)
     \<and> id_ok Project_id (mc_projectId m) \<and> machine_spec_ok (mc_spec m) \<and> 0 < mc_version m
     \<and> (case mc_state m of Provisioning a \<Rightarrow> id_ok Allocation_id a
          | Allocated a s p g b \<Rightarrow> id_ok Allocation_id a | _ \<Rightarrow> True)"

definition operation_ok :: "operation \<Rightarrow> bool" where
  "operation_ok op \<longleftrightarrow> id_ok Operation_id (op_id op) \<and> id_ok Account_id (op_accountId op)
     \<and> id_ok Project_id (op_projectId op) \<and> id_ok Machine_id (op_machineId op)
     \<and> id_ok Grant_id (op_grantId op)
     \<and> (case op_intent op of Cleanup i \<Rightarrow> id_ok Operation_id i | _ \<Rightarrow> True)"

definition parseOperation :: "operation \<Rightarrow> ('e, operation) tx" where
  "parseOperation op = parsed (if operation_ok op then Some op else None)"

definition operation_row_of :: "operation \<Rightarrow> lifecycle_command \<Rightarrow> catalog_item option \<Rightarrow> operation_row" where
  "operation_row_of op command offer =
     \<lparr>op_id = op_id op, op_accountId = op_accountId op, op_projectId = op_projectId op,
      op_machineId = op_machineId op, op_grantId = op_grantId op, op_kind = op_kind op,
      op_intent = op_intent op, op_progress = op_progress op, op_createdAt = op_createdAt op,
      op_command = command, op_offer = offer\<rparr>"

definition machine_row_of :: "machine \<Rightarrow> string \<Rightarrow> machine_row" where
  "machine_row_of m name =
     \<lparr>mc_id = mc_id m, mc_accountId = mc_accountId m, mc_projectId = mc_projectId m,
      mc_spec = mc_spec m, mc_provider = mc_provider m, mc_state = mc_state m,
      mc_version = mc_version m, mc_createdAt = mc_createdAt m, mc_name = name\<rparr>"

definition bumpVersion :: "machine \<Rightarrow> ('e, unit) tx" where
  "bumpVersion m = run (Update_machines (\<lambda>x. mc_id x = mc_id m) (\<lambda>x. x\<lparr>mc_version := mc_version m + 1\<rparr>))"

section \<open>Admitting a destroy (cleanup-admission.ts)\<close>

definition ownMachine :: "id \<Rightarrow> id \<Rightarrow> ('e, machine_row) tx" where
  "ownMachine machine account =
     bind (query (\<lambda>d. select_one (\<lambda>m. mc_id m = machine \<and> mc_accountId m = account) (machines d)))
       (present Not_found)"

text \<open>\<open>pg_try_advisory_xact_lock\<close> on the machine: busy while the machine is being advanced.\<close>

definition tryMachineLock :: "('e, unit) tx" where
  "tryMachineLock = bind tryLock (\<lambda>acquired.
     if acquired then ret () else raise (Cloud (cloud_error_retryable Resource_busy)))"

definition action_scope :: "id \<Rightarrow> string" where
  "action_scope machine = ''machine:'' @ machine @ '':actions''"

definition cleanup_base :: "principal \<Rightarrow> machine \<Rightarrow> id \<Rightarrow> instant \<Rightarrow> operation" where
  "cleanup_base p m i now =
     \<lparr>op_id = i, op_accountId = accountId p, op_projectId = mc_projectId m, op_machineId = mc_id m,
      op_grantId = grantId p, op_kind = Op_destroy, op_intent = Run, op_progress = Queued,
      op_createdAt = now\<rparr>"

definition as_cleanup :: "id \<Rightarrow> operation \<Rightarrow> operation" where
  "as_cleanup source op = op\<lparr>op_intent := Cleanup source, op_progress := Cleaning_up\<rparr>"

text \<open>The operation that executes the cleanup: the active create taken over, or a new destroy.\<close>

definition cleanupOperation :: "principal \<Rightarrow> machine \<Rightarrow> operation option \<Rightarrow> operation_row \<Rightarrow> instant \<Rightarrow> ('e, operation) tx" where
  "cleanupOperation p m active source now =
     (case active of
        Some op \<Rightarrow> if (case op_intent op of Cleanup i \<Rightarrow> True | _ \<Rightarrow> False) then ret op
                   else parseOperation (as_cleanup (op_id source) op)
      | None \<Rightarrow> bind (new_id Operation_id) (\<lambda>i.
                  parseOperation (as_cleanup (op_id source) (cleanup_base p m i now))))"

definition storeCleanup :: "principal \<Rightarrow> machine \<Rightarrow> allocation_row \<Rightarrow> operation option \<Rightarrow> operation_row \<Rightarrow> operation \<Rightarrow> int \<Rightarrow> lifecycle_command \<Rightarrow> instant \<Rightarrow> ('e, unit) tx" where
  "storeCleanup p m a active source op version command now =
     bind (case active of
        Some x \<Rightarrow> run (Update_operations (\<lambda>r. op_id r = op_id x)
          (\<lambda>r. r\<lparr>op_intent := op_intent op, op_progress := op_progress op\<rparr>))
      | None \<Rightarrow> run (Insert_operation ((operation_row_of op command None)\<lparr>op_createdAt := now\<rparr>))) (\<lambda>_.
     bind (run (Insert_cleanup \<lparr>cu_operationId = op_id op, cu_accountId = accountId p,
        cu_allocationId = al_id a, cu_sourceOperationId = op_id source, cu_grantId = grantId p,
        cu_expectedVersion = version, cu_createdAt = now\<rparr>)) (\<lambda>_.
     bind (bumpVersion m) (\<lambda>_.
     audit (accountId p) (op_id op)
       (Cleanup_admitted (al_id a) (op_id source) (grantId p) version))))"

definition remember :: "id \<Rightarrow> string \<Rightarrow> string \<Rightarrow> string \<Rightarrow> id \<Rightarrow> ('e, unit) tx" where
  "remember account scope key fingerprint operation =
     run (Insert_idempotency \<lparr>ik_accountId = account, ik_scope = scope, ik_key = key,
       ik_requestHash = fingerprint, ik_operationId = operation\<rparr>)"

definition newCleanup :: "principal \<Rightarrow> machine \<Rightarrow> int \<Rightarrow> lifecycle_command \<Rightarrow> string \<Rightarrow> string \<Rightarrow> ('e, operation) tx" where
  "newCleanup p m version command key fingerprint =
     bind (unless (mc_version m = version) Version_conflict) (\<lambda>_.
     bind (query (\<lambda>d. select_one (\<lambda>a. al_machineId a = mc_id m \<and> al_retiredAt a = None) (allocations d))) (\<lambda>found.
     bind (present Resource_busy (if state_destroyed (mc_state m) then None else found)) (\<lambda>a.
     bind (query (\<lambda>d. filter (\<lambda>p. op_machineId p = mc_id m) (operations d))) (\<lambda>history.
     let active = find (\<lambda>op. \<not> isOperationTerminal op) (map operationRecord history) in
     bind (unless (case active of None \<Rightarrow> True
         | Some op \<Rightarrow> op_kind op = Op_create \<or> (case op_intent op of Cleanup i \<Rightarrow> True | _ \<Rightarrow> False))
       Resource_busy) (\<lambda>_.
     bind (present Internal_error (find (\<lambda>op. op_kind op = Op_create) history)) (\<lambda>source.
     bind databaseTime (\<lambda>now.
     bind (cleanupOperation p m active source now) (\<lambda>op.
     bind (onlyIf (case active of None \<Rightarrow> True
         | Some x \<Rightarrow> (case op_intent x of Cleanup i \<Rightarrow> False | _ \<Rightarrow> True))
       (storeCleanup p m a active source op version command now)) (\<lambda>_.
     bind (remember (accountId p) (action_scope (mc_id m)) key fingerprint (op_id op)) (\<lambda>_.
     bind (closeMachineAccess (accountId p) (mc_id m)) (\<lambda>_.
     bind (enqueueOperation (op_id op)) (\<lambda>_.
     ret op))))))))))))"

definition admitCleanup :: "(string \<Rightarrow> string) \<Rightarrow> principal \<Rightarrow> id \<Rightarrow> int \<Rightarrow> bool \<Rightarrow> string \<Rightarrow> ('e, operation) tx" where
  "admitCleanup sha256 caller machine version allowDataLoss key = transaction
     (bind (ownMachine machine (accountId caller)) (\<lambda>_.
      bind tryMachineLock (\<lambda>_.
      bind advisoryLock (\<lambda>_.
      bind (query (\<lambda>d. select_one (\<lambda>x. acc_id x = accountId caller) (accounts d))) (\<lambda>_.
      bind (loadPrincipal (grantId caller)) (\<lambda>p.
      bind (ownMachine machine (accountId p)) (\<lambda>row.
      let m = machineRecord row; command = Action (Destroy version allowDataLoss);
          fingerprint = requestHash sha256 command in
      bind (pure_of (authorize p Machine_destroy (Some (mc_projectId m)))) (\<lambda>_.
      bind (unless allowDataLoss Data_loss_not_authorized) (\<lambda>_.
      bind (pure_of (authorize p Machine_destroy_data_loss (Some (mc_projectId m)))) (\<lambda>_.
      bind (query (\<lambda>d. select_one (remembered (accountId p) (action_scope (mc_id m)) key) (idempotency d))) (\<lambda>previous.
      case previous of
        Some k \<Rightarrow> replayed (accountId p) fingerprint k
      | None \<Rightarrow> newCleanup p m version command key fingerprint)))))))))))"

section \<open>Admitting a create or an action (lifecycle.ts)\<close>

type_synonym catalog_source = "instant \<Rightarrow> failure + catalog"

definition quote :: "provider_kind \<Rightarrow> catalog_source \<Rightarrow> size \<Rightarrow> region \<Rightarrow> ('e, catalog_item) tx" where
  "quote provider source s r =
     bind wallTime (\<lambda>t.
     bind (pure_of (source t)) (\<lambda>catalog.
     bind (unless (cat_provider catalog = provider) Provider_unavailable) (\<lambda>_.
     bind wallTime (\<lambda>now.
     pure_of (selectOffer catalog s r now)))))"

definition created_machine :: "principal \<Rightarrow> id \<Rightarrow> machine_spec \<Rightarrow> provider_kind \<Rightarrow> id \<Rightarrow> id \<Rightarrow> instant \<Rightarrow> machine" where
  "created_machine p project spec provider allocation i now =
     \<lparr>mc_id = i, mc_accountId = accountId p, mc_projectId = project, mc_spec = spec,
      mc_provider = provider, mc_state = Provisioning allocation, mc_version = 1, mc_createdAt = now\<rparr>"

definition prepareCreate :: "provider_kind \<Rightarrow> catalog_source \<Rightarrow> limits \<Rightarrow> account_row \<Rightarrow> principal \<Rightarrow> id \<Rightarrow> machine_spec \<Rightarrow> ('e, machine \<times> catalog_item option) tx" where
  "prepareCreate provider source limits account p project spec =
     bind (pure_of (authorizeCommand p project (Create spec))) (\<lambda>_.
     bind (query (\<lambda>d. select_one (\<lambda>x. prj_id x = project \<and> prj_accountId x = accountId p) (projects d))) (\<lambda>found.
     bind (unless (found \<noteq> None) Not_found) (\<lambda>_.
     bind (query (\<lambda>d. select_one (\<lambda>m. mc_projectId m = project \<and> mc_name m = spec_name spec
        \<and> \<not> state_destroyed (mc_state m)) (machines d))) (\<lambda>sameName.
     bind (unless (sameName = None) Resource_busy) (\<lambda>_.
     bind (quote provider source (spec_size spec) (spec_region spec)) (\<lambda>offer.
     bind (assertReservation p 1 (item_hourlyMicros offer) (item_currency offer) account limits) (\<lambda>_.
     bind (new_id Allocation_id) (\<lambda>allocation.
     bind (new_id Machine_id) (\<lambda>i.
     bind wallTime (\<lambda>now.
     let m = created_machine p project spec provider allocation i now in
     bind (parsed (if machine_ok m then Some m else None)) (\<lambda>_.
     bind (run (Insert_machine (machine_row_of m (spec_name spec)))) (\<lambda>_.
     bind (run (Insert_allocation \<lparr>al_id = allocation, al_accountId = accountId p, al_machineId = i,
        al_provider = provider, al_serverId = None, al_networkProfile = Managed_ipv4,
        al_currency = item_currency offer, al_hourlyMicros = item_hourlyMicros offer,
        al_offer = Some offer, al_retiredAt = None, al_createdAt = 0\<rparr>)) (\<lambda>_.
     ret (m, Some offer))))))))))))))"

definition machine_off :: "machine_state \<Rightarrow> bool" where
  "machine_off state = (case state of Allocated a s p g b \<Rightarrow> p = Power_is_off | _ \<Rightarrow> False)"

definition prepareResize :: "provider_kind \<Rightarrow> catalog_source \<Rightarrow> limits \<Rightarrow> account_row \<Rightarrow> principal \<Rightarrow> machine \<Rightarrow> allocation_row \<Rightarrow> size \<Rightarrow> ('e, catalog_item) tx" where
  "prepareResize provider source limits account p m a s =
     bind (unless (machine_off (mc_state m)) Resource_busy) (\<lambda>_.
     bind (quote provider source s (spec_region (mc_spec m))) (\<lambda>offer.
     bind (parseOffer (al_offer a)) (\<lambda>current.
     bind (unless (architecture_of offer = architecture_of current) Invalid_input) (\<lambda>_.
     bind (unless (diskGb current \<le> diskGb offer) Invalid_input) (\<lambda>_.
     let reserved = max (al_hourlyMicros a) (item_hourlyMicros offer) in
     bind (assertReservation p 0 (reserved - al_hourlyMicros a) (item_currency offer) account limits) (\<lambda>_.
     bind (run (Update_allocations (\<lambda>x. al_id x = al_id a) (\<lambda>x. x\<lparr>al_hourlyMicros := reserved\<rparr>))) (\<lambda>_.
     ret offer)))))))"

definition prepareAction :: "provider_kind \<Rightarrow> catalog_source \<Rightarrow> limits \<Rightarrow> account_row \<Rightarrow> principal \<Rightarrow> id \<Rightarrow> machine_action \<Rightarrow> ('e, machine \<times> catalog_item option) tx" where
  "prepareAction provider source limits account p machine action =
     bind (ownMachine machine (accountId p)) (\<lambda>row.
     let m = machineRecord row in
     bind (pure_of (authorizeCommand p (mc_projectId m) (Action action))) (\<lambda>_.
     bind (unless (mc_version m = expectedVersion action) Version_conflict) (\<lambda>_.
     bind (query (\<lambda>d. select_one (\<lambda>p. op_machineId p = mc_id m \<and> \<not> isOperationTerminal p) (operations d))) (\<lambda>active.
     bind (unless (active = None) Resource_busy) (\<lambda>_.
     bind (query (\<lambda>d. select_one (\<lambda>a. al_machineId a = mc_id m \<and> al_retiredAt a = None) (allocations d))) (\<lambda>found.
     bind (present Resource_busy (if state_destroyed (mc_state m) then None
        else Option.bind found (\<lambda>a. if nonempty (al_serverId a) = None then None else Some a))) (\<lambda>a.
     bind (case action of
        Resize v s \<Rightarrow> bind (prepareResize provider source limits account p m a s) (\<lambda>offer. ret (Some offer))
      | _ \<Rightarrow> ret None) (\<lambda>offer.
     bind (bumpVersion m) (\<lambda>_.
     ret (m, offer))))))))))"

definition admission_command :: "admission \<Rightarrow> lifecycle_command" where
  "admission_command request = (case request of Create_request project spec \<Rightarrow> Create spec
     | Action_request machine action \<Rightarrow> Action action)"

definition admission_scope :: "admission \<Rightarrow> string" where
  "admission_scope request = (case request of
       Create_request project spec \<Rightarrow> ''project:'' @ project @ '':machines''
     | Action_request machine action \<Rightarrow> action_scope machine)"

definition admitted_operation :: "principal \<Rightarrow> machine \<Rightarrow> lifecycle_command \<Rightarrow> id \<Rightarrow> instant \<Rightarrow> operation" where
  "admitted_operation p m command i now =
     \<lparr>op_id = i, op_accountId = accountId p, op_projectId = mc_projectId m, op_machineId = mc_id m,
      op_grantId = grantId p, op_kind = operation_kind_of command, op_intent = Run,
      op_progress = Queued, op_createdAt = now\<rparr>"

text \<open>Image pinning, where the deployment selects an image release: it may refuse.\<close>

type_synonym image_pinning = "id \<Rightarrow> operation \<Rightarrow> db \<Rightarrow> exn + unit"

definition pinImage :: "image_pinning option \<Rightarrow> admission \<Rightarrow> machine \<Rightarrow> operation \<Rightarrow> ('e, unit) tx" where
  "pinImage pin request m op =
     (case (pin, request, mc_state m) of
        (Some f, Create_request project spec, Provisioning allocation) \<Rightarrow>
          bind (query (f allocation op)) reply
      | (Some f, Create_request project spec, _) \<Rightarrow> raise Defect
      | _ \<Rightarrow> ret ())"

definition newOperation :: "provider_kind \<Rightarrow> catalog_source \<Rightarrow> limits \<Rightarrow> image_pinning option \<Rightarrow> account_row \<Rightarrow> principal \<Rightarrow> admission \<Rightarrow> string \<Rightarrow> string \<Rightarrow> ('e, operation) tx" where
  "newOperation provider source limits pin account p request key fingerprint =
     bind (new_id Operation_id) (\<lambda>i.
     bind (case request of
        Create_request project spec \<Rightarrow> prepareCreate provider source limits account p project spec
      | Action_request machine action \<Rightarrow> prepareAction provider source limits account p machine action) (\<lambda>prepared.
     let m = fst prepared; offer = snd prepared; command = admission_command request in
     bind wallTime (\<lambda>now.
     bind (parseOperation (admitted_operation p m command i now)) (\<lambda>op.
     bind (run (Insert_operation (operation_row_of op command offer))) (\<lambda>_.
     bind (pinImage pin request m op) (\<lambda>_.
     bind (remember (accountId p) (admission_scope request) key fingerprint i) (\<lambda>_.
     bind (audit (accountId p) i (Operation_admitted (mc_id m) (grantId p) (op_kind op))) (\<lambda>_.
     bind (enqueueOperation i) (\<lambda>_.
     ret op)))))))))"

definition admitOperation :: "(string \<Rightarrow> string) \<Rightarrow> provider_kind \<Rightarrow> catalog_source \<Rightarrow> limits \<Rightarrow> image_pinning option \<Rightarrow> principal \<Rightarrow> admission \<Rightarrow> string \<Rightarrow> ('e, operation) tx" where
  "admitOperation sha256 provider source limits pin caller request key = transaction
     (bind advisoryLock (\<lambda>_.
      bind (lockAccount (accountId caller)) (\<lambda>account.
      bind (loadPrincipal (grantId caller)) (\<lambda>p.
      let command = admission_command request; fingerprint = requestHash sha256 command in
      bind (query (\<lambda>d. select_one (remembered (accountId p) (admission_scope request) key) (idempotency d))) (\<lambda>previous.
      case previous of
        Some k \<Rightarrow> bind (replayed (accountId p) fingerprint k) (\<lambda>op.
          bind (pure_of (authorizeCommand p (op_projectId op) command)) (\<lambda>_. ret op))
      | None \<Rightarrow> newOperation provider source limits pin account p request key fingerprint)))))"

definition admit :: "(string \<Rightarrow> string) \<Rightarrow> provider_kind \<Rightarrow> catalog_source \<Rightarrow> limits \<Rightarrow> image_pinning option \<Rightarrow> principal \<Rightarrow> admission \<Rightarrow> string \<Rightarrow> ('e, operation) tx" where
  "admit sha256 provider source limits pin caller request key =
     (case request of
        Action_request machine (Destroy version allow) \<Rightarrow>
          admitCleanup sha256 caller machine version allow key
      | _ \<Rightarrow> admitOperation sha256 provider source limits pin caller request key)"

end
