(* ===== verification/Api.thy ===== *)
theory Api
  imports Advance Lifecycle
begin

text \<open>
  The credential and machine routes of \<^verbatim>\<open>apps/control/src/app.ts\<close> and the worker tasks of
  \<^verbatim>\<open>apps/control/src/tasks.ts\<close> that advance and reconcile operations. A route is the program
  that runs after HTTP parsing: the authenticated principal, the schema checks of its inputs, its
  transaction. Scheduled start times of jobs are returned, not stored.
\<close>

section \<open>Authenticated routes (app.ts)\<close>

definition authenticated :: "(string \<Rightarrow> string) \<Rightarrow> string option \<Rightarrow> (principal \<Rightarrow> ('e, 'a) tx) \<Rightarrow> ('e, 'a) tx" where
  "authenticated sha256 header route = bind (authenticate sha256 header) route"

definition parsedId :: "id_kind \<Rightarrow> string \<Rightarrow> ('e, id) tx" where
  "parsedId k i = parsed (if id_ok k i then Some i else None)"

text \<open>\<open>orderBy(desc(createdAt)).limit(100)\<close>.\<close>

definition newest :: "('a \<Rightarrow> instant) \<Rightarrow> 'a list \<Rightarrow> 'a list" where
  "newest created xs = take 100 (sort_key (\<lambda>x. - created x) xs)"

definition in_scope :: "project_scope \<Rightarrow> id \<Rightarrow> bool" where
  "in_scope scope i = (case scope of All_projects \<Rightarrow> True | Selected_projects ids \<Rightarrow> i \<in> set ids)"

definition getProjects :: "principal \<Rightarrow> ('e, project_row list) tx" where
  "getProjects p =
     bind (pure_of (authorize p Project_read None)) (\<lambda>_.
     query (\<lambda>d. newest prj_createdAt (filter (\<lambda>x. prj_accountId x = accountId p
       \<and> in_scope (policy_projects (policy p)) (prj_id x)) (projects d))))"

definition getProjectMachines :: "string \<Rightarrow> principal \<Rightarrow> ('e, machine list) tx" where
  "getProjectMachines project p =
     bind (parsedId Project_id project) (\<lambda>i.
     bind (pure_of (authorize p Machine_read (Some i))) (\<lambda>_.
     bind (query (\<lambda>d. select_one (\<lambda>x. prj_id x = i \<and> prj_accountId x = accountId p) (projects d))) (\<lambda>found.
     bind (unless (found \<noteq> None) Not_found) (\<lambda>_.
     query (\<lambda>d. map machineRecord (newest mc_createdAt (filter (\<lambda>m. mc_projectId m = i
       \<and> mc_accountId m = accountId p) (machines d))))))))"

definition getMachine :: "string \<Rightarrow> principal \<Rightarrow> ('e, machine) tx" where
  "getMachine machine p =
     bind (parsedId Machine_id machine) (\<lambda>i.
     bind (ownMachine i (accountId p)) (\<lambda>row.
     bind (pure_of (authorize p Machine_read (Some (mc_projectId row)))) (\<lambda>_.
     ret (machineRecord row))))"

definition getOperation :: "string \<Rightarrow> principal \<Rightarrow> ('e, operation) tx" where
  "getOperation operation p =
     bind (parsedId Operation_id operation) (\<lambda>i.
     bind (query (\<lambda>d. select_one (\<lambda>x. op_id x = i \<and> op_accountId x = accountId p) (operations d))) (\<lambda>found.
     bind (present Not_found found) (\<lambda>row.
     bind (pure_of (authorize p Machine_read (Some (op_projectId row)))) (\<lambda>_.
     ret (operationRecord row)))))"

definition parsedKey :: "string \<Rightarrow> ('e, string) tx" where
  "parsedKey key = parsed (if idempotency_key_ok key then Some key else None)"

record deployment_config =
  dc_sha256 :: "string \<Rightarrow> string"
  dc_provider :: provider_kind
  dc_catalog :: catalog_source
  dc_limits :: limits
  dc_pin :: "image_pinning option"

definition admitWith :: "deployment_config \<Rightarrow> principal \<Rightarrow> admission \<Rightarrow> string \<Rightarrow> ('e, operation) tx" where
  "admitWith c p request key =
     admit (dc_sha256 c) (dc_provider c) (dc_catalog c) (dc_limits c) (dc_pin c) p request key"

definition postMachine :: "deployment_config \<Rightarrow> string \<Rightarrow> machine_spec \<Rightarrow> string \<Rightarrow> principal \<Rightarrow> ('e, operation) tx" where
  "postMachine c project spec key p =
     bind (parsedId Project_id project) (\<lambda>i.
     bind (parsed (if machine_spec_ok spec then Some spec else None)) (\<lambda>_.
     bind (parsedKey key) (\<lambda>_.
     admitWith c p (Create_request i spec) key)))"

definition postAction :: "deployment_config \<Rightarrow> string \<Rightarrow> machine_action \<Rightarrow> string \<Rightarrow> principal \<Rightarrow> ('e, operation) tx" where
  "postAction c machine action key p =
     bind (parsedId Machine_id machine) (\<lambda>i.
     bind (parsed (if 0 < expectedVersion action then Some action else None)) (\<lambda>_.
     bind (parsedKey key) (\<lambda>_.
     admitWith c p (Action_request i action) key)))"

definition getGrants :: "string option \<Rightarrow> principal \<Rightarrow> ('e, grant_record list \<times> id option) tx" where
  "getGrants after p =
     bind (case after of None \<Rightarrow> ret () | Some g \<Rightarrow> bind (parsedId Grant_id g) (\<lambda>_. ret ())) (\<lambda>_.
     listGrants p after)"

definition postGrant :: "deployment_config \<Rightarrow> string \<Rightarrow> grant_policy \<Rightarrow> instant \<Rightarrow> principal \<Rightarrow> ('e, issued_grant) tx" where
  "postGrant c name pol expires p =
     bind (parsed (if name_ok name \<and> grant_policy_ok pol then Some pol else None)) (\<lambda>_.
     transaction
       (bind (lockAccount (accountId p)) (\<lambda>_.
        issueGrant (dc_sha256 c) p name pol expires)))"

definition deleteGrant :: "string \<Rightarrow> principal \<Rightarrow> ('e, unit) tx" where
  "deleteGrant grant p =
     bind (parsedId Grant_id grant) (\<lambda>g.
     transaction
       (bind (lockAccount (accountId p)) (\<lambda>_.
        bind (loadPrincipal (grantId p)) (\<lambda>current.
        revokeGrant current g))))"

section \<open>Worker tasks (tasks.ts)\<close>

text \<open>The result is the time the next step is scheduled for, \<open>None\<close> when there is none.\<close>

definition retry_delay :: "operation_progress \<Rightarrow> int" where
  "retry_delay progress = (case progress of Blocked r \<Rightarrow> 30000 | _ \<Rightarrow> 1000)"

definition advanceTask :: "'p machine_provider \<Rightarrow> limits \<Rightarrow> ('p, 'i) guest_provisioning option \<Rightarrow> string \<Rightarrow> ('p, instant option) act" where
  "advanceTask P limits guest operation =
     bind (parsedId Operation_id operation) (\<lambda>i.
     bind (advanceOperation i P limits guest) (\<lambda>_.
     bind (query (\<lambda>d. operation_in d i)) (\<lambda>found.
     case found of
       None \<Rightarrow> ret None
     | Some row \<Rightarrow>
         if isOperationTerminal row then ret None
         else bind databaseTime (\<lambda>now.
              bind (enqueueOperation i) (\<lambda>_.
              ret (Some (now + retry_delay (op_progress row))))))))"

definition reconcileOperations :: "('e, unit) tx" where
  "reconcileOperations =
     bind (query (\<lambda>d. map op_id (filter (\<lambda>p. \<not> isOperationTerminal p) (operations d)))) (\<lambda>pending.
     foldM (\<lambda>_. enqueueOperation) () pending)"

end
