(* ===== verification/Outcomes.thy ===== *)
theory Outcomes
  imports Footprint
begin

text \<open>
  Inversion of successful runs: what a program must have read, written and checked when it
  returned a result. Collected in \<open>success\<close>, these equations turn the run of a handler into the
  facts its postcondition needs.
\<close>

named_theorems success "inversion equations for runs that return a result"

definition alive :: "'e process_scheme \<Rightarrow> bool" where
  "alive s \<longleftrightarrow> \<not> or_dies (outside s) (ticks s)"

definition healthy :: "'e process_scheme \<Rightarrow> bool" where
  "healthy s \<longleftrightarrow> alive s \<and> \<not> or_fault (outside s) (ticks s)"

definition ticked :: "'e process_scheme \<Rightarrow> 'e process_scheme" where
  "ticked s = s\<lparr>ticks := Suc (ticks s)\<rparr>"

definition clock_of :: "'e process_scheme \<Rightarrow> instant" where
  "clock_of s = or_clock (outside s) (ticks s)"

text \<open>\<open>now\<close> is what the database clock shows at one of the ticks from \<open>s\<close> on and before \<open>t\<close>: a
  moment of the call that leads from \<open>s\<close> to \<open>t\<close>.\<close>

definition clock_read :: "'e process_scheme \<Rightarrow> 'e process_scheme \<Rightarrow> instant \<Rightarrow> bool" where
  "clock_read s t now \<longleftrightarrow> (\<exists>n. ticks s \<le> n \<and> n < ticks t \<and> now = or_clock (outside s) n)"

lemma clock_readI:
  "outside u = outside s \<Longrightarrow> ticks s \<le> ticks u \<Longrightarrow> ticks u < ticks t \<Longrightarrow> clock_read s t (clock_of u)"
  unfolding clock_read_def clock_of_def by (intro exI [of _ "ticks u"]) simp

lemma clock_read_within:
  "clock_read s t now \<Longrightarrow> outside s = outside s' \<Longrightarrow> ticks s' \<le> ticks s \<Longrightarrow> ticks t \<le> ticks t' \<Longrightarrow> clock_read s' t' now"
  unfolding clock_read_def by (metis order_less_le_trans order_trans)

lemma ticked_fields [simp]:
  "store (ticked s) = store s" "outside (ticked s) = outside s" "began (ticked s) = began s"
  "ticks (ticked s) = Suc (ticks s)" "process.more (ticked s) = process.more s"
  by (simp_all add: ticked_def)

lemma ticked_world [simp]: "submitted (ticked s) = submitted s" "cloud (ticked s) = cloud s"
  by (simp_all add: ticked_def)

lemma tx_now_update [simp]:
  "tx_now (s\<lparr>ticks := n\<rparr>) i = tx_now s i" "tx_now (ticked s) i = tx_now s i"
  "tx_now (s\<lparr>store := d\<rparr>) i = tx_now s i"
  by (simp_all add: tx_now_def ticked_def split: option.split)

lemma bind_success [success]:
  "bind m f s = (Inr y, u) \<longleftrightarrow> (\<exists>x t. m s = (Inr x, t) \<and> f x t = (Inr y, u))"
  by (auto simp: bind_def split: prod.splits sum.splits)

lemma andThen_success [success]:
  "andThen m n s = (Inr y, u) \<longleftrightarrow> (\<exists>x t. m s = (Inr x, t) \<and> n t = (Inr y, u))"
  by (simp add: andThen_def bind_success)

lemma ret_success [success]: "ret x s = (Inr y, t) \<longleftrightarrow> y = x \<and> t = s"
  by (auto simp: ret_def)

lemma raise_success [success]: "raise e s = (Inr y, t) \<longleftrightarrow> False"
  by (simp add: raise_def)

lemma throw_success [success]: "throw c s = (Inr y, t) \<longleftrightarrow> False"
  by (simp add: throw_def raise_success)

lemma unless_success [success]: "unless b c s = (Inr y, t) \<longleftrightarrow> b \<and> t = s"
  by (auto simp: unless_def success)

lemma present_success [success]: "present c x s = (Inr y, t) \<longleftrightarrow> x = Some y \<and> t = s"
  by (auto simp: present_def success split: option.splits)

lemma parsed_success [success]: "parsed x s = (Inr y, t) \<longleftrightarrow> x = Some y \<and> t = s"
  by (auto simp: parsed_def success split: option.splits)

lemma pure_of_success [success]: "pure_of r s = (Inr y, t) \<longleftrightarrow> r = Inr y \<and> t = s"
  by (auto simp: pure_of_def success split: sum.splits)

lemma onlyIf_success [success]:
  "onlyIf b m s = (Inr y, t) \<longleftrightarrow> (if b then m s = (Inr y, t) else t = s)"
  by (auto simp: onlyIf_def success)

lemma prim_success:
  "prim f s = (Inr x, t) \<longleftrightarrow> alive s \<and> f (ticks s) (ticked s) = (Inr x, t)"
  by (auto simp: prim_def alive_def ticked_def Let_def)

lemma observe_success [success]:
  "observe g s = (Inr x, t) \<longleftrightarrow>
     healthy s \<and> x = g (tx_now s (ticks s)) (clock_of s) (store s) \<and> t = ticked s"
  by (auto simp: observe_def prim_success healthy_def clock_of_def)

lemma query_success [success]:
  "query g s = (Inr x, t) \<longleftrightarrow> healthy s \<and> x = g (store s) \<and> t = ticked s"
  by (simp add: query_def success)

lemma databaseTime_success [success]:
  "databaseTime s = (Inr x, t) \<longleftrightarrow> healthy s \<and> x = clock_of s \<and> t = ticked s"
  by (simp add: databaseTime_def success)

lemma wallTime_success [success]:
  "wallTime s = (Inr x, t) \<longleftrightarrow> alive s \<and> x = or_wall (outside s) (ticks s) \<and> t = ticked s"
  by (auto simp: wallTime_def prim_success)

lemma randomUUID_success [success]:
  "randomUUID s = (Inr x, t) \<longleftrightarrow> alive s \<and> x = or_uuid (outside s) (ticks s) \<and> t = ticked s"
  by (auto simp: randomUUID_def prim_success)

lemma randomToken_success [success]:
  "randomToken s = (Inr x, t) \<longleftrightarrow> alive s \<and> x = or_token (outside s) (ticks s) \<and> t = ticked s"
  by (auto simp: randomToken_def prim_success)

lemma new_id_success [success]:
  "new_id k s = (Inr x, t) \<longleftrightarrow>
     alive s \<and> newId k (or_uuid (outside s) (ticks s)) = Some x \<and> t = ticked s"
  by (auto simp: new_id_def success)

lemma tryLock_success [success]:
  "tryLock s = (Inr x, t) \<longleftrightarrow> healthy s \<and> x = (\<not> or_busy (outside s) (ticks s)) \<and> t = ticked s"
  by (auto simp: tryLock_def prim_success healthy_def)

definition accepted :: "statement \<Rightarrow> 'e process_scheme \<Rightarrow> nat \<Rightarrow> 'e process_scheme \<Rightarrow> bool" where
  "accepted st s n t \<longleftrightarrow> healthy s \<and> \<not> or_lost (outside s) (ticks s) \<and>
     (\<exists>d. apply_stmt (tx_now s (ticks s)) (clock_of s) st (store s) = Some (d, n)
        \<and> t = (ticked s)\<lparr>store := d\<rparr>)"

lemma exec_success [success]: "exec st s = (Inr n, t) \<longleftrightarrow> accepted st s n t"
  by (auto simp: exec_def prim_success accepted_def healthy_def clock_of_def
      split: option.splits if_splits)

lemma run_success [success]: "run st s = (Inr u, t) \<longleftrightarrow> (\<exists>n. accepted st s n t)"
  by (auto simp: run_def success)

lemma accepted_fields:
  "accepted st s n t \<Longrightarrow> outside t = outside s \<and> began t = began s \<and> ticks t = Suc (ticks s)
     \<and> process.more t = process.more s"
  by (auto simp: accepted_def)

lemma accepted_store: "accepted st s n t \<Longrightarrow>
  store t = fst (effect_of (tx_now s (ticks s)) (clock_of s) st (store s))
  \<and> n = snd (effect_of (tx_now s (ticks s)) (clock_of s) st (store s))
  \<and> triggers_ok (clock_of s) st (store s) \<and> schema_ok (store t)"
  by (auto simp: accepted_def apply_stmt_def Let_def split: if_splits)

definition opened :: "'e process_scheme \<Rightarrow> 'e process_scheme" where
  "opened s = (ticked s)\<lparr>began := Some (tx_now s (ticks s))\<rparr>"

lemma opened_fields [simp]:
  "store (opened s) = store s" "outside (opened s) = outside s"
  "ticks (opened s) = Suc (ticks s)" "process.more (opened s) = process.more s"
  "began (opened s) = Some (tx_now s (ticks s))"
  by (simp_all add: opened_def)

lemma opened_world [simp]: "submitted (opened s) = submitted s" "cloud (opened s) = cloud s"
  by (simp_all add: opened_def)

lemma commit_success: "commit s = (Inr l, t) \<longleftrightarrow> healthy s \<and> l = or_lost (outside s) (ticks s) \<and> t = ticked s"
  by (auto simp: commit_def prim_success healthy_def)

lemma transaction_success [success]:
  "transaction m s = (Inr x, t) \<longleftrightarrow>
     healthy s \<and> (\<exists>u. m (opened s) = (Inr x, u) \<and> healthy u \<and> \<not> or_lost (outside u) (ticks u)
       \<and> t = (ticked u)\<lparr>began := began s\<rparr>)"
proof -
  have "transaction m s = (Inr x, t) \<longleftrightarrow> healthy s \<and>
     (\<exists>lost u. bind m (\<lambda>x. bind commit (\<lambda>lost. ret (x, lost))) (opened s) = (Inr (x, lost), u)
        \<and> \<not> lost \<and> t = u\<lparr>began := began s\<rparr>)"
    by (auto simp: transaction_def prim_success healthy_def opened_def
        split: prod.splits sum.splits if_splits)
  then show ?thesis by (auto simp: success commit_success)
qed

lemma lock_success [success]:
  "withMachineLock work s = (Inr r, t) \<longleftrightarrow> healthy s \<and>
     (if or_busy (outside s) (ticks s) then r = None \<and> t = ticked s
      else \<exists>x. work (ticked s) = (Inr x, t) \<and> r = Some x)"
  by (auto simp: withMachineLock_def success)

end
