(* ===== verification/Triples.thy ===== *)
theory Triples
  imports Outcomes
begin

text \<open>
  A calculus of weakest preconditions over the database. \<open>runs d m Q E\<close>: started in database \<open>d\<close>,
  under every environment, \<open>m\<close> ends in a database that satisfies \<open>Q x\<close> when it returns \<open>x\<close> and
  \<open>E\<close> otherwise. The exceptional postcondition covers thrown errors, lost connections, lost
  replies and the death of the process. The rules in \<open>wp\<close> execute a handler symbolically.
\<close>

definition runs :: "db \<Rightarrow> ('e process_scheme, 'a) prog \<Rightarrow> ('a \<Rightarrow> db \<Rightarrow> bool) \<Rightarrow> (db \<Rightarrow> bool) \<Rightarrow> bool" where
  "runs d m Q E \<longleftrightarrow> (\<forall>s. store s = d \<longrightarrow>
     (case m s of (Inr x, t) \<Rightarrow> Q x (store t) | (Inl e, t) \<Rightarrow> E (store t)))"

named_theorems wp "weakest precondition rules"

lemma runsI:
  "(\<And>s x t. store s = d \<Longrightarrow> m s = (Inr x, t) \<Longrightarrow> Q x (store t)) \<Longrightarrow>
   (\<And>s e t. store s = d \<Longrightarrow> m s = (Inl e, t) \<Longrightarrow> E (store t)) \<Longrightarrow> runs d m Q E"
  unfolding runs_def by (auto split: prod.splits sum.splits)

lemma runs_Inr: "runs d m Q E \<Longrightarrow> store s = d \<Longrightarrow> m s = (Inr x, t) \<Longrightarrow> Q x (store t)"
  unfolding runs_def by fastforce

lemma runs_Inl: "runs d m Q E \<Longrightarrow> store s = d \<Longrightarrow> m s = (Inl e, t) \<Longrightarrow> E (store t)"
  unfolding runs_def by fastforce

lemma runs_any: "runs (store s) m (\<lambda>_. Q) Q \<Longrightarrow> Q (store (snd (m s)))"
  unfolding runs_def by (auto split: prod.splits sum.splits) (metis prod.collapse sum.exhaust)

lemma runs_weaken:
  "runs d m Q E \<Longrightarrow> (\<And>x d. Q x d \<Longrightarrow> Q' x d) \<Longrightarrow> (\<And>d. E d \<Longrightarrow> E' d) \<Longrightarrow> runs d m Q' E'"
  by (rule runsI) (metis runs_Inr, metis runs_Inl)

lemma runs_conj:
  "runs d m Q E \<Longrightarrow> runs d m Q' E' \<Longrightarrow> runs d m (\<lambda>x d. Q x d \<and> Q' x d) (\<lambda>d. E d \<and> E' d)"
  by (rule runsI) (metis runs_Inr, metis runs_Inl)

lemma runs_ret [wp]: "Q x d \<Longrightarrow> runs d (ret x) Q E"
  by (rule runsI) (auto simp: ret_def)

lemma runs_raise [wp]: "E d \<Longrightarrow> runs d (raise e) Q E"
  by (rule runsI) (auto simp: raise_def)

lemma runs_throw [wp]: "E d \<Longrightarrow> runs d (throw c) Q E"
  unfolding throw_def by (rule runs_raise)

lemma runs_bind [wp]:
  assumes "runs d m (\<lambda>x d'. runs d' (f x) Q E) E"
  shows "runs d (bind m f) Q E"
proof (rule runsI)
  fix s y u assume d: "store s = d" and "bind m f s = (Inr y, u)"
  then obtain x t where m: "m s = (Inr x, t)" and f: "f x t = (Inr y, u)" by (auto simp: success)
  show "Q y (store u)" using runs_Inr [OF runs_Inr [OF assms d m] refl f] .
next
  fix s e u assume d: "store s = d" and e: "bind m f s = (Inl e, u)"
  obtain r t where m: "m s = (r, t)" by fastforce
  show "E (store u)"
  proof (cases r)
    case (Inl e')
    with m e have "m s = (Inl e, u)" by (simp add: bind_def)
    from runs_Inl [OF assms d this] show ?thesis .
  next
    case (Inr x)
    with m e have f: "f x t = (Inl e, u)" by (simp add: bind_def)
    show ?thesis using runs_Inl [OF runs_Inr [OF assms d m [unfolded Inr]] refl f] .
  qed
qed

lemma runs_unless [wp]:
  "(b \<Longrightarrow> Q () d) \<Longrightarrow> (\<not> b \<Longrightarrow> E d) \<Longrightarrow> runs d (unless b c) Q E"
  unfolding unless_def by (auto intro: wp)

lemma runs_present [wp]: "(\<And>v. x = Some v \<Longrightarrow> Q v d) \<Longrightarrow> E d \<Longrightarrow> runs d (present c x) Q E"
  unfolding present_def by (cases x) (auto intro: wp)

lemma runs_parsed [wp]: "(\<And>v. x = Some v \<Longrightarrow> Q v d) \<Longrightarrow> E d \<Longrightarrow> runs d (parsed x) Q E"
  unfolding parsed_def by (cases x) (auto intro: wp)

lemma runs_pure_of [wp]: "(\<And>v. r = Inr v \<Longrightarrow> Q v d) \<Longrightarrow> E d \<Longrightarrow> runs d (pure_of r) Q E"
  unfolding pure_of_def by (cases r) (auto intro: wp)

lemma runs_if [wp]:
  "(b \<Longrightarrow> runs d m Q E) \<Longrightarrow> (\<not> b \<Longrightarrow> runs d n Q E) \<Longrightarrow> runs d (if b then m else n) Q E"
  by simp

lemma runs_option [wp]:
  "(x = None \<Longrightarrow> runs d m Q E) \<Longrightarrow> (\<And>v. x = Some v \<Longrightarrow> runs d (f v) Q E) \<Longrightarrow>
     runs d (case x of None \<Rightarrow> m | Some v \<Rightarrow> f v) Q E"
  by (cases x) auto

lemma runs_onlyIf [wp]:
  "(b \<Longrightarrow> runs d m Q E) \<Longrightarrow> (\<not> b \<Longrightarrow> Q () d) \<Longrightarrow> runs d (onlyIf b m) Q E"
  unfolding onlyIf_def by (auto intro: wp)

lemma runs_let [wp]: "runs d (f x) Q E \<Longrightarrow> runs d (Let x f) Q E"
  by simp

lemma runs_footprint:
  assumes "footprint T m" "\<And>x d'. wrote_in T d d' \<Longrightarrow> Q x d'" "\<And>d'. wrote_in T d d' \<Longrightarrow> E d'"
  shows "runs d m Q E"
proof (rule runsI)
  show "Q x (store t)" if "store s = d" "m s = (Inr x, t)" for s x t
    using staysD [OF assms(1) that(2)] that(1) by (auto simp: footstep_def intro: assms(2))
  show "E (store t)" if "store s = d" "m s = (Inl e, t)" for s e t
    using staysD [OF assms(1) that(2)] that(1) by (auto simp: footstep_def intro: assms(3))
qed

lemma wrote_nothing: "wrote_in {} d d' \<Longrightarrow> d' = d"
  by (induction rule: rtranclp_induct) (auto simp: writes_in_def)

lemma runs_silent:
  assumes "footprint {} m" "\<And>x. Q x d" "E d"
  shows "runs d m Q E"
  by (rule runs_footprint [OF assms(1)]) (use assms(2,3) in \<open>auto dest: wrote_nothing\<close>)

lemma runs_observe [wp]:
  assumes "\<And>now clock. Q (g now clock d) d" "E d"
  shows "runs d (observe g) Q E"
proof (rule runsI)
  show "Q x (store t)" if "store s = d" "observe g s = (Inr x, t)" for s x t
    using that assms(1) by (auto simp: success)
  show "E (store t)" if "store s = d" "observe g s = (Inl e, t)" for s e t
    using that assms(2) by (auto simp: observe_def prim_def Let_def split: if_splits)
qed

lemma runs_query [wp]: "Q (g d) d \<Longrightarrow> E d \<Longrightarrow> runs d (query g) Q E"
  unfolding query_def by (rule runs_observe) auto

lemma runs_databaseTime [wp]: "(\<And>t. Q t d) \<Longrightarrow> E d \<Longrightarrow> runs d databaseTime Q E"
  by (rule runs_silent [OF footprint_databaseTime])

lemma runs_wallTime [wp]: "(\<And>t. Q t d) \<Longrightarrow> E d \<Longrightarrow> runs d wallTime Q E"
  by (rule runs_silent [OF footprint_wallTime])

lemma runs_randomUUID [wp]: "(\<And>t. Q t d) \<Longrightarrow> E d \<Longrightarrow> runs d randomUUID Q E"
  by (rule runs_silent [OF footprint_randomUUID])

lemma runs_randomToken [wp]: "(\<And>t. Q t d) \<Longrightarrow> E d \<Longrightarrow> runs d randomToken Q E"
  by (rule runs_silent [OF footprint_randomToken])

lemma runs_tryLock [wp]: "(\<And>t. Q t d) \<Longrightarrow> E d \<Longrightarrow> runs d tryLock Q E"
  by (rule runs_silent [OF footprint_tryLock])

lemma runs_reply [wp]: "(\<And>t. Q t d) \<Longrightarrow> E d \<Longrightarrow> runs d (reply r) Q E"
  by (rule runs_silent [OF footprint_reply])

lemma runs_new_id [wp]:
  "(\<And>u i. newId k u = Some i \<Longrightarrow> Q i d) \<Longrightarrow> E d \<Longrightarrow> runs d (new_id k) Q E"
  unfolding new_id_def by (intro wp) auto

lemma runs_exec [wp]:
  assumes "\<And>d' now clock n. apply_stmt now clock st d = Some (d', n) \<Longrightarrow> Q n d'"
    and "\<And>d' now clock n. apply_stmt now clock st d = Some (d', n) \<Longrightarrow> E d'"
    and "E d"
  shows "runs d (exec st) Q E"
proof (rule runsI)
  show "Q n (store t)" if "store s = d" "exec st s = (Inr n, t)" for s n t
    using that assms(1) by (auto simp: success accepted_def)
  show "E (store t)" if "store s = d" "exec st s = (Inl e, t)" for s e t
    using that assms by (auto simp: exec_def prim_def Let_def split: if_splits option.splits)
qed

lemma runs_run [wp]:
  assumes "\<And>d' now clock n. apply_stmt now clock st d = Some (d', n) \<Longrightarrow> Q () d'"
    and "\<And>d' now clock n. apply_stmt now clock st d = Some (d', n) \<Longrightarrow> E d'"
    and "E d"
  shows "runs d (run st) Q E"
  unfolding run_def by (intro wp) (use assms in auto)

text \<open>A transaction that fails leaves the database it began with, unless only the reply of its
  commit was lost.\<close>

lemma runs_transaction:
  assumes "runs d m (\<lambda>x d'. Q x d' \<and> E d') F" "E d"
  shows "runs d (transaction m) Q E"
proof (rule runsI)
  fix s x t assume "store s = d" "transaction m s = (Inr x, t)"
  then obtain u where u: "m (opened s) = (Inr x, u)" "store (opened s) = d" "store t = store u"
    by (auto simp: success)
  show "Q x (store t)" using runs_Inr [OF assms(1) u(2,1)] u(3) by simp
next
  fix s e t assume d: "store s = d" and e: "transaction m s = (Inl e, t)"
  then have "store t = store s \<or> (\<exists>x u. m (opened s) = (Inr x, u) \<and> store t = store u)"
    unfolding transaction_def prim_def bind_def
    by (auto simp: commit_def prim_def ret_def Let_def opened_def ticked_def
        split: if_splits prod.splits sum.splits)
  moreover have "store (opened s) = d" using d by simp
  ultimately show "E (store t)" using d assms(2) runs_Inr [OF assms(1)] by metis
qed

lemma runs_transaction_any [wp]:
  "runs d m (\<lambda>x d'. Q x d' \<and> E d') (\<lambda>_. True) \<Longrightarrow> E d \<Longrightarrow> runs d (transaction m) Q E"
  by (rule runs_transaction)

lemma runs_lock [wp]:
  "runs d m (\<lambda>x. Q (Some x)) E \<Longrightarrow> Q None d \<Longrightarrow> E d \<Longrightarrow> runs d (withMachineLock m) Q E"
  unfolding withMachineLock_def by (intro wp) (auto elim!: runs_weaken intro: wp)

lemma runs_catch_cloud:
  assumes "runs d m Q F" "\<And>d. F d \<Longrightarrow> E d" "\<And>f d. F d \<Longrightarrow> runs d (h f) Q E"
  shows "runs d (catch_cloud m h) Q E"
proof (rule runsI)
  fix s x t assume d: "store s = d" and r: "catch_cloud m h s = (Inr x, t)"
  obtain u v where m: "m s = (u, v)" by fastforce
  have F: "F (store v)" if "u = Inl e" for e using runs_Inl [OF assms(1) d] m that by simp
  have Q: "Q x (store v)" if "u = Inr x" for x using runs_Inr [OF assms(1) d] m that by simp
  show "Q x (store t)"
    using r m F Q by (auto simp: catch_cloud_def split: sum.splits exn.splits
        dest: runs_Inr [OF assms(3) refl])
next
  fix s e t assume d: "store s = d" and r: "catch_cloud m h s = (Inl e, t)"
  obtain u v where m: "m s = (u, v)" by fastforce
  have F: "F (store v)" if "u = Inl e" for e using runs_Inl [OF assms(1) d] m that by simp
  show "E (store t)"
    using r m F by (auto simp: catch_cloud_def split: sum.splits exn.splits
        intro: assms(2) dest: runs_Inl [OF assms(3) refl])
qed

lemma runs_catch_any:
  assumes "runs d m Q F" "\<And>d. F d \<Longrightarrow> E d" "\<And>d. F d \<Longrightarrow> runs d h Q E"
  shows "runs d (catch_any m h) Q E"
proof (rule runsI)
  fix s x t assume d: "store s = d" and r: "catch_any m h s = (Inr x, t)"
  obtain u v where m: "m s = (u, v)" by fastforce
  have F: "F (store v)" if "u = Inl e" for e using runs_Inl [OF assms(1) d] m that by simp
  have Q: "Q x (store v)" if "u = Inr x" for x using runs_Inr [OF assms(1) d] m that by simp
  show "Q x (store t)"
    using r m F Q by (auto simp: catch_any_def split: sum.splits exn.splits
        dest: runs_Inr [OF assms(3) refl])
next
  fix s e t assume d: "store s = d" and r: "catch_any m h s = (Inl e, t)"
  obtain u v where m: "m s = (u, v)" by fastforce
  have F: "F (store v)" if "u = Inl e" for e using runs_Inl [OF assms(1) d] m that by simp
  show "E (store t)"
    using r m F by (auto simp: catch_any_def split: sum.splits exn.splits
        intro: assms(2) dest: runs_Inl [OF assms(3) refl])
qed

lemma runs_foldM:
  assumes "\<And>acc x d. I acc d \<Longrightarrow> runs d (f acc x) I E" "\<And>acc d. I acc d \<Longrightarrow> E d" "I acc d"
  shows "runs d (foldM f acc xs) I E"
  using assms(3) by (induction xs arbitrary: acc d) (auto intro: wp elim!: runs_weaken [OF assms(1)] assms(2))

end
