(* ===== verification/Database_Laws.thy ===== *)
theory Database_Laws
  imports Footprint
begin

text \<open>
  What the schema and its triggers guarantee of every accepted statement: which tables a footprint
  leaves alone, the append-only journal of provider attempts, the reservation ledger, the finality
  of revocation, retirement and absence, and what the end of a cleanup implies.
\<close>

section \<open>Accepted statements\<close>

lemma writes_inE:
  assumes "writes_in T d d'"
  obtains s now clock where "tag_of s \<in> T" "issued s" "triggers_ok clock s d" "schema_ok d'"
    "d' = fst (effect_of now clock s d)"
proof -
  from assms obtain now clock s n where s: "tag_of s \<in> T" "issued s"
      "apply_stmt now clock s d = Some (d', n)"
    unfolding writes_in_def by blast
  from s(3) have "triggers_ok clock s d" "schema_ok d'" "d' = fst (effect_of now clock s d)"
    by (auto simp: apply_stmt_def Let_def split: if_splits)
  with s(1,2) show thesis by (rule that)
qed

interpretation schema: write_invariant T schema_ok for T
  by unfold_locales (auto elim: writes_inE)

section \<open>Tables a footprint leaves alone\<close>

lemma frame_grants:
  "writes_in T d d' \<Longrightarrow> T_ins_grant \<notin> T \<Longrightarrow> T_upd_grants \<notin> T \<Longrightarrow> grants d' = grants d"
  by (erule writes_inE, rename_tac s now clock, case_tac s) auto

lemma frame_machines:
  "writes_in T d d' \<Longrightarrow> T_ins_machine \<notin> T \<Longrightarrow> T_upd_machines \<notin> T \<Longrightarrow> machines d' = machines d"
  by (erule writes_inE, rename_tac s now clock, case_tac s) auto

lemma frame_allocations:
  "writes_in T d d' \<Longrightarrow> T_ins_allocation \<notin> T \<Longrightarrow> T_upd_allocations \<notin> T \<Longrightarrow>
     allocations d' = allocations d \<and> reservations d' = reservations d"
  by (erule writes_inE, rename_tac s now clock, case_tac s) auto

lemma frame_operations:
  "writes_in T d d' \<Longrightarrow> T_ins_operation \<notin> T \<Longrightarrow> T_upd_operations \<notin> T \<Longrightarrow>
     operations d' = operations d"
  by (erule writes_inE, rename_tac s now clock, case_tac s) auto

lemma frame_cleanups: "writes_in T d d' \<Longrightarrow> T_ins_cleanup \<notin> T \<Longrightarrow> cleanups d' = cleanups d"
  by (erule writes_inE, rename_tac s now clock, case_tac s) auto

lemma frame_attempts:
  "writes_in T d d' \<Longrightarrow> T_ins_attempt \<notin> T \<Longrightarrow> T_upd_attempts \<notin> T \<Longrightarrow> attempts d' = attempts d"
  by (erule writes_inE, rename_tac s now clock, case_tac s) auto

lemma frame_recoveries: "writes_in T d d' \<Longrightarrow> T_ins_recovery \<notin> T \<Longrightarrow> recoveries d' = recoveries d"
  by (erule writes_inE, rename_tac s now clock, case_tac s) auto

lemma frame_resources:
  "writes_in T d d' \<Longrightarrow> T_ins_resource \<notin> T \<Longrightarrow> T_upd_resources \<notin> T \<Longrightarrow> resources d' = resources d"
  by (erule writes_inE, rename_tac s now clock, case_tac s) (auto split: if_splits)

lemma frame_fixed:
  "writes_in T d d' \<Longrightarrow> accounts d' = accounts d \<and> projects d' = projects d
     \<and> guest_identities d' = guest_identities d \<and> control_closures d' = control_closures d"
  by (erule writes_inE, rename_tac s now clock, case_tac s) (auto split: if_splits)

interpretation fixed_tables: write_law T "\<lambda>d d'. accounts d' = accounts d \<and> projects d' = projects d
     \<and> guest_identities d' = guest_identities d \<and> control_closures d' = control_closures d" for T
  by unfold_locales (auto dest: frame_fixed)

lemma wrote_frame:
  assumes "wrote_in T d d'" "\<And>d d'. writes_in T d d' \<Longrightarrow> f d' = f d"
  shows "f d' = f d"
  using assms(1) by (induction rule: rtranclp_induct) (auto dest: assms(2))

lemmas wrote_frames = wrote_frame [of _ _ _ grants] wrote_frame [of _ _ _ machines]
  wrote_frame [of _ _ _ attempts] wrote_frame [of _ _ _ resources]

section \<open>Rows that only evolve\<close>

definition evolves :: "('a \<Rightarrow> 'a \<Rightarrow> bool) \<Rightarrow> 'a list \<Rightarrow> 'a list \<Rightarrow> bool" where
  "evolves K xs ys \<longleftrightarrow> (\<exists>zs ws. ys = zs @ ws \<and> list_all2 K xs zs)"

lemma evolves_refl: "(\<And>x. K x x) \<Longrightarrow> evolves K xs xs"
  unfolding evolves_def by (intro exI [of _ xs] exI [of _ "[]"]) (simp add: list.rel_refl)

lemma evolves_trans:
  assumes "\<And>x y z. K x y \<Longrightarrow> K y z \<Longrightarrow> K x z" "evolves K xs ys" "evolves K ys zs"
  shows "evolves K xs zs"
proof -
  obtain y1 y2 z1 z2 where "ys = y1 @ y2" "list_all2 K xs y1" "zs = z1 @ z2" "list_all2 K ys z1"
    using assms(2,3) unfolding evolves_def by blast
  moreover from this obtain u v where "z1 = u @ v" "list_all2 K y1 u"
    by (auto simp: list_all2_append1)
  ultimately have "list_all2 K xs u" "zs = u @ (v @ z2)"
    using list_all2_trans [of K K K xs y1 u] assms(1) by auto
  then show ?thesis unfolding evolves_def by blast
qed

lemma evolves_append: "(\<And>x. K x x) \<Longrightarrow> evolves K xs (xs @ ys)"
  unfolding evolves_def by (intro exI [of _ xs] exI [of _ ys]) (simp add: list.rel_refl)

lemma evolves_update:
  "(\<And>x. x \<in> set xs \<Longrightarrow> P x \<Longrightarrow> K x (f x)) \<Longrightarrow> (\<And>x. K x x) \<Longrightarrow> evolves K xs (update_where P f xs)"
  unfolding evolves_def
  by (intro exI [of _ "update_where P f xs"] exI [of _ "[]"])
     (auto simp: update_where_def list_all2_conv_all_nth)

lemma evolves_in:
  assumes "evolves K xs ys" "x \<in> set xs"
  shows "\<exists>y\<in>set ys. K x y"
proof -
  obtain zs ws where ys: "ys = zs @ ws" "list_all2 K xs zs"
    using assms(1) unfolding evolves_def by blast
  then have "\<exists>y\<in>set zs. K x y"
    using assms(2) by (metis in_set_conv_nth list_all2_conv_all_nth)
  with ys show ?thesis by auto
qed

subsection \<open>Provider attempts\<close>

definition keeps_attempt :: "attempt_row \<Rightarrow> attempt_row \<Rightarrow> bool" where
  "keeps_attempt a a' \<longleftrightarrow>
     a'\<lparr>at_outcome := at_outcome a, at_resolution := at_resolution a\<rparr> = a
     \<and> (at_outcome a' = at_outcome a \<or> at_outcome a = Prepared)
     \<and> (at_resolution a' = at_resolution a \<or> at_resolution a = Res_pending)"

lemma keeps_attempt_fields:
  "keeps_attempt a a' \<Longrightarrow> at_id a' = at_id a \<and> at_accountId a' = at_accountId a
     \<and> at_operationId a' = at_operationId a \<and> at_sequence a' = at_sequence a
     \<and> at_command a' = at_command a \<and> at_createdAt a' = at_createdAt a"
  by (cases a; cases a') (auto simp: keeps_attempt_def)

lemma keeps_attempt_refl: "keeps_attempt a a"
  by (simp add: keeps_attempt_def)

lemma keeps_attempt_trans: "keeps_attempt a b \<Longrightarrow> keeps_attempt b c \<Longrightarrow> keeps_attempt a c"
  by (cases a; cases b; cases c) (auto simp: keeps_attempt_def)

interpretation journal: write_law T "\<lambda>d d'. evolves keeps_attempt (attempts d) (attempts d')" for T
proof unfold_locales
  fix d d' assume "writes_in T d d'"
  then show "evolves keeps_attempt (attempts d) (attempts d')"
  proof (rule writes_inE)
    fix s now clock
    assume "triggers_ok clock s d" "d' = fst (effect_of now clock s d)"
    then show ?thesis
      by (cases s) (auto simp: updated_rows_def guard_attempt_update_def keeps_attempt_def list_all_iff
          intro!: evolves_refl evolves_append evolves_update keeps_attempt_refl)
  qed
qed (auto intro: evolves_refl keeps_attempt_refl evolves_trans keeps_attempt_trans)

subsection \<open>Grants\<close>

lemma keeps_grant_refl: "keeps_grant g g"
  by (simp add: keeps_grant_def)

lemma keeps_grant_trans: "keeps_grant a b \<Longrightarrow> keeps_grant b c \<Longrightarrow> keeps_grant a c"
  by (cases a; cases b; cases c) (auto simp: keeps_grant_def)

lemma keeps_grant_fields:
  "keeps_grant g g' \<Longrightarrow> gr_id g' = gr_id g \<and> gr_accountId g' = gr_accountId g
     \<and> gr_parentId g' = gr_parentId g \<and> gr_policy g' = gr_policy g
     \<and> gr_expiresAt g' = gr_expiresAt g \<and> gr_tokenHash g' = gr_tokenHash g"
  by (cases g; cases g') (auto simp: keeps_grant_def)

interpretation grant_history: write_law T "\<lambda>d d'. evolves keeps_grant (grants d) (grants d')" for T
proof unfold_locales
  fix d d' assume "writes_in T d d'"
  then show "evolves keeps_grant (grants d) (grants d')"
  proof (rule writes_inE)
    fix s now clock
    assume "issued s" "d' = fst (effect_of now clock s d)"
    then show ?thesis
      by (cases s) (auto simp: on_where_def
          intro!: evolves_refl evolves_append evolves_update keeps_grant_refl)
  qed
qed (auto intro: evolves_refl keeps_grant_refl evolves_trans keeps_grant_trans)

subsection \<open>Allocations and resources\<close>

lemma keeps_allocation_refl: "keeps_allocation g g"
  by (simp add: keeps_allocation_def)

lemma keeps_allocation_trans: "keeps_allocation a b \<Longrightarrow> keeps_allocation b c \<Longrightarrow> keeps_allocation a c"
  by (cases a; cases b; cases c) (auto simp: keeps_allocation_def)

lemma keeps_allocation_fields:
  "keeps_allocation a a' \<Longrightarrow> al_id a' = al_id a \<and> al_accountId a' = al_accountId a
     \<and> al_machineId a' = al_machineId a \<and> al_provider a' = al_provider a
     \<and> al_currency a' = al_currency a \<and> (al_retiredAt a \<noteq> None \<longrightarrow> al_retiredAt a' \<noteq> None)"
  by (cases a; cases a') (auto simp: keeps_allocation_def)

interpretation allocation_history:
  write_law T "\<lambda>d d'. evolves keeps_allocation (allocations d) (allocations d')" for T
proof unfold_locales
  fix d d' assume "writes_in T d d'"
  then show "evolves keeps_allocation (allocations d) (allocations d')"
  proof (rule writes_inE)
    fix s now clock
    assume "issued s" "d' = fst (effect_of now clock s d)"
    then show ?thesis
      by (cases s) (auto simp: on_where_def
          intro!: evolves_refl evolves_append evolves_update keeps_allocation_refl)
  qed
qed (auto intro: evolves_refl keeps_allocation_refl evolves_trans keeps_allocation_trans)

lemma keeps_resource_refl: "keeps_resource g g"
  by (simp add: keeps_resource_def)

lemma keeps_resource_trans: "keeps_resource a b \<Longrightarrow> keeps_resource b c \<Longrightarrow> keeps_resource a c"
  by (cases a; cases b; cases c) (auto simp: keeps_resource_def)

interpretation resource_history:
  write_law T "\<lambda>d d'. evolves keeps_resource (resources d) (resources d')" for T
proof unfold_locales
  fix d d' assume "writes_in T d d'"
  then show "evolves keeps_resource (resources d) (resources d')"
  proof (rule writes_inE)
    fix s now clock
    assume "issued s" "d' = fst (effect_of now clock s d)"
    then show ?thesis
      by (cases s) (auto simp: on_where_def split: if_splits
          intro!: evolves_refl evolves_append evolves_update keeps_resource_refl)
  qed
qed (auto intro: evolves_refl keeps_resource_refl evolves_trans keeps_resource_trans)

lemma keeps_operation_fields:
  assumes "keeps_operation p p'"
  shows "op_id p' = op_id p \<and> op_accountId p' = op_accountId p \<and> op_projectId p' = op_projectId p
     \<and> op_machineId p' = op_machineId p \<and> op_grantId p' = op_grantId p \<and> op_kind p' = op_kind p
     \<and> op_createdAt p' = op_createdAt p \<and> op_command p' = op_command p \<and> op_offer p' = op_offer p"
proof -
  have e: "p'\<lparr>op_intent := op_intent p, op_progress := op_progress p\<rparr> = p"
    using assms by (simp add: keeps_operation_def)
  show ?thesis
    using arg_cong [OF e, of op_id] arg_cong [OF e, of op_accountId] arg_cong [OF e, of op_projectId]
      arg_cong [OF e, of op_machineId] arg_cong [OF e, of op_grantId] arg_cong [OF e, of op_kind]
      arg_cong [OF e, of op_createdAt] arg_cong [OF e, of op_command] arg_cong [OF e, of op_offer]
    by simp
qed

end
