(* ===== verification/Ledger.thy ===== *)
theory Ledger
  imports Database_Laws
begin

text \<open>
  The reservation ledger kept by the trigger of migration 0026, and what the cleanup triggers of
  migration 0018 guarantee at the end of a cleanup.
\<close>

section \<open>The reservation ledger\<close>

text \<open>What an allocation currently reserves, and what the ledger says it reserves.\<close>

definition reserved :: "allocation_row \<Rightarrow> micros" where
  "reserved a = (if live a then al_hourlyMicros a else 0)"

definition ledger_rate :: "reservation_row list \<Rightarrow> id \<Rightarrow> micros option" where
  "ledger_rate rs i = map_option rv_hourlyMicros (last_option (filter (\<lambda>r. rv_allocationId r = i) rs))"

definition ledger_ok :: "db \<Rightarrow> bool" where
  "ledger_ok d \<longleftrightarrow> list_all (\<lambda>a. ledger_rate (reservations d) (al_id a) = Some (reserved a)) (allocations d)"

lemma ledger_rate_append:
  "ledger_rate (rs @ [reservation_event clock kind a n]) i =
     (if al_id a = i then Some (reserved a) else ledger_rate rs i)"
  by (simp add: ledger_rate_def last_option_def reservation_event_def reserved_def live_def)

lemma ledger_rate_events:
  "ledger_rate (append_reservations clock kind as rs) i =
     (case last_option (filter (\<lambda>a. al_id a = i) as) of
        None \<Rightarrow> ledger_rate rs i | Some a \<Rightarrow> Some (reserved a))"
proof (induction as arbitrary: rs)
  case (Cons a as)
  show ?case
    by (simp only: append_reservations.simps Cons.IH)
       (auto simp: ledger_rate_append last_option_def split: option.splits)
qed (simp add: last_option_def)

lemma same_reservation: "\<not> reservation_changed (a, a') \<Longrightarrow> reserved a' = reserved a"
  by (simp add: reservation_changed_def reserved_def live_def)

lemma updated_events:
  assumes "unique_by al_id as" "a \<in> set as" "on_where keeps_allocation P f"
  shows "filter (\<lambda>x. al_id x = al_id a) (map snd (filter reservation_changed (updated_rows P f as)))
    = (if P a \<and> reservation_changed (a, f a) then [f a] else [])"
proof -
  have id: "al_id (f x) = al_id x" if "P x" for x
    using assms(3) that keeps_allocation_fields unfolding on_where_def by blast
  have "filter (\<lambda>x. al_id x = al_id a) (map snd (filter reservation_changed (updated_rows P f as)))
      = map f (filter (\<lambda>x. P x \<and> reservation_changed (x, f x) \<and> al_id x = al_id a) as)"
    unfolding updated_rows_def by (induction as) (auto simp: id)
  also have "filter (\<lambda>x. P x \<and> reservation_changed (x, f x) \<and> al_id x = al_id a) as
      = (if P a \<and> reservation_changed (a, f a) then [a] else [])"
    using assms(1,2)
  proof (induction as)
    case (Cons x xs)
    show ?case
    proof (cases "x = a")
      case True
      with Cons.prems have "\<forall>y\<in>set xs. al_id y \<noteq> al_id a"
        by (auto simp: unique_by_def image_iff)
      with True show ?thesis by (auto simp: filter_empty_conv)
    next
      case False
      with Cons.prems have "a \<in> set xs" "al_id x \<noteq> al_id a" "unique_by al_id xs"
        by (auto simp: unique_by_def image_iff)
      with Cons.IH show ?thesis by simp
    qed
  qed simp
  finally show ?thesis by simp
qed

lemma ledger_step:
  assumes "writes_in T d d'" "schema_ok d" "ledger_ok d"
  shows "ledger_ok d'"
  using assms(1)
proof (rule writes_inE)
  fix s now clock
  assume s: "issued s" "schema_ok d'" and d': "d' = fst (effect_of now clock s d)"
  show ?thesis
  proof (cases s)
    case (Insert_allocation a)
    have "unique_by al_id (allocations d @ [a\<lparr>al_createdAt := now\<rparr>])"
      using s(2) d' Insert_allocation by (simp add: schema_ok_def allocations_ok_def)
    then have new: "al_id x \<noteq> al_id a" if "x \<in> set (allocations d)" for x
      using that by (auto simp: unique_by_def image_iff)
    have r: "reservations d' = reservations d @
        [reservation_event clock Admitted a (Suc (length (reservations d)))]"
      and a: "allocations d' = allocations d @ [a\<lparr>al_createdAt := now\<rparr>]"
      using d' Insert_allocation by simp_all
    have "ledger_rate (reservations d') (al_id x) = Some (reserved x)" if "x \<in> set (allocations d)" for x
      using that assms(3) new [OF that] unfolding r ledger_rate_append
      by (auto simp: ledger_ok_def list_all_iff)
    then show ?thesis
      by (simp add: ledger_ok_def list_all_iff a) (simp add: r ledger_rate_append reserved_def live_def)
  next
    case (Update_allocations P f)
    have u: "unique_by al_id (allocations d)"
      using assms(2) by (simp add: schema_ok_def allocations_ok_def)
    have on: "on_where keeps_allocation P f" using s(1) Update_allocations by simp
    have "ledger_rate (reservations d') (al_id b) = Some (reserved b)"
      if b: "b \<in> set (allocations d')" for b
    proof -
      from b obtain a where a: "a \<in> set (allocations d)" "b = (if P a then f a else a)"
        using d' Update_allocations by (auto simp: in_update_where)
      have id: "al_id b = al_id a"
        using a(2) on keeps_allocation_fields unfolding on_where_def by auto
      have "ledger_rate (reservations d) (al_id a) = Some (reserved a)"
        using assms(3) a(1) by (simp add: ledger_ok_def list_all_iff)
      moreover have r: "reservations d' = append_reservations clock Changed
          (map snd (filter reservation_changed (updated_rows P f (allocations d)))) (reservations d)"
        using d' Update_allocations by simp
      ultimately show ?thesis
        using a(2) same_reservation [of a "f a"]
        unfolding id r ledger_rate_events updated_events [OF u a(1) on]
        by (simp add: last_option_def)
    qed
    then show ?thesis by (simp add: ledger_ok_def list_all_iff)
  qed (use assms(3) d' in \<open>auto simp: ledger_ok_def split: if_splits\<close>)
qed

interpretation ledger: write_invariant T "\<lambda>d. schema_ok d \<and> ledger_ok d" for T
  by unfold_locales (auto intro: schema.kept ledger_step)

section \<open>The end of a cleanup\<close>

text \<open>A cleanup whose executing operation is terminal has retired its allocation.\<close>

definition cleanup_ends_retired :: "db \<Rightarrow> bool" where
  "cleanup_ends_retired d \<longleftrightarrow> list_all (\<lambda>c. list_all (\<lambda>p.
     op_id p = cu_operationId c \<and> isOperationTerminal p \<longrightarrow>
       list_ex (\<lambda>a. al_id a = cu_allocationId c \<and> al_retiredAt a \<noteq> None) (allocations d))
     (operations d)) (cleanups d)"

lemma cleanup_ends_retiredD:
  "cleanup_ends_retired d \<Longrightarrow> c \<in> set (cleanups d) \<Longrightarrow> p \<in> set (operations d) \<Longrightarrow>
     op_id p = cu_operationId c \<Longrightarrow> isOperationTerminal p \<Longrightarrow>
     \<exists>a\<in>set (allocations d). al_id a = cu_allocationId c \<and> al_retiredAt a \<noteq> None"
  unfolding cleanup_ends_retired_def list_all_iff list_ex_iff by blast

lemma cleanup_ends_retiredI:
  "(\<And>c p. c \<in> set (cleanups d) \<Longrightarrow> p \<in> set (operations d) \<Longrightarrow> op_id p = cu_operationId c \<Longrightarrow>
     isOperationTerminal p \<Longrightarrow>
     \<exists>a\<in>set (allocations d). al_id a = cu_allocationId c \<and> al_retiredAt a \<noteq> None) \<Longrightarrow>
   cleanup_ends_retired d"
  unfolding cleanup_ends_retired_def list_all_iff list_ex_iff by blast

lemma unique_rowD:
  "unique_by f xs \<Longrightarrow> x \<in> set xs \<Longrightarrow> y \<in> set xs \<Longrightarrow> f x = f y \<Longrightarrow> x = y"
  by (auto simp: unique_by_def distinct_map dest: inj_onD)

lemma lookup_row: "unique_by f xs \<Longrightarrow> x \<in> set xs \<Longrightarrow> select_one (\<lambda>y. f y = f x) xs = Some x"
  by (rule select_one_unique) (auto dest: unique_rowD)

lemma referencesD: "references f xs g ys \<Longrightarrow> x \<in> set xs \<Longrightarrow> \<exists>y\<in>set ys. g y = f x"
  by (auto simp: references_def list_all_iff list_ex_iff)

lemma retired_stays:
  assumes "writes_in T d d'"
    and "\<exists>a\<in>set (allocations d). al_id a = i \<and> al_retiredAt a \<noteq> None"
  shows "\<exists>a\<in>set (allocations d'). al_id a = i \<and> al_retiredAt a \<noteq> None"
proof -
  from assms(2) obtain a where a: "a \<in> set (allocations d)" "al_id a = i" "al_retiredAt a \<noteq> None"
    by blast
  from evolves_in [OF allocation_history.law [OF assms(1)] a(1)] obtain b
    where "b \<in> set (allocations d')" "keeps_allocation a b" by blast
  with a(2,3) keeps_allocation_fields [of a b] show ?thesis by metis
qed

lemma cleanup_end_step:
  assumes w: "writes_in T d d'" and ok: "schema_ok d" and inv: "cleanup_ends_retired d"
  shows "cleanup_ends_retired d'"
proof (rule cleanup_ends_retiredI)
  fix c p
  assume c: "c \<in> set (cleanups d')" and p: "p \<in> set (operations d')"
    and cp: "op_id p = cu_operationId c" and t: "isOperationTerminal p"
  from w show "\<exists>a\<in>set (allocations d'). al_id a = cu_allocationId c \<and> al_retiredAt a \<noteq> None"
  proof (rule writes_inE)
    fix s now clock
    assume s: "issued s" "triggers_ok clock s d" "schema_ok d'" "d' = fst (effect_of now clock s d)"
    have ops: "unique_by op_id (operations d')" and cus: "unique_by cu_operationId (cleanups d)"
      using s(3) ok by (simp_all add: schema_ok_def operations_ok_def cleanups_ok_def)
    have same: ?thesis if "c \<in> set (cleanups d)" "p \<in> set (operations d)"
      using retired_stays [OF w cleanup_ends_retiredD [OF inv that cp t]] .
    show ?thesis
    proof (cases s)
      case (Insert_operation q)
      with s(4) c have c': "c \<in> set (cleanups d)" by simp
      have "references (\<lambda>c. (cu_accountId c, cu_operationId c)) (cleanups d)
          (\<lambda>p. (op_accountId p, op_id p)) (operations d)"
        using ok by (simp add: schema_ok_def cleanups_ok_def)
      from referencesD [OF this c'] obtain p0
        where p0: "p0 \<in> set (operations d)" "op_id p0 = cu_operationId c" by auto
      have "p0 \<in> set (operations d')" using p0 s(4) Insert_operation by simp
      with unique_rowD [OF ops p this] cp p0 have "p = p0" by simp
      with c' p0 show ?thesis by (intro same) auto
    next
      case (Update_operations P f)
      with s(4) c have c': "c \<in> set (cleanups d)" by simp
      from p obtain q where q: "q \<in> set (operations d)" "p = (if P q then f q else q)"
        using s(4) Update_operations by (auto simp: in_update_where)
      show ?thesis
      proof (cases "P q")
        case True
        have "op_id p = op_id q"
          using s(1) q True Update_operations keeps_operation_fields [of q p] by (auto simp: on_where_def)
        then have "cleanup_in d (op_id q) = Some c"
          using lookup_row [OF cus c'] cp by (simp add: cleanup_in_def)
        moreover have "guard_cleanup_operation d q p"
          using s(2) q True Update_operations by (auto simp: updated_rows_def list_all_iff)
        ultimately show ?thesis
          using t s(4) Update_operations
          by (auto simp: guard_cleanup_operation_def list_ex_iff)
      qed (use q c' same in auto)
    next
      case (Insert_cleanup n)
      with s(4) p have p': "p \<in> set (operations d)" by simp
      show ?thesis
      proof (cases "c = n")
        case True
        from s(2) Insert_cleanup True obtain q
          where q: "q \<in> set (operations d)" "op_id q = cu_operationId c" "op_progress q = Cleaning_up"
          by (auto simp: guard_operation_cleanup_def split: option.splits dest!: select_one_SomeD)
        have "unique_by op_id (operations d)" using ok by (simp add: schema_ok_def operations_ok_def)
        from unique_rowD [OF this p' q(1)] cp q have "p = q" by simp
        with t q(3) show ?thesis by (simp add: isOperationTerminal_def)
      qed (use c p' s(4) Insert_cleanup same in auto)
    qed (use c p s(4) same in \<open>auto split: if_splits\<close>)
  qed
qed

interpretation cleanup_end: write_invariant T "\<lambda>d. schema_ok d \<and> cleanup_ends_retired d" for T
  by unfold_locales (auto intro: schema.kept cleanup_end_step)

end
