(* ===== verification/Auth_Laws.thy ===== *)
theory Auth_Laws
  imports Auth Triples Ledger
begin

text \<open>
  Correctness of credentials: which chains of grants carry authority, that delegation never
  widens a policy, and that a revocation is permanent for every descendant.
\<close>

section \<open>Lineages\<close>

text \<open>The declarative notion: a lineage of \<open>i\<close> is a complete chain of parents up to a root.\<close>

fun lineage :: "grant_row list \<Rightarrow> id \<Rightarrow> grant_row list \<Rightarrow> bool" where
  "lineage gs i [] = False"
| "lineage gs i (g # rest) \<longleftrightarrow> g \<in> set gs \<and> gr_id g = i \<and>
     (case gr_parentId g of None \<Rightarrow> rest = [] | Some p \<Rightarrow> lineage gs p rest)"

lemma grant_lookup:
  "unique_by gr_id gs \<Longrightarrow> g \<in> set gs \<Longrightarrow> select_one (\<lambda>x. gr_id x = gr_id g) gs = Some g"
  by (rule select_one_unique) (auto simp: unique_by_def distinct_map dest: inj_onD)

lemma ancestry_lineage:
  "unique_by gr_id gs \<Longrightarrow> lineage gs i c \<Longrightarrow> length c \<le> n \<Longrightarrow> ancestry gs i n = c"
proof (induction c arbitrary: i n)
  case (Cons g rest)
  then obtain m where n: "n = Suc m" by (cases n) auto
  have "select_one (\<lambda>x. gr_id x = i) gs = Some g" using Cons.prems grant_lookup by auto
  then show ?case using Cons n by (auto split: option.splits)
qed simp

lemma lineage_unique:
  "unique_by gr_id gs \<Longrightarrow> lineage gs i c \<Longrightarrow> lineage gs i c' \<Longrightarrow> c = c'"
  by (metis ancestry_lineage nle_le)

lemma lineage_suffix:
  "lineage gs i c \<Longrightarrow> g \<in> set c \<Longrightarrow> \<exists>c'. lineage gs (gr_id g) c' \<and> length c' \<le> length c"
proof (induction c arbitrary: i)
  case (Cons a rest)
  show ?case
  proof (cases "g = a")
    case True
    with Cons.prems have "lineage gs (gr_id g) (a # rest)" by auto
    then show ?thesis by blast
  next
    case False
    with Cons.prems obtain p where "lineage gs p rest" "g \<in> set rest" by (auto split: option.splits)
    from Cons.IH [OF this] obtain c' where "lineage gs (gr_id g) c'" "length c' \<le> length rest" by blast
    then show ?thesis by (intro exI [of _ c']) simp
  qed
qed simp


lemma lineage_distinct:
  "unique_by gr_id gs \<Longrightarrow> lineage gs i c \<Longrightarrow> distinct (map gr_id c)"
proof (induction c arbitrary: i)
  case (Cons g rest)
  have "gr_id g \<notin> set (map gr_id rest)"
  proof
    assume "gr_id g \<in> set (map gr_id rest)"
    then obtain x where x: "x \<in> set rest" "gr_id x = gr_id g" by auto
    with Cons.prems obtain p where p: "lineage gs p rest" by (auto split: option.splits)
    from lineage_suffix [OF p x(1)] obtain c' where c': "lineage gs (gr_id x) c'" "length c' \<le> length rest"
      by blast
    have "lineage gs (gr_id x) (g # rest)" using Cons.prems x(2) by simp
    with c' Cons.prems(1) have "c' = g # rest" by (metis lineage_unique)
    with c'(2) show False by simp
  qed
  then show ?case using Cons by (cases "gr_parentId g") auto
qed simp

lemma lineage_subset: "lineage gs i c \<Longrightarrow> set c \<subseteq> set gs"
  by (induction c arbitrary: i) (auto split: option.splits)

section \<open>Loading an authority\<close>

definition usable :: "id \<Rightarrow> instant \<Rightarrow> grant_row \<Rightarrow> bool" where
  "usable account now g \<longleftrightarrow> gr_accountId g = account \<and> gr_revokedAt g = None \<and> now < gr_expiresAt g"

lemma check_chain_sound:
  "check_chain account now seen (Some i) e (ancestry gs i n) = Some (e', None) \<Longrightarrow>
     lineage gs i (ancestry gs i n) \<and> list_all (usable account now) (ancestry gs i n)"
proof (induction n arbitrary: i seen e)
  case (Suc n)
  show ?case
  proof (cases "select_one (\<lambda>g. gr_id g = i) gs")
    case (Some g)
    then have "g \<in> set gs" "gr_id g = i" by (auto dest: select_one_SomeD)
    with Some Suc.prems Suc.IH show ?thesis
      by (cases "gr_parentId g") (auto simp: usable_def split: if_splits)
  qed (use Suc.prems in simp)
qed simp

lemma check_chain_complete:
  "lineage gs i c \<Longrightarrow> list_all (usable account now) c \<Longrightarrow> distinct (map gr_id c) \<Longrightarrow>
     set (map gr_id c) \<inter> set seen = {} \<Longrightarrow>
     check_chain account now seen (Some i) e c = Some (Min (insert e (gr_expiresAt ` set c)), None)"
proof (induction c arbitrary: i seen e)
  case (Cons g rest)
  let ?e = "if gr_expiresAt g < e then gr_expiresAt g else e"
  have e: "?e = min (gr_expiresAt g) e" by (simp add: min_def)
  show ?case
  proof (cases "gr_parentId g")
    case None
    with Cons.prems show ?thesis by (auto simp: usable_def min_def)
  next
    case (Some p)
    have "check_chain account now (gr_id g # seen) (Some p) ?e rest
        = Some (Min (insert ?e (gr_expiresAt ` set rest)), None)"
      using Cons.prems Some by (intro Cons.IH) auto
    moreover have "Min (insert ?e (gr_expiresAt ` set rest))
        = Min (insert e (gr_expiresAt ` set (g # rest)))"
      unfolding e by (simp add: Min_insert2 insert_commute flip: min.assoc)
         (cases "rest = []"; simp add: min.assoc min.commute min.left_commute)
    ultimately show ?thesis using Cons.prems Some by (simp add: usable_def)
  qed
qed simp

lemma authority_iff:
  assumes "unique_by gr_id gs"
  shows "authority_of now i (ancestry gs i 32) = Some a \<longleftrightarrow>
     (\<exists>leaf rest. lineage gs i (leaf # rest) \<and> length (leaf # rest) \<le> 32
        \<and> list_all (usable (gr_accountId leaf) now) (leaf # rest)
        \<and> a = \<lparr>au_principal = principal_of leaf, au_checkedAt = now,
               au_expiresAt = Min (gr_expiresAt ` set (leaf # rest)),
               au_delegationDepth = length (leaf # rest)\<rparr>)"
    (is "?l \<longleftrightarrow> (\<exists>leaf rest. ?r leaf rest)")
proof
  assume l: ?l
  obtain leaf rest where c: "ancestry gs i 32 = leaf # rest"
    using l by (cases "ancestry gs i 32") (auto simp: authority_of_def)
  have len: "length (ancestry gs i n) \<le> n" for i n
    by (induction n arbitrary: i) (auto split: option.splits)
  from l c obtain e where k: "check_chain (gr_accountId leaf) now [] (Some i) (gr_expiresAt leaf) (leaf # rest)
      = Some (e, None)"
    by (auto simp: authority_of_def split: option.splits prod.splits)
  with c have ok: "lineage gs i (leaf # rest)" "list_all (usable (gr_accountId leaf) now) (leaf # rest)"
    using check_chain_sound [of "gr_accountId leaf" now "[]" i "gr_expiresAt leaf" gs 32 e] by simp_all
  then have "e = Min (insert (gr_expiresAt leaf) (gr_expiresAt ` set (leaf # rest)))"
    using check_chain_complete [OF ok lineage_distinct [OF assms ok(1)], of "[]" "gr_expiresAt leaf"] k
    by simp
  then have "e = Min (gr_expiresAt ` set (leaf # rest))" by (simp add: insert_absorb)
  with l c k ok len [of i 32] have "?r leaf rest" by (simp add: authority_of_def)
  then show "\<exists>leaf rest. ?r leaf rest" by blast
next
  assume "\<exists>leaf rest. ?r leaf rest"
  then obtain leaf rest where r: "?r leaf rest" by blast
  then have c: "ancestry gs i 32 = leaf # rest" using ancestry_lineage [OF assms] by blast
  have "check_chain (gr_accountId leaf) now [] (Some i) (gr_expiresAt leaf) (leaf # rest)
      = Some (Min (insert (gr_expiresAt leaf) (gr_expiresAt ` set (leaf # rest))), None)"
    using r by (intro check_chain_complete lineage_distinct [OF assms]) auto
  then show ?l using r c by (simp add: authority_of_def insert_absorb)
qed


lemma loadAuthority_run:
  "healthy s \<Longrightarrow> loadAuthority i s =
     ((case authority_of (clock_of s) i (ancestry (grants (store s)) i 32) of
         None \<Rightarrow> Inl (Cloud (cloud_error Unauthenticated)) | Some a \<Rightarrow> Inr a), ticked s)"
  unfolding loadAuthority_def bind_def observe_def prim_def healthy_def alive_def
  by (auto simp: clock_of_def ticked_def present_def throw_def raise_def ret_def Let_def
      split: option.splits)

lemma loadAuthority_success [success]:
  "loadAuthority i s = (Inr a, t) \<longleftrightarrow> healthy s \<and> t = ticked s \<and>
     authority_of (clock_of s) i (ancestry (grants (store s)) i 32) = Some a"
  by (auto simp: loadAuthority_def success)

lemma loadPrincipal_success [success]:
  "loadPrincipal i s = (Inr p, t) \<longleftrightarrow> healthy s \<and> t = ticked s \<and>
     (\<exists>a. authority_of (clock_of s) i (ancestry (grants (store s)) i 32) = Some a \<and> p = au_principal a)"
  by (auto simp: loadPrincipal_def success)

lemma footprint_loadAuthority: "footprint T (loadAuthority i)"
  unfolding loadAuthority_def by (intro footprint_rules)

lemma footprint_loadPrincipal: "footprint T (loadPrincipal i)"
  unfolding loadPrincipal_def by (intro footprint_rules footprint_loadAuthority)

lemma footprint_authenticate: "footprint T (authenticate sha h)"
  unfolding authenticate_def
  by (auto split: option.splits intro!: footprint_rules footprint_loadPrincipal)

lemma schema_grants: "schema_ok d \<Longrightarrow> unique_by gr_id (grants d)"
  by (simp add: schema_ok_def grants_ok_def)

section \<open>Revocation is permanent\<close>

lemma lineage_evolves:
  "evolves keeps_grant gs gs' \<Longrightarrow> lineage gs i c \<Longrightarrow> \<exists>c'. lineage gs' i c' \<and> list_all2 keeps_grant c c'"
proof (induction c arbitrary: i)
  case (Cons g rest)
  from evolves_in [OF Cons.prems(1)] Cons.prems(2) obtain g'
    where g': "g' \<in> set gs'" "keeps_grant g g'" by auto
  note fields = keeps_grant_fields [OF g'(2)]
  show ?case
  proof (cases "gr_parentId g")
    case None
    with Cons.prems g' fields have "lineage gs' i [g']" "list_all2 keeps_grant (g # rest) [g']" by auto
    then show ?thesis by blast
  next
    case (Some p)
    with Cons obtain c' where "lineage gs' p c'" "list_all2 keeps_grant rest c'" by auto
    with Cons.prems Some g' fields
    have "lineage gs' i (g' # c')" "list_all2 keeps_grant (g # rest) (g' # c')" by auto
    then show ?thesis by blast
  qed
qed simp

lemma revoked_lineage_dead:
  assumes "schema_ok d" "wrote_in T d d'" "lineage (grants d) i c" "g \<in> set c" "gr_revokedAt g \<noteq> None"
  shows "authority_of now i (ancestry (grants d') i 32) = None"
proof (cases "authority_of now i (ancestry (grants d') i 32)")
  case (Some a)
  have ok: "schema_ok d'" using schema.wrote [OF assms(2,1)] .
  obtain c' where c': "lineage (grants d') i c'" "list_all2 keeps_grant c c'"
    using lineage_evolves [OF grant_history.wrote [OF assms(2)] assms(3)] by blast
  from Some authority_iff [OF schema_grants [OF ok]] obtain leaf rest
    where r: "lineage (grants d') i (leaf # rest)" "list_all (usable (gr_accountId leaf) now) (leaf # rest)"
    by blast
  have "c' = leaf # rest" using lineage_unique [OF schema_grants [OF ok] c'(1) r(1)] .
  moreover obtain g' where "g' \<in> set c'" "keeps_grant g g'"
    using c'(2) assms(4) by (metis in_set_conv_nth list_all2_conv_all_nth)
  moreover have "gr_revokedAt g' \<noteq> None"
    using calculation(3) assms(5) by (simp add: keeps_grant_def)
  ultimately show ?thesis using r(2) by (auto simp: list_all_iff usable_def)
qed

lemma lineage_account:
  assumes "schema_ok d" "lineage (grants d) i c" "g \<in> set c"
  shows "gr_accountId g = gr_accountId (hd c)"
  using assms(2,3)
proof (induction c arbitrary: i)
  case (Cons a rest)
  show ?case
  proof (cases "g = a")
    case False
    with Cons.prems obtain p where p: "gr_parentId a = Some p" "lineage (grants d) p rest" "g \<in> set rest"
      by (auto split: option.splits)
    then obtain b bs where b: "rest = b # bs" "b \<in> set (grants d)" "gr_id b = p" by (cases rest) auto
    have "references (\<lambda>g. (gr_accountId g, the (gr_parentId g)))
        (filter (\<lambda>g. gr_parentId g \<noteq> None) (grants d)) (\<lambda>g. (gr_accountId g, gr_id g)) (grants d)"
      using assms(1) by (simp add: schema_ok_def grants_ok_def)
    from referencesD [OF this, of a] Cons.prems p obtain q
      where q: "q \<in> set (grants d)" "gr_id q = p" "gr_accountId q = gr_accountId a" by auto
    have "q = b" using unique_rowD [OF schema_grants [OF assms(1)] q(1) b(2)] q b by simp
    with Cons.IH [OF p(2,3)] q b show ?thesis by simp
  qed simp
qed simp

lemma is_descendant_silent: "footprint T (is_descendant n actor current)"
proof (induction n arbitrary: current)
  case 0
  show ?case by (simp add: foot.ret)
next
  case (Suc n)
  show ?case
    by (simp only: is_descendant.simps) (intro footprint_rules Suc.IH)
qed

definition closes_access :: "stmt_tag set" where
  "closes_access = {T_upd_sessions}"

lemma close_keeps: "on_where keeps_session P (\<lambda>s. s\<lparr>as_connection := close_connection r t (as_connection s)\<rparr>)"
  by (simp add: on_where_def keeps_session_def)

lemma footprint_close: "T_upd_sessions \<in> T \<Longrightarrow> footprint T (close account sel reason)"
  unfolding close_def by (intro footprint_rules) (simp_all add: close_keeps)

lemma footprint_closeGrantAccess: "T_upd_sessions \<in> T \<Longrightarrow> footprint T (closeGrantAccess a g)"
  unfolding closeGrantAccess_def by (intro footprint_rules footprint_close)

lemma footprint_closeMachineAccess: "T_upd_sessions \<in> T \<Longrightarrow> footprint T (closeMachineAccess a g)"
  unfolding closeMachineAccess_def by (intro footprint_close)

lemma footprint_revokeGrant:
  "{T_upd_grants, T_ins_audit, T_upd_sessions} \<subseteq> T \<Longrightarrow> footprint T (revokeGrant actor g)"
  unfolding revokeGrant_def
  by (intro footprint_rules is_descendant_silent footprint_closeGrantAccess)
     (auto simp: on_where_def keeps_grant_def)

lemma stays_success: "stays R m \<Longrightarrow> m s = (Inr x, t) \<Longrightarrow> R s t"
  by (rule staysD)

lemma footstep_wrote: "footstep T s t \<Longrightarrow> wrote_in T (store s) (store t)"
  by (simp add: footstep_def)

lemma accepted_writes: "accepted st s n t \<Longrightarrow> issued st \<Longrightarrow> writes_in UNIV (store s) (store t)"
  unfolding accepted_def writes_in_def by fastforce

text \<open>What a completed revocation did: the grant was found in the actor's account, it is
  revoked in an intermediate database, and the final one is reached by further writes.\<close>

lemma revokeGrant_effect:
  assumes "revokeGrant actor g s = (Inr u, t)" "schema_ok (store s)"
  obtains d where "wrote_in UNIV (store s) d" "wrote_in UNIV d (store t)"
    "\<And>x. x \<in> set (grants d) \<Longrightarrow> gr_id x = g \<Longrightarrow> gr_accountId x = accountId actor \<Longrightarrow> gr_revokedAt x \<noteq> None"
    "evolves keeps_grant (grants (store s)) (grants d)"
    "\<exists>w. wrote_in UNIV d (store w) \<and> closeGrantAccess (accountId actor) g w = (Inr u, t)"
proof -
  let ?st = "\<lambda>stamp. Update_grants (\<lambda>x. gr_id x = g \<and> gr_accountId x = accountId actor)
      (\<lambda>x. x\<lparr>gr_revokedAt := Some stamp\<rparr>)"
  have iss: "issued (?st stamp)" for stamp by (simp add: on_where_def keeps_grant_def)
  from assms(1) obtain u1 u2 stamp n v m w b where
    d: "is_descendant 32 actor (Some g) u1 = (Inr b, u2)" "store u1 = store s" and
    a1: "accepted (?st stamp) (ticked u2) n v" and
    a2: "accepted (Insert_audit \<lparr>au_accountId = accountId actor, au_subjectId = g,
          au_event = Grant_revoked (grantId actor)\<rparr>) v m w" and
    c: "closeGrantAccess (accountId actor) g w = (Inr u, t)"
    unfolding revokeGrant_def by (auto simp: success split: if_splits)
  have "wrote_in {} (store u1) (store u2)"
    using footstep_wrote [OF stays_success [OF is_descendant_silent d(1)]] .
  then have u2: "store u2 = store s"
    unfolding d(2) by (induction rule: rtranclp_induct) (auto simp: writes_in_def)
  have w1: "writes_in UNIV (store s) (store v)"
    using accepted_writes [OF a1 iss] u2 by simp
  have w2: "writes_in UNIV (store v) (store w)" using accepted_writes [OF a2] by simp
  have w3: "wrote_in UNIV (store w) (store t)"
    using footstep_wrote [OF stays_success [OF footprint_closeGrantAccess c]] by simp
  have g: "grants (store v) = update_where (\<lambda>x. gr_id x = g \<and> gr_accountId x = accountId actor)
      (\<lambda>x. x\<lparr>gr_revokedAt := Some stamp\<rparr>) (grants (store s))"
    using accepted_store [OF a1] u2 by simp
  show ?thesis
  proof (rule that [of "store v"])
    show "wrote_in UNIV (store s) (store v)" using w1 by blast
    show "wrote_in UNIV (store v) (store t)" using w2 w3 by (rule converse_rtranclp_into_rtranclp)
    show "evolves keeps_grant (grants (store s)) (grants (store v))"
      using grant_history.law [OF w1] .
    show "\<exists>w. wrote_in UNIV (store v) (store w) \<and> closeGrantAccess (accountId actor) g w = (Inr u, t)"
      using w2 c by blast
    fix x assume "x \<in> set (grants (store v))" and x: "gr_id x = g" "gr_accountId x = accountId actor"
    then obtain y where "x = (if gr_id y = g \<and> gr_accountId y = accountId actor
        then y\<lparr>gr_revokedAt := Some stamp\<rparr> else y)"
      unfolding g in_update_where by blast
    with x show "gr_revokedAt x \<noteq> None" by (cases "gr_id y = g \<and> gr_accountId y = accountId actor") auto
  qed
qed

end
