(* ===== verification/World.thy ===== *)
theory World
  imports Provider Auth_Laws
begin

text \<open>
  What a program may do to the world: a \<open>quiet\<close> step reads the provider and writes the statement
  forms of a footprint, but submits nothing; an \<open>effect\<close> step commits one prepared attempt and then
  submits exactly that attempt. Handlers are sequences of the two, whatever faults occur.
\<close>

section \<open>Quiet programs\<close>

definition quiet_step :: "stmt_tag set \<Rightarrow> 'p world \<Rightarrow> 'p world \<Rightarrow> bool" where
  "quiet_step T s s' \<longleftrightarrow> outside s' = outside s \<and> began s' = began s \<and> ticks s \<le> ticks s'
     \<and> submitted s' = submitted s \<and> wrote_in T (store s) (store s')"

abbreviation quiet :: "stmt_tag set \<Rightarrow> ('p, 'a) act \<Rightarrow> bool" where
  "quiet T m \<equiv> stays (quiet_step T) m"

interpretation quiet: step_relation "quiet_step T" for T
proof
  fix s t u :: "'p world"
  show "quiet_step T s s" by (simp add: quiet_step_def)
  show "quiet_step T s u" if "quiet_step T s t" "quiet_step T t u"
    using that by (auto simp: quiet_step_def)
qed

lemma quiet_footprint: "footprint T m \<Longrightarrow> quiet T m"
  by (erule stays_mono) (metis footstep_def quiet_step_def world.surjective world.ext_inject
      world.select_convs process.select_convs world.cases_scheme)

lemma quiet_mono: "quiet T m \<Longrightarrow> T \<subseteq> T' \<Longrightarrow> quiet T' m"
  by (erule stays_mono) (auto simp: quiet_step_def intro: wrote_in_mono)

lemma quiet_prim:
  fixes f :: "nat \<Rightarrow> ('p, 'a) act"
  assumes f: "\<And>i s. quiet_step T s (snd (f i s))"
  shows "quiet T (prim f)"
proof (rule staysI)
  fix s :: "'p world"
  have "quiet_step T s (s\<lparr>ticks := Suc (ticks s)\<rparr>)" by (simp add: quiet_step_def)
  with f [of "s\<lparr>ticks := Suc (ticks s)\<rparr>" "ticks s"] show "quiet_step T s (snd (prim f s))"
    by (auto simp: prim_def Let_def intro: quiet.step_trans)
qed

lemma quiet_reply: "quiet T (reply r)"
  by (rule quiet_footprint [OF footprint_reply])

lemma quiet_call: "quiet T (call f)"
  unfolding call_def
  by (intro quiet.bind quiet_reply quiet_prim) (auto simp: quiet_step_def split: prod.splits)

lemma quiet_consult: "quiet T (consult f)"
  unfolding consult_def
  by (intro quiet.bind quiet_reply quiet_prim) (auto simp: quiet_step_def split: prod.splits)

lemma quiet_transaction:
  fixes m :: "('p, 'a) act"
  assumes "quiet T m"
  shows "quiet T (transaction m)"
  unfolding transaction_def
proof (rule quiet_prim)
  fix i and s :: "'p world"
  let ?s = "s\<lparr>began := Some (tx_now s i)\<rparr>"
  let ?m = "bind m (\<lambda>x. bind commit (\<lambda>lost. ret (x, lost)))"
  have "quiet T ?m" by (intro quiet.rules assms quiet_footprint [OF footprint_commit])
  then have "quiet_step T ?s (snd (?m ?s))" by (simp add: stays_def)
  then show "quiet_step T s (snd (if or_fault (outside s) i then (Inl Defect, s)
     else case ?m ?s of
        (Inl e, s') \<Rightarrow> (Inl e, s'\<lparr>store := store s, began := began s\<rparr>)
      | (Inr (x, lost), s') \<Rightarrow> (if lost then Inl Defect else Inr x, s'\<lparr>began := began s\<rparr>)))"
    by (auto simp: quiet_step_def split: prod.splits sum.splits)
qed

lemmas quiet_rules = quiet.rules quiet_call quiet_consult quiet_transaction quiet_reply

text \<open>Store-level reading of a quiet program.\<close>

lemma runs_quiet:
  assumes "quiet T m" "\<And>x d'. wrote_in T d d' \<Longrightarrow> Q x d'" "\<And>d'. wrote_in T d d' \<Longrightarrow> E d'"
  shows "runs d m Q E"
proof (rule runsI)
  show "Q x (store t)" if "store s = d" "m s = (Inr x, t)" for s x t
    using staysD [OF assms(1) that(2)] that(1) by (auto simp: quiet_step_def intro: assms(2))
  show "E (store t)" if "store s = d" "m s = (Inl e, t)" for s e t
    using staysD [OF assms(1) that(2)] that(1) by (auto simp: quiet_step_def intro: assms(3))
qed

lemma runs_call [wp]: "(\<And>x. Q x d) \<Longrightarrow> E d \<Longrightarrow> runs d (call f) Q E"
  by (rule runs_quiet [OF quiet_call [of "{}"]]) (auto dest: wrote_nothing)

lemma runs_consult [wp]: "(\<And>x. Q x d) \<Longrightarrow> E d \<Longrightarrow> runs d (consult f) Q E"
  by (rule runs_quiet [OF quiet_consult [of "{}"]]) (auto dest: wrote_nothing)

section \<open>Effects\<close>

definition effect_step :: "'p world \<Rightarrow> 'p world \<Rightarrow> bool" where
  "effect_step s s' \<longleftrightarrow> outside s' = outside s \<and> began s' = began s \<and> ticks s \<le> ticks s'
     \<and> wrote_in {T_ins_attempt, T_upd_operations} (store s) (store s')
     \<and> (\<exists>row. attempts (store s') = attempts (store s) @ [row] \<and> at_outcome row = Prepared
          \<and> submitted s' = submitted s @ [(at_id row, at_command row)])"

definition acting_step :: "stmt_tag set \<Rightarrow> 'p world \<Rightarrow> 'p world \<Rightarrow> bool" where
  "acting_step T s s' \<longleftrightarrow> quiet_step T s s' \<or> effect_step s s'"

abbreviation acts :: "stmt_tag set \<Rightarrow> ('p, 'a) act \<Rightarrow> bool" where
  "acts T m \<equiv> stays ((acting_step T)\<^sup>*\<^sup>*) m"

interpretation acting: step_relation "(acting_step T)\<^sup>*\<^sup>*" for T
  by unfold_locales (simp, rule rtranclp_trans)

lemma acts_quiet: "quiet T m \<Longrightarrow> acts T m"
  by (erule stays_mono) (auto simp: acting_step_def)

lemma acts_footprint: "footprint T m \<Longrightarrow> acts T m"
  by (rule acts_quiet [OF quiet_footprint])

lemma acting_step_mono: "acting_step T s s' \<Longrightarrow> T \<subseteq> T' \<Longrightarrow> acting_step T' s s'"
  unfolding acting_step_def quiet_step_def by (auto intro: wrote_in_mono)

lemma acts_mono: "acts T m \<Longrightarrow> T \<subseteq> T' \<Longrightarrow> acts T' m"
  by (erule stays_mono) (meson acting_step_mono mono_rtranclp)

lemmas acts_rules = acting.rules acts_quiet [OF quiet_call] acts_quiet [OF quiet_consult]

text \<open>The store of a world that acted has evolved by accepted statements.\<close>

lemma acting_wrote:
  assumes "(acting_step T)\<^sup>*\<^sup>* s s'" "{T_ins_attempt, T_upd_operations} \<subseteq> T"
  shows "wrote_in T (store s) (store s')"
  using assms(1)
proof (induction rule: rtranclp_induct)
  case (step t u)
  have "wrote_in T (store t) (store u)"
    using step.hyps(2) assms(2) by (auto simp: acting_step_def quiet_step_def effect_step_def intro: wrote_in_mono)
  with step.IH show ?case by simp
qed simp

section \<open>Every submission is journaled first\<close>

text \<open>Every submitted attempt has its row, with the same command, and no attempt is submitted
  twice.\<close>

definition journaled :: "'p world \<Rightarrow> bool" where
  "journaled s \<longleftrightarrow> distinct (map fst (submitted s))
     \<and> list_all (\<lambda>(i, c). list_ex (\<lambda>e. at_id e = i \<and> at_command e = c) (attempts (store s))) (submitted s)"

lemma journaledD: "journaled s \<Longrightarrow> (i, c) \<in> set (submitted s) \<Longrightarrow>
    \<exists>e\<in>set (attempts (store s)). at_id e = i \<and> at_command e = c"
  by (auto simp: journaled_def list_all_iff list_ex_iff)

lemma journaledI:
  "distinct (map fst (submitted s)) \<Longrightarrow>
   (\<And>i c. (i, c) \<in> set (submitted s) \<Longrightarrow> \<exists>e\<in>set (attempts (store s)). at_id e = i \<and> at_command e = c) \<Longrightarrow>
   journaled s"
  by (auto simp: journaled_def list_all_iff list_ex_iff)

lemma quiet_journaled:
  assumes q: "quiet_step T s s'" and j: "journaled s"
  shows "journaled s'"
proof (rule journaledI)
  have w: "wrote_in T (store s) (store s')" and sub: "submitted s' = submitted s"
    using q by (auto simp: quiet_step_def)
  show "distinct (map fst (submitted s'))" using j sub by (simp add: journaled_def)
  fix i c assume "(i, c) \<in> set (submitted s')"
  then obtain e where e: "e \<in> set (attempts (store s))" "at_id e = i" "at_command e = c"
    using journaledD [OF j] sub by auto
  from evolves_in [OF journal.wrote [OF w] e(1)] obtain e'
    where "e' \<in> set (attempts (store s'))" "keeps_attempt e e'" by blast
  with e keeps_attempt_fields [of e e']
  show "\<exists>e\<in>set (attempts (store s')). at_id e = i \<and> at_command e = c" by auto
qed

lemma effect_journaled:
  assumes f: "effect_step s s'" and j: "journaled s" and ok: "schema_ok (store s)"
  shows "journaled s'"
proof -
  obtain row where row: "attempts (store s') = attempts (store s) @ [row]"
      "submitted s' = submitted s @ [(at_id row, at_command row)]"
      "wrote_in {T_ins_attempt, T_upd_operations} (store s) (store s')"
    using f by (auto simp: effect_step_def)
  have "schema_ok (store s')" using schema.wrote [OF row(3) ok] .
  then have "unique_by at_id (attempts (store s) @ [row])"
    by (simp add: schema_ok_def attempts_ok_def row(1))
  then have new: "at_id row \<notin> at_id ` set (attempts (store s))" by (simp add: unique_by_def)
  have "at_id row \<notin> fst ` set (submitted s)"
  proof
    assume "at_id row \<in> fst ` set (submitted s)"
    then obtain c where "(at_id row, c) \<in> set (submitted s)" by auto
    from journaledD [OF j this] new show False by (metis image_eqI)
  qed
  moreover have "\<exists>e\<in>set (attempts (store s')). at_id e = i \<and> at_command e = c"
    if "(i, c) \<in> set (submitted s')" for i c
    using that journaledD [OF j, of i c] by (auto simp: row)
  ultimately show ?thesis
    using j by (intro journaledI) (auto simp: row journaled_def)
qed

lemma acting_journaled:
  assumes "(acting_step T)\<^sup>*\<^sup>* s s'" "journaled s" "schema_ok (store s)"
  shows "journaled s' \<and> schema_ok (store s')"
  using assms
proof (induction rule: rtranclp_induct)
  case (step t u)
  then have t: "journaled t" "schema_ok (store t)" by simp_all
  show ?case
  proof (cases "quiet_step T t u")
    case True
    then have "wrote_in T (store t) (store u)" by (simp add: quiet_step_def)
    with quiet_journaled [OF True t(1)] schema.wrote [OF _ t(2)] show ?thesis by blast
  next
    case False
    with step.hyps(2) have f: "effect_step t u" by (simp add: acting_step_def)
    then have "wrote_in {T_ins_attempt, T_upd_operations} (store t) (store u)"
      by (simp add: effect_step_def)
    with effect_journaled [OF f t] schema.wrote [OF _ t(2)] show ?thesis by blast
  qed
qed simp

end
