(* ===== verification/Journal_Laws.thy ===== *)
theory Journal_Laws
  imports World Resolution
begin

text \<open>
  Laws of the effect journal: what its operations write, that a submission is always preceded by its
  committed attempt, what an attempt's authorization has checked, and what a resolution relies on.
\<close>

section \<open>Footprints\<close>

lemma footprint_audit: "T_ins_audit \<in> T \<Longrightarrow> footprint T (audit a s e)"
  unfolding audit_def by (intro footprint_rules) simp_all

lemma footprint_setProgress: "{T_upd_operations, T_ins_audit} \<subseteq> T \<Longrightarrow> footprint T (setProgress op p)"
  unfolding setProgress_def
  by (intro footprint_rules footprint_audit) (auto simp: on_where_def keeps_operation_def)

lemma footprint_claimResource:
  "{T_ins_resource, T_upd_allocations} \<subseteq> T \<Longrightarrow> footprint T (claimResource a ref ls)"
  unfolding claimResource_def
  by (intro footprint_rules) (auto simp: on_where_def keeps_allocation_def)

lemma footprint_recordAbsence:
  "{T_upd_resources, T_ins_audit} \<subseteq> T \<Longrightarrow> footprint T (recordAbsence a ref)"
  unfolding recordAbsence_def
  by (intro footprint_rules footprint_audit) (auto simp: on_where_def keeps_resource_def)

lemma footprint_cleanupDeleteLimit: "footprint T (cleanupDeleteLimit op c)"
  unfolding cleanupDeleteLimit_def by (intro footprint_rules)

lemma footprint_parseOffer: "footprint T (parseOffer x)"
  unfolding parseOffer_def by (rule foot.parsed)

lemma footprint_advisoryLock: "footprint T advisoryLock"
  unfolding advisoryLock_def by (rule footprint_observe)

lemma footprint_boot_deadline: "footprint T (boot_deadline i)"
  unfolding boot_deadline_def by (intro footprint_rules)

lemma footprint_authorizeFresh: "footprint T (authorizeFresh k lm op c a st)"
  unfolding authorizeFresh_def
  by (intro footprint_rules footprint_boot_deadline footprint_loadPrincipal footprint_parseOffer)

lemma footprint_authorizeCleanup: "footprint T (authorizeCleanup op a c)"
  unfolding authorizeCleanup_def
  by (intro footprint_rules) (auto split: option.splits intro!: footprint_rules)

lemma footprint_authorizeEffect: "footprint T (authorizeEffect k lm op a c auth acct st)"
  unfolding authorizeEffect_def
  by (cases auth) (auto intro: footprint_authorizeFresh footprint_authorizeCleanup foot.unless)

lemma footprint_prepareAttempt:
  "{T_ins_attempt, T_upd_operations} \<subseteq> T \<Longrightarrow> footprint T (prepareAttempt k lm op a c auth)"
  unfolding prepareAttempt_def
  by (intro footprint_rules footprint_authorizeEffect footprint_advisoryLock)
     (auto simp: on_where_def keeps_operation_def)

lemma footprint_recordOutcome: "T_upd_attempts \<in> T \<Longrightarrow> footprint T (recordOutcome i s)"
  unfolding recordOutcome_def by (intro footprint_rules) simp_all

lemma footprint_claimOutcome:
  "{T_ins_resource, T_upd_allocations} \<subseteq> T \<Longrightarrow> footprint T (claimOutcome a c s)"
  unfolding claimOutcome_def
  by (intro footprint_transaction)
     (auto split: option.splits intro!: foot.ret foot.onlyIf footprint_claimResource)

lemma quiet_checkPrice: "quiet T (checkPrice P op a)"
  unfolding checkPrice_def
  by (intro quiet_rules quiet_footprint [OF footprint_parseOffer] quiet_footprint [OF footprint_query]
      quiet_footprint [OF footprint_wallTime])

section \<open>Submission\<close>

lemma submitAttempt_cases:
  obtains "snd (submitAttempt P i c s) = s\<lparr>ticks := ticks (snd (submitAttempt P i c s))\<rparr>"
      "ticks s \<le> ticks (snd (submitAttempt P i c s))"
  | p where "snd (submitAttempt P i c s) = s\<lparr>ticks := ticks (snd (submitAttempt P i c s)),
        cloud := p, submitted := submitted s @ [(i, c)]\<rparr>"
      "ticks s \<le> ticks (snd (submitAttempt P i c s))"
proof (cases "or_dies (outside s) (ticks s)")
  case True
  then have "snd (submitAttempt P i c s) = s\<lparr>ticks := Suc (ticks s)\<rparr>"
    by (simp add: submitAttempt_def catch_any_def call_submit_def bind_def prim_def Let_def)
  with that(1) show thesis by simp
next
  case False
  obtain r p where f: "mp_submit P i c (or_wall (outside s) (ticks s)) (cloud s) = (r, p)" by fastforce
  have "snd (submitAttempt P i c s) =
      s\<lparr>ticks := Suc (Suc (ticks s)), cloud := p, submitted := submitted s @ [(i, c)]\<rparr>"
    using False f
    by (cases r; auto simp: submitAttempt_def catch_any_def call_submit_def bind_def prim_def
        reply_def ret_def Let_def split: sum.splits exn.splits)
  with that(2) [of p] show thesis by simp
qed

text \<open>A successful journaling transaction appends exactly one prepared attempt.\<close>

definition journals :: "operation \<Rightarrow> provider_command \<Rightarrow> db \<Rightarrow> id \<Rightarrow> db \<Rightarrow> bool" where
  "journals op c d i d' \<longleftrightarrow> (\<exists>row. attempts d' = attempts d @ [row] \<and> at_id row = i
     \<and> at_command row = c \<and> at_outcome row = Prepared \<and> at_resolution row = Res_pending
     \<and> at_operationId row = op_id op \<and> at_accountId row = op_accountId op
     \<and> (\<exists>clock n. guard_cleanup_effect clock d (row\<lparr>at_createdAt := n\<rparr>)))"

lemma prepareAttempt_runs: "runs d (prepareAttempt k lm op a c auth) (journals op c d) (\<lambda>_. True)"
  unfolding prepareAttempt_def advisoryLock_def
  by (intro wp runs_silent [OF footprint_authorizeEffect])
     (auto simp: journals_def apply_stmt_def Let_def split: if_splits, (intro exI, assumption)+)

lemma prepared_submission:
  "acts T (bind (prepareAttempt k lm op a c auth) (\<lambda>i. submitAttempt P i c))"
  if T: "{T_ins_attempt, T_upd_operations} \<subseteq> T"
proof (rule staysI)
  fix s :: "'a world"
  let ?m = "prepareAttempt k lm op a c auth"
  let ?T = "{T_ins_attempt, T_upd_operations}"
  obtain r t where m: "?m s = (r, t)" by fastforce
  have f: "quiet_step T s t"
    using staysD [OF quiet_footprint [OF footprint_prepareAttempt [OF T]] m] .
  show "(acting_step T)\<^sup>*\<^sup>* s (snd (bind ?m (\<lambda>i. submitAttempt P i c) s))"
  proof (cases r)
    case (Inl e)
    with m f show ?thesis by (auto simp: bind_def acting_step_def)
  next
    case (Inr i)
    from runs_Inr [OF prepareAttempt_runs refl m [unfolded Inr]] obtain row where
      row: "attempts (store t) = attempts (store s) @ [row]" "at_id row = i" "at_command row = c"
        "at_outcome row = Prepared" by (auto simp: journals_def)
    have g: "quiet_step ?T s t"
      using staysD [OF quiet_footprint [OF footprint_prepareAttempt [OF subset_refl]] m] .
    let ?u = "snd (submitAttempt P i c t)"
    have b: "snd (bind ?m (\<lambda>i. submitAttempt P i c) s) = ?u" using m Inr by (simp add: bind_def)
    have "acting_step T s ?u"
    proof (rule submitAttempt_cases [of P i c t])
      assume u: "?u = t\<lparr>ticks := ticks ?u\<rparr>" "ticks t \<le> ticks ?u"
      obtain n where n: "ticks ?u = n" by simp
      from u n have u': "?u = t\<lparr>ticks := n\<rparr>" "ticks t \<le> n" by simp_all
      have "quiet_step T s ?u"
        unfolding u' using f u'(2) by (auto simp: quiet_step_def)
      then show ?thesis by (simp add: acting_step_def)
    next
      fix p assume u: "?u = t\<lparr>ticks := ticks ?u, cloud := p, submitted := submitted t @ [(i, c)]\<rparr>"
        "ticks t \<le> ticks ?u"
      obtain n where n: "ticks ?u = n" by simp
      from u n have u': "?u = t\<lparr>ticks := n, cloud := p, submitted := submitted t @ [(i, c)]\<rparr>" "ticks t \<le> n"
        by simp_all
      have "effect_step s ?u"
        unfolding u' using g row u'(2) by (auto simp: effect_step_def quiet_step_def)
      then show ?thesis by (simp add: acting_step_def)
    qed
    with b show ?thesis by simp
  qed
qed

lemma bind_tagged: "snd (bind m (\<lambda>i. bind (n i) (\<lambda>x. ret (i, x))) s) = snd (bind m n s)"
  by (auto simp: bind_def ret_def split: prod.splits sum.splits)

lemma prepared_then:
  assumes "{T_ins_attempt, T_upd_operations} \<subseteq> T" "\<And>i x. acts T (k i x)"
  shows "acts T (bind (prepareAttempt kind lm op a c auth) (\<lambda>i. bind (submitAttempt P i c) (k i)))"
proof -
  let ?m = "bind (prepareAttempt kind lm op a c auth) (\<lambda>i. bind (submitAttempt P i c) (\<lambda>x. ret (i, x)))"
  have "acts T ?m"
    using prepared_submission [OF assms(1), of kind lm op a c auth P] by (simp add: stays_def bind_tagged)
  then have "acts T (bind ?m (\<lambda>(i, x). k i x))"
    by (rule acting.bind) (auto intro: assms(2))
  moreover have "bind ?m (\<lambda>(i, x). k i x) = bind (prepareAttempt kind lm op a c auth) (\<lambda>i. bind (submitAttempt P i c) (k i))"
    by (rule ext) (auto simp: bind_def ret_def split: prod.splits sum.splits)
  ultimately show ?thesis by simp
qed

definition journal_tags :: "stmt_tag set" where
  "journal_tags = {T_ins_attempt, T_upd_operations, T_upd_attempts, T_ins_resource, T_upd_allocations,
     T_ins_audit, T_upd_resources}"

lemma journalEffect_acts: "journal_tags \<subseteq> T \<Longrightarrow> acts T (journalEffect P lm op a c auth)"
  unfolding journalEffect_def
  by (intro acting.bind acting.onlyIf prepared_then acts_quiet [OF quiet_checkPrice]
      acts_footprint footprint_recordOutcome footprint_claimOutcome)
     (auto simp: journal_tags_def)

section \<open>Resolution\<close>

lemma quiet_findMatches: "quiet T (findMatches P c ls)"
  unfolding findMatches_def by (intro quiet_rules)

lemma footprint_claimMatch:
  "{T_ins_resource, T_upd_allocations} \<subseteq> T \<Longrightarrow> footprint T (claimMatch a k ls b m)"
  unfolding claimMatch_def by (intro foot.rules footprint_claimResource)

lemma quiet_discover: "{T_ins_resource, T_upd_allocations} \<subseteq> T \<Longrightarrow> quiet T (discover P a e ls)"
  unfolding discover_def
  by (intro quiet_rules quiet_findMatches quiet_footprint [OF footprint_claimMatch]
      quiet_footprint [OF footprint_query]) (auto split: list.splits intro: quiet.ret)

lemma quiet_locate: "{T_ins_resource, T_upd_allocations} \<subseteq> T \<Longrightarrow> quiet T (locate P a e)"
  unfolding locate_def Let_def
  by (auto split: attempt_outcome.splits sum.splits option.splits provider_action.splits
      intro!: quiet.ret quiet.raise quiet.bind quiet_call quiet_discover)

lemma quiet_settledAbsence: "quiet T (settledAbsence P r c)"
  unfolding settledAbsence_def
  by (auto split: option.splits intro!: quiet.ret quiet.bind quiet_call)

lemma quiet_inspect: "quiet T (inspect P r ls e ref)"
  unfolding inspect_def Let_def by (intro quiet_rules)

lemma quiet_evaluate: "{T_ins_resource, T_upd_allocations} \<subseteq> T \<Longrightarrow> quiet T (evaluate P a r e ls)"
  unfolding evaluate_def
  by (intro quiet.bind quiet_settledAbsence)
     (auto split: option.splits sum.splits intro!: quiet.ret quiet.bind quiet_locate quiet_inspect)

lemma footprint_checkScope: "footprint T (checkScope op a e)"
  unfolding checkScope_def by (intro footprint_rules)

lemma footprint_recordObservation:
  "{T_ins_resource, T_upd_allocations, T_upd_resources, T_ins_audit} \<subseteq> T \<Longrightarrow>
     footprint T (recordObservation a ls c obs)"
  unfolding recordObservation_def Let_def
  by (cases obs) (simp_all add: footprint_recordAbsence footprint_claimResource)

lemma footprint_recordResolution:
  "{T_upd_attempts, T_ins_audit} \<subseteq> T \<Longrightarrow> footprint T (recordResolution op e res)"
  unfolding recordResolution_def by (intro footprint_rules footprint_audit) auto

lemma footprint_recordResult:
  "{T_upd_attempts, T_ins_audit, T_upd_operations} \<subseteq> T \<Longrightarrow> footprint T obs \<Longrightarrow>
     footprint T (recordResult op e obs res)"
  unfolding recordResult_def
  by (intro foot.rules footprint_transaction footprint_recordResolution footprint_setProgress) auto

definition resolve_tags :: "stmt_tag set" where
  "resolve_tags = {T_upd_operations, T_upd_attempts, T_ins_resource, T_upd_allocations,
     T_ins_audit, T_upd_resources}"

lemma resolve_tags_simps [simp]:
  "T_upd_operations \<in> resolve_tags" "T_upd_attempts \<in> resolve_tags" "T_ins_resource \<in> resolve_tags"
  "T_upd_allocations \<in> resolve_tags" "T_ins_audit \<in> resolve_tags" "T_upd_resources \<in> resolve_tags"
  "T_ins_attempt \<notin> resolve_tags"
  by (simp_all add: resolve_tags_def)

lemma footprint_recordEvaluation: "footprint resolve_tags (recordEvaluation op a e ls ev)"
  unfolding recordEvaluation_def
  by (cases ev) (auto intro!: footprint_setProgress footprint_recordResult foot.ret footprint_recordObservation)

lemma quiet_resolveEffect: "quiet resolve_tags (resolveEffect P op a e ls)"
  unfolding resolveEffect_def
  by (intro quiet.rules quiet_evaluate quiet_footprint [OF footprint_checkScope]
      quiet_footprint [OF footprint_setProgress] quiet_footprint [OF footprint_recordEvaluation]) auto

end
