(* ===== verification/Operator_Recovery.thy ===== *)
theory Operator_Recovery
  imports Journal
begin

text \<open>
  \<^verbatim>\<open>apps/control/src/operator-recovery.ts\<close>: an operator, who has evidence from the provider's own
  records, closes an uncertain create of a cleanup or grants one more deletion. The decision names the
  digest of the exact state it was made on; the provider is only read. The digest of the snapshot is a
  parameter.
\<close>

record recovery_state =
  rs_authority :: cleanup_row
  rs_operation :: operation
  rs_allocation :: allocation_row
  rs_attempts :: "attempt_row list"
  rs_resources :: "resource_row list"
  rs_recoveries :: "recovery_row list"

type_synonym digest = "recovery_state \<Rightarrow> string"

section \<open>The state a decision is made on\<close>

definition kind_rank :: "resource_kind \<Rightarrow> nat" where
  "kind_rank k = (case k of Primary_ip \<Rightarrow> 0 | Server \<Rightarrow> 1)"

definition recovery_history :: "db \<Rightarrow> cleanup_row \<Rightarrow> attempt_row list" where
  "recovery_history d c = sort_key at_createdAt (sort_key at_sequence (cleanup_attempts d c))"

definition recovery_resources :: "db \<Rightarrow> id \<Rightarrow> resource_row list" where
  "recovery_resources d a = sort_key (\<lambda>r. kind_rank (pr_kind r)) (sort_key pr_providerId
     (filter (\<lambda>r. pr_allocationId r = a) (resources d)))"

definition state :: "id \<Rightarrow> ('e, recovery_state) tx" where
  "state operation =
     bind (query (\<lambda>d. cleanup_in d operation)) (\<lambda>found.
     bind (present Permission_denied found) (\<lambda>c.
     bind (query (\<lambda>d. operation_in d operation)) (\<lambda>row.
     bind (query (\<lambda>d. select_one (\<lambda>a. al_id a = cu_allocationId c) (allocations d))) (\<lambda>allocation.
     bind (present Internal_error row) (\<lambda>op.
     bind (present Internal_error allocation) (\<lambda>a.
     bind (query (\<lambda>d. recovery_history d c)) (\<lambda>history.
     bind (query (\<lambda>d. recovery_resources d (al_id a))) (\<lambda>rs.
     bind (query (\<lambda>d. sort_key rec_id (filter (\<lambda>r. rec_operationId r = operation) (recoveries d)))) (\<lambda>saved.
     ret \<lparr>rs_authority = c, rs_operation = operationRecord op, rs_allocation = a, rs_attempts = history,
       rs_resources = rs, rs_recoveries = saved\<rparr>)))))))))"

text \<open>\<open>locked\<close>: the work runs under the machine lock of the operation.\<close>

definition locked :: "id \<Rightarrow> ('e, 'a) tx \<Rightarrow> ('e, 'a) tx" where
  "locked operation work =
     bind (query (\<lambda>d. operation_in d operation)) (\<lambda>found.
     bind (present Not_found found) (\<lambda>op.
     bind (withMachineLock work) (\<lambda>result.
     case result of
       None \<Rightarrow> raise (Cloud (cloud_error_retryable Resource_busy))
     | Some x \<Rightarrow> ret x)))"

definition inspectOperatorRecovery :: "id \<Rightarrow> ('e, recovery_state) tx" where
  "inspectOperatorRecovery operation = locked operation (state operation)"

section \<open>Closing an uncertain create\<close>

definition closable :: "cleanup_row \<Rightarrow> attempt_row \<Rightarrow> bool" where
  "closable c target \<longleftrightarrow> at_operationId target = cu_sourceOperationId c
     \<and> at_resolution target = Res_pending \<and> at_outcome target \<in> {Prepared, Unknown}
     \<and> (isServerCreateCommand (at_command target) \<or> isIpCreateCommand (at_command target))"

definition listMatches :: "'p machine_provider \<Rightarrow> provider_command \<Rightarrow> labels \<Rightarrow> ('p, (string \<times> labels) list) act" where
  "listMatches P command ls =
     (if isIpCreateCommand command
      then bind (call (mp_findPrimaryIps P ls)) (\<lambda>found. ret (map (\<lambda>v. (ip_id v, ip_labels v)) found))
      else bind (call (mp_findServers P ls)) (\<lambda>found. ret (map (\<lambda>v. (srv_id v, srv_labels v)) found)))"

definition reviewMatch :: "recovery_state \<Rightarrow> resource_kind \<Rightarrow> labels \<Rightarrow> bool \<Rightarrow> string \<times> labels \<Rightarrow> ('e, bool) tx" where
  "reviewMatch current kind ls mismatch m =
     (if \<not> matchesLabels (snd m) ls then ret True
      else (case find (\<lambda>r. pr_kind r = kind \<and> pr_providerId r = fst m) (rs_resources current) of
              Some known \<Rightarrow>
                ret (mismatch \<or> pr_absentAt known \<noteq> None \<or> \<not> matchesLabels (pr_labels known) ls)
            | None \<Rightarrow> catch_cloud
                (bind (claimResource (rs_allocation current) \<lparr>ref_kind = kind, ref_id = fst m\<rparr> ls)
                   (\<lambda>_. ret mismatch)) (\<lambda>e. ret True)))"

definition observe_identity :: "'p machine_provider \<Rightarrow> resource_kind \<Rightarrow> string \<Rightarrow> ('p, (string \<times> labels) option) act" where
  "observe_identity P kind i =
     (if kind = Server
      then bind (call (mp_getServer P i)) (\<lambda>found. ret (map_option (\<lambda>v. (srv_id v, srv_labels v)) found))
      else bind (call (mp_getPrimaryIp P i)) (\<lambda>found. ret (map_option (\<lambda>v. (ip_id v, ip_labels v)) found)))"

definition checkIdentity :: "'p machine_provider \<Rightarrow> resource_kind \<Rightarrow> resource_row \<Rightarrow> ('p, unit) act" where
  "checkIdentity P kind r =
     bind (observe_identity P kind (pr_providerId r)) (\<lambda>found.
     unless (case found of
               None \<Rightarrow> True
             | Some (i, ls) \<Rightarrow> pr_absentAt r = None \<and> i = pr_providerId r \<and> matchesLabels ls (pr_labels r))
       Provider_outcome_unknown)"

definition reviewClosure :: "'p machine_provider \<Rightarrow> digest \<Rightarrow> operator_recovery \<Rightarrow> string list \<Rightarrow> recovery_state \<Rightarrow> attempt_row \<Rightarrow> ('p, unit) act" where
  "reviewClosure P digest request ids current target =
     bind (unless (closable (rs_authority current) target) Permission_denied) (\<lambda>_.
     let command = at_command target; kind = resourceKind command; ls = the (command_labels command) in
     bind (listMatches P command ls) (\<lambda>matches.
     bind (foldM (reviewMatch current kind ls) False matches) (\<lambda>mismatch.
     bind (state (rq_operationId request)) (\<lambda>discovered.
     bind (unless (digest discovered = rq_expectedState request) Version_conflict) (\<lambda>_.
     bind (unless (\<not> mismatch) Provider_outcome_unknown) (\<lambda>_.
     let sources = filter (\<lambda>r. pr_kind r = kind
           \<and> label_of (pr_labels r) ''operation_id'' = Some (at_operationId target)) (rs_resources current) in
     bind (unless (sort (map pr_providerId sources) = sort ids) Invalid_input) (\<lambda>_.
     foldM (\<lambda>_. checkIdentity P kind) () sources)))))))"

section \<open>Granting another deletion\<close>

definition unassigned :: "'p machine_provider \<Rightarrow> resource_kind \<Rightarrow> string \<Rightarrow> ('p, (string \<times> labels \<times> bool) option) act" where
  "unassigned P kind i =
     (if kind = Server
      then bind (call (mp_getServer P i)) (\<lambda>found. ret (map_option (\<lambda>v. (srv_id v, srv_labels v, True)) found))
      else bind (call (mp_getPrimaryIp P i)) (\<lambda>found.
             ret (map_option (\<lambda>v. (ip_id v, ip_labels v, ip_assignment v = Unassigned)) found)))"

definition retry_target_ok :: "recovery_state \<Rightarrow> resource_kind \<Rightarrow> string \<Rightarrow> (string \<times> labels \<times> bool) option \<Rightarrow> bool" where
  "retry_target_ok current kind i found =
     (case (find (\<lambda>r. pr_kind r = kind \<and> pr_providerId r = i \<and> pr_absentAt r = None) (rs_resources current), found) of
        (Some r, Some (observed, ls, free)) \<Rightarrow> observed = i \<and> matchesLabels ls (pr_labels r) \<and> free
      | _ \<Rightarrow> False)"

definition actionSettled :: "'p machine_provider \<Rightarrow> attempt_row \<Rightarrow> ('p, unit) act" where
  "actionSettled P target =
     (case (at_resolution target, at_outcome target) of
        (Res_pending, Accepted r action) \<Rightarrow>
          bind (call (mp_getAction P action)) (\<lambda>state.
          if state = Action_running then raise (Cloud (cloud_error_retryable Resource_busy)) else ret ())
      | _ \<Rightarrow> ret ())"

definition reviewRetry :: "'p machine_provider \<Rightarrow> recovery_state \<Rightarrow> attempt_row \<Rightarrow> ('p, unit) act" where
  "reviewRetry P current target =
     (case deletion_target (at_command target) of
        None \<Rightarrow> throw Permission_denied
      | Some (kind, i) \<Rightarrow>
          bind (unless (i \<noteq> []) Permission_denied) (\<lambda>_.
          let history = filter (\<lambda>e. at_command e = at_command target) (rs_attempts current) in
          bind (unless (map_option at_id (last_option history) = Some (at_id target)) Permission_denied) (\<lambda>_.
          bind (cleanupDeleteLimit (op_id (rs_operation current)) (at_command target)) (\<lambda>limit.
          bind (unless (int (length history) = limit) Permission_denied) (\<lambda>_.
          bind (unassigned P kind i) (\<lambda>found.
          bind (unless (retry_target_ok current kind i found) Provider_outcome_unknown) (\<lambda>_.
          actionSettled P target)))))))"

section \<open>Recording the decision\<close>

definition closes_create :: "recovery_kind \<Rightarrow> bool" where
  "closes_create k = (case k of Close_create finished ids \<Rightarrow> True | Retry_delete \<Rightarrow> False)"

definition admitRecovery :: "digest \<Rightarrow> operator_recovery \<Rightarrow> recovery_state \<Rightarrow> attempt_row \<Rightarrow> ('e, recovery_row) tx" where
  "admitRecovery digest request current target = transaction
     (let op = rs_operation current; row = \<lparr>rec_id = rq_id request, rec_operationId = op_id op,
            rec_attemptId = rq_attemptId request, rec_request = request, rec_createdAt = 0\<rparr> in
      bind (state (op_id op)) (\<lambda>now.
      bind (unless (digest now = rq_expectedState request) Version_conflict) (\<lambda>_.
      bind (run (Insert_recovery row)) (\<lambda>_.
      bind (query (\<lambda>d. select_one (\<lambda>r. rec_id r = rq_id request) (recoveries d))) (\<lambda>stored.
      bind (present Internal_error stored) (\<lambda>record.
      bind (onlyIf (closes_create (rq_kind request))
        (run (Update_attempts
          (\<lambda>e. at_id e = at_id target \<and> at_operationId e = cu_sourceOperationId (rs_authority current))
          (\<lambda>e. e\<lparr>at_resolution := Res_operator_closed (rq_id request)\<rparr>)))) (\<lambda>_.
      bind (audit (op_accountId op) (op_id op) (Operator_recovered (rq_id request) (at_id target))) (\<lambda>_.
      bind (enqueueOperation (op_id op)) (\<lambda>_.
      ret record)))))))))"

definition recoveryScope :: "'p machine_provider \<Rightarrow> digest \<Rightarrow> operator_recovery \<Rightarrow> recovery_state \<Rightarrow> ('e, unit) tx" where
  "recoveryScope P digest request current =
     bind (unless (rq_accountId request = cu_accountId (rs_authority current)
        \<and> rq_allocationId request = al_id (rs_allocation current)
        \<and> mp_kind P = al_provider (rs_allocation current)) Permission_denied) (\<lambda>_.
     bind (unless (al_retiredAt (rs_allocation current) = None
        \<and> \<not> isOperationTerminal (rs_operation current)) Permission_denied) (\<lambda>_.
     unless (rq_expectedState request = digest current) Version_conflict))"

definition decideRecovery :: "'p machine_provider \<Rightarrow> digest \<Rightarrow> operator_recovery \<Rightarrow> ('p, recovery_row) act" where
  "decideRecovery P digest request =
     bind (state (rq_operationId request)) (\<lambda>current.
     bind (recoveryScope P digest request current) (\<lambda>_.
     bind (present Permission_denied (find (\<lambda>e. at_id e = rq_attemptId request) (rs_attempts current))) (\<lambda>target.
     bind (case rq_kind request of
             Close_create finished ids \<Rightarrow> reviewClosure P digest request ids current target
           | Retry_delete \<Rightarrow> reviewRetry P current target) (\<lambda>_.
     admitRecovery digest request current target))))"

definition applyOperatorRecovery :: "'p machine_provider \<Rightarrow> digest \<Rightarrow> operator_recovery \<Rightarrow> ('p, recovery_row) act" where
  "applyOperatorRecovery P digest request =
     bind (parsed (if operatorRecovery_ok request then Some request else None)) (\<lambda>_.
     locked (rq_operationId request)
       (bind (query (\<lambda>d. select_one (\<lambda>r. rec_id r = rq_id request) (recoveries d))) (\<lambda>saved.
        case saved of
          Some r \<Rightarrow> bind (unless (rec_request r = request) Idempotency_conflict) (\<lambda>_. ret r)
        | None \<Rightarrow> decideRecovery P digest request)))"

end
