(* ===== verification/Advance_Laws.thy ===== *)
theory Advance_Laws
  imports Journal_Laws Advance Lifecycle Operator_Recovery
begin

text \<open>
  What the handlers may do to the world: the statement forms each may write, and that only
  \<open>journalEffect\<close> submits.
\<close>

section \<open>Failing and completing\<close>

definition advance_tags :: "stmt_tag set" where
  "advance_tags = insert T_upd_machines journal_tags"

lemma advance_tags_simps [simp]:
  "T_ins_attempt \<in> advance_tags" "T_upd_operations \<in> advance_tags" "T_upd_attempts \<in> advance_tags"
  "T_ins_resource \<in> advance_tags" "T_upd_allocations \<in> advance_tags" "T_ins_audit \<in> advance_tags"
  "T_upd_resources \<in> advance_tags" "T_upd_machines \<in> advance_tags"
  by (simp_all add: advance_tags_def journal_tags_def)

text \<open>The same without submissions.\<close>

definition settle_tags :: "stmt_tag set" where
  "settle_tags = advance_tags - {T_ins_attempt}"

lemma settle_tags_simps [simp]:
  "T_upd_operations \<in> settle_tags" "T_upd_attempts \<in> settle_tags"
  "T_ins_resource \<in> settle_tags" "T_upd_allocations \<in> settle_tags" "T_ins_audit \<in> settle_tags"
  "T_upd_resources \<in> settle_tags" "T_upd_machines \<in> settle_tags" "T_ins_attempt \<notin> settle_tags"
  "settle_tags \<subseteq> advance_tags" "resolve_tags \<subseteq> settle_tags" "journal_tags \<subseteq> advance_tags"
  by (auto simp add: settle_tags_def advance_tags_def journal_tags_def resolve_tags_def)

lemmas keeps_updates = on_where_def keeps_operation_def keeps_machine_def keeps_allocation_def
  keeps_resource_def bump_state_def adopt_server_def adopt_machine_def destroy_machine_def

lemma footprint_fail: "footprint settle_tags (fail op m e b)"
  unfolding fail_def
  by (intro footprint_rules footprint_audit) (auto simp: keeps_updates)

lemma footprint_runtimeGate: "footprint settle_tags (runtimeGate op sv v)"
  unfolding runtimeGate_def by (intro footprint_rules footprint_setProgress) auto

lemma footprint_completeDestroy: "footprint settle_tags (completeDestroy m a sv)"
  unfolding completeDestroy_def
  by (intro footprint_rules) (auto simp: keeps_updates)

lemma footprint_admittedOffer: "footprint T (admittedOffer p)"
  unfolding admittedOffer_def by (intro footprint_rules footprint_parseOffer)

lemma footprint_guestVerification: "footprint T (guestVerification m v)"
  unfolding guestVerification_def by (intro footprint_rules)

lemma adopt_keeps: "keeps_allocation x (adopt_server s offer x)"
  by (cases x; cases offer) (simp_all add: keeps_allocation_def adopt_server_def)

lemma footprint_completeServer: "footprint settle_tags (completeServer op m a sv v)"
  unfolding completeServer_def
  by (intro footprint_rules footprint_admittedOffer footprint_guestVerification)
     (auto simp: keeps_updates adopt_keeps[unfolded adopt_server_def keeps_allocation_def])

lemma footprint_complete: "footprint settle_tags (complete op m sv v)"
  unfolding complete_def
  by (intro footprint_rules footprint_runtimeGate footprint_completeDestroy footprint_completeServer
      footprint_audit) (auto simp: keeps_updates)

section \<open>Steps of an operation\<close>

lemmas quiet_local = quiet_footprint [OF footprint_query] quiet_footprint [OF footprint_wallTime]
  quiet_footprint [OF footprint_databaseTime] quiet_footprint [OF footprint_parseOffer]

lemma quiet_workProgress: "quiet settle_tags (workProgress w p)"
  unfolding workProgress_def by (intro quiet_footprint [OF footprint_setProgress]) simp

lemma quiet_workComplete: "quiet settle_tags (workComplete w sv v)"
  unfolding workComplete_def by (rule quiet_footprint [OF footprint_complete])

lemma quiet_workFail: "quiet settle_tags (workFail w e b)"
  unfolding workFail_def by (rule quiet_footprint [OF footprint_fail])

lemma acts_workEffect: "acts advance_tags (workEffect w c auth)"
  unfolding workEffect_def by (rule journalEffect_acts) simp

lemma quiet_verifyRuntime: "quiet settle_tags (verifyRuntime w)"
  unfolding verifyRuntime_def
  by (auto split: option.splits runtime_decision.splits
      intro!: quiet.ret quiet.bind quiet_consult quiet_workProgress quiet_workComplete)

lemma quiet_recordAbsence: "quiet settle_tags (recordAbsence a ref)"
  by (intro quiet_footprint [OF footprint_recordAbsence]) simp

lemma quiet_acts: "quiet settle_tags m \<Longrightarrow> acts advance_tags m"
  by (intro acts_quiet quiet_mono [of settle_tags m advance_tags]) auto

lemmas acts_basic = acting.ret acting.throw acting.raise acting.bind acting.unless acting.onlyIf
  acting.present acting.parsed acting.catch_cloud acting.if_split acting.option_split acting.let_split
  acts_workEffect quiet_acts [OF quiet_workProgress] quiet_acts [OF quiet_workComplete]
  quiet_acts [OF quiet_workFail] quiet_acts [OF quiet_verifyRuntime] quiet_acts [OF quiet_recordAbsence]
  acts_quiet [OF quiet_call] acts_quiet [OF quiet_consult] acts_footprint [OF footprint_query]
  acts_footprint [OF footprint_parseOffer]

lemma acts_ensureProviderBackups: "acts advance_tags (ensureProviderBackups w s offer)"
  unfolding ensureProviderBackups_def
  by (intro acts_basic) (auto split: option.splits intro!: acts_basic)

lemma quiet_beginFailure: "quiet settle_tags (beginFailure w e)"
  unfolding beginFailure_def Let_def
  by (intro quiet.rules quiet_workFail quiet_workProgress quiet_footprint [OF footprint_run])
     (auto simp: keeps_updates)

lemma acts_cleanupIp: "acts advance_tags (cleanupIp w)"
  unfolding cleanupIp_def by (intro acts_basic)

lemma acts_completeDestruction: "acts advance_tags (completeDestruction w)"
  unfolding completeDestruction_def by (intro acts_basic acts_cleanupIp)

lemma quiet_checkAddress: "quiet settle_tags (checkAddress w ip)"
  unfolding checkAddress_def
  by (intro quiet_rules quiet_workProgress quiet_recordAbsence)

lemma quiet_createCommand: "quiet T (createCommand w offer ls ip img)"
  unfolding createCommand_def Let_def
  by (auto split: provider_kind.splits option.splits network_profile.splits
      intro!: quiet.ret quiet.throw quiet.bind quiet_transaction quiet_consult)

lemma acts_createServer: "acts advance_tags (createServer w offer ls img)"
  unfolding createServer_def
  by (intro acts_basic quiet_acts [OF quiet_checkAddress] acts_quiet [OF quiet_createCommand])

lemma acts_finishCreate: "acts advance_tags (finishCreate w offer e)"
  unfolding finishCreate_def guestStage_def by (intro acts_basic acts_ensureProviderBackups)

lemma quiet_resolveImage: "quiet T (resolveImage w b)"
  unfolding resolveImage_def
  by (auto split: provider_kind.splits option.splits intro!: quiet.ret quiet.bind quiet_consult)

lemma acts_advanceCreate: "acts advance_tags (advanceCreate w row)"
  unfolding advanceCreate_def
  by (intro acts_basic acts_quiet [OF quiet_resolveImage] acts_createServer acts_finishCreate)

lemma footprint_actionCommand: "footprint T (actionCommand row action i)"
  unfolding actionCommand_def
  by (cases action) (auto intro!: footprint_rules footprint_parseOffer)

lemma acts_finishAction: "acts advance_tags (finishAction w row action e)"
  unfolding finishAction_def
  by (intro acts_basic acts_completeDestruction)
     (cases action; auto intro!: acts_basic acts_ensureProviderBackups)

lemma acts_submitAction: "acts advance_tags (submitAction w row action r i)"
  unfolding submitAction_def
  by (intro acts_basic acts_footprint [OF footprint_actionCommand])

lemma acts_advanceAction: "acts advance_tags (advanceAction w row action)"
  unfolding advanceAction_def Let_def
  by (auto split: option.splits intro!: acting.throw acts_completeDestruction acts_finishAction acts_submitAction)

lemma acts_lifecycleStep: "acts advance_tags (lifecycleStep w row)"
  unfolding lifecycleStep_def
  by (cases "op_command row") (auto intro: acts_advanceCreate acts_advanceAction)

lemma quiet_stepRefused: "quiet settle_tags (stepRefused w e)"
  unfolding stepRefused_def
  by (intro quiet.rules quiet_local quiet_workProgress quiet_beginFailure)

lemma acts_advanceRun: "acts advance_tags (advanceRun w row)"
  unfolding advanceRun_def
  by (auto split: operation_intent.splits option.splits prod.splits provider_command.splits
      intro!: acts_basic acts_cleanupIp acts_completeDestruction quiet_acts [OF quiet_beginFailure]
        acts_lifecycleStep quiet_acts [OF quiet_stepRefused])

lemma quiet_resolveStep: "quiet settle_tags (resolveStep w e)"
  unfolding resolveStep_def Let_def
  by (rule quiet_mono [OF quiet_resolveEffect]) simp

lemma acts_advanceWork: "acts advance_tags (advanceWork w row)"
  unfolding advanceWork_def
  by (auto split: option.splits intro: quiet_acts [OF quiet_resolveStep] acts_advanceRun)

section \<open>Cleanup\<close>

lemma quiet_mismatched: "quiet settle_tags (mismatched op)"
  unfolding mismatched_def by (intro quiet_footprint [OF footprint_setProgress]) simp

lemma quiet_retryDue: "quiet settle_tags (retryDue P op history ref)"
  unfolding retryDue_def Let_def
  by (auto split: option.splits bool.splits attempt_outcome.splits
      intro!: quiet.ret quiet.bind quiet.if_split quiet_call quiet_local
        quiet_footprint [OF footprint_cleanupDeleteLimit] quiet_footprint [OF footprint_setProgress])

lemma acts_deleteResource: "acts advance_tags (deleteResource P lm op a history ref)"
  unfolding deleteResource_def
  by (intro acts_basic quiet_acts [OF quiet_retryDue] journalEffect_acts) simp

lemma acts_cleanupAddress: "acts advance_tags (cleanupAddress P lm op a history rs r)"
  unfolding cleanupAddress_def Let_def
  by (auto split: option.splits ip_assignment.splits intro!: acts_basic quiet_acts [OF quiet_mismatched]
      acts_deleteResource acts_footprint [OF footprint_setProgress])

lemma acts_cleanupServer: "acts advance_tags (cleanupServer P lm op a history rs r)"
  unfolding cleanupServer_def Let_def
  by (intro acts_basic quiet_acts [OF quiet_mismatched] acts_deleteResource)

lemma footprint_retireAllocation: "footprint settle_tags (retireAllocation op a c)"
  unfolding retireAllocation_def
  by (intro footprint_rules footprint_audit) (auto simp: keeps_updates)

lemma quiet_resolvePending: "quiet settle_tags (resolvePending P op a rs e)"
  unfolding resolvePending_def Let_def
  by (intro quiet.rules quiet_mono [OF quiet_resolveEffect]) simp

lemma quiet_resolveAllPending: "quiet settle_tags (resolveAllPending P op a rs history)"
  unfolding resolveAllPending_def by (intro quiet.rules quiet_resolvePending)

lemma footprint_cleanupAuthority: "footprint T (cleanupAuthority op a)"
  unfolding cleanupAuthority_def by (intro footprint_rules)

lemma acts_cleanupStep: "acts advance_tags (cleanupStep P lm op a)"
  unfolding cleanupStep_def readHistory_def readResources_def
  by (intro acts_basic acts_footprint [OF footprint_cleanupAuthority] quiet_acts [OF quiet_resolveAllPending]
      acts_cleanupAddress acts_cleanupServer quiet_acts [OF quiet_footprint [OF footprint_retireAllocation]])

lemma acts_advanceCleanup: "acts advance_tags (advanceCleanup P lm op a)"
  unfolding advanceCleanup_def
  by (intro acts_basic acts_cleanupStep quiet_acts [OF quiet_mismatched])

section \<open>The handler\<close>

lemma acts_lock: "acts T m \<Longrightarrow> acts T (withMachineLock m)"
  unfolding withMachineLock_def
  by (intro acting.rules acts_footprint [OF footprint_tryLock])

lemma acts_advanceActive: "acts advance_tags (advanceActive row P lm guest)"
  unfolding advanceActive_def workHistory_def workResources_def
  by (intro acts_basic acts_advanceCleanup acts_advanceWork)

lemma acts_advanceOperation: "acts advance_tags (advanceOperation i P lm guest)"
  unfolding advanceOperation_def advanceLocked_def
  by (intro acts_basic acts_lock acts_advanceActive)

section \<open>Operator recovery\<close>

definition recovery_tags :: "stmt_tag set" where
  "recovery_tags = {T_ins_recovery, T_upd_attempts, T_ins_audit, T_enqueue, T_ins_resource, T_upd_allocations}"

lemma footprint_state: "footprint T (state i)"
  unfolding state_def by (intro footprint_rules)

lemma quiet_lock: "quiet T m \<Longrightarrow> quiet T (withMachineLock m)"
  unfolding withMachineLock_def
  by (intro quiet.rules quiet_footprint [OF footprint_tryLock])

lemma quiet_locked: "quiet T m \<Longrightarrow> quiet T (locked i m)"
  unfolding locked_def
  by (intro quiet_rules quiet_lock quiet_local)

lemma footprint_admitRecovery: "footprint recovery_tags (admitRecovery digest request current target)"
  unfolding admitRecovery_def
  by (intro footprint_rules footprint_state footprint_audit) (auto simp: recovery_tags_def)

lemma footprint_reviewMatch: "footprint recovery_tags (reviewMatch current k ls b m)"
  unfolding reviewMatch_def
  by (intro footprint_rules footprint_claimResource) (auto simp: recovery_tags_def)

lemma quiet_listMatches: "quiet T (listMatches P c ls)"
  unfolding listMatches_def by (intro quiet_rules)

lemma quiet_checkIdentity: "quiet T (checkIdentity P k r)"
  unfolding checkIdentity_def observe_identity_def by (intro quiet_rules)

lemma quiet_reviewClosure: "quiet recovery_tags (reviewClosure P digest request ids current target)"
  unfolding reviewClosure_def
  by (intro quiet_rules quiet_listMatches quiet_checkIdentity quiet_footprint [OF footprint_state]
      quiet_footprint [OF footprint_reviewMatch])

lemma quiet_actionSettled: "quiet T (actionSettled P e)"
  unfolding actionSettled_def
  by (auto split: effect_resolution.splits attempt_outcome.splits intro!: quiet.ret quiet.raise quiet.bind quiet_call)

lemma quiet_reviewRetry: "quiet T (reviewRetry P current target)"
  unfolding reviewRetry_def unassigned_def
  by (auto split: option.splits prod.splits intro!: quiet_rules quiet_actionSettled
      quiet_footprint [OF footprint_cleanupDeleteLimit])

lemma quiet_decideRecovery: "quiet recovery_tags (decideRecovery P digest request)"
  unfolding decideRecovery_def recoveryScope_def
  by (intro quiet_rules quiet_footprint [OF footprint_state] quiet_footprint [OF footprint_admitRecovery])
     (auto split: recovery_kind.splits intro: quiet_reviewClosure quiet_reviewRetry)

lemma quiet_applyOperatorRecovery: "quiet recovery_tags (applyOperatorRecovery P digest request)"
  unfolding applyOperatorRecovery_def
  by (intro quiet_rules quiet_locked quiet_local quiet_decideRecovery)

section \<open>Admission\<close>

definition admission_tags :: "stmt_tag set" where
  "admission_tags = {T_ins_machine, T_upd_machines, T_ins_allocation, T_upd_allocations, T_ins_operation,
     T_upd_operations, T_ins_cleanup, T_ins_idempotency, T_ins_audit, T_upd_sessions, T_enqueue}"

lemma admission_tags_simps [simp]:
  "T_ins_machine \<in> admission_tags" "T_upd_machines \<in> admission_tags" "T_ins_allocation \<in> admission_tags"
  "T_upd_allocations \<in> admission_tags" "T_ins_operation \<in> admission_tags"
  "T_upd_operations \<in> admission_tags" "T_ins_cleanup \<in> admission_tags"
  "T_ins_idempotency \<in> admission_tags" "T_ins_audit \<in> admission_tags"
  "T_upd_sessions \<in> admission_tags" "T_enqueue \<in> admission_tags"
  by (simp_all add: admission_tags_def)

lemma footprint_parseOperation: "footprint T (parseOperation op)"
  unfolding parseOperation_def by (rule foot.parsed)

lemma footprint_ownMachine: "footprint T (ownMachine m a)"
  unfolding ownMachine_def by (intro footprint_rules)

lemma footprint_replayed: "footprint T (replayed a f k)"
  unfolding replayed_def by (intro footprint_rules)

lemma footprint_bumpVersion: "footprint admission_tags (bumpVersion m)"
  unfolding bumpVersion_def by (intro footprint_rules) (auto simp: keeps_updates)

lemma footprint_remember: "footprint admission_tags (remember a s k f i)"
  unfolding remember_def by (intro footprint_rules) auto

lemma footprint_cleanupOperation: "footprint T (cleanupOperation p m active source now)"
  unfolding cleanupOperation_def by (intro footprint_rules footprint_parseOperation)

lemma footprint_storeCleanup: "footprint admission_tags (storeCleanup p m a active source op v c now)"
  unfolding storeCleanup_def
  by (intro footprint_rules footprint_bumpVersion footprint_audit) (auto simp: keeps_updates)

lemma footprint_newCleanup: "footprint admission_tags (newCleanup p m v c key f)"
  unfolding newCleanup_def
  by (intro footprint_rules footprint_storeCleanup footprint_cleanupOperation footprint_remember
      footprint_closeMachineAccess) auto

lemma footprint_admitCleanup: "footprint admission_tags (admitCleanup sha caller m v allow key)"
  unfolding admitCleanup_def tryMachineLock_def
  by (intro footprint_rules footprint_ownMachine footprint_advisoryLock footprint_loadPrincipal
      footprint_replayed footprint_newCleanup)

lemma footprint_quote: "footprint T (quote k src s r)"
  unfolding quote_def by (intro footprint_rules)

lemma footprint_assertReservation: "footprint T (assertReservation p n m c a l)"
  unfolding assertReservation_def by (intro footprint_rules)

lemma footprint_prepareCreate: "footprint admission_tags (prepareCreate k src lm acct p prj spec)"
  unfolding prepareCreate_def
  by (intro footprint_rules footprint_quote footprint_assertReservation) auto

lemma footprint_prepareResize: "footprint admission_tags (prepareResize k src lm acct p m a s)"
  unfolding prepareResize_def
  by (intro footprint_rules footprint_quote footprint_assertReservation footprint_parseOffer)
     (auto simp: keeps_updates)

lemma footprint_prepareAction: "footprint admission_tags (prepareAction k src lm acct p m action)"
  unfolding prepareAction_def
  by (intro footprint_rules footprint_ownMachine footprint_bumpVersion)
     (cases action; auto intro!: footprint_rules footprint_prepareResize)

lemma footprint_pinImage: "footprint T (pinImage pin request m op)"
  unfolding pinImage_def
  by (auto split: option.splits admission.splits machine_state.splits intro!: footprint_rules)

lemma footprint_newOperation: "footprint admission_tags (newOperation k src lm pin acct p request key f)"
  unfolding newOperation_def
  by (intro footprint_rules footprint_parseOperation footprint_pinImage footprint_remember footprint_audit)
     (cases request; auto intro: footprint_prepareCreate footprint_prepareAction)+

lemma footprint_admitOperation: "footprint admission_tags (admitOperation sha k src lm pin caller request key)"
  unfolding admitOperation_def lockAccount_def
  by (intro footprint_rules footprint_advisoryLock footprint_loadPrincipal footprint_replayed footprint_newOperation)

lemma footprint_admit: "footprint admission_tags (admit sha k src lm pin caller request key)"
  unfolding admit_def
  by (auto split: admission.splits machine_action.splits intro: footprint_admitCleanup footprint_admitOperation)

end
