(* ===== verification/Effect_Authority.thy ===== *)
theory Effect_Authority
  imports Journal_Laws
begin

text \<open>
  When \<open>journalEffect\<close> reaches the provider: what a fresh effect and an admitted cleanup must have
  established at the database in which their attempt was journaled.
\<close>

section \<open>Submissions of one journaled effect\<close>

lemma quiet_submitted: "quiet T m \<Longrightarrow> m s = (r, t) \<Longrightarrow> submitted t = submitted s \<and> outside t = outside s"
  using staysD [of "quiet_step T" m s r t] by (simp add: quiet_step_def)

lemma quiet_silent: "quiet {} m \<Longrightarrow> m s = (r, t) \<Longrightarrow> store t = store s"
  using staysD [of "quiet_step {}" m s r t] by (auto simp: quiet_step_def dest: wrote_nothing)

lemma submitAttempt_state:
  assumes "submitAttempt P i c s = (r, t)"
  shows "store t = store s \<and> submitted t \<in> {submitted s, submitted s @ [(i, c)]}"
proof (rule submitAttempt_cases [of P i c s])
  obtain n where n: "ticks (snd (submitAttempt P i c s)) = n" by simp
  show ?thesis if "snd (submitAttempt P i c s) = s\<lparr>ticks := ticks (snd (submitAttempt P i c s))\<rparr>"
    using that unfolding n by (simp add: assms)
  show ?thesis if "snd (submitAttempt P i c s) = s\<lparr>ticks := ticks (snd (submitAttempt P i c s)),
        cloud := p, submitted := submitted s @ [(i, c)]\<rparr>" for p
    using that unfolding n by (simp add: assms)
qed

text \<open>If an effect submitted anything, it submitted exactly one attempt that its journaling
  transaction had returned.\<close>

lemma journalEffect_submits:
  assumes "submitted (snd (journalEffect P lm op a c auth s)) \<noteq> submitted s"
  obtains u v i w where "onlyIf (monetary c) (checkPrice P op a) s = (Inr (), u)"
    "prepareAttempt (mp_kind P) lm op a c auth u = (Inr i, v)"
    "store u = store s" "outside u = outside s"
    "submitted (snd (journalEffect P lm op a c auth s)) = submitted s @ [(i, c)]"
    "snd (journalEffect P lm op a c auth s) = w" "wrote_in UNIV (store v) (store w)"
proof -
  let ?tail = "\<lambda>i outcome. bind (recordOutcome i outcome) (\<lambda>_. claimOutcome a c outcome)"
  have quiet_tail: "quiet UNIV (?tail i x)" for i x
    by (intro quiet.bind quiet_footprint [OF footprint_recordOutcome]
        quiet_footprint [OF footprint_claimOutcome]) auto
  obtain r u where p: "onlyIf (monetary c) (checkPrice P op a) s = (r, u)" by fastforce
  have qp: "quiet {} (onlyIf (monetary c) (checkPrice P op a))"
    by (intro quiet.onlyIf quiet_checkPrice)
  note u = quiet_submitted [OF qp p] quiet_silent [OF qp p]
  show thesis
  proof (cases r)
    case (Inl e)
    with p u assms show thesis by (simp add: journalEffect_def bind_def)
  next
    case r: (Inr x)
    obtain r2 v where q: "prepareAttempt (mp_kind P) lm op a c auth u = (r2, v)" by fastforce
    note v = quiet_submitted [OF quiet_footprint [OF footprint_prepareAttempt [of UNIV]] q]
    show thesis
    proof (cases r2)
      case (Inl e)
      with p q r u v assms show thesis by (simp add: journalEffect_def bind_def)
    next
      case r2: (Inr i)
      obtain r3 w where sub: "submitAttempt P i c v = (r3, w)" by fastforce
      have vw: "store w = store v" "submitted w \<in> {submitted v, submitted v @ [(i, c)]}"
        using submitAttempt_state [OF sub] by simp_all
      obtain z where z: "snd (journalEffect P lm op a c auth s) = z" "quiet_step UNIV w z"
      proof (cases r3)
        case (Inl e)
        with p q r r2 sub show ?thesis
          by (intro that [of w]) (auto simp: journalEffect_def bind_def quiet.step_refl)
      next
        case r3: (Inr x)
        have "snd (journalEffect P lm op a c auth s) = snd (?tail i x w)"
          using p q r r2 r3 sub by (simp add: journalEffect_def bind_def)
        moreover have "quiet_step UNIV w (snd (?tail i x w))"
          using quiet_tail [of i x] unfolding stays_def by blast
        ultimately show ?thesis by (rule that)
      qed
      then have "submitted z = submitted w" "wrote_in UNIV (store v) (store z)"
        using vw by (auto simp: quiet_step_def)
      with z vw u v assms p q r r2 show thesis by (intro that [of u i v z]) auto
    qed
  qed
qed

section \<open>Fresh effects\<close>

text \<open>What \<open>Fresh\<close> authority means at clock reading \<open>now\<close>: the operation is still its own, its
  grant heads a lineage of usable grants, the grant's policy allows the command, and for a
  monetary effect the reservations fit every limit.\<close>

definition principal_at :: "db \<Rightarrow> instant \<Rightarrow> id \<Rightarrow> principal \<Rightarrow> bool" where
  "principal_at d now i p \<longleftrightarrow> (\<exists>leaf rest. lineage (grants d) i (leaf # rest)
     \<and> list_all (usable (gr_accountId leaf) now) (leaf # rest) \<and> p = principal_of leaf)"

definition fresh_allowed :: "limits \<Rightarrow> operation \<Rightarrow> provider_command \<Rightarrow> instant \<Rightarrow> db \<Rightarrow> bool" where
  "fresh_allowed lm op c now d \<longleftrightarrow>
     (\<exists>stored account p. operation_in d (op_id op) = Some stored
        \<and> account \<in> set (accounts d) \<and> acc_id account = op_accountId op
        \<and> (\<forall>i. op_intent stored \<noteq> Cleanup i) \<and> cleanup_in d (op_id op) = None
        \<and> principal_at d now (op_grantId op) p
        \<and> authorizeCommand p (op_projectId op) (op_command stored) = Inr ()
        \<and> (monetary c \<longrightarrow> (\<exists>offer. op_offer stored = Some offer \<and> catalog_item_ok offer
              \<and> within_limits lm account p (item_currency offer) (active_allocations d))))"

text \<open>The price the provider quotes when a monetary effect is submitted.\<close>

definition quoted_price :: "'p machine_provider \<Rightarrow> operation \<Rightarrow> db \<Rightarrow> bool" where
  "quoted_price P op d \<longleftrightarrow>
     (\<exists>stored offer t p catalog p' now current. operation_in d (op_id op) = Some stored
        \<and> op_offer stored = Some offer \<and> mp_getCatalog P t p = (Inr catalog, p')
        \<and> selectOffer catalog (item_size offer) (item_region offer) now = Inr current
        \<and> item_currency current = item_currency offer
        \<and> item_hourlyMicros current \<le> item_hourlyMicros offer)"

lemma parseOffer_success [success]:
  "parseOffer x s = (Inr i, t) \<longleftrightarrow> x = Some i \<and> catalog_item_ok i \<and> t = s"
  by (auto simp: parseOffer_def success split: option.splits if_splits)

lemma advisoryLock_success [success]: "advisoryLock s = (Inr u, t) \<longleftrightarrow> healthy s \<and> t = ticked s"
  by (auto simp: advisoryLock_def success)

lemma call_success: "call f s = (Inr x, t) \<Longrightarrow> \<exists>now p p'. f now p = (Inr x, p')"
  by (auto simp: call_def bind_def prim_def reply_def Let_def split: prod.splits if_splits sum.splits)

lemma call_store: "call f s = (Inr x, t) \<Longrightarrow> store t = store s"
  by (rule quiet_silent [OF quiet_call])

lemma checkPrice_success:
  assumes "checkPrice P op a s = (Inr (), t)" shows "quoted_price P op (store s)"
proof -
  from assms obtain offer catalog stored u v current now where
    "operation_in (store s) (op_id op) = Some stored" "op_offer stored = Some offer"
    "call (mp_getCatalog P) u = (Inr catalog, v)"
    "selectOffer catalog (item_size offer) (item_region offer) now = Inr current"
    "item_currency current = item_currency offer" "item_hourlyMicros current \<le> item_hourlyMicros offer"
    by (auto simp: checkPrice_def success bind_eq_Some_conv)
  then show ?thesis using call_success [of "mp_getCatalog P" u catalog v] unfolding quoted_price_def by blast
qed

lemma authority_principal:
  assumes "schema_ok d" "authority_of now i (ancestry (grants d) i 32) = Some auth"
  shows "principal_at d now i (au_principal auth)"
  using authority_iff [OF schema_grants [OF assms(1)]] assms(2) unfolding principal_at_def by fastforce

lemma unit_outcome: "(u :: unit) = ()" by simp

lemma authorizeFresh_success:
  assumes f: "authorizeFresh k lm op c account stored s = (Inr (), t)"
    and ok: "schema_ok (store s)" and stored: "operation_in (store s) (op_id op) = Some stored"
    and account: "account \<in> set (accounts (store s))" "acc_id account = op_accountId op"
  shows "\<exists>n. fresh_allowed lm op c (or_clock (outside s) n) (store s)"
proof -
  have bd: "footprint {} (onlyIf b (boot_deadline i))" for b i
    by (intro foot.onlyIf footprint_boot_deadline)
  from f obtain u v where
    intent: "case op_intent stored of Cleanup i \<Rightarrow> False | _ \<Rightarrow> True"
    and cu: "cleanup_in (store s) (op_id op) = None"
    and u: "onlyIf (k = Hetzner \<and> boots (op_kind op)) (boot_deadline (op_id op)) (ticked s) = (Inr (), u)"
    and rest: "bind (loadPrincipal (op_grantId op)) (\<lambda>p.
       bind (pure_of (authorizeCommand p (op_projectId op) (op_command stored))) (\<lambda>_.
       onlyIf (monetary c)
         (bind (parseOffer (op_offer stored)) (\<lambda>offer.
          bind (query active_allocations) (\<lambda>global.
          unless (within_limits lm account p (item_currency offer) global) Budget_exceeded))))) u = (Inr (), t)"
    unfolding authorizeFresh_def by (auto simp: success simp del: onlyIf_success)
  from staysD [OF bd u] have su: "store u = store s" "outside u = outside s"
    by (auto simp: footstep_def dest: wrote_nothing)
  from rest obtain auth where
    auth: "authority_of (clock_of u) (op_grantId op) (ancestry (grants (store u)) (op_grantId op) 32) = Some auth"
    and cmd: "authorizeCommand (au_principal auth) (op_projectId op) (op_command stored) = Inr ()"
    and mon: "monetary c \<longrightarrow> (\<exists>offer. op_offer stored = Some offer \<and> catalog_item_ok offer
       \<and> within_limits lm account (au_principal auth) (item_currency offer) (active_allocations (store u)))"
    by (auto simp: success split: if_splits)
  have "fresh_allowed lm op c (or_clock (outside s) (ticks u)) (store s)"
    unfolding fresh_allowed_def
    by (intro exI [of _ stored] exI [of _ account] exI [of _ "au_principal auth"] conjI stored account)
       (use intent cu cmd mon authority_principal [OF ok, of _ "op_grantId op" auth] auth su in
         \<open>auto simp: clock_of_def\<close>)
  then show ?thesis by blast
qed

lemma prepareAttempt_authorized:
  fixes s :: "'e process_scheme"
  assumes "prepareAttempt k lm op a c auth s = (Inr i, t)"
  obtains account stored and u v :: "'e process_scheme" where "store u = store s" "outside u = outside s"
    "account \<in> set (accounts (store s))" "acc_id account = op_accountId op"
    "operation_in (store s) (op_id op) = Some stored"
    "authorizeEffect k lm op a c auth account stored u = (Inr (), v)"
proof -
  from assms have "\<exists>account stored (u :: 'e process_scheme) v. store u = store s \<and> outside u = outside s
    \<and> select_one (\<lambda>x. acc_id x = op_accountId op) (accounts (store s)) = Some account
    \<and> operation_in (store s) (op_id op) = Some stored
    \<and> authorizeEffect k lm op a c auth account stored u = (Inr (), v)"
    unfolding prepareAttempt_def
    by (auto simp: success) (rule exI [of _ "ticked (ticked (ticked (opened s)))"], simp)
  then obtain account stored and u v :: "'e process_scheme" where 1: "store u = store s" "outside u = outside s"
    "select_one (\<lambda>x. acc_id x = op_accountId op) (accounts (store s)) = Some account"
    "operation_in (store s) (op_id op) = Some stored"
    "authorizeEffect k lm op a c auth account stored u = (Inr (), v)" by blast
  from select_one_SomeD [OF 1(3)] 1 show thesis by (intro that [of u account stored v]) auto
qed

lemma fresh_authorized:
  fixes s :: "'p world"
  assumes ok: "schema_ok (store s)"
    and sub: "submitted (snd (journalEffect P lm op a c Fresh s)) \<noteq> submitted s"
  shows "(\<exists>i. submitted (snd (journalEffect P lm op a c Fresh s)) = submitted s @ [(i, c)])
    \<and> (\<exists>n. fresh_allowed lm op c (or_clock (outside s) n) (store s))
    \<and> (monetary c \<longrightarrow> quoted_price P op (store s))"
proof -
  from journalEffect_submits [OF sub] obtain u v i where
    price: "onlyIf (monetary c) (checkPrice P op a) s = (Inr (), u)"
    and prep: "prepareAttempt (mp_kind P) lm op a c Fresh u = (Inr i, v)"
    and u: "store u = store s" "outside u = outside s"
    and one: "submitted (snd (journalEffect P lm op a c Fresh s)) = submitted s @ [(i, c)]" by metis
  from prepareAttempt_authorized [OF prep] obtain account stored and x y :: "'p world" where
    x: "store x = store u" "outside x = outside u" "account \<in> set (accounts (store u))"
      "acc_id account = op_accountId op" "operation_in (store u) (op_id op) = Some stored"
      "authorizeEffect (mp_kind P) lm op a c Fresh account stored x = (Inr (), y)" by metis
  then have "authorizeFresh (mp_kind P) lm op c account stored x = (Inr (), y)"
    by (simp add: authorizeEffect_def)
  from authorizeFresh_success [OF this] x u ok
  have "\<exists>n. fresh_allowed lm op c (or_clock (outside s) n) (store s)" by simp
  moreover have "monetary c \<longrightarrow> quoted_price P op (store s)"
    using price checkPrice_success [of P op a s u] by (auto simp: success)
  ultimately show ?thesis using one by blast
qed

lemma revoked_silent:
  assumes ok: "schema_ok (store s)" and chain: "lineage (grants (store s)) (op_grantId op) chain"
    and revoked: "\<exists>g\<in>set chain. gr_revokedAt g \<noteq> None"
  shows "submitted (snd (journalEffect P lm op a c Fresh s)) = submitted s"
proof (rule ccontr)
  assume "submitted (snd (journalEffect P lm op a c Fresh s)) \<noteq> submitted s"
  from fresh_authorized [OF ok this] obtain n where
    "fresh_allowed lm op c (or_clock (outside s) n) (store s)" by blast
  then obtain leaf rest where l: "lineage (grants (store s)) (op_grantId op) (leaf # rest)"
    "list_all (usable (gr_accountId leaf) (or_clock (outside s) n)) (leaf # rest)"
    by (auto simp: fresh_allowed_def principal_at_def)
  have "chain = leaf # rest" using lineage_unique [OF schema_grants [OF ok] chain l(1)] .
  with l(2) revoked show False by (auto simp: list_all_iff usable_def)
qed

section \<open>Cleanup effects\<close>

definition cleanup_allowed :: "operation \<Rightarrow> allocation_row \<Rightarrow> provider_command \<Rightarrow> db \<Rightarrow> bool" where
  "cleanup_allowed op a c d \<longleftrightarrow>
     (\<exists>cu\<in>set (cleanups d). cu_operationId cu = op_id op \<and> cu_accountId cu = al_accountId a
        \<and> cu_allocationId cu = al_id a)
     \<and> (\<exists>kind i. deletion_target c = Some (kind, i) \<and> (\<exists>r\<in>set (resources d). owns_target a kind i r))"

lemma authorizeCleanup_success:
  "authorizeCleanup op a c s = (Inr (), t) \<Longrightarrow> cleanup_allowed op a c (store s)"
  unfolding authorizeCleanup_def cleanup_allowed_def
  by (auto simp: success split: option.splits prod.splits dest!: select_one_SomeD)

lemma cleanup_owned:
  fixes s :: "'p world"
  assumes ok: "schema_ok (store s)"
    and sub: "submitted (snd (journalEffect P lm op a c Admitted_cleanup s)) \<noteq> submitted s"
  shows "\<exists>cu kind i. cu \<in> set (cleanups (store s)) \<and> cu_operationId cu = op_id op
    \<and> cu_allocationId cu = al_id a \<and> deletion_target c = Some (kind, i)
    \<and> (\<exists>r\<in>set (resources (store s)). owns_target a kind i r)
    \<and> int (length (filter (\<lambda>e. at_command e = c) (cleanup_attempts (store s) cu)))
        < cleanup_delete_limit (store s) (op_id op) c
    \<and> (kind = Primary_ip \<longrightarrow> \<not> (\<exists>r\<in>set (live_resources (store s) (al_id a)). pr_kind r = Server)
         \<and> \<not> (\<exists>e\<in>set (attempts (store s)). at_operationId e = cu_sourceOperationId cu
              \<and> isServerCreateCommand (at_command e) \<and> at_resolution e = Res_pending))"
proof -
  from journalEffect_submits [OF sub] obtain i and u v :: "'p world" where
    prep: "prepareAttempt (mp_kind P) lm op a c Admitted_cleanup u = (Inr i, v)"
    and u: "store u = store s" "outside u = outside s" by metis
  from prepareAttempt_authorized [OF prep] obtain account stored and x y :: "'p world" where
    x: "store x = store u" "authorizeEffect (mp_kind P) lm op a c Admitted_cleanup account stored x = (Inr (), y)"
    by metis
  then have "cleanup_allowed op a c (store s)"
    using authorizeCleanup_success [of op a c x y] u by (simp add: authorizeEffect_def)
  then obtain cu kind t where cu: "cu \<in> set (cleanups (store s))" "cu_operationId cu = op_id op"
      "cu_allocationId cu = al_id a"
    and t: "deletion_target c = Some (kind, t)" "\<exists>r\<in>set (resources (store s)). owns_target a kind t r"
    by (auto simp: cleanup_allowed_def)
  from runs_Inr [OF prepareAttempt_runs refl prep] u(1) obtain row clock n where
    row: "at_command row = c" "at_operationId row = op_id op"
    and g: "guard_cleanup_effect clock (store s) (row\<lparr>at_createdAt := n\<rparr>)"
    by (auto simp: journals_def)
  have "unique_by cu_operationId (cleanups (store s))"
    using ok by (simp add: schema_ok_def cleanups_ok_def)
  then have same: "cu' = cu" if "cu' \<in> set (cleanups (store s))" "cu_operationId cu' = op_id op" for cu'
    using unique_rowD [of cu_operationId "cleanups (store s)" cu' cu] that cu by simp
  have "list_ex (\<lambda>c. cu_sourceOperationId c = op_id op \<or> cu_operationId c = op_id op) (cleanups (store s))"
    using cu by (auto simp: list_ex_iff)
  with g row t(1) obtain cu' where
    f: "select_one (\<lambda>c. cu_operationId c = op_id op \<and> cu_accountId c = at_accountId row) (cleanups (store s)) = Some cu'"
    and lim: "int (length (filter (\<lambda>e. at_command e = c) (cleanup_attempts (store s) cu')))
        < cleanup_delete_limit (store s) (cu_operationId cu') c"
    and ip: "kind = Primary_ip \<longrightarrow>
        \<not> list_ex (\<lambda>e. at_operationId e = cu_sourceOperationId cu' \<and> isServerCreateCommand (at_command e)
             \<and> at_resolution e = Res_pending) (attempts (store s))
        \<and> \<not> list_ex (\<lambda>r. pr_kind r = Server) (live_resources (store s) (cu_allocationId cu'))"
    by (auto simp: guard_cleanup_effect_def Let_def split: option.splits)
  from same select_one_SomeD [OF f] have "cu' = cu" by blast
  with lim ip cu t show ?thesis
    by (intro exI [of _ cu] exI [of _ kind] exI [of _ t]) (auto simp: list_ex_iff)
qed

end
