(* ===== verification/Evaluation.thy ===== *)
theory Evaluation
  imports Journal_Laws
begin

text \<open>
  What an evaluation may conclude: a confirmation rests on an answer the provider gave about exactly
  the resource of the attempt, with the labels and the configuration the command asked for; a failure
  rests on the provider's rejection or on a failed action.
\<close>

section \<open>Results of programs\<close>

definition yields :: "('s, 'a) prog \<Rightarrow> ('a \<Rightarrow> bool) \<Rightarrow> bool" where
  "yields m Q \<longleftrightarrow> (\<forall>s x t. m s = (Inr x, t) \<longrightarrow> Q x)"

named_theorems yields_intros "rules for the results of composed programs"

lemma yieldsD: "yields m Q \<Longrightarrow> m s = (Inr x, t) \<Longrightarrow> Q x"
  unfolding yields_def by blast

lemma yields_ret [yields_intros]: "Q x \<Longrightarrow> yields (ret x) Q"
  by (simp add: yields_def ret_def)

lemma yields_raise [yields_intros]: "yields (raise e) Q"
  by (simp add: yields_def raise_def)

lemma yields_bind: "yields m R \<Longrightarrow> (\<And>x. R x \<Longrightarrow> yields (f x) Q) \<Longrightarrow> yields (bind m f) Q"
  unfolding yields_def by (metis bind_success)

lemma yields_true: "yields m (\<lambda>_. True)"
  by (simp add: yields_def)

definition answered :: "('p, 'a) port \<Rightarrow> 'a \<Rightarrow> bool" where
  "answered f x \<longleftrightarrow> (\<exists>now p p'. f now p = (Inr x, p'))"

lemma yields_call: "yields (call f) (answered f)"
  by (auto simp: yields_def answered_def call_def bind_def prim_def reply_def Let_def
      split: prod.splits if_splits sum.splits)

section \<open>What a confirmation promises\<close>

fun achieved :: "bool \<Rightarrow> provider_command \<Rightarrow> provider_server \<Rightarrow> bool" where
  "achieved unsure (Create_server n t r ls net) v \<longleftrightarrow>
     srv_serverType v = t \<and> srv_region v = r \<and> srv_primaryIpId v = network_ip net \<and> srv_power v = Power_running"
| "achieved unsure (Create_guest n t r ls ip b) v \<longleftrightarrow>
     srv_serverType v = t \<and> srv_region v = r \<and> srv_primaryIpId v = Some ip \<and> srv_power v = Power_running"
| "achieved unsure (Resize_server i t) v \<longleftrightarrow> srv_serverType v = t"
| "achieved unsure (Enable_backup i) v \<longleftrightarrow> srv_backupStatus v = Backup_enabled"
| "achieved unsure (Power_off_server i) v \<longleftrightarrow> srv_power v = Power_is_off"
| "achieved unsure (Power_on_server i) v \<longleftrightarrow> srv_power v = Power_running"
| "achieved unsure (Reboot_server i) v \<longleftrightarrow> \<not> unsure \<and> srv_power v = Power_running"
| "achieved unsure _ v \<longleftrightarrow> False"

text \<open>A resource the provider itself named in its receipt.\<close>

definition receipted :: "attempt_outcome \<Rightarrow> resource_ref \<Rightarrow> bool" where
  "receipted outcome ref \<longleftrightarrow> outcome = Completed ref \<or> (\<exists>action. outcome = Accepted ref action)"

definition absence_settles :: "bool \<Rightarrow> attempt_row \<Rightarrow> resource_ref \<Rightarrow> bool" where
  "absence_settles recovering e ref \<longleftrightarrow>
     deletion_target (at_command e) = Some (ref_kind ref, ref_id ref)
     \<or> recovering \<and> (at_command e = Enable_backup (ref_id ref) \<and> ref_kind ref = Server
          \<or> created_kind (at_command e) = Some (ref_kind ref) \<and> receipted (at_outcome e) ref)"

definition confirmation :: "'p machine_provider \<Rightarrow> bool \<Rightarrow> labels \<Rightarrow> attempt_row \<Rightarrow> resource_observation \<Rightarrow> bool" where
  "confirmation P recovering expected e obs \<longleftrightarrow>
     (case obs of
        Observed_server v \<Rightarrow> answered (mp_getServer P (srv_id v)) (Some v)
          \<and> (\<forall>i. command_serverId (at_command e) = Some i \<longrightarrow> srv_id v = i)
          \<and> matchesLabels (srv_labels v)
              (case command_labels (at_command e) of Some ls \<Rightarrow> ls | None \<Rightarrow> expected)
          \<and> achieved (uncertain (at_outcome e)) (at_command e) v
      | Observed_primary_ip v \<Rightarrow> answered (mp_getPrimaryIp P (ip_id v)) (Some v)
          \<and> (\<exists>n r ls. at_command e = Create_primary_ip n r ls \<and> matchesLabels (ip_labels v) ls
               \<and> ip_region v = r \<and> ip_autoDelete v \<and> ip_assignment v = Unassigned)
      | Observed_absent ref \<Rightarrow> absence_settles recovering e ref
          \<and> (if ref_kind ref = Server then answered (mp_getServer P (ref_id ref)) None
             else answered (mp_getPrimaryIp P (ref_id ref)) None))"

definition failure_reported :: "'p machine_provider \<Rightarrow> attempt_row \<Rightarrow> failure \<Rightarrow> bool" where
  "failure_reported P e f \<longleftrightarrow> at_outcome e = Rejected f
     \<or> (\<exists>ref action. at_outcome e = Accepted ref action \<and> answered (mp_getAction P action) (Action_failed f))"

definition warranted :: "'p machine_provider \<Rightarrow> bool \<Rightarrow> labels \<Rightarrow> attempt_row \<Rightarrow> evaluation \<Rightarrow> bool" where
  "warranted P recovering expected e ev \<longleftrightarrow>
     (case ev of Eval_confirmed obs \<Rightarrow> confirmation P recovering expected e obs
      | Eval_failed f \<Rightarrow> failure_reported P e f | Eval_pending p \<Rightarrow> True)"

lemma warranted_blocked [simp]: "warranted P r ls e (blocked reason)" "warranted P r ls e mismatch"
  "warranted P r ls e (not_yet u ref)" "warranted P r ls e (Eval_pending p)"
  by (simp_all add: warranted_def blocked_def mismatch_def not_yet_def)

section \<open>Locating the resource\<close>

definition located :: "attempt_row \<Rightarrow> resource_ref \<Rightarrow> bool" where
  "located e ref \<longleftrightarrow> ref_kind ref = resourceKind (at_command e)
     \<and> (\<forall>i. command_serverId (at_command e) = Some i \<longrightarrow> ref_id ref = i)
     \<and> (\<forall>i. command_primaryIpId (at_command e) = Some i \<longrightarrow> ref_id ref = i)
     \<and> (uncertain (at_outcome e) \<or> receipted (at_outcome e) ref)"

lemma create_names_nothing:
  "command_labels c = Some ls \<Longrightarrow> command_serverId c = None \<and> command_primaryIpId c = None"
  by (cases c) simp_all

lemma yields_discover:
  assumes "command_labels (at_command e) = Some ls" "uncertain (at_outcome e)"
  shows "yields (discover P a e ls)
     (\<lambda>r. case r of Inl ev \<Rightarrow> warranted P rec expected e ev | Inr ref \<Rightarrow> located e ref)"
  unfolding discover_def Let_def
  by (intro yields_bind [OF yields_true])
     (auto split: list.splits simp: located_def assms create_names_nothing [OF assms(1)]
       intro!: yields_intros yields_bind [OF yields_true])

lemma reported_located:
  "reportedResource c ref = Inr r \<Longrightarrow> r = ref \<and> ref_kind ref = resourceKind c
     \<and> (\<forall>i. command_serverId c = Some i \<longrightarrow> ref_id ref = i)
     \<and> (\<forall>i. command_primaryIpId c = Some i \<longrightarrow> ref_id ref = i)"
  by (auto simp: reportedResource_def split: if_splits option.splits)

lemma reported_mismatch: "reportedResource c ref = Inl ev \<Longrightarrow> ev = mismatch"
  by (auto simp: reportedResource_def split: if_splits)

lemma target_located:
  "command_target c = Some ref \<Longrightarrow> ref_kind ref = resourceKind c
     \<and> (\<forall>i. command_serverId c = Some i \<longrightarrow> ref_id ref = i)
     \<and> (\<forall>i. command_primaryIpId c = Some i \<longrightarrow> ref_id ref = i)"
  by (cases c) (auto simp: command_target_def server_ref_def ip_ref_def)

abbreviation outcome_located :: "'p machine_provider \<Rightarrow> bool \<Rightarrow> labels \<Rightarrow> attempt_row \<Rightarrow> evaluation + resource_ref \<Rightarrow> bool" where
  "outcome_located P rec expected e r \<equiv>
     (case r of Inl ev \<Rightarrow> warranted P rec expected e ev | Inr ref \<Rightarrow> located e ref)"

lemma yields_uncertain:
  assumes "uncertain (at_outcome e)"
  shows "yields (case command_labels (at_command e) of Some ls \<Rightarrow> discover P a e ls
       | None \<Rightarrow> (case command_target (at_command e) of Some ref \<Rightarrow> ret (Inr ref) | None \<Rightarrow> raise Defect))
     (outcome_located P rec expected e)"
  using assms target_located [of "at_command e"]
  by (auto split: option.splits intro!: yields_intros yields_discover simp: located_def)

lemma yields_locate: "yields (locate P a e) (outcome_located P rec expected e)"
proof (cases "at_outcome e")
  case (Rejected f)
  then show ?thesis
    by (auto simp: locate_def warranted_def failure_reported_def intro!: yields_intros)
next
  case (Completed ref)
  then show ?thesis
    by (cases "reportedResource (at_command e) ref")
       (auto simp: locate_def located_def receipted_def dest!: reported_mismatch reported_located
         intro!: yields_intros)
next
  case (Accepted ref action)
  show ?thesis
  proof (cases "reportedResource (at_command e) ref")
    case (Inl ev)
    with Accepted show ?thesis
      by (auto simp: locate_def dest!: reported_mismatch intro!: yields_intros)
  next
    case (Inr r)
    with reported_located [OF Inr] have "located e r" by (auto simp: located_def receipted_def Accepted)
    with Accepted Inr show ?thesis
      by (auto simp: locate_def warranted_def failure_reported_def split: provider_action.splits
          intro!: yields_bind [OF yields_call] yields_intros)
  qed
next
  case Prepared
  with yields_uncertain [of e] show ?thesis by (simp add: locate_def Let_def uncertain_def)
next
  case Unknown
  with yields_uncertain [of e] show ?thesis by (simp add: locate_def Let_def uncertain_def)
qed

section \<open>Judging the answer\<close>

lemma judgeIp_warranted:
  assumes "located e ref" "ref_kind ref = Primary_ip" "answered (mp_getPrimaryIp P (ref_id ref)) found"
  shows "warranted P rec expected e (judgeIp rec (uncertain (at_outcome e)) expected (at_command e) ref found)"
  using assms
  by (cases "at_command e"; cases found)
     (auto simp: judgeIp_def warranted_def confirmation_def absence_settles_def located_def
       blocked_def mismatch_def not_yet_def)

lemma judgeCommand_warranted:
  assumes "answered (mp_getServer P (srv_id v)) (Some v)"
    and "\<forall>i. command_serverId (at_command e) = Some i \<longrightarrow> srv_id v = i"
    and "matchesLabels (srv_labels v) (case command_labels (at_command e) of Some ls \<Rightarrow> ls | None \<Rightarrow> expected)"
  shows "warranted P rec expected e (judgeCommand (uncertain (at_outcome e)) (at_command e) ref v)"
  using assms
  by (cases "at_command e")
     (auto simp: warranted_def confirmation_def created_as_def mismatch_def blocked_def not_yet_def)

lemma judgeServer_warranted:
  assumes "located e ref" "ref_kind ref = Server" "answered (mp_getServer P (ref_id ref)) found"
  shows "warranted P rec expected e (judgeServer rec (uncertain (at_outcome e)) expected (at_command e) ref found)"
proof (cases found)
  case None
  with assms show ?thesis
    by (cases "at_command e")
       (auto simp: judgeServer_def warranted_def confirmation_def absence_settles_def located_def
         blocked_def not_yet_def)
next
  case (Some v)
  show ?thesis
  proof (cases "srv_id v = ref_id ref \<and> matchesLabels (srv_labels v)
      (if isServerCreateCommand (at_command e) then the (command_labels (at_command e)) else expected)")
    case True
    moreover have "(case command_labels (at_command e) of Some ls \<Rightarrow> ls | None \<Rightarrow> expected)
      = (if isServerCreateCommand (at_command e) then the (command_labels (at_command e)) else expected)"
      using assms(1,2) by (cases "at_command e") (auto simp: located_def)
    ultimately show ?thesis
      using assms Some judgeCommand_warranted [of P v e expected rec ref]
      by (auto simp: judgeServer_def located_def)
  qed (auto simp: judgeServer_def Some)
qed

lemma yields_inspect:
  "located e ref \<Longrightarrow> yields (inspect P rec expected e ref) (warranted P rec expected e)"
  unfolding inspect_def Let_def
  by (cases "ref_kind ref")
     (auto intro!: yields_bind [OF yields_call] yields_intros judgeIp_warranted judgeServer_warranted)

definition settled_by :: "'p machine_provider \<Rightarrow> bool \<Rightarrow> provider_command \<Rightarrow> resource_ref option \<Rightarrow> bool" where
  "settled_by P recovering c absent \<longleftrightarrow>
     (case absent of None \<Rightarrow> True
      | Some ref \<Rightarrow> recovering
          \<and> (ref_kind ref = Server \<and> deletes_server c = Some (ref_id ref)
               \<and> answered (mp_getServer P (ref_id ref)) None
             \<or> ref_kind ref = Primary_ip \<and> command_primaryIpId c = Some (ref_id ref)
               \<and> answered (mp_getPrimaryIp P (ref_id ref)) None))"

lemma yields_settledAbsence: "yields (settledAbsence P rec c) (settled_by P rec c)"
  unfolding settledAbsence_def
  by (auto split: option.splits intro!: yields_bind [OF yields_call] yields_intros
      simp: settled_by_def server_ref_def ip_ref_def)

lemma settled_warranted:
  "settled_by P rec (at_command e) (Some ref) \<Longrightarrow> warranted P rec expected e (Eval_confirmed (Observed_absent ref))"
  by (cases "at_command e")
     (auto simp: settled_by_def warranted_def confirmation_def absence_settles_def)

lemma yields_evaluate: "yields (evaluate P a rec e expected) (warranted P rec expected e)"
  unfolding evaluate_def
proof (rule yields_bind [OF yields_settledAbsence])
  fix absent assume s: "settled_by P rec (at_command e) absent"
  show "yields (case absent of
      Some ref \<Rightarrow> ret (Eval_confirmed (Observed_absent ref))
    | None \<Rightarrow> bind (locate P a e) (\<lambda>target.
        case target of Inl ev \<Rightarrow> ret ev | Inr ref \<Rightarrow> inspect P rec expected e ref))
    (warranted P rec expected e)"
    using s settled_warranted
    by (auto split: option.splits sum.splits
        intro!: yields_bind [OF yields_locate] yields_intros yields_inspect)
qed

end
