(* ===== verification/Single_Effect.thy ===== *)
theory Single_Effect
  imports Advance_Laws Effect_Authority Evaluation
begin

text \<open>
  One call of \<open>advanceOperation\<close> journals at most one attempt, and apart from deletions no operation
  ever journals two attempts of the same kind: no second server, no second address, no repeated
  reboot or resize, whatever crashes and lost replies happen in between.
\<close>

section \<open>The identity of attempts\<close>

definition effect_slot :: "provider_command \<Rightarrow> string" where
  "effect_slot c = (if isServerCreateCommand c then ''create'' else command_kind c)"

definition core :: "attempt_row \<Rightarrow> id \<times> id \<times> provider_command" where
  "core e = (at_id e, at_operationId e, at_command e)"

definition cores :: "db \<Rightarrow> (id \<times> id \<times> provider_command) list" where
  "cores d = map core (attempts d)"

text \<open>At most one attempt per operation and kind of effect, deletions apart.\<close>

definition single_effects :: "db \<Rightarrow> bool" where
  "single_effects d \<longleftrightarrow> distinct (map (\<lambda>(i, op, c). (op, effect_slot c))
     (filter (\<lambda>(i, op, c). \<not> deletion c) (cores d)))"

lemma keeps_core: "keeps_attempt a b \<Longrightarrow> core b = core a"
  using keeps_attempt_fields [of a b] by (simp add: core_def)

lemma evolves_cores: "evolves keeps_attempt xs ys \<Longrightarrow> length ys = length xs \<Longrightarrow> map core ys = map core xs"
  unfolding evolves_def by (auto simp: list_all2_conv_all_nth keeps_core intro: nth_equalityI)

lemma length_update_tag:
  "writes_in T d d' \<Longrightarrow> T_ins_attempt \<notin> T \<Longrightarrow> length (attempts d') = length (attempts d)"
  by (erule writes_inE, rename_tac s now clock, case_tac s) (auto split: if_splits)

interpretation settled: write_law "T - {T_ins_attempt}" "\<lambda>d d'. cores d' = cores d" for T
  by unfold_locales
    (auto simp: cores_def intro!: evolves_cores [OF journal.law] dest: length_update_tag)

lemma quiet_cores:
  assumes "quiet settle_tags m" shows "runs d m (\<lambda>_ d'. cores d' = cores d) (\<lambda>d'. cores d' = cores d)"
  by (rule runs_quiet [OF assms]) (auto simp: settle_tags_def intro: settled.wrote)

section \<open>At most one effect\<close>

definition unused :: "db \<Rightarrow> id \<Rightarrow> string \<Rightarrow> bool" where
  "unused d owner slot \<longleftrightarrow> (\<forall>(i, op, c)\<in>set (cores d). op = owner \<longrightarrow> effect_slot c \<noteq> slot)"

definition permitted :: "db \<Rightarrow> id \<Rightarrow> provider_command \<Rightarrow> bool" where
  "permitted d owner c \<longleftrightarrow> deletion c \<or> unused d owner (effect_slot c)"

definition at_most_one :: "db \<Rightarrow> id \<Rightarrow> db \<Rightarrow> bool" where
  "at_most_one d owner d' \<longleftrightarrow> cores d' = cores d
     \<or> (\<exists>i c. cores d' = cores d @ [(i, owner, c)] \<and> permitted d owner c)"

definition one_effect :: "db \<Rightarrow> id \<Rightarrow> ('p, 'a) act \<Rightarrow> bool" where
  "one_effect d owner m \<longleftrightarrow>
     (\<forall>e. cores e = cores d \<longrightarrow> runs e m (\<lambda>_. at_most_one d owner) (at_most_one d owner))"

lemma at_most_one_cores: "at_most_one d owner e \<Longrightarrow> cores f = cores e \<Longrightarrow> at_most_one d owner f"
  by (simp add: at_most_one_def)

lemma one_effect_quiet: "quiet settle_tags m \<Longrightarrow> one_effect d owner m"
  unfolding one_effect_def
  by (auto elim!: runs_weaken [OF quiet_cores] simp: at_most_one_def)

lemma one_effect_after:
  assumes m: "quiet settle_tags m" and f: "\<And>x. one_effect d owner (f x)"
  shows "one_effect d owner (bind m f)"
  unfolding one_effect_def
proof (intro allI impI runs_bind)
  fix e assume e: "cores e = cores d"
  show "runs e m (\<lambda>x d'. runs d' (f x) (\<lambda>_. at_most_one d owner) (at_most_one d owner)) (at_most_one d owner)"
    by (rule runs_weaken [OF quiet_cores [OF m]]) (use e f in \<open>auto simp: one_effect_def at_most_one_def\<close>)
qed

lemma quiet_at_most_one:
  "quiet settle_tags m \<Longrightarrow> at_most_one d owner e \<Longrightarrow>
     runs e m (\<lambda>_. at_most_one d owner) (at_most_one d owner)"
  by (erule runs_weaken [OF quiet_cores]) (auto intro: at_most_one_cores)

lemma one_effect_before:
  assumes m: "one_effect d owner m" and f: "\<And>x. quiet settle_tags (f x)"
  shows "one_effect d owner (bind m f)"
  unfolding one_effect_def
proof (intro allI impI runs_bind)
  fix e assume e: "cores e = cores d"
  show "runs e m (\<lambda>x d'. runs d' (f x) (\<lambda>_. at_most_one d owner) (at_most_one d owner)) (at_most_one d owner)"
    by (rule runs_weaken [of e m "\<lambda>_. at_most_one d owner" "at_most_one d owner"])
       (use m e quiet_at_most_one [OF f] in \<open>auto simp: one_effect_def\<close>)
qed

lemma one_effect_catch:
  assumes m: "one_effect d owner m" and h: "\<And>e. quiet settle_tags (h e)"
  shows "one_effect d owner (catch_cloud m h)"
  unfolding one_effect_def
  by (intro allI impI runs_catch_cloud [where F = "at_most_one d owner"])
     (use m quiet_at_most_one [OF h] in \<open>auto simp: one_effect_def\<close>)

lemma one_effect_if:
  "(b \<Longrightarrow> one_effect d owner m) \<Longrightarrow> (\<not> b \<Longrightarrow> one_effect d owner n) \<Longrightarrow> one_effect d owner (if b then m else n)"
  by simp

lemma one_effect_option:
  "(x = None \<Longrightarrow> one_effect d owner m) \<Longrightarrow> (\<And>v. x = Some v \<Longrightarrow> one_effect d owner (f v)) \<Longrightarrow>
     one_effect d owner (case x of None \<Rightarrow> m | Some v \<Rightarrow> f v)"
  by (cases x) auto

lemma one_effect_onlyIf: "(b \<Longrightarrow> one_effect d owner m) \<Longrightarrow> one_effect d owner (onlyIf b m)"
  by (simp add: onlyIf_def one_effect_quiet [OF quiet.ret])

lemmas one_effect_rules = one_effect_if one_effect_option one_effect_onlyIf
  one_effect_quiet [OF quiet.ret] one_effect_quiet [OF quiet.throw] one_effect_quiet [OF quiet.raise]
  one_effect_quiet [OF quiet_workProgress] one_effect_quiet [OF quiet_workComplete]
  one_effect_quiet [OF quiet_verifyRuntime] one_effect_quiet [OF quiet_recordAbsence]

section \<open>The journal\<close>

lemma journalEffect_one:
  assumes "permitted d (op_id op) c"
  shows "one_effect d (op_id op) (journalEffect P lm op a c auth)"
proof -
  let ?tail = "\<lambda>i. bind (submitAttempt P i c) (\<lambda>outcome.
     bind (recordOutcome i outcome) (\<lambda>_. claimOutcome a c outcome))"
  have submit: "runs e (submitAttempt P i c) (\<lambda>_ d'. d' = e) (\<lambda>d'. d' = e)" for e i
    unfolding runs_def using submitAttempt_state [of P i c] by (auto split: prod.splits sum.splits)
  have rest: "quiet settle_tags (bind (recordOutcome i x) (\<lambda>_. claimOutcome a c x))" for i x
    by (intro quiet.bind quiet_footprint [OF footprint_recordOutcome]
        quiet_footprint [OF footprint_claimOutcome]) auto
  have tail: "runs e (?tail i) (\<lambda>_. at_most_one d (op_id op)) (at_most_one d (op_id op))"
    if "at_most_one d (op_id op) e" for e i
    by (rule runs_bind, rule runs_weaken [OF submit]) (use that quiet_at_most_one [OF rest that] in auto)
  have prep: "runs e (prepareAttempt (mp_kind P) lm op a c auth)
      (\<lambda>_. at_most_one d (op_id op)) (at_most_one d (op_id op))" if e: "cores e = cores d" for e
    unfolding prepareAttempt_def
    by (intro wp runs_silent [OF footprint_authorizeEffect] runs_silent [OF footprint_advisoryLock])
       (use e assms in \<open>auto simp: at_most_one_def apply_stmt_def Let_def cores_def core_def split: if_splits\<close>)
  show ?thesis
    unfolding journalEffect_def
    by (rule one_effect_after [OF quiet.onlyIf [OF quiet_checkPrice]], unfold one_effect_def)
       (intro allI impI, rule runs_bind, rule runs_weaken [OF prep], auto intro: tail)
qed

section \<open>Steps of an operation\<close>

definition work_of :: "db \<Rightarrow> ('p, 'i) work \<Rightarrow> bool" where
  "work_of d w \<longleftrightarrow> set (map core (wk_history w)) = {x \<in> set (cores d). fst (snd x) = op_id (wk_operation w)}"

lemma effectOf_unused:
  assumes "work_of d w" "effectOf (wk_history w) (effect_slot c) = None"
  shows "unused d (op_id (wk_operation w)) (effect_slot c)"
  unfolding unused_def
proof (safe)
  fix i c' assume c': "(i, op_id (wk_operation w), c') \<in> set (cores d)" "effect_slot c' = effect_slot c"
  then have "(i, op_id (wk_operation w), c') \<in> set (map core (wk_history w))"
    using assms(1) by (auto simp: work_of_def)
  then obtain e where e: "e \<in> set (wk_history w)" "at_command e = c'" by (auto simp: core_def)
  have "(if effect_slot c = ''create'' then isServerCreateCommand c' else command_kind c' = effect_slot c)"
    using c'(2) by (cases c'; cases c; simp add: effect_slot_def)
  with e assms(2) show False by (auto simp: effectOf_def find_None_iff)
qed

lemma workEffect_one:
  assumes "deletion c \<or> work_of d w \<and> effectOf (wk_history w) (effect_slot c) = None"
  shows "one_effect d (op_id (wk_operation w)) (workEffect w c auth)"
  unfolding workEffect_def
  by (rule journalEffect_one) (use assms effectOf_unused [of d w c] in \<open>auto simp: permitted_def\<close>)

lemma ensureProviderBackups_one:
  assumes "work_of d w"
  shows "one_effect d (op_id (wk_operation w)) (ensureProviderBackups w s offer)"
proof -
  have p: "quiet settle_tags (bind (workProgress w p) (\<lambda>_. ret x))" for p x
    by (intro quiet.rules quiet_workProgress)
  show ?thesis
    unfolding ensureProviderBackups_def
    by (auto split: option.splits
        intro!: one_effect_if one_effect_quiet [OF quiet.ret] one_effect_after [OF quiet_call]
          one_effect_quiet [OF p] one_effect_before [OF workEffect_one quiet.ret]
        simp: assms effect_slot_def)
qed

lemma cleanupIp_one: "one_effect d (op_id (wk_operation w)) (cleanupIp w)"
proof -
  have p: "quiet settle_tags (bind (workProgress w p) (\<lambda>_. ret x))" for p x
    by (intro quiet.rules quiet_workProgress)
  have q: "quiet settle_tags (bind (recordAbsence a r) (\<lambda>_. ret x))" for a r x
    by (intro quiet.rules quiet_recordAbsence)
  show ?thesis
    unfolding cleanupIp_def
    by (intro one_effect_option one_effect_if one_effect_quiet [OF quiet.ret] one_effect_after [OF quiet_call]
        one_effect_quiet [OF p] one_effect_quiet [OF q] one_effect_before [OF workEffect_one quiet.ret])
       (auto simp: deletion_def)
qed

lemma completeDestruction_one: "one_effect d (op_id (wk_operation w)) (completeDestruction w)"
  unfolding completeDestruction_def
  by (intro one_effect_before cleanupIp_one quiet.onlyIf quiet_workComplete)

lemma yields_createCommand:
  "yields (createCommand w offer ls ip img) isServerCreateCommand"
  unfolding createCommand_def Let_def
  by (auto split: provider_kind.splits option.splits network_profile.splits
      intro!: yields_intros yields_bind [OF yields_true] simp: throw_def)

text \<open>A bind whose first program is quiet and yields only results that satisfy \<open>Q\<close>.\<close>

lemma one_effect_yielding:
  assumes m: "quiet settle_tags m" and y: "yields m Q" and f: "\<And>x. Q x \<Longrightarrow> one_effect d owner (f x)"
  shows "one_effect d owner (bind m f)"
  unfolding one_effect_def
proof (intro allI impI runs_bind)
  fix e assume e: "cores e = cores d"
  show "runs e m (\<lambda>x d'. runs d' (f x) (\<lambda>_. at_most_one d owner) (at_most_one d owner)) (at_most_one d owner)"
  proof (rule runsI)
    fix s x t assume s: "store s = e" "m s = (Inr x, t)"
    have "cores (store t) = cores d" using runs_Inr [OF quiet_cores [OF m] s] e by simp
    with f [OF yieldsD [OF y s(2)]] show "runs (store t) (f x) (\<lambda>_. at_most_one d owner) (at_most_one d owner)"
      by (simp add: one_effect_def)
  next
    fix s er t assume s: "store s = e" "m s = (Inl er, t)"
    show "at_most_one d owner (store t)"
      using runs_Inl [OF quiet_cores [OF m] s] e by (simp add: at_most_one_def)
  qed
qed

lemma server_create_slot: "isServerCreateCommand c \<Longrightarrow> effect_slot c = ''create''"
  by (simp add: effect_slot_def)

lemma createServer_one:
  assumes "work_of d w" "effectOf (wk_history w) ''create'' = None"
  shows "one_effect d (op_id (wk_operation w)) (createServer w offer ls img)"
  unfolding createServer_def Let_def
  by (intro one_effect_after quiet.if_split quiet_checkAddress quiet.ret one_effect_onlyIf
      one_effect_yielding [OF quiet_createCommand yields_createCommand] workEffect_one)
     (simp add: assms server_create_slot)

lemma finishCreate_one:
  assumes "work_of d w"
  shows "one_effect d (op_id (wk_operation w)) (finishCreate w offer e)"
  unfolding finishCreate_def guestStage_def
  by (intro one_effect_after [OF quiet.present] one_effect_before ensureProviderBackups_one assms
      quiet.option_split quiet.ret quiet.if_split quiet.bind quiet_local quiet_workProgress
      quiet_verifyRuntime quiet_workComplete)

lemma advanceCreate_one:
  assumes "work_of d w"
  shows "one_effect d (op_id (wk_operation w)) (advanceCreate w row)"
  unfolding advanceCreate_def Let_def
  by (intro one_effect_after quiet_local quiet.unless quiet_resolveImage one_effect_if one_effect_option
      workEffect_one createServer_one finishCreate_one assms) (auto simp: assms effect_slot_def)

lemma yields_actionCommand:
  "yields (actionCommand row action i) (\<lambda>c. deletion c \<or> effect_slot c = action_kind action)"
  unfolding actionCommand_def
  by (cases action) (auto intro!: yields_intros yields_bind [OF yields_true] simp: effect_slot_def deletion_def)

lemma finishAction_one:
  assumes "work_of d w"
  shows "one_effect d (op_id (wk_operation w)) (finishAction w row action e)"
proof -
  have b: "one_effect d (op_id (wk_operation w)) (case action of
       Resize v target \<Rightarrow> bind (parseOffer (op_offer row)) (\<lambda>offer. ensureProviderBackups w s offer)
     | _ \<Rightarrow> ret (Some s))" for s
    by (cases action) (auto intro!: one_effect_after [OF quiet_local(4)] ensureProviderBackups_one assms
        one_effect_quiet [OF quiet.ret])
  have p: "quiet settle_tags (bind (workProgress w p) (\<lambda>_. verifyRuntime w))" for p
    by (intro quiet.bind quiet_workProgress quiet_verifyRuntime)
  show ?thesis
    unfolding finishAction_def
    by (intro one_effect_after [OF quiet.unless] one_effect_if completeDestruction_one
        one_effect_after [OF quiet.present] one_effect_quiet [OF p] one_effect_before [OF b]
        quiet.option_split quiet.ret quiet_workComplete)
qed

lemma submitAction_one:
  assumes "work_of d w" "effectOf (wk_history w) (action_kind action) = None"
  shows "one_effect d (op_id (wk_operation w)) (submitAction w row action r i)"
proof -
  have a: "one_effect d (op_id (wk_operation w))
      (bind (actionCommand row action j) (\<lambda>command. workEffect w command Fresh))" for j
    by (intro one_effect_yielding [OF quiet_footprint [OF footprint_actionCommand] yields_actionCommand]
        workEffect_one) (use assms in auto)
  show ?thesis
    unfolding submitAction_def
    by (intro one_effect_after quiet_call one_effect_option one_effect_if one_effect_rules a)
qed

lemma advanceAction_one:
  assumes "work_of d w"
  shows "one_effect d (op_id (wk_operation w)) (advanceAction w row action)"
  unfolding advanceAction_def Let_def
  by (auto split: option.splits intro!: one_effect_rules completeDestruction_one finishAction_one
      submitAction_one assms)

lemma advanceRun_one:
  assumes "work_of d w"
  shows "one_effect d (op_id (wk_operation w)) (advanceRun w row)"
proof -
  have l: "one_effect d (op_id (wk_operation w)) (catch_cloud (lifecycleStep w row) (stepRefused w))"
    unfolding lifecycleStep_def
    by (intro one_effect_catch quiet_stepRefused)
       (auto split: lifecycle_command.splits intro: advanceCreate_one advanceAction_one assms)
  have f: "one_effect d (op_id (wk_operation w)) (beginFailure w e)" for e
    by (rule one_effect_quiet [OF quiet_beginFailure])
  have c: "one_effect d (op_id (wk_operation w)) (bind (cleanupIp w) (\<lambda>clean. onlyIf clean (workFail w e b)))" for e b
    by (intro one_effect_before cleanupIp_one quiet.onlyIf quiet_workFail)
  show ?thesis
    unfolding advanceRun_def
    by (auto split: operation_intent.splits option.splits prod.splits provider_command.splits
        intro: l f c completeDestruction_one)
qed

lemma advanceWork_one:
  assumes "work_of d w"
  shows "one_effect d (op_id (wk_operation w)) (advanceWork w row)"
  unfolding advanceWork_def
  by (auto split: option.splits intro: one_effect_quiet [OF quiet_resolveStep] advanceRun_one assms)

section \<open>Cleanup\<close>

lemma deletion_delete_command: "deletion (delete_command ref)"
  by (simp add: delete_command_def deletion_def)

lemma deleteResource_one: "one_effect d (op_id op) (deleteResource P lm op a history ref)"
  unfolding deleteResource_def
  by (intro one_effect_after quiet_retryDue one_effect_onlyIf journalEffect_one)
     (simp add: permitted_def deletion_delete_command)

lemma cleanupAddress_one: "one_effect d (op_id op) (cleanupAddress P lm op a history rs r)"
proof -
  have p: "quiet settle_tags (setProgress op p)" for p
    by (intro quiet_footprint [OF footprint_setProgress]) simp
  show ?thesis
    unfolding cleanupAddress_def Let_def
    by (auto split: option.splits ip_assignment.splits intro!: one_effect_after quiet_call
        one_effect_quiet [OF quiet_recordAbsence] one_effect_quiet [OF quiet_mismatched]
        one_effect_quiet [OF p] deleteResource_one)
qed

lemma cleanupServer_one: "one_effect d (op_id op) (cleanupServer P lm op a history rs r)"
  unfolding cleanupServer_def Let_def
  by (intro one_effect_after quiet_call one_effect_option one_effect_if one_effect_onlyIf
      one_effect_quiet [OF quiet_recordAbsence] one_effect_quiet [OF quiet_mismatched] deleteResource_one)

lemma advanceCleanup_one: "one_effect d (op_id op) (advanceCleanup P lm op a)"
  unfolding advanceCleanup_def cleanupStep_def readHistory_def readResources_def
  by (intro one_effect_catch one_effect_after quiet_footprint [OF footprint_cleanupAuthority] quiet_local
      quiet_resolveAllPending one_effect_option one_effect_if one_effect_onlyIf cleanupServer_one
      cleanupAddress_one one_effect_quiet [OF quiet_footprint [OF footprint_retireAllocation]]
      quiet.onlyIf quiet_mismatched)

section \<open>The handler\<close>

lemma operationRecord_fields [simp]:
  "op_id (operationRecord r) = op_id r" "op_accountId (operationRecord r) = op_accountId r"
  "op_projectId (operationRecord r) = op_projectId r" "op_machineId (operationRecord r) = op_machineId r"
  "op_grantId (operationRecord r) = op_grantId r" "op_kind (operationRecord r) = op_kind r"
  "op_intent (operationRecord r) = op_intent r" "op_progress (operationRecord r) = op_progress r"
  "op_createdAt (operationRecord r) = op_createdAt r"
  by (simp_all add: operationRecord_def operation.truncate_def)

lemma workHistory_one:
  assumes "\<And>h. set (map core h) = {x \<in> set (cores d). fst (snd x) = owner} \<Longrightarrow> one_effect d owner (f h)"
  shows "one_effect d owner (bind (workHistory owner) f)"
  unfolding one_effect_def
proof (intro allI impI runs_bind)
  fix e assume e: "cores e = cores d"
  have "one_effect d owner (f (sort_key at_sequence (filter (\<lambda>x. at_operationId x = owner) (attempts e))))"
    by (rule assms, unfold e [symmetric]) (auto simp: cores_def core_def image_iff)
  then show "runs e (workHistory owner) (\<lambda>x d'. runs d' (f x) (\<lambda>_. at_most_one d owner) (at_most_one d owner))
      (at_most_one d owner)"
    unfolding workHistory_def by (intro runs_query) (auto simp: one_effect_def e at_most_one_def)
qed

lemma advanceActive_one: "one_effect d (op_id row) (advanceActive row P lm guest)"
proof -
  have w: "one_effect d (op_id row) (advanceWork w row)"
    if "work_of d w" "op_id (wk_operation w) = op_id row" for w :: "('a, 'b) work"
    using advanceWork_one [OF that(1), of row] that(2) by simp
  have c: "one_effect d (op_id row) (advanceCleanup P lm (operationRecord row) a)" for a
    using advanceCleanup_one [of d "operationRecord row" P lm a] by simp
  show ?thesis
    unfolding advanceActive_def Let_def workResources_def operationRecord_fields
    by (intro one_effect_after [OF quiet_local(1)] one_effect_after [OF quiet.present]
        one_effect_after [OF quiet.unless] one_effect_if c workHistory_one w)
       (auto simp: work_of_def)
qed

lemma advanceLocked_one: "one_effect d i (advanceLocked i P lm guest)"
proof -
  have y: "yields (query (\<lambda>d. operation_in d i)) (\<lambda>r. \<forall>row. r = Some row \<longrightarrow> op_id row = i)"
    by (auto simp: yields_def success operation_in_def dest: select_one_SomeD)
  show ?thesis
    unfolding advanceLocked_def
    by (rule one_effect_yielding [OF quiet_local(1) y])
       (auto split: option.splits intro: one_effect_quiet [OF quiet.ret] advanceActive_one)
qed

lemma lock_one: "one_effect d i m \<Longrightarrow> one_effect d i (withMachineLock m)"
  unfolding withMachineLock_def
  by (intro one_effect_after [OF quiet_footprint [OF footprint_tryLock]] one_effect_if
      one_effect_before quiet.ret one_effect_quiet [OF quiet.ret])

lemma advanceOperation_one: "one_effect d i (advanceOperation i P lm guest)"
  unfolding advanceOperation_def
  by (intro one_effect_after [OF quiet_local(1)] one_effect_option one_effect_quiet [OF quiet.ret]
      one_effect_before lock_one advanceLocked_one quiet.ret)

lemma advance_at_most_one:
  "at_most_one (store s) i (store (snd (advanceOperation i P lm guest s)))"
  using advanceOperation_one [of "store s" i P lm guest] unfolding one_effect_def
  by (auto intro: runs_any)

lemma single_effects_step:
  assumes "single_effects d" "at_most_one d owner d'"
  shows "single_effects d'"
proof (cases "cores d' = cores d")
  case False
  with assms(2) obtain i c where c: "cores d' = cores d @ [(i, owner, c)]" "permitted d owner c"
    by (auto simp: at_most_one_def)
  then show ?thesis
    using assms(1) by (auto simp: single_effects_def permitted_def unused_def)
qed (use assms(1) in \<open>simp add: single_effects_def\<close>)

lemma single_effectsD:
  assumes "single_effects d" "e \<in> set (attempts d)" "f \<in> set (attempts d)"
    "at_operationId e = at_operationId f" "effect_slot (at_command e) = effect_slot (at_command f)"
    "\<not> deletion (at_command e)" "\<not> deletion (at_command f)"
  shows "e = f"
proof -
  let ?slot = "\<lambda>e. (at_operationId e, effect_slot (at_command e))"
  have "distinct (map ?slot (filter (\<lambda>e. \<not> deletion (at_command e)) (attempts d)))"
    using assms(1) by (simp add: single_effects_def cores_def core_def filter_map comp_def split_def)
  with assms(2-) show ?thesis by (auto simp: distinct_map dest: inj_onD)
qed

end
