(* ===== verification/Examples.thy ===== *)
theory Examples
  imports Auth
begin

text \<open>
  A small concrete deployment the witnesses evaluate: one account with a project, a root grant, a
  delegated grant and a fault-free environment whose database clock stands at 1000.
\<close>

definition demo_policy :: grant_policy where
  "demo_policy = \<lparr>capabilities = [Machine_create, Machine_destroy, Machine_destroy_data_loss,
      Machine_operate, Grant_manage, Usage_read], policy_projects = All_projects,
     sizes = [Small, Medium], regions = [Nbg1], policy_maxMachines = 2, policy_currency = ''EUR'',
     policy_maxHourlyMicros = 30000\<rparr>"

definition demo_child_policy :: grant_policy where
  "demo_child_policy = demo_policy\<lparr>capabilities := [Machine_create, Grant_manage], sizes := [Small],
     policy_projects := Selected_projects [''prj''], policy_maxMachines := 1\<rparr>"

definition demo_account :: account_row where
  "demo_account = \<lparr>acc_id = ''acc'', acc_name = ''demo'', acc_maxMachines = 2, acc_currency = ''EUR'',
     acc_maxHourlyMicros = 30000, acc_createdAt = 0\<rparr>"

definition demo_grant :: "id \<Rightarrow> id option \<Rightarrow> grant_policy \<Rightarrow> instant \<Rightarrow> grant_row" where
  "demo_grant i parent p expires = \<lparr>gr_id = i, gr_accountId = ''acc'', gr_parentId = parent,
     gr_name = ''demo'', gr_tokenHash = ''h'' @ i, gr_policy = p, gr_expiresAt = expires,
     gr_revokedAt = None, gr_createdAt = 0\<rparr>"

definition empty_db :: db where
  "empty_db = \<lparr>accounts = [], projects = [], grants = [], machines = [], allocations = [],
     reservations = [], sessions = [], signing_receipts = [], operations = [], cleanups = [], attempts = [],
     recoveries = [], idempotency = [], audit_events = [], resources = [], guest_bootstraps = [],
     guest_identities = [], restores = [], control_closures = [], jobs = [], access_jobs = []\<rparr>"

definition demo_db :: db where
  "demo_db = empty_db\<lparr>accounts := [demo_account],
     projects := [\<lparr>prj_id = ''prj'', prj_accountId = ''acc'', prj_name = ''demo'', prj_createdAt = 0\<rparr>],
     grants := [demo_grant ''g0'' None demo_policy 9000,
                demo_grant ''g1'' (Some ''g0'') demo_child_policy 8000]\<rparr>"

text \<open>A machine with an admitted access session of the delegated grant. Keys and hashes are
  abbreviated: updates do not check their formats.\<close>

definition demo_machine :: machine_row where
  "demo_machine = \<lparr>mc_id = ''vm'', mc_accountId = ''acc'', mc_projectId = ''prj'',
     mc_spec = \<lparr>spec_name = ''box'', spec_size = Small, spec_region = Nbg1\<rparr>, mc_provider = Hetzner,
     mc_state = Provisioning ''al'', mc_version = 3, mc_createdAt = 0, mc_name = ''box''\<rparr>"

definition demo_allocation :: allocation_row where
  "demo_allocation = \<lparr>al_id = ''al'', al_accountId = ''acc'', al_machineId = ''vm'',
     al_provider = Hetzner, al_serverId = Some ''srv'', al_networkProfile = Managed_ipv4,
     al_currency = ''EUR'', al_hourlyMicros = 9600, al_offer = None, al_retiredAt = None,
     al_createdAt = 0\<rparr>"

definition demo_session :: session_row where
  "demo_session = \<lparr>as_id = ''s1'', as_accountId = ''acc'', as_projectId = ''prj'', as_grantId = ''g1'',
     as_machineId = ''vm'', as_allocationId = ''al'', as_machineVersion = 3, as_requestKey = ''k'',
     as_fingerprint = ''f'', as_publicKey = ''p'', as_ticketHash = ''t'',
     as_identityPin = \<lparr>pin_provider = Hetzner, pin_serverId = ''srv'', pin_primaryIpId = ''ip'',
       pin_hostAlias = ''a'', pin_sshHostCa = ''c'', pin_guestHostPublicKey = ''p'',
       pin_imageManifestDigest = ''d''\<rparr>,
     as_gateway = \<lparr>gw_id = ''gate'', gw_origin = ''o'', gw_egressCidrs = []\<rparr>, as_admittedAt = 1000,
     as_issueDeadline = 91000, as_hardDeadline = 8000, as_issuance = Iss_pending,
     as_connection = Open_connection Unclaimed\<rparr>"

definition demo_session_db :: db where
  "demo_session_db = demo_db\<lparr>machines := [demo_machine], allocations := [demo_allocation],
     sessions := [demo_session]\<rparr>"

text \<open>Distinct identifiers, one per tick.\<close>

fun digit_char :: "nat \<Rightarrow> char" where
  "digit_char n = char_of (48 + n mod 10)"

definition demo_uuid :: "nat \<Rightarrow> string" where
  "demo_uuid n = ''00000000-0000-4000-8000-0000000000'' @ [digit_char (n div 10), digit_char n]"

definition calm :: outside where
  "calm = \<lparr>or_uuid = demo_uuid, or_token = demo_uuid, or_wall = (\<lambda>_. 1000), or_clock = (\<lambda>_. 1000),
     or_busy = (\<lambda>_. False), or_fault = (\<lambda>_. False), or_lost = (\<lambda>_. False), or_dies = (\<lambda>_. False)\<rparr>"

definition process_of :: "db \<Rightarrow> process" where
  "process_of d = \<lparr>outside = calm, ticks = 0, store = d, began = None\<rparr>"

definition demo_actor :: "id \<Rightarrow> grant_policy \<Rightarrow> principal" where
  "demo_actor g p = \<lparr>accountId = ''acc'', grantId = g, policy = p\<rparr>"

lemma demo_db_ok: "schema_ok demo_db"
  by code_simp

lemma demo_session_db_ok: "schema_ok demo_session_db"
  by code_simp

end
