(* ===== verification/Delegation.thy ===== *)
theory Delegation
  imports Auth_Laws Examples
begin

text \<open>
  The delegation tree as an invariant of the database: a delegated grant never exceeds its parent
  in capabilities, projects, sizes, regions, limits or lifetime, and every chain ends within 32
  levels. Only \<open>issueGrant\<close> inserts grants, and it keeps the invariant however it ends.
\<close>

section \<open>Policies\<close>

definition policy_within :: "grant_policy \<Rightarrow> grant_policy \<Rightarrow> bool" where
  "policy_within child parent \<longleftrightarrow> assertPolicySubset child parent = Inr ()"

lemma policy_within_iff:
  "policy_within child parent \<longleftrightarrow>
     projects_allowed (policy_projects child) (policy_projects parent)
     \<and> policy_currency child = policy_currency parent
     \<and> set (capabilities child) \<subseteq> set (capabilities parent)
     \<and> set (sizes child) \<subseteq> set (sizes parent) \<and> set (regions child) \<subseteq> set (regions parent)
     \<and> policy_maxMachines child \<le> policy_maxMachines parent
     \<and> policy_maxHourlyMicros child \<le> policy_maxHourlyMicros parent"
  by (auto simp: policy_within_def assertPolicySubset_def list_ex_iff)

lemma policy_within_refl: "policy_within p p"
  by (auto simp: policy_within_iff projects_allowed_def list_all_iff split: project_scope.splits)

lemma policy_within_trans: "policy_within p q \<Longrightarrow> policy_within q r \<Longrightarrow> policy_within p r"
  by (auto simp: policy_within_iff projects_allowed_def list_all_iff split: project_scope.splits)

lemma authorize_within:
  assumes "policy_within (policy child) (policy parent)" "authorize child cap project = Inr ()"
  shows "authorize parent cap project = Inr ()"
proof -
  have "cap \<in> set (capabilities (policy parent))"
    using assms by (auto simp: authorize_def policy_within_iff split: if_splits)
  then show ?thesis
    using assms by (auto simp: authorize_def policy_within_iff projects_allowed_def list_all_iff
        split: if_splits option.splits project_scope.splits)
qed

section \<open>The delegation invariant\<close>

definition link_ok :: "grant_row \<Rightarrow> grant_row \<Rightarrow> bool" where
  "link_ok g p \<longleftrightarrow> policy_within (gr_policy g) (gr_policy p) \<and> gr_expiresAt g \<le> gr_expiresAt p"

definition delegation_ok :: "grant_row list \<Rightarrow> bool" where
  "delegation_ok gs \<longleftrightarrow>
     (\<forall>g\<in>set gs. \<forall>p\<in>set gs. gr_parentId g = Some (gr_id p) \<longrightarrow> link_ok g p)
     \<and> (\<forall>g\<in>set gs. \<exists>c. lineage gs (gr_id g) c \<and> length c \<le> 32)"

lemma lineage_mono: "lineage gs i c \<Longrightarrow> set gs \<subseteq> set gs' \<Longrightarrow> lineage gs' i c"
  by (induction c arbitrary: i) (auto split: option.splits)

lemma lineage_head: "lineage gs i c \<Longrightarrow> \<exists>g rest. c = g # rest \<and> g \<in> set gs \<and> gr_id g = i"
  by (cases c) auto

lemma delegation_extend:
  assumes u: "unique_by gr_id (gs @ [r])" and ok: "delegation_ok gs"
    and p: "lineage gs (gr_id p) c" "p \<in> set gs" "length c < 32"
    and r: "gr_parentId r = Some (gr_id p)" "link_ok r p"
  shows "delegation_ok (gs @ [r])"
  unfolding delegation_ok_def
proof (intro conjI ballI impI)
  have new: "gr_id r \<notin> gr_id ` set gs" using u by (auto simp: unique_by_def)
  have parent_old: "\<exists>q\<in>set gs. gr_id q = i" if "g \<in> set gs" "gr_parentId g = Some i" for g i
  proof -
    from ok that obtain c where "lineage gs (gr_id g) c" unfolding delegation_ok_def by blast
    then obtain h rest where h: "lineage gs (gr_id g) (h # rest)" by (cases c) auto
    have "unique_by gr_id gs" using u by (simp add: unique_by_def)
    with h that have "h = g" by (auto dest: unique_rowD)
    with h that have "lineage gs i rest" by simp
    then show ?thesis using lineage_head by blast
  qed
  fix g q assume g: "g \<in> set (gs @ [r])" and q: "q \<in> set (gs @ [r])" and gq: "gr_parentId g = Some (gr_id q)"
  show "link_ok g q"
  proof (cases "g \<in> set gs")
    case True
    with parent_old [OF _ gq] new have "q \<noteq> r" by (metis image_eqI)
    with True q gq ok show ?thesis by (auto simp: delegation_ok_def)
  next
    case False
    with g r gq have "g = r" "gr_id q = gr_id p" by auto
    moreover have "q = p" using unique_rowD [OF u q _ calculation(2)] p(2) by simp
    ultimately show ?thesis using r by simp
  qed
next
  fix g assume g: "g \<in> set (gs @ [r])"
  show "\<exists>c. lineage (gs @ [r]) (gr_id g) c \<and> length c \<le> 32"
  proof (cases "g = r")
    case True
    have "lineage (gs @ [r]) (gr_id p) c" by (rule lineage_mono [OF p(1)]) auto
    with r have "lineage (gs @ [r]) (gr_id r) (r # c)" by simp
    with True p(3) show ?thesis by (intro exI [of _ "r # c"]) simp
  next
    case False
    with g ok obtain c where "lineage gs (gr_id g) c" "length c \<le> 32" by (auto simp: delegation_ok_def)
    then show ?thesis using lineage_mono [of gs "gr_id g" c "gs @ [r]"] by auto
  qed
qed

text \<open>Statements that insert no grant keep the invariant: policies, parents and expiry are
  immutable.\<close>

lemma same_tree:
  assumes len: "length gs' = length gs" and ev: "evolves keeps_grant gs gs'" and ok: "delegation_ok gs"
  shows "delegation_ok gs'"
proof -
  have all2: "list_all2 keeps_grant gs gs'"
  proof -
    from ev obtain zs ws where z: "gs' = zs @ ws" "list_all2 keeps_grant gs zs"
      unfolding evolves_def by blast
    then have "ws = []" using len list_all2_lengthD by fastforce
    with z show ?thesis by simp
  qed
  have origin: "\<exists>g\<in>set gs. keeps_grant g g'" if "g' \<in> set gs'" for g'
    using all2 that by (metis in_set_conv_nth list_all2_conv_all_nth)
  show ?thesis
    unfolding delegation_ok_def
  proof (intro conjI ballI impI)
    fix g' p' assume "g' \<in> set gs'" "p' \<in> set gs'" and e: "gr_parentId g' = Some (gr_id p')"
    then obtain g p where "g \<in> set gs" "keeps_grant g g'" "p \<in> set gs" "keeps_grant p p'"
      using origin by blast
    with e ok keeps_grant_fields [of g g'] keeps_grant_fields [of p p'] show "link_ok g' p'"
      by (auto simp: delegation_ok_def link_ok_def)
  next
    fix g' assume "g' \<in> set gs'"
    then obtain g where g: "g \<in> set gs" "keeps_grant g g'" using origin by blast
    with ok obtain c where c: "lineage gs (gr_id g) c" "length c \<le> 32" by (auto simp: delegation_ok_def)
    from lineage_evolves [OF ev c(1)] obtain c' where "lineage gs' (gr_id g) c'" "list_all2 keeps_grant c c'"
      by blast
    with c g keeps_grant_fields [of g g'] list_all2_lengthD [of keeps_grant c c']
    show "\<exists>c. lineage gs' (gr_id g') c \<and> length c \<le> 32"
      by (intro exI [of _ c']) simp
  qed
qed

interpretation delegation: write_invariant "- {T_ins_grant}" "\<lambda>d. schema_ok d \<and> delegation_ok (grants d)"
proof unfold_locales
  fix d d' assume w: "writes_in (- {T_ins_grant}) d d'" and i: "schema_ok d \<and> delegation_ok (grants d)"
  have "length (grants d') = length (grants d)"
    using w by (rule writes_inE, rename_tac s now clock, case_tac s) auto
  then show "schema_ok d' \<and> delegation_ok (grants d')"
    using same_tree [OF _ grant_history.law [OF w]] schema.kept [OF w] i by blast
qed

section \<open>Issuing a grant\<close>

lemma runs_loadAuthority [wp]:
  "(\<And>a clock. authority_of clock i (ancestry (grants d) i 32) = Some a \<Longrightarrow> Q a d) \<Longrightarrow> E d \<Longrightarrow>
     runs d (loadAuthority i) Q E"
  unfolding loadAuthority_def by (intro wp) auto

lemma runs_loadPrincipal [wp]:
  "(\<And>a clock. authority_of clock i (ancestry (grants d) i 32) = Some a \<Longrightarrow> Q (au_principal a) d) \<Longrightarrow>
     E d \<Longrightarrow> runs d (loadPrincipal i) Q E"
  unfolding loadPrincipal_def by (intro wp) auto

lemma issued_grant_links:
  assumes I: "schema_ok d" "delegation_ok (grants d)"
    and auth: "authority_of clock i (ancestry (grants d) i 32) = Some a"
    and depth: "au_delegationDepth a < 32"
    and sub: "assertPolicySubset pol (policy (au_principal a)) = Inr ()"
    and exp: "\<not> (au_expiresAt a < expires \<or> expires \<le> au_checkedAt a)"
    and run: "apply_stmt now clk (Insert_grant \<lparr>gr_id = j, gr_accountId = accountId (au_principal a),
        gr_parentId = Some (grantId (au_principal a)), gr_name = name, gr_tokenHash = h, gr_policy = pol,
        gr_expiresAt = expires, gr_revokedAt = None, gr_createdAt = 0\<rparr>) d = Some (d', n)"
  shows "schema_ok d' \<and> delegation_ok (grants d')"
proof -
  obtain leaf rest where l: "lineage (grants d) i (leaf # rest)"
    and a: "a = \<lparr>au_principal = principal_of leaf, au_checkedAt = clock,
        au_expiresAt = Min (gr_expiresAt ` set (leaf # rest)), au_delegationDepth = length (leaf # rest)\<rparr>"
    using auth authority_iff [OF schema_grants [OF I(1)]] by blast
  let ?r = "\<lparr>gr_id = j, gr_accountId = gr_accountId leaf, gr_parentId = Some (gr_id leaf), gr_name = name,
      gr_tokenHash = h, gr_policy = pol, gr_expiresAt = expires, gr_revokedAt = None, gr_createdAt = now\<rparr>"
  have d': "schema_ok d'" "grants d' = grants d @ [?r]"
    using run a by (auto simp: apply_stmt_def Let_def principal_of_def split: if_splits)
  have "au_expiresAt a \<le> gr_expiresAt leaf"
    unfolding a authority.select_convs by (rule Min_le) auto
  then have "expires \<le> gr_expiresAt leaf" using exp by linarith
  then have link: "link_ok ?r leaf"
    using sub a by (simp add: link_ok_def policy_within_def principal_of_def)
  have leaf: "leaf \<in> set (grants d)" "lineage (grants d) (gr_id leaf) (leaf # rest)" using l by auto
  have "unique_by gr_id (grants d @ [?r])" using d' schema_grants by metis
  from delegation_extend [OF this I(2) leaf(2,1) _ _ link] depth a d' show ?thesis by simp
qed

lemma issueGrant_keeps:
  assumes "schema_ok d" "delegation_ok (grants d)"
  shows "runs d (issueGrant sha256 actor name pol expires)
     (\<lambda>_ d. schema_ok d \<and> delegation_ok (grants d)) (\<lambda>d. schema_ok d \<and> delegation_ok (grants d))"
  unfolding issueGrant_def generateToken_def
  apply (intro wp)
  using assms apply (auto split: if_splits dest: issued_grant_links)
  done


section \<open>Closing access covers every descendant\<close>

lemma levels_reach:
  assumes "lineage gs i c" "\<And>g. g \<in> set c \<Longrightarrow> gr_accountId g = account"
    and "k < length c" "gr_id (c ! k) \<in> set frontier" "k \<le> n"
  shows "i \<in> set (grant_levels gs account frontier n)"
  using assms(3-5)
proof (induction k arbitrary: frontier n)
  case 0
  have "gr_id (c ! 0) = i" using assms(1) by (cases c) auto
  with 0 show ?case by (cases n) auto
next
  case (Suc k)
  then obtain m where n: "n = Suc m" by (cases n) auto
  have parent: "c ! k \<in> set gs \<and> gr_parentId (c ! k) = Some (gr_id (c ! Suc k))"
    if "lineage gs i c" "Suc k < length c" for i c k
    using that
  proof (induction c arbitrary: i k)
    case (Cons a rest)
    then obtain p where p: "gr_parentId a = Some p" "lineage gs p rest" "a \<in> set gs"
      by (auto split: option.splits)
    show ?case
    proof (cases k)
      case 0
      with p Cons.prems show ?thesis by (cases rest) auto
    next
      case (Suc j)
      with p Cons.prems Cons.IH [OF p(2), of j] show ?thesis by simp
    qed
  qed simp
  have "gr_id (c ! k) \<in> set (grant_children gs account frontier)"
    using parent [OF assms(1) Suc.prems(1)] Suc.prems assms(2) [of "c ! k"]
    by (auto simp: grant_children_def)
  with Suc.IH [of _ m] Suc.prems n show ?case by auto
qed

lemma subtree_complete:
  assumes "schema_ok d" "lineage (grants d) i c" "length c \<le> 32" "g \<in> set c"
  shows "i \<in> set (grant_subtree (grants d) (gr_accountId g) (gr_id g))"
proof -
  obtain k where k: "k < length c" "c ! k = g" using assms(4) by (auto simp: in_set_conv_nth)
  have acc: "gr_accountId x = gr_accountId g" if "x \<in> set c" for x
    using lineage_account [OF assms(1,2) that] lineage_account [OF assms(1,2,4)] by simp
  have "g \<in> set (grants d)" using lineage_subset [OF assms(2)] assms(4) by blast
  then have "gr_id (c ! k) \<in> set (map gr_id (filter (\<lambda>x. gr_id x = gr_id g \<and> gr_accountId x = gr_accountId g) (grants d)))"
    using k by auto
  with levels_reach [OF assms(2) acc k(1)] k(1) assms(3) show ?thesis
    by (simp add: grant_subtree_def)
qed

lemma close_connection_closed: "closed_connection (close_connection r t c)"
  by (cases c) auto

lemma close_statement:
  assumes "apply_stmt now clock (Update_sessions
       (\<lambda>s. as_accountId s = account \<and> \<not> closed_connection (as_connection s) \<and> selection s)
       (\<lambda>s. s\<lparr>as_connection := close_connection reason stamp (as_connection s)\<rparr>)) d = Some (d', n)"
    and "s \<in> set (sessions d')" "as_accountId s = account"
    and "\<And>c. selection (s\<lparr>as_connection := c\<rparr>)"
  shows "closed_connection (as_connection s)"
proof -
  let ?P = "\<lambda>s. as_accountId s = account \<and> \<not> closed_connection (as_connection s) \<and> selection s"
  have "sessions d' = update_where ?P
      (\<lambda>s. s\<lparr>as_connection := close_connection reason stamp (as_connection s)\<rparr>) (sessions d)"
    using assms(1) by (auto simp: apply_stmt_def Let_def split: if_splits)
  with assms(2) obtain x where x: "s = (if ?P x then x\<lparr>as_connection :=
      close_connection reason stamp (as_connection x)\<rparr> else x)"
    by (auto simp: in_update_where)
  show ?thesis
  proof (cases "?P x")
    case False
    with x assms(3) assms(4) [of "as_connection s"] show ?thesis by simp
  qed (use x in \<open>simp add: close_connection_closed\<close>)
qed

lemma closeGrantAccess_closed:
  assumes "closeGrantAccess account g s = (Inr u, t)" "a \<in> set (sessions (store t))"
    "as_accountId a = account" "as_grantId a \<in> set (grant_subtree (grants (store s)) account g)"
  shows "closed_connection (as_connection a)"
proof -
  from assms(1) obtain stamp v n where "accepted (Update_sessions
       (\<lambda>s'. as_accountId s' = account \<and> \<not> closed_connection (as_connection s')
           \<and> as_grantId s' \<in> set (grant_subtree (grants (store s)) account g))
       (\<lambda>s. s\<lparr>as_connection := close_connection Authorization_changed stamp (as_connection s)\<rparr>)) v n t"
    by (auto simp: closeGrantAccess_def close_def success)
  then show ?thesis
    unfolding accepted_def using assms(2-4) by (auto intro: close_statement)
qed

section \<open>Properties\<close>

definition authoritative :: "grant_row list \<Rightarrow> instant \<Rightarrow> id \<Rightarrow> grant_row list \<Rightarrow> bool" where
  "authoritative gs now i c \<longleftrightarrow> lineage gs i c \<and> length c \<le> 32
     \<and> list_all (usable (gr_accountId (hd c)) now) c"

lemma ex_authoritative:
  "(\<exists>c. authoritative gs now i c \<and> R c) \<longleftrightarrow>
     (\<exists>leaf rest. authoritative gs now i (leaf # rest) \<and> R (leaf # rest))"
proof
  assume "\<exists>c. authoritative gs now i c \<and> R c"
  then obtain c where c: "authoritative gs now i c" "R c" by blast
  then obtain leaf rest where "c = leaf # rest" by (cases c) (auto simp: authoritative_def)
  with c show "\<exists>leaf rest. authoritative gs now i (leaf # rest) \<and> R (leaf # rest)" by blast
qed blast

text \<open>
  C35. A credential is accepted exactly when its grant heads a complete lineage of at most 32
  grants of one account, none revoked and none expired at the database clock; the authority then
  expires with the earliest grant of the lineage. Every other credential is refused as
  unauthenticated.
\<close>

theorem loadAuthority_exact:
  assumes "schema_ok (store s)" "healthy s"
  shows "(fst (loadAuthority i s) = Inr a \<longleftrightarrow>
      (\<exists>c. authoritative (grants (store s)) (clock_of s) i c
        \<and> a = \<lparr>au_principal = principal_of (hd c), au_checkedAt = clock_of s,
               au_expiresAt = Min (gr_expiresAt ` set c), au_delegationDepth = length c\<rparr>))
    \<and> (fst (loadAuthority i s) = Inl e \<longleftrightarrow>
      e = Cloud (cloud_error Unauthenticated) \<and> \<not> (\<exists>c. authoritative (grants (store s)) (clock_of s) i c))"
proof -
  have iff: "authority_of (clock_of s) i (ancestry (grants (store s)) i 32) = Some a \<longleftrightarrow>
      (\<exists>c. authoritative (grants (store s)) (clock_of s) i c
        \<and> a = \<lparr>au_principal = principal_of (hd c), au_checkedAt = clock_of s,
               au_expiresAt = Min (gr_expiresAt ` set c), au_delegationDepth = length c\<rparr>)" for a
    unfolding authority_iff [OF schema_grants [OF assms(1)]] ex_authoritative
    by (simp add: authoritative_def)
  have "authority_of (clock_of s) i (ancestry (grants (store s)) i 32) = None \<longleftrightarrow>
      \<not> (\<exists>c. authoritative (grants (store s)) (clock_of s) i c)"
    using iff by (metis not_None_eq)
  then show ?thesis
    unfolding loadAuthority_run [OF assms(2)] using iff [of a] by (auto split: option.splits)
qed


lemma demo_lineage:
  "authoritative (grants demo_db) 1000 ''g1''
     [demo_grant ''g1'' (Some ''g0'') demo_child_policy 8000, demo_grant ''g0'' None demo_policy 9000]"
  by code_simp

lemma demo_delegation: "delegation_ok (grants demo_db)"
proof -
  have "lineage (grants demo_db) ''g0'' [demo_grant ''g0'' None demo_policy 9000]" by code_simp
  moreover have "lineage (grants demo_db) ''g1''
     [demo_grant ''g1'' (Some ''g0'') demo_child_policy 8000, demo_grant ''g0'' None demo_policy 9000]"
    using demo_lineage by (simp add: authoritative_def)
  moreover have "assertPolicySubset demo_child_policy demo_policy = Inr ()" by code_simp
  moreover have "grants demo_db = [demo_grant ''g0'' None demo_policy 9000,
      demo_grant ''g1'' (Some ''g0'') demo_child_policy 8000]" by (simp add: demo_db_def empty_db_def)
  moreover have "gr_id (demo_grant i q pol e) = i" "gr_parentId (demo_grant i q pol e) = q"
    "gr_policy (demo_grant i q pol e) = pol" "gr_expiresAt (demo_grant i q pol e) = e" for i q pol e
    by (simp_all add: demo_grant_def)
  ultimately show ?thesis
    unfolding delegation_ok_def link_ok_def policy_within_def
    by (auto intro: exI [of _ "[demo_grant ''g0'' None demo_policy 9000]"]
      exI [of _ "[demo_grant ''g1'' (Some ''g0'') demo_child_policy 8000, demo_grant ''g0'' None demo_policy 9000]"])
qed

lemma process_of_fields [simp]:
  "store (process_of d) = d" "healthy (process_of d)" "clock_of (process_of d) = 1000"
  by (simp_all add: process_of_def healthy_def alive_def clock_of_def calm_def)

theorem loadAuthority_exact_witness:
  "\<exists>a. fst (loadAuthority ''g1'' (process_of demo_db)) = Inr a \<and> au_delegationDepth a = 2
     \<and> au_expiresAt a = 8000"
proof -
  let ?c = "[demo_grant ''g1'' (Some ''g0'') demo_child_policy 8000, demo_grant ''g0'' None demo_policy 9000]"
  let ?a = "\<lparr>au_principal = principal_of (hd ?c), au_checkedAt = 1000,
     au_expiresAt = Min (gr_expiresAt ` set ?c), au_delegationDepth = length ?c\<rparr>"
  have "fst (loadAuthority ''g1'' (process_of demo_db)) = Inr ?a"
    using loadAuthority_exact [of "process_of demo_db" "''g1''" ?a] demo_db_ok demo_lineage by auto
  then show ?thesis by (auto simp: demo_grant_def)
qed

text \<open>
  C26. Revocation is permanent and reaches every descendant: once \<open>revokeGrant\<close> has returned, no
  grant whose lineage contains the revoked grant is ever accepted again, whatever is written
  afterwards.
\<close>

theorem revokeGrant_permanent:
  assumes "revokeGrant actor g s = (Inr u, t)" "schema_ok (store s)"
    and "lineage (grants (store s)) i c" "x \<in> set c" "gr_id x = g" "gr_accountId x = accountId actor"
    and "footstep UNIV t v"
  shows "fst (loadAuthority i v) \<noteq> Inr a"
proof -
  from revokeGrant_effect [OF assms(1,2)] obtain d where d: "wrote_in UNIV (store s) d" "wrote_in UNIV d (store t)"
    and rev: "\<And>x. x \<in> set (grants d) \<Longrightarrow> gr_id x = g \<Longrightarrow> gr_accountId x = accountId actor \<Longrightarrow> gr_revokedAt x \<noteq> None"
    and ev: "evolves keeps_grant (grants (store s)) (grants d)" by blast
  obtain c' where c': "lineage (grants d) i c'" "list_all2 keeps_grant c c'"
    using lineage_evolves [OF ev assms(3)] by blast
  then obtain y where y: "y \<in> set c'" "keeps_grant x y"
    using assms(4) by (metis in_set_conv_nth list_all2_conv_all_nth)
  have "gr_revokedAt y \<noteq> None"
    using rev [of y] y keeps_grant_fields [of x y] lineage_subset [OF c'(1)] assms(5,6) by auto
  moreover have "wrote_in UNIV d (store v)"
    using d(2) footstep_wrote [OF assms(7)] by simp
  ultimately have "authority_of now i (ancestry (grants (store v)) i 32) = None" for now
    using revoked_lineage_dead [OF schema.wrote [OF d(1) assms(2)] _ c'(1) y(1)] by blast
  then have "\<not> (\<exists>w. loadAuthority i v = (Inr a, w))" by (simp add: loadAuthority_success)
  then show ?thesis by (metis prod.collapse)
qed

lemma demo_session_grants: "grants demo_session_db = grants demo_db"
  by (simp add: demo_session_db_def)

lemma demo_revocation:
  "let (r, t) = revokeGrant (demo_actor ''g0'' demo_policy) ''g0'' (process_of demo_session_db) in
     r = Inr () \<and> map (\<lambda>a. (as_grantId a, as_accountId a)) (sessions (store t)) = [(''g1'', ''acc'')]"
  by code_simp

theorem revokeGrant_permanent_witness:
  "\<forall>a. fst (loadAuthority ''g1'' (snd (revokeGrant (demo_actor ''g0'' demo_policy) ''g0'' (process_of demo_session_db)))) \<noteq> Inr a"
proof
  fix a
  let ?r = "revokeGrant (demo_actor ''g0'' demo_policy) ''g0'' (process_of demo_session_db)"
  have r: "?r = (Inr (), snd ?r)" using demo_revocation by (auto simp: Let_def prod_eq_iff split: prod.splits)
  have l: "lineage (grants (store (process_of demo_session_db))) ''g1''
     [demo_grant ''g1'' (Some ''g0'') demo_child_policy 8000, demo_grant ''g0'' None demo_policy 9000]"
    using demo_lineage by (simp add: authoritative_def demo_session_grants process_of_def)
  show "fst (loadAuthority ''g1'' (snd ?r)) \<noteq> Inr a"
    by (rule revokeGrant_permanent [OF r _ l, of "demo_grant ''g0'' None demo_policy 9000"])
       (simp_all add: demo_session_db_ok demo_grant_def demo_actor_def foot.step_refl)
qed

text \<open>
  Revocation closes access: when \<open>revokeGrant\<close> returns over a delegation tree that keeps its
  invariant, every access session of the revoked grant or of one of its descendants is closed.
\<close>

theorem revokeGrant_closes_access:
  assumes "revokeGrant actor g s = (Inr u, t)" "schema_ok (store s)" "delegation_ok (grants (store s))"
    and "lineage (grants (store s)) (as_grantId a) c" "x \<in> set c" "gr_id x = g"
    and "gr_accountId x = accountId actor" "a \<in> set (sessions (store t))" "as_accountId a = accountId actor"
  shows "closed_connection (as_connection a)"
proof -
  from revokeGrant_effect [OF assms(1,2)] obtain d w where d: "wrote_in UNIV (store s) d"
    "wrote_in UNIV d (store w)" "closeGrantAccess (accountId actor) g w = (Inr u, t)" by metis
  then have sw: "wrote_in UNIV (store s) (store w)" by simp
  obtain c' where c': "lineage (grants (store w)) (as_grantId a) c'" "list_all2 keeps_grant c c'"
    using lineage_evolves [OF grant_history.wrote [OF sw] assms(4)] by blast
  then obtain y where y: "y \<in> set c'" "keeps_grant x y"
    using assms(5) by (metis in_set_conv_nth list_all2_conv_all_nth)
  have xy: "gr_id y = g" "gr_accountId y = accountId actor"
    using keeps_grant_fields [OF y(2)] assms(6,7) by auto
  obtain h where h: "h \<in> set (grants (store s))" "gr_id h = as_grantId a"
    using lineage_head [OF assms(4)] by blast
  obtain c0 where c0: "lineage (grants (store s)) (as_grantId a) c0" "length c0 \<le> 32"
    using assms(3) h unfolding delegation_ok_def by metis
  then have "length c' \<le> 32"
    using lineage_unique [OF schema_grants [OF assms(2)] c0(1) assms(4)] c'(2)
    by (simp add: list_all2_lengthD)
  from subtree_complete [OF schema.wrote [OF sw assms(2)] c'(1) this y(1)]
  have "as_grantId a \<in> set (grant_subtree (grants (store w)) (accountId actor) g)" using xy by simp
  with closeGrantAccess_closed [OF d(3) assms(8,9)] show ?thesis .
qed

theorem revokeGrant_closes_access_witness:
  "\<exists>a. a \<in> set (sessions (store (snd (revokeGrant (demo_actor ''g0'' demo_policy) ''g0'' (process_of demo_session_db)))))
     \<and> closed_connection (as_connection a)"
proof -
  let ?r = "revokeGrant (demo_actor ''g0'' demo_policy) ''g0'' (process_of demo_session_db)"
  have r: "?r = (Inr (), snd ?r)" using demo_revocation by (auto simp: Let_def prod_eq_iff split: prod.splits)
  have l: "lineage (grants (store (process_of demo_session_db))) ''g1''
     [demo_grant ''g1'' (Some ''g0'') demo_child_policy 8000, demo_grant ''g0'' None demo_policy 9000]"
    using demo_lineage by (simp add: authoritative_def demo_session_grants process_of_def)
  obtain a where a: "a \<in> set (sessions (store (snd ?r)))" "as_grantId a = ''g1''" "as_accountId a = ''acc''"
    using demo_revocation by (cases "sessions (store (snd ?r))") (auto simp: Let_def split: prod.splits)
  note closed = revokeGrant_closes_access [OF r _ _ l [folded a(2)], of "demo_grant ''g0'' None demo_policy 9000"]
  have "closed_connection (as_connection a)"
    by (rule closed)
       (use a in \<open>simp_all add: demo_session_db_ok demo_session_grants demo_delegation demo_grant_def demo_actor_def\<close>)
  with a show ?thesis by blast
qed

text \<open>
  Issuing a grant keeps the delegation tree sound however the request ends (success, refusal,
  lost connection, crash): no grant exceeds its parent's policy or lifetime and no chain exceeds
  32 levels.
\<close>

theorem issueGrant_keeps_delegation:
  assumes "schema_ok (store s)" "delegation_ok (grants (store s))"
  shows "delegation_ok (grants (store (snd (issueGrant sha256 actor name pol expires s))))"
proof -
  from issueGrant_keeps [OF assms]
  have "runs (store s) (issueGrant sha256 actor name pol expires)
      (\<lambda>_ d. delegation_ok (grants d)) (\<lambda>d. delegation_ok (grants d))"
    by (rule runs_weaken) auto
  then show ?thesis by (rule runs_any)
qed

theorem issueGrant_keeps_delegation_witness:
  "delegation_ok (grants (store (snd (issueGrant (\<lambda>t. t) (demo_actor ''g0'' demo_policy) ''n'' demo_policy 8000
      (process_of demo_db)))))
   \<and> length (grants (store (snd (issueGrant (\<lambda>t. t) (demo_actor ''g0'' demo_policy) ''n'' demo_policy 8000
      (process_of demo_db))))) = 3"
proof
  show "delegation_ok (grants (store (snd (issueGrant (\<lambda>t. t) (demo_actor ''g0'' demo_policy) ''n'' demo_policy 8000
      (process_of demo_db)))))"
    by (rule issueGrant_keeps_delegation) (simp_all add: demo_db_ok demo_delegation)
qed code_simp

text \<open>
  In a sound delegation tree everything a grant permits is permitted by every grant above it:
  the same capability on the same project, no more machines, no higher price, no later expiry.
\<close>

theorem lineage_never_widens:
  assumes "delegation_ok gs" "unique_by gr_id gs" "lineage gs i (g # rest)" "p \<in> set rest"
    "authorize (principal_of g) cap project = Inr ()"
  shows "authorize (principal_of p) cap project = Inr ()
    \<and> set (sizes (gr_policy g)) \<subseteq> set (sizes (gr_policy p))
    \<and> set (regions (gr_policy g)) \<subseteq> set (regions (gr_policy p))
    \<and> policy_maxMachines (gr_policy g) \<le> policy_maxMachines (gr_policy p)
    \<and> policy_maxHourlyMicros (gr_policy g) \<le> policy_maxHourlyMicros (gr_policy p)
    \<and> gr_expiresAt g \<le> gr_expiresAt p"
proof -
  have "link_ok g p" using assms(3,4)
  proof (induction rest arbitrary: i g)
    case (Cons q rest)
    have q: "lineage gs (gr_id q) (q # rest)" "gr_parentId g = Some (gr_id q)" "g \<in> set gs" "q \<in> set gs"
      using Cons.prems(1) by (auto split: option.splits)
    then have gq: "link_ok g q" using assms(1) by (simp add: delegation_ok_def)
    show ?case
    proof (cases "p = q")
      case False
      with Cons.IH [OF q(1)] Cons.prems(2) have "link_ok q p" by simp
      with gq show ?thesis by (auto simp: link_ok_def intro: policy_within_trans)
    qed (use gq in simp)
  qed simp
  then have w: "policy_within (gr_policy g) (gr_policy p)" "gr_expiresAt g \<le> gr_expiresAt p"
    by (simp_all add: link_ok_def)
  have "authorize (principal_of p) cap project = Inr ()"
    by (rule authorize_within [OF _ assms(5)]) (simp add: principal_of_def w)
  with w show ?thesis by (simp add: policy_within_iff)
qed

theorem lineage_never_widens_witness:
  "authorize (principal_of (demo_grant ''g0'' None demo_policy 9000)) Machine_create (Some ''prj'') = Inr ()"
proof -
  have l: "lineage (grants demo_db) ''g1''
     [demo_grant ''g1'' (Some ''g0'') demo_child_policy 8000, demo_grant ''g0'' None demo_policy 9000]"
    using demo_lineage by (simp add: authoritative_def)
  have "authorize (principal_of (demo_grant ''g1'' (Some ''g0'') demo_child_policy 8000)) Machine_create
     (Some ''prj'') = Inr ()" by code_simp
  from lineage_never_widens [OF demo_delegation schema_grants [OF demo_db_ok] l _ this] show ?thesis by simp
qed

text \<open>
  A bearer header authenticates only as a stored grant whose token hash is the hash of the
  presented token, and only while that grant's whole lineage is valid.
\<close>

theorem authenticate_sound:
  assumes "authenticate sha256 header s = (Inr p, t)" "schema_ok (store s)"
  shows "\<exists>h g c. header = Some h \<and> bearer_ok h \<and> g \<in> set (grants (store s))
     \<and> gr_tokenHash g = sha256 (drop 7 h) \<and> p = principal_of g \<and> hd c = g
     \<and> authoritative (grants (store s)) (clock_of (ticked s)) (gr_id g) c \<and> store t = store s"
proof -
  from assms(1) obtain h g a where h: "header = Some h" "bearer_ok h"
    and g: "select_one (\<lambda>g. gr_tokenHash g = sha256 (drop 7 h)) (grants (store s)) = Some g"
    and a: "authority_of (clock_of (ticked s)) (gr_id g) (ancestry (grants (store s)) (gr_id g) 32) = Some a"
    and r: "p = au_principal a" "store t = store s"
    by (auto simp: authenticate_def success split: option.splits if_splits)
  from a authority_iff [OF schema_grants [OF assms(2)]] obtain leaf rest where
    l: "lineage (grants (store s)) (gr_id g) (leaf # rest)" "length (leaf # rest) \<le> 32"
       "list_all (usable (gr_accountId leaf) (clock_of (ticked s))) (leaf # rest)"
       "au_principal a = principal_of leaf"
    by auto
  have gs: "g \<in> set (grants (store s))" "gr_tokenHash g = sha256 (drop 7 h)"
    using select_one_SomeD [OF g] by auto
  have "leaf = g"
    using l(1) gs unique_rowD [OF schema_grants [OF assms(2)], of leaf g] by simp
  with h gs l r show ?thesis
    by (intro exI [of _ h] exI [of _ g] exI [of _ "leaf # rest"]) (simp add: authoritative_def)
qed

theorem authenticate_sound_witness:
  "\<exists>g c. g \<in> set (grants demo_db) \<and> gr_tokenHash g = ''hg1''
     \<and> authoritative (grants demo_db) (clock_of (ticked (process_of demo_db))) (gr_id g) c"
proof -
  let ?h = "''Bearer acld_'' @ replicate 43 CHR ''a''" and ?sha = "\<lambda>_. ''hg1''"
  let ?r = "authenticate ?sha (Some ?h) (process_of demo_db)"
  have "case fst ?r of Inr p \<Rightarrow> True | Inl e \<Rightarrow> False" by code_simp
  then obtain p where "fst ?r = Inr p" by (cases "fst ?r") auto
  then have "?r = (Inr p, snd ?r)" by (metis prod.collapse)
  from authenticate_sound [OF this] demo_db_ok show ?thesis by auto
qed

end
