(* ===== verification/Control.thy ===== *)
theory Control
  imports Api Single_Effect Delegation
begin

text \<open>
  The control plane as a transition system: requests of customers and operators and jobs of the worker
  are handled one after the other, each by a process of its own with its own clocks, identifiers,
  faults and crash point, while the provider changes on its own. The invariants of the components hold
  in every state that can be reached.
\<close>

record ('p, 'i) deployment = deployment_config +
  dp_provider :: "'p machine_provider"
  dp_guest :: "('p, 'i) guest_provisioning option"
  dp_digest :: digest

datatype request =
    Post_grant "string option" string grant_policy instant
  | Delete_grant "string option" string
  | Post_machine "string option" string machine_spec string
  | Post_action "string option" string machine_action string
  | Advance_job string
  | Reconcile_job
  | Operator_request operator_recovery

definition discard :: "('s, 'a) prog \<Rightarrow> ('s, unit) prog" where
  "discard m = bind m (\<lambda>_. ret ())"

definition config_of :: "('p, 'i) deployment \<Rightarrow> deployment_config" where
  "config_of D = deployment_config.truncate D"

fun handle :: "('p, 'i) deployment \<Rightarrow> request \<Rightarrow> ('p, unit) act" where
  "handle D (Post_grant h name pol expires) =
     discard (authenticated (dc_sha256 D) h (postGrant (config_of D) name pol expires))"
| "handle D (Delete_grant h g) = discard (authenticated (dc_sha256 D) h (deleteGrant g))"
| "handle D (Post_machine h project spec key) =
     discard (authenticated (dc_sha256 D) h (postMachine (config_of D) project spec key))"
| "handle D (Post_action h machine action key) =
     discard (authenticated (dc_sha256 D) h (postAction (config_of D) machine action key))"
| "handle D (Advance_job i) = discard (advanceTask (dp_provider D) (dc_limits D) (dp_guest D) i)"
| "handle D Reconcile_job = reconcileOperations"
| "handle D (Operator_request r) = discard (applyOperatorRecovery (dp_provider D) (dp_digest D) r)"

text \<open>A new process: its own environment, no open transaction.\<close>

definition restarted :: "outside \<Rightarrow> 'p world \<Rightarrow> 'p world" where
  "restarted o' s = s\<lparr>outside := o', ticks := 0, began := None\<rparr>"

lemma restarted_fields [simp]:
  "store (restarted o' s) = store s" "submitted (restarted o' s) = submitted s"
  "cloud (restarted o' s) = cloud s"
  by (simp_all add: restarted_def)

inductive control_step :: "('p, 'i) deployment \<Rightarrow> 'p world \<Rightarrow> 'p world \<Rightarrow> bool" for D where
  handled: "control_step D s (snd (handle D r (restarted o' s)))"
| provider_moved: "control_step D s (s\<lparr>cloud := p\<rparr>)"

section \<open>What a handler may do\<close>

definition control_tags :: "stmt_tag set" where
  "control_tags = UNIV - {T_ins_grant}"

lemma footprint_parsedId: "footprint T (parsedId k i)"
  unfolding parsedId_def by (rule foot.parsed)

lemma footprint_parsedKey: "footprint T (parsedKey i)"
  unfolding parsedKey_def by (rule foot.parsed)

lemma footprint_discard: "footprint T m \<Longrightarrow> footprint T (discard m)"
  unfolding discard_def by (intro foot.rules)

definition serving_tags :: "stmt_tag set" where
  "serving_tags = UNIV - {T_ins_attempt}"

lemma footprint_lockAccount: "footprint T (lockAccount a)"
  unfolding lockAccount_def by (intro footprint_rules)

lemma footprint_issueGrant: "T_ins_grant \<in> T \<Longrightarrow> footprint T (issueGrant sha actor name pol expires)"
  unfolding issueGrant_def generateToken_def
  by (intro footprint_rules footprint_loadAuthority) simp_all

lemma footprint_postGrant: "T_ins_grant \<in> T \<Longrightarrow> footprint T (postGrant c name pol expires p)"
  unfolding postGrant_def
  by (intro footprint_rules footprint_lockAccount footprint_issueGrant)

lemma footprint_deleteGrant:
  "{T_upd_grants, T_ins_audit, T_upd_sessions} \<subseteq> T \<Longrightarrow> footprint T (deleteGrant g p)"
  unfolding deleteGrant_def
  by (intro footprint_rules footprint_lockAccount footprint_parsedId footprint_loadPrincipal
      footprint_revokeGrant)

lemma footprint_postMachine: "footprint admission_tags (postMachine c prj spec key p)"
  unfolding postMachine_def admitWith_def
  by (intro footprint_rules footprint_parsedId footprint_parsedKey footprint_admit)

lemma footprint_postAction: "footprint admission_tags (postAction c m action key p)"
  unfolding postAction_def admitWith_def
  by (intro footprint_rules footprint_parsedId footprint_parsedKey footprint_admit)

lemma footprint_reconcile: "T_enqueue \<in> T \<Longrightarrow> footprint T reconcileOperations"
  unfolding reconcileOperations_def by (intro footprint_rules)

lemma footprint_authenticated:
  "(\<And>p. footprint T (route p)) \<Longrightarrow> footprint T (authenticated sha h route)"
  unfolding authenticated_def by (intro foot.bind footprint_authenticate)

definition worker_tags :: "stmt_tag set" where
  "worker_tags = insert T_enqueue advance_tags"

lemma acts_advanceTask: "acts worker_tags (advanceTask P lm guest i)"
proof -
  have t: "acts worker_tags (advanceOperation i P lm guest)" for i
    by (rule acts_mono [OF acts_advanceOperation]) (auto simp: worker_tags_def)
  have e: "acts worker_tags (enqueueOperation i)" for i
    by (rule acts_footprint [OF footprint_enqueue]) (simp add: worker_tags_def)
  show ?thesis
    unfolding advanceTask_def
    by (intro acts_basic acts_footprint [OF footprint_parsedId] t e acts_footprint [OF footprint_databaseTime])
qed

text \<open>Only the advance job submits; the other requests are quiet and insert no attempt.\<close>

lemma handle_cases:
  obtains i where "r = Advance_job i"
  | (posts) h name pol expires where "r = Post_grant h name pol expires"
  | (quiet) "quiet (UNIV - {T_ins_grant, T_ins_attempt}) (handle D r)"
proof (cases r)
  case (Delete_grant h g)
  have "footprint (UNIV - {T_ins_grant, T_ins_attempt}) (handle D r)"
    unfolding Delete_grant handle.simps
    by (intro footprint_discard footprint_authenticated footprint_deleteGrant) auto
  then show thesis by (intro quiet quiet_footprint)
next
  case (Post_machine h project spec key)
  have "footprint (UNIV - {T_ins_grant, T_ins_attempt}) (handle D r)"
    unfolding Post_machine handle.simps
    by (intro footprint_discard footprint_authenticated footprint_mono [OF footprint_postMachine])
       (auto simp: admission_tags_def)
  then show thesis by (intro quiet quiet_footprint)
next
  case (Post_action h machine action key)
  have "footprint (UNIV - {T_ins_grant, T_ins_attempt}) (handle D r)"
    unfolding Post_action handle.simps
    by (intro footprint_discard footprint_authenticated footprint_mono [OF footprint_postAction])
       (auto simp: admission_tags_def)
  then show thesis by (intro quiet quiet_footprint)
next
  case Reconcile_job
  have "footprint (UNIV - {T_ins_grant, T_ins_attempt}) (handle D r)"
    unfolding Reconcile_job handle.simps by (intro footprint_reconcile) simp
  then show thesis by (intro quiet quiet_footprint)
next
  case (Operator_request q)
  have "quiet (UNIV - {T_ins_grant, T_ins_attempt}) (handle D r)"
    unfolding Operator_request handle.simps discard_def
    by (intro quiet.bind quiet.ret quiet_mono [OF quiet_applyOperatorRecovery])
       (auto simp: recovery_tags_def)
  then show thesis by (rule quiet)
qed (use that(1,2) in auto)

section \<open>The invariant of every reachable state\<close>

definition db_safe :: "db \<Rightarrow> bool" where
  "db_safe d \<longleftrightarrow> schema_ok d \<and> delegation_ok (grants d) \<and> ledger_ok d \<and> cleanup_ends_retired d
     \<and> single_effects d"

definition safe :: "'p world \<Rightarrow> bool" where
  "safe s \<longleftrightarrow> db_safe (store s) \<and> journaled s"

lemma wrote_safe:
  assumes w: "wrote_in (UNIV - {T_ins_grant}) d d'" and d: "db_safe d" and c: "single_effects d'"
  shows "db_safe d'"
proof -
  have "(UNIV :: stmt_tag set) - {T_ins_grant} = - {T_ins_grant}" by blast
  then have "schema_ok d' \<and> delegation_ok (grants d')"
    using delegation.wrote w d by (simp add: db_safe_def)
  moreover have "ledger_ok d'" "cleanup_ends_retired d'"
    using ledger.wrote [OF w] cleanup_end.wrote [OF w] d by (auto simp: db_safe_def)
  ultimately show ?thesis using c by (simp add: db_safe_def)
qed

lemma quiet_safe:
  assumes q: "quiet_step (UNIV - {T_ins_grant, T_ins_attempt}) s t" and s: "safe s"
  shows "safe t"
proof -
  have w: "wrote_in (UNIV - {T_ins_grant, T_ins_attempt}) (store s) (store t)"
    using q by (simp add: quiet_step_def)
  then have "wrote_in (UNIV - {T_ins_attempt}) (store s) (store t)"
    by (rule wrote_in_mono) blast
  from settled.wrote [OF this] have "cores (store t) = cores (store s)" .
  then have "single_effects (store t)" using s by (simp add: safe_def db_safe_def single_effects_def)
  moreover have "wrote_in (UNIV - {T_ins_grant}) (store s) (store t)"
    by (rule wrote_in_mono [OF w]) blast
  ultimately show ?thesis
    using wrote_safe quiet_journaled [OF q] s by (auto simp: safe_def)
qed

lemma postGrant_safe:
  assumes "safe s" shows "safe (snd (handle D (Post_grant h name pol expires) s))"
proof -
  let ?m = "handle D (Post_grant h name pol expires)"
  let ?t = "snd (?m s)"
  have f: "footprint {T_ins_grant} ?m"
    unfolding handle.simps by (intro footprint_discard footprint_authenticated footprint_postGrant) simp
  then have q: "quiet_step {T_ins_grant} s ?t" using quiet_footprint unfolding stays_def by blast
  then have w: "wrote_in {T_ins_grant} (store s) (store ?t)" by (simp add: quiet_step_def)
  have ok: "schema_ok (store s)" "delegation_ok (grants (store s))"
    using assms by (auto simp: safe_def db_safe_def)
  let ?I = "\<lambda>d. schema_ok d \<and> delegation_ok (grants d)"
  have post: "runs d (postGrant c name pol expires p) (\<lambda>_. ?I) ?I" if "?I d" for d c p
    unfolding postGrant_def
    by (intro wp runs_silent [OF footprint_lockAccount] runs_transaction)
       (use that in \<open>auto intro!: runs_weaken [OF issueGrant_keeps]\<close>)
  have "runs (store s) ?m (\<lambda>_. ?I) ?I"
    unfolding handle.simps discard_def authenticated_def
    by (intro runs_bind runs_silent [OF footprint_authenticate] runs_weaken [OF post] runs_ret) (use ok in auto)
  then have d: "?I (store ?t)" by (rule runs_any)
  have "wrote_in (UNIV - {T_ins_attempt}) (store s) (store ?t)" by (rule wrote_in_mono [OF w]) blast
  from settled.wrote [OF this] have "single_effects (store ?t)"
    using assms by (simp add: safe_def db_safe_def single_effects_def)
  moreover have "ledger_ok (store ?t)" "cleanup_ends_retired (store ?t)"
    using ledger.wrote [OF w] cleanup_end.wrote [OF w] assms by (auto simp: safe_def db_safe_def)
  ultimately show ?thesis
    using d quiet_journaled [OF q] assms by (auto simp: safe_def db_safe_def)
qed

lemma quiet_keeps_at_most_one:
  assumes "quiet (UNIV - {T_ins_attempt}) m" "at_most_one d i e"
  shows "runs e m (\<lambda>_. at_most_one d i) (at_most_one d i)"
  by (rule runs_quiet [OF assms(1)]) (auto dest!: settled.wrote intro: at_most_one_cores [OF assms(2)])

lemma advanceTask_cores:
  "\<exists>i. at_most_one (store s) i (store (snd (advanceTask P lm guest op s)))"
proof -
  let ?J = "at_most_one (store s) op"
  have tail: "quiet (UNIV - {T_ins_attempt}) (bind (query (\<lambda>d. operation_in d op)) (\<lambda>found.
     case found of
       None \<Rightarrow> ret None
     | Some row \<Rightarrow>
         if isOperationTerminal row then ret None
         else bind databaseTime (\<lambda>now.
              bind (enqueueOperation op) (\<lambda>_. ret (Some (now + retry_delay (op_progress row)))))))"
    by (intro quiet.rules quiet_local quiet_footprint [OF footprint_enqueue]) simp
  have "runs (store s) (advanceOperation op P lm guest) (\<lambda>_. ?J) ?J"
    using advanceOperation_one [of "store s" op P lm guest] by (simp add: one_effect_def)
  then have m: "runs (store s) (bind (advanceOperation op P lm guest) (\<lambda>_.
      bind (query (\<lambda>d. operation_in d op)) (\<lambda>found.
     case found of
       None \<Rightarrow> ret None
     | Some row \<Rightarrow>
         if isOperationTerminal row then ret None
         else bind databaseTime (\<lambda>now.
              bind (enqueueOperation op) (\<lambda>_. ret (Some (now + retry_delay (op_progress row)))))))) (\<lambda>_. ?J) ?J"
    by (intro runs_bind) (erule runs_weaken, rule quiet_keeps_at_most_one [OF tail], assumption+)
  show ?thesis
  proof (cases "id_ok Operation_id op")
    case True
    then have "advanceTask P lm guest op = bind (advanceOperation op P lm guest) (\<lambda>_.
      bind (query (\<lambda>d. operation_in d op)) (\<lambda>found.
     case found of
       None \<Rightarrow> ret None
     | Some row \<Rightarrow>
         if isOperationTerminal row then ret None
         else bind databaseTime (\<lambda>now.
              bind (enqueueOperation op) (\<lambda>_. ret (Some (now + retry_delay (op_progress row)))))))"
      by (intro ext) (simp add: advanceTask_def parsedId_def parsed_def bind_def [of "ret op"] ret_def [of op])
    with m show ?thesis by (metis runs_any)
  next
    case False
    then show ?thesis
      by (auto simp: advanceTask_def parsedId_def parsed_def raise_def bind_def at_most_one_def)
  qed
qed

lemma advance_safe:
  assumes "safe s" shows "safe (snd (handle D (Advance_job i) s))"
proof -
  let ?m = "handle D (Advance_job i)"
  have "acts worker_tags ?m"
    unfolding handle.simps discard_def by (intro acting.bind acting.ret acts_advanceTask)
  then have a: "(acting_step worker_tags)\<^sup>*\<^sup>* s (snd (?m s))" by (simp add: stays_def)
  have t: "{T_ins_attempt, T_upd_operations} \<subseteq> worker_tags" by (simp add: worker_tags_def)
  have same: "snd (?m s) = snd (advanceTask (dp_provider D) (dc_limits D) (dp_guest D) i s)"
    by (auto simp: discard_def bind_def ret_def split: prod.splits sum.splits)
  from advanceTask_cores [of s "dp_provider D" "dc_limits D" "dp_guest D" i] obtain owner
    where o1: "at_most_one (store s) owner (store (snd (?m s)))" unfolding same by blast
  have "single_effects (store (snd (?m s)))"
    using single_effects_step [OF _ o1] assms by (simp add: safe_def db_safe_def)
  moreover have "wrote_in (UNIV - {T_ins_grant}) (store s) (store (snd (?m s)))"
    using acting_wrote [OF a t]
    by (rule wrote_in_mono) (auto simp: worker_tags_def advance_tags_def journal_tags_def)
  moreover have "journaled (snd (?m s))"
    using acting_journaled [OF a] assms by (simp add: safe_def db_safe_def)
  ultimately show ?thesis using wrote_safe assms by (auto simp: safe_def)
qed

lemma restarted_safe: "safe (restarted o' s) = safe s"
  by (simp add: safe_def journaled_def)

lemma control_step_safe:
  assumes "control_step D s t" "safe s" shows "safe t"
  using assms(1)
proof cases
  case (handled r o')
  have s: "safe (restarted o' s)" using assms(2) by (simp add: restarted_safe)
  show ?thesis
  proof (rule handle_cases [where r = r and D = D])
    fix i assume "r = Advance_job i"
    then show ?thesis using advance_safe [OF s] handled by simp
  next
    fix h name pol expires assume "r = Post_grant h name pol expires"
    then show ?thesis using postGrant_safe [OF s] handled by (simp del: handle.simps)
  next
    assume "quiet (UNIV - {T_ins_grant, T_ins_attempt}) (handle D r)"
    then show ?thesis using quiet_safe [OF _ s] handled unfolding stays_def by blast
  qed
next
  case (provider_moved p)
  then show ?thesis using assms(2) by (simp add: safe_def journaled_def)
qed

lemma reachable_safe: "(control_step D)\<^sup>*\<^sup>* s t \<Longrightarrow> safe s \<Longrightarrow> safe t"
  by (induction rule: rtranclp_induct) (auto intro: control_step_safe)

end
