(* ===== verification/Simulated_Provider.thy ===== *)
theory Simulated_Provider
  imports Journal
begin

text \<open>
  \<^verbatim>\<open>apps/control/src/simulated-provider.ts\<close>: the provider used for development and tests. Servers,
  addresses and actions are tables of its own; an action takes effect when it is first read after it
  became ready. Faults delay visibility, lose replies, duplicate creates, reject or fail. One
  operation is one step here, its database transaction included; \<open>sim_uuid\<close> is the sequence of
  values \<open>randomUUID()\<close> returns.
\<close>

datatype simulation_fault = No_fault | Lose_response int | Timeout_before_submit | Duplicate_create
  | Reject_effect | Action_failure

record sim_server =
  ss_id :: string
  ss_value :: provider_server
  ss_visibleAt :: instant

record sim_ip =
  si_id :: string
  si_value :: provider_primary_ip
  si_visibleAt :: instant

record sim_action =
  sa_id :: string
  sa_serverId :: string
  sa_command :: provider_command
  sa_result :: provider_action
  sa_readyAt :: instant
  sa_completedAt :: "instant option"

record sim =
  sim_catalog :: "instant \<Rightarrow> exn + catalog"
  sim_fault :: simulation_fault
  sim_primaryIpFault :: simulation_fault
  sim_actionDelayMs :: int
  sim_retainPrimaryIps :: bool
  sim_uuid :: "nat \<Rightarrow> string"
  sim_drawn :: nat
  sim_servers :: "sim_server list"
  sim_ips :: "sim_ip list"
  sim_actions :: "sim_action list"

section \<open>Tables\<close>

definition draw :: "sim \<Rightarrow> string \<times> sim" where
  "draw s = (sim_uuid s (sim_drawn s), s\<lparr>sim_drawn := Suc (sim_drawn s)\<rparr>)"

text \<open>An insertion that violates the primary key is \<open>None\<close>.\<close>

definition insertServer :: "provider_server \<Rightarrow> instant \<Rightarrow> sim \<Rightarrow> sim option" where
  "insertServer v visible s =
     (if list_ex (\<lambda>r. ss_id r = srv_id v) (sim_servers s) then None
      else Some (s\<lparr>sim_servers := sim_servers s @ [\<lparr>ss_id = srv_id v, ss_value = v, ss_visibleAt = visible\<rparr>]\<rparr>))"

definition insertIp :: "provider_primary_ip \<Rightarrow> instant \<Rightarrow> sim \<Rightarrow> sim option" where
  "insertIp v visible s =
     (if list_ex (\<lambda>r. si_id r = ip_id v) (sim_ips s) then None
      else Some (s\<lparr>sim_ips := sim_ips s @ [\<lparr>si_id = ip_id v, si_value = v, si_visibleAt = visible\<rparr>]\<rparr>))"

definition insertAction :: "sim_action \<Rightarrow> sim \<Rightarrow> sim option" where
  "insertAction a s = (if list_ex (\<lambda>r. sa_id r = sa_id a) (sim_actions s) then None
     else Some (s\<lparr>sim_actions := sim_actions s @ [a]\<rparr>))"

definition storedServer :: "string \<Rightarrow> sim \<Rightarrow> sim_server option" where
  "storedServer i s = select_one (\<lambda>r. ss_id r = i) (sim_servers s)"

definition storedIp :: "string \<Rightarrow> sim \<Rightarrow> sim_ip option" where
  "storedIp i s = select_one (\<lambda>r. si_id r = i) (sim_ips s)"

definition setServer :: "string \<Rightarrow> provider_server \<Rightarrow> sim \<Rightarrow> sim" where
  "setServer i v s = s\<lparr>sim_servers := update_where (\<lambda>r. ss_id r = i) (\<lambda>r. r\<lparr>ss_value := v\<rparr>) (sim_servers s)\<rparr>"

definition setIp :: "string \<Rightarrow> provider_primary_ip \<Rightarrow> sim \<Rightarrow> sim" where
  "setIp i v s = s\<lparr>sim_ips := update_where (\<lambda>r. si_id r = i) (\<lambda>r. r\<lparr>si_value := v\<rparr>) (sim_ips s)\<rparr>"

definition deleteServer :: "string \<Rightarrow> sim \<Rightarrow> sim" where
  "deleteServer i s = s\<lparr>sim_servers := filter (\<lambda>r. ss_id r \<noteq> i) (sim_servers s)\<rparr>"

definition deleteIp :: "string \<Rightarrow> sim \<Rightarrow> sim" where
  "deleteIp i s = s\<lparr>sim_ips := filter (\<lambda>r. si_id r \<noteq> i) (sim_ips s)\<rparr>"

text \<open>A failed transaction keeps only the identifiers it has drawn.\<close>

definition committed :: "sim \<Rightarrow> sim option \<Rightarrow> 'a \<Rightarrow> nat \<Rightarrow> (exn + 'a) \<times> sim" where
  "committed s r x drawn =
     (case r of Some s' \<Rightarrow> (Inr x, s') | None \<Rightarrow> (Inl Defect, s\<lparr>sim_drawn := drawn\<rparr>))"

section \<open>Addresses\<close>

definition rejection :: submission where
  "rejection = Sub_rejected (cloud_error Provider_rejected)"

definition visible_delay :: "simulation_fault \<Rightarrow> int" where
  "visible_delay fault = (case fault of Lose_response ms \<Rightarrow> ms | _ \<Rightarrow> 0)"

definition loses_reply :: "simulation_fault \<Rightarrow> bool" where
  "loses_reply fault = (case fault of Lose_response ms \<Rightarrow> True | Duplicate_create \<Rightarrow> True | _ \<Rightarrow> False)"

definition new_ip :: "string \<Rightarrow> string \<Rightarrow> string \<Rightarrow> labels \<Rightarrow> provider_primary_ip" where
  "new_ip i name region ls = \<lparr>ip_id = i, ip_name = name, ip_region = region, ip_ipv4 = ''192.0.2.10'',
     ip_labels = ls, ip_autoDelete = True, ip_assignment = Unassigned\<rparr>"

definition ip_submission :: "simulation_fault \<Rightarrow> string \<Rightarrow> submission" where
  "ip_submission fault i = (if loses_reply fault then Sub_unknown else Sub_completed (ip_ref i))"

definition createIp :: "string \<Rightarrow> string \<Rightarrow> labels \<Rightarrow> (sim, submission) port" where
  "createIp name region ls now s =
     (let fault = sim_primaryIpFault s; (i, s1) = draw s; visible = now + visible_delay fault;
          ip = new_ip i name region ls;
          (duplicate, s2) = (if fault = Duplicate_create then draw s1 else (i, s1));
          inserted = Option.bind (insertIp ip visible s2) (\<lambda>t.
            if fault = Duplicate_create then insertIp (ip\<lparr>ip_id := duplicate\<rparr>) visible t else Some t)
      in committed s inserted (ip_submission fault i) (sim_drawn s2))"

definition removeIp :: "string \<Rightarrow> (sim, submission) port" where
  "removeIp i now s =
     (if (case storedIp i s of None \<Rightarrow> False | Some r \<Rightarrow> ip_assignment (si_value r) \<noteq> Unassigned)
      then (Inr rejection, s)
      else (Inr (ip_submission (sim_primaryIpFault s) i), deleteIp i s))"

definition submitIp :: "provider_command \<Rightarrow> (sim, submission) port" where
  "submitIp command now s =
     (case sim_primaryIpFault s of
        Timeout_before_submit \<Rightarrow> (Inr Sub_unknown, s)
      | Reject_effect \<Rightarrow> (Inr rejection, s)
      | Action_failure \<Rightarrow> (Inr rejection, s)
      | _ \<Rightarrow> (case command of
                Create_primary_ip name region ls \<Rightarrow> createIp name region ls now s
              | Delete_primary_ip i \<Rightarrow> removeIp i now s
              | _ \<Rightarrow> (Inl Defect, s)))"

section \<open>Actions\<close>

text \<open>What a succeeded action does to its server, when the server still exists.\<close>

definition releaseIp :: "string \<Rightarrow> sim \<Rightarrow> sim" where
  "releaseIp i s =
     (case storedIp i s of
        None \<Rightarrow> s
      | Some r \<Rightarrow> if ip_autoDelete (si_value r) \<and> \<not> sim_retainPrimaryIps s
                  then deleteIp (ip_id (si_value r)) s
                  else setIp (ip_id (si_value r)) ((si_value r)\<lparr>ip_assignment := Unassigned\<rparr>) s)"

definition destroyServer :: "string \<Rightarrow> provider_server \<Rightarrow> sim \<Rightarrow> sim" where
  "destroyServer i v s =
     (case nonempty (srv_primaryIpId v) of
        None \<Rightarrow> deleteServer i s | Some ip \<Rightarrow> releaseIp ip (deleteServer i s))"

definition performAction :: "provider_command \<Rightarrow> string \<Rightarrow> sim \<Rightarrow> sim option" where
  "performAction command i s =
     (case storedServer i s of
        None \<Rightarrow> Some s
      | Some row \<Rightarrow>
          let v = ss_value row in
          (case command of
             Destroy_server x \<Rightarrow> Some (destroyServer i v s)
           | Resize_server x t \<Rightarrow> Some (setServer i (v\<lparr>srv_serverType := t\<rparr>) s)
           | Enable_backup x \<Rightarrow> Some (setServer i (v\<lparr>srv_backupStatus := Backup_enabled\<rparr>) s)
           | Power_off_server x \<Rightarrow> Some (setServer i (v\<lparr>srv_power := Power_is_off\<rparr>) s)
           | Create_primary_ip n r l \<Rightarrow> None
           | Delete_primary_ip x \<Rightarrow> None
           | _ \<Rightarrow> Some (setServer i (v\<lparr>srv_power := Power_running\<rparr>) s)))"

definition complete_action :: "string \<Rightarrow> instant \<Rightarrow> sim \<Rightarrow> sim" where
  "complete_action i now s = s\<lparr>sim_actions := update_where (\<lambda>r. sa_id r = i)
     (\<lambda>r. r\<lparr>sa_completedAt := Some now\<rparr>) (sim_actions s)\<rparr>"

definition sim_getAction :: "string \<Rightarrow> (sim, provider_action) port" where
  "sim_getAction i now s =
     (case select_one (\<lambda>r. sa_id r = i) (sim_actions s) of
        None \<Rightarrow> (Inr (Action_failed (cloud_error Provider_rejected)), s)
      | Some row \<Rightarrow>
          if now < sa_readyAt row then (Inr Action_running, s)
          else if sa_completedAt row \<noteq> None then (Inr (sa_result row), s)
          else (case (if sa_result row = Action_succeeded
                      then performAction (sa_command row) (sa_serverId row) s else Some s) of
                  None \<Rightarrow> (Inl Defect, s)
                | Some t \<Rightarrow> (Inr (sa_result row), complete_action (sa_id row) now t)))"

section \<open>Servers\<close>

text \<open>The address a create attaches: \<open>None\<close> refuses the create.\<close>

definition attachIp :: "provider_network \<Rightarrow> string \<Rightarrow> sim \<Rightarrow> (provider_primary_ip option \<times> sim) option" where
  "attachIp network serverId s =
     (case network of
        Net_legacy \<Rightarrow> Some (None, s)
      | Net_primary_ip i \<Rightarrow>
          (case storedIp i s of
             None \<Rightarrow> None
           | Some r \<Rightarrow> if ip_assignment (si_value r) \<noteq> Unassigned then None
                       else Some (Some (si_value r),
                              setIp (ip_id (si_value r)) ((si_value r)\<lparr>ip_assignment := Assigned_server serverId\<rparr>) s)))"

definition new_server :: "string \<Rightarrow> string \<Rightarrow> string \<Rightarrow> string \<Rightarrow> labels \<Rightarrow> provider_primary_ip option \<Rightarrow> provider_server" where
  "new_server i name type region ls ip = \<lparr>srv_id = i, srv_name = name, srv_serverType = type,
     srv_region = region, srv_power = Power_starting, srv_labels = ls,
     srv_ipv4 = map_option ip_ipv4 ip, srv_primaryIpId = map_option ip_id ip,
     srv_backupStatus = Backup_disabled\<rparr>"

text \<open>\<open>duplicate\<close> is the identifier of the second server that the fault \<open>Duplicate_create\<close> creates.
  The inner option is a violated constraint, the outer \<open>None\<close> a refusal.\<close>

definition bootServer :: "string \<Rightarrow> string \<Rightarrow> string \<Rightarrow> string \<Rightarrow> string \<Rightarrow> labels \<Rightarrow> provider_network \<Rightarrow> instant \<Rightarrow> sim \<Rightarrow> sim option option" where
  "bootServer i duplicate name type region ls network visible s =
     (case attachIp network i s of
        None \<Rightarrow> None
      | Some (ip, s1) \<Rightarrow>
          let v = new_server i name type region ls ip in
          Some (Option.bind (insertServer v visible s1) (\<lambda>t.
            if sim_fault s = Duplicate_create
            then insertServer (v\<lparr>srv_id := duplicate, srv_power := Power_running,
                    srv_primaryIpId := None, srv_ipv4 := None\<rparr>) visible t
            else Some t)))"

definition applyCommand :: "provider_command \<Rightarrow> string \<Rightarrow> string \<Rightarrow> instant \<Rightarrow> sim \<Rightarrow> sim option option" where
  "applyCommand command i duplicate visible s =
     (case command of
        Create_server name type region ls network \<Rightarrow> bootServer i duplicate name type region ls network visible s
      | Create_guest name type region ls ip b \<Rightarrow>
          bootServer i duplicate name type region ls (Net_primary_ip ip) visible s
      | _ \<Rightarrow> Some (Some s))"

definition action_result :: "simulation_fault \<Rightarrow> provider_action" where
  "action_result fault = (if fault = Action_failure
     then Action_failed (cloud_error Provider_rejected) else Action_succeeded)"

definition submitServer :: "provider_command \<Rightarrow> (sim, submission) port" where
  "submitServer command now s =
     (let (i, s1) = (if isServerCreateCommand command then draw s else (the (command_serverId command), s));
          (action, s2) = draw s1; fault = sim_fault s;
          (duplicate, s3) = (if isServerCreateCommand command \<and> fault = Duplicate_create
            then draw s2 else (i, s2));
          row = \<lparr>sa_id = action, sa_serverId = i, sa_command = command, sa_result = action_result fault,
                 sa_readyAt = now + sim_actionDelayMs s, sa_completedAt = None\<rparr> in
      case applyCommand command i duplicate (now + visible_delay fault) s3 of
        None \<Rightarrow> (Inr rejection, s2)
      | Some applied \<Rightarrow>
          (case Option.bind applied (insertAction row) of
             None \<Rightarrow> (Inl Defect, s3)
           | Some t \<Rightarrow>
               if loses_reply fault
               then (case sim_getAction action now t of (Inl e, u) \<Rightarrow> (Inl e, u) | (Inr x, u) \<Rightarrow> (Inr Sub_unknown, u))
               else (Inr (Sub_accepted (server_ref i) action), t)))"

definition sim_submit :: "id \<Rightarrow> provider_command \<Rightarrow> (sim, submission) port" where
  "sim_submit attempt command now s =
     (if resourceKind command = Primary_ip then submitIp command now s
      else (case sim_fault s of
              Timeout_before_submit \<Rightarrow> (Inr Sub_unknown, s)
            | Reject_effect \<Rightarrow> (Inr rejection, s)
            | _ \<Rightarrow> submitServer command now s))"

section \<open>Reads\<close>

definition sim_getServer :: "string \<Rightarrow> (sim, provider_server option) port" where
  "sim_getServer i now s =
     (Inr (map_option ss_value (select_one (\<lambda>r. ss_id r = i \<and> ss_visibleAt r \<le> now) (sim_servers s))), s)"

definition sim_findServers :: "labels \<Rightarrow> (sim, provider_server list) port" where
  "sim_findServers ls now s =
     (Inr (filter (\<lambda>v. matchesLabels (srv_labels v) ls)
        (map ss_value (filter (\<lambda>r. ss_visibleAt r \<le> now) (sim_servers s)))), s)"

definition sim_getPrimaryIp :: "string \<Rightarrow> (sim, provider_primary_ip option) port" where
  "sim_getPrimaryIp i now s =
     (Inr (map_option si_value (select_one (\<lambda>r. si_id r = i \<and> si_visibleAt r \<le> now) (sim_ips s))), s)"

definition sim_findPrimaryIps :: "labels \<Rightarrow> (sim, provider_primary_ip list) port" where
  "sim_findPrimaryIps ls now s =
     (Inr (filter (\<lambda>v. matchesLabels (ip_labels v) ls)
        (map si_value (filter (\<lambda>r. si_visibleAt r \<le> now) (sim_ips s)))), s)"

definition simulatedProvider :: "sim machine_provider" where
  "simulatedProvider = \<lparr>mp_kind = Simulated, mp_getCatalog = (\<lambda>now s. (sim_catalog s now, s)),
     mp_submit = sim_submit, mp_getAction = sim_getAction, mp_getServer = sim_getServer,
     mp_findServers = sim_findServers, mp_getPrimaryIp = sim_getPrimaryIp,
     mp_findPrimaryIps = sim_findPrimaryIps\<rparr>"

end
