(* ===== verification/Scenario.thy ===== *)
theory Scenario
  imports Control Simulated_Provider
begin

text \<open>
  A concrete deployment on the simulated provider: one account, one project, a root credential, and
  the runs of requests the witnesses evaluate.
\<close>

definition uuid_of :: "nat \<Rightarrow> nat \<Rightarrow> string" where
  "uuid_of k n = ''00000000-0000-4000-8000-00000000'' @
     [digit_char (k div 10), digit_char k, digit_char (n div 10), digit_char n]"

definition demo_id :: "id_kind \<Rightarrow> id" where
  "demo_id k = id_prefix k @ uuid_of 0 0"

definition plain_token :: string where
  "plain_token = ''acld_'' @ replicate 43 (CHR ''a'')"

definition demo_header :: "string option" where
  "demo_header = Some (''Bearer '' @ plain_token)"

definition owner_policy :: grant_policy where
  "owner_policy = \<lparr>capabilities = [Machine_read, Machine_create, Machine_operate, Machine_destroy,
      Machine_destroy_data_loss, Grant_manage, Usage_read], policy_projects = All_projects,
     sizes = [Small, Medium], regions = [Nbg1], policy_maxMachines = 2, policy_currency = ''EUR'',
     policy_maxHourlyMicros = 30000\<rparr>"

definition start_db :: db where
  "start_db = empty_db\<lparr>accounts := [\<lparr>acc_id = demo_id Account_id, acc_name = ''demo'', acc_maxMachines = 2,
       acc_currency = ''EUR'', acc_maxHourlyMicros = 30000, acc_createdAt = 0\<rparr>],
     projects := [\<lparr>prj_id = demo_id Project_id, prj_accountId = demo_id Account_id, prj_name = ''demo'',
       prj_createdAt = 0\<rparr>],
     grants := [\<lparr>gr_id = demo_id Grant_id, gr_accountId = demo_id Account_id, gr_parentId = None,
       gr_name = ''root'', gr_tokenHash = plain_token, gr_policy = owner_policy, gr_expiresAt = 900000,
       gr_revokedAt = None, gr_createdAt = 0\<rparr>]\<rparr>"

definition euro_catalog :: "instant \<Rightarrow> failure + catalog" where
  "euro_catalog now = (case simulatedCatalog ''EUR'' now now of
     Some c \<Rightarrow> Inr c | None \<Rightarrow> Inl (cloud_error Internal_error))"

definition start_sim :: sim where
  "start_sim = \<lparr>sim_catalog = (\<lambda>now. case euro_catalog now of Inr c \<Rightarrow> Inr c | Inl e \<Rightarrow> Inl (Cloud e)),
     sim_fault = No_fault, sim_primaryIpFault = No_fault, sim_actionDelayMs = 0,
     sim_retainPrimaryIps = False, sim_uuid = uuid_of 99, sim_drawn = 0, sim_servers = [], sim_ips = [],
     sim_actions = []\<rparr>"

definition demo_limits :: limits where
  "demo_limits = \<lparr>lim_maxMachines = 5, lim_currency = ''EUR'', lim_maxHourlyMicros = 100000\<rparr>"

text \<open>The environment of the \<open>k\<close>-th process: no fault, the clocks stand at \<open>1000 * k\<close>.\<close>

definition calm_at :: "nat \<Rightarrow> outside" where
  "calm_at k = calm\<lparr>or_uuid := uuid_of k, or_token := uuid_of k,
     or_wall := (\<lambda>_. 1000 * int k), or_clock := (\<lambda>_. 1000 * int k)\<rparr>"

definition start_world :: "sim world" where
  "start_world = \<lparr>outside = calm, ticks = 0, store = start_db, began = None, cloud = start_sim,
     submitted = []\<rparr>"

definition demo_deployment :: "(sim, unit) deployment" where
  "demo_deployment = \<lparr>dc_sha256 = (\<lambda>t. t), dc_provider = Simulated, dc_catalog = euro_catalog,
     dc_limits = demo_limits, dc_pin = None, dp_provider = simulatedProvider, dp_guest = None,
     dp_digest = (\<lambda>s. '''')\<rparr>"

text \<open>A run handles one request after the other.\<close>

fun run_from :: "nat \<Rightarrow> sim world \<Rightarrow> request list \<Rightarrow> sim world" where
  "run_from k s [] = s"
| "run_from k s (r # rs) = run_from (Suc k) (snd (handle demo_deployment r (restarted (calm_at k) s))) rs"

definition demo_spec :: machine_spec where
  "demo_spec = \<lparr>spec_name = ''web'', spec_size = Small, spec_region = Nbg1\<rparr>"

definition create_request :: request where
  "create_request = Post_machine demo_header (demo_id Project_id) demo_spec ''key-000000000001''"

definition created_operation :: id where
  "created_operation = id_prefix Operation_id @ uuid_of 1 7"

section \<open>A compact world in the middle of a create\<close>

text \<open>Short identifiers keep the evaluations small: one operation creates machine \<open>vm\<close>.\<close>

definition mid_id :: id where
  "mid_id = ''op_'' @ uuid_of 7 7"

definition small_offer :: catalog_item where
  "small_offer = simulated_item ''EUR'' Nbg1 (Small, ''cx23'', 2, 4, 40, 9600)"

definition mid_operation :: operation where
  "mid_operation = \<lparr>op_id = mid_id, op_accountId = ''acc'', op_projectId = ''prj'', op_machineId = ''vm'',
     op_grantId = ''g0'', op_kind = Op_create, op_intent = Run, op_progress = Queued, op_createdAt = 0\<rparr>"

definition mid_allocation :: allocation_row where
  "mid_allocation = \<lparr>al_id = ''al'', al_accountId = ''acc'', al_machineId = ''vm'', al_provider = Simulated,
     al_serverId = None, al_networkProfile = Managed_ipv4, al_currency = ''EUR'', al_hourlyMicros = 9600,
     al_offer = Some small_offer, al_retiredAt = None, al_createdAt = 0\<rparr>"

definition mid_machine :: machine_row where
  "mid_machine = \<lparr>mc_id = ''vm'', mc_accountId = ''acc'', mc_projectId = ''prj'',
     mc_spec = demo_spec, mc_provider = Simulated, mc_state = Provisioning ''al'', mc_version = 1,
     mc_createdAt = 0, mc_name = ''web''\<rparr>"

definition mid_labels :: labels where
  "mid_labels = effectLabels mid_operation mid_allocation"

definition mid_db :: db where
  "mid_db = demo_db\<lparr>machines := [mid_machine], allocations := [mid_allocation],
     reservations := [reservation_event 0 Admitted mid_allocation 1],
     operations := [operation_row_of mid_operation (Create demo_spec) (Some small_offer)]\<rparr>"

definition world_of :: "db \<Rightarrow> sim \<Rightarrow> sim world" where
  "world_of d s = \<lparr>outside = calm_at 5, ticks = 0, store = d, began = None, cloud = s, submitted = []\<rparr>"

definition mid_command :: provider_command where
  "mid_command = Create_primary_ip ''vm-ipv4'' ''nbg1'' mid_labels"

text \<open>The same machine while its cleanup, admitted for the create itself, deletes the address \<open>ip\<close>.\<close>

definition cleaning_operation :: operation where
  "cleaning_operation = mid_operation\<lparr>op_intent := Cleanup mid_id, op_progress := Cleaning_up\<rparr>"

definition cleaning_row :: cleanup_row where
  "cleaning_row = \<lparr>cu_operationId = mid_id, cu_accountId = ''acc'', cu_allocationId = ''al'',
     cu_sourceOperationId = mid_id, cu_grantId = ''g0'', cu_expectedVersion = 1, cu_createdAt = 100\<rparr>"

definition owned_address :: resource_row where
  "owned_address = \<lparr>pr_provider = Simulated, pr_kind = Primary_ip, pr_providerId = ''ip'', pr_accountId = ''acc'',
     pr_allocationId = ''al'', pr_labels = mid_labels, pr_absentAt = None, pr_createdAt = 50\<rparr>"

definition cleaning_db :: db where
  "cleaning_db = mid_db\<lparr>operations := [operation_row_of cleaning_operation (Create demo_spec) (Some small_offer)],
     cleanups := [cleaning_row], resources := [owned_address]\<rparr>"

definition cleaning_sim :: sim where
  "cleaning_sim = start_sim\<lparr>sim_ips := [\<lparr>si_id = ''ip'', si_value = new_ip ''ip'' ''vm-ipv4'' ''nbg1'' mid_labels,
     si_visibleAt = 0\<rparr>]\<rparr>"

lemma mid_db_ok: "schema_ok mid_db"
  by code_simp

lemma cleaning_db_ok: "schema_ok cleaning_db"
  by code_simp

text \<open>The worlds the runs start in satisfy the invariant of the control plane.\<close>

lemma single_root_delegation:
  assumes "gr_parentId g = None" shows "delegation_ok [g]"
proof -
  have "lineage [g] (gr_id g) [g]" by (simp add: assms)
  then show ?thesis using assms by (auto simp: delegation_ok_def intro!: exI [of _ "[g]"])
qed

lemma mid_safe: "safe (world_of mid_db start_sim)"
proof -
  have "grants mid_db = grants demo_db" by (simp add: mid_db_def)
  moreover have "ledger_ok mid_db" "cleanup_ends_retired mid_db" "single_effects mid_db" by code_simp+
  ultimately show ?thesis
    by (simp add: safe_def db_safe_def mid_db_ok demo_delegation world_of_def journaled_def)
qed

lemma start_safe: "safe start_world"
proof -
  have "schema_ok start_db" "ledger_ok start_db" "cleanup_ends_retired start_db" "single_effects start_db"
    by code_simp+
  moreover have "delegation_ok (grants start_db)"
    by (simp add: start_db_def single_root_delegation)
  ultimately show ?thesis
    by (simp add: safe_def db_safe_def start_world_def journaled_def)
qed

lemma run_reaches: "(control_step demo_deployment)\<^sup>*\<^sup>* s (run_from k s rs)"
proof (induction rs arbitrary: k s)
  case (Cons r rs)
  have "control_step demo_deployment s (snd (handle demo_deployment r (restarted (calm_at k) s)))"
    by (rule handled)
  from converse_rtranclp_into_rtranclp [OF this Cons.IH] show ?case by simp
qed simp

text \<open>One job of the worker journals and submits the creation of the address.\<close>

definition mid_after :: "sim world" where
  "mid_after = run_from 1 (world_of mid_db start_sim) [Advance_job mid_id]"

lemma mid_after_reached: "(control_step demo_deployment)\<^sup>*\<^sup>* (world_of mid_db start_sim) mid_after"
  unfolding mid_after_def by (rule run_reaches)

definition mid_attempt :: id where
  "mid_attempt = ''att_'' @ uuid_of 1 19"

lemma mid_after_effect:
  "cores (store mid_after) = [(mid_attempt, mid_id, mid_command)]
   \<and> submitted mid_after = [(mid_attempt, mid_command)]"
  by code_simp

end
