(* ===== verification/Guarantees.thy ===== *)
theory Guarantees
  imports Scenario
begin

text \<open>
  What the control plane guarantees in every state it can reach, whatever requests arrive, however the
  provider moves, and wherever a process dies or loses the reply of its database or its provider.
\<close>

section \<open>Submissions\<close>

lemma acting_counts:
  assumes "(acting_step T)\<^sup>*\<^sup>* s t"
  shows "length (submitted t) + length (attempts (store s)) \<le> length (submitted s) + length (attempts (store t))"
  using assms
proof (induction rule: rtranclp_induct)
  case (step t u)
  have "length (attempts (store t)) \<le> length (attempts (store u))" if "quiet_step T t u"
  proof -
    have "evolves keeps_attempt (attempts (store t)) (attempts (store u))"
      using that by (intro journal.wrote [of T]) (simp add: quiet_step_def)
    then show ?thesis by (auto simp: evolves_def dest: list_all2_lengthD)
  qed
  then have "length (submitted u) + length (attempts (store t)) \<le> length (submitted t) + length (attempts (store u))"
    using step.hyps(2) by (auto simp: acting_step_def quiet_step_def effect_step_def)
  with step.IH show ?case by simp
qed simp

lemma advance_counts:
  fixes s :: "'p world"
  shows "length (submitted (snd (advanceOperation i P lm guest s))) \<le> Suc (length (submitted s))"
proof -
  let ?t = "snd (advanceOperation i P lm guest s)"
  have "(acting_step advance_tags)\<^sup>*\<^sup>* s ?t"
    using acts_advanceOperation [of i P lm guest] by (simp add: stays_def)
  from acting_counts [OF this]
  have "length (submitted ?t) + length (cores (store s)) \<le> length (submitted s) + length (cores (store ?t))"
    by (simp add: cores_def)
  with advance_at_most_one [of s i P lm guest] show ?thesis by (auto simp: at_most_one_def)
qed

text \<open>
  C1. Write-ahead journal: in every reachable state each command ever submitted to the provider has its
  attempt row, committed with exactly that command, and no attempt was submitted twice. No crash, lost
  reply or retry makes the control plane forget an effect it asked for.
\<close>

theorem submissions_journaled:
  assumes "safe s" "(control_step D)\<^sup>*\<^sup>* s t"
  shows "distinct (map fst (submitted t))
    \<and> (\<forall>(i, c)\<in>set (submitted t). \<exists>e\<in>set (attempts (store t)). at_id e = i \<and> at_command e = c)"
proof -
  have "journaled t" using reachable_safe [OF assms(2,1)] by (simp add: safe_def)
  then show ?thesis by (auto simp: journaled_def list_all_iff list_ex_iff)
qed

theorem submissions_journaled_witness:
  "submitted mid_after = [(mid_attempt, mid_command)]
   \<and> (\<exists>e\<in>set (attempts (store mid_after)). at_id e = mid_attempt \<and> at_command e = mid_command)"
  using submissions_journaled [OF mid_safe mid_after_reached] mid_after_effect by simp

text \<open>
  C2. No duplicated effect: in every reachable state two attempts of one operation with the same kind
  of effect are the same attempt, unless the effect is a deletion. So no create ever makes a second
  server or a second address, and no reboot, resize, power change or backup change is repeated, even
  when the first attempt's outcome is unknown.
\<close>

theorem no_second_effect:
  assumes "safe s" "(control_step D)\<^sup>*\<^sup>* s t"
    "e \<in> set (attempts (store t))" "f \<in> set (attempts (store t))"
    "at_operationId e = at_operationId f" "effect_slot (at_command e) = effect_slot (at_command f)"
    "\<not> deletion (at_command e)" "\<not> deletion (at_command f)"
  shows "e = f"
  using reachable_safe [OF assms(2,1)] assms(3-) by (auto simp: safe_def db_safe_def intro: single_effectsD)

theorem no_second_effect_witness: "hd (attempts (store mid_after)) = last (attempts (store mid_after))"
proof (rule no_second_effect [OF mid_safe mid_after_reached])
  obtain e where e: "attempts (store mid_after) = [e]" "core e = (mid_attempt, mid_id, mid_command)"
    using mid_after_effect by (auto simp: cores_def)
  then show "\<not> deletion (at_command (hd (attempts (store mid_after))))"
    "\<not> deletion (at_command (last (attempts (store mid_after))))"
    by (simp_all add: core_def mid_command_def deletion_def)
qed (use mid_after_effect in \<open>auto simp: cores_def core_def\<close>)

text \<open>
  C12. One call of \<open>advanceOperation\<close> journals at most one attempt and submits at most one command. An
  attempt it journals belongs to the operation it advances, is appended after the existing journal, and
  repeats no effect of the operation that is already journaled, unless it is a deletion.
\<close>

theorem advance_journals_at_most_one:
  "(\<exists>new. cores (store (snd (advanceOperation i P lm guest s))) = cores (store s) @ new
      \<and> length new \<le> 1
      \<and> (\<forall>(attempt, owner, c)\<in>set new. owner = i
           \<and> (deletion c \<or> (\<forall>(old, owner', c')\<in>set (cores (store s)). owner' = i \<longrightarrow> effect_slot c' \<noteq> effect_slot c))))
   \<and> length (submitted (snd (advanceOperation i P lm guest s))) \<le> Suc (length (submitted s))"
proof (intro conjI advance_counts)
  let ?t = "snd (advanceOperation i P lm guest s)"
  from advance_at_most_one [of s i P lm guest]
  consider "cores (store ?t) = cores (store s) @ []"
    | a c where "cores (store ?t) = cores (store s) @ [(a, i, c)]" "permitted (store s) i c"
    unfolding at_most_one_def by auto
  then show "\<exists>new. cores (store ?t) = cores (store s) @ new \<and> length new \<le> 1
      \<and> (\<forall>(attempt, owner, c)\<in>set new. owner = i
           \<and> (deletion c \<or> (\<forall>(old, owner', c')\<in>set (cores (store s)). owner' = i \<longrightarrow> effect_slot c' \<noteq> effect_slot c)))"
    by cases (force, auto simp: permitted_def unused_def intro!: exI [of _ "[(_, i, _)]"])
qed

theorem advance_journals_at_most_one_witness:
  "length (submitted (snd (advanceOperation mid_id simulatedProvider demo_limits (None :: (sim, unit) guest_provisioning option)
     (world_of mid_db start_sim)))) \<le> 1"
  using advance_journals_at_most_one [of mid_id simulatedProvider demo_limits
      "None :: (sim, unit) guest_provisioning option" "world_of mid_db start_sim"]
  by (simp add: world_of_def)

section \<open>Reservations, cleanups and delegation\<close>

text \<open>
  C21. The reservation ledger is exact: in every reachable state the last ledger entry of each allocation
  is its hourly price while it is live and zero once it is retired, so usage computed from the ledger
  is what the allocations reserve.
\<close>

theorem ledger_exact:
  assumes "safe s" "(control_step D)\<^sup>*\<^sup>* s t" "a \<in> set (allocations (store t))"
  shows "ledger_rate (reservations (store t)) (al_id a)
    = Some (if al_retiredAt a = None then al_hourlyMicros a else 0)"
  using reachable_safe [OF assms(2,1)] assms(3)
  by (auto simp: safe_def db_safe_def ledger_ok_def list_all_iff reserved_def live_def)

theorem ledger_exact_witness:
  "ledger_rate (reservations (store (world_of mid_db start_sim))) ''al'' = Some 9600"
proof -
  have "mid_allocation \<in> set (allocations (store (world_of mid_db start_sim)))"
    by (simp add: world_of_def mid_db_def)
  from ledger_exact [OF mid_safe rtranclp.rtrancl_refl this] show ?thesis
    by (simp add: mid_allocation_def)
qed

text \<open>
  C20. A finished cleanup is complete: in every reachable state, when the operation that executes an
  admitted cleanup is terminal, the allocation it cleaned up has been retired.
\<close>

theorem finished_cleanup_retired:
  assumes "safe s" "(control_step D)\<^sup>*\<^sup>* s t" "cu \<in> set (cleanups (store t))"
    "p \<in> set (operations (store t))" "op_id p = cu_operationId cu" "isOperationTerminal p"
  shows "\<exists>a\<in>set (allocations (store t)). al_id a = cu_allocationId cu \<and> al_retiredAt a \<noteq> None"
  using reachable_safe [OF assms(2,1)] cleanup_ends_retiredD [OF _ assms(3-6)]
  by (simp add: safe_def db_safe_def)

definition ended_db :: db where
  "ended_db = cleaning_db\<lparr>allocations := [mid_allocation\<lparr>al_retiredAt := Some 500\<rparr>],
     reservations := reservations mid_db @
       [reservation_event 500 Changed (mid_allocation\<lparr>al_retiredAt := Some 500\<rparr>) 2],
     operations := [operation_row_of (cleaning_operation\<lparr>op_progress := Cancelled 500\<rparr>) (Create demo_spec)
       (Some small_offer)],
     resources := [owned_address\<lparr>pr_absentAt := Some 400\<rparr>],
     machines := [mid_machine\<lparr>mc_state := Destroyed 500\<rparr>]\<rparr>"

lemma ended_safe: "safe (world_of ended_db start_sim)"
proof -
  have "schema_ok ended_db" "ledger_ok ended_db" "cleanup_ends_retired ended_db" "single_effects ended_db"
    by code_simp+
  moreover have "grants ended_db = grants demo_db"
    by (simp add: ended_db_def cleaning_db_def mid_db_def)
  ultimately show ?thesis
    by (simp add: safe_def db_safe_def demo_delegation world_of_def journaled_def)
qed

theorem finished_cleanup_retired_witness:
  "\<exists>a\<in>set (allocations ended_db). al_id a = ''al'' \<and> al_retiredAt a \<noteq> None"
proof -
  let ?p = "operation_row_of (cleaning_operation\<lparr>op_progress := Cancelled 500\<rparr>) (Create demo_spec) (Some small_offer)"
  have "cleaning_row \<in> set (cleanups (store (world_of ended_db start_sim)))"
    "?p \<in> set (operations (store (world_of ended_db start_sim)))"
    by (simp_all add: world_of_def ended_db_def cleaning_db_def)
  moreover have "op_id ?p = cu_operationId cleaning_row" "isOperationTerminal ?p" by code_simp+
  ultimately show ?thesis
    using finished_cleanup_retired [OF ended_safe rtranclp.rtrancl_refl, of cleaning_row ?p]
    by (simp add: cleaning_row_def world_of_def)
qed

text \<open>
  C22. Delegation stays sound: in every reachable state each delegated grant is within the policy and
  the lifetime of its parent, and every grant has a lineage of at most 32 grants up to a root.
\<close>

theorem reachable_delegation:
  assumes "safe s" "(control_step D)\<^sup>*\<^sup>* s t" "g \<in> set (grants (store t))"
  shows "(\<exists>chain. lineage (grants (store t)) (gr_id g) chain \<and> length chain \<le> 32)
    \<and> (\<forall>p\<in>set (grants (store t)). gr_parentId g = Some (gr_id p) \<longrightarrow>
         assertPolicySubset (gr_policy g) (gr_policy p) = Inr () \<and> gr_expiresAt g \<le> gr_expiresAt p)"
  using reachable_safe [OF assms(2,1)] assms(3)
  by (auto simp: safe_def db_safe_def delegation_ok_def link_ok_def policy_within_def)

theorem reachable_delegation_witness:
  "assertPolicySubset demo_child_policy demo_policy = Inr ()"
proof -
  have "demo_grant ''g1'' (Some ''g0'') demo_child_policy 8000 \<in> set (grants (store (world_of mid_db start_sim)))"
    "demo_grant ''g0'' None demo_policy 9000 \<in> set (grants (store (world_of mid_db start_sim)))"
    by (simp_all add: world_of_def mid_db_def demo_db_def)
  with reachable_delegation [OF mid_safe rtranclp.rtrancl_refl this(1)] show ?thesis
    by (auto simp: demo_grant_def)
qed

section \<open>Authority of effects\<close>

text \<open>
  C3. A fresh effect is submitted only with full authority: if \<open>journalEffect\<close> submits a command under
  fresh authority, it submits exactly that command once, and in the database it started from the
  operation was not a cleanup, the operation's grant headed a lineage of grants none of which is
  revoked or expired at a clock reading of the call, the grant's policy and projects allow the
  operation's command, and for a command that costs money the reservations including this one are
  within the global, account and grant limits and the price the provider currently quotes does not
  exceed the admitted one.
\<close>

theorem fresh_effect_authorized:
  assumes "schema_ok (store s)"
    "submitted (snd (journalEffect P lm op a c Fresh s)) \<noteq> submitted s"
  shows "(\<exists>i. submitted (snd (journalEffect P lm op a c Fresh s)) = submitted s @ [(i, c)])
    \<and> (\<exists>n stored account chain. operation_in (store s) (op_id op) = Some stored
        \<and> account \<in> set (accounts (store s)) \<and> acc_id account = op_accountId op
        \<and> (\<forall>i. op_intent stored \<noteq> Cleanup i) \<and> cleanup_in (store s) (op_id op) = None
        \<and> lineage (grants (store s)) (op_grantId op) chain
        \<and> list_all (\<lambda>g. gr_revokedAt g = None \<and> or_clock (outside s) n < gr_expiresAt g) chain
        \<and> authorizeCommand (principal_of (hd chain)) (op_projectId op) (op_command stored) = Inr ()
        \<and> (monetary c \<longrightarrow> (\<exists>offer. op_offer stored = Some offer
             \<and> within_limits lm account (principal_of (hd chain)) (item_currency offer)
                 (active_allocations (store s)))))
    \<and> (monetary c \<longrightarrow> quoted_price P op (store s))"
proof -
  note f = fresh_authorized [OF assms]
  then obtain n where "fresh_allowed lm op c (or_clock (outside s) n) (store s)" by blast
  then obtain stored account p where
    1: "operation_in (store s) (op_id op) = Some stored" "account \<in> set (accounts (store s))"
      "acc_id account = op_accountId op" "\<forall>i. op_intent stored \<noteq> Cleanup i" "cleanup_in (store s) (op_id op) = None"
    and p: "principal_at (store s) (or_clock (outside s) n) (op_grantId op) p"
    and 2: "authorizeCommand p (op_projectId op) (op_command stored) = Inr ()"
      "monetary c \<longrightarrow> (\<exists>offer. op_offer stored = Some offer \<and> catalog_item_ok offer
         \<and> within_limits lm account p (item_currency offer) (active_allocations (store s)))"
    unfolding fresh_allowed_def by blast
  from p obtain leaf rest where l: "lineage (grants (store s)) (op_grantId op) (leaf # rest)"
    "list_all (usable (gr_accountId leaf) (or_clock (outside s) n)) (leaf # rest)" "p = principal_of leaf"
    unfolding principal_at_def by blast
  then have "list_all (\<lambda>g. gr_revokedAt g = None \<and> or_clock (outside s) n < gr_expiresAt g) (leaf # rest)"
    by (auto simp: list_all_iff usable_def)
  with 1 2 l(1,3) show ?thesis
    using f by (intro conjI exI [of _ n] exI [of _ stored] exI [of _ account] exI [of _ "leaf # rest"])
      (simp_all, blast)
qed

lemma mid_submits:
  "submitted (snd (journalEffect simulatedProvider demo_limits mid_operation mid_allocation mid_command Fresh
     (world_of mid_db start_sim))) \<noteq> []"
  by code_simp

theorem fresh_effect_authorized_witness:
  "\<exists>i. submitted (snd (journalEffect simulatedProvider demo_limits mid_operation mid_allocation mid_command Fresh
     (world_of mid_db start_sim))) = [(i, mid_command)]"
  using fresh_effect_authorized [of "world_of mid_db start_sim" simulatedProvider demo_limits mid_operation
      mid_allocation mid_command] mid_submits mid_db_ok
  by (simp add: world_of_def)

text \<open>
  Revocation stops work in progress: when any grant in the lineage of an operation's grant has been
  revoked, \<open>journalEffect\<close> under fresh authority submits nothing, whatever the operation had already
  been granted.
\<close>

theorem revoked_grant_submits_nothing:
  assumes "schema_ok (store s)" "lineage (grants (store s)) (op_grantId op) chain"
    "\<exists>g\<in>set chain. gr_revokedAt g \<noteq> None"
  shows "submitted (snd (journalEffect P lm op a c Fresh s)) = submitted s"
  using revoked_silent [OF assms] .

definition revoked_root :: grant_row where
  "revoked_root = (demo_grant ''g0'' None demo_policy 9000)\<lparr>gr_revokedAt := Some 900\<rparr>"

definition revoked_db :: db where
  "revoked_db = mid_db\<lparr>grants := [revoked_root, demo_grant ''g1'' (Some ''g0'') demo_child_policy 8000]\<rparr>"

theorem revoked_grant_submits_nothing_witness:
  "submitted (snd (journalEffect simulatedProvider demo_limits mid_operation mid_allocation mid_command Fresh
     (world_of revoked_db start_sim))) = []"
proof -
  have "schema_ok revoked_db" "lineage (grants revoked_db) (op_grantId mid_operation) [revoked_root]" by code_simp+
  with revoked_grant_submits_nothing [of "world_of revoked_db start_sim" mid_operation "[revoked_root]"]
  show ?thesis by (simp add: world_of_def revoked_root_def)
qed

text \<open>
  C11. A cleanup deletes only what it owns: if \<open>journalEffect\<close> submits a command under the authority of an
  admitted cleanup, the cleanup was admitted for this operation and allocation, the command deletes a
  live resource recorded as owned by that allocation, fewer attempts of the same deletion exist than
  the delete limit allows, and an address is deleted only when no server of the allocation is recorded
  live and no creation of a server is unresolved.
\<close>

theorem cleanup_effect_owned:
  assumes "schema_ok (store s)"
    "submitted (snd (journalEffect P lm op a c Admitted_cleanup s)) \<noteq> submitted s"
  shows "\<exists>cu kind i. cu \<in> set (cleanups (store s)) \<and> cu_operationId cu = op_id op
    \<and> cu_allocationId cu = al_id a \<and> deletion_target c = Some (kind, i)
    \<and> (\<exists>r\<in>set (resources (store s)). owns_target a kind i r)
    \<and> int (length (filter (\<lambda>e. at_command e = c) (cleanup_attempts (store s) cu)))
        < cleanup_delete_limit (store s) (op_id op) c
    \<and> (kind = Primary_ip \<longrightarrow> \<not> (\<exists>r\<in>set (live_resources (store s) (al_id a)). pr_kind r = Server)
         \<and> \<not> (\<exists>e\<in>set (attempts (store s)). at_operationId e = cu_sourceOperationId cu
              \<and> isServerCreateCommand (at_command e) \<and> at_resolution e = Res_pending))"
  using cleanup_owned [OF assms] .

lemma cleaning_submits:
  "submitted (snd (journalEffect simulatedProvider demo_limits cleaning_operation mid_allocation
     (Delete_primary_ip ''ip'') Admitted_cleanup (world_of cleaning_db cleaning_sim))) \<noteq> []"
  by code_simp

theorem cleanup_effect_owned_witness:
  "\<exists>kind i. deletion_target (Delete_primary_ip ''ip'') = Some (kind, i)
     \<and> (\<exists>r\<in>set (resources cleaning_db). owns_target mid_allocation kind i r)"
proof -
  have "submitted (world_of cleaning_db cleaning_sim) = []" by (simp add: world_of_def)
  with cleaning_submits cleaning_db_ok
    cleanup_effect_owned [of "world_of cleaning_db cleaning_sim" simulatedProvider demo_limits cleaning_operation
      mid_allocation "Delete_primary_ip ''ip''"]
  show ?thesis by (auto simp: world_of_def)
qed

section \<open>Evaluations\<close>

text \<open>
  C13. A resolution is warranted by evidence: when \<open>evaluate\<close> confirms an attempt, the provider has
  answered with exactly the resource the attempt names, with the labels of the command and the
  configuration it asked for, or with its absence where that is what settles the attempt; an uncertain
  reboot is never confirmed. When it declares a failure, the provider rejected the command or reported
  its action as failed. Everything else stays pending.
\<close>

theorem evaluation_warranted:
  assumes "evaluate P a recovering e expected s = (Inr ev, t)"
  shows "case ev of
      Eval_confirmed obs \<Rightarrow> confirmation P recovering expected e obs
    | Eval_failed f \<Rightarrow> at_outcome e = Rejected f
        \<or> (\<exists>ref action. at_outcome e = Accepted ref action \<and> answered (mp_getAction P action) (Action_failed f))
    | Eval_pending p \<Rightarrow> True"
  using yieldsD [OF yields_evaluate assms]
  by (auto simp: warranted_def failure_reported_def split: evaluation.splits)

definition created_attempt :: attempt_row where
  "created_attempt = \<lparr>at_id = ''att'', at_accountId = ''acc'', at_operationId = mid_id, at_sequence = 1,
     at_command = mid_command, at_outcome = Completed \<lparr>ref_kind = Primary_ip, ref_id = ''ip''\<rparr>,
     at_resolution = Res_pending, at_createdAt = 0\<rparr>"

lemma created_confirmed:
  "case fst (evaluate simulatedProvider mid_allocation False created_attempt mid_labels (world_of mid_db cleaning_sim)) of
     Inr (Eval_confirmed (Observed_primary_ip v)) \<Rightarrow> ip_id v = ''ip'' | _ \<Rightarrow> False"
  by code_simp

theorem evaluation_warranted_witness:
  "\<exists>v. ip_id v = ''ip'' \<and> confirmation simulatedProvider False mid_labels created_attempt (Observed_primary_ip v)"
proof -
  obtain r t where e: "evaluate simulatedProvider mid_allocation False created_attempt mid_labels
      (world_of mid_db cleaning_sim) = (r, t)" by fastforce
  with created_confirmed obtain v where "r = Inr (Eval_confirmed (Observed_primary_ip v))" "ip_id v = ''ip''"
    by (auto split: sum.splits evaluation.splits resource_observation.splits)
  with evaluation_warranted [of simulatedProvider mid_allocation False created_attempt mid_labels
      "world_of mid_db cleaning_sim"] e show ?thesis by fastforce
qed

section \<open>Histories\<close>

lemma control_wrote:
  assumes "control_step D s t" shows "wrote_in UNIV (store s) (store t)"
  using assms
proof cases
  case (handled r o')
  have q: "wrote_in UNIV (store s) (store (snd (m (restarted o' s))))" if "quiet T m" for m :: "('a, unit) act" and T
  proof -
    have "quiet_step T (restarted o' s) (snd (m (restarted o' s)))" using that unfolding stays_def by blast
    then show ?thesis by (auto simp: quiet_step_def intro: wrote_in_mono)
  qed
  show ?thesis
  proof (rule handle_cases [where r = r and D = D])
    fix i assume r: "r = Advance_job i"
    have "acts worker_tags (handle D r)"
      unfolding r handle.simps discard_def by (intro acting.bind acting.ret acts_advanceTask)
    then have "(acting_step worker_tags)\<^sup>*\<^sup>* (restarted o' s) t" using handled by (simp add: stays_def)
    from acting_wrote [OF this] have "wrote_in worker_tags (store s) (store t)" by (simp add: worker_tags_def)
    then show ?thesis by (rule wrote_in_mono) simp
  next
    fix h name pol expires assume r: "r = Post_grant h name pol expires"
    have "footprint {T_ins_grant} (handle D r)"
      unfolding r handle.simps by (intro footprint_discard footprint_authenticated footprint_postGrant) simp
    from q [OF quiet_footprint [OF this]] show ?thesis using handled by simp
  next
    assume "quiet (UNIV - {T_ins_grant, T_ins_attempt}) (handle D r)"
    from q [OF this] show ?thesis using handled by simp
  qed
qed simp

lemma reachable_wrote: "(control_step D)\<^sup>*\<^sup>* s t \<Longrightarrow> wrote_in UNIV (store s) (store t)"
  by (induction rule: rtranclp_induct) (auto intro: control_wrote rtranclp_trans)

text \<open>
  C23. The journal is append-only: an attempt row found in one state is found in every later state with
  the same operation, sequence number and command; its outcome is written at most once, after it was
  prepared, and its resolution at most once, after it was pending.
\<close>

theorem journal_append_only:
  assumes "(control_step D)\<^sup>*\<^sup>* s t" "e \<in> set (attempts (store s))"
  shows "\<exists>f\<in>set (attempts (store t)). at_id f = at_id e \<and> at_operationId f = at_operationId e
    \<and> at_sequence f = at_sequence e \<and> at_command f = at_command e
    \<and> (at_outcome f = at_outcome e \<or> at_outcome e = Prepared)
    \<and> (at_resolution f = at_resolution e \<or> at_resolution e = Res_pending)"
proof -
  from evolves_in [OF journal.wrote [OF reachable_wrote [OF assms(1)]] assms(2)] obtain f
    where "f \<in> set (attempts (store t))" "keeps_attempt e f" by blast
  with keeps_attempt_fields [of e f] show ?thesis by (auto simp: keeps_attempt_def)
qed

definition tried_world :: "sim world" where
  "tried_world = world_of (cleaning_db\<lparr>attempts := [created_attempt]\<rparr>) cleaning_sim"

theorem journal_append_only_witness:
  "\<exists>f\<in>set (attempts (store (run_from 1 tried_world [Advance_job mid_id, Reconcile_job]))).
     at_id f = ''att'' \<and> at_command f = mid_command"
proof -
  have "created_attempt \<in> set (attempts (store tried_world))" by (simp add: tried_world_def world_of_def)
  from journal_append_only [OF run_reaches this, of 1 "[Advance_job mid_id, Reconcile_job]"] show ?thesis
    by (auto simp: created_attempt_def)
qed

section \<open>Worker jobs\<close>

lemma terminal_idle:
  fixes s :: "'p world"
  assumes "\<forall>row. operation_in (store s) i = Some row \<longrightarrow> isOperationTerminal row"
  shows "\<exists>n. snd (advanceOperation i P lm guest s) = s\<lparr>ticks := n\<rparr>"
proof -
  have idle: "\<exists>n. snd (query g s) = s\<lparr>ticks := n\<rparr>" for g :: "db \<Rightarrow> 'x" and s :: "'p world"
    by (auto simp: query_def observe_def prim_def Let_def)
  show ?thesis
  proof (cases "operation_in (store s) i")
    case None
    then show ?thesis
      by (auto simp: advanceOperation_def bind_def query_def observe_def prim_def ret_def Let_def)
  next
    case (Some row)
    with assms have "isOperationTerminal row" by blast
    with Some show ?thesis
      by (auto simp: advanceOperation_def advanceLocked_def withMachineLock_def tryLock_def bind_def query_def
          observe_def prim_def ret_def Let_def split: if_splits)
  qed
qed

text \<open>
  A terminal operation is left alone: advancing an operation that is terminal, or that does not
  exist, changes neither the database nor the provider and submits nothing, even when the process is
  interrupted.
\<close>

theorem terminal_advance_idle:
  assumes "\<forall>row. operation_in (store s) i = Some row \<longrightarrow> isOperationTerminal row"
  shows "store (snd (advanceOperation i P lm guest s)) = store s
    \<and> cloud (snd (advanceOperation i P lm guest s)) = cloud s
    \<and> submitted (snd (advanceOperation i P lm guest s)) = submitted s"
proof -
  obtain n where "snd (advanceOperation i P lm guest s) = s\<lparr>ticks := n\<rparr>"
    using terminal_idle [OF assms] by blast
  then show ?thesis by simp
qed

theorem terminal_advance_idle_witness:
  "store (snd (advanceOperation mid_id simulatedProvider demo_limits (None :: (sim, unit) guest_provisioning option)
     (world_of ended_db start_sim))) = ended_db"
proof -
  have "operation_in ended_db mid_id = Some (operation_row_of (cleaning_operation\<lparr>op_progress := Cancelled 500\<rparr>)
      (Create demo_spec) (Some small_offer))" by code_simp
  then have "\<forall>row. operation_in (store (world_of ended_db start_sim)) mid_id = Some row \<longrightarrow> isOperationTerminal row"
    by (simp add: world_of_def isOperationTerminal_def operation_row_of_def cleaning_operation_def)
  from terminal_advance_idle [OF this, where guest = "None :: (sim, unit) guest_provisioning option"]
  show ?thesis by (simp add: world_of_def)
qed

lemma enqueued_jobs:
  "runs d (foldM (\<lambda>_. enqueueOperation) () is)
    (\<lambda>_ d'. set is \<subseteq> set (jobs d') \<and> set (jobs d) \<subseteq> set (jobs d') \<and> operations d' = operations d) (\<lambda>_. True)"
proof (induction "is" arbitrary: d)
  case (Cons i rest)
  show ?case
    unfolding foldM.simps enqueueOperation_def
    by (intro runs_bind runs_run runs_weaken [OF Cons.IH [unfolded enqueueOperation_def]])
       (auto simp: apply_stmt_def Let_def split: if_splits)
qed (simp add: runs_ret)

text \<open>
  C38. No operation is stranded: when a reconciliation pass returns, every operation that is not
  terminal has a job.
\<close>

theorem reconcile_enqueues_all:
  assumes "reconcileOperations s = (Inr u, t)" "p \<in> set (operations (store t))" "\<not> isOperationTerminal p"
  shows "op_id p \<in> set (jobs (store t))"
proof -
  have "runs (store s) reconcileOperations
     (\<lambda>_ d'. \<forall>p\<in>set (operations d'). \<not> isOperationTerminal p \<longrightarrow> op_id p \<in> set (jobs d')) (\<lambda>_. True)"
    unfolding reconcileOperations_def
    by (intro runs_bind runs_query runs_weaken [OF enqueued_jobs]) auto
  from runs_Inr [OF this refl assms(1)] assms(2,3) show ?thesis by blast
qed

lemma mid_reconciled: "\<not> isl (fst (reconcileOperations (world_of mid_db start_sim)))"
  by code_simp

theorem reconcile_enqueues_all_witness:
  "\<exists>t. reconcileOperations (world_of mid_db start_sim) = (Inr (), t)
     \<and> (\<forall>p. p \<in> set (operations (store t)) \<and> \<not> isOperationTerminal p \<longrightarrow> op_id p \<in> set (jobs (store t)))"
proof -
  obtain r t where r: "reconcileOperations (world_of mid_db start_sim) = (r, t)" by fastforce
  with mid_reconciled have "reconcileOperations (world_of mid_db start_sim) = (Inr (), t)" by (cases r) auto
  with reconcile_enqueues_all [OF this] show ?thesis by blast
qed

end
