(* ===== verification/Admission_Laws.thy ===== *)
theory Admission_Laws
  imports Scenario
begin

text \<open>
  What an admission guarantees: the limits hold in the database a create or resize commits, a repeated
  request with the same key returns the first operation and writes nothing, and the fingerprint of a
  request determines its command.
\<close>

lemma runsD: "runs (store s) m Q E \<Longrightarrow> case m s of (Inr x, t) \<Rightarrow> Q x (store t) | (Inl e, t) \<Rightarrow> E (store t)"
  by (simp add: runs_def)

section \<open>The principal of an admission\<close>

lemma loaded_principal:
  assumes "unique_by gr_id gs" "g \<in> set gs" "authority_of now (gr_id g) (ancestry gs (gr_id g) 32) = Some a"
  shows "au_principal a = principal_of g"
proof -
  from assms(3) authority_iff [OF assms(1)] obtain leaf rest
    where l: "lineage gs (gr_id g) (leaf # rest)" "au_principal a = principal_of leaf" by fastforce
  with lineage_head [OF l(1)] have "leaf \<in> set gs" "gr_id leaf = gr_id g" by auto
  then have "leaf = g" using unique_rowD [OF assms(1) _ assms(2)] by blast
  with l(2) show ?thesis by simp
qed

lemma runs_ownPrincipal:
  assumes "schema_ok d" "g \<in> set (grants d)" "Q (principal_of g) d" "E d"
  shows "runs d (loadPrincipal (gr_id g)) Q E"
  by (intro wp) (use assms loaded_principal [OF schema_grants [OF assms(1)] assms(2)] in auto)

lemma principal_fields [simp]:
  "grantId (principal_of g) = gr_id g" "accountId (principal_of g) = gr_accountId g"
  by (simp_all add: principal_of_def)

section \<open>Repeated requests\<close>

lemma runs_advisoryLock [wp]: "Q () d \<Longrightarrow> E d \<Longrightarrow> runs d advisoryLock Q E"
  unfolding advisoryLock_def by (intro wp) auto

lemma runs_lockAccount [wp]:
  "(\<And>x. x \<in> set (accounts d) \<Longrightarrow> acc_id x = account \<Longrightarrow> Q x d) \<Longrightarrow> E d \<Longrightarrow> runs d (lockAccount account) Q E"
  unfolding lockAccount_def by (intro wp) (auto dest: select_one_SomeD)

lemma runs_ownMachine [wp]:
  "(\<And>m. m \<in> set (machines d) \<Longrightarrow> mc_id m = i \<Longrightarrow> mc_accountId m = account \<Longrightarrow> Q m d) \<Longrightarrow> E d \<Longrightarrow>
     runs d (ownMachine i account) Q E"
  unfolding ownMachine_def by (intro wp) (auto dest: select_one_SomeD)

lemma runs_tryMachineLock [wp]: "Q () d \<Longrightarrow> E d \<Longrightarrow> runs d tryMachineLock Q E"
  unfolding tryMachineLock_def by (intro wp) auto

text \<open>The answer to a repeated request: the remembered operation, for the same fingerprint only.\<close>

definition replays :: "db \<Rightarrow> id \<Rightarrow> idempotency_row \<Rightarrow> string \<Rightarrow> operation \<Rightarrow> bool" where
  "replays d account k fingerprint op \<longleftrightarrow> ik_requestHash k = fingerprint
     \<and> (\<exists>row\<in>set (operations d). op_id row = ik_operationId k \<and> op_accountId row = account
          \<and> op = operationRecord row)"

lemma runs_replayed:
  "(\<And>op. replays d account k fingerprint op \<Longrightarrow> Q op d) \<Longrightarrow> E d \<Longrightarrow>
     runs d (replayed account fingerprint k) Q E"
  unfolding replayed_def replays_def by (intro wp) (auto dest: select_one_SomeD)

lemma admitOperation_replays:
  assumes ok: "schema_ok d" "g \<in> set (grants d)"
    and k: "select_one (remembered (gr_accountId g) (admission_scope request) key) (idempotency d) = Some k"
  shows "runs d (admitOperation sha provider source lm pin (principal_of g) request key)
    (\<lambda>op d'. d' = d \<and> replays d (gr_accountId g) k (requestHash sha (admission_command request)) op)
    (\<lambda>d'. d' = d)"
  unfolding admitOperation_def Let_def principal_fields
  by (intro runs_transaction_any runs_bind runs_advisoryLock runs_lockAccount runs_ownPrincipal [OF ok]
      runs_query runs_replayed)
     (auto simp: k intro!: runs_bind runs_replayed runs_pure_of runs_ret)

lemma admitCleanup_replays:
  assumes ok: "schema_ok d" "g \<in> set (grants d)"
    and k: "select_one (remembered (gr_accountId g) (action_scope machine) key) (idempotency d) = Some k"
  shows "runs d (admitCleanup sha (principal_of g) machine version allow key)
    (\<lambda>op d'. d' = d \<and> replays d (gr_accountId g) k (requestHash sha (Action (Destroy version allow))) op)
    (\<lambda>d'. d' = d)"
  unfolding admitCleanup_def Let_def principal_fields
  by (intro runs_transaction_any runs_bind runs_ownMachine runs_tryMachineLock runs_advisoryLock runs_query
      runs_ownPrincipal [OF ok] runs_pure_of runs_unless)
     (auto simp: k machineRecord_def machine.truncate_def intro!: runs_replayed)

lemma admit_replays:
  assumes "schema_ok d" "g \<in> set (grants d)"
    "select_one (remembered (gr_accountId g) (admission_scope request) key) (idempotency d) = Some k"
  shows "runs d (admit sha provider source lm pin (principal_of g) request key)
    (\<lambda>op d'. d' = d \<and> replays d (gr_accountId g) k (requestHash sha (admission_command request)) op)
    (\<lambda>d'. d' = d)"
proof (cases request)
  case (Create_request p s)
  with admitOperation_replays [OF assms] show ?thesis by (simp add: admit_def)
next
  case (Action_request m a)
  with assms(3) admitOperation_replays [OF assms] admitCleanup_replays [OF assms(1,2)] show ?thesis
    by (cases a) (simp_all add: admit_def admission_scope_def admission_command_def)
qed

section \<open>Limits\<close>

lemma reservation_within:
  assumes "reservation_fits p added price cur account lm active = None" "acc_id account = accountId p"
    and "length next = length active + nat added" "0 \<le> added"
    and "total al_hourlyMicros next = total al_hourlyMicros active + price"
    and "length (owned_by (accountId p) next) = length (owned_by (accountId p) active) + nat added"
    and "total al_hourlyMicros (owned_by (accountId p) next)
           = total al_hourlyMicros (owned_by (accountId p) active) + price"
    and "list_all (\<lambda>a. al_currency a = cur) active \<Longrightarrow> list_all (\<lambda>a. al_currency a = cur) next"
  shows "within_limits lm account p cur next"
proof -
  have c: "acc_currency account = cur" "policy_currency (policy p) = cur" "lim_currency lm = cur"
    "list_all (\<lambda>a. al_currency a = cur) active"
    using assms(1) by (auto simp: reservation_fits_def Let_def list_all_iff split: if_splits)
  with assms show ?thesis
    by (simp add: reservation_fits_def within_limits_def Let_def min_def split: if_splits)
qed

lemma runs_assertReservation [wp]:
  "(reservation_fits p added price cur account lm (active_allocations d) = None \<Longrightarrow> Q () d) \<Longrightarrow> E d \<Longrightarrow>
     runs d (assertReservation p added price cur account lm) Q E"
  unfolding assertReservation_def by (intro wp) auto

lemma runs_quote [wp]: "(\<And>i. Q i d) \<Longrightarrow> E d \<Longrightarrow> runs d (quote provider source s r) Q E"
  unfolding quote_def by (intro wp) auto

lemma runs_parseOffer [wp]: "(\<And>i. x = Some i \<Longrightarrow> Q i d) \<Longrightarrow> E d \<Longrightarrow> runs d (parseOffer x) Q E"
  unfolding parseOffer_def by (intro wp) (auto split: option.splits if_splits)

lemma added_within:
  assumes "reservation_fits p 1 price cur account lm active = None" "acc_id account = accountId p"
    and "al_accountId a = accountId p" "al_hourlyMicros a = price" "al_currency a = cur"
  shows "within_limits lm account p cur (active @ [a])"
  by (rule reservation_within [OF assms(1,2)]) (use assms(3-) in \<open>auto simp: owned_by_def\<close>)

lemma create_within:
  assumes "acc_id account = accountId p"
  shows "runs d (prepareCreate provider source lm account p project spec)
    (\<lambda>(m, offer) d'. mc_projectId m = project \<and> authorizeCommand p project (Create spec) = Inr ()
       \<and> (\<exists>cur. within_limits lm account p cur (active_allocations d'))) (\<lambda>_. True)"
  unfolding prepareCreate_def Let_def
  by (intro wp)
     (auto simp: apply_stmt_def Let_def created_machine_def active_allocations_def live_def split: if_splits
       intro!: exI added_within [OF _ assms])

text \<open>Raising the reservation of one row.\<close>

lemma total_update_one:
  assumes "unique_by k xs" "a \<in> set xs"
  shows "total g (update_where (\<lambda>x. k x = k a) f xs) = total g xs + (g (f a) - g a)"
  using assms
proof (induction xs)
  case (Cons x xs)
  show ?case
  proof (cases "x = a")
    case True
    with Cons.prems have "\<forall>y\<in>set xs. k y \<noteq> k a" by (auto simp: unique_by_def image_iff)
    then have "update_where (\<lambda>x. k x = k a) f xs = xs" by (induction xs) (auto simp: update_where_def)
    with True show ?thesis by (simp add: update_where_def)
  next
    case False
    with Cons.prems have "k x \<noteq> k a" "unique_by k xs" "a \<in> set xs" by (auto simp: unique_by_def image_iff)
    with Cons.IH show ?thesis by (simp add: update_where_def)
  qed
qed simp

lemma filter_update_where:
  "(\<And>x. Q (f x) = Q x) \<Longrightarrow> filter Q (update_where P f xs) = update_where P f (filter Q xs)"
  by (induction xs) (auto simp: update_where_def)

lemma unique_filter: "unique_by k xs \<Longrightarrow> unique_by k (filter Q xs)"
  by (auto simp: unique_by_def distinct_map_filter)

lemma raised_within:
  assumes u: "unique_by al_id as" and a: "a \<in> set as" "live a" "al_accountId a = accountId p"
    and fits: "reservation_fits p 0 (r - al_hourlyMicros a) cur account lm (filter live as) = None"
    and acc: "acc_id account = accountId p"
  shows "within_limits lm account p cur
    (filter live (update_where (\<lambda>x. al_id x = al_id a) (\<lambda>x. x\<lparr>al_hourlyMicros := r\<rparr>) as))"
proof -
  let ?f = "\<lambda>x. x\<lparr>al_hourlyMicros := r\<rparr>"
  let ?up = "update_where (\<lambda>x. al_id x = al_id a) ?f"
  have l: "filter live (?up as) = ?up (filter live as)"
    by (rule filter_update_where) (simp add: live_def)
  have o: "owned_by (accountId p) (?up xs) = ?up (owned_by (accountId p) xs)" for xs
    unfolding owned_by_def by (rule filter_update_where) simp
  have t: "total al_hourlyMicros (?up (filter live as)) = total al_hourlyMicros (filter live as) + (r - al_hourlyMicros a)"
    using total_update_one [OF unique_filter [OF u], of a live al_hourlyMicros ?f] a by simp
  have "total al_hourlyMicros (?up (owned_by (accountId p) (filter live as)))
      = total al_hourlyMicros (owned_by (accountId p) (filter live as)) + (r - al_hourlyMicros a)"
    using total_update_one [OF unique_filter [OF unique_filter [OF u]], of a "\<lambda>x. al_accountId x = accountId p" live
        al_hourlyMicros ?f] a by (simp add: owned_by_def)
  with t show ?thesis unfolding l
    by (intro reservation_within [OF fits acc]) (auto simp: o list_all_iff in_update_where)
qed

lemma live_owner:
  assumes "schema_ok d" "a \<in> set (allocations d)" "m \<in> set (machines d)" "al_machineId a = mc_id m"
  shows "al_accountId a = mc_accountId m"
proof -
  from assms(1) have "references (\<lambda>a. (al_accountId a, al_machineId a)) (allocations d)
      (\<lambda>m. (mc_accountId m, mc_id m)) (machines d)" and u: "unique_by mc_id (machines d)"
    by (simp_all add: schema_ok_def allocations_ok_def machines_ok_def)
  from referencesD [OF this(1) assms(2)] obtain m'
    where "m' \<in> set (machines d)" "mc_id m' = al_machineId a" "mc_accountId m' = al_accountId a" by auto
  with unique_rowD [OF u _ assms(3)] assms(4) show ?thesis by metis
qed

lemma resize_within:
  assumes "schema_ok d" "acc_id account = accountId p"
    and a: "a \<in> set (allocations d)" "live a" "al_accountId a = accountId p"
  shows "runs d (prepareResize provider source lm account p m a s)
    (\<lambda>offer d'. \<exists>cur. within_limits lm account p cur (active_allocations d')) (\<lambda>_. True)"
proof -
  have "unique_by al_id (allocations d)" using assms(1) by (simp add: schema_ok_def allocations_ok_def)
  note w = raised_within [OF this a _ assms(2)]
  show ?thesis
    unfolding prepareResize_def Let_def
    by (intro wp)
       (auto simp: apply_stmt_def Let_def active_allocations_def split: if_splits intro!: exI w)
qed

lemma runs_bumpVersion [wp]:
  assumes "\<And>d'. allocations d' = allocations d \<Longrightarrow> Q () d'" "\<And>d'. allocations d' = allocations d \<Longrightarrow> E d'"
  shows "runs d (bumpVersion m) Q E"
  unfolding bumpVersion_def
  by (intro wp) (auto simp: apply_stmt_def Let_def split: if_splits intro!: assms)

lemma offer_within:
  assumes "schema_ok d" "acc_id account = accountId p"
    and "a \<in> set (allocations d)" "live a" "al_accountId a = accountId p"
  shows "runs d (case action of
        Resize v s \<Rightarrow> bind (prepareResize provider source lm account p m a s) (\<lambda>offer. ret (Some offer))
      | _ \<Rightarrow> ret None)
    (\<lambda>offer d'. repriced (Action action) \<longrightarrow> (\<exists>cur. within_limits lm account p cur (active_allocations d')))
    (\<lambda>_. True)"
  by (cases action) (auto intro!: runs_ret runs_bind runs_weaken [OF resize_within [OF assms]])

lemma action_within:
  assumes ok: "schema_ok d" and acc: "acc_id account = accountId p"
  shows "runs d (prepareAction provider source lm account p machine action)
    (\<lambda>(m, offer) d'. authorizeCommand p (mc_projectId m) (Action action) = Inr ()
       \<and> (repriced (Action action) \<longrightarrow> (\<exists>cur. within_limits lm account p cur (active_allocations d'))))
    (\<lambda>_. True)"
proof -
  let ?W = "\<lambda>d. repriced (Action action) \<longrightarrow> (\<exists>cur. within_limits lm account p cur (active_allocations d))"
  have bump: "runs d' (bind (bumpVersion m) (\<lambda>_. ret (m, offer)))
      (\<lambda>(m, offer) d'. authorizeCommand p (mc_projectId m) (Action action) = Inr () \<and> ?W d') (\<lambda>_. True)"
    if "?W d'" "authorizeCommand p (mc_projectId m) (Action action) = Inr ()" for m d' and offer :: "catalog_item option"
    by (intro runs_bind runs_bumpVersion runs_ret) (use that in \<open>auto simp: active_allocations_def\<close>)
  show ?thesis
    unfolding prepareAction_def Let_def
    apply (intro runs_bind runs_ownMachine runs_pure_of runs_unless runs_query runs_present TrueI)
    subgoal for row u a
      by (rule runs_weaken [OF offer_within [OF ok acc, where a = a and action = action]])
         (auto simp: live_def machineRecord_def machine.truncate_def bind_eq_Some_conv live_owner [OF ok]
           split: if_splits dest!: select_one_SomeD intro!: bump)
    done
qed

section \<open>A fresh admission\<close>

text \<open>The reservations of the account and of the deployment are within every limit.\<close>

definition limits_hold :: "limits \<Rightarrow> principal \<Rightarrow> db \<Rightarrow> bool" where
  "limits_hold lm p d \<longleftrightarrow> (\<exists>account\<in>set (accounts d). \<exists>cur. acc_id account = accountId p
     \<and> within_limits lm account p cur (active_allocations d))"

lemma limits_hold_update [simp]:
  "limits_hold lm p (d\<lparr>operations := os\<rparr>) = limits_hold lm p d"
  "limits_hold lm p (d\<lparr>idempotency := ks\<rparr>) = limits_hold lm p d"
  "limits_hold lm p (d\<lparr>audit_events := es\<rparr>) = limits_hold lm p d"
  "limits_hold lm p (d\<lparr>jobs := js\<rparr>) = limits_hold lm p d"
  by (simp_all add: limits_hold_def active_allocations_def)

definition admitted :: "limits \<Rightarrow> principal \<Rightarrow> admission \<Rightarrow> string \<Rightarrow> string \<Rightarrow> operation \<Rightarrow> db \<Rightarrow> bool" where
  "admitted lm p request key fingerprint op d \<longleftrightarrow>
     (\<exists>row\<in>set (operations d). operationRecord row = op \<and> op_command row = admission_command request)
     \<and> op_progress op = Queued \<and> op_grantId op = grantId p \<and> op_accountId op = accountId p
     \<and> op_id op \<in> set (jobs d)
     \<and> (\<exists>k\<in>set (idempotency d). remembered (accountId p) (admission_scope request) key k
          \<and> ik_requestHash k = fingerprint \<and> ik_operationId k = op_id op)
     \<and> authorizeCommand p (op_projectId op) (admission_command request) = Inr ()
     \<and> (repriced (admission_command request) \<longrightarrow> limits_hold lm p d)"

lemma runs_parseOperation [wp]: "Q op d \<Longrightarrow> E d \<Longrightarrow> runs d (parseOperation op) Q E"
  unfolding parseOperation_def by (intro wp) (auto split: if_splits)

lemma runs_pinImage [wp]: "Q () d \<Longrightarrow> E d \<Longrightarrow> runs d (pinImage pin request m op) Q E"
  unfolding pinImage_def by (auto split: option.splits admission.splits machine_state.splits intro!: wp)

lemma operationRecord_row_of [simp]: "operationRecord (operation_row_of op command offer) = op"
  by (simp add: operationRecord_def operation_row_of_def operation.truncate_def)

lemma operation_row_of_fields [simp]:
  "op_command (operation_row_of op command offer) = command"
  "op_id (operation_row_of op command offer) = op_id op"
  by (simp_all add: operation_row_of_def)

lemma prepared_within:
  assumes "schema_ok d" "account \<in> set (accounts d)" "acc_id account = accountId p"
  shows "runs d (case request of
        Create_request project spec \<Rightarrow> prepareCreate provider source lm account p project spec
      | Action_request machine action \<Rightarrow> prepareAction provider source lm account p machine action)
    (\<lambda>x d'. authorizeCommand p (mc_projectId (fst x)) (admission_command request) = Inr ()
       \<and> (repriced (admission_command request) \<longrightarrow> limits_hold lm p d')) (\<lambda>_. True)"
proof -
  have f: "footprint UNIV (case request of
        Create_request project spec \<Rightarrow> prepareCreate provider source lm account p project spec
      | Action_request machine action \<Rightarrow> prepareAction provider source lm account p machine action)"
    by (cases request) (auto intro: footprint_mono [OF footprint_prepareCreate] footprint_mono [OF footprint_prepareAction])
  have a: "runs d (case request of
        Create_request project spec \<Rightarrow> prepareCreate provider source lm account p project spec
      | Action_request machine action \<Rightarrow> prepareAction provider source lm account p machine action)
     (\<lambda>x d'. accounts d' = accounts d) (\<lambda>_. True)"
    by (rule runs_footprint [OF f]) (auto dest: fixed_tables.wrote)
  have w: "runs d (case request of
        Create_request project spec \<Rightarrow> prepareCreate provider source lm account p project spec
      | Action_request machine action \<Rightarrow> prepareAction provider source lm account p machine action)
    (\<lambda>x d'. authorizeCommand p (mc_projectId (fst x)) (admission_command request) = Inr ()
       \<and> (repriced (admission_command request) \<longrightarrow> (\<exists>cur. within_limits lm account p cur (active_allocations d'))))
    (\<lambda>_. True)"
    by (cases request)
       (auto simp: admission_command_def split_def intro!: runs_weaken [OF create_within [OF assms(3)]]
         runs_weaken [OF action_within [OF assms(1,3)]])
  show ?thesis
    by (rule runs_weaken [OF runs_conj [OF a w]]) (use assms(2,3) in \<open>auto simp: limits_hold_def\<close>)
qed

lemma newOperation_admits:
  assumes "schema_ok d" "account \<in> set (accounts d)" "acc_id account = accountId p"
  shows "runs d (newOperation provider source lm pin account p request key fingerprint)
    (admitted lm p request key fingerprint) (\<lambda>_. True)"
  unfolding newOperation_def Let_def
proof (intro runs_bind runs_new_id TrueI)
  fix u i assume "newId Operation_id u = Some i"
  show "runs d (case request of
        Create_request project spec \<Rightarrow> prepareCreate provider source lm account p project spec
      | Action_request machine action \<Rightarrow> prepareAction provider source lm account p machine action)
     (\<lambda>x d'. runs d' (bind wallTime (\<lambda>now.
       bind (parseOperation (admitted_operation p (fst x) (admission_command request) i now)) (\<lambda>op.
       bind (run (Insert_operation (operation_row_of op (admission_command request) (snd x)))) (\<lambda>_.
       bind (pinImage pin request (fst x) op) (\<lambda>_.
       bind (remember (accountId p) (admission_scope request) key fingerprint i) (\<lambda>_.
       bind (audit (accountId p) i (Operation_admitted (mc_id (fst x)) (grantId p) (op_kind op))) (\<lambda>_.
       bind (enqueueOperation i) (\<lambda>_. ret op)))))))) (admitted lm p request key fingerprint) (\<lambda>_. True))
     (\<lambda>_. True)"
    unfolding remember_def audit_def enqueueOperation_def
    by (rule runs_weaken [OF prepared_within [OF assms]], intro wp)
       (auto simp: apply_stmt_def Let_def admitted_def admitted_operation_def remembered_def
         split: if_splits)
qed

lemma admitOperation_admits:
  assumes ok: "schema_ok d" "g \<in> set (grants d)"
    and new: "select_one (remembered (gr_accountId g) (admission_scope request) key) (idempotency d) = None"
  shows "runs d (admitOperation sha provider source lm pin (principal_of g) request key)
    (admitted lm (principal_of g) request key (requestHash sha (admission_command request)))
    (\<lambda>d'. d' = d \<or> (\<exists>op. admitted lm (principal_of g) request key (requestHash sha (admission_command request)) op d'))"
  unfolding admitOperation_def Let_def principal_fields
  by (intro runs_transaction_any runs_bind runs_advisoryLock runs_lockAccount runs_ownPrincipal [OF ok] runs_query)
     (auto simp: new intro!: runs_weaken [OF newOperation_admits [OF ok(1)]])

section \<open>Fingerprints determine commands\<close>

lemma quote_split:
  "CHR ''\"'' \<notin> set xs \<Longrightarrow> CHR ''\"'' \<notin> set ys \<Longrightarrow>
     xs @ CHR ''\"'' # r = ys @ CHR ''\"'' # r' \<longleftrightarrow> xs = ys \<and> r = r'"
  by (auto simp: append_eq_append_conv2 append_eq_Cons_conv Cons_eq_append_conv)

definition digits_value :: "string \<Rightarrow> nat" where
  "digits_value = foldl (\<lambda>v c. 10 * v + (of_char c - 48)) 0"

lemma digit_chars: "c \<in> set (decimal_digits n) \<Longrightarrow> of_char c \<in> {48..57 :: nat}"
  by (induction n rule: decimal_digits.induct) (subst (asm) (2) decimal_digits.simps, auto split: if_splits)

lemma digits_value [simp]: "digits_value (decimal_digits n) = n"
  by (induction n rule: decimal_digits.induct)
     (subst decimal_digits.simps, auto simp: digits_value_def)

definition json_digit :: "char \<Rightarrow> bool" where
  "json_digit c \<longleftrightarrow> c = CHR ''-'' \<or> of_char c \<in> {48..57 :: nat}"

lemma json_int_digits: "c \<in> set (json_int v) \<Longrightarrow> json_digit c"
  by (auto simp: json_int_def json_digit_def dest: digit_chars split: if_splits)

lemma json_int_inject [simp]: "json_int v = json_int w \<longleftrightarrow> v = w"
proof
  assume e: "json_int v = json_int w"
  have digits: "decimal_digits n = decimal_digits m \<longleftrightarrow> n = m" for n m by (metis digits_value)
  have minus: "decimal_digits n \<noteq> CHR ''-'' # r" for n r
    using digit_chars [of "CHR ''-''" n] by auto
  show "v = w" using e minus minus [symmetric] by (auto simp: json_int_def digits split: if_splits)
qed simp

lemma json_int_split [simp]:
  assumes "\<not> json_digit c" "\<not> json_digit c'"
  shows "json_int v @ c # r = json_int w @ c' # r' \<longleftrightarrow> v = w \<and> c = c' \<and> r = r'"
proof -
  have t: "takeWhile json_digit (json_int v @ c # r) = json_int v" if "\<not> json_digit c" for v c r
    using that json_int_digits by (subst takeWhile_append2) auto
  show ?thesis by (metis t assms json_int_inject append_same_eq same_append_eq list.inject)
qed

lemma json_punctuation [simp]: "\<not> json_digit (CHR '','')" "\<not> json_digit (CHR ''}'')"
  by (simp_all add: json_digit_def)

definition command_ok :: "lifecycle_command \<Rightarrow> bool" where
  "command_ok c \<longleftrightarrow> (case c of Create spec \<Rightarrow> machine_spec_ok spec | Action action \<Rightarrow> True)"

lemma name_unquoted: "name_ok n \<Longrightarrow> CHR ''\"'' \<notin> set n"
  by (cases n) (auto simp: name_ok_def list_all_iff is_lower_def is_digit_def)

lemma command_json_inject:
  assumes "command_ok c" "command_ok d" "command_json c = command_json d"
  shows "c = d"
proof -
  have sizes: "size_name s = size_name s' \<longleftrightarrow> s = s'" for s s' by (cases s; cases s') simp_all
  have regions: "region_name r = region_name r' \<longleftrightarrow> r = r'" for r r' by (cases r; cases r') simp_all
  show ?thesis
  proof (cases c)
    case (Create s)
    with assms obtain s' where d: "d = Create s'"
      by (cases d rule: command_json.cases) (auto simp: versioned_json_def member_def quoted_def)
    have "CHR ''\"'' \<notin> set (size_name z)" "CHR ''\"'' \<notin> set (region_name r)" for z r
      by (cases z; simp) (cases r; simp)
    with Create assms d show ?thesis
      by (auto simp: member_def quoted_def quote_split command_ok_def machine_spec_ok_def sizes regions
          intro!: machine_spec.equality dest!: name_unquoted)
  next
    case (Action a)
    with assms(3) show ?thesis
      by (cases a; cases d rule: command_json.cases)
         (auto simp: versioned_json_def member_def quoted_def sizes split: if_splits)
  qed
qed

section \<open>Properties\<close>

text \<open>
  C14. Admission is all or nothing. A create, power change, reboot or resize with a new idempotency key
  either leaves the database as it was, or commits the operation in state queued together with its job
  and its idempotency record, for a command the grant authorizes. After a create or a resize, the
  commands that change a price, all reservations are within the machine and price limits of the account,
  the grant and the deployment in one currency; a power change or a reboot reserves nothing, and no
  limit is claimed for it. When it returns an operation it has committed it; when it fails, either
  nothing was written or only the reply of the commit was lost.
\<close>

theorem admission_all_or_nothing:
  assumes "schema_ok (store s)" "g \<in> set (grants (store s))"
    "select_one (remembered (gr_accountId g) (admission_scope request) key) (idempotency (store s)) = None"
  shows "case admitOperation sha provider source lm pin (principal_of g) request key s of
      (Inr op, t) \<Rightarrow> admitted lm (principal_of g) request key (requestHash sha (admission_command request)) op (store t)
    | (Inl e, t) \<Rightarrow> store t = store s
        \<or> (\<exists>op. admitted lm (principal_of g) request key (requestHash sha (admission_command request)) op (store t))"
  by (rule runsD [OF admitOperation_admits [OF assms]])

definition demo_root :: grant_row where
  "demo_root = \<lparr>gr_id = demo_id Grant_id, gr_accountId = demo_id Account_id, gr_parentId = None,
     gr_name = ''root'', gr_tokenHash = plain_token, gr_policy = owner_policy, gr_expiresAt = 900000,
     gr_revokedAt = None, gr_createdAt = 0\<rparr>"

definition demo_create :: admission where
  "demo_create = Create_request (demo_id Project_id) demo_spec"

definition start_process :: process where
  "start_process = \<lparr>outside = calm_at 1, ticks = 0, store = start_db, began = None\<rparr>"

lemma demo_create_admitted:
  "\<not> isl (fst (admitOperation (\<lambda>t. t) Simulated euro_catalog demo_limits None (principal_of demo_root)
     demo_create ''key-000000000001'' start_process))"
  by code_simp

theorem admission_all_or_nothing_witness:
  "\<exists>op d. admitted demo_limits (principal_of demo_root) demo_create ''key-000000000001''
     (command_json (Create demo_spec)) op d"
proof -
  have "schema_ok (store start_process)" "demo_root \<in> set (grants (store start_process))"
    "idempotency (store start_process) = []"
    using start_safe by (simp_all add: safe_def db_safe_def start_world_def start_process_def start_db_def
        demo_root_def empty_db_def)
  with admission_all_or_nothing [where s = start_process and g = demo_root and request = demo_create
      and key = "''key-000000000001''" and sha = "\<lambda>t. t" and provider = Simulated and source = euro_catalog
      and lm = demo_limits and pin = None] demo_create_admitted
  show ?thesis
    by (auto simp: requestHash_def demo_create_def admission_command_def split: prod.splits sum.splits)
qed

text \<open>
  C19. Retries are idempotent: when the idempotency key of a request is already recorded for the account
  and scope, \<open>admit\<close> writes nothing, whatever the request and however it ends; if it returns an
  operation, it is the recorded one in its current state and the fingerprint of the request is the
  recorded fingerprint, so the same key with another command is refused.
\<close>

theorem replay_writes_nothing:
  assumes "schema_ok (store s)" "g \<in> set (grants (store s))"
    "select_one (remembered (gr_accountId g) (admission_scope request) key) (idempotency (store s)) = Some k"
    "admit sha provider source lm pin (principal_of g) request key s = (r, t)"
  shows "store t = store s
    \<and> (\<forall>op. r = Inr op \<longrightarrow> ik_requestHash k = requestHash sha (admission_command request)
         \<and> (\<exists>row\<in>set (operations (store s)). op_id row = ik_operationId k
              \<and> op_accountId row = gr_accountId g \<and> op = operationRecord row))"
  using admit_replays [OF assms(1-3), of sha provider source lm pin] assms(4)
  unfolding runs_def replays_def by (cases r) fastforce+

definition replay_key :: idempotency_row where
  "replay_key = \<lparr>ik_accountId = ''acc'', ik_scope = ''project:prj:machines'', ik_key = ''key-000000000001'',
     ik_requestHash = command_json (Create demo_spec), ik_operationId = mid_id\<rparr>"

definition replay_process :: process where
  "replay_process = \<lparr>outside = calm_at 5, ticks = 0, store = mid_db\<lparr>idempotency := [replay_key]\<rparr>, began = None\<rparr>"

theorem replay_writes_nothing_witness:
  "store (snd (admit (\<lambda>t. t) Simulated euro_catalog demo_limits None
      (principal_of (demo_grant ''g0'' None demo_policy 9000)) (Create_request ''prj'' demo_spec)
      ''key-000000000001'' replay_process)) = store replay_process"
proof -
  have "schema_ok (store replay_process)" by code_simp
  moreover have "demo_grant ''g0'' None demo_policy 9000 \<in> set (grants (store replay_process))"
    by (simp add: replay_process_def mid_db_def demo_db_def)
  moreover have "select_one (remembered (gr_accountId (demo_grant ''g0'' None demo_policy 9000))
      (admission_scope (Create_request ''prj'' demo_spec)) ''key-000000000001'') (idempotency (store replay_process))
      = Some replay_key"
    by code_simp
  ultimately show ?thesis
    using replay_writes_nothing by (metis prod.collapse)
qed

text \<open>
  C40. The canonical text that is fingerprinted determines the command: two valid lifecycle commands with
  the same \<open>JSON.stringify\<close> text are equal, so a replayed key can only name the same command up to
  collisions of SHA-256.
\<close>

theorem fingerprint_determines_command:
  assumes "command_ok c" "command_ok d" "command_json c = command_json d"
  shows "c = d"
  using command_json_inject [OF assms] .

theorem fingerprint_determines_command_witness:
  "Action (Resize 7 Large) = Action (Resize (5 + 2) Large)"
  by (rule fingerprint_determines_command) (simp_all add: command_ok_def)

end
