(* ===== verification/Image_Contracts.thy ===== *)
theory Image_Contracts
  imports Contracts
begin

text \<open>
  The contracts of the image factory: \<^verbatim>\<open>image-build.ts\<close>, \<^verbatim>\<open>image-builder.ts\<close>,
  \<^verbatim>\<open>image-inputs.ts\<close>, \<^verbatim>\<open>image-verification.ts\<close>, \<^verbatim>\<open>image-release.ts\<close> and
  \<^verbatim>\<open>image-provider.ts\<close> of \<^verbatim>\<open>packages/contracts/src\<close>, and the manifest and verifier
  specification of \<^verbatim>\<open>guest.ts\<close>. Literal fields carry no information and are left out, a
  region is its text, and texts meant for people (the reasons of failures) are omitted.
\<close>

section \<open>Inputs and sources\<close>

record image_input =
  input_path :: string
  input_sha256 :: string
  input_bytes :: int

record image_artifact =
  art_version :: string
  art_file :: string
  art_url :: string
  art_sha256 :: string

record image_artifacts =
  arts_node :: image_artifact
  arts_step :: image_artifact
  arts_caddy :: image_artifact
  arts_dockerVersion :: string
  arts_composeVersion :: string
  arts_debs :: "(string \<times> image_artifact) list"

record guest_trust =
  sshUserCa :: string
  sshHostCa :: string
  tlsRoot :: string

record guest_components =
  gc_node :: string
  gc_docker :: string
  gc_compose :: string
  gc_caddy :: string
  gc_step :: string
  gc_guestctlSha256 :: string

record guest_manifest =
  man_publicInputsDigest :: string
  man_version :: string
  man_architecture :: architecture
  man_components :: guest_components
  man_trust :: guest_trust
  man_customerSsh :: bool

record image_source =
  src_manifest :: guest_manifest
  src_inputs :: "image_input list"
  src_artifacts :: image_artifacts
  src_manifestDigest :: string
  src_checksumDigest :: string

fun path_segments :: "string \<Rightarrow> string list" where
  "path_segments [] = [[]]"
| "path_segments (c # cs) = (case path_segments cs of
      [] \<Rightarrow> [[c]]
    | s # ss \<Rightarrow> if c = CHR ''/'' then [] # s # ss else (c # s) # ss)"

definition path_segment_ok :: "string \<Rightarrow> bool" where
  "path_segment_ok s \<longleftrightarrow> s \<noteq> [] \<and> is_alnum (hd s)
     \<and> list_all (\<lambda>c. is_alnum c \<or> c \<in> set ''._~+-'') (tl s)"

definition image_input_path_ok :: "string \<Rightarrow> bool" where
  "image_input_path_ok p \<longleftrightarrow> length p \<le> 240 \<and> list_all path_segment_ok (path_segments p)"

text \<open>The paths are ASCII, so JavaScript's comparison by UTF-16 units is that of the character
  codes.\<close>

fun ascending :: "string list \<Rightarrow> bool" where
  "ascending (p # q # ps) = (p < q \<and> ascending (q # ps))"
| "ascending _ = True"

definition image_inputs_ok :: "image_input list \<Rightarrow> bool" where
  "image_inputs_ok fs \<longleftrightarrow> fs \<noteq> [] \<and> length fs \<le> 64
     \<and> list_all (\<lambda>f. image_input_path_ok (input_path f) \<and> sha256_ok (input_sha256 f)
         \<and> 0 < input_bytes f \<and> input_bytes f \<le> 134217728) fs
     \<and> ascending (map input_path fs)
     \<and> list_all (\<lambda>f. input_path f \<notin> {''image.json'', ''image-inputs.json'', ''SHA256SUMS''}) fs"

definition image_provider_id_ok :: "string \<Rightarrow> bool" where
  "image_provider_id_ok s \<longleftrightarrow> s \<noteq> [] \<and> length s \<le> 20 \<and> hd s \<noteq> CHR ''0'' \<and> list_all is_digit s"

section \<open>Resources and labels\<close>

datatype image_kind = Im_server | Im_primary_ip | Im_ssh_key | Im_firewall | Im_snapshot

datatype image_role =
    Builder | Builder_ip | Verifier | Verifier_ip | Access_key | Access_firewall | Snapshot

record image_ref =
  im_kind :: image_kind
  im_id :: string

fun kind_name :: "image_kind \<Rightarrow> string" where
  "kind_name Im_server = ''server''"
| "kind_name Im_primary_ip = ''primary_ip''"
| "kind_name Im_ssh_key = ''ssh_key''"
| "kind_name Im_firewall = ''firewall''"
| "kind_name Im_snapshot = ''snapshot''"

fun role_name :: "image_role \<Rightarrow> string" where
  "role_name Builder = ''builder''"
| "role_name Builder_ip = ''builder_ip''"
| "role_name Verifier = ''verifier''"
| "role_name Verifier_ip = ''verifier_ip''"
| "role_name Access_key = ''access_key''"
| "role_name Access_firewall = ''access_firewall''"
| "role_name Snapshot = ''snapshot''"

fun imageRoleKind :: "image_role \<Rightarrow> image_kind" where
  "imageRoleKind Builder = Im_server"
| "imageRoleKind Verifier = Im_server"
| "imageRoleKind Builder_ip = Im_primary_ip"
| "imageRoleKind Verifier_ip = Im_primary_ip"
| "imageRoleKind Access_key = Im_ssh_key"
| "imageRoleKind Access_firewall = Im_firewall"
| "imageRoleKind Snapshot = Im_snapshot"

record build_labels =
  lb_buildId :: id
  lb_role :: image_role

text \<open>The labels as the string map the provider stores.\<close>

definition label_map :: "build_labels \<Rightarrow> labels" where
  "label_map l = [(''managed_by'', ''agent-cloud''), (''scope'', ''image-build''),
     (''build_id'', lb_buildId l), (''role'', role_name (lb_role l))]"

definition imageBuildLabels :: "id \<Rightarrow> image_role \<Rightarrow> build_labels" where
  "imageBuildLabels build role = \<lparr>lb_buildId = build, lb_role = role\<rparr>"

definition imageEffectLabels :: "id \<Rightarrow> image_role \<Rightarrow> id \<Rightarrow> labels" where
  "imageEffectLabels build role effect =
     label_map (imageBuildLabels build role) @ [(''effect_id'', effect)]"

section \<open>Admission and state of a build\<close>

record image_storage_price =
  sp_currency :: currency
  sp_grossMicrosPerGbMonth :: micros
  sp_observedAt :: instant
  sp_expiresAt :: instant

record image_access =
  ac_managementAddress :: string
  ac_publicKey :: string
  ac_hostPublicKey :: string
  ac_secretId :: string

record image_budget =
  bu_currency :: currency
  bu_maxVmGrossMicros :: micros
  bu_maxSnapshotMonthlyGrossMicros :: micros
  bu_maxSnapshotGb :: int

datatype retention = Verification_only | Retain instant

record image_admission =
  ad_id :: id
  ad_source :: image_source
  ad_offer :: catalog_item
  ad_storagePrice :: image_storage_price
  ad_baseImageId :: string
  ad_access :: image_access
  ad_budget :: image_budget
  ad_admittedAt :: instant
  ad_deadlineAt :: instant
  ad_retention :: retention

record image_limits =
  il_currency :: currency
  il_maxOpenBuilds :: int
  il_maxVmGrossMicros :: micros
  il_maxSnapshotMonthlyGrossMicros :: micros

datatype cleanup_reason = Cleanup_requested | Cleanup_expired | Cleanup_failed

datatype build_state =
    Running | Releasing | Retained instant | Cleaning cleanup_reason | Cleaned instant

section \<open>Commands and outcomes\<close>

record sanitation_receipt =
  san_builderId :: id
  san_manifestDigest :: string

datatype boot_data = Build_secret string string | Verifier_secret id string

record server_request =
  sr_name :: string
  sr_labels :: build_labels
  sr_serverType :: string
  sr_region :: string
  sr_imageId :: string
  sr_primaryIpId :: string
  sr_sshKeyId :: string
  sr_firewallId :: string
  sr_bootData :: boot_data

datatype image_command =
    Create_ssh_key string build_labels string
  | Create_firewall string build_labels string
  | Create_image_ip string build_labels string
  | Create_image_server server_request
  | Power_off_builder string sanitation_receipt
  | Create_snapshot string build_labels string
  | Delete_image image_ref

text \<open>\<open>isImageCreate\<close> is \<open>'labels' in command\<close>.\<close>

fun image_labels :: "image_command \<Rightarrow> build_labels option" where
  "image_labels (Create_ssh_key n l k) = Some l"
| "image_labels (Create_firewall n l a) = Some l"
| "image_labels (Create_image_ip n l r) = Some l"
| "image_labels (Create_image_server r) = Some (sr_labels r)"
| "image_labels (Create_snapshot n l s) = Some l"
| "image_labels (Power_off_builder s w) = None"
| "image_labels (Delete_image r) = None"

definition isImageCreate :: "image_command \<Rightarrow> bool" where
  "isImageCreate c \<longleftrightarrow> image_labels c \<noteq> None"

text \<open>The kind of resource a create command makes (\<open>command.kind.slice(7)\<close>).\<close>

fun image_created_kind :: "image_command \<Rightarrow> image_kind option" where
  "image_created_kind (Create_ssh_key n l k) = Some Im_ssh_key"
| "image_created_kind (Create_firewall n l a) = Some Im_firewall"
| "image_created_kind (Create_image_ip n l r) = Some Im_primary_ip"
| "image_created_kind (Create_image_server r) = Some Im_server"
| "image_created_kind (Create_snapshot n l s) = Some Im_snapshot"
| "image_created_kind (Power_off_builder s w) = None"
| "image_created_kind (Delete_image r) = None"

lemma isImageCreate_simps [simp]:
  "isImageCreate (Create_ssh_key n l k)" "isImageCreate (Create_firewall n l a)"
  "isImageCreate (Create_image_ip n l r)" "isImageCreate (Create_image_server q)"
  "isImageCreate (Create_snapshot n l s)"
  "\<not> isImageCreate (Power_off_builder s w)" "\<not> isImageCreate (Delete_image ref)"
  by (simp_all add: isImageCreate_def)

datatype image_submission =
    Im_accepted image_ref string
  | Im_completed image_ref
  | Im_rejected
  | Im_unknown

datatype image_outcome = Im_prepared | Im_submitted image_submission

datatype image_resolution = Im_pending | Im_superseded id | Im_confirmed instant | Im_failed

section \<open>Builder work and verification\<close>

record install_receipt =
  ins_builderId :: id
  ins_manifestDigest :: string
  ins_machineId :: string

datatype builder_progress =
    Installing
  | Installed install_receipt
  | Sanitizing install_receipt
  | Sanitized install_receipt sanitation_receipt

datatype image_installation = Not_started | Started | Installed_already install_receipt

record builder_record =
  bw_effectId :: id
  bw_serverId :: string
  bw_progress :: builder_progress

datatype builder_work = Work_waiting | Work_recorded builder_record

record guest_image =
  gi_providerImage :: string
  gi_architecture :: architecture
  gi_version :: string
  gi_manifestDigest :: string
  gi_trust :: guest_trust
  gi_customerSsh :: bool

record verifier_spec =
  vs_subject :: id
  vs_enrollmentUrl :: string
  vs_expiresAt :: instant
  vs_image :: guest_image

record issued_identity =
  ii_sshHostCertificate :: string
  ii_tlsCertificate :: string
  ii_issuedAt :: instant

text \<open>A \<open>GuestIdentity\<close>: claimed keys, with certificates once it is issued.\<close>

record guest_identity =
  gd_sshHostPublicKey :: string
  gd_tlsCsr :: string
  gd_imageVersion :: string
  gd_issued :: "issued_identity option"

text \<open>A version or disk check is \<open>None\<close> when it is unavailable. The customer SSH check is also
  optional as a field.\<close>

record runtime_checks =
  rc_node :: "string option"
  rc_docker :: "string option"
  rc_compose :: "string option"
  rc_caddy :: "string option"
  rc_step :: "string option"
  rc_disk :: "(int \<times> int) option"
  rc_proxy :: "(id \<times> string) option"
  rc_customerSsh :: "bool option"

record verifier_proof =
  pf_subject :: id
  pf_sshHostPublicKey :: string
  pf_tlsCsr :: string
  pf_imageVersion :: string
  pf_manifestDigest :: string

record verifier_runtime =
  rt_proof :: verifier_proof
  rt_manifest :: guest_manifest
  rt_architecture :: architecture
  rt_bootId :: string
  rt_machineId :: string
  rt_checks :: runtime_checks

record verification_result =
  vr_serverId :: string
  vr_effectId :: id
  vr_snapshotId :: string
  vr_runtime :: verifier_runtime
  vr_verifiedAt :: instant

datatype image_verification =
    Ver_waiting
  | Ver_prepared verifier_spec
  | Ver_claimed verifier_spec guest_identity
  | Ver_enrolled verifier_spec guest_identity
  | Ver_verified verifier_spec guest_identity verification_result

definition machine_id_ok :: "string \<Rightarrow> bool" where
  "machine_id_ok s \<longleftrightarrow> length s = 32 \<and> list_all is_hex s"

definition base64_char :: "char \<Rightarrow> bool" where
  "base64_char c \<longleftrightarrow> is_alnum c \<or> c \<in> set ''+/''"

definition base64_ok :: "string \<Rightarrow> bool" where
  "base64_ok s = (let padding = dropWhile base64_char s
     in takeWhile base64_char s \<noteq> [] \<and> padding \<in> {[], ''='', ''==''})"

definition ssh_public_key_ok :: "string \<Rightarrow> bool" where
  "ssh_public_key_ok s \<longleftrightarrow> length s \<le> 512 \<and> take 12 s = ''ssh-ed25519 '' \<and> base64_ok (drop 12 s)"

section \<open>Releases (image-release.ts)\<close>

record release_snapshot =
  rs_id :: string
  rs_sourceServerId :: string
  rs_diskGb :: int
  rs_sourceStoppedAt :: instant
  rs_createdAt :: instant

record release_evidence =
  ev_buildId :: id
  ev_retainUntil :: instant
  ev_manifest :: guest_manifest
  ev_inputs :: "image_input list"
  ev_artifacts :: image_artifacts
  ev_sanitation :: sanitation_receipt
  ev_sanitizedServer :: string
  ev_snapshot :: release_snapshot
  ev_bootServer :: string
  ev_bootId :: string
  ev_bootDigest :: string
  ev_checkedAt :: instant

record signed_release =
  sg_evidence :: release_evidence
  sg_issuedAt :: instant
  sg_keyId :: string
  sg_value :: string

datatype image_publication =
    Pub_waiting
  | Pub_prepared release_evidence
  | Pub_published signed_release

section \<open>Provider answers (image-provider.ts)\<close>

record image_base =
  base_id :: string
  base_type :: string
  base_status :: string
  base_architecture :: architecture
  base_osFlavor :: string
  base_osVersion :: "string option"
  base_diskGb :: rat
  base_deprecated :: bool
  base_deleted :: bool

datatype image_action = Image_action provider_action | Action_missing

definition imageActionTarget :: "image_command \<Rightarrow> image_ref \<Rightarrow> image_ref" where
  "imageActionTarget command resource = (case command of
      Create_snapshot n l s \<Rightarrow> \<lparr>im_kind = Im_server, im_id = s\<rparr>
    | _ \<Rightarrow> resource)"

datatype image_power = Im_running | Im_off | Im_transitioning

datatype snapshot_status = Snap_creating | Snap_available | Snap_unavailable

record firewall_rule =
  fr_direction :: string
  fr_protocol :: string
  fr_port :: "string option"
  fr_sourceIps :: "string list"
  fr_destinationIps :: "string list"

datatype firewall_attachment = Attached_server string | Attached_selector string

record server_body =
  sb_name :: string
  sb_serverType :: string
  sb_region :: string
  sb_architecture :: architecture
  sb_power :: image_power
  sb_imageId :: "string option"
  sb_primaryIpId :: "string option"
  sb_ipv4 :: "string option"
  sb_firewalls :: "(string \<times> string) list"
  sb_deleteProtected :: bool
  sb_diskGb :: int

record address_body =
  ab_region :: string
  ab_ipv4 :: string
  ab_autoDelete :: bool
  ab_serverId :: "string option"

record key_body =
  kb_publicKey :: string
  kb_fingerprint :: string

record firewall_body =
  fb_rules :: "firewall_rule list"
  fb_attachments :: "firewall_attachment list"

record snapshot_body =
  nb_architecture :: architecture
  nb_status :: snapshot_status
  nb_sourceServerId :: "string option"
  nb_imageSizeGb :: "rat option"
  nb_diskGb :: int
  nb_deleteProtected :: bool
  nb_createdAt :: instant

datatype image_body =
    Server_body server_body
  | Address_body address_body
  | Key_body key_body
  | Firewall_body firewall_body
  | Snapshot_body snapshot_body

fun body_kind :: "image_body \<Rightarrow> image_kind" where
  "body_kind (Server_body b) = Im_server"
| "body_kind (Address_body b) = Im_primary_ip"
| "body_kind (Key_body b) = Im_ssh_key"
| "body_kind (Firewall_body b) = Im_firewall"
| "body_kind (Snapshot_body b) = Im_snapshot"

text \<open>\<open>id\<close> and \<open>labels\<close> are common to all kinds.\<close>

record image_resource =
  ir_id :: string
  ir_labels :: labels
  ir_body :: image_body

definition ir_kind :: "image_resource \<Rightarrow> image_kind" where
  "ir_kind r = body_kind (ir_body r)"

datatype resource_state = Unverified | Observed image_resource instant | Absent instant

fun is_absent :: "resource_state \<Rightarrow> bool" where
  "is_absent (Absent t) = True"
| "is_absent _ = False"

fun is_observed :: "resource_state \<Rightarrow> bool" where
  "is_observed (Observed r t) = True"
| "is_observed _ = False"

section \<open>What the schemas accept\<close>

fun split_at :: "char \<Rightarrow> string \<Rightarrow> string list" where
  "split_at x [] = [[]]"
| "split_at x (c # cs) = (if c = x then [] # split_at x cs
     else (case split_at x cs of [] \<Rightarrow> [[c]] | s # ss \<Rightarrow> (c # s) # ss))"

definition octet_ok :: "string \<Rightarrow> bool" where
  "octet_ok s \<longleftrightarrow> whole_ok s \<and> length s \<le> 3 \<and> nat_of_digits s \<le> 255"

definition ipv4_ok :: "string \<Rightarrow> bool" where
  "ipv4_ok s = (let parts = split_at (CHR ''.'') s in length parts = 4 \<and> list_all octet_ok parts)"

definition ca_public_key_ok :: "string \<Rightarrow> bool" where
  "ca_public_key_ok s \<longleftrightarrow> length s \<le> 512
     \<and> (take 12 s = ''ssh-ed25519 '' \<and> base64_ok (drop 12 s)
        \<or> take 20 s = ''ecdsa-sha2-nistp256 '' \<and> base64_ok (drop 20 s))"

definition image_version_ok :: "string \<Rightarrow> bool" where
  "image_version_ok s \<longleftrightarrow> s \<noteq> [] \<and> length s \<le> 64
     \<and> list_all (\<lambda>c. is_alnum c \<or> c \<in> set ''._-'') s"

definition guest_manifest_ok :: "guest_manifest \<Rightarrow> bool" where
  "guest_manifest_ok m \<longleftrightarrow> sha256_ok (man_publicInputsDigest m) \<and> image_version_ok (man_version m)
     \<and> gc_node (man_components m) \<noteq> [] \<and> gc_docker (man_components m) \<noteq> []
     \<and> gc_compose (man_components m) \<noteq> [] \<and> gc_caddy (man_components m) \<noteq> []
     \<and> gc_step (man_components m) \<noteq> [] \<and> sha256_ok (gc_guestctlSha256 (man_components m))
     \<and> ca_public_key_ok (sshUserCa (man_trust m)) \<and> ca_public_key_ok (sshHostCa (man_trust m))
     \<and> tlsRoot (man_trust m) \<noteq> [] \<and> length (tlsRoot (man_trust m)) \<le> 8192"

text \<open>The artifacts of a source are not inspected beyond their shape.\<close>

definition image_source_ok :: "image_source \<Rightarrow> bool" where
  "image_source_ok s \<longleftrightarrow> guest_manifest_ok (src_manifest s) \<and> image_inputs_ok (src_inputs s)
     \<and> sha256_ok (src_manifestDigest s) \<and> sha256_ok (src_checksumDigest s)"

definition image_admission_ok :: "image_admission \<Rightarrow> bool" where
  "image_admission_ok a \<longleftrightarrow> zod_uuid (ad_id a) \<and> image_source_ok (ad_source a)
     \<and> catalog_item_ok (ad_offer a) \<and> currency_ok (sp_currency (ad_storagePrice a))
     \<and> micros_ok (sp_grossMicrosPerGbMonth (ad_storagePrice a))
     \<and> image_provider_id_ok (ad_baseImageId a)
     \<and> ipv4_ok (ac_managementAddress (ad_access a)) \<and> ssh_public_key_ok (ac_publicKey (ad_access a))
     \<and> ssh_public_key_ok (ac_hostPublicKey (ad_access a)) \<and> zod_uuid (ac_secretId (ad_access a))
     \<and> currency_ok (bu_currency (ad_budget a)) \<and> micros_ok (bu_maxVmGrossMicros (ad_budget a))
     \<and> micros_ok (bu_maxSnapshotMonthlyGrossMicros (ad_budget a))
     \<and> 0 < bu_maxSnapshotGb (ad_budget a) \<and> bu_maxSnapshotGb (ad_budget a) \<le> 1024"

end
