(* ===== verification/Image_Budget.thy ===== *)
theory Image_Budget
  imports Effects Image_Contracts
begin

text \<open>
  \<^verbatim>\<open>apps/control/src/image-budget.ts\<close>: what an image build may cost. \<open>imageReservation\<close> is
  the worst case of an admission, \<open>checkImageAdmission\<close> and \<open>checkImagePrices\<close> the checks of
  an admission and of current prices, \<open>parseImageReservations\<close> and \<open>checkImageLimits\<close> the sum
  over all open builds against the operator's limits. A refusal is the thrown exception.
\<close>

record image_reservation =
  res_currency :: currency
  res_openBuilds :: int
  res_vmGrossMicros :: micros
  res_snapshotMonthlyGrossMicros :: micros

record image_cost =
  cost_vmGrossMicros :: micros
  cost_snapshotMonthlyGrossMicros :: micros

definition refusal :: "error_code \<Rightarrow> exn + 'a" where
  "refusal c = Inl (Cloud (cloud_error c))"

text \<open>\<open>Math.ceil\<close> of the duration in hours.\<close>

definition hours_up :: "int \<Rightarrow> int" where
  "hours_up duration = (duration + 3599999) div 3600000"

definition imageReservation :: "image_admission \<Rightarrow> exn + image_cost" where
  "imageReservation a =
     (let duration = ad_deadlineAt a - ad_admittedAt a in
      if duration \<le> 0 \<or> 86400000 < duration then refusal Invalid_input
      else (case (micros_parse (2 * hours_up duration * item_hourlyMicros (ad_offer a)),
                  micros_parse (bu_maxSnapshotGb (ad_budget a)
                    * sp_grossMicrosPerGbMonth (ad_storagePrice a))) of
              (Some vm, Some snap) \<Rightarrow>
                Inr \<lparr>cost_vmGrossMicros = vm, cost_snapshotMonthlyGrossMicros = snap\<rparr>
            | _ \<Rightarrow> Inl Defect))"

definition checkImagePrices :: "image_admission \<Rightarrow> catalog \<Rightarrow> image_storage_price \<Rightarrow> instant \<Rightarrow> exn + unit" where
  "checkImagePrices a catalog storage now =
     (let offer = ad_offer a in
      case selectOffer catalog (item_size offer) (item_region offer) now of
        Inl f \<Rightarrow> Inl (Cloud f)
      | Inr current \<Rightarrow>
          if cat_provider catalog \<noteq> Hetzner \<or> pricing catalog \<noteq> Basis_account_gross
             \<or> serverType current \<noteq> serverType offer
             \<or> architecture_of current \<noteq> architecture_of offer
             \<or> diskGb current \<noteq> diskGb offer \<or> memoryGb current \<noteq> memoryGb offer
             \<or> vcpus current \<noteq> vcpus offer
          then refusal Capacity_unavailable
          else if item_currency current \<noteq> item_currency offer
             \<or> sp_currency storage \<noteq> item_currency offer
             \<or> serverHourlyMicros offer < serverHourlyMicros current
             \<or> ipv4HourlyMicros offer < ipv4HourlyMicros current
             \<or> sp_grossMicrosPerGbMonth (ad_storagePrice a) < sp_grossMicrosPerGbMonth storage
          then refusal Budget_exceeded
          else if now + 5000 < sp_observedAt storage \<or> sp_expiresAt storage \<le> now
             \<or> sp_expiresAt storage \<le> sp_observedAt storage
          then Inl (Cloud (cloud_error_retryable Provider_unavailable))
          else Inr ())"

definition retention_ok :: "image_admission \<Rightarrow> bool" where
  "retention_ok a = (case ad_retention a of
      Verification_only \<Rightarrow> True
    | Retain expiry \<Rightarrow> ad_deadlineAt a < expiry \<and> expiry \<le> ad_admittedAt a + 30 * 86400000)"

definition checkImageAdmission :: "image_admission \<Rightarrow> instant \<Rightarrow> exn + unit" where
  "checkImageAdmission a now =
     (let offer = ad_offer a; budget = ad_budget a; storage = ad_storagePrice a in
      if priceBasis offer \<noteq> Basis_account_gross \<or> \<not> available offer
         \<or> item_currency offer \<noteq> bu_currency budget \<or> sp_currency storage \<noteq> bu_currency budget
         \<or> man_architecture (src_manifest (ad_source a)) \<noteq> architecture_of offer
         \<or> bu_maxSnapshotGb budget < diskGb offer
      then refusal Invalid_input
      else if 5000 < \<bar>ad_admittedAt a - now\<bar> \<or> ad_deadlineAt a \<le> now then refusal Invalid_input
      else if \<not> retention_ok a then refusal Invalid_input
      else (case imageReservation a of
              Inl e \<Rightarrow> Inl e
            | Inr cost \<Rightarrow>
                if bu_maxVmGrossMicros budget < cost_vmGrossMicros cost
                   \<or> bu_maxSnapshotMonthlyGrossMicros budget < cost_snapshotMonthlyGrossMicros cost
                then refusal Budget_exceeded else Inr ()))"

fun closed_state :: "build_state \<Rightarrow> bool" where
  "closed_state (Retained t) = True"
| "closed_state (Cleaned t) = True"
| "closed_state _ = False"

fun cleaned_state :: "build_state \<Rightarrow> bool" where
  "cleaned_state (Cleaned t) = True"
| "cleaned_state _ = False"

definition image_reservation_of :: "image_admission \<times> build_state \<Rightarrow> image_reservation" where
  "image_reservation_of row = (case row of (a, state) \<Rightarrow>
     \<lparr>res_currency = bu_currency (ad_budget a),
      res_openBuilds = (if closed_state state then 0 else 1),
      res_vmGrossMicros = (if closed_state state then 0 else bu_maxVmGrossMicros (ad_budget a)),
      res_snapshotMonthlyGrossMicros =
        (if cleaned_state state then 0 else bu_maxSnapshotMonthlyGrossMicros (ad_budget a))\<rparr>)"

definition parseImageReservations :: "(image_admission \<times> build_state) list \<Rightarrow> image_reservation list" where
  "parseImageReservations rows = map image_reservation_of rows"

definition checkImageLimits :: "image_reservation list \<Rightarrow> image_limits \<Rightarrow> exn + unit" where
  "checkImageLimits rs limits =
     (if il_maxOpenBuilds limits < total res_openBuilds rs
         \<or> list_ex (\<lambda>r. res_currency r \<noteq> il_currency limits) rs
         \<or> il_maxVmGrossMicros limits < total res_vmGrossMicros rs
         \<or> il_maxSnapshotMonthlyGrossMicros limits < total res_snapshotMonthlyGrossMicros rs
      then refusal Budget_exceeded else Inr ())"

definition from_sum :: "exn + 'a \<Rightarrow> ('s, 'a) prog" where
  "from_sum r = (case r of Inl e \<Rightarrow> raise e | Inr x \<Rightarrow> ret x)"

section \<open>What the checks mean\<close>

lemma hours_up_bounds:
  assumes "0 < d"
  shows "1 \<le> hours_up d" and "d \<le> 3600000 * hours_up d" and "3600000 * (hours_up d - 1) < d"
  using assms by (simp_all add: hours_up_def)

lemma hours_up_mono: "a \<le> b \<Longrightarrow> hours_up a \<le> hours_up b"
  by (simp add: hours_up_def zdiv_mono1)

lemma imageReservation_ok:
  assumes "imageReservation a = Inr c"
  shows "0 < ad_deadlineAt a - ad_admittedAt a" and "ad_deadlineAt a - ad_admittedAt a \<le> 86400000"
    and "cost_vmGrossMicros c
           = 2 * hours_up (ad_deadlineAt a - ad_admittedAt a) * item_hourlyMicros (ad_offer a)"
    and "cost_snapshotMonthlyGrossMicros c
           = bu_maxSnapshotGb (ad_budget a) * sp_grossMicrosPerGbMonth (ad_storagePrice a)"
  using assms
  by (auto simp: imageReservation_def Let_def refusal_def micros_parse_def split: if_splits)

lemma checkImageAdmission_ok:
  assumes "checkImageAdmission a now = Inr u"
  obtains c where "imageReservation a = Inr c"
    and "cost_vmGrossMicros c \<le> bu_maxVmGrossMicros (ad_budget a)"
    and "cost_snapshotMonthlyGrossMicros c \<le> bu_maxSnapshotMonthlyGrossMicros (ad_budget a)"
    and "\<bar>ad_admittedAt a - now\<bar> \<le> 5000" and "now < ad_deadlineAt a"
    and "diskGb (ad_offer a) \<le> bu_maxSnapshotGb (ad_budget a)"
  using assms
  by (auto simp: checkImageAdmission_def Let_def refusal_def split: if_splits sum.splits)

lemma checkImageLimits_ok:
  "checkImageLimits rs limits = Inr u \<longleftrightarrow>
     total res_openBuilds rs \<le> il_maxOpenBuilds limits
     \<and> list_all (\<lambda>r. res_currency r = il_currency limits) rs
     \<and> total res_vmGrossMicros rs \<le> il_maxVmGrossMicros limits
     \<and> total res_snapshotMonthlyGrossMicros rs \<le> il_maxSnapshotMonthlyGrossMicros limits"
  by (auto simp: checkImageLimits_def refusal_def list_ex_iff list_all_iff)

end
