(* ===== verification/Image_Store.thy ===== *)
theory Image_Store
  imports Journal Image_Budget
begin

text \<open>
  The tables of the image factory in \<^verbatim>\<open>packages/db/src/schema.ts\<close>, the statements the factory
  issues on them and the constraints and triggers of the migrations 0009 to 0016 that accept or
  reject a statement (the last replacement of each trigger function). Updates are by key, so each
  is a constructor that carries the new column value; there is no \<open>DELETE\<close>. The provider column
  is always \<open>hetzner\<close>. The text formats of the sealed bootstrap token, of the enrollment
  address and of the value of a signature are not checked.
\<close>

section \<open>Tables\<close>

record image_build_row =
  ib_id :: id
  ib_admission :: image_admission
  ib_state :: build_state
  ib_runRequestedAt :: "instant option"
  ib_accessRemovedAt :: "instant option"

record image_effect_row =
  ef_id :: id
  ef_buildId :: id
  ef_key :: string
  ef_command :: image_command
  ef_outcome :: image_outcome
  ef_resolution :: image_resolution
  ef_createdAt :: instant

record image_resource_row =
  rr_ref :: image_ref
  rr_buildId :: id
  rr_effectId :: id
  rr_role :: image_role
  rr_state :: resource_state

record builder_work_row =
  wk_buildId :: id
  wk_record :: builder_record

record verifier_bootstrap_row =
  bt_buildId :: id
  bt_snapshotId :: string
  bt_spec :: verifier_spec
  bt_tokenHash :: string
  bt_sealedToken :: "string option"
  bt_expiresAt :: instant
  bt_consumedAt :: "instant option"

record verifier_identity_row =
  vi_buildId :: id
  vi_effectId :: id
  vi_serverId :: string
  vi_identity :: guest_identity

datatype signing_purpose = Probe_signing | Identity_signing | Runtime_signing

record signing_attempt_row =
  sn_buildId :: id
  sn_purpose :: signing_purpose
  sn_sequence :: int
  sn_createdAt :: instant

record verifier_result_row =
  vt_buildId :: id
  vt_result :: verification_result

record publication_row =
  pb_buildId :: id
  pb_evidence :: release_evidence
  pb_release :: "signed_release option"

record allocation_image_row =
  pn_allocationId :: id
  pn_accountId :: id
  pn_operationId :: id
  pn_buildId :: id
  pn_snapshotId :: string

record image_db =
  ib_builds :: "image_build_row list"
  ib_effects :: "image_effect_row list"
  ib_resources :: "image_resource_row list"
  ib_work :: "builder_work_row list"
  ib_bootstraps :: "verifier_bootstrap_row list"
  ib_identities :: "verifier_identity_row list"
  ib_signings :: "signing_attempt_row list"
  ib_results :: "verifier_result_row list"
  ib_publications :: "publication_row list"
  ib_pins :: "allocation_image_row list"
  ib_jobs :: "(id \<times> instant) list"

section \<open>Statements\<close>

datatype image_statement =
    Insert_build id image_admission
  | Set_build_state id build_state
  | Request_run id
  | Remove_access id
  | Insert_effect id id string image_command
  | Set_image_outcome id image_outcome
  | Set_image_resolution id image_resolution
  | Insert_image_resource image_ref id id image_role
  | Set_resource_state image_ref id resource_state
  | Insert_builder_work id id string
  | Set_builder_progress id builder_progress
  | Insert_verifier_bootstrap id string verifier_spec string string instant
  | Consume_bootstrap id instant
  | Insert_identity id id string guest_identity
  | Set_identity id guest_identity
  | Insert_signing id signing_purpose int
  | Insert_result id verification_result
  | Insert_publication id release_evidence
  | Set_release id signed_release
  | Insert_pin allocation_image_row
  | Schedule_build id instant

section \<open>Lookups\<close>

definition build_in :: "image_db \<Rightarrow> id \<Rightarrow> image_build_row option" where
  "build_in d i = select_one (\<lambda>b. ib_id b = i) (ib_builds d)"

definition effects_of :: "image_db \<Rightarrow> id \<Rightarrow> image_effect_row list" where
  "effects_of d i = filter (\<lambda>e. ef_buildId e = i) (ib_effects d)"

definition resources_of :: "image_db \<Rightarrow> id \<Rightarrow> image_resource_row list" where
  "resources_of d i = filter (\<lambda>r. rr_buildId r = i) (ib_resources d)"

definition effect_in :: "image_db \<Rightarrow> id \<Rightarrow> image_effect_row option" where
  "effect_in d i = select_one (\<lambda>e. ef_id e = i) (ib_effects d)"

definition resource_in :: "image_db \<Rightarrow> image_ref \<Rightarrow> image_resource_row option" where
  "resource_in d ref = select_one (\<lambda>r. rr_ref r = ref) (ib_resources d)"

definition work_in :: "image_db \<Rightarrow> id \<Rightarrow> builder_record option" where
  "work_in d i = map_option wk_record (select_one (\<lambda>w. wk_buildId w = i) (ib_work d))"

definition bootstrap_in :: "image_db \<Rightarrow> id \<Rightarrow> verifier_bootstrap_row option" where
  "bootstrap_in d i = select_one (\<lambda>b. bt_buildId b = i) (ib_bootstraps d)"

definition identity_in :: "image_db \<Rightarrow> id \<Rightarrow> verifier_identity_row option" where
  "identity_in d i = select_one (\<lambda>r. vi_buildId r = i) (ib_identities d)"

definition result_in :: "image_db \<Rightarrow> id \<Rightarrow> verification_result option" where
  "result_in d i = map_option vt_result (select_one (\<lambda>r. vt_buildId r = i) (ib_results d))"

definition publication_in :: "image_db \<Rightarrow> id \<Rightarrow> publication_row option" where
  "publication_in d i = select_one (\<lambda>p. pb_buildId p = i) (ib_publications d)"

definition pending_in :: "image_db \<Rightarrow> id \<Rightarrow> bool" where
  "pending_in d i = list_ex (\<lambda>e. ef_resolution e = Im_pending) (effects_of d i)"

definition open_build :: "image_db \<Rightarrow> id \<Rightarrow> bool" where
  "open_build d i = (case build_in d i of None \<Rightarrow> False | Some b \<Rightarrow> \<not> cleaned_state (ib_state b))"

definition active_build :: "instant \<Rightarrow> image_build_row \<Rightarrow> bool" where
  "active_build clock b \<longleftrightarrow> ib_state b = Running \<and> clock < ad_deadlineAt (ib_admission b)"

text \<open>All resources of a build are absent, but for its snapshot when it is kept.\<close>

definition all_absent :: "image_db \<Rightarrow> id \<Rightarrow> bool \<Rightarrow> bool" where
  "all_absent d i keep = list_all (\<lambda>r. is_absent (rr_state r) \<or> (keep \<and> rr_role r = Snapshot))
     (resources_of d i)"

section \<open>Snapshot pins (0016)\<close>

definition pin_created :: "db \<Rightarrow> allocation_image_row \<Rightarrow> bool" where
  "pin_created d p = list_ex (\<lambda>e. at_operationId e = pn_operationId p \<and> at_accountId e = pn_accountId p
     \<and> (case at_command e of
          Create_guest n t r l w b \<Rightarrow> bootstrap_allocation b = pn_allocationId p | _ \<Rightarrow> False)
     \<and> (case at_resolution e of
          Res_confirmed (Observed_server s) \<Rightarrow>
            label_of (srv_labels s) ''allocation_id'' = Some (pn_allocationId p)
            \<and> label_of (srv_labels s) ''operation_id'' = Some (pn_operationId p)
        | _ \<Rightarrow> False)) (attempts d)"

definition pin_retired :: "db \<Rightarrow> allocation_image_row \<Rightarrow> allocation_row \<Rightarrow> bool" where
  "pin_retired d p a \<longleftrightarrow> al_retiredAt a \<noteq> None
     \<and> \<not> list_ex (\<lambda>e. at_operationId e = pn_operationId p \<and> at_resolution e = Res_pending) (attempts d)
     \<and> \<not> list_ex (\<lambda>r. pr_allocationId r = pn_allocationId p \<and> pr_absentAt r = None) (resources d)"

definition image_snapshot_in_use :: "db \<Rightarrow> image_db \<Rightarrow> id \<Rightarrow> bool" where
  "image_snapshot_in_use c d build = list_ex (\<lambda>p. pn_buildId p = build
     \<and> list_ex (\<lambda>a. al_id a = pn_allocationId p \<and> al_accountId a = pn_accountId p
          \<and> \<not> (pin_created c p \<or> pin_retired c p a)) (allocations c)) (ib_pins d)"

section \<open>Triggers\<close>

text \<open>\<open>guard_image_build\<close> (0016) for an update of the state column.\<close>

definition guard_build_state :: "instant \<Rightarrow> image_db \<Rightarrow> image_build_row \<Rightarrow> build_state \<Rightarrow> bool" where
  "guard_build_state clock d old new \<longleftrightarrow> ib_state old = new \<or>
     (case (ib_state old, new) of
        (Running, Cleaning r) \<Rightarrow> True
      | (Releasing, Cleaning r) \<Rightarrow> True
      | (Retained t, Cleaning r) \<Rightarrow> True
      | (Running, Releasing) \<Rightarrow> clock < ad_deadlineAt (ib_admission old)
          \<and> (case publication_in d (ib_id old) of None \<Rightarrow> False | Some p \<Rightarrow> pb_release p = None)
      | (Releasing, Retained t) \<Rightarrow>
          (case Option.bind (publication_in d (ib_id old)) pb_release of
             None \<Rightarrow> False | Some r \<Rightarrow> sg_issuedAt r = t)
          \<and> \<not> pending_in d (ib_id old) \<and> all_absent d (ib_id old) True
      | (Cleaning r, Cleaned t) \<Rightarrow> \<not> pending_in d (ib_id old) \<and> all_absent d (ib_id old) False
      | _ \<Rightarrow> False)"

text \<open>\<open>guard_image_workflow\<close> (0016).\<close>

definition guard_run_request :: "instant \<Rightarrow> image_build_row \<Rightarrow> bool" where
  "guard_run_request clock b \<longleftrightarrow> ib_runRequestedAt b = None \<and> active_build clock b"

fun after_running :: "build_state \<Rightarrow> bool" where
  "after_running Running = False"
| "after_running _ = True"

definition guard_access_removal :: "image_db \<Rightarrow> image_build_row \<Rightarrow> bool" where
  "guard_access_removal d b \<longleftrightarrow> after_running (ib_state b) \<and> all_absent d (ib_id b) True
     \<and> \<not> pending_in d (ib_id b)"

text \<open>\<open>guard_image_build_effect\<close> (0015) for an inserted row.\<close>

definition create_key :: "image_role \<Rightarrow> string" where
  "create_key role = ''create:'' @ role_name role"

definition guard_create_effect :: "image_db \<Rightarrow> id \<Rightarrow> string \<Rightarrow> image_command \<Rightarrow> bool" where
  "guard_create_effect d build key command = (case image_labels command of
      None \<Rightarrow> True
    | Some l \<Rightarrow> image_created_kind command = Some (imageRoleKind (lb_role l))
        \<and> key = create_key (lb_role l) \<and> lb_buildId l = build \<and> \<not> pending_in d build)"

definition guard_delete_effect :: "image_db \<Rightarrow> image_build_row \<Rightarrow> image_command \<Rightarrow> bool" where
  "guard_delete_effect d b command = (case command of
      Delete_image ref \<Rightarrow>
        (case ib_state b of Cleaning r \<Rightarrow> True | Releasing \<Rightarrow> im_kind ref \<noteq> Im_snapshot | _ \<Rightarrow> False)
        \<and> list_ex (\<lambda>r. rr_ref r = ref \<and> \<not> is_absent (rr_state r)) (resources_of d (ib_id b))
    | _ \<Rightarrow> True)"

fun deletes_image :: "image_command \<Rightarrow> bool" where
  "deletes_image (Delete_image ref) = True"
| "deletes_image _ = False"

definition guard_effect_insert :: "instant \<Rightarrow> image_db \<Rightarrow> id \<Rightarrow> string \<Rightarrow> image_command \<Rightarrow> bool" where
  "guard_effect_insert clock d build key command = (case build_in d build of
      None \<Rightarrow> False
    | Some b \<Rightarrow> \<not> cleaned_state (ib_state b)
        \<and> (deletes_image command \<or> active_build clock b)
        \<and> guard_create_effect d build key command \<and> guard_delete_effect d b command)"

text \<open>\<open>guard_image_snapshot_evidence\<close> (0013).\<close>

definition stop_confirmed :: "image_db \<Rightarrow> id \<Rightarrow> string \<Rightarrow> sanitation_receipt \<Rightarrow> bool" where
  "stop_confirmed d build server receipt = list_ex (\<lambda>e. ef_command e = Power_off_builder server receipt
     \<and> (case ef_resolution e of Im_confirmed t \<Rightarrow> True | _ \<Rightarrow> False)) (effects_of d build)"

definition guard_snapshot_evidence :: "image_db \<Rightarrow> id \<Rightarrow> image_command \<Rightarrow> bool" where
  "guard_snapshot_evidence d build command = (case command of
      Power_off_builder s receipt \<Rightarrow> (case work_in d build of
          Some w \<Rightarrow> bw_serverId w = s
            \<and> (case bw_progress w of Sanitized i p \<Rightarrow> receipt = p | _ \<Rightarrow> False)
        | None \<Rightarrow> False)
    | Create_snapshot n l s \<Rightarrow> (case work_in d build of
          Some w \<Rightarrow> bw_serverId w = s
            \<and> (case bw_progress w of Sanitized i p \<Rightarrow> stop_confirmed d build s p | _ \<Rightarrow> False)
        | None \<Rightarrow> False)
    | _ \<Rightarrow> True)"

text \<open>\<open>guard_snapshot_pins\<close> (0016) and \<open>guard_image_verifier_effect\<close> (0014).\<close>

definition guard_snapshot_pins :: "db \<Rightarrow> image_db \<Rightarrow> id \<Rightarrow> image_command \<Rightarrow> bool" where
  "guard_snapshot_pins c d build command = (case command of
      Delete_image ref \<Rightarrow> im_kind ref = Im_snapshot \<longrightarrow> \<not> image_snapshot_in_use c d build
    | _ \<Rightarrow> True)"

definition guard_verifier_effect :: "instant \<Rightarrow> image_db \<Rightarrow> id \<Rightarrow> image_command \<Rightarrow> bool" where
  "guard_verifier_effect clock d build command = (case command of
      Create_image_server r \<Rightarrow> lb_role (sr_labels r) = Verifier \<longrightarrow>
        (case bootstrap_in d build of
           None \<Rightarrow> False
         | Some b \<Rightarrow> bt_consumedAt b = None \<and> clock < bt_expiresAt b \<and> sr_imageId r = bt_snapshotId b
             \<and> sr_bootData r = Verifier_secret build (gi_manifestDigest (vs_image (bt_spec b))))
    | _ \<Rightarrow> True)"

text \<open>\<open>guard_image_build_effect\<close> for updates of outcome and resolution.\<close>

definition guard_image_outcome :: "image_db \<Rightarrow> image_effect_row \<Rightarrow> image_outcome \<Rightarrow> bool" where
  "guard_image_outcome d old new \<longleftrightarrow> open_build d (ef_buildId old)
     \<and> (new = ef_outcome old \<or> ef_outcome old = Im_prepared)"

fun may_retry :: "image_command \<Rightarrow> bool" where
  "may_retry (Delete_image r) = True"
| "may_retry (Power_off_builder s w) = True"
| "may_retry _ = False"

fun uncertain :: "image_outcome \<Rightarrow> bool" where
  "uncertain Im_prepared = True"
| "uncertain (Im_submitted Im_unknown) = True"
| "uncertain (Im_submitted (Im_accepted r a)) = True"
| "uncertain _ = False"

definition guard_image_resolution :: "image_db \<Rightarrow> image_effect_row \<Rightarrow> image_resolution \<Rightarrow> bool" where
  "guard_image_resolution d old new \<longleftrightarrow> open_build d (ef_buildId old)
     \<and> (new = ef_resolution old \<or> ef_resolution old = Im_pending
         \<and> (case new of
              Im_superseded by \<Rightarrow> may_retry (ef_command old) \<and> uncertain (ef_outcome old)
                \<and> list_ex (\<lambda>e. ef_id e = by \<and> ef_id e \<noteq> ef_id old \<and> ef_command e = ef_command old
                     \<and> ef_outcome e = Im_prepared \<and> ef_resolution e = Im_pending)
                    (effects_of d (ef_buildId old))
            | _ \<Rightarrow> True))"

text \<open>\<open>guard_image_build_resource\<close> (0012) and \<open>guard_provider_resource_scope\<close> (0009).\<close>

fun customer_kind :: "resource_kind \<Rightarrow> image_kind" where
  "customer_kind Server = Im_server"
| "customer_kind Primary_ip = Im_primary_ip"

definition customer_resource :: "db \<Rightarrow> image_ref \<Rightarrow> bool" where
  "customer_resource c ref = list_ex (\<lambda>r. pr_provider r = Hetzner \<and> customer_kind (pr_kind r) = im_kind ref
     \<and> pr_providerId r = im_id ref) (resources c)"

definition guard_resource_insert :: "db \<Rightarrow> image_db \<Rightarrow> image_ref \<Rightarrow> id \<Rightarrow> id \<Rightarrow> image_role \<Rightarrow> bool" where
  "guard_resource_insert c d ref build effect role \<longleftrightarrow> open_build d build
     \<and> (case select_one (\<lambda>e. ef_id e = effect) (effects_of d build) of
          None \<Rightarrow> False
        | Some e \<Rightarrow> map_option lb_role (image_labels (ef_command e)) = Some role)
     \<and> im_kind ref = imageRoleKind role \<and> image_provider_id_ok (im_id ref)
     \<and> \<not> customer_resource c ref"

definition guard_resource_state :: "image_db \<Rightarrow> image_resource_row \<Rightarrow> resource_state \<Rightarrow> bool" where
  "guard_resource_state d old new \<longleftrightarrow> open_build d (rr_buildId old)
     \<and> (new = rr_state old \<or> \<not> is_absent (rr_state old)
         \<and> (case new of
              Unverified \<Rightarrow> False
            | Absent t \<Rightarrow> True
            | Observed r t \<Rightarrow> ir_id r = im_id (rr_ref old) \<and> ir_kind r = im_kind (rr_ref old)
                \<and> matchesLabels (ir_labels r)
                    (imageEffectLabels (rr_buildId old) (rr_role old) (rr_effectId old))))"

text \<open>\<open>guard_image_builder_work\<close> (0013).\<close>

definition fresh_execution :: "instant \<Rightarrow> image_db \<Rightarrow> image_build_row \<Rightarrow> bool" where
  "fresh_execution clock d b \<longleftrightarrow> active_build clock b \<and> \<not> pending_in d (ib_id b)"

definition guard_work_insert :: "instant \<Rightarrow> image_db \<Rightarrow> id \<Rightarrow> id \<Rightarrow> string \<Rightarrow> bool" where
  "guard_work_insert clock d build effect server = (case build_in d build of
      None \<Rightarrow> False
    | Some b \<Rightarrow> \<not> cleaned_state (ib_state b)
        \<and> list_ex (\<lambda>e. ef_id e = effect
             \<and> (case ef_command e of Create_image_server r \<Rightarrow> lb_role (sr_labels r) = Builder | _ \<Rightarrow> False)
             \<and> (case ef_resolution e of Im_confirmed t \<Rightarrow> True | _ \<Rightarrow> False)) (effects_of d build)
        \<and> list_ex (\<lambda>r. rr_effectId r = effect \<and> rr_role r = Builder
             \<and> rr_ref r = \<lparr>im_kind = Im_server, im_id = server\<rparr> \<and> is_observed (rr_state r)) (resources_of d build)
        \<and> fresh_execution clock d b)"

definition install_evidence :: "image_build_row \<Rightarrow> install_receipt \<Rightarrow> bool" where
  "install_evidence b r \<longleftrightarrow> machine_id_ok (ins_machineId r) \<and> ins_builderId r = ib_id b
     \<and> ins_manifestDigest r = src_manifestDigest (ad_source (ib_admission b))"

definition sanitation_evidence :: "image_build_row \<Rightarrow> sanitation_receipt \<Rightarrow> bool" where
  "sanitation_evidence b s \<longleftrightarrow> san_builderId s = ib_id b
     \<and> san_manifestDigest s = src_manifestDigest (ad_source (ib_admission b))"

definition guard_progress :: "instant \<Rightarrow> image_db \<Rightarrow> id \<Rightarrow> builder_progress \<Rightarrow> builder_progress \<Rightarrow> bool" where
  "guard_progress clock d build old new = (case build_in d build of
      None \<Rightarrow> False
    | Some b \<Rightarrow> \<not> cleaned_state (ib_state b)
        \<and> (new = old \<or>
           (case (old, new) of
              (Installing, Installed r) \<Rightarrow> install_evidence b r
            | (Installed r, Sanitizing r') \<Rightarrow> r' = r \<and> install_evidence b r' \<and> fresh_execution clock d b
            | (Sanitizing r, Sanitized r' s) \<Rightarrow>
                r' = r \<and> install_evidence b r' \<and> sanitation_evidence b s
            | _ \<Rightarrow> False)))"

text \<open>\<open>guard_image_verifier_bootstrap\<close> (0014) for an inserted row. Its expected image has the
  fields \<open>providerImage\<close>, \<open>architecture\<close>, \<open>version\<close>, \<open>manifestDigest\<close> and those of the trust
  object, hence no \<open>customerSsh\<close>.\<close>

definition expected_image :: "image_admission \<Rightarrow> string \<Rightarrow> guest_image" where
  "expected_image a snapshot = (let m = src_manifest (ad_source a) in
     \<lparr>gi_providerImage = snapshot, gi_architecture = man_architecture m, gi_version = man_version m,
      gi_manifestDigest = src_manifestDigest (ad_source a), gi_trust = man_trust m,
      gi_customerSsh = False\<rparr>)"

definition sanitized_snapshot :: "image_db \<Rightarrow> id \<Rightarrow> string \<Rightarrow> bool" where
  "sanitized_snapshot d build snapshot = (case work_in d build of
      None \<Rightarrow> False
    | Some w \<Rightarrow> (case bw_progress w of Sanitized i s \<Rightarrow> True | _ \<Rightarrow> False)
        \<and> list_ex (\<lambda>r. rr_role r = Snapshot \<and> rr_ref r = \<lparr>im_kind = Im_snapshot, im_id = snapshot\<rparr>
             \<and> (case rr_state r of
                  Observed ob t \<Rightarrow> (case ir_body ob of
                      Snapshot_body n \<Rightarrow> nb_sourceServerId n = Some (bw_serverId w) \<and> nb_status n = Snap_available
                    | _ \<Rightarrow> False)
                | _ \<Rightarrow> False)
             \<and> list_ex (\<lambda>e. ef_id e = rr_effectId r
                  \<and> (case ef_resolution e of Im_confirmed t \<Rightarrow> True | _ \<Rightarrow> False)) (effects_of d build))
            (resources_of d build))"

definition guard_bootstrap_insert ::
    "instant \<Rightarrow> image_db \<Rightarrow> id \<Rightarrow> string \<Rightarrow> verifier_spec \<Rightarrow> string \<Rightarrow> instant \<Rightarrow> bool" where
  "guard_bootstrap_insert clock d build snapshot spec hash expires = (case build_in d build of
      None \<Rightarrow> False
    | Some b \<Rightarrow> active_build clock b \<and> image_provider_id_ok snapshot \<and> sha256_ok hash
        \<and> clock < expires \<and> expires \<le> clock + 1800000 \<and> expires \<le> ad_deadlineAt (ib_admission b)
        \<and> vs_expiresAt spec = expires \<and> vs_subject spec = build
        \<and> vs_image spec = expected_image (ib_admission b) snapshot
        \<and> sanitized_snapshot d build snapshot)"

text \<open>\<open>require_active_image_verifier\<close>, the update half of \<open>guard_image_verifier_bootstrap\<close>,
  \<open>guard_image_verifier_identity_owner\<close> and \<open>guard_image_verifier_signing\<close> (0014), and
  \<open>guard_guest_identity\<close> (0006).\<close>

definition active_verifier :: "instant \<Rightarrow> image_db \<Rightarrow> id \<Rightarrow> bool" where
  "active_verifier clock d build =
     (case build_in d build of None \<Rightarrow> False | Some b \<Rightarrow> active_build clock b)"

definition identity_issued :: "image_db \<Rightarrow> id \<Rightarrow> bool" where
  "identity_issued d build = (case identity_in d build of
      None \<Rightarrow> False | Some r \<Rightarrow> gd_issued (vi_identity r) \<noteq> None)"

definition guard_bootstrap_consumed :: "instant \<Rightarrow> image_db \<Rightarrow> verifier_bootstrap_row \<Rightarrow> bool" where
  "guard_bootstrap_consumed clock d old \<longleftrightarrow> active_verifier clock d (bt_buildId old)
     \<and> bt_consumedAt old = None \<and> identity_issued d (bt_buildId old)"

definition blank :: "char \<Rightarrow> bool" where
  "blank c \<longleftrightarrow> (of_char c :: nat) \<in> {9, 10, 11, 12, 13, 32}"

definition nonblank :: "string \<Rightarrow> bool" where
  "nonblank s = list_ex (\<lambda>c. \<not> blank c) s"

definition issued_lengths :: "guest_identity \<Rightarrow> bool" where
  "issued_lengths g = (case gd_issued g of
      None \<Rightarrow> True
    | Some i \<Rightarrow> length (ii_sshHostCertificate i) \<le> 16384 \<and> length (ii_tlsCertificate i) \<le> 16384)"

definition verifier_boot :: "image_db \<Rightarrow> verifier_bootstrap_row \<Rightarrow> id \<Rightarrow> id \<Rightarrow> string \<Rightarrow> bool" where
  "verifier_boot d boot build effect server \<longleftrightarrow>
     list_ex (\<lambda>e. ef_id e = effect \<and> (case ef_command e of
          Create_image_server r \<Rightarrow> lb_role (sr_labels r) = Verifier \<and> sr_imageId r = bt_snapshotId boot
            \<and> sr_bootData r = Verifier_secret build (gi_manifestDigest (vs_image (bt_spec boot)))
        | _ \<Rightarrow> False)
        \<and> (case ef_resolution e of Im_confirmed t \<Rightarrow> True | _ \<Rightarrow> False)) (effects_of d build)
     \<and> list_ex (\<lambda>r. rr_effectId r = effect \<and> rr_role r = Verifier
          \<and> rr_ref r = \<lparr>im_kind = Im_server, im_id = server\<rparr> \<and> is_observed (rr_state r)) (resources_of d build)"

definition guard_identity_owner :: "instant \<Rightarrow> image_db \<Rightarrow> id \<Rightarrow> id \<Rightarrow> string \<Rightarrow> guest_identity \<Rightarrow> bool" where
  "guard_identity_owner clock d build effect server g \<longleftrightarrow> active_verifier clock d build
     \<and> (case bootstrap_in d build of
          None \<Rightarrow> False
        | Some boot \<Rightarrow> bt_consumedAt boot = None \<and> clock < bt_expiresAt boot
            \<and> gd_imageVersion g = gi_version (vs_image (bt_spec boot))
            \<and> verifier_boot d boot build effect server)
     \<and> ssh_public_key_ok (gd_sshHostPublicKey g) \<and> length (gd_tlsCsr g) \<le> 8192
     \<and> length (gd_imageVersion g) \<le> 64 \<and> issued_lengths g"

definition guard_identity_insert :: "guest_identity \<Rightarrow> bool" where
  "guard_identity_insert g \<longleftrightarrow> gd_issued g = None \<and> nonblank (gd_sshHostPublicKey g)
     \<and> nonblank (gd_tlsCsr g) \<and> nonblank (gd_imageVersion g)"

definition guard_identity_update :: "guest_identity \<Rightarrow> guest_identity \<Rightarrow> bool" where
  "guard_identity_update old new \<longleftrightarrow> new = old \<or>
     gd_issued old = None \<and> new\<lparr>gd_issued := None\<rparr> = old
     \<and> (case gd_issued new of
          None \<Rightarrow> False
        | Some i \<Rightarrow> nonblank (ii_sshHostCertificate i) \<and> nonblank (ii_tlsCertificate i))"

definition signing_limit :: "signing_purpose \<Rightarrow> int" where
  "signing_limit p = (if p = Identity_signing then 4 else 12)"

definition last_signing :: "image_db \<Rightarrow> id \<Rightarrow> signing_purpose \<Rightarrow> signing_attempt_row option" where
  "last_signing d build p = last_option (sort_key sn_sequence
     (filter (\<lambda>r. sn_buildId r = build \<and> sn_purpose r = p) (ib_signings d)))"

definition guard_signing_phase :: "instant \<Rightarrow> image_db \<Rightarrow> id \<Rightarrow> signing_purpose \<Rightarrow> bool" where
  "guard_signing_phase clock d build p = (case bootstrap_in d build of
      None \<Rightarrow> False
    | Some boot \<Rightarrow> (case p of
          Runtime_signing \<Rightarrow> identity_issued d build
        | _ \<Rightarrow> \<not> identity_issued d build \<and> bt_consumedAt boot = None \<and> clock < bt_expiresAt boot)
        \<and> (p = Identity_signing \<longrightarrow> (case identity_in d build of
             None \<Rightarrow> False | Some r \<Rightarrow> gd_issued (vi_identity r) = None)))"

definition guard_signing :: "instant \<Rightarrow> instant \<Rightarrow> image_db \<Rightarrow> id \<Rightarrow> signing_purpose \<Rightarrow> int \<Rightarrow> bool" where
  "guard_signing now clock d build p n \<longleftrightarrow> active_verifier clock d build \<and> guard_signing_phase clock d build p
     \<and> n = (case last_signing d build p of None \<Rightarrow> 1 | Some r \<Rightarrow> sn_sequence r + 1)
     \<and> n \<le> signing_limit p
     \<and> (case last_signing d build p of None \<Rightarrow> True | Some r \<Rightarrow> sn_createdAt r + 30000 \<le> clock)
     \<and> \<bar>now - clock\<bar> \<le> 5000"

text \<open>\<open>guard_image_verifier_result\<close> (0014). The seven checks it allows do not include that of
  customer SSH.\<close>

definition lower_uuid :: "string \<Rightarrow> bool" where
  "lower_uuid s \<longleftrightarrow> zod_uuid s \<and> list_all (\<lambda>c. c = CHR ''-'' \<or> is_hex c) s"

definition healthy_checks :: "guest_manifest \<Rightarrow> id \<Rightarrow> runtime_checks \<Rightarrow> bool" where
  "healthy_checks m subject c \<longleftrightarrow> rc_node c = Some (gc_node (man_components m))
     \<and> rc_docker c = Some (gc_docker (man_components m)) \<and> rc_compose c = Some (gc_compose (man_components m))
     \<and> rc_caddy c = Some (gc_caddy (man_components m)) \<and> rc_step c = Some (gc_step (man_components m))
     \<and> (case rc_disk c of
          None \<Rightarrow> False
        | Some (free, whole) \<Rightarrow> 1073741824 \<le> free \<and> free \<le> whole \<and> whole \<le> 9007199254740991)
     \<and> rc_proxy c = Some (subject, man_version m) \<and> rc_customerSsh c = None"

definition guard_result :: "instant \<Rightarrow> image_db \<Rightarrow> id \<Rightarrow> verification_result \<Rightarrow> bool" where
  "guard_result clock d build v \<longleftrightarrow> active_verifier clock d build \<and>
     (case (build_in d build, bootstrap_in d build, identity_in d build, work_in d build) of
        (Some b, Some boot, Some row, Some w) \<Rightarrow>
          let m = src_manifest (ad_source (ib_admission b)); rt = vr_runtime v; g = vi_identity row in
          gd_issued g \<noteq> None \<and> bt_consumedAt boot \<noteq> None \<and> vi_serverId row \<noteq> bw_serverId w
          \<and> (case bw_progress w of Sanitized i s \<Rightarrow> rt_machineId rt \<noteq> ins_machineId i | _ \<Rightarrow> False)
          \<and> rt_proof rt = \<lparr>pf_subject = vs_subject (bt_spec boot), pf_sshHostPublicKey = gd_sshHostPublicKey g,
               pf_tlsCsr = gd_tlsCsr g, pf_imageVersion = man_version m,
               pf_manifestDigest = src_manifestDigest (ad_source (ib_admission b))\<rparr>
          \<and> rt_manifest rt = m \<and> rt_architecture rt = man_architecture m
          \<and> machine_id_ok (rt_machineId rt) \<and> lower_uuid (rt_bootId rt)
          \<and> healthy_checks m (vs_subject (bt_spec boot)) (rt_checks rt)
          \<and> vr_serverId v = vi_serverId row \<and> vr_effectId v = vi_effectId row
          \<and> vr_snapshotId v = bt_snapshotId boot \<and> \<bar>vr_verifiedAt v - clock\<bar> \<le> 30000
      | _ \<Rightarrow> False)"

text \<open>\<open>guard_image_publication\<close> (0015) and \<open>guard_release_access_cleanup\<close> (0016).\<close>

definition evidence_expected :: "image_build_row \<Rightarrow> builder_record \<Rightarrow> verification_result \<Rightarrow> string \<Rightarrow> snapshot_body \<Rightarrow> instant \<Rightarrow> release_evidence option" where
  "evidence_expected b w v snapshot n stopped = (case (bw_progress w, ad_retention (ib_admission b)) of
      (Sanitized i s, Retain after) \<Rightarrow> Some
        \<lparr>ev_buildId = ib_id b, ev_retainUntil = after,
         ev_manifest = src_manifest (ad_source (ib_admission b)),
         ev_inputs = src_inputs (ad_source (ib_admission b)),
         ev_artifacts = src_artifacts (ad_source (ib_admission b)),
         ev_sanitation = s, ev_sanitizedServer = bw_serverId w,
         ev_snapshot = \<lparr>rs_id = snapshot, rs_sourceServerId = bw_serverId w, rs_diskGb = nb_diskGb n,
           rs_sourceStoppedAt = stopped, rs_createdAt = nb_createdAt n\<rparr>,
         ev_bootServer = vr_serverId v, ev_bootId = rt_bootId (vr_runtime v),
         ev_bootDigest = pf_manifestDigest (rt_proof (vr_runtime v)), ev_checkedAt = vr_verifiedAt v\<rparr>
    | _ \<Rightarrow> None)"

definition stopped_at :: "image_db \<Rightarrow> id \<Rightarrow> string \<Rightarrow> instant option" where
  "stopped_at d build server = Option.bind
     (select_one (\<lambda>e. (case (ef_command e, ef_resolution e) of
        (Power_off_builder s w, Im_confirmed t) \<Rightarrow> s = server | _ \<Rightarrow> False)) (effects_of d build))
     (\<lambda>e. case ef_resolution e of Im_confirmed t \<Rightarrow> Some t | _ \<Rightarrow> None)"

definition guard_publication_snapshot :: "image_db \<Rightarrow> image_build_row \<Rightarrow> builder_record \<Rightarrow> verification_result \<Rightarrow> image_resource_row \<Rightarrow> release_evidence \<Rightarrow> bool" where
  "guard_publication_snapshot d b w v r evidence = (case (rr_state r, stopped_at d (ib_id b) (bw_serverId w)) of
      (Observed ob t, Some stopped) \<Rightarrow> (case ir_body ob of
          Snapshot_body n \<Rightarrow> nb_status n = Snap_available \<and> nb_sourceServerId n = Some (bw_serverId w)
            \<and> nb_diskGb n = diskGb (ad_offer (ib_admission b))
            \<and> nb_architecture n = architecture_of (ad_offer (ib_admission b))
            \<and> \<not> nb_deleteProtected n \<and> vr_snapshotId v = im_id (rr_ref r)
            \<and> list_ex (\<lambda>e. ef_id e = rr_effectId r
                 \<and> (case ef_resolution e of Im_confirmed t \<Rightarrow> True | _ \<Rightarrow> False)) (ib_effects d)
            \<and> evidence_expected b w v (im_id (rr_ref r)) n stopped = Some evidence
            \<and> stopped \<le> nb_createdAt n \<and> nb_createdAt n \<le> vr_verifiedAt v
        | _ \<Rightarrow> False)
    | _ \<Rightarrow> False)"

definition guard_publication_insert :: "instant \<Rightarrow> image_db \<Rightarrow> id \<Rightarrow> release_evidence \<Rightarrow> bool" where
  "guard_publication_insert clock d build evidence =
     (case (build_in d build, work_in d build, result_in d build,
            filter (\<lambda>r. rr_role r = Snapshot) (resources_of d build)) of
        (Some b, Some w, Some v, [r]) \<Rightarrow> ib_state b = Running \<and> clock < ad_deadlineAt (ib_admission b)
          \<and> ad_retention (ib_admission b) \<noteq> Verification_only \<and> \<not> pending_in d build
          \<and> guard_publication_snapshot d b w v r evidence
      | _ \<Rightarrow> False)"

definition guard_release :: "instant \<Rightarrow> image_db \<Rightarrow> publication_row \<Rightarrow> signed_release \<Rightarrow> bool" where
  "guard_release clock d old new = (case build_in d (pb_buildId old) of
      None \<Rightarrow> False
    | Some b \<Rightarrow> ad_retention (ib_admission b) \<noteq> Verification_only
        \<and> clock < ad_deadlineAt (ib_admission b) \<and> pb_release old = None \<and> ib_state b = Releasing
        \<and> sg_evidence new = pb_evidence old \<and> sha256_ok (sg_keyId new)
        \<and> ev_checkedAt (sg_evidence new) \<le> sg_issuedAt new \<and> sg_issuedAt new \<le> clock
        \<and> clock < ev_retainUntil (sg_evidence new)
        \<and> \<not> pending_in d (ib_id b) \<and> all_absent d (ib_id b) True
        \<and> list_ex (\<lambda>r. rr_role r = Snapshot \<and> im_id (rr_ref r) = rs_id (ev_snapshot (sg_evidence new))
             \<and> (case rr_state r of
                  Observed ob t \<Rightarrow> (case ir_body ob of Snapshot_body n \<Rightarrow> nb_status n = Snap_available | _ \<Rightarrow> False)
                | _ \<Rightarrow> False)) (resources_of d (ib_id b))
        \<and> ib_accessRemovedAt b \<noteq> None)"

text \<open>\<open>guard_allocation_image\<close> (0016); the table of guest bootstraps is not modelled.\<close>

definition pin_fits :: "signed_release \<Rightarrow> allocation_row \<Rightarrow> operation_row \<Rightarrow> bool" where
  "pin_fits r a op \<longleftrightarrow> al_provider a = Hetzner \<and> al_retiredAt a = None \<and> op_kind op = Op_create
     \<and> op_progress op = Queued \<and> op_machineId op = al_machineId a
     \<and> (case al_offer a of
          None \<Rightarrow> False
        | Some offer \<Rightarrow> man_architecture (ev_manifest (sg_evidence r)) = architecture_of offer
            \<and> rs_diskGb (ev_snapshot (sg_evidence r)) \<le> diskGb offer)
     \<and> op_createdAt op + 1800000 < ev_retainUntil (sg_evidence r)"

definition guard_pin :: "db \<Rightarrow> image_db \<Rightarrow> allocation_image_row \<Rightarrow> bool" where
  "guard_pin c d p =
     (case (build_in d (pn_buildId p), Option.bind (publication_in d (pn_buildId p)) pb_release,
            select_one (\<lambda>a. al_id a = pn_allocationId p \<and> al_accountId a = pn_accountId p) (allocations c),
            select_one (\<lambda>x. op_id x = pn_operationId p \<and> op_accountId x = pn_accountId p) (operations c)) of
        (Some b, Some r, Some a, Some op) \<Rightarrow>
          (case ib_state b of Retained t \<Rightarrow> True | _ \<Rightarrow> False)
          \<and> pn_snapshotId p = rs_id (ev_snapshot (sg_evidence r)) \<and> pin_fits r a op
          \<and> \<not> list_ex (\<lambda>e. at_operationId e = pn_operationId p) (attempts c)
      | _ \<Rightarrow> False)"

section \<open>Accepted statements\<close>

text \<open>Primary keys, unique and foreign key constraints of the inserts, and the triggers. A
  conflicting resource insert does nothing (\<open>ON CONFLICT DO NOTHING\<close>), but its triggers run
  first.\<close>

fun image_accepts :: "instant \<Rightarrow> instant \<Rightarrow> db \<Rightarrow> image_statement \<Rightarrow> image_db \<Rightarrow> bool" where
  "image_accepts now clock c (Insert_build i a) d = (build_in d i = None \<and> ad_id a = i)"
| "image_accepts now clock c (Set_build_state i s) d =
     (case build_in d i of None \<Rightarrow> True | Some b \<Rightarrow> guard_build_state clock d b s)"
| "image_accepts now clock c (Request_run i) d =
     (case build_in d i of None \<Rightarrow> True | Some b \<Rightarrow> guard_run_request clock b)"
| "image_accepts now clock c (Remove_access i) d =
     (case build_in d i of None \<Rightarrow> True
      | Some b \<Rightarrow> ib_accessRemovedAt b = None \<longrightarrow> guard_access_removal d b)"
| "image_accepts now clock c (Insert_effect i build key command) d =
     (effect_in d i = None \<and> \<not> list_ex (\<lambda>e. ef_key e = key) (effects_of d build)
      \<and> guard_effect_insert clock d build key command \<and> guard_snapshot_evidence d build command
      \<and> guard_snapshot_pins c d build command \<and> guard_verifier_effect clock d build command)"
| "image_accepts now clock c (Set_image_outcome i x) d =
     (case effect_in d i of None \<Rightarrow> True | Some e \<Rightarrow> guard_image_outcome d e x)"
| "image_accepts now clock c (Set_image_resolution i x) d =
     (case effect_in d i of None \<Rightarrow> True | Some e \<Rightarrow> guard_image_resolution d e x)"
| "image_accepts now clock c (Insert_image_resource ref build effect role) d =
     guard_resource_insert c d ref build effect role"
| "image_accepts now clock c (Set_resource_state ref build x) d =
     (case resource_in d ref of None \<Rightarrow> True
      | Some r \<Rightarrow> rr_buildId r = build \<longrightarrow> guard_resource_state d r x)"
| "image_accepts now clock c (Insert_builder_work build effect server) d =
     (work_in d build = None \<and> guard_work_insert clock d build effect server)"
| "image_accepts now clock c (Set_builder_progress build p) d =
     (case work_in d build of None \<Rightarrow> True | Some w \<Rightarrow> guard_progress clock d build (bw_progress w) p)"
| "image_accepts now clock c (Insert_verifier_bootstrap build snapshot spec hash sealed expires) d =
     (bootstrap_in d build = None \<and> guard_bootstrap_insert clock d build snapshot spec hash expires)"
| "image_accepts now clock c (Consume_bootstrap build t) d =
     (case bootstrap_in d build of None \<Rightarrow> True | Some b \<Rightarrow> guard_bootstrap_consumed clock d b)"
| "image_accepts now clock c (Insert_identity build effect server g) d =
     (identity_in d build = None \<and> guard_identity_owner clock d build effect server g
      \<and> guard_identity_insert g)"
| "image_accepts now clock c (Set_identity build g) d =
     (case identity_in d build of None \<Rightarrow> True
      | Some r \<Rightarrow> guard_identity_owner clock d build (vi_effectId r) (vi_serverId r) g
          \<and> guard_identity_update (vi_identity r) g)"
| "image_accepts now clock c (Insert_signing build p n) d =
     (\<not> list_ex (\<lambda>r. sn_buildId r = build \<and> sn_purpose r = p \<and> sn_sequence r = n) (ib_signings d)
      \<and> guard_signing now clock d build p n)"
| "image_accepts now clock c (Insert_result build v) d =
     (result_in d build = None \<and> guard_result clock d build v)"
| "image_accepts now clock c (Insert_publication build evidence) d =
     (publication_in d build = None \<and> guard_publication_insert clock d build evidence)"
| "image_accepts now clock c (Set_release build r) d =
     (case publication_in d build of None \<Rightarrow> True | Some p \<Rightarrow> guard_release clock d p r)"
| "image_accepts now clock c (Insert_pin p) d =
     (\<not> list_ex (\<lambda>q. pn_allocationId q = pn_allocationId p \<or> pn_operationId q = pn_operationId p) (ib_pins d)
      \<and> guard_pin c d p)"
| "image_accepts now clock c (Schedule_build i t) d = True"

definition upsert_job :: "id \<Rightarrow> instant \<Rightarrow> (id \<times> instant) list \<Rightarrow> (id \<times> instant) list" where
  "upsert_job i t js = (i, t) # filter (\<lambda>(j, u). j \<noteq> i) js"

text \<open>\<open>job_key\<close> replaces the waiting job of the same build.\<close>

fun image_effect :: "instant \<Rightarrow> instant \<Rightarrow> image_statement \<Rightarrow> image_db \<Rightarrow> image_db" where
  "image_effect now clock (Insert_build i a) d = d\<lparr>ib_builds := ib_builds d @
     [\<lparr>ib_id = i, ib_admission = a, ib_state = Running, ib_runRequestedAt = None,
       ib_accessRemovedAt = None\<rparr>]\<rparr>"
| "image_effect now clock (Set_build_state i s) d =
     d\<lparr>ib_builds := update_where (\<lambda>b. ib_id b = i) (\<lambda>b. b\<lparr>ib_state := s\<rparr>) (ib_builds d)\<rparr>"
| "image_effect now clock (Request_run i) d = d\<lparr>ib_builds := update_where (\<lambda>b. ib_id b = i)
     (\<lambda>b. b\<lparr>ib_runRequestedAt := Some clock\<rparr>) (ib_builds d)\<rparr>"
| "image_effect now clock (Remove_access i) d = d\<lparr>ib_builds :=
     update_where (\<lambda>b. ib_id b = i \<and> ib_accessRemovedAt b = None)
       (\<lambda>b. b\<lparr>ib_accessRemovedAt := Some clock\<rparr>) (ib_builds d)\<rparr>"
| "image_effect now clock (Insert_effect i build key command) d = d\<lparr>ib_effects := ib_effects d @
     [\<lparr>ef_id = i, ef_buildId = build, ef_key = key, ef_command = command, ef_outcome = Im_prepared,
       ef_resolution = Im_pending, ef_createdAt = now\<rparr>]\<rparr>"
| "image_effect now clock (Set_image_outcome i x) d =
     d\<lparr>ib_effects := update_where (\<lambda>e. ef_id e = i) (\<lambda>e. e\<lparr>ef_outcome := x\<rparr>) (ib_effects d)\<rparr>"
| "image_effect now clock (Set_image_resolution i x) d =
     d\<lparr>ib_effects := update_where (\<lambda>e. ef_id e = i) (\<lambda>e. e\<lparr>ef_resolution := x\<rparr>) (ib_effects d)\<rparr>"
| "image_effect now clock (Insert_image_resource ref build effect role) d =
     (if resource_in d ref = None
      then d\<lparr>ib_resources := ib_resources d @ [\<lparr>rr_ref = ref, rr_buildId = build,
             rr_effectId = effect, rr_role = role, rr_state = Unverified\<rparr>]\<rparr>
      else d)"
| "image_effect now clock (Set_resource_state ref build x) d = d\<lparr>ib_resources :=
     update_where (\<lambda>r. rr_ref r = ref \<and> rr_buildId r = build) (\<lambda>r. r\<lparr>rr_state := x\<rparr>) (ib_resources d)\<rparr>"
| "image_effect now clock (Insert_builder_work build effect server) d = d\<lparr>ib_work := ib_work d @
     [\<lparr>wk_buildId = build, wk_record =
        \<lparr>bw_effectId = effect, bw_serverId = server, bw_progress = Installing\<rparr>\<rparr>]\<rparr>"
| "image_effect now clock (Set_builder_progress build p) d = d\<lparr>ib_work :=
     update_where (\<lambda>w. wk_buildId w = build)
       (\<lambda>w. w\<lparr>wk_record := (wk_record w)\<lparr>bw_progress := p\<rparr>\<rparr>) (ib_work d)\<rparr>"
| "image_effect now clock (Insert_verifier_bootstrap build snapshot spec hash sealed expires) d =
     d\<lparr>ib_bootstraps := ib_bootstraps d @ [\<lparr>bt_buildId = build, bt_snapshotId = snapshot,
       bt_spec = spec, bt_tokenHash = hash, bt_sealedToken = Some sealed, bt_expiresAt = expires,
       bt_consumedAt = None\<rparr>]\<rparr>"
| "image_effect now clock (Consume_bootstrap build t) d = d\<lparr>ib_bootstraps :=
     update_where (\<lambda>b. bt_buildId b = build)
       (\<lambda>b. b\<lparr>bt_consumedAt := Some t, bt_sealedToken := None\<rparr>) (ib_bootstraps d)\<rparr>"
| "image_effect now clock (Insert_identity build effect server g) d = d\<lparr>ib_identities := ib_identities d @
     [\<lparr>vi_buildId = build, vi_effectId = effect, vi_serverId = server, vi_identity = g\<rparr>]\<rparr>"
| "image_effect now clock (Set_identity build g) d = d\<lparr>ib_identities :=
     update_where (\<lambda>r. vi_buildId r = build) (\<lambda>r. r\<lparr>vi_identity := g\<rparr>) (ib_identities d)\<rparr>"
| "image_effect now clock (Insert_signing build p n) d = d\<lparr>ib_signings := ib_signings d @
     [\<lparr>sn_buildId = build, sn_purpose = p, sn_sequence = n, sn_createdAt = now\<rparr>]\<rparr>"
| "image_effect now clock (Insert_result build v) d = d\<lparr>ib_results := ib_results d @
     [\<lparr>vt_buildId = build, vt_result = v\<rparr>]\<rparr>"
| "image_effect now clock (Insert_publication build evidence) d = d\<lparr>ib_publications :=
     ib_publications d @ [\<lparr>pb_buildId = build, pb_evidence = evidence, pb_release = None\<rparr>]\<rparr>"
| "image_effect now clock (Set_release build r) d = d\<lparr>ib_publications :=
     update_where (\<lambda>p. pb_buildId p = build) (\<lambda>p. p\<lparr>pb_release := Some r\<rparr>) (ib_publications d)\<rparr>"
| "image_effect now clock (Insert_pin p) d = d\<lparr>ib_pins := ib_pins d @ [p]\<rparr>"
| "image_effect now clock (Schedule_build i t) d = d\<lparr>ib_jobs := upsert_job i t (ib_jobs d)\<rparr>"

definition image_apply :: "instant \<Rightarrow> instant \<Rightarrow> db \<Rightarrow> image_statement \<Rightarrow> image_db \<Rightarrow> image_db option" where
  "image_apply now clock c st d =
     (if image_accepts now clock c st d then Some (image_effect now clock st d) else None)"

text \<open>\<open>image_writes d d'\<close>: some accepted statement takes \<open>d\<close> to \<open>d'\<close>.\<close>

definition image_writes :: "image_db \<Rightarrow> image_db \<Rightarrow> bool" where
  "image_writes d d' \<longleftrightarrow> (\<exists>now clock c st. image_apply now clock c st d = Some d')"

abbreviation image_wrote :: "image_db \<Rightarrow> image_db \<Rightarrow> bool" where
  "image_wrote \<equiv> image_writes\<^sup>*\<^sup>*"

definition empty_images :: image_db where
  "empty_images = \<lparr>ib_builds = [], ib_effects = [], ib_resources = [], ib_work = [],
     ib_bootstraps = [], ib_identities = [], ib_signings = [], ib_results = [],
     ib_publications = [], ib_pins = [], ib_jobs = []\<rparr>"

end
