(* ===== verification/Image_Store_Laws.thy ===== *)
theory Image_Store_Laws
  imports Image_Store
begin

text \<open>
  Invariants of the image tables under every accepted statement. The elimination rules
  \<open>effect_step\<close>, \<open>build_step\<close> and \<open>resource_step\<close> say where a row of the new table comes from; the
  invariants follow from them. What holds of accepted statements holds of every interleaving of
  the factory's handlers, of crashes in between and of the statements of other sessions.
\<close>

section \<open>Keys\<close>

definition keys_ok :: "image_db \<Rightarrow> bool" where
  "keys_ok d \<longleftrightarrow> distinct (map ib_id (ib_builds d)) \<and> distinct (map ef_id (ib_effects d))
     \<and> distinct (map rr_ref (ib_resources d)) \<and> distinct (map wk_buildId (ib_work d))
     \<and> distinct (map pb_buildId (ib_publications d))"

lemma lookup_None_iff:
  "build_in d i = None \<longleftrightarrow> i \<notin> ib_id ` set (ib_builds d)"
  "effect_in d i = None \<longleftrightarrow> i \<notin> ef_id ` set (ib_effects d)"
  "resource_in d ref = None \<longleftrightarrow> ref \<notin> rr_ref ` set (ib_resources d)"
  "work_in d i = None \<longleftrightarrow> i \<notin> wk_buildId ` set (ib_work d)"
  "publication_in d i = None \<longleftrightarrow> i \<notin> pb_buildId ` set (ib_publications d)"
  by (auto simp: build_in_def effect_in_def resource_in_def work_in_def publication_in_def
      select_one_None_iff)

lemma keys_step:
  assumes "keys_ok d" "image_accepts now clock c st d"
  shows "keys_ok (image_effect now clock st d)"
  using assms by (cases st) (auto simp: keys_ok_def map_update_where lookup_None_iff)

lemma select_one_append:
  "select_one P (xs @ ys) = (case select_one P xs of None \<Rightarrow> select_one P ys | Some x \<Rightarrow> Some x)"
  by (induction xs) auto

lemma select_one_distinct:
  assumes "distinct (map f xs)" "x \<in> set xs"
  shows "select_one (\<lambda>y. f y = f x) xs = Some x"
  using assms by (intro select_one_unique) (auto simp: distinct_map dest: inj_onD)

lemma lookup_keys:
  assumes "keys_ok d"
  shows "b \<in> set (ib_builds d) \<Longrightarrow> build_in d (ib_id b) = Some b"
    and "e \<in> set (ib_effects d) \<Longrightarrow> effect_in d (ef_id e) = Some e"
    and "r \<in> set (ib_resources d) \<Longrightarrow> resource_in d (rr_ref r) = Some r"
    and "w \<in> set (ib_work d) \<Longrightarrow> work_in d (wk_buildId w) = Some (wk_record w)"
    and "p \<in> set (ib_publications d) \<Longrightarrow> publication_in d (pb_buildId p) = Some p"
  using assms by (auto simp: keys_ok_def build_in_def effect_in_def resource_in_def work_in_def
      publication_in_def select_one_distinct)

lemma lookup_SomeD:
  "build_in d i = Some b \<Longrightarrow> b \<in> set (ib_builds d) \<and> ib_id b = i"
  "effect_in d i = Some e \<Longrightarrow> e \<in> set (ib_effects d) \<and> ef_id e = i"
  "resource_in d ref = Some r \<Longrightarrow> r \<in> set (ib_resources d) \<and> rr_ref r = ref"
  "publication_in d i = Some p \<Longrightarrow> p \<in> set (ib_publications d) \<and> pb_buildId p = i"
  "work_in d i = Some x \<Longrightarrow> \<exists>w\<in>set (ib_work d). wk_buildId w = i \<and> wk_record w = x"
  by (auto simp: build_in_def effect_in_def resource_in_def publication_in_def work_in_def
      dest!: select_one_SomeD)

lemma in_build [simp]:
  "e \<in> set (effects_of d i) \<longleftrightarrow> e \<in> set (ib_effects d) \<and> ef_buildId e = i"
  "r \<in> set (resources_of d i) \<longleftrightarrow> r \<in> set (ib_resources d) \<and> rr_buildId r = i"
  by (auto simp: effects_of_def resources_of_def)

lemma pending_in_iff:
  "pending_in d i \<longleftrightarrow> (\<exists>e\<in>set (ib_effects d). ef_buildId e = i \<and> ef_resolution e = Im_pending)"
  by (auto simp: pending_in_def list_ex_iff)

lemma all_absent_iff:
  "all_absent d i keep \<longleftrightarrow> (\<forall>r\<in>set (ib_resources d). rr_buildId r = i \<longrightarrow>
     is_absent (rr_state r) \<or> (keep \<and> rr_role r = Snapshot))"
  by (auto simp: all_absent_def list_all_iff)

section \<open>Where rows come from\<close>

definition new_effect :: "instant \<Rightarrow> id \<Rightarrow> id \<Rightarrow> string \<Rightarrow> image_command \<Rightarrow> image_effect_row" where
  "new_effect now i build key command = \<lparr>ef_id = i, ef_buildId = build, ef_key = key,
     ef_command = command, ef_outcome = Im_prepared, ef_resolution = Im_pending, ef_createdAt = now\<rparr>"

lemma new_effect_sel [simp]:
  "ef_id (new_effect now i build key command) = i"
  "ef_buildId (new_effect now i build key command) = build"
  "ef_key (new_effect now i build key command) = key"
  "ef_command (new_effect now i build key command) = command"
  "ef_outcome (new_effect now i build key command) = Im_prepared"
  "ef_resolution (new_effect now i build key command) = Im_pending"
  by (simp_all add: new_effect_def)

lemma effect_step:
  assumes "keys_ok d" "image_accepts now clock c st d"
    and "e' \<in> set (ib_effects (image_effect now clock st d))"
  obtains (old) "e' \<in> set (ib_effects d)"
  | (inserted) i build key command where "st = Insert_effect i build key command"
      "e' = new_effect now i build key command" "i \<notin> ef_id ` set (ib_effects d)"
      "\<forall>e\<in>set (ib_effects d). ef_buildId e = build \<longrightarrow> ef_key e \<noteq> key"
      "guard_effect_insert clock d build key command" "guard_snapshot_evidence d build command"
      "guard_snapshot_pins c d build command"
  | (outcome) e x where "e \<in> set (ib_effects d)" "e' = e\<lparr>ef_outcome := x\<rparr>" "guard_image_outcome d e x"
  | (resolution) e x where "e \<in> set (ib_effects d)" "e' = e\<lparr>ef_resolution := x\<rparr>"
      "guard_image_resolution d e x"
proof (cases st)
  case (Insert_effect i build key command)
  with assms show thesis
    using old inserted by (auto simp: lookup_None_iff list_ex_iff new_effect_def)
next
  case (Set_image_outcome i x)
  with assms(3) obtain e where "e \<in> set (ib_effects d)" "e' = (if ef_id e = i then e\<lparr>ef_outcome := x\<rparr> else e)"
    by (auto simp: in_update_where)
  with Set_image_outcome assms(1,2) show thesis
    using old outcome lookup_keys(2) [OF assms(1)] by (auto split: if_splits)
next
  case (Set_image_resolution i x)
  with assms(3) obtain e where "e \<in> set (ib_effects d)" "e' = (if ef_id e = i then e\<lparr>ef_resolution := x\<rparr> else e)"
    by (auto simp: in_update_where)
  with Set_image_resolution assms(1,2) show thesis
    using old resolution lookup_keys(2) [OF assms(1)] by (auto split: if_splits)
qed (use assms old in \<open>auto split: if_splits\<close>)

lemma build_step:
  assumes "keys_ok d" "image_accepts now clock c st d"
    and "b' \<in> set (ib_builds (image_effect now clock st d))"
  obtains (old) "b' \<in> set (ib_builds d)"
  | (inserted) i a where "st = Insert_build i a" "ib_id b' = i" "ib_admission b' = a"
      "ib_state b' = Running" "i \<notin> ib_id ` set (ib_builds d)" "ad_id a = i"
  | (state) b s where "b \<in> set (ib_builds d)" "b' = b\<lparr>ib_state := s\<rparr>" "guard_build_state clock d b s"
      "st = Set_build_state (ib_id b) s"
  | (run) b where "b \<in> set (ib_builds d)" "b' = b\<lparr>ib_runRequestedAt := Some clock\<rparr>"
      "guard_run_request clock b"
  | (access) b where "b \<in> set (ib_builds d)" "b' = b\<lparr>ib_accessRemovedAt := Some clock\<rparr>"
      "ib_accessRemovedAt b = None" "guard_access_removal d b"
proof (cases st)
  case (Insert_build i a)
  with assms show thesis using old inserted by (auto simp: lookup_None_iff)
next
  case (Set_build_state i s)
  with assms(3) obtain b where "b \<in> set (ib_builds d)" "b' = (if ib_id b = i then b\<lparr>ib_state := s\<rparr> else b)"
    by (auto simp: in_update_where)
  with Set_build_state assms(1,2) show thesis
    using old state lookup_keys(1) [OF assms(1)] by (auto split: if_splits)
next
  case (Request_run i)
  with assms(3) obtain b where "b \<in> set (ib_builds d)"
    "b' = (if ib_id b = i then b\<lparr>ib_runRequestedAt := Some clock\<rparr> else b)"
    by (auto simp: in_update_where)
  with Request_run assms(1,2) show thesis
    using old run lookup_keys(1) [OF assms(1)] by (auto split: if_splits)
next
  case (Remove_access i)
  with assms(3) obtain b where "b \<in> set (ib_builds d)"
    "b' = (if ib_id b = i \<and> ib_accessRemovedAt b = None then b\<lparr>ib_accessRemovedAt := Some clock\<rparr> else b)"
    by (auto simp: in_update_where)
  with Remove_access assms(1,2) show thesis
    using old access lookup_keys(1) [OF assms(1)] by (auto split: if_splits)
qed (use assms old in \<open>auto split: if_splits\<close>)

lemma resource_step:
  assumes "keys_ok d" "image_accepts now clock c st d"
    and "r' \<in> set (ib_resources (image_effect now clock st d))"
  obtains (old) "r' \<in> set (ib_resources d)"
  | (inserted) ref build effect role where "r' = \<lparr>rr_ref = ref, rr_buildId = build,
        rr_effectId = effect, rr_role = role, rr_state = Unverified\<rparr>"
      "guard_resource_insert c d ref build effect role"
  | (state) r x where "r \<in> set (ib_resources d)" "r' = r\<lparr>rr_state := x\<rparr>" "guard_resource_state d r x"
proof (cases st)
  case (Insert_image_resource ref build effect role)
  with assms show thesis using old inserted by (auto split: if_splits)
next
  case (Set_resource_state ref build x)
  with assms(3) obtain r where "r \<in> set (ib_resources d)"
    "r' = (if rr_ref r = ref \<and> rr_buildId r = build then r\<lparr>rr_state := x\<rparr> else r)"
    by (auto simp: in_update_where)
  with Set_resource_state assms(1,2) show thesis
    using old state lookup_keys(3) [OF assms(1)] by (auto split: if_splits)
qed (use assms old in \<open>auto split: if_splits\<close>)

lemma work_step:
  assumes "keys_ok d" "image_accepts now clock c st d"
    and "w' \<in> set (ib_work (image_effect now clock st d))"
  obtains (old) "w' \<in> set (ib_work d)"
  | (inserted) build effect server where "wk_buildId w' = build" "bw_progress (wk_record w') = Installing"
      "build \<notin> wk_buildId ` set (ib_work d)" "guard_work_insert clock d build effect server"
  | (progress) w p where "w \<in> set (ib_work d)"
      "w' = w\<lparr>wk_record := (wk_record w)\<lparr>bw_progress := p\<rparr>\<rparr>"
      "guard_progress clock d (wk_buildId w) (bw_progress (wk_record w)) p"
proof (cases st)
  case (Insert_builder_work build effect server)
  with assms show thesis using old inserted by (auto simp: lookup_None_iff)
next
  case (Set_builder_progress build p)
  with assms(3) obtain w where "w \<in> set (ib_work d)" "w' = (if wk_buildId w = build
      then w\<lparr>wk_record := (wk_record w)\<lparr>bw_progress := p\<rparr>\<rparr> else w)"
    by (auto simp: in_update_where)
  with Set_builder_progress assms(1,2) show thesis
    using old progress lookup_keys(4) [OF assms(1)] by (auto split: if_splits)
qed (use assms old in \<open>auto split: if_splits\<close>)

lemma publication_step:
  assumes "keys_ok d" "image_accepts now clock c st d"
    and "p' \<in> set (ib_publications (image_effect now clock st d))"
  obtains (old) "p' \<in> set (ib_publications d)"
  | (inserted) build evidence where "p' = \<lparr>pb_buildId = build, pb_evidence = evidence, pb_release = None\<rparr>"
      "build \<notin> pb_buildId ` set (ib_publications d)" "guard_publication_insert clock d build evidence"
  | (release) p r where "p \<in> set (ib_publications d)" "p' = p\<lparr>pb_release := Some r\<rparr>" "guard_release clock d p r"
proof (cases st)
  case (Insert_publication build evidence)
  with assms show thesis using old inserted by (auto simp: lookup_None_iff)
next
  case (Set_release build r)
  with assms(3) obtain p where "p \<in> set (ib_publications d)"
    "p' = (if pb_buildId p = build then p\<lparr>pb_release := Some r\<rparr> else p)"
    by (auto simp: in_update_where)
  with Set_release assms(1,2) show thesis
    using old release lookup_keys(5) [OF assms(1)] by (auto split: if_splits)
qed (use assms old in \<open>auto split: if_splits\<close>)

section \<open>How rows evolve\<close>

definition effect_evolves :: "image_effect_row \<Rightarrow> image_effect_row \<Rightarrow> bool" where
  "effect_evolves e e' \<longleftrightarrow> ef_id e' = ef_id e \<and> ef_buildId e' = ef_buildId e \<and> ef_key e' = ef_key e
     \<and> ef_command e' = ef_command e \<and> ef_createdAt e' = ef_createdAt e
     \<and> (ef_outcome e = Im_prepared \<or> ef_outcome e' = ef_outcome e)
     \<and> (ef_resolution e = Im_pending \<or> ef_resolution e' = ef_resolution e)"

fun phase :: "build_state \<Rightarrow> nat" where
  "phase Running = 0"
| "phase Releasing = 1"
| "phase (Retained t) = 2"
| "phase (Cleaning r) = 3"
| "phase (Cleaned t) = 4"

definition build_evolves :: "image_build_row \<Rightarrow> image_build_row \<Rightarrow> bool" where
  "build_evolves b b' \<longleftrightarrow> ib_id b' = ib_id b \<and> ib_admission b' = ib_admission b
     \<and> (ib_state b' = ib_state b \<or> phase (ib_state b) < phase (ib_state b'))
     \<and> (ib_runRequestedAt b = None \<or> ib_runRequestedAt b' = ib_runRequestedAt b)
     \<and> (ib_accessRemovedAt b = None \<or> ib_accessRemovedAt b' = ib_accessRemovedAt b)"

definition resource_evolves :: "image_resource_row \<Rightarrow> image_resource_row \<Rightarrow> bool" where
  "resource_evolves r r' \<longleftrightarrow> rr_ref r' = rr_ref r \<and> rr_buildId r' = rr_buildId r
     \<and> rr_effectId r' = rr_effectId r \<and> rr_role r' = rr_role r
     \<and> (is_absent (rr_state r) \<longrightarrow> rr_state r' = rr_state r)"

fun progress_rank :: "builder_progress \<Rightarrow> nat" where
  "progress_rank Installing = 0"
| "progress_rank (Installed r) = 1"
| "progress_rank (Sanitizing r) = 2"
| "progress_rank (Sanitized r s) = 3"

definition work_evolves :: "builder_work_row \<Rightarrow> builder_work_row \<Rightarrow> bool" where
  "work_evolves w w' \<longleftrightarrow> wk_buildId w' = wk_buildId w
     \<and> bw_effectId (wk_record w') = bw_effectId (wk_record w)
     \<and> bw_serverId (wk_record w') = bw_serverId (wk_record w)
     \<and> (wk_record w' = wk_record w
        \<or> progress_rank (bw_progress (wk_record w)) < progress_rank (bw_progress (wk_record w')))"

definition publication_evolves :: "publication_row \<Rightarrow> publication_row \<Rightarrow> bool" where
  "publication_evolves p p' \<longleftrightarrow> pb_buildId p' = pb_buildId p \<and> pb_evidence p' = pb_evidence p
     \<and> (pb_release p = None \<or> pb_release p' = pb_release p)"

lemmas evolves_defs = effect_evolves_def build_evolves_def resource_evolves_def work_evolves_def
  publication_evolves_def

lemma image_evolves_refl [simp]:
  "effect_evolves e e" "build_evolves b b" "resource_evolves r r" "work_evolves w w"
  "publication_evolves p p"
  by (simp_all add: evolves_defs)

lemma guard_build_state_phase:
  "guard_build_state clock d b s \<Longrightarrow> s = ib_state b \<or> phase (ib_state b) < phase s"
  by (auto simp: guard_build_state_def split: build_state.splits)

lemma same_progress [simp]: "w\<lparr>bw_progress := bw_progress w\<rparr> = w"
  by (cases w) simp

lemma guard_progress_rank:
  "guard_progress clock d build old new \<Longrightarrow> new = old \<or> progress_rank old < progress_rank new"
  by (auto simp: guard_progress_def split: option.splits builder_progress.splits)

lemma effects_grow:
  assumes "keys_ok d" "image_accepts now clock c st d" "e \<in> set (ib_effects d)"
  shows "\<exists>e'\<in>set (ib_effects (image_effect now clock st d)). effect_evolves e e'"
proof (cases st)
  case (Set_image_outcome i x)
  with assms lookup_keys(2) [OF assms(1,3)] show ?thesis
    by (intro bexI [of _ "if ef_id e = i then e\<lparr>ef_outcome := x\<rparr> else e"])
      (auto simp: in_update_where effect_evolves_def guard_image_outcome_def)
next
  case (Set_image_resolution i x)
  with assms lookup_keys(2) [OF assms(1,3)] show ?thesis
    by (intro bexI [of _ "if ef_id e = i then e\<lparr>ef_resolution := x\<rparr> else e"])
      (auto simp: in_update_where effect_evolves_def guard_image_resolution_def)
qed (use assms in \<open>auto intro: bexI [of _ e]\<close>)

lemma builds_grow:
  assumes "keys_ok d" "image_accepts now clock c st d" "b \<in> set (ib_builds d)"
  shows "\<exists>b'\<in>set (ib_builds (image_effect now clock st d)). build_evolves b b'"
proof (cases st)
  case (Set_build_state i s)
  with assms lookup_keys(1) [OF assms(1,3)] show ?thesis
    by (intro bexI [of _ "if ib_id b = i then b\<lparr>ib_state := s\<rparr> else b"])
      (auto simp: in_update_where build_evolves_def dest: guard_build_state_phase)
next
  case (Request_run i)
  with assms lookup_keys(1) [OF assms(1,3)] show ?thesis
    by (intro bexI [of _ "if ib_id b = i then b\<lparr>ib_runRequestedAt := Some clock\<rparr> else b"])
      (auto simp: in_update_where build_evolves_def guard_run_request_def)
next
  case (Remove_access i)
  with assms lookup_keys(1) [OF assms(1,3)] show ?thesis
    by (intro bexI [of _ "if ib_id b = i \<and> ib_accessRemovedAt b = None
            then b\<lparr>ib_accessRemovedAt := Some clock\<rparr> else b"])
      (auto simp: in_update_where build_evolves_def intro!: bexI [of _ b])
qed (use assms in \<open>auto intro: bexI [of _ b]\<close>)

lemma resources_grow:
  assumes "keys_ok d" "image_accepts now clock c st d" "r \<in> set (ib_resources d)"
  shows "\<exists>r'\<in>set (ib_resources (image_effect now clock st d)). resource_evolves r r'"
proof (cases st)
  case (Set_resource_state ref build x)
  with assms lookup_keys(3) [OF assms(1,3)] show ?thesis
    by (intro bexI [of _ "if rr_ref r = ref \<and> rr_buildId r = build then r\<lparr>rr_state := x\<rparr> else r"])
      (auto simp: in_update_where resource_evolves_def guard_resource_state_def)
qed (use assms in \<open>auto intro: bexI [of _ r]\<close>)

lemma work_grows:
  assumes "keys_ok d" "image_accepts now clock c st d" "w \<in> set (ib_work d)"
  shows "\<exists>w'\<in>set (ib_work (image_effect now clock st d)). work_evolves w w'"
proof (cases st)
  case (Set_builder_progress build p)
  with assms lookup_keys(4) [OF assms(1,3)] show ?thesis
    by (intro bexI [of _ "if wk_buildId w = build
            then w\<lparr>wk_record := (wk_record w)\<lparr>bw_progress := p\<rparr>\<rparr> else w"])
      (auto simp: in_update_where work_evolves_def dest!: guard_progress_rank)
qed (use assms in \<open>auto intro: bexI [of _ w]\<close>)

lemma publications_grow:
  assumes "keys_ok d" "image_accepts now clock c st d" "p \<in> set (ib_publications d)"
  shows "\<exists>p'\<in>set (ib_publications (image_effect now clock st d)). publication_evolves p p'"
proof (cases st)
  case (Set_release build r)
  with assms lookup_keys(5) [OF assms(1,3)] show ?thesis
    by (intro bexI [of _ "if pb_buildId p = build then p\<lparr>pb_release := Some r\<rparr> else p"])
      (auto simp: in_update_where publication_evolves_def guard_release_def split: option.splits)
qed (use assms in \<open>auto intro: bexI [of _ p]\<close>)

lemma results_grow:
  "v \<in> set (ib_results d) \<Longrightarrow> v \<in> set (ib_results (image_effect now clock st d))"
  by (cases st) auto

end
