(* ===== verification/Image_Invariants.thy ===== *)
theory Image_Invariants
  imports Image_Store_Laws
begin

text \<open>
  \<open>factory_ok\<close>: what every reachable state of the image tables satisfies. Effects belong to a
  build and carry its labels, a role has at most one create, deletions exist only in builds that
  are being cleaned, a snapshot has the evidence of a sanitized and stopped builder, a published
  release describes the build it belongs to, and a cleaned build has nothing left.
\<close>

lemma build_in_grow:
  assumes "keys_ok d" "image_accepts now clock c st d" "build_in d i = Some b"
  shows "\<exists>b'. build_in (image_effect now clock st d) i = Some b' \<and> build_evolves b b'"
proof -
  from lookup_SomeD(1) [OF assms(3)] have b: "b \<in> set (ib_builds d)" "ib_id b = i" by auto
  obtain b' where b': "b' \<in> set (ib_builds (image_effect now clock st d))" "build_evolves b b'"
    using builds_grow [OF assms(1,2) b(1)] by blast
  moreover from b' b(2) have "ib_id b' = i" by (simp add: build_evolves_def)
  ultimately show ?thesis using lookup_keys(1) [OF keys_step [OF assms(1,2)] b'(1)] by auto
qed

lemma work_in_grow:
  assumes "keys_ok d" "image_accepts now clock c st d" "work_in d i = Some w"
  shows "\<exists>w'. work_in (image_effect now clock st d) i = Some w' \<and> bw_serverId w' = bw_serverId w
    \<and> (w' = w \<or> progress_rank (bw_progress w) < progress_rank (bw_progress w'))"
proof -
  from lookup_SomeD(5) [OF assms(3)] obtain r where r: "r \<in> set (ib_work d)" "wk_buildId r = i" "wk_record r = w"
    by auto
  obtain r' where r': "r' \<in> set (ib_work (image_effect now clock st d))" "work_evolves r r'"
    using work_grows [OF assms(1,2) r(1)] by blast
  moreover from r' r(2) have "wk_buildId r' = i" by (simp add: work_evolves_def)
  ultimately show ?thesis
    using lookup_keys(4) [OF keys_step [OF assms(1,2)] r'(1)] r(3) by (auto simp: work_evolves_def)
qed

lemma sanitized_final:
  assumes "keys_ok d" "image_accepts now clock c st d" "work_in d i = Some w" "bw_progress w = Sanitized r s"
  shows "work_in (image_effect now clock st d) i = Some w"
proof -
  have "progress_rank p \<le> 3" for p by (cases p) auto
  moreover obtain w' where "work_in (image_effect now clock st d) i = Some w'"
    "w' = w \<or> progress_rank (bw_progress w) < progress_rank (bw_progress w')"
    using work_in_grow [OF assms(1-3)] by blast
  ultimately show ?thesis using assms(4) by (metis leD progress_rank.simps(4))
qed

lemma result_in_grow: "result_in d i = Some v \<Longrightarrow> image_accepts now clock c st d \<Longrightarrow>
  result_in (image_effect now clock st d) i = Some v"
proof (cases st)
  case (Insert_result build x)
  assume "result_in d i = Some v" "image_accepts now clock c st d"
  with Insert_result show ?thesis
    by (cases "select_one (\<lambda>r. vt_buildId r = i) (ib_results d)")
      (auto simp: result_in_def select_one_append)
qed (auto simp: result_in_def)

section \<open>Closed builds\<close>

lemma pending_comes_from:
  assumes "keys_ok d" "image_accepts now clock c st d" "pending_in (image_effect now clock st d) i"
  shows "pending_in d i \<or> (\<exists>j key command. guard_effect_insert clock d i key command
    \<and> st = Insert_effect j i key command)"
proof -
  obtain e' where e': "e' \<in> set (ib_effects (image_effect now clock st d))" "ef_buildId e' = i"
    "ef_resolution e' = Im_pending"
    using assms(3) by (auto simp: pending_in_iff)
  from assms(1,2) e'(1) show ?thesis
  proof (cases rule: effect_step)
    case (inserted j build key command)
    then show ?thesis using e'(2) by auto
  next
    case (resolution e x)
    then show ?thesis using e' by (auto simp: pending_in_iff guard_image_resolution_def)
  qed (use e' in \<open>auto simp: pending_in_iff\<close>)
qed

lemma absence_stays:
  assumes "keys_ok d" "image_accepts now clock c st d" "\<not> open_build d i" "all_absent d i keep"
  shows "all_absent (image_effect now clock st d) i keep"
  unfolding all_absent_iff
proof (intro ballI impI)
  fix r' assume r': "r' \<in> set (ib_resources (image_effect now clock st d))" "rr_buildId r' = i"
  from assms(1,2) r'(1) show "is_absent (rr_state r') \<or> (keep \<and> rr_role r' = Snapshot)"
    by (cases rule: resource_step) (use assms(3,4) r' in \<open>auto simp: all_absent_iff guard_resource_insert_def guard_resource_state_def\<close>)
qed

definition closed_ok :: "image_db \<Rightarrow> bool" where
  "closed_ok d \<longleftrightarrow> (\<forall>b\<in>set (ib_builds d).
     (cleaned_state (ib_state b) \<longrightarrow> \<not> pending_in d (ib_id b) \<and> all_absent d (ib_id b) False)
     \<and> (phase (ib_state b) = 2 \<longrightarrow> \<not> pending_in d (ib_id b)))"

lemma phases [simp]:
  "cleaned_state s \<longleftrightarrow> phase s = 4"
  "after_running s \<longleftrightarrow> phase s \<noteq> 0"
  "phase s = 0 \<longleftrightarrow> s = Running"
  "phase s = Suc 0 \<longleftrightarrow> s = Releasing"
  by (cases s; simp)+

lemma guard_build_state_closes:
  assumes "guard_build_state clock d b s" "s \<noteq> ib_state b"
  shows "phase s = 4 \<Longrightarrow> \<not> pending_in d (ib_id b) \<and> all_absent d (ib_id b) False"
    and "phase s = 2 \<Longrightarrow> \<not> pending_in d (ib_id b)"
  using assms by (auto simp: guard_build_state_def split: build_state.splits)

lemma guard_insert_state:
  assumes "guard_effect_insert clock d i key command" "build_in d i = Some b"
  shows "phase (ib_state b) \<noteq> 4" "phase (ib_state b) \<noteq> 2"
  using assms by (auto simp: guard_effect_insert_def active_build_def guard_delete_effect_def
      split: image_command.splits build_state.splits)

lemma closed_step:
  assumes k: "keys_ok d" and a: "image_accepts now clock c st d" and "closed_ok d"
  shows "closed_ok (image_effect now clock st d)"
proof -
  let ?d = "image_effect now clock st d"
  have stays: "phase (ib_state b) \<in> {2, 4} \<Longrightarrow> \<not> pending_in ?d (ib_id b)"
    and absent: "phase (ib_state b) = 4 \<Longrightarrow> all_absent ?d (ib_id b) False"
    if "b \<in> set (ib_builds d)" for b
  proof -
    have b: "build_in d (ib_id b) = Some b" using lookup_keys(1) [OF k that] .
    have p: "phase (ib_state b) \<in> {2, 4} \<Longrightarrow> \<not> pending_in d (ib_id b)"
      using assms(3) that by (auto simp: closed_ok_def)
    show "phase (ib_state b) \<in> {2, 4} \<Longrightarrow> \<not> pending_in ?d (ib_id b)"
      using pending_comes_from [OF k a] p guard_insert_state [OF _ b] by blast
    assume "phase (ib_state b) = 4"
    then show "all_absent ?d (ib_id b) False"
      using assms(3) that b by (intro absence_stays [OF k a]) (auto simp: closed_ok_def open_build_def)
  qed
  show ?thesis unfolding closed_ok_def
  proof (rule ballI, goal_cases)
    case (1 b')
    from k a 1 show ?case
    proof (cases rule: build_step)
      case (state b s)
      show ?thesis
      proof (cases "s = ib_state b")
        case True
        then show ?thesis using state stays absent by auto
      next
        case False
        have "pending_in ?d = pending_in d" "all_absent ?d = all_absent d"
          using state(4) by (auto simp: fun_eq_iff pending_in_iff all_absent_iff)
        then show ?thesis using guard_build_state_closes [OF state(3) False] state(2) by auto
      qed
    qed (use stays absent in \<open>auto simp: guard_run_request_def active_build_def\<close>)
  qed
qed

section \<open>Effects\<close>

definition effect_ok :: "image_db \<Rightarrow> image_effect_row \<Rightarrow> bool" where
  "effect_ok d e \<longleftrightarrow> (\<exists>b. build_in d (ef_buildId e) = Some b
     \<and> (\<forall>ref. ef_command e = Delete_image ref \<longrightarrow> ib_state b \<noteq> Running
          \<and> (im_kind ref = Im_snapshot \<longrightarrow> 3 \<le> phase (ib_state b)))
     \<and> (\<forall>l. image_labels (ef_command e) = Some l \<longrightarrow> ef_key e = create_key (lb_role l)
          \<and> lb_buildId l = ef_buildId e \<and> image_created_kind (ef_command e) = Some (imageRoleKind (lb_role l))))
     \<and> (\<forall>n l s. ef_command e = Create_snapshot n l s \<longrightarrow> (\<exists>w i p. work_in d (ef_buildId e) = Some w
          \<and> bw_serverId w = s \<and> bw_progress w = Sanitized i p \<and> stop_confirmed d (ef_buildId e) s p))"

definition journal_ok :: "image_db \<Rightarrow> bool" where
  "journal_ok d \<longleftrightarrow> distinct (map (\<lambda>e. (ef_buildId e, ef_key e)) (ib_effects d))
     \<and> (\<forall>e\<in>set (ib_effects d). effect_ok d e)"

lemma confirmed_case [simp]:
  "(case x of Im_confirmed t \<Rightarrow> True | _ \<Rightarrow> False) \<longleftrightarrow> (\<exists>t. x = Im_confirmed t)"
  by (cases x) auto

lemma stop_confirmed_stays:
  assumes "keys_ok d" "image_accepts now clock c st d" "stop_confirmed d i s p"
  shows "stop_confirmed (image_effect now clock st d) i s p"
proof -
  obtain e t where e: "e \<in> set (ib_effects d)" "ef_buildId e = i" "ef_command e = Power_off_builder s p"
    "ef_resolution e = Im_confirmed t"
    using assms(3) by (auto simp: stop_confirmed_def list_ex_iff)
  obtain e' where "e' \<in> set (ib_effects (image_effect now clock st d))" "effect_evolves e e'"
    using effects_grow [OF assms(1,2) e(1)] by blast
  with e show ?thesis
    by (auto simp: stop_confirmed_def list_ex_iff effect_evolves_def intro!: bexI [of _ e'])
qed

lemma effect_ok_stays:
  assumes k: "keys_ok d" "image_accepts now clock c st d"
    and "effect_ok d e" "ef_buildId e' = ef_buildId e" "ef_key e' = ef_key e" "ef_command e' = ef_command e"
  shows "effect_ok (image_effect now clock st d) e'"
proof -
  let ?d = "image_effect now clock st d"
  obtain b where b: "build_in d (ef_buildId e) = Some b"
    using assms(3) by (auto simp: effect_ok_def)
  obtain b' where b': "build_in ?d (ef_buildId e) = Some b'" "build_evolves b b'"
    using build_in_grow [OF k b] by blast
  have snapshot: "\<exists>w i p. work_in ?d (ef_buildId e) = Some w \<and> bw_serverId w = s
      \<and> bw_progress w = Sanitized i p \<and> stop_confirmed ?d (ef_buildId e) s p"
    if "ef_command e = Create_snapshot n l s" for n l s
    using assms(3) that sanitized_final [OF k] stop_confirmed_stays [OF k]
    unfolding effect_ok_def by (metis (no_types, lifting))
  show ?thesis
    using assms(3-6) b b' snapshot by (auto simp: effect_ok_def build_evolves_def)
qed

lemma snapshot_evidence:
  assumes "guard_snapshot_evidence d build (Create_snapshot n l s)"
  shows "\<exists>w i p. work_in d build = Some w \<and> bw_serverId w = s \<and> bw_progress w = Sanitized i p
    \<and> stop_confirmed d build s p"
  using assms
  by (cases "work_in d build") (auto simp: guard_snapshot_evidence_def split: builder_progress.splits)

lemma delete_evidence:
  assumes "guard_delete_effect d b (Delete_image ref)"
  shows "ib_state b \<noteq> Running" "im_kind ref = Im_snapshot \<Longrightarrow> 3 \<le> phase (ib_state b)"
  using assms by (cases "ib_state b"; simp add: guard_delete_effect_def)+

lemma effect_ok_inserted:
  assumes "guard_effect_insert clock d build key command" "guard_snapshot_evidence d build command"
  shows "effect_ok d (new_effect now i build key command)"
proof -
  obtain b where b: "build_in d build = Some b" "guard_create_effect d build key command"
    "guard_delete_effect d b command"
    using assms(1) by (auto simp: guard_effect_insert_def split: option.splits)
  then show ?thesis
    using assms(2) snapshot_evidence delete_evidence
    by (auto simp: effect_ok_def guard_create_effect_def)
qed

lemma effect_keys_step:
  assumes "image_accepts now clock c st d" "distinct (map (\<lambda>e. (ef_buildId e, ef_key e)) (ib_effects d))"
  shows "distinct (map (\<lambda>e. (ef_buildId e, ef_key e)) (ib_effects (image_effect now clock st d)))"
  using assms by (cases st) (auto simp: map_update_where list_ex_iff)

lemma journal_step:
  assumes k: "keys_ok d" "image_accepts now clock c st d" and "journal_ok d"
  shows "journal_ok (image_effect now clock st d)"
  unfolding journal_ok_def
proof (intro conjI ballI)
  show "distinct (map (\<lambda>e. (ef_buildId e, ef_key e)) (ib_effects (image_effect now clock st d)))"
    using assms by (intro effect_keys_step) (auto simp: journal_ok_def)
  fix e' assume e': "e' \<in> set (ib_effects (image_effect now clock st d))"
  from k e' show "effect_ok (image_effect now clock st d) e'"
  proof (cases rule: effect_step)
    case (inserted i build key command)
    with effect_ok_stays [OF k effect_ok_inserted] show ?thesis by auto
  qed (use assms effect_ok_stays [OF k] in \<open>auto simp: journal_ok_def\<close>)
qed

section \<open>Verification and release\<close>

lemma publication_in_grow:
  assumes "keys_ok d" "image_accepts now clock c st d" "publication_in d i = Some p"
  shows "\<exists>p'. publication_in (image_effect now clock st d) i = Some p' \<and> publication_evolves p p'"
proof -
  from lookup_SomeD(4) [OF assms(3)] have p: "p \<in> set (ib_publications d)" "pb_buildId p = i" by auto
  obtain p' where p': "p' \<in> set (ib_publications (image_effect now clock st d))" "publication_evolves p p'"
    using publications_grow [OF assms(1,2) p(1)] by blast
  moreover from p' p(2) have "pb_buildId p' = i" by (simp add: publication_evolves_def)
  ultimately show ?thesis using lookup_keys(5) [OF keys_step [OF assms(1,2)] p'(1)] by auto
qed

definition sanitized_work :: "image_db \<Rightarrow> id \<Rightarrow> builder_record \<Rightarrow> sanitation_receipt \<Rightarrow> bool" where
  "sanitized_work d i w s \<longleftrightarrow> work_in d i = Some w \<and> (\<exists>r. bw_progress w = Sanitized r s)"

definition work_ok :: "image_db \<Rightarrow> bool" where
  "work_ok d \<longleftrightarrow> (\<forall>i w s. sanitized_work d i w s \<longrightarrow>
     (\<exists>b. build_in d i = Some b \<and> sanitation_evidence b s))"

text \<open>What a verification result says of the build it belongs to.\<close>

definition verified_boot :: "image_db \<Rightarrow> id \<Rightarrow> verification_result \<Rightarrow> bool" where
  "verified_boot d i v \<longleftrightarrow> (\<exists>b w s. build_in d i = Some b \<and> sanitized_work d i w s
     \<and> vr_serverId v \<noteq> bw_serverId w
     \<and> rt_manifest (vr_runtime v) = src_manifest (ad_source (ib_admission b))
     \<and> pf_manifestDigest (rt_proof (vr_runtime v)) = src_manifestDigest (ad_source (ib_admission b)))"

definition results_ok :: "image_db \<Rightarrow> bool" where
  "results_ok d \<longleftrightarrow> (\<forall>i v. result_in d i = Some v \<longrightarrow> verified_boot d i v)"

definition evidence_of :: "image_admission \<Rightarrow> builder_record \<Rightarrow> sanitation_receipt \<Rightarrow> verification_result \<Rightarrow> release_evidence \<Rightarrow> bool" where
  "evidence_of a w s v ev \<longleftrightarrow> ev_buildId ev = ad_id a \<and> ad_retention a = Retain (ev_retainUntil ev)
     \<and> ev_manifest ev = src_manifest (ad_source a) \<and> ev_inputs ev = src_inputs (ad_source a)
     \<and> ev_artifacts ev = src_artifacts (ad_source a) \<and> ev_sanitation ev = s
     \<and> ev_sanitizedServer ev = bw_serverId w \<and> rs_sourceServerId (ev_snapshot ev) = bw_serverId w
     \<and> rs_id (ev_snapshot ev) = vr_snapshotId v \<and> ev_bootServer ev = vr_serverId v
     \<and> ev_bootDigest ev = pf_manifestDigest (rt_proof (vr_runtime v)) \<and> ev_checkedAt ev = vr_verifiedAt v"

definition publication_ok :: "image_db \<Rightarrow> id \<Rightarrow> publication_row \<Rightarrow> bool" where
  "publication_ok d i p \<longleftrightarrow> (\<exists>b w s v. build_in d i = Some b \<and> sanitized_work d i w s
     \<and> result_in d i = Some v \<and> evidence_of (ib_admission b) w s v (pb_evidence p))
     \<and> (\<forall>r. pb_release p = Some r \<longrightarrow> sg_evidence r = pb_evidence p)"

definition release_ok :: "image_db \<Rightarrow> bool" where
  "release_ok d \<longleftrightarrow> (\<forall>b\<in>set (ib_builds d). ad_id (ib_admission b) = ib_id b)
     \<and> (\<forall>i p. publication_in d i = Some p \<longrightarrow> publication_ok d i p)
     \<and> (\<forall>b\<in>set (ib_builds d). \<forall>t. ib_state b = Retained t \<longrightarrow>
          (\<exists>p r. publication_in d (ib_id b) = Some p \<and> pb_release p = Some r \<and> sg_issuedAt r = t))"

lemma sanitized_stays:
  "keys_ok d \<Longrightarrow> image_accepts now clock c st d \<Longrightarrow> sanitized_work d i w s \<Longrightarrow>
     sanitized_work (image_effect now clock st d) i w s"
  using sanitized_final unfolding sanitized_work_def by blast

lemma admission_stays:
  assumes "keys_ok d" "image_accepts now clock c st d" "build_in d i = Some b"
  obtains b' where "build_in (image_effect now clock st d) i = Some b'"
    "ib_id b' = ib_id b" "ib_admission b' = ib_admission b"
  using build_in_grow [OF assms] that by (auto simp: build_evolves_def)

lemma work_ok_step:
  assumes k: "keys_ok d" "image_accepts now clock c st d" and "work_ok d"
  shows "work_ok (image_effect now clock st d)"
  unfolding work_ok_def
proof (intro allI impI)
  let ?d = "image_effect now clock st d"
  fix i w s assume "sanitized_work ?d i w s"
  then obtain x r where x: "x \<in> set (ib_work ?d)" "wk_buildId x = i" "wk_record x = w"
    "bw_progress w = Sanitized r s"
    using lookup_SomeD(5) by (fastforce simp: sanitized_work_def)
  have "\<exists>b. build_in d i = Some b \<and> sanitation_evidence b s"
    using k x(1)
  proof (cases rule: work_step)
    case old
    then have "sanitized_work d i w s"
      using x lookup_keys(4) [OF k(1)] by (auto simp: sanitized_work_def)
    then show ?thesis using assms(3) by (auto simp: work_ok_def)
  next
    case (progress y p)
    then have y: "work_in d i = Some (wk_record y)" "p = Sanitized r s" "wk_buildId y = i"
      using x lookup_keys(4) [OF k(1) progress(1)] by auto
    show ?thesis
    proof (cases "bw_progress (wk_record y) = p")
      case True
      with y have "sanitized_work d i (wk_record y) s" by (simp add: sanitized_work_def)
      then show ?thesis using assms(3) by (simp add: work_ok_def)
    next
      case False
      with progress(3) y show ?thesis
        by (auto simp: guard_progress_def split: option.splits builder_progress.splits)
    qed
  qed (use x in auto)
  then obtain b where b: "build_in d i = Some b" "sanitation_evidence b s" by blast
  obtain b' where "build_in ?d i = Some b'" "ib_id b' = ib_id b" "ib_admission b' = ib_admission b"
    using admission_stays [OF k b(1)] .
  with b(2) show "\<exists>b. build_in ?d i = Some b \<and> sanitation_evidence b s"
    by (simp add: sanitation_evidence_def)
qed

lemma verified_boot_stays:
  assumes "keys_ok d" "image_accepts now clock c st d" "verified_boot d i v"
  shows "verified_boot (image_effect now clock st d) i v"
proof -
  obtain b w s where b: "build_in d i = Some b" "sanitized_work d i w s" "vr_serverId v \<noteq> bw_serverId w"
    "rt_manifest (vr_runtime v) = src_manifest (ad_source (ib_admission b))"
    "pf_manifestDigest (rt_proof (vr_runtime v)) = src_manifestDigest (ad_source (ib_admission b))"
    using assms(3) by (auto simp: verified_boot_def)
  obtain b' where "build_in (image_effect now clock st d) i = Some b'" "ib_admission b' = ib_admission b"
    using admission_stays [OF assms(1,2) b(1)] by blast
  with b sanitized_stays [OF assms(1,2) b(2)] show ?thesis unfolding verified_boot_def by metis
qed

lemma guard_result_boot: "guard_result clock d i v \<Longrightarrow> verified_boot d i v"
  by (auto simp: guard_result_def verified_boot_def sanitized_work_def Let_def
      split: option.splits builder_progress.splits)

lemma result_comes_from:
  assumes "result_in (image_effect now clock st d) i = Some v" "image_accepts now clock c st d"
  shows "result_in d i = Some v \<or> guard_result clock d i v"
  using assms
  by (cases st) (auto simp: result_in_def select_one_append split: option.splits if_splits)

lemma results_ok_step:
  assumes k: "keys_ok d" "image_accepts now clock c st d" and "results_ok d"
  shows "results_ok (image_effect now clock st d)"
  unfolding results_ok_def
proof (intro allI impI)
  fix i v assume "result_in (image_effect now clock st d) i = Some v"
  from result_comes_from [OF this k(2)] have "verified_boot d i v"
    using assms(3) guard_result_boot by (auto simp: results_ok_def)
  then show "verified_boot (image_effect now clock st d) i v" by (rule verified_boot_stays [OF k])
qed

lemma publication_ok_stays:
  assumes k: "keys_ok d" "image_accepts now clock c st d"
    and "publication_ok d i p" "pb_evidence p' = pb_evidence p"
    and "\<forall>r. pb_release p' = Some r \<longrightarrow> sg_evidence r = pb_evidence p'"
  shows "publication_ok (image_effect now clock st d) i p'"
proof -
  obtain b w s v where b: "build_in d i = Some b" "sanitized_work d i w s" "result_in d i = Some v"
    "evidence_of (ib_admission b) w s v (pb_evidence p)"
    using assms(3) by (auto simp: publication_ok_def)
  obtain b' where "build_in (image_effect now clock st d) i = Some b'" "ib_admission b' = ib_admission b"
    using admission_stays [OF k b(1)] by blast
  with b assms(4,5) sanitized_stays [OF k b(2)] result_in_grow [OF b(3) k(2)] show ?thesis
    unfolding publication_ok_def by metis
qed

lemma guard_publication_ok:
  assumes "keys_ok d" "guard_publication_insert clock d i evidence"
    and "\<forall>b\<in>set (ib_builds d). ad_id (ib_admission b) = ib_id b"
  shows "publication_ok d i \<lparr>pb_buildId = i, pb_evidence = evidence, pb_release = None\<rparr>"
proof -
  obtain b w v r where g: "build_in d i = Some b" "work_in d i = Some w" "result_in d i = Some v"
    "guard_publication_snapshot d b w v r evidence"
    using assms(2) by (auto simp: guard_publication_insert_def split: option.splits list.splits)
  obtain ob t stopped n where n: "rr_state r = Observed ob t" "ir_body ob = Snapshot_body n"
    "vr_snapshotId v = im_id (rr_ref r)"
    "evidence_expected b w v (im_id (rr_ref r)) n stopped = Some evidence"
    using g(4) by (auto simp: guard_publication_snapshot_def
        split: resource_state.splits option.splits image_body.splits)
  then obtain x s after where "bw_progress w = Sanitized x s" "ad_retention (ib_admission b) = Retain after"
    by (auto simp: evidence_expected_def split: builder_progress.splits retention.splits)
  with g n assms(3) lookup_SomeD(1) [OF g(1)] show ?thesis
    by (auto simp: publication_ok_def sanitized_work_def evidence_of_def evidence_expected_def)
qed

lemma publication_in_step:
  assumes k: "keys_ok d" "image_accepts now clock c st d" and "release_ok d"
    and "publication_in (image_effect now clock st d) i = Some p'"
  shows "publication_ok (image_effect now clock st d) i p'"
proof -
  let ?d = "image_effect now clock st d"
  from lookup_SomeD(4) [OF assms(4)] have p': "p' \<in> set (ib_publications ?d)" "pb_buildId p' = i" by auto
  from k p'(1) show ?thesis
  proof (cases rule: publication_step)
    case old
    with assms(3) p' lookup_keys(5) [OF k(1) old] show ?thesis
      by (intro publication_ok_stays [OF k, of i p']) (auto simp: release_ok_def publication_ok_def)
  next
    case (inserted build evidence)
    with assms(3) p' guard_publication_ok [OF k(1) inserted(3)] show ?thesis
      by (intro publication_ok_stays [OF k, of i p']) (auto simp: release_ok_def)
  next
    case (release p r)
    with assms(3) p' lookup_keys(5) [OF k(1) release(1)] show ?thesis
      by (intro publication_ok_stays [OF k, of i p])
        (auto simp: release_ok_def guard_release_def split: option.splits)
  qed
qed

lemma release_step:
  assumes k: "keys_ok d" "image_accepts now clock c st d" and r: "release_ok d"
  shows "release_ok (image_effect now clock st d)"
  unfolding release_ok_def
proof (intro conjI ballI allI impI)
  let ?d = "image_effect now clock st d"
  fix b' assume b': "b' \<in> set (ib_builds ?d)"
  from k b' show "ad_id (ib_admission b') = ib_id b'"
    by (cases rule: build_step) (use r in \<open>auto simp: release_ok_def\<close>)
  fix t assume t: "ib_state b' = Retained t"
  have "\<exists>p r. publication_in d (ib_id b') = Some p \<and> pb_release p = Some r \<and> sg_issuedAt r = t"
    using k b'
  proof (cases rule: build_step)
    case (state b s)
    show ?thesis
    proof (cases "s = ib_state b")
      case False
      with state t show ?thesis
        by (auto simp: guard_build_state_def bind_eq_Some_conv split: build_state.splits option.splits)
    qed (use r state t in \<open>auto simp: release_ok_def\<close>)
  qed (use r t in \<open>auto simp: release_ok_def\<close>)
  then obtain p x where p: "publication_in d (ib_id b') = Some p" "pb_release p = Some x" "sg_issuedAt x = t"
    by blast
  obtain p' where "publication_in ?d (ib_id b') = Some p'" "publication_evolves p p'"
    using publication_in_grow [OF k p(1)] by blast
  with p show "\<exists>p r. publication_in ?d (ib_id b') = Some p \<and> pb_release p = Some r \<and> sg_issuedAt r = t"
    by (auto simp: publication_evolves_def)
qed (use publication_in_step [OF k r] in auto)

section \<open>All invariants\<close>

definition factory_ok :: "image_db \<Rightarrow> bool" where
  "factory_ok d \<longleftrightarrow> keys_ok d \<and> closed_ok d \<and> journal_ok d \<and> work_ok d \<and> results_ok d \<and> release_ok d"

theorem factory_ok_writes:
  assumes "factory_ok d" "image_writes d d'"
  shows "factory_ok d'"
  using assms keys_step closed_step journal_step work_ok_step results_ok_step release_step
  unfolding factory_ok_def image_writes_def image_apply_def by (metis option.distinct(1) option.inject)

lemma factory_ok_wrote: "image_wrote d d' \<Longrightarrow> factory_ok d \<Longrightarrow> factory_ok d'"
  by (induction rule: rtranclp_induct) (auto intro: factory_ok_writes)

lemma factory_ok_empty: "factory_ok empty_images"
  by (simp add: factory_ok_def empty_images_def keys_ok_def closed_ok_def journal_ok_def work_ok_def
      results_ok_def release_ok_def sanitized_work_def work_in_def result_in_def publication_in_def)

end
