(* ===== verification/Image_Builds.thy ===== *)
theory Image_Builds
  imports Image_Store
begin

text \<open>
  \<^verbatim>\<open>apps/control/src/image-builds.ts\<close>, \<^verbatim>\<open>image-scheduling.ts\<close> and the reading half of
  \<^verbatim>\<open>image-verifier-records.ts\<close>. The state of the factory extends that of a process by the image
  tables, the provider and what other sessions do: at every query and statement outside a
  transaction \<open>others\<close> says which statements other sessions commit just before. A session that
  does not hold the build lock may cancel or start the build, record its access removal, pin its
  release or admit other builds, and workers of other builds may do anything to those.
\<close>

section \<open>State and interference\<close>

datatype visit = Statement image_statement | Customers db

text \<open>Credentials issued to reach a verifier are cached in memory by the enrollment and the
  runtime service.\<close>

record probe_credential =
  pc_material :: string
  pc_expiresAt :: instant

record 'p factory = process +
  images :: image_db
  maker :: 'p
  requests :: "(id \<times> image_command) list"
  held :: "id option"
  others :: "nat \<Rightarrow> visit list"
  probe_credentials :: "(id \<times> probe_credential) list"
  runtime_credentials :: "(id \<times> probe_credential) list"

type_synonym ('p, 'a) factory_act = "('p factory, 'a) prog"

fun statement_build :: "image_db \<Rightarrow> image_statement \<Rightarrow> id option" where
  "statement_build d (Insert_build i a) = Some i"
| "statement_build d (Set_build_state i s) = Some i"
| "statement_build d (Request_run i) = Some i"
| "statement_build d (Remove_access i) = Some i"
| "statement_build d (Insert_effect i build key command) = Some build"
| "statement_build d (Set_image_outcome i x) = map_option ef_buildId (effect_in d i)"
| "statement_build d (Set_image_resolution i x) = map_option ef_buildId (effect_in d i)"
| "statement_build d (Insert_image_resource ref build effect role) = Some build"
| "statement_build d (Set_resource_state ref build x) = Some build"
| "statement_build d (Insert_builder_work build effect server) = Some build"
| "statement_build d (Set_builder_progress build p) = Some build"
| "statement_build d (Insert_verifier_bootstrap build snapshot spec hash sealed expires) = Some build"
| "statement_build d (Consume_bootstrap build t) = Some build"
| "statement_build d (Insert_identity build effect server g) = Some build"
| "statement_build d (Set_identity build g) = Some build"
| "statement_build d (Insert_signing build p n) = Some build"
| "statement_build d (Insert_result build v) = Some build"
| "statement_build d (Insert_publication build evidence) = Some build"
| "statement_build d (Set_release build r) = Some build"
| "statement_build d (Insert_pin p) = Some (pn_buildId p)"
| "statement_build d (Schedule_build i t) = Some i"

fun lock_free :: "image_statement \<Rightarrow> bool" where
  "lock_free (Insert_build i a) = True"
| "lock_free (Set_build_state i (Cleaning r)) = True"
| "lock_free (Request_run i) = True"
| "lock_free (Remove_access i) = True"
| "lock_free (Insert_pin p) = True"
| "lock_free (Schedule_build i t) = True"
| "lock_free _ = False"

definition permitted :: "id option \<Rightarrow> image_db \<Rightarrow> image_statement \<Rightarrow> bool" where
  "permitted lock d st = (case lock of None \<Rightarrow> True
     | Some i \<Rightarrow> lock_free st \<or> statement_build d st \<noteq> Some i)"

fun visited :: "instant \<Rightarrow> visit \<Rightarrow> 'p factory \<Rightarrow> 'p factory" where
  "visited clock (Customers c) s = s\<lparr>store := c\<rparr>"
| "visited clock (Statement st) s =
     (case (if permitted (held s) (images s) st then image_apply clock clock (store s) st (images s)
            else None) of
        None \<Rightarrow> s | Some d \<Rightarrow> s\<lparr>images := d\<rparr>)"

definition meddled :: "nat \<Rightarrow> 'p factory \<Rightarrow> 'p factory" where
  "meddled i s = (if began s = None then fold (visited (or_clock (outside s) i)) (others s i) s else s)"

section \<open>Interactions\<close>

definition iprim :: "(nat \<Rightarrow> ('p, 'a) factory_act) \<Rightarrow> ('p, 'a) factory_act" where
  "iprim f = prim (\<lambda>i s. f i (meddled i s))"

definition look :: "(instant \<Rightarrow> db \<Rightarrow> image_db \<Rightarrow> 'a) \<Rightarrow> ('p, 'a) factory_act" where
  "look g = iprim (\<lambda>i s. if or_fault (outside s) i then (Inl Defect, s)
     else (Inr (g (or_clock (outside s) i) (store s) (images s)), s))"

definition post_at :: "(instant \<Rightarrow> image_statement) \<Rightarrow> ('p, unit) factory_act" where
  "post_at st = iprim (\<lambda>i s.
     if or_fault (outside s) i then (Inl Defect, s)
     else (case image_apply (tx_now s i) (or_clock (outside s) i) (store s)
                  (st (or_clock (outside s) i)) (images s) of
             None \<Rightarrow> (Inl Defect, s)
           | Some d \<Rightarrow> ((if or_lost (outside s) i then Inl Defect else Inr ()), s\<lparr>images := d\<rparr>)))"

definition post :: "image_statement \<Rightarrow> ('p, unit) factory_act" where
  "post st = post_at (\<lambda>_. st)"

definition image_transaction :: "('p, 'a) factory_act \<Rightarrow> ('p, 'a) factory_act" where
  "image_transaction m = iprim (\<lambda>i s.
     if or_fault (outside s) i then (Inl Defect, s)
     else (case bind m (\<lambda>x. bind commit (\<lambda>lost. ret (x, lost)))
                 (s\<lparr>began := Some (tx_now s i)\<rparr>) of
             (Inl e, s') \<Rightarrow> (Inl e, s'\<lparr>images := images s, began := began s\<rparr>)
           | (Inr (x, lost), s') \<Rightarrow>
               ((if lost then Inl Defect else Inr x), s'\<lparr>began := began s\<rparr>)))"

text \<open>\<open>withImageBuildLock\<close>; the lock is released when the work ends, however it ends.\<close>

definition withImageBuildLock :: "id \<Rightarrow> ('p, 'a) factory_act \<Rightarrow> ('p, 'a option) factory_act" where
  "withImageBuildLock build work = bind tryLock (\<lambda>acquired.
     if acquired
     then (\<lambda>s. case bind work (\<lambda>x. ret (Some x)) (s\<lparr>held := Some build\<rparr>) of
                 (r, s') \<Rightarrow> (r, s'\<lparr>held := None\<rparr>))
     else ret None)"

definition ask :: "('p, 'a) port \<Rightarrow> ('p, 'a) factory_act" where
  "ask f = bind (prim (\<lambda>i s. (let (r, p) = f (or_wall (outside s) i) (maker s)
     in (Inr r, s\<lparr>maker := p\<rparr>)))) reply"

definition ask_submit :: "('p, image_submission) port \<Rightarrow> id \<Rightarrow> image_command \<Rightarrow> ('p, image_submission) factory_act" where
  "ask_submit f i command = bind (prim (\<lambda>j s. (let (r, p) = f (or_wall (outside s) j) (maker s)
     in (Inr r, s\<lparr>maker := p, requests := requests s @ [(i, command)]\<rparr>)))) reply"

record 'p image_provider =
  mk_submit :: "id \<Rightarrow> image_command \<Rightarrow> ('p, image_submission) port"
  mk_get :: "image_ref \<Rightarrow> ('p, image_resource option) port"
  mk_find :: "image_kind \<Rightarrow> labels \<Rightarrow> ('p, image_resource list) port"
  mk_getAction :: "string \<Rightarrow> image_ref \<Rightarrow> ('p, image_action) port"
  mk_getBaseImage :: "string \<Rightarrow> ('p, image_base option) port"

section \<open>Inspecting a build\<close>

record image_build =
  bd_admission :: image_admission
  bd_state :: build_state
  bd_runRequestedAt :: "instant option"
  bd_accessRemovedAt :: "instant option"
  bd_publication :: image_publication
  bd_verification :: image_verification
  bd_builderWork :: builder_work
  bd_effects :: "image_effect_row list"
  bd_resources :: "image_resource_row list"

definition readImageVerification :: "image_db \<Rightarrow> id \<Rightarrow> image_verification" where
  "readImageVerification d build = (case bootstrap_in d build of
      None \<Rightarrow> Ver_waiting
    | Some b \<Rightarrow> (case identity_in d build of
          None \<Rightarrow> Ver_prepared (bt_spec b)
        | Some row \<Rightarrow>
            if gd_issued (vi_identity row) = None then Ver_claimed (bt_spec b) (vi_identity row)
            else (case result_in d build of
                    Some result \<Rightarrow> Ver_verified (bt_spec b) (vi_identity row) result
                  | None \<Rightarrow> Ver_enrolled (bt_spec b) (vi_identity row))))"

definition publication_state :: "publication_row option \<Rightarrow> image_publication" where
  "publication_state p = (case p of
      None \<Rightarrow> Pub_waiting
    | Some r \<Rightarrow> (case pb_release r of
          None \<Rightarrow> Pub_prepared (pb_evidence r) | Some signed \<Rightarrow> Pub_published signed))"

text \<open>Effects in order of creation, then identity; resources by kind, then identity.\<close>

definition ordered_effects :: "image_effect_row list \<Rightarrow> image_effect_row list" where
  "ordered_effects es = sort_key ef_createdAt (sort_key ef_id es)"

definition ordered_resources :: "image_resource_row list \<Rightarrow> image_resource_row list" where
  "ordered_resources rs =
     sort_key (\<lambda>r. kind_name (im_kind (rr_ref r))) (sort_key (\<lambda>r. im_id (rr_ref r)) rs)"

definition image_build_of :: "image_db \<Rightarrow> image_build_row \<Rightarrow> image_build" where
  "image_build_of d row =
     \<lparr>bd_admission = ib_admission row, bd_state = ib_state row,
      bd_runRequestedAt = ib_runRequestedAt row, bd_accessRemovedAt = ib_accessRemovedAt row,
      bd_publication = publication_state (publication_in d (ib_id row)),
      bd_verification = readImageVerification d (ib_id row),
      bd_builderWork = (case work_in d (ib_id row) of None \<Rightarrow> Work_waiting | Some w \<Rightarrow> Work_recorded w),
      bd_effects = ordered_effects (effects_of d (ib_id row)),
      bd_resources = ordered_resources (resources_of d (ib_id row))\<rparr>"

definition read_build :: "id \<Rightarrow> image_db \<Rightarrow> image_build option" where
  "read_build i d = map_option (image_build_of d) (build_in d i)"

text \<open>A read-only repeatable-read transaction sees one snapshot.\<close>

definition inspectImageBuild :: "id \<Rightarrow> ('p, image_build) factory_act" where
  "inspectImageBuild i = bind (look (\<lambda>clock c d. read_build i d)) (present Not_found)"

section \<open>Scheduling (image-scheduling.ts)\<close>

definition enqueueImageBuild :: "id \<Rightarrow> instant option \<Rightarrow> ('p, unit) factory_act" where
  "enqueueImageBuild i runAt =
     post_at (\<lambda>clock. Schedule_build i (case runAt of None \<Rightarrow> clock | Some t \<Rightarrow> t))"

definition requestImageRun :: "id \<Rightarrow> ('p, unit) factory_act" where
  "requestImageRun i = image_transaction
     (bind (bind (look (\<lambda>clock c d. build_in d i)) (present Not_found)) (\<lambda>row.
      bind (onlyIf (ib_runRequestedAt row = None)
        (bind (unless (ib_state row = Running) Permission_denied) (\<lambda>_.
         bind databaseTime (\<lambda>now.
         unless (now < ad_deadlineAt (ib_admission row)) Permission_denied)))) (\<lambda>_.
      bind (onlyIf (ib_runRequestedAt row = None) (post (Request_run i))) (\<lambda>_.
      enqueueImageBuild i None))))"

definition next_run :: "image_build_row \<Rightarrow> instant \<Rightarrow> instant" where
  "next_run row at_least = (case (ib_state row, ad_retention (ib_admission row)) of
      (Retained t, Retain after) \<Rightarrow> max at_least after
    | (Running, _) \<Rightarrow>
        (if ib_runRequestedAt row \<noteq> None then min at_least (ad_deadlineAt (ib_admission row))
         else ad_deadlineAt (ib_admission row))
    | _ \<Rightarrow> at_least)"

definition scheduleImageBuild :: "id \<Rightarrow> int \<Rightarrow> ('p, unit) factory_act" where
  "scheduleImageBuild i delay = image_transaction
     (bind (look (\<lambda>clock c d. build_in d i)) (\<lambda>row. case row of
        None \<Rightarrow> ret ()
      | Some r \<Rightarrow>
          if cleaned_state (ib_state r) \<and> ib_accessRemovedAt r \<noteq> None then ret ()
          else bind databaseTime (\<lambda>now. enqueueImageBuild i (Some (next_run r (now + delay))))))"

section \<open>Admission and cancellation (image-builds.ts)\<close>

definition open_reservations :: "image_db \<Rightarrow> (image_admission \<times> build_state) list" where
  "open_reservations d = map (\<lambda>b. (ib_admission b, ib_state b))
     (filter (\<lambda>b. \<not> cleaned_state (ib_state b)) (ib_builds d))"

text \<open>\<open>verifyImageInputs\<close> reads the source directory; its answer is the argument \<open>source\<close>.\<close>

definition admitImageBuild :: "image_admission \<Rightarrow> exn + image_source \<Rightarrow> catalog \<Rightarrow> image_limits \<Rightarrow> ('p, image_admission \<times> build_state) factory_act" where
  "admitImageBuild a source catalog limits =
     bind (parsed (if image_admission_ok a then Some a else None)) (\<lambda>_.
     bind (reply source) (\<lambda>verified.
     bind (unless (verified = ad_source a) Invalid_input) (\<lambda>_.
     image_transaction
       (bind advisoryLock (\<lambda>_.
        bind (look (\<lambda>clock c d. build_in d (ad_id a))) (\<lambda>previous. case previous of
          Some row \<Rightarrow> bind (unless (ib_admission row = a) Idempotency_conflict) (\<lambda>_.
                       ret (a, ib_state row))
        | None \<Rightarrow>
            bind wallTime (\<lambda>now.
            bind (from_sum (checkImageAdmission a now)) (\<lambda>_.
            bind (from_sum (checkImagePrices a catalog (ad_storagePrice a) now)) (\<lambda>_.
            bind (look (\<lambda>clock c d. open_reservations d)) (\<lambda>opened.
            bind (from_sum (checkImageLimits (parseImageReservations (opened @ [(a, Running)])) limits)) (\<lambda>_.
            bind (post (Insert_build (ad_id a) a)) (\<lambda>_.
            bind (enqueueImageBuild (ad_id a) (Some (ad_deadlineAt a))) (\<lambda>_.
            ret (a, Running))))))))))))))"

fun cancellable :: "build_state \<Rightarrow> bool" where
  "cancellable Running = True"
| "cancellable Releasing = True"
| "cancellable (Retained t) = True"
| "cancellable _ = False"

definition requestImageCleanup :: "id \<Rightarrow> cleanup_reason \<Rightarrow> ('p, unit) factory_act" where
  "requestImageCleanup i reason = image_transaction
     (bind (bind (look (\<lambda>clock c d. build_in d i)) (present Not_found)) (\<lambda>row.
      bind (onlyIf (cancellable (ib_state row)) (post (Set_build_state i (Cleaning reason)))) (\<lambda>_.
      onlyIf (\<not> cleaned_state (ib_state row) \<or> ib_accessRemovedAt row = None)
        (enqueueImageBuild i None))))"

end
