(* ===== verification/Image_Plan.thy ===== *)
theory Image_Plan
  imports Image_Builds
begin

text \<open>
  \<^verbatim>\<open>apps/control/src/image-release-plan.ts\<close>: the next step of a build, computed from one
  snapshot of it. A step is a provider effect, a phase of builder work, verification or
  publication, or cleanup. The repeated pattern of the code (create when no effect is journaled,
  fail unless it is confirmed and its one resource observed, go on with that resource) is
  \<open>stage\<close>.
\<close>

datatype image_plan =
    Plan_effect image_command
  | Plan_builder
  | Plan_cleanup cleanup_reason
  | Plan_cleaned
  | Plan_verifier_prepare
  | Plan_verifier_check
  | Plan_verified
  | Plan_publication_prepare
  | Plan_release_cleanup
  | Plan_retained
  | Plan_verification_required string

fun confirmed_resolution :: "image_resolution \<Rightarrow> bool" where
  "confirmed_resolution (Im_confirmed t) = True"
| "confirmed_resolution _ = False"

definition dashed :: "string \<Rightarrow> string" where
  "dashed s = map (\<lambda>c. if c = CHR ''_'' then CHR ''-'' else c) s"

definition identity_name :: "image_admission \<Rightarrow> image_role \<Rightarrow> string" where
  "identity_name a role = ''image-'' @ dashed (role_name role) @ ''-'' @ ad_id a"

definition role_effect :: "image_build \<Rightarrow> image_role \<Rightarrow> image_effect_row option" where
  "role_effect b role = select_one (\<lambda>e. ef_key e = create_key role) (bd_effects b)"

definition role_resource :: "image_build \<Rightarrow> image_role \<Rightarrow> image_resource_row option" where
  "role_resource b role = (case filter (\<lambda>r. rr_role r = role) (bd_resources b) of
      [r] \<Rightarrow> if is_observed (rr_state r) then Some r else None
    | _ \<Rightarrow> None)"

definition pending_effect :: "image_build \<Rightarrow> image_effect_row option" where
  "pending_effect b = select_one (\<lambda>e. ef_resolution e = Im_pending) (bd_effects b)"

definition stage :: "image_build \<Rightarrow> image_role \<Rightarrow> image_command \<Rightarrow> (image_resource_row \<Rightarrow> image_plan) \<Rightarrow> image_plan" where
  "stage b role command continue = (case role_effect b role of
      None \<Rightarrow> Plan_effect command
    | Some e \<Rightarrow> (case (confirmed_resolution (ef_resolution e), role_resource b role) of
          (True, Some r) \<Rightarrow> continue r
        | _ \<Rightarrow> Plan_cleanup Cleanup_failed))"

definition ref_id_of :: "image_resource_row \<Rightarrow> string" where
  "ref_id_of r = im_id (rr_ref r)"

definition key_command :: "image_admission \<Rightarrow> image_command" where
  "key_command a = Create_ssh_key (identity_name a Access_key) (imageBuildLabels (ad_id a) Access_key)
     (ac_publicKey (ad_access a))"

definition firewall_command :: "image_admission \<Rightarrow> image_command" where
  "firewall_command a = Create_firewall (identity_name a Access_firewall)
     (imageBuildLabels (ad_id a) Access_firewall) (ac_managementAddress (ad_access a))"

definition ip_command :: "image_admission \<Rightarrow> image_role \<Rightarrow> image_command" where
  "ip_command a role = Create_image_ip (identity_name a role) (imageBuildLabels (ad_id a) role)
     (region_name (item_region (ad_offer a)))"

definition server_command :: "image_admission \<Rightarrow> image_role \<Rightarrow> string \<Rightarrow> string \<Rightarrow> string \<Rightarrow> string \<Rightarrow> boot_data \<Rightarrow> image_command" where
  "server_command a role base ip key firewall boot = Create_image_server
     \<lparr>sr_name = identity_name a role, sr_labels = imageBuildLabels (ad_id a) role,
      sr_serverType = serverType (ad_offer a), sr_region = region_name (item_region (ad_offer a)),
      sr_imageId = base, sr_primaryIpId = ip, sr_sshKeyId = key, sr_firewallId = firewall,
      sr_bootData = boot\<rparr>"

definition builder_command :: "image_admission \<Rightarrow> string \<Rightarrow> string \<Rightarrow> string \<Rightarrow> image_command" where
  "builder_command a ip key firewall = server_command a Builder (ad_baseImageId a) ip key firewall
     (Build_secret (ac_secretId (ad_access a)) (src_manifestDigest (ad_source a)))"

definition verifier_command :: "image_admission \<Rightarrow> string \<Rightarrow> string \<Rightarrow> string \<Rightarrow> string \<Rightarrow> image_command" where
  "verifier_command a snapshot ip key firewall = server_command a Verifier snapshot ip key firewall
     (Verifier_secret (ad_id a) (src_manifestDigest (ad_source a)))"

definition snapshot_command :: "image_admission \<Rightarrow> string \<Rightarrow> image_command" where
  "snapshot_command a server = Create_snapshot (identity_name a Snapshot)
     (imageBuildLabels (ad_id a) Snapshot) server"

definition stop_of :: "image_build \<Rightarrow> string \<Rightarrow> image_effect_row option" where
  "stop_of b server = select_one (\<lambda>e. (case ef_command e of
        Power_off_builder s w \<Rightarrow> s = server | _ \<Rightarrow> False)
      \<and> confirmed_resolution (ef_resolution e)) (bd_effects b)"

definition plan_verifier :: "image_build \<Rightarrow> image_resource_row \<Rightarrow> image_resource_row \<Rightarrow> image_resource_row \<Rightarrow> image_plan" where
  "plan_verifier b key firewall snapshot =
     stage b Verifier_ip (ip_command (bd_admission b) Verifier_ip) (\<lambda>ip.
     stage b Verifier (verifier_command (bd_admission b) (ref_id_of snapshot) (ref_id_of ip)
         (ref_id_of key) (ref_id_of firewall)) (\<lambda>v.
     Plan_verifier_check))"

definition plan_verification :: "image_build \<Rightarrow> instant \<Rightarrow> bool \<Rightarrow> image_resource_row \<Rightarrow> image_resource_row \<Rightarrow> image_resource_row \<Rightarrow> image_plan" where
  "plan_verification b now publicationEnabled key firewall snapshot = (case bd_verification b of
      Ver_verified spec identity result \<Rightarrow>
        if \<not> publicationEnabled then Plan_verified
        else if ad_retention (bd_admission b) \<noteq> Verification_only then Plan_publication_prepare
        else Plan_cleanup Cleanup_requested
    | Ver_waiting \<Rightarrow> Plan_verifier_prepare
    | Ver_enrolled spec identity \<Rightarrow> plan_verifier b key firewall snapshot
    | Ver_prepared spec \<Rightarrow> if vs_expiresAt spec \<le> now then Plan_cleanup Cleanup_failed
                            else plan_verifier b key firewall snapshot
    | Ver_claimed spec identity \<Rightarrow> if vs_expiresAt spec \<le> now then Plan_cleanup Cleanup_failed
                                     else plan_verifier b key firewall snapshot)"

definition plan_snapshot :: "image_build \<Rightarrow> instant \<Rightarrow> bool \<Rightarrow> bool \<Rightarrow> image_resource_row \<Rightarrow> image_resource_row \<Rightarrow> image_resource_row \<Rightarrow> image_plan" where
  "plan_snapshot b now verificationEnabled publicationEnabled key firewall builder =
     (case bd_builderWork b of
        Work_waiting \<Rightarrow> Plan_builder
      | Work_recorded w \<Rightarrow> (case bw_progress w of
          Sanitized i receipt \<Rightarrow>
            if bw_serverId w \<noteq> ref_id_of builder \<or> bw_effectId w \<noteq> rr_effectId builder
            then Plan_cleanup Cleanup_failed
            else if stop_of b (ref_id_of builder) = None
            then Plan_effect (Power_off_builder (ref_id_of builder) receipt)
            else stage b Snapshot (snapshot_command (bd_admission b) (ref_id_of builder)) (\<lambda>snapshot.
              if \<not> verificationEnabled then Plan_verification_required (ref_id_of snapshot)
              else plan_verification b now publicationEnabled key firewall snapshot)
        | _ \<Rightarrow> Plan_builder))"

definition plan_running :: "image_build \<Rightarrow> instant \<Rightarrow> bool \<Rightarrow> bool \<Rightarrow> image_plan" where
  "plan_running b now verificationEnabled publicationEnabled = (let a = bd_admission b in
     case pending_effect b of
       Some e \<Rightarrow> Plan_effect (ef_command e)
     | None \<Rightarrow>
         stage b Access_key (key_command a) (\<lambda>key.
         stage b Access_firewall (firewall_command a) (\<lambda>firewall.
         stage b Builder_ip (ip_command a Builder_ip) (\<lambda>ip.
         stage b Builder (builder_command a (ref_id_of ip) (ref_id_of key) (ref_id_of firewall)) (\<lambda>builder.
         plan_snapshot b now verificationEnabled publicationEnabled key firewall builder)))))"

definition planImageRelease :: "image_build \<Rightarrow> instant \<Rightarrow> bool \<Rightarrow> bool \<Rightarrow> image_plan" where
  "planImageRelease b now verificationEnabled publicationEnabled = (case bd_state b of
      Cleaned t \<Rightarrow> Plan_cleaned
    | Cleaning reason \<Rightarrow> Plan_cleanup reason
    | Retained t \<Rightarrow> (case ad_retention (bd_admission b) of
          Retain after \<Rightarrow> if now < after then Plan_retained else Plan_cleanup Cleanup_expired
        | Verification_only \<Rightarrow> Plan_cleanup Cleanup_expired)
    | Releasing \<Rightarrow> if ad_deadlineAt (bd_admission b) \<le> now then Plan_cleanup Cleanup_expired
                   else Plan_release_cleanup
    | Running \<Rightarrow> if ad_deadlineAt (bd_admission b) \<le> now then Plan_cleanup Cleanup_expired
                 else plan_running b now verificationEnabled publicationEnabled)"

section \<open>What is planned\<close>

text \<open>The order in which a running build creates its resources.\<close>

definition create_order :: "image_role list" where
  "create_order = [Access_key, Access_firewall, Builder_ip, Builder, Snapshot, Verifier_ip, Verifier]"

definition established :: "image_build \<Rightarrow> image_role \<Rightarrow> bool" where
  "established b role \<longleftrightarrow> (\<exists>e r. role_effect b role = Some e \<and> confirmed_resolution (ef_resolution e)
     \<and> role_resource b role = Some r)"

definition unfinished_prefix :: "image_build \<Rightarrow> image_role \<Rightarrow> bool" where
  "unfinished_prefix b role \<longleftrightarrow> role_effect b role = None
     \<and> (\<forall>r\<in>set (takeWhile (\<lambda>x. x \<noteq> role) create_order). established b r)"

lemmas command_defs = key_command_def firewall_command_def ip_command_def server_command_def
  builder_command_def verifier_command_def snapshot_command_def imageBuildLabels_def

definition planned_create :: "image_build \<Rightarrow> image_role \<Rightarrow> image_command \<Rightarrow> bool" where
  "planned_create b role c \<longleftrightarrow> pending_effect b = None \<and> unfinished_prefix b role
     \<and> image_labels c = Some (imageBuildLabels (ad_id (bd_admission b)) role)
     \<and> image_created_kind c = Some (imageRoleKind role)"

definition planned_stop :: "image_build \<Rightarrow> image_command \<Rightarrow> bool" where
  "planned_stop b c \<longleftrightarrow> (\<exists>r w i receipt. c = Power_off_builder (ref_id_of r) receipt
     \<and> role_resource b Builder = Some r \<and> bd_builderWork b = Work_recorded w
     \<and> bw_serverId w = ref_id_of r \<and> bw_effectId w = rr_effectId r
     \<and> bw_progress w = Sanitized i receipt \<and> stop_of b (ref_id_of r) = None)"

text \<open>A stage plans its own create, or the next stage plans and this one is established.\<close>

lemma stage_cases:
  assumes "stage b role command k = Plan_effect c" "pending_effect b = None"
    and "\<forall>r\<in>set (takeWhile (\<lambda>x. x \<noteq> role) create_order). established b r"
    and "image_labels command = Some (imageBuildLabels (ad_id (bd_admission b)) role)"
    and "image_created_kind command = Some (imageRoleKind role)"
  obtains (create) "planned_create b role c"
    | (go_on) r where "established b role" "role_resource b role = Some r" "k r = Plan_effect c"
proof (cases "role_effect b role")
  case None
  with assms have "planned_create b role c"
    by (simp add: stage_def planned_create_def unfinished_prefix_def)
  then show thesis by (rule create)
next
  case (Some e)
  with assms(1) obtain r where "confirmed_resolution (ef_resolution e)" "role_resource b role = Some r"
    "k r = Plan_effect c"
    by (auto simp: stage_def split: option.splits bool.splits)
  with Some show thesis by (intro go_on) (auto simp: established_def)
qed

lemma before_role [simp]:
  "takeWhile (\<lambda>x. x \<noteq> Access_key) create_order = []"
  "takeWhile (\<lambda>x. x \<noteq> Access_firewall) create_order = [Access_key]"
  "takeWhile (\<lambda>x. x \<noteq> Builder_ip) create_order = [Access_key, Access_firewall]"
  "takeWhile (\<lambda>x. x \<noteq> Builder) create_order = [Access_key, Access_firewall, Builder_ip]"
  "takeWhile (\<lambda>x. x \<noteq> Snapshot) create_order = [Access_key, Access_firewall, Builder_ip, Builder]"
  "takeWhile (\<lambda>x. x \<noteq> Verifier_ip) create_order =
     [Access_key, Access_firewall, Builder_ip, Builder, Snapshot]"
  "takeWhile (\<lambda>x. x \<noteq> Verifier) create_order =
     [Access_key, Access_firewall, Builder_ip, Builder, Snapshot, Verifier_ip]"
  by (simp_all add: create_order_def)

lemma plan_verifier_effect:
  assumes "plan_verifier b key firewall snapshot = Plan_effect c" "pending_effect b = None"
    and "established b Access_key" "established b Access_firewall" "established b Builder_ip"
    "established b Builder" "established b Snapshot"
  shows "\<exists>role. planned_create b role c"
  using assms(1) unfolding plan_verifier_def
proof (rule stage_cases)
  fix ip assume ip: "established b Verifier_ip"
    and k: "stage b Verifier (verifier_command (bd_admission b) (ref_id_of snapshot) (ref_id_of ip)
              (ref_id_of key) (ref_id_of firewall)) (\<lambda>v. Plan_verifier_check) = Plan_effect c"
  show ?thesis
    by (rule stage_cases [OF k]) (use assms ip in \<open>auto simp: command_defs\<close>)
qed (use assms in \<open>auto simp: command_defs\<close>)

lemma plan_verification_effect:
  assumes "plan_verification b now enabled key firewall snapshot = Plan_effect c"
  shows "plan_verifier b key firewall snapshot = Plan_effect c"
  using assms by (simp add: plan_verification_def split: image_verification.splits if_splits)

lemma plan_snapshot_effect:
  assumes "plan_snapshot b now verification publication key firewall builder = Plan_effect c"
    and "pending_effect b = None" "role_resource b Builder = Some builder"
    and "established b Access_key" "established b Access_firewall" "established b Builder_ip"
    "established b Builder"
  shows "(\<exists>role. planned_create b role c) \<or> planned_stop b c"
proof -
  obtain w i receipt where w: "bd_builderWork b = Work_recorded w" "bw_progress w = Sanitized i receipt"
    "bw_serverId w = ref_id_of builder" "bw_effectId w = rr_effectId builder"
    using assms(1) by (auto simp: plan_snapshot_def split: builder_work.splits builder_progress.splits if_splits)
  show ?thesis
  proof (cases "stop_of b (ref_id_of builder) = None")
    case True
    with assms(1,3) w have "planned_stop b c"
      by (auto simp: plan_snapshot_def planned_stop_def)
    then show ?thesis ..
  next
    case False
    with assms(1) w have "stage b Snapshot (snapshot_command (bd_admission b) (ref_id_of builder))
        (\<lambda>snapshot. if \<not> verification then Plan_verification_required (ref_id_of snapshot)
           else plan_verification b now publication key firewall snapshot) = Plan_effect c"
      by (simp add: plan_snapshot_def)
    then have "\<exists>role. planned_create b role c"
    proof (rule stage_cases)
      fix r assume "established b Snapshot"
        "(if \<not> verification then Plan_verification_required (ref_id_of r)
          else plan_verification b now publication key firewall r) = Plan_effect c"
      then show ?thesis
        using assms by (auto split: if_splits dest!: plan_verification_effect intro: plan_verifier_effect)
    qed (use assms in \<open>auto simp: command_defs\<close>)
    then show ?thesis ..
  qed
qed

lemma plan_running_effect:
  assumes "plan_running b now verification publication = Plan_effect c" "pending_effect b = None"
  shows "(\<exists>role. planned_create b role c) \<or> planned_stop b c"
proof -
  let ?a = "bd_admission b"
  have k: "stage b Access_key (key_command ?a) (\<lambda>key.
      stage b Access_firewall (firewall_command ?a) (\<lambda>firewall.
      stage b Builder_ip (ip_command ?a Builder_ip) (\<lambda>ip.
      stage b Builder (builder_command ?a (ref_id_of ip) (ref_id_of key) (ref_id_of firewall)) (\<lambda>builder.
      plan_snapshot b now verification publication key firewall builder)))) = Plan_effect c"
    using assms by (simp add: plan_running_def Let_def)
  show ?thesis
  proof (rule stage_cases [OF k assms(2)])
    fix key assume key: "established b Access_key" and k: "stage b Access_firewall (firewall_command ?a)
      (\<lambda>firewall. stage b Builder_ip (ip_command ?a Builder_ip)
      (\<lambda>ip. stage b Builder (builder_command ?a (ref_id_of ip) (ref_id_of key) (ref_id_of firewall))
      (\<lambda>builder. plan_snapshot b now verification publication key firewall builder))) = Plan_effect c"
    show ?thesis
    proof (rule stage_cases [OF k assms(2)])
      fix firewall assume firewall: "established b Access_firewall"
        and k: "stage b Builder_ip (ip_command ?a Builder_ip) (\<lambda>ip. stage b Builder
          (builder_command ?a (ref_id_of ip) (ref_id_of key) (ref_id_of firewall))
          (\<lambda>builder. plan_snapshot b now verification publication key firewall builder)) = Plan_effect c"
      show ?thesis
      proof (rule stage_cases [OF k assms(2)])
        fix ip assume ip: "established b Builder_ip" and k: "stage b Builder
          (builder_command ?a (ref_id_of ip) (ref_id_of key) (ref_id_of firewall))
          (\<lambda>builder. plan_snapshot b now verification publication key firewall builder) = Plan_effect c"
        show ?thesis
          by (rule stage_cases [OF k assms(2)])
            (use key firewall ip assms(2) plan_snapshot_effect in \<open>auto simp: command_defs\<close>)
      qed (use key firewall in \<open>auto simp: command_defs\<close>)
    qed (use key in \<open>auto simp: command_defs\<close>)
  qed (auto simp: command_defs)
qed

end
