(* ===== verification/Image_Policy.thy ===== *)
theory Image_Policy
  imports Image_Plan
begin

text \<open>
  \<^verbatim>\<open>apps/control/src/image-effect-policy.ts\<close>, \<^verbatim>\<open>image-resources.ts\<close> and the pure half of
  \<^verbatim>\<open>image-verifier.ts\<close>: which command a build may issue, judged against its admission, its journal
  and what the provider reports about the resources it depends on; and how a provider's answer is
  claimed for a build, recorded as an observation and compared with the intended configuration.
\<close>

section \<open>Keys of effects\<close>

fun decimal :: "nat \<Rightarrow> string" where
  "decimal n = (if n < 10 then [char_of (48 + n)] else decimal (n div 10) @ [char_of (48 + n mod 10)])"

declare decimal.simps [simp del]

fun imageEffectKey :: "image_command \<Rightarrow> string" where
  "imageEffectKey (Power_off_builder s w) = ''power_off:'' @ s"
| "imageEffectKey (Delete_image ref) = ''delete:'' @ kind_name (im_kind ref) @ '':'' @ im_id ref"
| "imageEffectKey command = (case image_labels command of
      Some l \<Rightarrow> create_key (lb_role l) | None \<Rightarrow> [])"

definition starts_with :: "string \<Rightarrow> string \<Rightarrow> bool" where
  "starts_with prefix s \<longleftrightarrow> take (length prefix) s = prefix"

section \<open>Owned snapshots (image-verifier.ts)\<close>

definition effect_confirmed :: "image_build \<Rightarrow> id \<Rightarrow> bool" where
  "effect_confirmed b i = list_ex (\<lambda>e. ef_id e = i \<and> confirmed_resolution (ef_resolution e)) (bd_effects b)"

definition confirmedImageResource :: "image_build \<Rightarrow> image_role \<Rightarrow> exn + image_resource_row" where
  "confirmedImageResource b role = (case filter (\<lambda>r. rr_role r = role) (bd_resources b) of
      [r] \<Rightarrow> if is_observed (rr_state r) \<and> effect_confirmed b (rr_effectId r) then Inr r
             else Inl (Cloud (cloud_error_retryable Provider_unavailable))
    | _ \<Rightarrow> Inl (Cloud (cloud_error_retryable Provider_unavailable)))"

fun is_sanitized :: "builder_progress \<Rightarrow> bool" where
  "is_sanitized (Sanitized i s) = True"
| "is_sanitized _ = False"

definition available_from :: "string \<Rightarrow> resource_state \<Rightarrow> bool" where
  "available_from server s = (case s of
      Observed r t \<Rightarrow> (case ir_body r of
          Snapshot_body n \<Rightarrow> nb_sourceServerId n = Some server \<and> nb_status n = Snap_available
        | _ \<Rightarrow> False)
    | _ \<Rightarrow> False)"

definition verifierSnapshot :: "image_build \<Rightarrow> exn + image_resource_row" where
  "verifierSnapshot b = (case confirmedImageResource b Snapshot of
      Inl e \<Rightarrow> Inl e
    | Inr snapshot \<Rightarrow> (case bd_builderWork b of
          Work_waiting \<Rightarrow> refusal Permission_denied
        | Work_recorded w \<Rightarrow>
            if is_sanitized (bw_progress w) \<and> available_from (bw_serverId w) (rr_state snapshot)
            then Inr snapshot else refusal Permission_denied))"

section \<open>Server intents (image-effect-policy.ts)\<close>

definition same_labels :: "build_labels \<Rightarrow> id \<Rightarrow> image_role \<Rightarrow> bool" where
  "same_labels l build role = matchesLabels (label_map l) (label_map (imageBuildLabels build role))"

definition checkImageBuilderIntent :: "image_admission \<Rightarrow> server_request \<Rightarrow> exn + unit" where
  "checkImageBuilderIntent a r =
     (if lb_role (sr_labels r) \<noteq> Builder then refusal Guest_unreachable
      else if \<not> same_labels (sr_labels r) (ad_id a) Builder
         \<or> sr_serverType r \<noteq> serverType (ad_offer a)
         \<or> sr_region r \<noteq> region_name (item_region (ad_offer a))
         \<or> sr_imageId r \<noteq> ad_baseImageId a
         \<or> sr_bootData r \<noteq> Build_secret (ac_secretId (ad_access a)) (src_manifestDigest (ad_source a))
      then refusal Invalid_input else Inr ())"

definition checkImageServerIntent :: "image_build \<Rightarrow> server_request \<Rightarrow> instant \<Rightarrow> exn + unit" where
  "checkImageServerIntent b r now = (let a = bd_admission b in
     if lb_role (sr_labels r) = Builder then checkImageBuilderIntent a r
     else (case verifierSnapshot b of
        Inl e \<Rightarrow> Inl e
      | Inr snapshot \<Rightarrow> (case bd_verification b of
            Ver_prepared spec \<Rightarrow>
              if lb_role (sr_labels r) \<noteq> Verifier \<or> vs_expiresAt spec \<le> now
                 \<or> sr_bootData r \<noteq> Verifier_secret (ad_id a) (src_manifestDigest (ad_source a))
                 \<or> sr_imageId r \<noteq> ref_id_of snapshot
                 \<or> sr_imageId r \<noteq> gi_providerImage (vs_image spec)
                 \<or> sr_serverType r \<noteq> serverType (ad_offer a)
                 \<or> sr_region r \<noteq> region_name (item_region (ad_offer a))
                 \<or> \<not> same_labels (sr_labels r) (ad_id a) Verifier
              then refusal Permission_denied else Inr ()
          | _ \<Rightarrow> refusal Permission_denied)))"

section \<open>Checking a command\<close>

definition base_ok :: "image_admission \<Rightarrow> image_base option \<Rightarrow> bool" where
  "base_ok a base = (case base of
      None \<Rightarrow> False
    | Some i \<Rightarrow> base_id i = ad_baseImageId a \<and> base_type i = ''system'' \<and> base_status i = ''available''
        \<and> base_architecture i = architecture_of (ad_offer a) \<and> base_osFlavor i = ''ubuntu''
        \<and> base_osVersion i = Some ''24.04'' \<and> base_diskGb i \<le> of_int (diskGb (ad_offer a))
        \<and> \<not> base_deprecated i \<and> \<not> base_deleted i)"

definition is_resource :: "image_ref \<Rightarrow> image_resource \<Rightarrow> bool" where
  "is_resource ref r \<longleftrightarrow> ir_id r = im_id ref \<and> ir_kind r = im_kind ref"

definition owned_resource :: "image_admission \<Rightarrow> image_resource_row \<Rightarrow> image_resource \<Rightarrow> bool" where
  "owned_resource a row r \<longleftrightarrow> is_resource (rr_ref row) r
     \<and> matchesLabels (ir_labels r) (imageEffectLabels (ad_id a) (rr_role row) (rr_effectId row))"

definition owned :: "'p image_provider \<Rightarrow> image_build \<Rightarrow> image_role \<Rightarrow> string \<Rightarrow> ('p, image_resource) factory_act" where
  "owned P b role i =
     bind (present Provider_outcome_unknown (select_one (\<lambda>r. rr_role r = role
        \<and> rr_ref r = \<lparr>im_kind = imageRoleKind role, im_id = i\<rparr>) (bd_resources b))) (\<lambda>row.
     bind (unless (\<not> is_absent (rr_state row) \<and> effect_confirmed b (rr_effectId row))
        Provider_outcome_unknown) (\<lambda>_.
     bind (ask (mk_get P (rr_ref row))) (\<lambda>answer.
     bind (present Provider_outcome_unknown answer) (\<lambda>current.
     bind (unless (owned_resource (bd_admission b) row current) Provider_outcome_unknown) (\<lambda>_.
     ret current)))))"

definition management_rule :: "string \<Rightarrow> firewall_rule \<Rightarrow> bool" where
  "management_rule address rule \<longleftrightarrow> fr_direction rule = ''in'' \<and> fr_protocol rule = ''tcp''
     \<and> fr_port rule = Some ''22'' \<and> fr_destinationIps rule = []
     \<and> fr_sourceIps rule = [address @ ''/32'']"

definition only_management :: "string \<Rightarrow> firewall_rule list \<Rightarrow> bool" where
  "only_management address rules \<longleftrightarrow> length rules = 1 \<and> list_all (management_rule address) rules"

definition dependencies_ok :: "image_admission \<Rightarrow> server_request \<Rightarrow> string option \<Rightarrow> image_resource \<Rightarrow> image_resource \<Rightarrow> image_resource \<Rightarrow> bool" where
  "dependencies_ok a r builder ip key firewall \<longleftrightarrow>
     (case (ir_body ip, ir_body key, ir_body firewall) of
        (Address_body i, Key_body k, Firewall_body f) \<Rightarrow>
          \<not> ab_autoDelete i \<and> ab_serverId i = None \<and> ab_region i = sr_region r
          \<and> kb_publicKey k = ac_publicKey (ad_access a)
          \<and> list_all (\<lambda>x. case x of Attached_server s \<Rightarrow> builder = Some s | Attached_selector y \<Rightarrow> False)
              (fb_attachments f)
          \<and> length (fb_attachments f) \<le> (if lb_role (sr_labels r) = Verifier then 1 else 0)
          \<and> only_management (ac_managementAddress (ad_access a)) (fb_rules f)
      | _ \<Rightarrow> False)"

definition verifier_source :: "'p image_provider \<Rightarrow> image_build \<Rightarrow> ('p, string option) factory_act" where
  "verifier_source P b =
     bind (from_sum (verifierSnapshot b)) (\<lambda>snapshot.
     bind (owned P b Snapshot (ref_id_of snapshot)) (\<lambda>source.
     case (ir_body source, bd_builderWork b) of
       (Snapshot_body n, Work_recorded w) \<Rightarrow>
         bind (unless (nb_status n = Snap_available \<and> nb_sourceServerId n = Some (bw_serverId w))
           Provider_outcome_unknown) (\<lambda>_.
         bind (owned P b Builder (bw_serverId w)) (\<lambda>builder.
         case ir_body builder of
           Server_body s \<Rightarrow> bind (unless (sb_power s = Im_off) Provider_outcome_unknown) (\<lambda>_.
                              ret (Some (ir_id builder)))
         | _ \<Rightarrow> throw Provider_outcome_unknown))
     | _ \<Rightarrow> throw Provider_outcome_unknown))"

definition check_server :: "'p image_provider \<Rightarrow> image_build \<Rightarrow> server_request \<Rightarrow> instant \<Rightarrow> ('p, unit) factory_act" where
  "check_server P b r now = (let verifier = lb_role (sr_labels r) = Verifier in
     bind (from_sum (checkImageServerIntent b r now)) (\<lambda>_.
     bind (owned P b (if verifier then Verifier_ip else Builder_ip) (sr_primaryIpId r)) (\<lambda>ip.
     bind (owned P b Access_key (sr_sshKeyId r)) (\<lambda>key.
     bind (owned P b Access_firewall (sr_firewallId r)) (\<lambda>firewall.
     bind (if verifier then verifier_source P b else ret None) (\<lambda>builder.
     unless (dependencies_ok (bd_admission b) r builder ip key firewall) Provider_outcome_unknown))))))"

definition recorded_sanitation :: "image_build \<Rightarrow> string \<Rightarrow> sanitation_receipt option" where
  "recorded_sanitation b server = (case bd_builderWork b of
      Work_waiting \<Rightarrow> None
    | Work_recorded w \<Rightarrow> (case bw_progress w of
          Sanitized i s \<Rightarrow> if bw_serverId w = server then Some s else None
        | _ \<Rightarrow> None))"

definition check_power_off :: "'p image_provider \<Rightarrow> image_build \<Rightarrow> string \<Rightarrow> sanitation_receipt \<Rightarrow> ('p, unit) factory_act" where
  "check_power_off P b server receipt =
     bind (unless (recorded_sanitation b server = Some receipt
         \<and> san_builderId receipt = ad_id (bd_admission b)
         \<and> san_manifestDigest receipt = src_manifestDigest (ad_source (bd_admission b)))
       Invalid_input) (\<lambda>_.
     bind (owned P b Builder server) (\<lambda>_. ret ()))"

definition check_snapshot :: "'p image_provider \<Rightarrow> image_build \<Rightarrow> string \<Rightarrow> ('p, unit) factory_act" where
  "check_snapshot P b server =
     bind (owned P b Builder server) (\<lambda>source.
     bind (unless (recorded_sanitation b server \<noteq> None) Permission_denied) (\<lambda>_.
     unless (stop_of b server \<noteq> None
       \<and> (case ir_body source of
            Server_body s \<Rightarrow> sb_power s = Im_off
              \<and> sb_architecture s = architecture_of (ad_offer (bd_admission b))
              \<and> sb_diskGb s = diskGb (ad_offer (bd_admission b))
          | _ \<Rightarrow> False)) Provider_outcome_unknown))"

definition some_pending :: "image_build \<Rightarrow> (image_command \<Rightarrow> bool) \<Rightarrow> bool" where
  "some_pending b Q = list_ex (\<lambda>e. Q (ef_command e) \<and> ef_resolution e = Im_pending) (bd_effects b)"

fun creates_server :: "image_command \<Rightarrow> bool" where
  "creates_server (Create_image_server r) = True"
| "creates_server _ = False"

fun creates_snapshot :: "image_command \<Rightarrow> bool" where
  "creates_snapshot (Create_snapshot n l s) = True"
| "creates_snapshot _ = False"

definition detached :: "image_resource \<Rightarrow> bool" where
  "detached r = (case ir_body r of
      Address_body a \<Rightarrow> ab_serverId a = None
    | Firewall_body f \<Rightarrow> fb_attachments f = []
    | Server_body s \<Rightarrow> \<not> sb_deleteProtected s
    | Snapshot_body n \<Rightarrow> \<not> nb_deleteProtected n
    | Key_body k \<Rightarrow> True)"

definition servers_left :: "image_build \<Rightarrow> bool" where
  "servers_left b = list_ex (\<lambda>r. im_kind (rr_ref r) = Im_server \<and> \<not> is_absent (rr_state r)) (bd_resources b)"

definition check_deletion :: "image_build \<Rightarrow> image_resource_row \<Rightarrow> image_resource \<Rightarrow> bool" where
  "check_deletion b row current \<longleftrightarrow>
     owned_resource (bd_admission b) row current
     \<and> (ir_kind current = Im_server \<or> \<not> some_pending b creates_server)
     \<and> (rr_role row = Builder \<longrightarrow> \<not> some_pending b creates_snapshot)
     \<and> detached current
     \<and> (ir_kind current = Im_ssh_key \<longrightarrow> \<not> servers_left b)"

definition check_delete :: "'p image_provider \<Rightarrow> image_build \<Rightarrow> image_ref \<Rightarrow> ('p, unit) factory_act" where
  "check_delete P b ref =
     bind (unless (\<not> (bd_state b = Releasing \<and> im_kind ref = Im_snapshot)) Permission_denied) (\<lambda>_.
     bind (present Provider_outcome_unknown (select_one (\<lambda>r. rr_ref r = ref) (bd_resources b))) (\<lambda>row.
     bind (unless (\<not> is_absent (rr_state row)) Provider_outcome_unknown) (\<lambda>_.
     bind (ask (mk_get P (rr_ref row))) (\<lambda>answer. case answer of
       None \<Rightarrow> ret ()
     | Some current \<Rightarrow> unless (check_deletion b row current) Provider_outcome_unknown))))"

definition check_base :: "'p image_provider \<Rightarrow> image_build \<Rightarrow> image_command \<Rightarrow> ('p, unit) factory_act" where
  "check_base P b command =
     onlyIf (isImageCreate command \<and> \<not> creates_snapshot command)
       (bind (ask (mk_getBaseImage P (ad_baseImageId (bd_admission b)))) (\<lambda>base.
        unless (base_ok (bd_admission b) base) Provider_unavailable))"

definition create_labels_ok :: "image_build \<Rightarrow> image_command \<Rightarrow> bool" where
  "create_labels_ok b command = (case image_labels command of
      None \<Rightarrow> True
    | Some l \<Rightarrow> same_labels l (ad_id (bd_admission b)) (lb_role l)
        \<and> Some (imageRoleKind (lb_role l)) = image_created_kind command)"

definition checkImageCommand :: "'p image_provider \<Rightarrow> image_build \<Rightarrow> image_command \<Rightarrow> instant \<Rightarrow> ('p, unit) factory_act" where
  "checkImageCommand P b command now = (let a = bd_admission b in
     bind (check_base P b command) (\<lambda>_.
     bind (unless (create_labels_ok b command) Invalid_input) (\<lambda>_.
     case command of
       Create_ssh_key n l k \<Rightarrow> unless (k = ac_publicKey (ad_access a)) Invalid_input
     | Create_firewall n l m \<Rightarrow> unless (m = ac_managementAddress (ad_access a)) Invalid_input
     | Create_image_ip n l r \<Rightarrow> unless (r = region_name (item_region (ad_offer a))) Invalid_input
     | Create_image_server r \<Rightarrow> check_server P b r now
     | Power_off_builder s w \<Rightarrow> check_power_off P b s w
     | Create_snapshot n l s \<Rightarrow> check_snapshot P b s
     | Delete_image ref \<Rightarrow> check_delete P b ref)))"

section \<open>Claiming and observing resources (image-resources.ts)\<close>

definition command_role :: "image_command \<Rightarrow> image_role option" where
  "command_role c = map_option lb_role (image_labels c)"

definition claimed_by :: "id \<Rightarrow> id \<Rightarrow> image_resource_row option \<Rightarrow> bool" where
  "claimed_by build effect row = (case row of
      None \<Rightarrow> False
    | Some r \<Rightarrow> rr_buildId r = build \<and> rr_effectId r = effect \<and> \<not> is_absent (rr_state r))"

definition claimImageResource :: "image_build \<Rightarrow> image_effect_row \<Rightarrow> image_ref \<Rightarrow> ('p, unit) factory_act" where
  "claimImageResource b e ref = (case command_role (ef_command e) of
      None \<Rightarrow> throw Provider_outcome_unknown
    | Some role \<Rightarrow>
        bind (unless (imageRoleKind role = im_kind ref) Provider_outcome_unknown) (\<lambda>_.
        bind (post (Insert_image_resource ref (ad_id (bd_admission b)) (ef_id e) role)) (\<lambda>_.
        bind (look (\<lambda>clock c d. resource_in d ref)) (\<lambda>row.
        unless (claimed_by (ad_id (bd_admission b)) (ef_id e) row) Provider_outcome_unknown))))"

definition effect_matches :: "image_build \<Rightarrow> id \<Rightarrow> image_ref \<Rightarrow> image_resource \<Rightarrow> bool" where
  "effect_matches b effect ref r = (case select_one (\<lambda>e. ef_id e = effect) (bd_effects b) of
      None \<Rightarrow> False
    | Some e \<Rightarrow> (case command_role (ef_command e) of
          None \<Rightarrow> False
        | Some role \<Rightarrow> is_resource ref r
            \<and> matchesLabels (ir_labels r) (imageEffectLabels (ad_id (bd_admission b)) role (ef_id e))))"

definition observeImageResource :: "image_build \<Rightarrow> image_ref \<Rightarrow> image_resource option \<Rightarrow> ('p, unit) factory_act" where
  "observeImageResource b ref answer = (let build = ad_id (bd_admission b) in
     bind (bind (look (\<lambda>clock c d. select_one (\<lambda>r. rr_ref r = ref \<and> rr_buildId r = build) (ib_resources d)))
       (present Provider_outcome_unknown)) (\<lambda>row.
     case answer of
       None \<Rightarrow> onlyIf (\<not> is_absent (rr_state row))
         (bind wallTime (\<lambda>now. post (Set_resource_state ref build (Absent now))))
     | Some r \<Rightarrow>
         bind (unless (effect_matches b (rr_effectId row) ref r) Provider_outcome_unknown) (\<lambda>_.
         bind wallTime (\<lambda>now. post (Set_resource_state ref build (Observed r now))))))"

definition address_recorded :: "image_build \<Rightarrow> string \<Rightarrow> string \<Rightarrow> bool" where
  "address_recorded b ip address = list_ex (\<lambda>r. rr_ref r = \<lparr>im_kind = Im_primary_ip, im_id = ip\<rparr>
     \<and> (case rr_state r of
          Observed ob t \<Rightarrow> (case ir_body ob of Address_body a \<Rightarrow> ab_ipv4 a = address | _ \<Rightarrow> False)
        | _ \<Rightarrow> False)) (bd_resources b)"

fun configured :: "image_build \<Rightarrow> image_effect_row \<Rightarrow> image_command \<Rightarrow> image_body \<Rightarrow> bool" where
  "configured b e (Create_ssh_key n l k) (Key_body x) = (kb_publicKey x = k)"
| "configured b e (Create_firewall n l m) (Firewall_body x) =
     (fb_attachments x = [] \<and> only_management m (fb_rules x))"
| "configured b e (Create_image_ip n l r) (Address_body x) =
     (ab_region x = r \<and> \<not> ab_autoDelete x \<and> ab_serverId x = None)"
| "configured b e (Create_image_server r) (Server_body x) =
     (sb_name x = sr_name r \<and> sb_serverType x = sr_serverType r \<and> sb_region x = sr_region r
      \<and> sb_architecture x = architecture_of (ad_offer (bd_admission b))
      \<and> sb_diskGb x = diskGb (ad_offer (bd_admission b))
      \<and> sb_imageId x = Some (sr_imageId r) \<and> sb_primaryIpId x = Some (sr_primaryIpId r)
      \<and> (case sb_ipv4 x of None \<Rightarrow> False | Some address \<Rightarrow> address_recorded b (sr_primaryIpId r) address)
      \<and> sb_firewalls x = [(sr_firewallId r, ''applied'')]
      \<and> sb_power x = Im_running \<and> \<not> sb_deleteProtected x)"
| "configured b e (Create_snapshot n l s) (Snapshot_body x) =
     (nb_status x = Snap_available \<and> nb_sourceServerId x = Some s
      \<and> nb_architecture x = architecture_of (ad_offer (bd_admission b))
      \<and> nb_diskGb x = diskGb (ad_offer (bd_admission b))
      \<and> (case nb_imageSizeGb x of None \<Rightarrow> False
         | Some g \<Rightarrow> g \<le> of_int (bu_maxSnapshotGb (ad_budget (bd_admission b))))
      \<and> \<not> nb_deleteProtected x \<and> ef_createdAt e - 5000 \<le> nb_createdAt x)"
| "configured b e command body = False"

definition imageCreateMatches :: "image_build \<Rightarrow> image_effect_row \<Rightarrow> image_resource \<Rightarrow> bool" where
  "imageCreateMatches b e r = (case command_role (ef_command e) of
      None \<Rightarrow> False
    | Some role \<Rightarrow> ir_kind r = imageRoleKind role
        \<and> matchesLabels (ir_labels r) (imageEffectLabels (ad_id (bd_admission b)) role (ef_id e))
        \<and> configured b e (ef_command e) (ir_body r))"

end
