(* ===== verification/Image_Journal.thy ===== *)
theory Image_Journal
  imports Image_Policy
begin

text \<open>
  \<^verbatim>\<open>apps/control/src/image-effect-journal.ts\<close> and \<^verbatim>\<open>image-cleanup.ts\<close>: an effect of a build
  is checked, written to the journal in one transaction and then submitted, once; an existing
  effect is only reconciled with what the provider reports. Cleanup reconciles everything and
  then names one owned resource to delete, servers first.
\<close>

datatype resolved = Done_confirmed | Done_failed | Retry_effect | Still_pending

section \<open>Reconciling an effect\<close>

text \<open>A command creates a resource for a role or has an exact target; the last case of
  \<open>reconcileImageEffect\<close> does not occur.\<close>

definition settle_confirmed :: "image_effect_row \<Rightarrow> ('p, resolved) factory_act" where
  "settle_confirmed e = bind wallTime (\<lambda>now.
     bind (post (Set_image_resolution (ef_id e) (Im_confirmed now))) (\<lambda>_. ret Done_confirmed))"

definition settle_failed :: "image_effect_row \<Rightarrow> ('p, resolved) factory_act" where
  "settle_failed e = bind (post (Set_image_resolution (ef_id e) Im_failed)) (\<lambda>_. ret Done_failed)"

text \<open>\<open>new Map(found.map(...))\<close>: one entry per id, in order of first appearance, the last value.\<close>

definition candidates :: "image_resource list \<Rightarrow> image_resource list" where
  "candidates found = List.map_filter (\<lambda>i. find (\<lambda>r. ir_id r = i) (rev found))
     (rev (remdups (rev (map ir_id found))))"

definition known_ids :: "image_build \<Rightarrow> image_effect_row \<Rightarrow> image_resource list \<Rightarrow> string list" where
  "known_ids b e cs = remdups (map ir_id cs
     @ map ref_id_of (filter (\<lambda>r. rr_effectId r = ef_id e) (bd_resources b)))"

definition receipt :: "image_outcome \<Rightarrow> image_ref option" where
  "receipt x = (case x of
      Im_submitted (Im_accepted ref action) \<Rightarrow> Some ref
    | Im_submitted (Im_completed ref) \<Rightarrow> Some ref
    | _ \<Rightarrow> None)"

definition accepted_action :: "image_outcome \<Rightarrow> (image_ref \<times> string) option" where
  "accepted_action x = (case x of
      Im_submitted (Im_accepted ref action) \<Rightarrow> Some (ref, action) | _ \<Rightarrow> None)"

definition claim_receipt :: "image_build \<Rightarrow> image_effect_row \<Rightarrow> ('p, unit) factory_act" where
  "claim_receipt b e = (case receipt (ef_outcome e) of
      None \<Rightarrow> ret ()
    | Some ref \<Rightarrow> onlyIf (\<not> list_ex (\<lambda>r. rr_effectId r = ef_id e \<and> rr_ref r = ref) (bd_resources b))
        (claimImageResource b e ref))"

text \<open>Claims and observes every candidate; true when one disagrees with the records.\<close>

definition record_candidate :: "image_build \<Rightarrow> image_effect_row \<Rightarrow> image_kind \<Rightarrow> labels \<Rightarrow> bool \<Rightarrow> image_resource \<Rightarrow> ('p, bool) factory_act" where
  "record_candidate b e kind ls mismatched r =
     (if ir_kind r \<noteq> kind \<or> \<not> matchesLabels (ir_labels r) ls then ret True
      else (let ref = \<lparr>im_kind = kind, im_id = ir_id r\<rparr> in
        catch_cloud
          (bind (claimImageResource b e ref) (\<lambda>_.
           bind (observeImageResource b ref (Some r)) (\<lambda>_. ret mismatched)))
          (\<lambda>f. ret True)))"

definition judge_create :: "image_build \<Rightarrow> image_effect_row \<Rightarrow> image_resource list \<Rightarrow> ('p, resolved) factory_act" where
  "judge_create b e cs = (case cs of
      [r] \<Rightarrow>
        if 1 < length (known_ids b e cs) then ret Still_pending
        else if (case receipt (ef_outcome e) of None \<Rightarrow> False | Some ref \<Rightarrow> ir_id r \<noteq> im_id ref)
        then ret Still_pending
        else if \<not> imageCreateMatches b e r then ret Still_pending
        else settle_confirmed e
    | _ \<Rightarrow> ret Still_pending)"

definition search_create :: "'p image_provider \<Rightarrow> image_build \<Rightarrow> image_effect_row \<Rightarrow> image_role \<Rightarrow> ('p, resolved) factory_act" where
  "search_create P b e role = (let kind = imageRoleKind role;
       ls = imageEffectLabels (ad_id (bd_admission b)) role (ef_id e) in
     bind (ask (mk_find P kind ls)) (\<lambda>found.
     bind (foldM (record_candidate b e kind ls) False (candidates found)) (\<lambda>mismatched.
     if mismatched then ret Still_pending else judge_create b e (candidates found))))"

definition reconcile_create :: "'p image_provider \<Rightarrow> image_build \<Rightarrow> image_effect_row \<Rightarrow> image_role \<Rightarrow> ('p, resolved) factory_act" where
  "reconcile_create P b e role =
     bind (claim_receipt b e) (\<lambda>_.
     case accepted_action (ef_outcome e) of
       None \<Rightarrow> search_create P b e role
     | Some (ref, action) \<Rightarrow>
         bind (ask (mk_getAction P action (imageActionTarget (ef_command e) ref))) (\<lambda>state.
         case state of
           Image_action Action_running \<Rightarrow> ret Still_pending
         | Image_action (Action_failed f) \<Rightarrow> settle_failed e
         | _ \<Rightarrow> search_create P b e role))"

fun target_of :: "image_command \<Rightarrow> image_ref option" where
  "target_of (Delete_image ref) = Some ref"
| "target_of (Power_off_builder s w) = Some \<lparr>im_kind = Im_server, im_id = s\<rparr>"
| "target_of _ = None"

fun stops_server :: "image_command \<Rightarrow> bool" where
  "stops_server (Power_off_builder s w) = True"
| "stops_server _ = False"

definition powered_off :: "image_resource option \<Rightarrow> bool" where
  "powered_off answer = (case answer of
      None \<Rightarrow> False
    | Some r \<Rightarrow> (case ir_body r of Server_body s \<Rightarrow> sb_power s = Im_off | _ \<Rightarrow> False))"

definition judge_exact :: "'p image_provider \<Rightarrow> image_build \<Rightarrow> image_effect_row \<Rightarrow> image_ref \<Rightarrow> bool \<Rightarrow> ('p, resolved) factory_act" where
  "judge_exact P b e ref retry =
     bind (ask (mk_get P ref)) (\<lambda>current.
     bind (observeImageResource b ref current) (\<lambda>_.
     if stops_server (ef_command e) \<and> current = None then settle_failed e
     else if deletes_image (ef_command e) \<and> current = None
       \<or> stops_server (ef_command e) \<and> powered_off current then settle_confirmed e
     else ret (if retry then Retry_effect else Still_pending)))"

definition reconcile_exact :: "'p image_provider \<Rightarrow> image_build \<Rightarrow> image_effect_row \<Rightarrow> image_ref \<Rightarrow> ('p, resolved) factory_act" where
  "reconcile_exact P b e target =
     (if (case receipt (ef_outcome e) of None \<Rightarrow> False | Some ref \<Rightarrow> ref \<noteq> target)
      then ret Still_pending
      else (case accepted_action (ef_outcome e) of
         None \<Rightarrow> judge_exact P b e target (ef_outcome e = Im_prepared \<or> ef_outcome e = Im_submitted Im_unknown)
       | Some (ref, action) \<Rightarrow>
           bind (ask (mk_getAction P action ref)) (\<lambda>state. case state of
             Image_action Action_running \<Rightarrow> ret Still_pending
           | Image_action (Action_failed f) \<Rightarrow> settle_failed e
           | Image_action Action_succeeded \<Rightarrow> judge_exact P b e target False
           | Action_missing \<Rightarrow> judge_exact P b e target True)))"

definition reconcileImageEffect :: "'p image_provider \<Rightarrow> image_build \<Rightarrow> image_effect_row \<Rightarrow> ('p, resolved) factory_act" where
  "reconcileImageEffect P b e = (case ef_resolution e of
      Im_superseded by \<Rightarrow> ret Still_pending
    | Im_confirmed t \<Rightarrow> ret Done_confirmed
    | Im_failed \<Rightarrow> ret Done_failed
    | Im_pending \<Rightarrow>
        if ef_outcome e = Im_submitted Im_rejected then settle_failed e
        else (case (command_role (ef_command e), target_of (ef_command e)) of
                (Some role, _) \<Rightarrow> reconcile_create P b e role
              | (None, Some target) \<Rightarrow> reconcile_exact P b e target
              | (None, None) \<Rightarrow> ret Still_pending))"

section \<open>Running an effect\<close>

text \<open>\<open>limits\<close> and \<open>priced\<close> are given for every effect but the deletions of recovery.\<close>

type_synonym 'p image_pricing = "(image_limits \<times> ('p, catalog \<times> image_storage_price) port) option"

definition previous_effects :: "image_build \<Rightarrow> image_command \<Rightarrow> image_effect_row list" where
  "previous_effects b command = filter (\<lambda>e. ef_key e = imageEffectKey command
     \<or> \<not> isImageCreate command \<and> starts_with (imageEffectKey command @ '':'') (ef_key e)) (bd_effects b)"

definition new_key :: "image_build \<Rightarrow> image_command \<Rightarrow> string" where
  "new_key b command = (if isImageCreate command then imageEffectKey command
     else imageEffectKey command @ '':'' @ decimal (length (previous_effects b command) + 1))"

definition deletes_snapshot :: "image_command \<Rightarrow> bool" where
  "deletes_snapshot c = (case c of Delete_image ref \<Rightarrow> im_kind ref = Im_snapshot | _ \<Rightarrow> False)"

fun deleting_state :: "build_state \<Rightarrow> bool" where
  "deleting_state (Cleaning r) = True"
| "deleting_state Releasing = True"
| "deleting_state _ = False"

definition imageSnapshotInUse :: "id \<Rightarrow> ('p, bool) factory_act" where
  "imageSnapshotInUse i = look (\<lambda>clock c d. image_snapshot_in_use c d i)"

text \<open>The checks before anything is written.\<close>

definition admit_effect :: "'p image_provider \<Rightarrow> image_build \<Rightarrow> image_command \<Rightarrow> image_effect_row option \<Rightarrow> ('p, unit) factory_act" where
  "admit_effect P b command previous = (let i = ad_id (bd_admission b) in
     bind (onlyIf (\<not> deletes_image command)
       (bind (unless (bd_state b = Running) Provider_rejected) (\<lambda>_.
        bind databaseTime (\<lambda>now. unless (now < ad_deadlineAt (bd_admission b)) Provider_rejected)))) (\<lambda>_.
     bind (onlyIf (deletes_image command)
       (unless (deleting_state (bd_state b)) Permission_denied)) (\<lambda>_.
     bind (onlyIf (\<not> deletes_image command)
       (unless (\<not> list_ex (\<lambda>e. ef_resolution e = Im_pending \<and> Some (ef_id e) \<noteq> map_option ef_id previous)
          (bd_effects b)) Provider_outcome_unknown)) (\<lambda>_.
     bind (onlyIf (deletes_snapshot command)
       (bind (imageSnapshotInUse i) (\<lambda>used. unless (\<not> used) Provider_outcome_unknown))) (\<lambda>_.
     bind databaseTime (\<lambda>now.
     checkImageCommand P b command now))))))"

definition check_current_prices :: "image_admission \<Rightarrow> image_limits \<Rightarrow> catalog \<times> image_storage_price \<Rightarrow> instant \<Rightarrow> ('p, unit) factory_act" where
  "check_current_prices a limits prices now =
     bind (from_sum (checkImagePrices a (fst prices) (snd prices) now)) (\<lambda>_.
     bind (look (\<lambda>clock c d. open_reservations d)) (\<lambda>opened.
     from_sum (checkImageLimits (parseImageReservations opened) limits)))"

definition check_open_build :: "image_build \<Rightarrow> image_command \<Rightarrow> (image_limits \<times> catalog \<times> image_storage_price) option \<Rightarrow> ('p, unit) factory_act" where
  "check_open_build b command prices =
     bind advisoryLock (\<lambda>_.
     bind (bind (look (\<lambda>clock c d. build_in d (ad_id (bd_admission b)))) (present Not_found)) (\<lambda>row.
     bind databaseTime (\<lambda>now.
     bind (unless (\<not> cleaned_state (ib_state row)
         \<and> (deletes_image command \<or> ib_state row = Running \<and> now < ad_deadlineAt (bd_admission b)))
       Provider_rejected) (\<lambda>_.
     case prices of
       None \<Rightarrow> ret ()
     | Some (limits, p) \<Rightarrow> check_current_prices (bd_admission b) limits p now))))"

definition supersede_effect :: "id \<Rightarrow> image_effect_row option \<Rightarrow> ('p, unit) factory_act" where
  "supersede_effect i supersede = (case supersede of
      None \<Rightarrow> ret ()
    | Some e \<Rightarrow> post (Set_image_resolution (ef_id e) (Im_superseded i)))"

definition journal_effect :: "image_build \<Rightarrow> image_command \<Rightarrow> id \<Rightarrow> (image_limits \<times> catalog \<times> image_storage_price) option \<Rightarrow> image_effect_row option \<Rightarrow> ('p, unit) factory_act" where
  "journal_effect b command i prices supersede = image_transaction
     (bind (check_open_build b command prices) (\<lambda>_.
      bind (post (Insert_effect i (ad_id (bd_admission b)) (new_key b command) command)) (\<lambda>_.
      supersede_effect i supersede)))"

text \<open>A thrown submission is an unknown outcome.\<close>

definition submit_effect :: "'p image_provider \<Rightarrow> id \<Rightarrow> image_command \<Rightarrow> ('p, image_submission) factory_act" where
  "submit_effect P i command = catch_any (ask_submit (mk_submit P i command) i command) (ret Im_unknown)"

definition fetch_prices :: "image_command \<Rightarrow> 'p image_pricing \<Rightarrow> ('p, (image_limits \<times> catalog \<times> image_storage_price) option) factory_act" where
  "fetch_prices command priced =
     (if isImageCreate command
      then (case priced of
              None \<Rightarrow> throw Permission_denied
            | Some (limits, f) \<Rightarrow> bind (ask f) (\<lambda>p. ret (Some (limits, p))))
      else ret None)"

definition start_effect :: "'p image_provider \<Rightarrow> image_build \<Rightarrow> image_command \<Rightarrow> 'p image_pricing \<Rightarrow> image_effect_row option \<Rightarrow> ('p, resolved) factory_act" where
  "start_effect P b command priced supersede =
     bind (fetch_prices command priced) (\<lambda>prices.
     bind randomUUID (\<lambda>i.
     bind (journal_effect b command i prices supersede) (\<lambda>_.
     bind (submit_effect P i command) (\<lambda>outcome.
     bind (post (Set_image_outcome i (Im_submitted outcome))) (\<lambda>_.
     bind (inspectImageBuild (ad_id (bd_admission b))) (\<lambda>updated.
     bind (present Internal_error (select_one (\<lambda>e. ef_id e = i) (bd_effects updated))) (\<lambda>e.
     reconcileImageEffect P updated e)))))))"

definition attempt_effect :: "'p image_provider \<Rightarrow> image_build \<Rightarrow> image_command \<Rightarrow> 'p image_pricing \<Rightarrow> image_effect_row option \<Rightarrow> image_effect_row option \<Rightarrow> ('p, resolved) factory_act" where
  "attempt_effect P b command priced previous supersede =
     (if cleaned_state (bd_state b) then ret Done_confirmed
      else bind (admit_effect P b command previous) (\<lambda>_. start_effect P b command priced supersede))"

definition runImageEffect :: "'p image_provider \<Rightarrow> id \<Rightarrow> image_command \<Rightarrow> 'p image_pricing \<Rightarrow> ('p, resolved option) factory_act" where
  "runImageEffect P i command priced = withImageBuildLock i
     (bind (inspectImageBuild i) (\<lambda>b.
      case last_option (previous_effects b command) of
        None \<Rightarrow> attempt_effect P b command priced None None
      | Some e \<Rightarrow>
          bind (unless (ef_command e = command) Idempotency_conflict) (\<lambda>_.
          bind (reconcileImageEffect P b e) (\<lambda>resolution.
          if isImageCreate command \<or> resolution \<notin> {Done_failed, Retry_effect} then ret resolution
          else attempt_effect P b command priced (Some e)
                 (if resolution = Retry_effect then Some e else None)))))"

section \<open>Cleanup (image-cleanup.ts)\<close>

datatype cleanup_step =
    Cleanup_delete image_command
  | Cleanup_waiting "id list"
  | Cleanup_ready
  | Cleanup_done

datatype cleanup_intent = Abort | Release

definition reconcile_pending :: "'p image_provider \<Rightarrow> image_build \<Rightarrow> ('p, unit) factory_act" where
  "reconcile_pending P b = foldM (\<lambda>_ e.
     if ef_resolution e = Im_pending then bind (reconcileImageEffect P b e) (\<lambda>_. ret ()) else ret ())
     () (bd_effects b)"

definition creator_pending :: "image_build \<Rightarrow> image_resource_row \<Rightarrow> bool" where
  "creator_pending b r = (case select_one (\<lambda>e. ef_id e = rr_effectId r) (bd_effects b) of
      None \<Rightarrow> False | Some e \<Rightarrow> ef_resolution e = Im_pending)"

definition observe_resources :: "'p image_provider \<Rightarrow> image_build \<Rightarrow> ('p, unit) factory_act" where
  "observe_resources P b = foldM (\<lambda>_ r.
     if is_absent (rr_state r) then ret ()
     else bind (ask (mk_get P (rr_ref r))) (\<lambda>current.
       onlyIf (current \<noteq> None \<or> \<not> creator_pending b r) (observeImageResource b (rr_ref r) current)))
     () (bd_resources b)"

definition running_creates :: "'p image_provider \<Rightarrow> image_effect_row list \<Rightarrow> ('p, id list) factory_act" where
  "running_creates P pending = foldM (\<lambda>acc e. case accepted_action (ef_outcome e) of
       None \<Rightarrow> ret acc
     | Some (ref, action) \<Rightarrow>
         bind (ask (mk_getAction P action (imageActionTarget (ef_command e) ref))) (\<lambda>state.
         ret (if state = Image_action Action_running then ef_id e # acc else acc))) [] pending"

fun delete_rank :: "image_kind \<Rightarrow> nat" where
  "delete_rank Im_server = 0"
| "delete_rank Im_snapshot = 1"
| "delete_rank Im_primary_ip = 2"
| "delete_rank Im_firewall = 3"
| "delete_rank Im_ssh_key = 4"

definition remaining_resources :: "image_build \<Rightarrow> image_resource_row list" where
  "remaining_resources b = filter (\<lambda>r. \<not> is_absent (rr_state r)
     \<and> \<not> (bd_state b = Releasing \<and> rr_role r = Snapshot)) (bd_resources b)"

definition pending_effects :: "image_build \<Rightarrow> image_effect_row list" where
  "pending_effects b = filter (\<lambda>e. ef_resolution e = Im_pending) (bd_effects b)"

definition deletable :: "image_build \<Rightarrow> id list \<Rightarrow> bool \<Rightarrow> image_resource_row \<Rightarrow> bool" where
  "deletable b running pinned r \<longleftrightarrow>
     \<not> (rr_role r = Snapshot \<and> pinned)
     \<and> \<not> (list_ex (\<lambda>e. ef_id e = rr_effectId r) (pending_effects b) \<and> rr_effectId r \<in> set running)
     \<and> is_observed (rr_state r)
     \<and> (im_kind (rr_ref r) = Im_server \<or> \<not> some_pending b creates_server)
     \<and> (rr_role r = Builder \<longrightarrow> \<not> some_pending b creates_snapshot)"

definition next_deletion :: "image_build \<Rightarrow> id list \<Rightarrow> bool \<Rightarrow> image_resource_row option" where
  "next_deletion b running pinned = (case sort_key (\<lambda>r. delete_rank (im_kind (rr_ref r)))
       (filter (deletable b running pinned) (remaining_resources b)) of
      [] \<Rightarrow> None | r # rs \<Rightarrow> Some r)"

definition choose_cleanup :: "image_build \<Rightarrow> id list \<Rightarrow> bool \<Rightarrow> cleanup_step option" where
  "choose_cleanup b running pinned =
     (case next_deletion b running pinned of
        Some r \<Rightarrow> Some (Cleanup_delete (Delete_image (rr_ref r)))
      | None \<Rightarrow>
          if pending_effects b \<noteq> [] then Some (Cleanup_waiting (map ef_id (pending_effects b)))
          else if remaining_resources b \<noteq> [] then Some (Cleanup_waiting (map rr_effectId (remaining_resources b)))
          else if bd_state b = Releasing then Some Cleanup_ready
          else None)"

definition finish_cleanup :: "'p image_provider \<Rightarrow> id \<Rightarrow> image_build \<Rightarrow> ('p, cleanup_step) factory_act" where
  "finish_cleanup P i b =
     bind (running_creates P (pending_effects b)) (\<lambda>running.
     case select_one (\<lambda>e. deletes_image (ef_command e)) (pending_effects b) of
       Some e \<Rightarrow> ret (Cleanup_delete (ef_command e))
     | None \<Rightarrow>
         bind (imageSnapshotInUse i) (\<lambda>pinned.
         case choose_cleanup b running pinned of
           Some answer \<Rightarrow> ret answer
         | None \<Rightarrow> bind wallTime (\<lambda>now.
                     bind (post (Set_build_state i (Cleaned now))) (\<lambda>_. ret Cleanup_done))))"

definition cleanup_pass :: "'p image_provider \<Rightarrow> id \<Rightarrow> image_build \<Rightarrow> ('p, cleanup_step) factory_act" where
  "cleanup_pass P i b =
     bind (reconcile_pending P b) (\<lambda>_.
     bind (inspectImageBuild i) (\<lambda>b.
     bind (observe_resources P b) (\<lambda>_.
     bind (inspectImageBuild i) (\<lambda>b.
     finish_cleanup P i b))))"

fun closing_state :: "build_state \<Rightarrow> bool" where
  "closing_state (Cleaning r) = True"
| "closing_state (Cleaned t) = True"
| "closing_state _ = False"

definition planImageCleanup :: "'p image_provider \<Rightarrow> id \<Rightarrow> cleanup_intent \<Rightarrow> ('p, cleanup_step option) factory_act" where
  "planImageCleanup P i intent = withImageBuildLock i
     (bind (inspectImageBuild i) (\<lambda>first.
      bind (if intent \<noteq> Release \<and> \<not> closing_state (bd_state first)
            then bind (requestImageCleanup i Cleanup_requested) (\<lambda>_. inspectImageBuild i)
            else ret first) (\<lambda>b.
      bind (unless (\<not> (intent = Release \<and> bd_state b \<noteq> Releasing)) Permission_denied) (\<lambda>_.
      if cleaned_state (bd_state b) then ret Cleanup_done else cleanup_pass P i b))))"

end
