(* ===== verification/Image_Work.thy ===== *)
theory Image_Work
  imports Image_Journal
begin

text \<open>
  \<^verbatim>\<open>apps/control/src/image-builder-work.ts\<close>: one phase of the work on the builder over SSH,
  under the build lock: install the inputs, then erase the access. The intent of each phase is
  recorded before the remote acts, and an erasure that was started is never started again. The
  remote and the store of access material act on the outside world; they are ports.
\<close>

record builder_target =
  tg_buildId :: id
  tg_effectId :: id
  tg_manifestDigest :: string
  tg_address :: string
  tg_hostPublicKey :: string
  tg_managementPrivateKey :: string
  tg_checksumDigest :: string
  tg_deadlineAt :: instant

record 'p image_remote =
  rm_inspect :: "builder_target \<Rightarrow> ('p, image_installation) port"
  rm_upload :: "builder_target \<Rightarrow> ('p, unit) port"
  rm_install :: "builder_target \<Rightarrow> ('p, image_installation) port"
  rm_sanitize :: "builder_target \<Rightarrow> ('p, sanitation_receipt) port"

record 'p image_access_store =
  as_recover :: "image_admission \<Rightarrow> ('p, string) port"
  as_remove :: "image_admission \<Rightarrow> ('p, unit) port"

datatype work_result = Work_progress builder_progress | Work_wait | Work_cleanup

definition throw_retryable :: "error_code \<Rightarrow> ('s, 'a) prog" where
  "throw_retryable c = raise (Cloud (cloud_error_retryable c))"

definition unless_retryable :: "bool \<Rightarrow> error_code \<Rightarrow> ('s, unit) prog" where
  "unless_retryable b c = (if b then ret () else throw_retryable c)"

definition work_active :: "id \<Rightarrow> ('p, bool) factory_act" where
  "work_active i =
     bind (inspectImageBuild i) (\<lambda>b.
     if bd_state b \<noteq> Running then ret False
     else bind databaseTime (\<lambda>now.
       if ad_deadlineAt (bd_admission b) \<le> now
       then bind (requestImageCleanup i Cleanup_expired) (\<lambda>_. ret False)
       else bind (unless_retryable (pending_effects b = []) Provider_outcome_unknown) (\<lambda>_. ret True)))"

definition builder_intent :: "image_build \<Rightarrow> (image_resource_row \<times> image_effect_row \<times> server_request) option" where
  "builder_intent b = (case filter (\<lambda>r. rr_role r = Builder) (bd_resources b) of
      [r] \<Rightarrow> (case select_one (\<lambda>e. ef_id e = rr_effectId r) (bd_effects b) of
          None \<Rightarrow> None
        | Some e \<Rightarrow> (case ef_command e of
              Create_image_server request \<Rightarrow>
                if is_observed (rr_state r) \<and> confirmed_resolution (ef_resolution e)
                then Some (r, e, request) else None
            | _ \<Rightarrow> None))
    | _ \<Rightarrow> None)"

definition same_builder :: "image_build \<Rightarrow> image_resource_row \<Rightarrow> image_effect_row \<Rightarrow> bool" where
  "same_builder b r e = (case bd_builderWork b of
      Work_waiting \<Rightarrow> True
    | Work_recorded w \<Rightarrow> bw_serverId w = ref_id_of r \<and> bw_effectId w = ef_id e)"

definition assigned_address :: "image_build \<Rightarrow> string \<Rightarrow> image_resource option \<Rightarrow> bool" where
  "assigned_address b server answer = (case answer of
      None \<Rightarrow> False
    | Some r \<Rightarrow> (case ir_body r of
          Address_body a \<Rightarrow> ab_serverId a = Some server \<and> \<not> ab_autoDelete a
            \<and> ab_region a = region_name (item_region (ad_offer (bd_admission b)))
        | _ \<Rightarrow> False))"

definition server_address :: "image_resource \<Rightarrow> string option" where
  "server_address r = (case ir_body r of Server_body s \<Rightarrow> sb_ipv4 s | _ \<Rightarrow> None)"

definition observe_address :: "'p image_provider \<Rightarrow> image_build \<Rightarrow> server_request \<Rightarrow> string \<Rightarrow> ('p, unit) factory_act" where
  "observe_address P b request server =
     (case select_one (\<lambda>r. rr_role r = Builder_ip \<and> ref_id_of r = sr_primaryIpId request) (bd_resources b) of
        None \<Rightarrow> throw_retryable Provider_outcome_unknown
      | Some ip \<Rightarrow>
          bind (unless_retryable (is_observed (rr_state ip)) Provider_outcome_unknown) (\<lambda>_.
          bind (ask (mk_get P (rr_ref ip))) (\<lambda>address.
          bind (observeImageResource b (rr_ref ip) address) (\<lambda>_.
          unless_retryable (assigned_address b server address) Provider_outcome_unknown))))"

definition currentBuilder :: "'p image_provider \<Rightarrow> image_build \<Rightarrow> ('p, string \<times> id \<times> string) factory_act" where
  "currentBuilder P b = (case builder_intent b of
      None \<Rightarrow> throw_retryable Provider_outcome_unknown
    | Some (r, e, request) \<Rightarrow>
        bind (unless (same_builder b r e) Permission_denied) (\<lambda>_.
        bind (observe_address P b request (ref_id_of r)) (\<lambda>_.
        bind (ask (mk_get P (rr_ref r))) (\<lambda>answer.
        bind (observeImageResource b (rr_ref r) answer) (\<lambda>_.
        bind (inspectImageBuild (ad_id (bd_admission b))) (\<lambda>updated.
        case answer of
          None \<Rightarrow> throw_retryable Provider_outcome_unknown
        | Some current \<Rightarrow> (case server_address current of
              None \<Rightarrow> throw_retryable Provider_outcome_unknown
            | Some address \<Rightarrow>
                bind (unless_retryable (imageCreateMatches updated e current) Provider_outcome_unknown) (\<lambda>_.
                ret (ir_id current, ef_id e, address)))))))))"

definition install_receipt_ok :: "install_receipt \<Rightarrow> bool" where
  "install_receipt_ok r \<longleftrightarrow> zod_uuid (ins_builderId r) \<and> sha256_ok (ins_manifestDigest r)
     \<and> machine_id_ok (ins_machineId r)"

fun builder_progress_ok :: "builder_progress \<Rightarrow> bool" where
  "builder_progress_ok Installing = True"
| "builder_progress_ok (Installed r) = install_receipt_ok r"
| "builder_progress_ok (Sanitizing r) = install_receipt_ok r"
| "builder_progress_ok (Sanitized r s) = (install_receipt_ok r \<and> zod_uuid (san_builderId s)
     \<and> sha256_ok (san_manifestDigest s))"

definition save_progress :: "id \<Rightarrow> builder_progress \<Rightarrow> ('p, work_result) factory_act" where
  "save_progress i p =
     bind (parsed (if builder_progress_ok p then Some p else None)) (\<lambda>_.
     bind (post (Set_builder_progress i p)) (\<lambda>_. ret (Work_progress p)))"

definition install_result :: "id \<Rightarrow> image_installation \<Rightarrow> ('p, work_result) factory_act" where
  "install_result i installation = (case installation of
      Installed_already r \<Rightarrow> save_progress i (Installed r) | _ \<Rightarrow> ret Work_wait)"

definition install_builder :: "'p image_remote \<Rightarrow> id \<Rightarrow> builder_target \<Rightarrow> ('p, work_result) factory_act" where
  "install_builder R i target =
     bind (ask (rm_inspect R target)) (\<lambda>installation.
     if installation \<noteq> Not_started then install_result i installation
     else bind (work_active i) (\<lambda>active.
       if \<not> active then ret Work_cleanup
       else bind (ask (rm_upload R target)) (\<lambda>_.
         bind (work_active i) (\<lambda>active.
         if \<not> active then ret Work_cleanup
         else bind (ask (rm_install R target)) (install_result i)))))"

definition install_phase :: "'p image_remote \<Rightarrow> id \<Rightarrow> builder_target \<Rightarrow> ('p, work_result) factory_act" where
  "install_phase R i target = catch_cloud (install_builder R i target)
     (\<lambda>f. if code f = Guest_unreachable \<and> retryable f then ret Work_wait else raise (Cloud f))"

definition sanitize_phase :: "'p image_remote \<Rightarrow> id \<Rightarrow> builder_target \<Rightarrow> install_receipt \<Rightarrow> ('p, work_result) factory_act" where
  "sanitize_phase R i target r =
     bind (work_active i) (\<lambda>active.
     if \<not> active then ret Work_cleanup
     else bind (save_progress i (Sanitizing r)) (\<lambda>_.
       bind (catch_any (bind (ask (rm_sanitize R target)) (\<lambda>s. ret (Some s)))
              (bind (requestImageCleanup i Cleanup_failed) (\<lambda>_. ret None))) (\<lambda>sanitation.
       case sanitation of
         None \<Rightarrow> ret Work_cleanup
       | Some s \<Rightarrow> save_progress i (Sanitized r s))))"

definition builder_target_of :: "image_build \<Rightarrow> id \<Rightarrow> string \<Rightarrow> string \<Rightarrow> builder_target" where
  "builder_target_of b effect address material = (let a = bd_admission b in
     \<lparr>tg_buildId = ad_id a, tg_effectId = effect, tg_manifestDigest = src_manifestDigest (ad_source a),
      tg_address = address, tg_hostPublicKey = ac_hostPublicKey (ad_access a),
      tg_managementPrivateKey = material, tg_checksumDigest = src_checksumDigest (ad_source a),
      tg_deadlineAt = ad_deadlineAt a\<rparr>)"

definition record_work :: "id \<Rightarrow> builder_work \<Rightarrow> id \<Rightarrow> string \<Rightarrow> ('p, builder_record) factory_act" where
  "record_work i work effect server = (case work of
      Work_recorded w \<Rightarrow> ret w
    | Work_waiting \<Rightarrow>
        bind (post (Insert_builder_work i effect server)) (\<lambda>_.
        bind (inspectImageBuild i) (\<lambda>b. case bd_builderWork b of
          Work_recorded w \<Rightarrow> ret w | Work_waiting \<Rightarrow> throw Internal_error)))"

definition work_phase :: "'p image_remote \<Rightarrow> id \<Rightarrow> builder_record \<Rightarrow> builder_target \<Rightarrow> ('p, work_result) factory_act" where
  "work_phase R i w target = (case bw_progress w of
      Installing \<Rightarrow> install_phase R i target
    | Installed r \<Rightarrow> sanitize_phase R i target r
    | _ \<Rightarrow> throw Internal_error)"

fun finished_work :: "builder_work \<Rightarrow> builder_progress option" where
  "finished_work (Work_recorded w) = (if is_sanitized (bw_progress w) then Some (bw_progress w) else None)"
| "finished_work Work_waiting = None"

definition sanitizing_work :: "builder_work \<Rightarrow> bool" where
  "sanitizing_work work = (case work of
      Work_recorded w \<Rightarrow> (case bw_progress w of Sanitizing r \<Rightarrow> True | _ \<Rightarrow> False)
    | Work_waiting \<Rightarrow> False)"

definition builder_work_pass :: "'p image_provider \<Rightarrow> 'p image_access_store \<Rightarrow> 'p image_remote \<Rightarrow> id \<Rightarrow> image_build \<Rightarrow> ('p, work_result) factory_act" where
  "builder_work_pass P A R i b =
     bind (currentBuilder P b) (\<lambda>(server, effect, address).
     bind (ask (as_recover A (bd_admission b))) (\<lambda>material.
     bind (work_active i) (\<lambda>active.
     if \<not> active then ret Work_cleanup
     else bind (record_work i (bd_builderWork b) effect server) (\<lambda>w.
       work_phase R i w (builder_target_of b effect address material)))))"

definition runImageBuilderWork :: "'p image_provider \<Rightarrow> 'p image_access_store \<Rightarrow> 'p image_remote \<Rightarrow> id \<Rightarrow> ('p, work_result option) factory_act" where
  "runImageBuilderWork P A R i = withImageBuildLock i
     (bind (work_active i) (\<lambda>active.
      if \<not> active then ret Work_cleanup
      else bind (inspectImageBuild i) (\<lambda>b.
        case finished_work (bd_builderWork b) of
          Some p \<Rightarrow> ret (Work_progress p)
        | None \<Rightarrow>
            if sanitizing_work (bd_builderWork b)
            then bind (requestImageCleanup i Cleanup_failed) (\<lambda>_. ret Work_cleanup)
            else builder_work_pass P A R i b)))"

end
