(* ===== verification/Image_Release.thy ===== *)
theory Image_Release
  imports Image_Work
begin

text \<open>
  Signed releases and their publication: \<^verbatim>\<open>packages/images/src/release.ts\<close>,
  \<^verbatim>\<open>apps/control/src/image-verifier.ts\<close> (preparing and observing the verifier) and
  \<^verbatim>\<open>image-publication.ts\<close>. Signing, hashing and the canonical manifest of a set of inputs are
  functions of the record \<open>release_crypto\<close>; nothing is assumed of them unless a theorem says so.
\<close>

section \<open>Signed releases (release.ts)\<close>

datatype image_release_key =
    Trusted_key string instant instant instant
  | Revoked_key string

record release_crypto =
  cr_keyId :: "string \<Rightarrow> string option"
  cr_verify :: "release_evidence \<Rightarrow> instant \<Rightarrow> string \<Rightarrow> string \<Rightarrow> bool"
  cr_digest :: "guest_manifest \<Rightarrow> string"
  cr_manifest :: "image_input list \<Rightarrow> image_artifacts \<Rightarrow> guest_trust \<Rightarrow> guest_manifest option"

definition validatePayload :: "release_crypto \<Rightarrow> release_evidence \<Rightarrow> instant \<Rightarrow> bool" where
  "validatePayload C ev issuedAt = (let digest = cr_digest C (ev_manifest ev); snap = ev_snapshot ev in
     (case cr_manifest C (ev_inputs ev) (ev_artifacts ev) (man_trust (ev_manifest ev)) of
        None \<Rightarrow> False | Some m \<Rightarrow> cr_digest C m = digest)
     \<and> san_builderId (ev_sanitation ev) = ev_buildId ev
     \<and> ev_sanitizedServer ev = rs_sourceServerId snap
     \<and> san_manifestDigest (ev_sanitation ev) = digest \<and> ev_bootDigest ev = digest
     \<and> ev_bootServer ev \<noteq> rs_sourceServerId snap
     \<and> rs_sourceStoppedAt snap \<le> rs_createdAt snap \<and> rs_createdAt snap \<le> ev_checkedAt ev
     \<and> ev_checkedAt ev \<le> issuedAt \<and> issuedAt < ev_retainUntil ev)"

text \<open>\<open>signImageRelease\<close>; the signer is the key id of the private key and its signing function.\<close>

record release_signer =
  ss_keyId :: string
  ss_sign :: "release_evidence \<Rightarrow> instant \<Rightarrow> string"

definition signImageRelease :: "release_crypto \<Rightarrow> release_signer \<Rightarrow> release_evidence \<Rightarrow> instant \<Rightarrow> exn + signed_release" where
  "signImageRelease C S ev issuedAt = (if validatePayload C ev issuedAt
     then Inr \<lparr>sg_evidence = ev, sg_issuedAt = issuedAt, sg_keyId = ss_keyId S, sg_value = ss_sign S ev issuedAt\<rparr>
     else Inl Defect)"

text \<open>The map of trusted keys by id; \<open>None\<close> when two policies name the same key or one has an
  invalid window.\<close>

fun trusted_keys :: "release_crypto \<Rightarrow> image_release_key list \<Rightarrow> (string \<times> image_release_key) list option" where
  "trusted_keys C [] = Some []"
| "trusted_keys C (Revoked_key i # ks) = trusted_keys C ks"
| "trusted_keys C (Trusted_key k signedFrom signedUntil verifyUntil # ks) = (case (trusted_keys C ks, cr_keyId C k) of
      (Some ts, Some i) \<Rightarrow>
        if list_ex (\<lambda>(j, t). j = i) ts \<or> signedUntil \<le> signedFrom \<or> verifyUntil < signedUntil
        then None
        else Some ((i, Trusted_key k signedFrom signedUntil verifyUntil) # ts)
    | _ \<Rightarrow> None)"

definition revoked_key :: "image_release_key list \<Rightarrow> string \<Rightarrow> bool" where
  "revoked_key ks i = list_ex (\<lambda>k. k = Revoked_key i) ks"

definition release_image :: "release_crypto \<Rightarrow> release_evidence \<Rightarrow> guest_image" where
  "release_image C ev = (let m = ev_manifest ev in
     \<lparr>gi_providerImage = rs_id (ev_snapshot ev), gi_architecture = man_architecture m,
      gi_version = man_version m, gi_manifestDigest = cr_digest C m, gi_trust = man_trust m,
      gi_customerSsh = man_customerSsh m\<rparr>)"

definition within_policy :: "signed_release \<Rightarrow> instant \<Rightarrow> instant \<Rightarrow> instant \<Rightarrow> instant \<Rightarrow> bool" where
  "within_policy r signedFrom signedUntil verifyUntil now \<longleftrightarrow>
     signedFrom \<le> sg_issuedAt r \<and> sg_issuedAt r < signedUntil \<and> now < verifyUntil
     \<and> sg_issuedAt r \<le> now \<and> now < ev_retainUntil (sg_evidence r)"

definition verifySignedImageRelease :: "release_crypto \<Rightarrow> signed_release \<Rightarrow> image_release_key list \<Rightarrow> instant \<Rightarrow> guest_image option" where
  "verifySignedImageRelease C r ks now = (case trusted_keys C ks of
      None \<Rightarrow> None
    | Some ts \<Rightarrow> (case map_of ts (sg_keyId r) of
          Some (Trusted_key k signedFrom signedUntil verifyUntil) \<Rightarrow>
            if \<not> revoked_key ks (sg_keyId r) \<and> within_policy r signedFrom signedUntil verifyUntil now
               \<and> cr_verify C (sg_evidence r) (sg_issuedAt r) k (sg_value r)
               \<and> validatePayload C (sg_evidence r) (sg_issuedAt r)
            then Some (release_image C (sg_evidence r)) else None
        | _ \<Rightarrow> None))"

definition requireTrustedImageRelease :: "release_crypto \<Rightarrow> signed_release \<Rightarrow> image_release_key list \<Rightarrow> instant \<Rightarrow> exn + guest_image" where
  "requireTrustedImageRelease C r ks now = (case verifySignedImageRelease C r ks now of
      None \<Rightarrow> refusal Permission_denied | Some i \<Rightarrow> Inr i)"

section \<open>Preparing the verifier (image-verifier.ts)\<close>

definition requireActiveImageBuild :: "id \<Rightarrow> ('p, unit) factory_act" where
  "requireActiveImageBuild i = bind (look (\<lambda>clock c d. case build_in d i of
       None \<Rightarrow> False | Some b \<Rightarrow> active_build clock b))
     (\<lambda>active. unless active Permission_denied)"

definition verifier_expiry :: "image_build \<Rightarrow> verifier_bootstrap_row option \<Rightarrow> ('p, instant) factory_act" where
  "verifier_expiry b existing = (case existing of
      Some row \<Rightarrow> ret (bt_expiresAt row)
    | None \<Rightarrow> bind databaseTime (\<lambda>now. ret (min (ad_deadlineAt (bd_admission b)) (now + 30 * 60000))))"

definition prepared_spec :: "image_build \<Rightarrow> string \<Rightarrow> instant \<Rightarrow> string \<Rightarrow> verifier_spec" where
  "prepared_spec b url expires snapshot = (let a = bd_admission b; m = src_manifest (ad_source a) in
     \<lparr>vs_subject = ad_id a, vs_enrollmentUrl = url, vs_expiresAt = expires,
      vs_image = \<lparr>gi_providerImage = snapshot, gi_architecture = man_architecture m,
        gi_version = man_version m, gi_manifestDigest = src_manifestDigest (ad_source a),
        gi_trust = man_trust m, gi_customerSsh = man_customerSsh m\<rparr>\<rparr>)"

text \<open>\<open>seal\<close> issues a random token bound to the specification: its hash and its ciphertext. The
  result is the subject of the specification.\<close>

definition place_bootstrap :: "('p, string \<times> string) port \<Rightarrow> id \<Rightarrow> string \<Rightarrow> verifier_spec \<Rightarrow> verifier_bootstrap_row option \<Rightarrow> ('p, unit) factory_act" where
  "place_bootstrap seal i snapshot spec existing = (case existing of
      Some row \<Rightarrow> unless (bt_spec row = spec \<and> bt_snapshotId row = snapshot) Idempotency_conflict
    | None \<Rightarrow>
        bind (ask seal) (\<lambda>(hash, sealed).
        post (Insert_verifier_bootstrap i snapshot spec hash sealed (vs_expiresAt spec))))"

definition prepare_bootstrap :: "('p, string \<times> string) port \<Rightarrow> string \<Rightarrow> id \<Rightarrow> image_build \<Rightarrow> string \<Rightarrow> ('p, id) factory_act" where
  "prepare_bootstrap seal url i b snapshot = image_transaction
     (bind (requireActiveImageBuild i) (\<lambda>_.
      bind (look (\<lambda>clock c d. bootstrap_in d i)) (\<lambda>existing.
      bind (verifier_expiry b existing) (\<lambda>expires.
      let spec = prepared_spec b url expires snapshot in
      bind (place_bootstrap seal i snapshot spec existing) (\<lambda>_.
      ret (vs_subject spec))))))"

definition prepareImageVerification :: "('p, string \<times> string) port \<Rightarrow> string \<Rightarrow> id \<Rightarrow> ('p, id option) factory_act" where
  "prepareImageVerification seal url i = withImageBuildLock i
     (bind (inspectImageBuild i) (\<lambda>b.
      bind (from_sum (verifierSnapshot b)) (\<lambda>snapshot.
      prepare_bootstrap seal url i b (ref_id_of snapshot))))"

definition read_owned :: "'p image_provider \<Rightarrow> image_build \<Rightarrow> image_resource_row \<Rightarrow> ('p, image_resource) factory_act" where
  "read_owned P b row =
     bind (ask (mk_get P (rr_ref row))) (\<lambda>answer.
     bind (present Provider_outcome_unknown answer) (\<lambda>r.
     bind (unless (owned_resource (bd_admission b) row r) Provider_outcome_unknown) (\<lambda>_. ret r)))"

text \<open>The three reads are concurrent in the code; here they follow each other.\<close>

definition verifier_boot_ok :: "image_build \<Rightarrow> image_resource \<Rightarrow> image_resource \<Rightarrow> image_resource \<Rightarrow> bool" where
  "verifier_boot_ok b source server address =
     (case (ir_body source, ir_body server, ir_body address, bd_builderWork b) of
        (Snapshot_body n, Server_body s, Address_body a, Work_recorded w) \<Rightarrow>
          nb_sourceServerId n = Some (bw_serverId w) \<and> nb_status n = Snap_available
          \<and> ir_id server \<noteq> bw_serverId w \<and> sb_imageId s = Some (ir_id source)
          \<and> sb_primaryIpId s = Some (ir_id address) \<and> sb_ipv4 s = Some (ab_ipv4 a)
          \<and> ab_serverId a = Some (ir_id server) \<and> \<not> ab_autoDelete a \<and> sb_power s = Im_running
          \<and> sb_region s = region_name (item_region (ad_offer (bd_admission b)))
          \<and> ab_region a = sb_region s
          \<and> sb_serverType s = serverType (ad_offer (bd_admission b))
          \<and> sb_architecture s = architecture_of (ad_offer (bd_admission b))
          \<and> sb_diskGb s = diskGb (ad_offer (bd_admission b))
          \<and> nb_architecture n = sb_architecture s \<and> nb_diskGb n = sb_diskGb s
      | _ \<Rightarrow> False)"

record observed_verifier =
  ob_server :: image_resource
  ob_address :: image_resource
  ob_effectId :: id
  ob_snapshotId :: string

definition observeImageVerifier :: "'p image_provider \<Rightarrow> image_build \<Rightarrow> ('p, observed_verifier) factory_act" where
  "observeImageVerifier P b =
     bind (from_sum (verifierSnapshot b)) (\<lambda>snapshot.
     bind (from_sum (confirmedImageResource b Verifier)) (\<lambda>verifier.
     bind (from_sum (confirmedImageResource b Verifier_ip)) (\<lambda>ip.
     bind (read_owned P b snapshot) (\<lambda>source.
     bind (read_owned P b verifier) (\<lambda>server.
     bind (read_owned P b ip) (\<lambda>address.
     bind (unless (verifier_boot_ok b source server address) Provider_outcome_unknown) (\<lambda>_.
     ret \<lparr>ob_server = server, ob_address = address, ob_effectId = rr_effectId verifier,
          ob_snapshotId = ir_id source\<rparr>)))))))"

section \<open>Publication (image-publication.ts)\<close>

definition publication_inputs :: "image_build \<Rightarrow> (builder_record \<times> sanitation_receipt \<times> verification_result \<times> instant) option" where
  "publication_inputs b =
     (case (ad_retention (bd_admission b), bd_verification b, bd_builderWork b) of
        (Retain after, Ver_verified spec identity result, Work_recorded w) \<Rightarrow> (case bw_progress w of
            Sanitized r s \<Rightarrow> if pending_effects b = [] then Some (w, s, result, after) else None
          | _ \<Rightarrow> None)
      | _ \<Rightarrow> None)"

definition release_evidence_of :: "image_build \<Rightarrow> builder_record \<Rightarrow> sanitation_receipt \<Rightarrow> verification_result \<Rightarrow> instant \<Rightarrow> image_resource \<Rightarrow> snapshot_body \<Rightarrow> instant \<Rightarrow> release_evidence" where
  "release_evidence_of b w s result after current n stopped = (let source = ad_source (bd_admission b) in
     \<lparr>ev_buildId = ad_id (bd_admission b), ev_retainUntil = after, ev_manifest = src_manifest source,
      ev_inputs = src_inputs source, ev_artifacts = src_artifacts source, ev_sanitation = s,
      ev_sanitizedServer = bw_serverId w,
      ev_snapshot = \<lparr>rs_id = ir_id current, rs_sourceServerId = bw_serverId w, rs_diskGb = nb_diskGb n,
        rs_sourceStoppedAt = stopped, rs_createdAt = nb_createdAt n\<rparr>,
      ev_bootServer = vr_serverId result, ev_bootId = rt_bootId (vr_runtime result),
      ev_bootDigest = pf_manifestDigest (rt_proof (vr_runtime result)),
      ev_checkedAt = vr_verifiedAt result\<rparr>)"

definition confirmed_at :: "image_effect_row option \<Rightarrow> instant option" where
  "confirmed_at e = (case map_option ef_resolution e of Some (Im_confirmed t) \<Rightarrow> Some t | _ \<Rightarrow> None)"

text \<open>The snapshot a release may be made of: available, not protected, of a stopped builder.\<close>

definition publishable :: "image_build \<Rightarrow> builder_record \<Rightarrow> image_resource option \<Rightarrow> (image_resource \<times> snapshot_body \<times> instant) option" where
  "publishable b w answer = (case (answer, confirmed_at (stop_of b (bw_serverId w))) of
      (Some r, Some stopped) \<Rightarrow> (case ir_body r of
          Snapshot_body n \<Rightarrow> if nb_status n = Snap_available \<and> \<not> nb_deleteProtected n
                             then Some (r, n, stopped) else None
        | _ \<Rightarrow> None)
    | _ \<Rightarrow> None)"

definition commit_publication :: "id \<Rightarrow> release_evidence \<Rightarrow> ('p, unit) factory_act" where
  "commit_publication i evidence = image_transaction
     (bind (requireActiveImageBuild i) (\<lambda>_.
      bind (post (Insert_publication i evidence)) (\<lambda>_.
      post (Set_build_state i Releasing))))"

definition prepare_publication :: "'p image_provider \<Rightarrow> id \<Rightarrow> image_build \<Rightarrow> ('p, image_publication) factory_act" where
  "prepare_publication P i b =
     bind (present Permission_denied (publication_inputs b)) (\<lambda>(w, s, result, after).
     bind (image_transaction (requireActiveImageBuild i)) (\<lambda>_.
     bind (observeImageVerifier P b) (\<lambda>_.
     bind (from_sum (verifierSnapshot b)) (\<lambda>snapshot.
     bind (ask (mk_get P (rr_ref snapshot))) (\<lambda>answer.
     bind (observeImageResource b (rr_ref snapshot) answer) (\<lambda>_.
     bind (present Provider_outcome_unknown (publishable b w answer)) (\<lambda>(r, n, stopped).
     let evidence = release_evidence_of b w s result after r n stopped in
     bind (commit_publication i evidence) (\<lambda>_. ret (Pub_prepared evidence)))))))))"

fun released_state :: "build_state \<Rightarrow> bool" where
  "released_state Releasing = True"
| "released_state (Retained t) = True"
| "released_state _ = False"

definition prepareImagePublication :: "'p image_provider \<Rightarrow> id \<Rightarrow> ('p, image_publication option) factory_act" where
  "prepareImagePublication P i = withImageBuildLock i
     (bind (inspectImageBuild i) (\<lambda>b.
      if released_state (bd_state b) then ret (bd_publication b) else prepare_publication P i b))"

definition temporary_cleanup :: "image_build \<Rightarrow> bool" where
  "temporary_cleanup b \<longleftrightarrow> pending_effects b = []
     \<and> list_all (\<lambda>r. rr_role r = Snapshot \<or> is_absent (rr_state r)) (bd_resources b)"

definition requireTemporaryCleanup :: "image_build \<Rightarrow> ('s, unit) prog" where
  "requireTemporaryCleanup b = unless (temporary_cleanup b) Provider_outcome_unknown"

definition release_record :: "image_build \<Rightarrow> release_evidence \<Rightarrow> image_resource_row option" where
  "release_record b ev = (case filter (\<lambda>r. rr_role r = Snapshot) (bd_resources b) of
      [r] \<Rightarrow> if ref_id_of r = rs_id (ev_snapshot ev) \<and> is_observed (rr_state r)
                \<and> effect_confirmed b (rr_effectId r) then Some r else None
    | _ \<Rightarrow> None)"

definition release_snapshot_ok :: "image_build \<Rightarrow> release_evidence \<Rightarrow> image_resource_row \<Rightarrow> image_resource \<Rightarrow> bool" where
  "release_snapshot_ok b ev row r \<longleftrightarrow>
     (case ir_body r of
        Snapshot_body n \<Rightarrow> ir_id r = im_id (rr_ref row)
          \<and> matchesLabels (ir_labels r) (imageEffectLabels (ad_id (bd_admission b)) Snapshot (rr_effectId row))
          \<and> nb_status n = Snap_available \<and> \<not> nb_deleteProtected n
          \<and> nb_architecture n = man_architecture (ev_manifest ev)
          \<and> nb_diskGb n = rs_diskGb (ev_snapshot ev) \<and> nb_createdAt n = rs_createdAt (ev_snapshot ev)
          \<and> nb_sourceServerId n \<in> {None, Some (rs_sourceServerId (ev_snapshot ev))}
      | _ \<Rightarrow> False)"

definition observePublishedSnapshot :: "'p image_provider \<Rightarrow> image_build \<Rightarrow> release_evidence \<Rightarrow> ('p, image_resource) factory_act" where
  "observePublishedSnapshot P b ev =
     bind (present Provider_outcome_unknown (release_record b ev)) (\<lambda>row.
     bind (ask (mk_get P (rr_ref row))) (\<lambda>answer.
     bind (present Provider_outcome_unknown answer) (\<lambda>r.
     bind (unless (release_snapshot_ok b ev row r) Provider_outcome_unknown) (\<lambda>_. ret r))))"

text \<open>The key source is read again at each use.\<close>

definition resolvePublishedImage :: "release_crypto \<Rightarrow> ('p, image_release_key list) port \<Rightarrow> 'p image_provider \<Rightarrow> id \<Rightarrow> image_build \<Rightarrow> ('p, signed_release \<times> guest_image) factory_act" where
  "resolvePublishedImage C readKeys P i b = (case (bd_state b, bd_publication b) of
      (Retained t, Pub_published release) \<Rightarrow>
        bind (requireTemporaryCleanup b) (\<lambda>_.
        bind (ask readKeys) (\<lambda>ks.
        bind databaseTime (\<lambda>now.
        bind (from_sum (requireTrustedImageRelease C release ks now)) (\<lambda>img.
        bind (unless (ev_manifest (sg_evidence release) = src_manifest (ad_source (bd_admission b)))
          Permission_denied) (\<lambda>_.
        bind (observePublishedSnapshot P b (sg_evidence release)) (\<lambda>_.
        bind (inspectImageBuild i) (\<lambda>refreshed.
        bind (unless (case bd_state refreshed of Retained u \<Rightarrow> True | _ \<Rightarrow> False) Permission_denied) (\<lambda>_.
        bind (ask readKeys) (\<lambda>ks.
        bind databaseTime (\<lambda>now.
        bind (from_sum (requireTrustedImageRelease C release ks now)) (\<lambda>_.
        ret (release, img))))))))))))
    | _ \<Rightarrow> throw Permission_denied)"

definition commit_release :: "id \<Rightarrow> signed_release \<Rightarrow> ('p, unit) factory_act" where
  "commit_release i release = image_transaction
     (bind (post (Set_release i release)) (\<lambda>_.
      post (Set_build_state i (Retained (sg_issuedAt release)))))"

definition publish_release :: "release_crypto \<Rightarrow> release_signer \<Rightarrow> ('p, image_release_key list) port \<Rightarrow> 'p image_provider \<Rightarrow> id \<Rightarrow> image_build \<Rightarrow> release_evidence \<Rightarrow> ('p, signed_release) factory_act" where
  "publish_release C S readKeys P i b evidence =
     bind (requireTemporaryCleanup b) (\<lambda>_.
     bind (unless (bd_accessRemovedAt b \<noteq> None) Permission_denied) (\<lambda>_.
     bind (observePublishedSnapshot P b evidence) (\<lambda>snapshot.
     bind (observeImageResource b \<lparr>im_kind = Im_snapshot, im_id = ir_id snapshot\<rparr> (Some snapshot)) (\<lambda>_.
     bind databaseTime (\<lambda>issuedAt.
     bind (from_sum (signImageRelease C S evidence issuedAt)) (\<lambda>release.
     bind (ask readKeys) (\<lambda>ks.
     bind (from_sum (requireTrustedImageRelease C release ks issuedAt)) (\<lambda>_.
     bind (commit_release i release) (\<lambda>_. ret release)))))))))"

definition publishImageRelease :: "release_crypto \<Rightarrow> release_signer \<Rightarrow> ('p, image_release_key list) port \<Rightarrow> 'p image_provider \<Rightarrow> id \<Rightarrow> ('p, signed_release option) factory_act" where
  "publishImageRelease C S readKeys P i = withImageBuildLock i
     (bind (inspectImageBuild i) (\<lambda>b. case (bd_state b, bd_publication b) of
        (Retained t, _) \<Rightarrow> bind (resolvePublishedImage C readKeys P i b) (\<lambda>(release, img). ret release)
      | (Releasing, Pub_prepared evidence) \<Rightarrow> publish_release C S readKeys P i b evidence
      | _ \<Rightarrow> throw Permission_denied))"

definition readPublishedImage :: "release_crypto \<Rightarrow> ('p, image_release_key list) port \<Rightarrow> 'p image_provider \<Rightarrow> id \<Rightarrow> ('p, (signed_release \<times> guest_image) option) factory_act" where
  "readPublishedImage C readKeys P i = withImageBuildLock i
     (bind (inspectImageBuild i) (\<lambda>b. resolvePublishedImage C readKeys P i b))"

end
