(* ===== verification/Image_Verification.thy ===== *)
theory Image_Verification
  imports Image_Release
begin

text \<open>
  Verifying the snapshot of a build on a fresh machine booted from it:
  \<^verbatim>\<open>image-verifier-records.ts\<close> (signing limits), \<^verbatim>\<open>image-verifier-enrollment.ts\<close> (claiming
  keys and issuing certificates) and \<^verbatim>\<open>image-verifier-runtime.ts\<close> (checking the running
  image). The signer, the SSH probe and the token seal are ports.
\<close>

section \<open>Signing limits\<close>

definition last_sequence :: "signing_attempt_row option \<Rightarrow> int" where
  "last_sequence r = (case r of None \<Rightarrow> 0 | Some x \<Rightarrow> sn_sequence x)"

definition reserveImageVerifierSigning :: "id \<Rightarrow> signing_purpose \<Rightarrow> ('p, unit) factory_act" where
  "reserveImageVerifierSigning i p = image_transaction
     (bind (requireActiveImageBuild i) (\<lambda>_.
      bind (look (\<lambda>clock c d. (last_signing d i p, clock))) (\<lambda>(last, clock).
      bind (unless (last_sequence last < signing_limit p) Quota_exceeded) (\<lambda>_.
      bind (unless_retryable (case last of None \<Rightarrow> True | Some r \<Rightarrow> sn_createdAt r + 30000 \<le> clock)
        Resource_busy) (\<lambda>_.
      post (Insert_signing i p (last_sequence last + 1)))))))"

section \<open>Ports\<close>

record verifier_target =
  vf_subject :: id
  vf_address :: string
  vf_credential :: probe_credential
  vf_trust :: string

record 'p verifier_ports =
  vp_trust :: guest_trust
  vp_matches :: "string \<Rightarrow> string \<Rightarrow> bool"
  vp_validateTls :: "id \<Rightarrow> string \<Rightarrow> ('p, unit) port"
  vp_issueProbe :: "id \<Rightarrow> ('p, probe_credential) port"
  vp_issueRuntime :: "id \<Rightarrow> ('p, probe_credential) port"
  vp_signHost :: "id \<Rightarrow> string \<Rightarrow> ('p, string) port"
  vp_signTls :: "id \<Rightarrow> string \<Rightarrow> ('p, string) port"
  vp_readIdentity :: "verifier_target \<Rightarrow> ('p, verifier_proof) port"
  vp_readRuntime :: "verifier_target \<Rightarrow> ('p, verifier_runtime) port"

text \<open>The cache drops what expires within 35 seconds and holds at most 1024 credentials; \<open>None\<close>
  when it is full.\<close>

type_synonym credentials = "(id \<times> probe_credential) list"

definition fresh_credentials :: "instant \<Rightarrow> credentials \<Rightarrow> credentials" where
  "fresh_credentials now cs = filter (\<lambda>(i, c). now + 35000 < pc_expiresAt c) cs"

definition get_state :: "('s \<Rightarrow> 'a) \<Rightarrow> ('s, 'a) prog" where
  "get_state f s = (Inr (f s), s)"

definition set_state :: "('s \<Rightarrow> 's) \<Rightarrow> ('s, unit) prog" where
  "set_state f s = (Inr (), f s)"

type_synonym 'p cache = "('p factory \<Rightarrow> credentials) \<times> (credentials \<Rightarrow> 'p factory \<Rightarrow> 'p factory)"

definition probe_cache :: "'p cache" where
  "probe_cache = (probe_credentials, \<lambda>cs s. s\<lparr>probe_credentials := cs\<rparr>)"

definition runtime_cache :: "'p cache" where
  "runtime_cache = (runtime_credentials, \<lambda>cs s. s\<lparr>runtime_credentials := cs\<rparr>)"

definition credential_for :: "'p cache \<Rightarrow> id \<Rightarrow> signing_purpose \<Rightarrow> ('p, probe_credential) port \<Rightarrow> ('p, probe_credential option) factory_act" where
  "credential_for cache i purpose issue =
     bind databaseTime (\<lambda>now.
     bind (set_state (\<lambda>s. snd cache (fresh_credentials now (fst cache s)) s)) (\<lambda>_.
     bind (get_state (fst cache)) (\<lambda>cs. case map_of cs i of
       Some c \<Rightarrow> ret (Some c)
     | None \<Rightarrow>
         if 1024 \<le> length cs then ret None
         else bind (reserveImageVerifierSigning i purpose) (\<lambda>_.
           bind (ask issue) (\<lambda>c.
           bind (set_state (\<lambda>s. snd cache ((i, c) # fst cache s) s)) (\<lambda>_.
           ret (Some c)))))))"

definition forget_credential :: "'p cache \<Rightarrow> id \<Rightarrow> ('p, unit) factory_act" where
  "forget_credential cache i =
     set_state (\<lambda>s. snd cache (filter (\<lambda>(j, c). j \<noteq> i) (fst cache s)) s)"

section \<open>Enrollment (image-verifier-enrollment.ts)\<close>

record enrollment_input =
  en_subject :: id
  en_token :: string
  en_sshHostPublicKey :: string
  en_tlsCsr :: string
  en_imageVersion :: string

definition enrollment_input_ok :: "enrollment_input \<Rightarrow> bool" where
  "enrollment_input_ok x \<longleftrightarrow> zod_uuid (en_subject x) \<and> length (en_token x) = 43
     \<and> list_all (\<lambda>c. is_alnum c \<or> c \<in> set ''_-'') (en_token x)
     \<and> ssh_public_key_ok (en_sshHostPublicKey x)
     \<and> en_tlsCsr x \<noteq> [] \<and> length (en_tlsCsr x) \<le> 8192
     \<and> en_imageVersion x \<noteq> [] \<and> length (en_imageVersion x) \<le> 64"

definition verifier_bootstrap :: "'p verifier_ports \<Rightarrow> enrollment_input \<Rightarrow> ('p, verifier_bootstrap_row) factory_act" where
  "verifier_bootstrap V x =
     bind (bind (look (\<lambda>clock c d. bootstrap_in d (en_subject x))) (present Unauthenticated)) (\<lambda>row.
     bind (unless (vp_matches V (en_token x) (bt_tokenHash row)) Unauthenticated) (\<lambda>_.
     bind databaseTime (\<lambda>now.
     bind (unless (now < bt_expiresAt row) Unauthenticated) (\<lambda>_.
     bind (unless (vs_subject (bt_spec row) = en_subject x
         \<and> gi_providerImage (vs_image (bt_spec row)) = bt_snapshotId row
         \<and> vs_expiresAt (bt_spec row) = bt_expiresAt row) Internal_error) (\<lambda>_.
     bind (unless (en_imageVersion x = gi_version (vs_image (bt_spec row))) Permission_denied) (\<lambda>_.
     ret row))))))"

definition same_claim :: "enrollment_input \<Rightarrow> guest_identity \<Rightarrow> bool" where
  "same_claim x g \<longleftrightarrow> gd_sshHostPublicKey g = en_sshHostPublicKey x \<and> gd_tlsCsr g = en_tlsCsr x
     \<and> gd_imageVersion g = en_imageVersion x"

definition trim :: "string \<Rightarrow> string" where
  "trim s = rev (dropWhile blank (rev (dropWhile blank s)))"

definition trust_matches :: "guest_trust \<Rightarrow> guest_trust \<Rightarrow> bool" where
  "trust_matches signer t \<longleftrightarrow> sshHostCa signer = sshHostCa t \<and> sshUserCa signer = sshUserCa t
     \<and> trim (tlsRoot signer) = trim (tlsRoot t)"

definition prepared_image :: "image_verification \<Rightarrow> string option" where
  "prepared_image v = (case v of
      Ver_waiting \<Rightarrow> None
    | Ver_prepared spec \<Rightarrow> Some (gi_providerImage (vs_image spec))
    | Ver_claimed spec g \<Rightarrow> Some (gi_providerImage (vs_image spec))
    | Ver_enrolled spec g \<Rightarrow> Some (gi_providerImage (vs_image spec))
    | Ver_verified spec g result \<Rightarrow> Some (gi_providerImage (vs_image spec)))"

definition proof_of :: "enrollment_input \<Rightarrow> string \<Rightarrow> verifier_proof" where
  "proof_of x digest = \<lparr>pf_subject = en_subject x, pf_sshHostPublicKey = en_sshHostPublicKey x,
     pf_tlsCsr = en_tlsCsr x, pf_imageVersion = en_imageVersion x, pf_manifestDigest = digest\<rparr>"

definition claimed_identity :: "enrollment_input \<Rightarrow> guest_identity" where
  "claimed_identity x = \<lparr>gd_sshHostPublicKey = en_sshHostPublicKey x, gd_tlsCsr = en_tlsCsr x,
     gd_imageVersion = en_imageVersion x, gd_issued = None\<rparr>"

definition server_ipv4 :: "observed_verifier \<Rightarrow> string" where
  "server_ipv4 ob = (case ir_body (ob_address ob) of Address_body a \<Rightarrow> ab_ipv4 a | _ \<Rightarrow> [])"

definition claim_identity :: "'p verifier_ports \<Rightarrow> enrollment_input \<Rightarrow> observed_verifier \<Rightarrow> bool \<Rightarrow> ('p, unit) factory_act" where
  "claim_identity V x ob claimed = image_transaction
     (bind (requireActiveImageBuild (en_subject x)) (\<lambda>_.
      bind (verifier_bootstrap V x) (\<lambda>_.
      onlyIf (\<not> claimed)
        (post (Insert_identity (en_subject x) (ob_effectId ob) (ir_id (ob_server ob)) (claimed_identity x))))))"

definition certificate_ok :: "string \<Rightarrow> bool" where
  "certificate_ok s \<longleftrightarrow> s \<noteq> [] \<and> length s \<le> 16384 \<and> nonblank s"

definition issue_identity :: "'p verifier_ports \<Rightarrow> enrollment_input \<Rightarrow> string \<Rightarrow> string \<Rightarrow> ('p, guest_identity) factory_act" where
  "issue_identity V x hostCertificate tlsCertificate =
     bind wallTime (\<lambda>now.
     let g = (claimed_identity x)\<lparr>gd_issued := Some \<lparr>ii_sshHostCertificate = hostCertificate,
           ii_tlsCertificate = tlsCertificate, ii_issuedAt = now\<rparr>\<rparr> in
     bind (parsed (if certificate_ok hostCertificate \<and> certificate_ok tlsCertificate
                   then Some () else None)) (\<lambda>_.
     bind (image_transaction
       (bind (requireActiveImageBuild (en_subject x)) (\<lambda>_.
        bind (verifier_bootstrap V x) (\<lambda>_.
        bind (post (Set_identity (en_subject x) g)) (\<lambda>_.
        bind wallTime (\<lambda>consumed.
        post (Consume_bootstrap (en_subject x) consumed))))))) (\<lambda>_.
     bind (forget_credential probe_cache (en_subject x)) (\<lambda>_.
     ret g))))"

definition probe_identity :: "'p verifier_ports \<Rightarrow> enrollment_input \<Rightarrow> string \<Rightarrow> observed_verifier \<Rightarrow> ('p, unit) factory_act" where
  "probe_identity V x digest ob =
     bind (ask (vp_validateTls V (en_subject x) (en_tlsCsr x))) (\<lambda>_.
     bind (credential_for probe_cache (en_subject x) Probe_signing (vp_issueProbe V (en_subject x))) (\<lambda>credential.
     case credential of
       None \<Rightarrow> throw_retryable Provider_unavailable
     | Some c \<Rightarrow>
         bind (ask (vp_readIdentity V \<lparr>vf_subject = en_subject x, vf_address = server_ipv4 ob,
           vf_credential = c, vf_trust = en_sshHostPublicKey x\<rparr>)) (\<lambda>pf.
         unless (pf = proof_of x digest) Permission_denied)))"

definition same_verifier :: "verifier_identity_row option \<Rightarrow> observed_verifier \<Rightarrow> bool" where
  "same_verifier row ob = (case row of
      None \<Rightarrow> True
    | Some r \<Rightarrow> vi_serverId r = ir_id (ob_server ob) \<and> vi_effectId r = ob_effectId ob)"

definition enroll_keys :: "'p image_provider \<Rightarrow> 'p verifier_ports \<Rightarrow> enrollment_input \<Rightarrow> verifier_bootstrap_row \<Rightarrow> verifier_identity_row option \<Rightarrow> ('p, guest_identity) factory_act" where
  "enroll_keys P V x boot row = (let i = en_subject x; img = vs_image (bt_spec boot) in
     bind (inspectImageBuild i) (\<lambda>b.
     bind (unless (prepared_image (bd_verification b) = Some (gi_providerImage img)) Permission_denied) (\<lambda>_.
     bind (unless (trust_matches (vp_trust V) (gi_trust img)) Provider_unavailable) (\<lambda>_.
     bind (observeImageVerifier P b) (\<lambda>ob.
     bind (unless (ob_snapshotId ob = gi_providerImage img \<and> same_verifier row ob) Permission_denied) (\<lambda>_.
     bind (probe_identity V x (gi_manifestDigest img) ob) (\<lambda>_.
     bind (claim_identity V x ob (row \<noteq> None)) (\<lambda>_.
     bind (reserveImageVerifierSigning i Identity_signing) (\<lambda>_.
     bind (ask (vp_signHost V i (en_sshHostPublicKey x))) (\<lambda>host.
     bind (ask (vp_signTls V i (en_tlsCsr x))) (\<lambda>tls.
     issue_identity V x host tls)))))))))))"

definition enroll_locked :: "'p image_provider \<Rightarrow> 'p verifier_ports \<Rightarrow> enrollment_input \<Rightarrow> ('p, guest_identity) factory_act" where
  "enroll_locked P V x = (let i = en_subject x in
     bind (verifier_bootstrap V x) (\<lambda>boot.
     bind (image_transaction (requireActiveImageBuild i)) (\<lambda>_.
     bind (look (\<lambda>clock c d. identity_in d i)) (\<lambda>row.
     bind (unless (case row of None \<Rightarrow> True | Some r \<Rightarrow> same_claim x (vi_identity r)) Permission_denied) (\<lambda>_.
     case row of
       Some r \<Rightarrow>
         if gd_issued (vi_identity r) \<noteq> None then ret (vi_identity r)
         else bind (unless (bt_consumedAt boot = None) Internal_error) (\<lambda>_. enroll_keys P V x boot row)
     | None \<Rightarrow> bind (unless (bt_consumedAt boot = None) Internal_error) (\<lambda>_. enroll_keys P V x boot row))))))"

definition enroll :: "'p image_provider \<Rightarrow> 'p verifier_ports \<Rightarrow> enrollment_input \<Rightarrow> ('p, guest_identity) factory_act" where
  "enroll P V x =
     bind (parsed (if enrollment_input_ok x then Some () else None)) (\<lambda>_.
     bind (verifier_bootstrap V x) (\<lambda>_.
     bind (withImageBuildLock (en_subject x) (enroll_locked P V x)) (\<lambda>result.
     case result of None \<Rightarrow> throw_retryable Resource_busy | Some g \<Rightarrow> ret g)))"

section \<open>Runtime check (image-verifier-runtime.ts)\<close>

definition runtime_matches :: "image_build \<Rightarrow> verifier_spec \<Rightarrow> guest_identity \<Rightarrow> install_receipt \<Rightarrow> id \<Rightarrow> verifier_runtime \<Rightarrow> bool" where
  "runtime_matches b spec g installation i rt \<longleftrightarrow>
     rt_proof rt = \<lparr>pf_subject = i, pf_sshHostPublicKey = gd_sshHostPublicKey g, pf_tlsCsr = gd_tlsCsr g,
       pf_imageVersion = gi_version (vs_image spec), pf_manifestDigest = gi_manifestDigest (vs_image spec)\<rparr>
     \<and> man_customerSsh (rt_manifest rt) = gi_customerSsh (vs_image spec)
     \<and> rt_manifest rt = src_manifest (ad_source (bd_admission b))
     \<and> rt_architecture rt = man_architecture (rt_manifest rt)
     \<and> rt_machineId rt \<noteq> ins_machineId installation"

definition runtime_healthy :: "id \<Rightarrow> guest_manifest \<Rightarrow> runtime_checks \<Rightarrow> bool" where
  "runtime_healthy i m c \<longleftrightarrow> rc_node c = Some (gc_node (man_components m))
     \<and> rc_docker c = Some (gc_docker (man_components m)) \<and> rc_compose c = Some (gc_compose (man_components m))
     \<and> rc_caddy c = Some (gc_caddy (man_components m)) \<and> rc_step c = Some (gc_step (man_components m))
     \<and> (case rc_disk c of None \<Rightarrow> False | Some (free, whole) \<Rightarrow> 1024 ^ 3 \<le> free \<and> free \<le> whole)
     \<and> rc_proxy c = Some (i, man_version m)
     \<and> (man_customerSsh m \<longrightarrow> rc_customerSsh c = Some True)"

definition same_enrollment :: "verifier_identity_row option \<Rightarrow> observed_verifier \<Rightarrow> verifier_spec \<Rightarrow> bool" where
  "same_enrollment row ob spec \<longleftrightarrow> row \<noteq> None \<and> same_verifier row ob
     \<and> ob_snapshotId ob = gi_providerImage (vs_image spec)"

definition record_result :: "id \<Rightarrow> verification_result \<Rightarrow> ('p, verification_result option) factory_act" where
  "record_result i v =
     bind (image_transaction (bind (requireActiveImageBuild i) (\<lambda>_. post (Insert_result i v)))) (\<lambda>_.
     bind (forget_credential runtime_cache i) (\<lambda>_. ret (Some v)))"

definition judge_runtime :: "image_build \<Rightarrow> id \<Rightarrow> verifier_spec \<Rightarrow> guest_identity \<Rightarrow> install_receipt \<Rightarrow> observed_verifier \<Rightarrow> verifier_runtime \<Rightarrow> ('p, verification_result option) factory_act" where
  "judge_runtime b i spec g installation ob rt =
     bind (unless (runtime_matches b spec g installation i rt) Permission_denied) (\<lambda>_.
     if \<not> runtime_healthy i (rt_manifest rt) (rt_checks rt) then ret None
     else bind wallTime (\<lambda>now.
       record_result i \<lparr>vr_serverId = ir_id (ob_server ob), vr_effectId = ob_effectId ob,
         vr_snapshotId = ob_snapshotId ob, vr_runtime = rt, vr_verifiedAt = now\<rparr>))"

definition check_enrolled :: "'p image_provider \<Rightarrow> 'p verifier_ports \<Rightarrow> id \<Rightarrow> image_build \<Rightarrow> verifier_spec \<Rightarrow> guest_identity \<Rightarrow> install_receipt \<Rightarrow> ('p, verification_result option) factory_act" where
  "check_enrolled P V i b spec g installation =
     bind (observeImageVerifier P b) (\<lambda>ob.
     bind (look (\<lambda>clock c d. identity_in d i)) (\<lambda>row.
     bind (unless (same_enrollment row ob spec) Permission_denied) (\<lambda>_.
     bind (credential_for runtime_cache i Runtime_signing (vp_issueRuntime V (vs_subject spec))) (\<lambda>credential.
     case credential of
       None \<Rightarrow> ret None
     | Some c \<Rightarrow>
         bind (ask (vp_readRuntime V \<lparr>vf_subject = vs_subject spec, vf_address = server_ipv4 ob,
           vf_credential = c, vf_trust = sshHostCa (gi_trust (vs_image spec))\<rparr>))
           (judge_runtime b i spec g installation ob)))))"

text \<open>\<open>None\<close> is \<open>waiting\<close>.\<close>

definition check_runtime :: "'p image_provider \<Rightarrow> 'p verifier_ports \<Rightarrow> id \<Rightarrow> image_build \<Rightarrow> ('p, verification_result option) factory_act" where
  "check_runtime P V i b = (case bd_verification b of
      Ver_verified spec g result \<Rightarrow> ret (Some result)
    | other \<Rightarrow>
        bind (image_transaction (requireActiveImageBuild i)) (\<lambda>_.
        case other of
          Ver_enrolled spec g \<Rightarrow> (case bd_builderWork b of
              Work_recorded w \<Rightarrow> (case bw_progress w of
                  Sanitized installation s \<Rightarrow> check_enrolled P V i b spec g installation
                | _ \<Rightarrow> throw Permission_denied)
            | Work_waiting \<Rightarrow> throw Permission_denied)
        | _ \<Rightarrow> ret None))"

definition checkImageRuntime :: "'p image_provider \<Rightarrow> 'p verifier_ports \<Rightarrow> id \<Rightarrow> ('p, verification_result option option) factory_act" where
  "checkImageRuntime P V i = withImageBuildLock i
     (bind (inspectImageBuild i) (\<lambda>b. check_runtime P V i b))"

end
