(* ===== verification/Image_Control.thy ===== *)
theory Image_Control
  imports Image_Verification
begin

text \<open>
  The controller of the image factory: one pass over a build
  (\<^verbatim>\<open>apps/control/src/advance-image-build.ts\<close>), the operator worker around it
  (\<open>advance\<close> of \<^verbatim>\<open>image-runtime.ts\<close>), its tasks (\<^verbatim>\<open>image-tasks.ts\<close>) and the pin a customer
  machine puts on a release (\<^verbatim>\<open>allocation-image.ts\<close>).
\<close>

section \<open>One pass (advance-image-build.ts)\<close>

datatype advance_result =
    Adv_provider "resolved option"
  | Adv_builder "work_result option"
  | Adv_verification_required string
  | Adv_verifier_prepared "id option"
  | Adv_verifier "verification_result option option"
  | Adv_verified
  | Adv_publication_prepared "image_publication option"
  | Adv_retained signed_release
  | Adv_busy
  | Adv_waiting "id list"
  | Adv_cleaned

record 'p verification_ports =
  vr_seal :: "('p, string \<times> string) port"
  vr_enrollmentUrl :: string
  vr_ports :: "'p verifier_ports"

record 'p publication_ports =
  pp_signer :: release_signer
  pp_readKeys :: "('p, image_release_key list) port"

record 'p image_config =
  ic_provider :: "'p image_provider"
  ic_limits :: image_limits
  ic_pricing :: "('p, catalog \<times> image_storage_price) port"
  ic_access :: "'p image_access_store"
  ic_remote :: "'p image_remote"
  ic_crypto :: release_crypto
  ic_verification :: "'p verification_ports option"
  ic_publication :: "'p publication_ports option"

definition priced_by :: "'p image_config \<Rightarrow> 'p image_pricing" where
  "priced_by G = Some (ic_limits G, ic_pricing G)"

definition completeImageAccessCleanup :: "'p image_access_store \<Rightarrow> image_build \<Rightarrow> ('p, unit) factory_act" where
  "completeImageAccessCleanup A b =
     (if bd_accessRemovedAt b \<noteq> None then ret ()
      else bind (ask (as_remove A (bd_admission b))) (\<lambda>_. post (Remove_access (ad_id (bd_admission b)))))"

definition cleanupImageBuild :: "'p image_provider \<Rightarrow> 'p image_access_store \<Rightarrow> id \<Rightarrow> ('p, advance_result) factory_act" where
  "cleanupImageBuild P A i =
     bind (planImageCleanup P i Abort) (\<lambda>cleanup. case cleanup of
       None \<Rightarrow> ret Adv_busy
     | Some (Cleanup_delete command) \<Rightarrow>
         bind (runImageEffect P i command None) (\<lambda>r. ret (Adv_provider r))
     | Some (Cleanup_waiting es) \<Rightarrow> ret (Adv_waiting es)
     | Some Cleanup_ready \<Rightarrow> raise Defect
     | Some Cleanup_done \<Rightarrow>
         bind (inspectImageBuild i) (\<lambda>b.
         bind (completeImageAccessCleanup A b) (\<lambda>_. ret Adv_cleaned)))"

definition release_pass :: "'p image_config \<Rightarrow> id \<Rightarrow> image_build \<Rightarrow> ('p, advance_result) factory_act" where
  "release_pass G i b = (let P = ic_provider G in
     bind (planImageCleanup P i Release) (\<lambda>cleanup. case cleanup of
       None \<Rightarrow> ret Adv_busy
     | Some (Cleanup_delete command) \<Rightarrow>
         bind (runImageEffect P i command (priced_by G)) (\<lambda>r. ret (Adv_provider r))
     | Some (Cleanup_waiting es) \<Rightarrow> ret (Adv_waiting es)
     | Some Cleanup_done \<Rightarrow> raise Defect
     | Some Cleanup_ready \<Rightarrow> (case ic_publication G of
           None \<Rightarrow> raise Defect
         | Some pub \<Rightarrow>
             bind (completeImageAccessCleanup (ic_access G) b) (\<lambda>_.
             bind (publishImageRelease (ic_crypto G) (pp_signer pub) (pp_readKeys pub) P i) (\<lambda>published.
             case published of None \<Rightarrow> ret Adv_busy | Some release \<Rightarrow> ret (Adv_retained release))))))"

definition retained_pass :: "'p image_config \<Rightarrow> id \<Rightarrow> image_build \<Rightarrow> ('p, advance_result) factory_act" where
  "retained_pass G i b =
     bind (completeImageAccessCleanup (ic_access G) b) (\<lambda>_.
     case ic_publication G of
       None \<Rightarrow> raise Defect
     | Some pub \<Rightarrow>
         bind (readPublishedImage (ic_crypto G) (pp_readKeys pub) (ic_provider G) i) (\<lambda>selected.
         case selected of None \<Rightarrow> ret Adv_busy | Some (release, img) \<Rightarrow> ret (Adv_retained release)))"

definition follow_plan :: "'p image_config \<Rightarrow> id \<Rightarrow> image_build \<Rightarrow> image_plan \<Rightarrow> ('p, advance_result) factory_act" where
  "follow_plan G i b plan = (let P = ic_provider G in case plan of
      Plan_effect command \<Rightarrow> bind (runImageEffect P i command (priced_by G)) (\<lambda>r. ret (Adv_provider r))
    | Plan_builder \<Rightarrow> bind (runImageBuilderWork P (ic_access G) (ic_remote G) i) (\<lambda>r. ret (Adv_builder r))
    | Plan_verification_required snapshot \<Rightarrow> ret (Adv_verification_required snapshot)
    | Plan_verifier_prepare \<Rightarrow> (case ic_verification G of
          None \<Rightarrow> raise Defect
        | Some v \<Rightarrow> bind (prepareImageVerification (vr_seal v) (vr_enrollmentUrl v) i)
                      (\<lambda>r. ret (Adv_verifier_prepared r)))
    | Plan_verifier_check \<Rightarrow> (case ic_verification G of
          None \<Rightarrow> raise Defect
        | Some v \<Rightarrow> bind (checkImageRuntime P (vr_ports v) i) (\<lambda>r. ret (Adv_verifier r)))
    | Plan_verified \<Rightarrow> ret Adv_verified
    | Plan_publication_prepare \<Rightarrow> bind (prepareImagePublication P i) (\<lambda>r. ret (Adv_publication_prepared r))
    | Plan_retained \<Rightarrow> retained_pass G i b
    | Plan_release_cleanup \<Rightarrow> release_pass G i b
    | Plan_cleanup reason \<Rightarrow>
        bind (onlyIf (\<not> (case bd_state b of Cleaning r \<Rightarrow> True | _ \<Rightarrow> False))
          (requestImageCleanup i reason)) (\<lambda>_. cleanupImageBuild P (ic_access G) i)
    | Plan_cleaned \<Rightarrow> bind (completeImageAccessCleanup (ic_access G) b) (\<lambda>_. ret Adv_cleaned))"

definition advanceImageBuild :: "'p image_config \<Rightarrow> id \<Rightarrow> ('p, advance_result) factory_act" where
  "advanceImageBuild G i =
     bind (inspectImageBuild i) (\<lambda>b.
     bind databaseTime (\<lambda>now.
     follow_plan G i b (planImageRelease b now (ic_verification G \<noteq> None) (ic_publication G \<noteq> None))))"

section \<open>The operator worker (image-runtime.ts)\<close>

text \<open>\<open>load\<close> reads the identity, key and certificate files of the operator; \<open>inputs\<close> is
  \<open>verifyImageInputs\<close> on the admitted directory.\<close>

record 'p image_runtime =
  wr_config :: "'p image_config"
  wr_load :: "('p, 'p verification_ports \<times> 'p publication_ports) port"
  wr_inputs :: "string \<Rightarrow> ('p, image_source) port"
  wr_readKeys :: "('p, image_release_key list) port"

definition signing_authorized :: "release_crypto \<Rightarrow> string \<Rightarrow> image_release_key list \<Rightarrow> instant \<Rightarrow> bool" where
  "signing_authorized C keyId ks now \<longleftrightarrow>
     list_ex (\<lambda>k. case k of Trusted_key key signedFrom signedUntil verifyUntil \<Rightarrow>
         cr_keyId C key = Some keyId \<and> signedFrom \<le> now \<and> now < signedUntil | _ \<Rightarrow> False) ks
     \<and> \<not> revoked_key ks keyId"

definition authorizeBuild :: "'p image_runtime \<Rightarrow> image_build \<Rightarrow> ('p, 'p verification_ports \<times> 'p publication_ports) factory_act" where
  "authorizeBuild W b =
     bind (ask (wr_load W)) (\<lambda>(v, pub).
     bind (ask (pp_readKeys pub)) (\<lambda>ks.
     bind databaseTime (\<lambda>now.
     bind (unless (signing_authorized (ic_crypto (wr_config W)) (ss_keyId (pp_signer pub)) ks now)
       Permission_denied) (\<lambda>_.
     bind (unless (man_trust (src_manifest (ad_source (bd_admission b))) = vp_trust (vr_ports v))
       Permission_denied) (\<lambda>_.
     ret (v, pub))))))"

definition authorize_start :: "'p image_runtime \<Rightarrow> image_build \<Rightarrow> ('p, 'p verification_ports \<times> 'p publication_ports) factory_act" where
  "authorize_start W b =
     bind (authorizeBuild W b) (\<lambda>ports.
     bind (onlyIf (bd_state b = Running \<and> bd_effects b = [])
       (catch_any
         (bind (ask (wr_inputs W (src_manifestDigest (ad_source (bd_admission b))))) (\<lambda>_.
          bind (ask (as_recover (ic_access (wr_config W)) (bd_admission b))) (\<lambda>_. ret ())))
         (throw Permission_denied))) (\<lambda>_.
     ret ports))"

definition build_expired :: "image_build \<Rightarrow> instant \<Rightarrow> bool" where
  "build_expired b now = (case (bd_state b, ad_retention (bd_admission b)) of
      (Retained t, Retain after) \<Rightarrow> after \<le> now
    | (Retained t, Verification_only) \<Rightarrow> False
    | _ \<Rightarrow> ad_deadlineAt (bd_admission b) \<le> now)"

text \<open>A refusal that cannot be retried cancels the build; \<open>None\<close> then.\<close>

definition authorized_or_cancelled :: "'p image_runtime \<Rightarrow> id \<Rightarrow> image_build \<Rightarrow> ('p, ('p verification_ports \<times> 'p publication_ports) option) factory_act" where
  "authorized_or_cancelled W i b = catch_cloud
     (bind (authorize_start W b) (\<lambda>ports. ret (Some ports)))
     (\<lambda>f. if retryable f then raise (Cloud f)
          else bind (requestImageCleanup i Cleanup_failed) (\<lambda>_. ret None))"

definition worker_clean :: "'p image_runtime \<Rightarrow> id \<Rightarrow> ('p, advance_result) factory_act" where
  "worker_clean W i = cleanupImageBuild (ic_provider (wr_config W)) (ic_access (wr_config W)) i"

definition worker_read :: "'p image_runtime \<Rightarrow> id \<Rightarrow> ('p, advance_result) factory_act" where
  "worker_read W i =
     bind (readPublishedImage (ic_crypto (wr_config W)) (wr_readKeys W) (ic_provider (wr_config W)) i)
       (\<lambda>selected. case selected of None \<Rightarrow> ret Adv_busy | Some (release, img) \<Rightarrow> ret (Adv_retained release))"

definition worker_build :: "'p image_runtime \<Rightarrow> id \<Rightarrow> image_build \<Rightarrow> ('p, advance_result) factory_act" where
  "worker_build W i b =
     bind (authorized_or_cancelled W i b) (\<lambda>loaded. case loaded of
       None \<Rightarrow> worker_clean W i
     | Some (v, pub) \<Rightarrow> advanceImageBuild
         ((wr_config W)\<lparr>ic_verification := Some v, ic_publication := Some pub\<rparr>) i)"

definition worker_advance :: "'p image_runtime \<Rightarrow> id \<Rightarrow> ('p, advance_result) factory_act" where
  "worker_advance W i =
     bind (inspectImageBuild i) (\<lambda>b.
     bind databaseTime (\<lambda>now. let expired = build_expired b now in
     bind (onlyIf (expired \<and> \<not> closing_state (bd_state b)) (requestImageCleanup i Cleanup_expired)) (\<lambda>_.
     if expired \<or> closing_state (bd_state b) then worker_clean W i
     else if bd_state b = Running \<and> bd_runRequestedAt b = None then ret (Adv_waiting [])
     else (case bd_state b of Retained t \<Rightarrow> worker_read W i | _ \<Rightarrow> worker_build W i b))))"

section \<open>Tasks (image-tasks.ts)\<close>

definition run_advance :: "(image_build \<Rightarrow> ('p, unit) factory_act) \<Rightarrow> image_build \<Rightarrow> ('p, int) factory_act" where
  "run_advance advance b = catch_cloud (bind (advance b) (\<lambda>_. ret 1000)) (\<lambda>f. ret 30000)"

definition advance_image_build_task :: "(image_build \<Rightarrow> ('p, unit) factory_act) \<Rightarrow> id \<Rightarrow> ('p, unit) factory_act" where
  "advance_image_build_task advance i =
     bind (parsed (if zod_uuid i then Some () else None)) (\<lambda>_.
     bind (look (\<lambda>clock c d. build_in d i)) (\<lambda>row.
     if row = None then ret ()
     else bind (inspectImageBuild i) (\<lambda>b.
       if cleaned_state (bd_state b) \<and> bd_accessRemovedAt b \<noteq> None then ret ()
       else bind (if bd_state b = Running \<and> bd_runRequestedAt b = None
                  then bind databaseTime (\<lambda>now. ret (now < ad_deadlineAt (bd_admission b)))
                  else ret False) (\<lambda>idle.
         if idle then scheduleImageBuild i 1000
         else bind (run_advance advance b) (\<lambda>delay. scheduleImageBuild i delay)))))"

definition unfinished_builds :: "image_db \<Rightarrow> id list" where
  "unfinished_builds d = map ib_id (filter (\<lambda>b. \<not> cleaned_state (ib_state b) \<or> ib_accessRemovedAt b = None)
     (ib_builds d))"

definition reconcile_image_builds_task :: "('p, unit) factory_act" where
  "reconcile_image_builds_task =
     bind (look (\<lambda>clock c d. unfinished_builds d)) (\<lambda>is.
     foldM (\<lambda>_ i. bind (parsed (if zod_uuid i then Some () else None)) (\<lambda>_. scheduleImageBuild i 1000)) () is)"

section \<open>Pins of customer machines (allocation-image.ts)\<close>

definition requireCustomerImage :: "signed_release \<Rightarrow> exn + unit" where
  "requireCustomerImage r =
     (let paths = map input_path (ev_inputs (sg_evidence r)) in
      if ''systemd/agent-cloud-renew.service'' \<in> set paths \<and> ''systemd/agent-cloud-renew.timer'' \<in> set paths
      then Inr () else refusal Permission_denied)"

definition pin_target :: "db \<Rightarrow> id \<Rightarrow> operation \<Rightarrow> allocation_row option" where
  "pin_target c allocation op =
     (case select_one (\<lambda>a. al_id a = allocation \<and> al_accountId a = op_accountId op) (allocations c) of
        None \<Rightarrow> None
      | Some a \<Rightarrow> if al_provider a = Hetzner \<and> al_retiredAt a = None \<and> al_machineId a = op_machineId op
                    \<and> op_kind op = Op_create then Some a else None)"

definition retained_release :: "image_db \<Rightarrow> id \<Rightarrow> signed_release option" where
  "retained_release d i = (case build_in d i of
      None \<Rightarrow> None
    | Some b \<Rightarrow> (case ib_state b of
          Retained t \<Rightarrow> Option.bind (publication_in d i) pb_release | _ \<Rightarrow> None))"

definition image_fits :: "guest_image \<Rightarrow> signed_release \<Rightarrow> catalog_item \<Rightarrow> operation \<Rightarrow> bool" where
  "image_fits img r offer op \<longleftrightarrow> gi_architecture img = architecture_of offer
     \<and> rs_diskGb (ev_snapshot (sg_evidence r)) \<le> diskGb offer
     \<and> op_createdAt op + 30 * 60000 < ev_retainUntil (sg_evidence r)"

definition pinAllocationImage :: "release_crypto \<Rightarrow> ('p, image_release_key list) port \<Rightarrow> id \<Rightarrow> operation \<Rightarrow> id \<Rightarrow> ('p, unit) factory_act" where
  "pinAllocationImage C readKeys allocation op build =
     bind (look (\<lambda>clock c d. pin_target c allocation op)) (\<lambda>target.
     bind (look (\<lambda>clock c d. retained_release d build)) (\<lambda>published.
     bind (present Provider_unavailable target) (\<lambda>a.
     bind (present Provider_unavailable published) (\<lambda>release.
     bind (ask readKeys) (\<lambda>ks.
     bind databaseTime (\<lambda>now.
     bind (from_sum (requireTrustedImageRelease C release ks now)) (\<lambda>img.
     bind (from_sum (requireCustomerImage release)) (\<lambda>_.
     bind (parseOffer (al_offer a)) (\<lambda>offer.
     bind (unless (image_fits img release offer op) Invalid_input) (\<lambda>_.
     post (Insert_pin \<lparr>pn_allocationId = al_id a, pn_accountId = al_accountId a,
       pn_operationId = op_id op, pn_buildId = build, pn_snapshotId = gi_providerImage img\<rparr>)))))))))))"

definition resolveAllocationImage :: "release_crypto \<Rightarrow> ('p, image_release_key list) port \<Rightarrow> 'p image_provider \<Rightarrow> allocation_row \<Rightarrow> ('p, guest_image) factory_act" where
  "resolveAllocationImage C readKeys P a =
     bind (look (\<lambda>clock c d. select_one (\<lambda>p. pn_allocationId p = al_id a \<and> pn_accountId p = al_accountId a)
       (ib_pins d))) (\<lambda>pin.
     bind (present Provider_rejected pin) (\<lambda>p.
     bind (readPublishedImage C readKeys P (pn_buildId p)) (\<lambda>selected. case selected of
       None \<Rightarrow> throw_retryable Provider_unavailable
     | Some (release, img) \<Rightarrow>
         bind (unless (gi_providerImage img = pn_snapshotId p) Provider_rejected) (\<lambda>_.
         bind (from_sum (requireCustomerImage release)) (\<lambda>_. ret img)))))"

end
