(* ===== verification/Image_Calm.thy ===== *)
theory Image_Calm
  imports Image_Invariants Image_Control
begin

text \<open>
  Calm programs of the image factory: whatever faults and interference occur, they change the
  image tables by accepted statements only and submit nothing to the provider. Every program but
  those that run an effect is calm.
\<close>

section \<open>Calm programs\<close>

definition calm_step :: "'p factory \<Rightarrow> 'p factory \<Rightarrow> bool" where
  "calm_step s s' \<longleftrightarrow> requests s' = requests s \<and> image_wrote (images s) (images s')"

abbreviation calm :: "('p, 'a) factory_act \<Rightarrow> bool" where
  "calm m \<equiv> stays calm_step m"

interpretation calm: step_relation calm_step
proof
  fix s t u :: "'p factory"
  show "calm_step s s" by (simp add: calm_step_def)
  show "calm_step s u" if "calm_step s t" "calm_step t u"
    using that by (auto simp: calm_step_def)
qed

lemma more_fields:
  fixes s s' :: "'p factory"
  assumes "process.more s' = process.more s"
  shows "requests s' = requests s" "images s' = images s"
  using assms by (cases s; cases s'; simp)+

lemma calm_footprint: "footprint T m \<Longrightarrow> calm m"
  by (erule stays_mono) (auto simp: footstep_def calm_step_def dest: more_fields)

lemma image_wrote_apply: "image_apply now clock c st d = Some d' \<Longrightarrow> image_wrote d d'"
  unfolding image_writes_def by blast

lemma calm_visited: "calm_step s (visited clock v s)"
  by (cases v) (auto simp: calm_step_def intro: image_wrote_apply split: option.splits if_splits)

lemma calm_visits: "calm_step s (fold (visited clock) vs s)"
  by (induction vs arbitrary: s) (auto intro: calm.step_refl calm.step_trans calm_visited)

lemma calm_meddled: "calm_step s (meddled i s)"
  by (simp add: meddled_def calm_visits calm.step_refl)

lemma calm_prim:
  fixes f :: "nat \<Rightarrow> ('p, 'a) factory_act"
  assumes f: "\<And>i s. calm_step s (snd (f i s))"
  shows "calm (prim f)"
proof (rule staysI)
  fix s :: "'p factory"
  have "calm_step s (s\<lparr>ticks := Suc (ticks s)\<rparr>)" by (simp add: calm_step_def)
  with f [of "s\<lparr>ticks := Suc (ticks s)\<rparr>" "ticks s"] show "calm_step s (snd (prim f s))"
    by (auto simp: prim_def Let_def intro: calm.step_trans)
qed

lemma calm_iprim:
  assumes "\<And>i s. calm_step s (snd (f i s))"
  shows "calm (iprim f)"
  unfolding iprim_def using assms by (intro calm_prim) (metis calm.step_trans calm_meddled)

lemma calm_look: "calm (look g)"
  unfolding look_def by (rule calm_iprim) (simp add: calm.step_refl)

lemma calm_post_at: "calm (post_at st)"
  unfolding post_at_def
  by (rule calm_iprim) (auto simp: calm_step_def intro: image_wrote_apply split: option.splits)

lemma calm_post: "calm (post st)"
  unfolding post_def by (rule calm_post_at)

lemma calm_ask: "calm (ask f)"
  unfolding ask_def
  by (intro calm.bind calm_footprint [OF footprint_reply] calm_prim) (auto simp: calm_step_def split: prod.splits)

lemma calm_image_transaction:
  fixes m :: "('p, 'a) factory_act"
  assumes "calm m"
  shows "calm (image_transaction m)"
  unfolding image_transaction_def
proof (rule calm_iprim)
  fix i and s :: "'p factory"
  let ?s = "s\<lparr>began := Some (tx_now s i)\<rparr>"
  let ?m = "bind m (\<lambda>x. bind commit (\<lambda>lost. ret (x, lost)))"
  have "calm ?m" by (intro calm.rules assms calm_footprint [OF footprint_commit])
  then have "calm_step ?s (snd (?m ?s))" by (simp add: stays_def)
  then show "calm_step s (snd (if or_fault (outside s) i then (Inl Defect, s)
     else case ?m ?s of
        (Inl e, s') \<Rightarrow> (Inl e, s'\<lparr>images := images s, began := began s\<rparr>)
      | (Inr (x, lost), s') \<Rightarrow> (if lost then Inl Defect else Inr x, s'\<lparr>began := began s\<rparr>)))"
    by (auto simp: calm_step_def split: prod.splits sum.splits)
qed

lemma calm_from_sum: "calm (from_sum x)"
  unfolding from_sum_def by (cases x) (auto intro: calm.rules)

lemma calm_parseOffer: "calm (parseOffer x)"
  unfolding parseOffer_def by (rule calm.parsed)

lemma calm_advisoryLock: "calm advisoryLock"
  unfolding advisoryLock_def by (rule calm_footprint) (rule footprint_observe footprint_query)

lemmas calm_rules = calm.rules calm_look calm_post_at calm_post calm_ask calm_image_transaction
  calm_from_sum calm_footprint [OF footprint_databaseTime] calm_footprint [OF footprint_wallTime]
  calm_footprint [OF footprint_randomUUID] calm_footprint [OF footprint_tryLock]
  calm_footprint [OF footprint_reply] calm_advisoryLock calm_parseOffer

section \<open>Relations that allow calm steps\<close>

text \<open>The lock only marks the build as held.\<close>

locale factory_relation = step_relation R
  for R :: "'p factory \<Rightarrow> 'p factory \<Rightarrow> bool" +
  assumes calm_allowed: "calm_step s t \<Longrightarrow> R s t"
begin

lemma of_calm: "calm m \<Longrightarrow> stays R m"
  by (erule stays_mono) (rule calm_allowed)

lemma lock:
  assumes "stays R m"
  shows "stays R (withImageBuildLock i m)"
proof -
  have mark: "R s (s\<lparr>held := h\<rparr>)" for s h
    by (rule calm_allowed) (simp add: calm_step_def)
  have "stays R (\<lambda>s. case bind m (\<lambda>x. ret (Some x)) (s\<lparr>held := Some i\<rparr>) of (r, s') \<Rightarrow> (r, s'\<lparr>held := None\<rparr>))"
  proof (rule staysI)
    fix s
    have "stays R (bind m (\<lambda>x. ret (Some x)))" by (intro bind ret assms)
    then have "R (s\<lparr>held := Some i\<rparr>) (snd (bind m (\<lambda>x. ret (Some x)) (s\<lparr>held := Some i\<rparr>)))"
      by (simp add: stays_def)
    then have "R s ((snd (bind m (\<lambda>x. ret (Some x)) (s\<lparr>held := Some i\<rparr>)))\<lparr>held := None\<rparr>)"
      using mark step_trans by blast
    then show "R s (snd (case bind m (\<lambda>x. ret (Some x)) (s\<lparr>held := Some i\<rparr>) of
        (r, s') \<Rightarrow> (r, s'\<lparr>held := None\<rparr>)))"
      by (simp add: prod.case_eq_if)
  qed
  then show ?thesis
    unfolding withImageBuildLock_def
    by (intro bind if_split ret of_calm [OF calm_footprint [OF footprint_tryLock]])
qed

end

interpretation calm_lock: factory_relation calm_step
  by unfold_locales

lemmas calm_lock_rules = calm_rules calm_lock.lock

section \<open>The programs\<close>

named_theorems calms "programs that are calm"

lemmas calm_splits = prod.splits option.splits list.splits image_body.splits image_command.splits
  image_action.splits provider_action.splits image_resolution.splits cleanup_step.splits
  builder_progress.splits builder_work.splits image_installation.splits build_state.splits
  image_publication.splits image_verification.splits

lemma calm_builds_1 [calms]:
    "calm (inspectImageBuild i)"
    "calm (enqueueImageBuild i runAt)"
  unfolding inspectImageBuild_def enqueueImageBuild_def Let_def
  by (auto intro!: calm_lock_rules calms split: calm_splits)

lemma calm_builds_2 [calms]:
    "calm (requestImageRun i)"
    "calm (scheduleImageBuild i delay)"
    "calm (admitImageBuild a source catalog limits)"
    "calm (requestImageCleanup i reason)"
  unfolding requestImageRun_def scheduleImageBuild_def admitImageBuild_def
    requestImageCleanup_def Let_def
  by (auto intro!: calm_lock_rules calms split: calm_splits)

lemma calm_policy_1 [calms]:
    "calm (owned P b role i)"
    "calm (check_delete P b ref)"
    "calm (check_base P b command)"
    "calm (claimImageResource b e ref)"
    "calm (observeImageResource b ref answer)"
  unfolding owned_def check_delete_def check_base_def claimImageResource_def
    observeImageResource_def Let_def
  by (auto intro!: calm_lock_rules calms split: calm_splits)

lemma calm_policy_2 [calms]:
    "calm (verifier_source P b)"
    "calm (check_power_off P b server s)"
    "calm (check_snapshot P b server)"
  unfolding verifier_source_def check_power_off_def check_snapshot_def Let_def
  by (auto intro!: calm_lock_rules calms split: calm_splits)

lemma calm_policy_3 [calms]:
    "calm (check_server P b r now)"
  unfolding check_server_def Let_def
  by (auto intro!: calm_lock_rules calms split: calm_splits)

lemma calm_policy_4 [calms]:
    "calm (checkImageCommand P b command now)"
  unfolding checkImageCommand_def Let_def
  by (auto intro!: calm_lock_rules calms split: calm_splits)

lemma calm_journal_1 [calms]:
    "calm (settle_confirmed e)"
    "calm (settle_failed e)"
    "calm (claim_receipt b e)"
    "calm (record_candidate b e kind ls mismatched r)"
    "calm (imageSnapshotInUse i)"
    "calm (check_current_prices a limits prices now)"
    "calm (supersede_effect i supersede)"
    "calm (fetch_prices command priced)"
    "calm (observe_resources P b)"
    "calm (running_creates P pending)"
  unfolding settle_confirmed_def settle_failed_def claim_receipt_def record_candidate_def
    imageSnapshotInUse_def check_current_prices_def fetch_prices_def supersede_effect_def observe_resources_def
    running_creates_def Let_def
  by (auto intro!: calm_lock_rules calms split: calm_splits)

lemma calm_journal_2 [calms]:
    "calm (judge_create b e cs)"
    "calm (judge_exact P b e ref retry)"
    "calm (admit_effect P b command previous)"
    "calm (check_open_build b command prices)"
    "calm (finish_cleanup P i b)"
  unfolding judge_create_def judge_exact_def admit_effect_def check_open_build_def
    finish_cleanup_def Let_def
  by (auto intro!: calm_lock_rules calms split: calm_splits)

lemma calm_journal_3 [calms]:
    "calm (journal_effect b command i prices supersede)"
    "calm (search_create P b e role)"
    "calm (reconcile_exact P b e target)"
  unfolding journal_effect_def search_create_def reconcile_exact_def Let_def
  by (auto intro!: calm_lock_rules calms split: calm_splits)

lemma calm_journal_4 [calms]:
    "calm (reconcile_create P b e role)"
  unfolding reconcile_create_def Let_def
  by (auto intro!: calm_lock_rules calms split: calm_splits)

lemma calm_journal_5 [calms]:
    "calm (reconcileImageEffect P b e)"
  unfolding reconcileImageEffect_def Let_def
  by (auto intro!: calm_lock_rules calms split: calm_splits)

lemma calm_journal_6 [calms]:
    "calm (reconcile_pending P b)"
  unfolding reconcile_pending_def Let_def
  by (auto intro!: calm_lock_rules calms split: calm_splits)

lemma calm_journal_7 [calms]:
    "calm (cleanup_pass P i b)"
  unfolding cleanup_pass_def Let_def
  by (auto intro!: calm_lock_rules calms split: calm_splits)

lemma calm_journal_8 [calms]:
    "calm (planImageCleanup P i intent)"
  unfolding planImageCleanup_def Let_def
  by (auto intro!: calm_lock_rules calms split: calm_splits)

lemma calm_work_1 [calms]:
    "calm (throw_retryable c)"
    "calm (save_progress i p)"
    "calm (record_work i work effect server)"
  unfolding throw_retryable_def save_progress_def record_work_def Let_def
  by (auto intro!: calm_lock_rules calms split: calm_splits)

lemma calm_work_2 [calms]:
    "calm (unless_retryable b c)"
    "calm (install_result i installation)"
  unfolding unless_retryable_def install_result_def Let_def
  by (auto intro!: calm_lock_rules calms split: calm_splits)

lemma calm_work_3 [calms]:
    "calm (work_active i)"
    "calm (observe_address P b request server)"
  unfolding work_active_def observe_address_def Let_def
  by (auto intro!: calm_lock_rules calms split: calm_splits)

lemma calm_work_4 [calms]:
    "calm (currentBuilder P b)"
    "calm (install_builder R i target)"
    "calm (sanitize_phase R i target r)"
  unfolding currentBuilder_def install_builder_def sanitize_phase_def Let_def
  by (auto intro!: calm_lock_rules calms split: calm_splits)

lemma calm_work_5 [calms]:
    "calm (install_phase R i target)"
  unfolding install_phase_def Let_def
  by (auto intro!: calm_lock_rules calms split: calm_splits)

lemma calm_work_6 [calms]:
    "calm (work_phase R i w target)"
  unfolding work_phase_def Let_def
  by (auto intro!: calm_lock_rules calms split: calm_splits)

lemma calm_work_7 [calms]:
    "calm (builder_work_pass P A R i b)"
  unfolding builder_work_pass_def Let_def
  by (auto intro!: calm_lock_rules calms split: calm_splits)

lemma calm_work_8 [calms]:
    "calm (runImageBuilderWork P A R i)"
  unfolding runImageBuilderWork_def Let_def
  by (auto intro!: calm_lock_rules calms split: calm_splits)

lemma calm_release_1 [calms]:
    "calm (requireActiveImageBuild i)"
    "calm (verifier_expiry b existing)"
    "calm (place_bootstrap seal i snapshot spec existing)"
    "calm (read_owned P b row)"
    "calm (requireTemporaryCleanup b)"
    "calm (observePublishedSnapshot P b ev)"
    "calm (commit_release i release)"
  unfolding requireActiveImageBuild_def verifier_expiry_def place_bootstrap_def read_owned_def
    requireTemporaryCleanup_def observePublishedSnapshot_def commit_release_def Let_def
  by (auto intro!: calm_lock_rules calms split: calm_splits)

lemma calm_release_2 [calms]:
    "calm (prepare_bootstrap seal url i b snapshot)"
    "calm (observeImageVerifier P b)"
    "calm (commit_publication i evidence)"
    "calm (resolvePublishedImage C readKeys P i b)"
    "calm (publish_release C S readKeys P i b evidence)"
  unfolding prepare_bootstrap_def observeImageVerifier_def commit_publication_def
    resolvePublishedImage_def publish_release_def Let_def
  by (auto intro!: calm_lock_rules calms split: calm_splits)

lemma calm_release_3 [calms]:
    "calm (prepareImageVerification seal url i)"
    "calm (prepare_publication P i b)"
    "calm (publishImageRelease C S readKeys P i)"
    "calm (readPublishedImage C readKeys P i)"
  unfolding prepareImageVerification_def prepare_publication_def publishImageRelease_def
    readPublishedImage_def Let_def
  by (auto intro!: calm_lock_rules calms split: calm_splits)

lemma calm_release_4 [calms]:
    "calm (prepareImagePublication P i)"
  unfolding prepareImagePublication_def Let_def
  by (auto intro!: calm_lock_rules calms split: calm_splits)

lemma calm_verification_1 [calms]:
    "calm (reserveImageVerifierSigning i p)"
    "calm (verifier_bootstrap V x)"
  unfolding reserveImageVerifierSigning_def verifier_bootstrap_def Let_def
  by (auto intro!: calm_lock_rules calms split: calm_splits)

lemma calm_verification_2 [calms]:
    "calm (claim_identity V x ob claimed)"
  unfolding claim_identity_def Let_def
  by (auto intro!: calm_lock_rules calms split: calm_splits)

lemma calm_control_1 [calms]:
    "calm (completeImageAccessCleanup A b)"
    "calm (authorizeBuild W b)"
    "calm (worker_read W i)"
    "calm reconcile_image_builds_task"
    "calm (pinAllocationImage C readKeys allocation op build)"
    "calm (resolveAllocationImage C readKeys P a)"
  unfolding completeImageAccessCleanup_def authorizeBuild_def worker_read_def
    reconcile_image_builds_task_def pinAllocationImage_def resolveAllocationImage_def Let_def
  by (auto intro!: calm_lock_rules calms split: calm_splits)

lemma calm_control_2 [calms]:
    "calm (retained_pass G i b)"
    "calm (authorize_start W b)"
  unfolding retained_pass_def authorize_start_def Let_def
  by (auto intro!: calm_lock_rules calms split: calm_splits)

lemma calm_control_3 [calms]:
    "calm (authorized_or_cancelled W i b)"
  unfolding authorized_or_cancelled_def Let_def
  by (auto intro!: calm_lock_rules calms split: calm_splits)


end
