(* ===== verification/Image_Laws.thy ===== *)
theory Image_Laws
  imports Outcomes Image_Invariants Image_Calm
begin

text \<open>
  What every reachable state of the factory satisfies (\<open>factory_sound\<close>): the invariants of the
  image tables, and for each submitted command one effect row that was committed before the
  request. Every program of the factory keeps it, whatever faults, crashes and interference occur.
\<close>

section \<open>Soundness\<close>

definition recorded_request :: "image_db \<Rightarrow> id \<times> image_command \<Rightarrow> bool" where
  "recorded_request d r \<longleftrightarrow> (\<exists>e\<in>set (ib_effects d). ef_id e = fst r \<and> ef_command e = snd r)"

definition factory_sound :: "'p factory \<Rightarrow> bool" where
  "factory_sound s \<longleftrightarrow> factory_ok (images s) \<and> distinct (map fst (requests s))
     \<and> list_all (recorded_request (images s)) (requests s)"

definition sound_step :: "'p factory \<Rightarrow> 'p factory \<Rightarrow> bool" where
  "sound_step s s' \<longleftrightarrow> (factory_sound s \<longrightarrow> factory_sound s')"

abbreviation sound :: "('p, 'a) factory_act \<Rightarrow> bool" where
  "sound m \<equiv> stays sound_step m"

lemma recorded_writes:
  assumes "factory_ok d" "image_writes d d'" "recorded_request d r"
  shows "recorded_request d' r"
proof -
  from assms(3) obtain e where e: "e \<in> set (ib_effects d)" "ef_id e = fst r" "ef_command e = snd r"
    by (auto simp: recorded_request_def)
  obtain now clock c st where st: "image_accepts now clock c st d" "d' = image_effect now clock st d"
    using assms(2) by (auto simp: image_writes_def image_apply_def split: if_splits)
  then obtain e' where "e' \<in> set (ib_effects d')" "effect_evolves e e'"
    using effects_grow [OF _ st(1) e(1)] assms(1) by (auto simp: factory_ok_def)
  with e show ?thesis by (auto simp: recorded_request_def effect_evolves_def)
qed

lemma recorded_wrote:
  assumes "image_wrote d d'" "factory_ok d" "recorded_request d r"
  shows "recorded_request d' r"
  using assms(1)
proof (induction rule: rtranclp_induct)
  case (step y z)
  then show ?case using recorded_writes factory_ok_wrote [OF step.hyps(1) assms(2)] by blast
qed (rule assms(3))

lemma calm_sound:
  assumes "calm_step s t"
  shows "sound_step s t"
  unfolding sound_step_def
proof
  assume s: "factory_sound s"
  have w: "image_wrote (images s) (images t)" and r: "requests t = requests s"
    using assms by (auto simp: calm_step_def)
  show "factory_sound t"
    using s factory_ok_wrote [OF w] recorded_wrote [OF w] by (auto simp: factory_sound_def r list_all_iff)
qed

interpretation sound_calm: factory_relation sound_step
  by unfold_locales (auto simp: sound_step_def calm_sound [unfolded sound_step_def])

section \<open>Running an effect\<close>

lemma post_success:
  assumes "post st s = (Inr x, t)"
  obtains now clock c d where "image_wrote (images s) d" "requests t = requests s"
    "image_apply now clock c st d = Some (images t)"
proof -
  let ?i = "ticks s"
  let ?u = "meddled ?i (s\<lparr>ticks := Suc ?i\<rparr>)"
  have "calm_step (s\<lparr>ticks := Suc ?i\<rparr>) ?u" by (rule calm_meddled)
  then show thesis
    using assms that
    by (auto simp: post_def post_at_def iprim_def prim_success Let_def ticked_def calm_step_def
        split: if_splits option.splits)
qed

lemma image_transaction_success:
  fixes m :: "('p, 'a) factory_act"
  assumes "image_transaction m s = (Inr x, t)"
  obtains u v where "calm_step s u" "m u = (Inr x, v)" "images t = images v" "requests t = requests v"
proof -
  let ?i = "ticks s"
  let ?u = "meddled ?i (s\<lparr>ticks := Suc ?i\<rparr>)"
  have *: "calm_step (s\<lparr>ticks := Suc ?i\<rparr>) ?u" by (rule calm_meddled)
  have c: "calm_step s (?u\<lparr>began := b\<rparr>)" for b using * by (simp add: calm_step_def)
  have commit: "images w = images v \<and> requests w = requests v" if "commit v = (r, w)" for v :: "'p factory" and r w
    using that by (auto simp: commit_def prim_def Let_def split: if_splits)
  show thesis
    using assms that [OF c]
    by (auto simp: image_transaction_def iprim_def prim_success ticked_def success
        split: if_splits prod.splits sum.splits dest!: commit)
qed

lemma calm_bind_success:
  assumes "bind m f s = (Inr y, u)" "calm m" "calm_step s0 s"
  obtains x t where "calm_step s0 t" "f x t = (Inr y, u)"
  using assms that staysD calm.step_trans unfolding bind_success by metis

lemma inserted_effect:
  assumes "image_apply now clock c (Insert_effect i build key command) d = Some d'"
  shows "i \<notin> ef_id ` set (ib_effects d)" "recorded_request d' (i, command)"
  using assms by (auto simp: image_apply_def recorded_request_def lookup_None_iff split: if_splits)

lemma unrecorded_before:
  assumes "image_wrote d d'" "factory_ok d" "i \<notin> ef_id ` set (ib_effects d')"
  shows "\<not> recorded_request d (i, c)"
proof
  assume "recorded_request d (i, c)"
  from recorded_wrote [OF assms(1,2) this] assms(3) show False by (auto simp: recorded_request_def)
qed

text \<open>When the journal transaction returns, the effect is new and its row is there.\<close>

lemma journal_effect_fresh:
  assumes s: "factory_sound s" and j: "journal_effect b command i prices supersede s = (Inr x, t)"
  shows "i \<notin> fst ` set (requests t)" "recorded_request (images t) (i, command)"
proof -
  have "calm_step s t" using staysD [OF calm_journal_3(1) j] .
  then have t: "factory_sound t" "requests t = requests s" and ok: "factory_ok (images s)"
    using calm_sound s by (auto simp: sound_step_def calm_step_def factory_sound_def)
  obtain u v where u: "calm_step s u" and v: "images t = images v"
      and m: "bind (check_open_build b command prices) (\<lambda>_.
        bind (post (Insert_effect i (ad_id (bd_admission b)) (new_key b command) command)) (\<lambda>_.
        supersede_effect i supersede)) u = (Inr x, v)"
    using j unfolding journal_effect_def by (rule image_transaction_success)
  obtain w where w: "calm_step s w" and p: "bind (post (Insert_effect i (ad_id (bd_admission b))
      (new_key b command) command)) (\<lambda>_. supersede_effect i supersede) w = (Inr x, v)"
    using calm_bind_success [OF m calm_journal_2(4) u] .
  then obtain w' where w': "post (Insert_effect i (ad_id (bd_admission b)) (new_key b command) command) w = (Inr (), w')"
      and v': "calm_step w' v"
    by (auto simp: bind_success dest: staysD [OF calm_journal_1(7)])
  obtain now clock c d where d: "image_wrote (images w) d" "requests w' = requests w"
      "image_apply now clock c (Insert_effect i (ad_id (bd_admission b)) (new_key b command) command) d
        = Some (images w')"
    using post_success [OF w'] .
  have W: "factory_sound w" using calm_sound [OF w] s by (simp add: sound_step_def)
  then have ok: "factory_ok (images w)" by (simp add: factory_sound_def)
  then have "factory_ok (images w')"
    using factory_ok_wrote [OF d(1)] factory_ok_wrote [OF image_wrote_apply [OF d(3)]] by blast
  then show "recorded_request (images t) (i, command)"
    using recorded_wrote inserted_effect(2) [OF d(3)] v v' by (auto simp: calm_step_def)
  have "\<not> recorded_request (images w) (i, c)" for c
    using unrecorded_before [OF d(1) ok inserted_effect(1) [OF d(3)]] .
  then show "i \<notin> fst ` set (requests t)"
    using W w t(2) by (force simp: factory_sound_def calm_step_def list_all_iff)
qed

definition asked :: "id \<Rightarrow> image_command \<Rightarrow> 'p factory \<Rightarrow> 'p factory \<Rightarrow> bool" where
  "asked i c s s' \<longleftrightarrow> images s' = images s
     \<and> (requests s' = requests s \<or> requests s' = requests s @ [(i, c)])"

lemma asked_submit: "asked i c s (snd (submit_effect P i c s))"
  by (auto simp: submit_effect_def ask_submit_def catch_any_def bind_def prim_def reply_def ret_def
      asked_def Let_def split: prod.splits sum.splits exn.splits if_splits)

lemma asked_sound:
  assumes "factory_sound s" "i \<notin> fst ` set (requests s)" "recorded_request (images s) (i, c)" "asked i c s t"
  shows "factory_sound t"
  using assms by (auto simp: factory_sound_def asked_def)

lemma sound_started:
  assumes "\<And>x. sound (k x)"
  shows "sound (bind (journal_effect b c i prices prev) (\<lambda>_. bind (submit_effect P i c) k))"
proof (rule staysI, unfold sound_step_def, rule impI)
  fix s :: "'a factory"
  assume s: "factory_sound s"
  obtain r t where j: "journal_effect b c i prices prev s = (r, t)" by fastforce
  have t: "factory_sound t"
    using calm_sound [OF staysD [OF calm_journal_3(1) j]] s by (simp add: sound_step_def)
  show "factory_sound (snd (bind (journal_effect b c i prices prev) (\<lambda>_. bind (submit_effect P i c) k) s))"
  proof (cases r)
    case (Inl e)
    with j t show ?thesis by (simp add: bind_def)
  next
    case (Inr x)
    let ?u = "snd (submit_effect P i c t)"
    have "factory_sound ?u"
      using asked_sound [OF t _ _ asked_submit] journal_effect_fresh [OF s j [unfolded Inr]] by blast
    moreover have "factory_sound (snd (bind (submit_effect P i c) k t))" if "factory_sound ?u"
      using that assms by (auto simp: bind_def stays_def sound_step_def split: prod.splits sum.splits)
    ultimately show ?thesis using j Inr by (simp add: bind_def)
  qed
qed

section \<open>Every program keeps a relation that allows effects\<close>

text \<open>The credential caches are no part of the tables.\<close>

lemma calm_set_cache:
  "cache \<in> {probe_cache, runtime_cache} \<Longrightarrow> calm (set_state (\<lambda>s. snd cache (f s) s))"
  by (auto simp: stays_def set_state_def probe_cache_def runtime_cache_def calm_step_def)

lemma calm_get_state: "calm (get_state f)"
  by (simp add: stays_def get_state_def calm.step_refl)

lemma calm_credential_for:
  "cache \<in> {probe_cache, runtime_cache} \<Longrightarrow> calm (credential_for cache i purpose issue)"
  unfolding credential_for_def
  by (intro calm_rules calm_set_cache calm_get_state calms)

lemma calm_forget: "cache \<in> {probe_cache, runtime_cache} \<Longrightarrow> calm (forget_credential cache i)"
  unfolding forget_credential_def by (rule calm_set_cache)

lemma calm_verifying [calms]:
    "calm (checkImageRuntime P V i)"
    "calm (enroll P V x)"
  unfolding checkImageRuntime_def check_runtime_def check_enrolled_def judge_runtime_def record_result_def
    enroll_def enroll_locked_def enroll_keys_def probe_identity_def issue_identity_def Let_def
  by (auto intro!: calm_lock_rules calms calm_credential_for calm_forget split: calm_splits)

text \<open>The controller serves an admission, a start or cancellation of a build, a pass over a build
  (from its task or by hand), a reconciliation, an enrollment, a pin or the resolution of one. Between
  two of them another session may write the tables, and everything else may change: the process is
  replaced, clocks move, the provider acts, customers' tables are written.\<close>

definition worker_task :: "'p image_runtime \<Rightarrow> id \<Rightarrow> ('p, unit) factory_act" where
  "worker_task W i = advance_image_build_task
     (\<lambda>b. bind (worker_advance W (ad_id (bd_admission b))) (\<lambda>_. ret ())) i"

inductive factory_step :: "'p factory \<Rightarrow> 'p factory \<Rightarrow> bool" where
  admit: "factory_step s (snd (admitImageBuild a source catalog limits s))"
| start: "factory_step s (snd (requestImageRun i s))"
| cancel: "factory_step s (snd (requestImageCleanup i reason s))"
| pass: "factory_step s (snd (worker_advance W i s))"
| manual_pass: "factory_step s (snd (advanceImageBuild G i s))"
| manual_cleanup: "factory_step s (snd (cleanupImageBuild P A i s))"
| task: "factory_step s (snd (worker_task W i s))"
| reconcile: "factory_step s (snd (reconcile_image_builds_task s))"
| enrolled: "factory_step s (snd (enroll P V x s))"
| pinned: "factory_step s (snd (pinAllocationImage C ks allocation op i s))"
| resolved: "factory_step s (snd (resolveAllocationImage C ks P al s))"
| written: "image_writes (images s) d \<Longrightarrow> factory_step s (s\<lparr>images := d\<rparr>)"
| moved: "images t = images s \<Longrightarrow> requests t = requests s \<Longrightarrow> factory_step s t"

lemma stays_run: "stays R m \<Longrightarrow> R s (snd (m s))"
  by (simp add: stays_def)

locale effect_relation = factory_relation R
  for R :: "'p factory \<Rightarrow> 'p factory \<Rightarrow> bool" +
  assumes started: "(\<And>x. stays R (k x)) \<Longrightarrow>
    stays R (bind (journal_effect b c i prices prev) (\<lambda>_. bind (submit_effect P i c) (k :: _ \<Rightarrow> ('p, resolved) factory_act)))"
begin

lemmas effect_rules = rules of_calm [OF calm_look] of_calm [OF calm_ask] of_calm [OF calm_post]
  of_calm [OF calm_footprint [OF footprint_databaseTime]]
  of_calm [OF calm_footprint [OF footprint_wallTime]]
  of_calm [OF calm_footprint [OF footprint_randomUUID]]
  of_calm [OF calm_image_transaction] of_calm [OF calm_from_sum] lock calms [THEN of_calm]

lemma effects:
    "stays R (start_effect P b command priced supersede)"
    "stays R (attempt_effect P b command priced previous supersede)"
    "stays R (runImageEffect P i command priced)"
  unfolding runImageEffect_def attempt_effect_def start_effect_def
  by (auto intro!: effect_rules started split: option.splits)

lemma passes:
    "stays R (cleanupImageBuild P A i)"
    "stays R (release_pass G i b)"
  unfolding cleanupImageBuild_def release_pass_def Let_def
  by (auto intro!: effect_rules effects split: option.splits cleanup_step.splits)

lemma controller:
    "stays R (follow_plan G i b plan)"
    "stays R (advanceImageBuild G i)"
    "stays R (worker_clean W i)"
    "stays R (worker_build W i b)"
    "stays R (worker_advance W i)"
  unfolding worker_advance_def worker_build_def worker_clean_def advanceImageBuild_def follow_plan_def Let_def
  by (auto intro!: effect_rules passes effects split: image_plan.splits option.splits build_state.splits)

lemma task: "stays R (worker_task W i)"
  unfolding worker_task_def advance_image_build_task_def run_advance_def
  by (intro effect_rules controller)

lemma step:
  assumes "factory_step s t"
  shows "R s t"
  using assms
proof cases
  case (written d)
  then show ?thesis by (intro calm_allowed) (auto simp: calm_step_def)
next
  case moved
  then show ?thesis by (intro calm_allowed) (auto simp: calm_step_def)
qed (auto intro!: stays_run [of R] controller passes task calms [THEN of_calm])

end

interpretation sound: effect_relation sound_step
  by unfold_locales (rule sound_started)

text \<open>Whatever happens, the image tables change by accepted statements.\<close>

definition tables_step :: "'p factory \<Rightarrow> 'p factory \<Rightarrow> bool" where
  "tables_step s s' \<longleftrightarrow> image_wrote (images s) (images s')"

interpretation tables_kept: step_relation tables_step
  by unfold_locales (auto simp: tables_step_def)

lemma tables_started:
  assumes "\<And>x. stays tables_step (k x)"
  shows "stays tables_step (bind (journal_effect b c i prices prev) (\<lambda>_. bind (submit_effect P i c) k))"
proof -
  have "stays tables_step (submit_effect P i c)"
    by (intro staysI) (simp add: tables_step_def asked_submit [unfolded asked_def])
  moreover have "stays tables_step (journal_effect b c i prices prev)"
    using calm_journal_3(1) by (rule stays_mono) (simp add: calm_step_def tables_step_def)
  ultimately show ?thesis using assms by (intro tables_kept.bind)
qed

interpretation tables: effect_relation tables_step
  by unfold_locales (auto simp: tables_step_def calm_step_def intro: tables_started)

section \<open>Reachable factories\<close>

inductive factory_reachable :: "'p factory \<Rightarrow> bool" where
  fresh: "images s = empty_images \<Longrightarrow> requests s = [] \<Longrightarrow> factory_reachable s"
| stepped: "factory_reachable s \<Longrightarrow> factory_step s t \<Longrightarrow> factory_reachable t"

lemma reachable_sound: "factory_reachable s \<Longrightarrow> factory_sound s"
proof (induction rule: factory_reachable.induct)
  case (fresh s)
  then show ?case by (simp add: factory_sound_def factory_ok_empty)
next
  case (stepped s t)
  then show ?case using sound.step [of s t] by (simp add: sound_step_def)
qed

lemma reachable_ok: "factory_reachable s \<Longrightarrow> factory_ok (images s)"
  using reachable_sound by (auto simp: factory_sound_def)

lemma request_row:
  assumes "factory_reachable s" "(i, c) \<in> set (requests s)"
  obtains e where "e \<in> set (ib_effects (images s))" "ef_id e = i" "ef_command e = c"
    "effect_ok (images s) e"
proof -
  have s: "factory_sound s" using reachable_sound [OF assms(1)] .
  then have "recorded_request (images s) (i, c)"
    using assms(2) by (auto simp: factory_sound_def list_all_iff)
  then show thesis
    using s that by (auto simp: recorded_request_def factory_sound_def factory_ok_def journal_ok_def)
qed

lemma factory_reachable_wrote:
  assumes "factory_reachable s" "image_wrote (images s) d"
  shows "factory_reachable (s\<lparr>images := d\<rparr>)"
  using assms(2)
proof (induction rule: rtranclp_induct)
  case base
  then show ?case using assms(1) by simp
next
  case (step y z)
  then show ?case using factory_step.written [of "s\<lparr>images := y\<rparr>" z] by (auto intro: factory_reachable.stepped)
qed

end
