(* ===== verification/Image_Examples.thy ===== *)
theory Image_Examples
  imports Image_Control
begin

text \<open>
  A concrete factory the witnesses evaluate: one admitted build on a provider that performs each
  command at once, an access store, a builder that installs and erases itself, and a verifier that
  presents what it was booted with.
\<close>

section \<open>The admission\<close>

definition bench_id :: id where
  "bench_id = ''00000000-0000-4000-8000-000000000001''"

definition bench_digest :: string where
  "bench_digest = replicate 64 (CHR ''d'')"

definition bench_trust :: guest_trust where
  "bench_trust = \<lparr>sshUserCa = ''ssh-ed25519 AA'', sshHostCa = ''ssh-ed25519 BB'', tlsRoot = ''root''\<rparr>"

definition bench_manifest :: guest_manifest where
  "bench_manifest = \<lparr>man_publicInputsDigest = bench_digest, man_version = ''v1'', man_architecture = X86,
     man_components = \<lparr>gc_node = ''24'', gc_docker = ''29'', gc_compose = ''5'', gc_caddy = ''2'',
       gc_step = ''0'', gc_guestctlSha256 = bench_digest\<rparr>,
     man_trust = bench_trust, man_customerSsh = False\<rparr>"

definition bench_artifact :: image_artifact where
  "bench_artifact = \<lparr>art_version = ''1'', art_file = ''f'', art_url = ''u'', art_sha256 = bench_digest\<rparr>"

definition bench_source :: image_source where
  "bench_source = \<lparr>src_manifest = bench_manifest,
     src_inputs = [\<lparr>input_path = ''guestctl'', input_sha256 = bench_digest, input_bytes = 10\<rparr>],
     src_artifacts = \<lparr>arts_node = bench_artifact, arts_step = bench_artifact, arts_caddy = bench_artifact,
       arts_dockerVersion = ''29'', arts_composeVersion = ''5'', arts_debs = []\<rparr>,
     src_manifestDigest = bench_digest, src_checksumDigest = bench_digest\<rparr>"

definition bench_offer :: catalog_item where
  "bench_offer = (simulated_item ''EUR'' Nbg1 (Small, ''cx23'', 2, 4, 40, 9600))
     \<lparr>priceBasis := Basis_account_gross\<rparr>"

definition bench_storage :: image_storage_price where
  "bench_storage = \<lparr>sp_currency = ''EUR'', sp_grossMicrosPerGbMonth = 10000, sp_observedAt = 0,
     sp_expiresAt = 90000000\<rparr>"

definition bench_catalog :: catalog where
  "bench_catalog = \<lparr>cat_provider = Hetzner, cat_currency = ''EUR'', pricing = Basis_account_gross,
     cat_observedAt = 0, cat_expiresAt = 90000000, cat_items = [bench_offer]\<rparr>"

definition bench_admission :: image_admission where
  "bench_admission = \<lparr>ad_id = bench_id, ad_source = bench_source, ad_offer = bench_offer,
     ad_storagePrice = bench_storage, ad_baseImageId = ''7'',
     ad_access = \<lparr>ac_managementAddress = ''10.0.0.1'', ac_publicKey = ''ssh-ed25519 CC'',
       ac_hostPublicKey = ''ssh-ed25519 DD'', ac_secretId = ''00000000-0000-4000-8000-000000000002''\<rparr>,
     ad_budget = \<lparr>bu_currency = ''EUR'', bu_maxVmGrossMicros = 40000,
       bu_maxSnapshotMonthlyGrossMicros = 500000, bu_maxSnapshotGb = 40\<rparr>,
     ad_admittedAt = 1000, ad_deadlineAt = 7201000, ad_retention = Retain 80000000\<rparr>"

definition bench_limits :: image_limits where
  "bench_limits = \<lparr>il_currency = ''EUR'', il_maxOpenBuilds = 1, il_maxVmGrossMicros = 40000,
     il_maxSnapshotMonthlyGrossMicros = 500000\<rparr>"

section \<open>The provider\<close>

record bench =
  bn_resources :: "image_resource list"
  bn_next :: nat
  bn_installed :: bool

definition made :: "image_command \<Rightarrow> id \<Rightarrow> instant \<Rightarrow> image_body option" where
  "made command i now = (case command of
      Create_ssh_key n l k \<Rightarrow> Some (Key_body \<lparr>kb_publicKey = k, kb_fingerprint = ''f''\<rparr>)
    | Create_firewall n l m \<Rightarrow> Some (Firewall_body \<lparr>fb_rules = [\<lparr>fr_direction = ''in'', fr_protocol = ''tcp'',
        fr_port = Some ''22'', fr_sourceIps = [m @ ''/32''], fr_destinationIps = []\<rparr>], fb_attachments = []\<rparr>)
    | Create_image_ip n l r \<Rightarrow> Some (Address_body \<lparr>ab_region = r, ab_ipv4 = ''10.0.0.2'',
        ab_autoDelete = False, ab_serverId = None\<rparr>)
    | Create_image_server r \<Rightarrow> Some (Server_body \<lparr>sb_name = sr_name r, sb_serverType = sr_serverType r,
        sb_region = sr_region r, sb_architecture = X86, sb_power = Im_running, sb_imageId = Some (sr_imageId r),
        sb_primaryIpId = Some (sr_primaryIpId r), sb_ipv4 = Some ''10.0.0.2'',
        sb_firewalls = [(sr_firewallId r, ''applied'')], sb_deleteProtected = False, sb_diskGb = 40\<rparr>)
    | Create_snapshot n l s \<Rightarrow> Some (Snapshot_body \<lparr>nb_architecture = X86, nb_status = Snap_available,
        nb_sourceServerId = Some s, nb_imageSizeGb = Some 2, nb_diskGb = 40, nb_deleteProtected = False,
        nb_createdAt = now\<rparr>)
    | _ \<Rightarrow> None)"

text \<open>An address knows the server it is assigned to.\<close>

definition attach :: "image_command \<Rightarrow> string \<Rightarrow> image_resource \<Rightarrow> image_resource" where
  "attach command server r = (case (command, ir_body r) of
      (Create_image_server q, Address_body a) \<Rightarrow>
        if ir_id r = sr_primaryIpId q then r\<lparr>ir_body := Address_body (a\<lparr>ab_serverId := Some server\<rparr>)\<rparr> else r
    | _ \<Rightarrow> r)"

definition detach :: "string \<Rightarrow> image_resource \<Rightarrow> image_resource" where
  "detach server r = (case ir_body r of
      Address_body a \<Rightarrow> if ab_serverId a = Some server
        then r\<lparr>ir_body := Address_body (a\<lparr>ab_serverId := None\<rparr>)\<rparr> else r
    | _ \<Rightarrow> r)"

definition switch_off :: "string \<Rightarrow> image_resource \<Rightarrow> image_resource" where
  "switch_off server r = (case ir_body r of
      Server_body b \<Rightarrow> if ir_id r = server
        then r\<lparr>ir_body := Server_body (b\<lparr>sb_power := Im_off\<rparr>)\<rparr> else r
    | _ \<Rightarrow> r)"

definition bench_submit :: "id \<Rightarrow> image_command \<Rightarrow> (bench, image_submission) port" where
  "bench_submit i command now p = (case command of
      Delete_image ref \<Rightarrow> (Inr (Im_completed ref), p\<lparr>bn_resources := map (detach (im_id ref))
        (filter (\<lambda>r. ir_id r \<noteq> im_id ref) (bn_resources p))\<rparr>)
    | Power_off_builder s w \<Rightarrow> (Inr (Im_completed \<lparr>im_kind = Im_server, im_id = s\<rparr>),
        p\<lparr>bn_resources := map (switch_off s) (bn_resources p)\<rparr>)
    | _ \<Rightarrow> (case (made command i now, image_labels command) of
        (Some body, Some l) \<Rightarrow>
          (Inr (Im_completed \<lparr>im_kind = body_kind body, im_id = decimal (bn_next p)\<rparr>),
           p\<lparr>bn_next := Suc (bn_next p), bn_resources := map (attach command (decimal (bn_next p))) (bn_resources p)
             @ [\<lparr>ir_id = decimal (bn_next p), ir_labels = label_map l @ [(''effect_id'', i)], ir_body = body\<rparr>]\<rparr>)
      | _ \<Rightarrow> (Inr Im_rejected, p)))"

definition bench_provider :: "bench image_provider" where
  "bench_provider = \<lparr>mk_submit = bench_submit,
     mk_get = (\<lambda>ref now p. (Inr (select_one (\<lambda>r. is_resource ref r) (bn_resources p)), p)),
     mk_find = (\<lambda>kind ls now p. (Inr (filter (\<lambda>r. ir_kind r = kind \<and> matchesLabels (ir_labels r) ls)
        (bn_resources p)), p)),
     mk_getAction = (\<lambda>a ref now p. (Inr (Image_action Action_succeeded), p)),
     mk_getBaseImage = (\<lambda>i now p. (Inr (Some \<lparr>base_id = ''7'', base_type = ''system'', base_status = ''available'',
        base_architecture = X86, base_osFlavor = ''ubuntu'', base_osVersion = Some ''24.04'', base_diskGb = 5,
        base_deprecated = False, base_deleted = False\<rparr>), p))\<rparr>"

section \<open>The builder and the verifier\<close>

definition bench_receipt :: install_receipt where
  "bench_receipt = \<lparr>ins_builderId = bench_id, ins_manifestDigest = bench_digest,
     ins_machineId = replicate 32 (CHR ''a'')\<rparr>"

definition bench_sanitation :: sanitation_receipt where
  "bench_sanitation = \<lparr>san_builderId = bench_id, san_manifestDigest = bench_digest\<rparr>"

definition bench_remote :: "bench image_remote" where
  "bench_remote = \<lparr>rm_inspect = (\<lambda>t now p. (Inr (if bn_installed p then Installed_already bench_receipt
       else Not_started), p)),
     rm_upload = (\<lambda>t now p. (Inr (), p)),
     rm_install = (\<lambda>t now p. (Inr Started, p\<lparr>bn_installed := True\<rparr>)),
     rm_sanitize = (\<lambda>t now p. (Inr bench_sanitation, p))\<rparr>"

definition bench_access :: "bench image_access_store" where
  "bench_access = \<lparr>as_recover = (\<lambda>a now p. (Inr ''private'', p)), as_remove = (\<lambda>a now p. (Inr (), p))\<rparr>"

definition bench_token :: string where
  "bench_token = replicate 43 (CHR ''t'')"

definition bench_enrollment :: enrollment_input where
  "bench_enrollment = \<lparr>en_subject = bench_id, en_token = bench_token,
     en_sshHostPublicKey = ''ssh-ed25519 EE'', en_tlsCsr = ''csr'', en_imageVersion = ''v1''\<rparr>"

definition bench_credential :: "id \<Rightarrow> (bench, probe_credential) port" where
  "bench_credential i now p = (Inr \<lparr>pc_material = ''k'', pc_expiresAt = now + 300000\<rparr>, p)"

definition bench_runtime :: verifier_runtime where
  "bench_runtime = \<lparr>rt_proof = proof_of bench_enrollment bench_digest, rt_manifest = bench_manifest,
     rt_architecture = X86, rt_bootId = bench_id, rt_machineId = replicate 32 (CHR ''b''),
     rt_checks = \<lparr>rc_node = Some ''24'', rc_docker = Some ''29'', rc_compose = Some ''5'', rc_caddy = Some ''2'',
       rc_step = Some ''0'', rc_disk = Some (2147483648, 42949672960), rc_proxy = Some (bench_id, ''v1''),
       rc_customerSsh = None\<rparr>\<rparr>"

definition bench_verifier :: "bench verifier_ports" where
  "bench_verifier = \<lparr>vp_trust = bench_trust, vp_matches = (\<lambda>t h. t = bench_token \<and> h = bench_digest),
     vp_validateTls = (\<lambda>i c now p. (Inr (), p)), vp_issueProbe = bench_credential,
     vp_issueRuntime = bench_credential, vp_signHost = (\<lambda>i k now p. (Inr ''host certificate'', p)),
     vp_signTls = (\<lambda>i c now p. (Inr ''tls certificate'', p)),
     vp_readIdentity = (\<lambda>t now p. (Inr (proof_of bench_enrollment bench_digest), p)),
     vp_readRuntime = (\<lambda>t now p. (Inr bench_runtime, p))\<rparr>"

definition bench_crypto :: release_crypto where
  "bench_crypto = \<lparr>cr_keyId = (\<lambda>k. Some bench_digest), cr_verify = (\<lambda>ev t k v. v = ''signed''),
     cr_digest = (\<lambda>m. bench_digest), cr_manifest = (\<lambda>fs arts t. Some bench_manifest)\<rparr>"

definition bench_keys :: "(bench, image_release_key list) port" where
  "bench_keys now p = (Inr [Trusted_key ''public'' 0 90000000 90000000], p)"

definition bench_publication :: "bench publication_ports" where
  "bench_publication = \<lparr>pp_signer = \<lparr>ss_keyId = bench_digest, ss_sign = (\<lambda>ev t. ''signed'')\<rparr>,
     pp_readKeys = bench_keys\<rparr>"

definition bench_verification :: "bench verification_ports" where
  "bench_verification = \<lparr>vr_seal = (\<lambda>now p. (Inr (bench_digest, ''sealed''), p)),
     vr_enrollmentUrl = ''https://control'', vr_ports = bench_verifier\<rparr>"

definition bench_config :: "bench image_config" where
  "bench_config = \<lparr>ic_provider = bench_provider, ic_limits = bench_limits,
     ic_pricing = (\<lambda>now p. (Inr (bench_catalog, bench_storage), p)), ic_access = bench_access,
     ic_remote = bench_remote, ic_crypto = bench_crypto, ic_verification = None, ic_publication = None\<rparr>"

definition bench_worker :: "bench image_runtime" where
  "bench_worker = \<lparr>wr_config = bench_config,
     wr_load = (\<lambda>now p. (Inr (bench_verification, bench_publication), p)),
     wr_inputs = (\<lambda>s now p. (Inr bench_source, p)), wr_readKeys = bench_keys\<rparr>"

section \<open>Runs\<close>

definition bench_outside :: "nat \<Rightarrow> outside" where
  "bench_outside k = \<lparr>or_uuid = (\<lambda>n. ''e'' @ decimal k @ ''-'' @ decimal n), or_token = (\<lambda>n. ''''),
     or_wall = (\<lambda>_. 1000 * int k), or_clock = (\<lambda>_. 1000 * int k), or_busy = (\<lambda>_. False),
     or_fault = (\<lambda>_. False), or_lost = (\<lambda>_. False), or_dies = (\<lambda>_. False)\<rparr>"

definition no_customers :: db where
  "no_customers = \<lparr>accounts = [], projects = [], grants = [], machines = [], allocations = [],
     reservations = [], sessions = [], signing_receipts = [], operations = [], cleanups = [], attempts = [],
     recoveries = [], idempotency = [], audit_events = [], resources = [], guest_bootstraps = [],
     guest_identities = [], restores = [], control_closures = [], jobs = [], access_jobs = []\<rparr>"

definition bench_start :: "bench factory" where
  "bench_start = \<lparr>outside = bench_outside 0, ticks = 0, store = no_customers, began = None,
     images = empty_images, maker = \<lparr>bn_resources = [], bn_next = 1, bn_installed = False\<rparr>, requests = [],
     held = None, others = (\<lambda>_. []), probe_credentials = [], runtime_credentials = []\<rparr>"

text \<open>The state in which a new process takes over at time \<open>k\<close>.\<close>

definition taken_over :: "nat \<Rightarrow> bench factory \<Rightarrow> bench factory" where
  "taken_over k s = s\<lparr>outside := bench_outside k, ticks := 0, began := None, held := None\<rparr>"

definition bench_admitted :: "bench factory" where
  "bench_admitted = snd (admitImageBuild bench_admission (Inr bench_source) bench_catalog bench_limits
     (taken_over 1 bench_start))"

definition bench_started :: "bench factory" where
  "bench_started = snd (requestImageRun bench_id (taken_over 2 bench_admitted))"

definition bench_passed :: "bench factory" where
  "bench_passed = snd (worker_advance bench_worker bench_id (taken_over 3 bench_started))"

lemma bench_passed_requests:
  "map snd (requests bench_passed) = [key_command bench_admission]"
  by code_simp

lemma bench_passed_request: "\<exists>i. requests bench_passed = [(i, key_command bench_admission)]"
proof -
  obtain r where "requests bench_passed = [r]" "snd r = key_command bench_admission"
    using bench_passed_requests unfolding map_eq_Cons_conv by auto
  then show ?thesis by (cases r) auto
qed

section \<open>A history of the tables\<close>

text \<open>The statements that take a build to its release, and those that remove it again; all run at
  the same time.\<close>

definition bench_ref :: "image_kind \<Rightarrow> string \<Rightarrow> image_ref" where
  "bench_ref kind i = \<lparr>im_kind = kind, im_id = i\<rparr>"

definition bench_created :: "id \<Rightarrow> image_role \<Rightarrow> string \<Rightarrow> image_command \<Rightarrow> image_statement list" where
  "bench_created e role i command = (let ref = bench_ref (imageRoleKind role) i in
     [Insert_effect e bench_id (create_key role) command,
      Insert_image_resource ref bench_id e role,
      Set_resource_state ref bench_id (case made command e 5000 of
        None \<Rightarrow> Absent 5000
      | Some body \<Rightarrow> Observed \<lparr>ir_id = i, ir_labels = imageEffectLabels bench_id role e, ir_body = body\<rparr> 5000),
      Set_image_resolution e (Im_confirmed 5000)])"

definition bench_spec :: verifier_spec where
  "bench_spec = \<lparr>vs_subject = bench_id, vs_enrollmentUrl = ''https://control'', vs_expiresAt = 605000,
     vs_image = expected_image bench_admission ''5''\<rparr>"

definition bench_issued :: issued_identity where
  "bench_issued = \<lparr>ii_sshHostCertificate = ''host certificate'', ii_tlsCertificate = ''tls certificate'',
     ii_issuedAt = 5000\<rparr>"

definition bench_result :: verification_result where
  "bench_result = \<lparr>vr_serverId = ''6'', vr_effectId = ''e6'', vr_snapshotId = ''5'',
     vr_runtime = bench_runtime, vr_verifiedAt = 5000\<rparr>"

definition bench_evidence :: release_evidence where
  "bench_evidence = \<lparr>ev_buildId = bench_id, ev_retainUntil = 80000000, ev_manifest = bench_manifest,
     ev_inputs = src_inputs bench_source, ev_artifacts = src_artifacts bench_source,
     ev_sanitation = bench_sanitation, ev_sanitizedServer = ''4'',
     ev_snapshot = \<lparr>rs_id = ''5'', rs_sourceServerId = ''4'', rs_diskGb = 40, rs_sourceStoppedAt = 5000,
       rs_createdAt = 5000\<rparr>,
     ev_bootServer = ''6'', ev_bootId = bench_id, ev_bootDigest = bench_digest, ev_checkedAt = 5000\<rparr>"

definition bench_release :: signed_release where
  "bench_release = \<lparr>sg_evidence = bench_evidence, sg_issuedAt = 5000, sg_keyId = bench_digest,
     sg_value = ''signed''\<rparr>"

definition bench_history :: "image_statement list" where
  "bench_history = Insert_build bench_id bench_admission
     # bench_created ''e4'' Builder ''4'' (builder_command bench_admission ''3'' ''1'' ''2'')
     @ [Insert_builder_work bench_id ''e4'' ''4'', Set_builder_progress bench_id (Installed bench_receipt),
        Set_builder_progress bench_id (Sanitizing bench_receipt),
        Set_builder_progress bench_id (Sanitized bench_receipt bench_sanitation),
        Insert_effect ''e0'' bench_id ''power_off:1'' (Power_off_builder ''4'' bench_sanitation),
        Set_image_resolution ''e0'' (Im_confirmed 5000)]
     @ bench_created ''e5'' Snapshot ''5'' (snapshot_command bench_admission ''4'')
     @ [Insert_verifier_bootstrap bench_id ''5'' bench_spec bench_digest ''sealed'' 605000]
     @ bench_created ''e6'' Verifier ''6'' (verifier_command bench_admission ''5'' ''7'' ''1'' ''2'')
     @ [Insert_identity bench_id ''e6'' ''6'' (claimed_identity bench_enrollment),
        Set_identity bench_id ((claimed_identity bench_enrollment)\<lparr>gd_issued := Some bench_issued\<rparr>),
        Consume_bootstrap bench_id 5000, Insert_result bench_id bench_result,
        Insert_publication bench_id bench_evidence, Set_build_state bench_id Releasing,
        Set_resource_state (bench_ref Im_server ''6'') bench_id (Absent 5000),
        Set_resource_state (bench_ref Im_server ''4'') bench_id (Absent 5000),
        Remove_access bench_id, Set_release bench_id bench_release,
        Set_build_state bench_id (Retained 5000)]"

definition bench_removal :: "image_statement list" where
  "bench_removal = [Set_build_state bench_id (Cleaning Cleanup_requested),
     Insert_effect ''e9'' bench_id ''delete:1'' (Delete_image (bench_ref Im_snapshot ''5'')),
     Set_image_resolution ''e9'' (Im_confirmed 5000),
     Set_resource_state (bench_ref Im_snapshot ''5'') bench_id (Absent 5000),
     Set_build_state bench_id (Cleaned 5000)]"

fun played :: "image_statement list \<Rightarrow> image_db \<Rightarrow> image_db option" where
  "played [] d = Some d"
| "played (st # sts) d = Option.bind (image_apply 5000 5000 no_customers st d) (played sts)"

lemma played_wrote: "played sts d = Some d' \<Longrightarrow> image_wrote d d'"
proof (induction sts arbitrary: d)
  case (Cons st sts)
  then obtain e where e: "image_apply 5000 5000 no_customers st d = Some e" "played sts e = Some d'"
    by (auto simp: bind_eq_Some_conv)
  then have "image_writes d e" unfolding image_writes_def by blast
  with Cons.IH [OF e(2)] show ?case by simp
qed simp

end
