(* ===== verification/Image_Guarantees.thy ===== *)
theory Image_Guarantees
  imports Image_Laws Image_Examples
begin

text \<open>
  What the image factory guarantees: statements over reachable factories, hence over every
  interleaving of handlers, faults, crashes and other sessions.
\<close>

section \<open>Two worlds to check them on\<close>

definition kept_facts :: "image_db \<Rightarrow> bool" where
  "kept_facts d \<longleftrightarrow> (case build_in d bench_id of
      None \<Rightarrow> False
    | Some b \<Rightarrow> ib_admission b = bench_admission \<and> ib_state b = Retained 5000)
     \<and> list_ex (\<lambda>e. ef_id e = ''e5'' \<and> ef_buildId e = bench_id
          \<and> ef_command e = snapshot_command bench_admission ''4'') (ib_effects d)"

definition removed_facts :: "image_db \<Rightarrow> bool" where
  "removed_facts d \<longleftrightarrow> (case build_in d bench_id of
      None \<Rightarrow> False | Some b \<Rightarrow> ib_state b = Cleaned 5000)
     \<and> list_ex (\<lambda>e. ef_id e = ''e9'' \<and> ef_buildId e = bench_id
          \<and> ef_command e = Delete_image (bench_ref Im_snapshot ''5'')) (ib_effects d)"

lemma bench_played:
  "(case played bench_history empty_images of
      None \<Rightarrow> False
    | Some d \<Rightarrow> kept_facts d \<and> (case played bench_removal d of None \<Rightarrow> False | Some e \<Rightarrow> removed_facts e))"
  by code_simp

definition kept_images :: image_db where
  "kept_images = the (played bench_history empty_images)"

definition removed_images :: image_db where
  "removed_images = the (played bench_removal kept_images)"

lemma kept_removed:
  "image_wrote empty_images kept_images" "image_wrote kept_images removed_images"
  "kept_facts kept_images" "removed_facts removed_images"
  using bench_played
  by (auto simp: kept_images_def removed_images_def split: option.splits dest: played_wrote)

definition with_images :: "image_db \<Rightarrow> bench factory" where
  "with_images d = bench_start\<lparr>images := d\<rparr>"

lemma bench_start_reachable: "factory_reachable bench_start"
  by (rule factory_reachable.fresh) (simp_all add: bench_start_def)

lemma with_images_reachable: "image_wrote empty_images d \<Longrightarrow> factory_reachable (with_images d)"
  using factory_reachable_wrote [OF bench_start_reachable, of d]
  by (simp add: with_images_def) (simp add: bench_start_def)

lemma kept_reachable: "factory_reachable (with_images kept_images)"
  using kept_removed by (intro with_images_reachable)

lemma removed_reachable: "factory_reachable (with_images removed_images)"
  using kept_removed by (intro with_images_reachable) (rule rtranclp_trans)

lemma taken_over_reachable: "factory_reachable s \<Longrightarrow> factory_reachable (taken_over k s)"
  by (erule factory_reachable.stepped) (rule factory_step.moved, simp_all add: taken_over_def)

lemma bench_passed_reachable: "factory_reachable bench_passed"
  unfolding bench_passed_def bench_started_def bench_admitted_def
  by (intro factory_reachable.stepped [OF taken_over_reachable factory_step.pass]
      factory_reachable.stepped [OF taken_over_reachable factory_step.start]
      factory_reachable.stepped [OF taken_over_reachable factory_step.admit] bench_start_reachable)

section \<open>Commands\<close>

text \<open>
  C27. The provider is asked at most once to create the resource of a role of a build: two create
  commands with the same labels that were submitted, in whatever run, are one request.
\<close>

theorem image_creates_once:
  assumes "factory_reachable s"
    and "(i, c) \<in> set (requests s)" "(j, c') \<in> set (requests s)"
    and "image_labels c = Some l" "image_labels c' = Some l"
  shows "i = j \<and> c = c'"
proof -
  obtain e e' where e: "e \<in> set (ib_effects (images s))" "ef_id e = i" "ef_command e = c"
    and e': "e' \<in> set (ib_effects (images s))" "ef_id e' = j" "ef_command e' = c'"
    and l: "effect_ok (images s) e" "effect_ok (images s) e'"
    using assms(2,3) by (elim request_row [OF assms(1)]) blast
  have j: "journal_ok (images s)" using reachable_ok [OF assms(1)] by (simp add: factory_ok_def)
  have "(ef_buildId e, ef_key e) = (ef_buildId e', ef_key e')"
    using e e' l assms(4,5) by (auto simp: effect_ok_def)
  with j e(1) e'(1) have "e = e'" by (auto simp: journal_ok_def distinct_map dest: inj_onD)
  with e e' show ?thesis by simp
qed

theorem image_creates_once_witness:
  "\<exists>i. (i, key_command bench_admission) \<in> set (requests bench_passed)
     \<and> (\<forall>j. (j, key_command bench_admission) \<in> set (requests bench_passed) \<longrightarrow> i = j)"
proof -
  obtain i where i: "(i, key_command bench_admission) \<in> set (requests bench_passed)"
    using bench_passed_request by auto
  have l: "image_labels (key_command bench_admission) = Some (imageBuildLabels (ad_id bench_admission) Access_key)"
    by (simp add: key_command_def)
  show ?thesis
    using image_creates_once [OF bench_passed_reachable i _ l l] i by blast
qed

text \<open>
  A command is submitted only after it was recorded: every request the provider received has one
  effect row with its id and command, in a build that was admitted.
\<close>

theorem image_requests_recorded:
  assumes "factory_reachable s" "(i, c) \<in> set (requests s)"
  shows "\<exists>e b. effect_in (images s) i = Some e \<and> ef_command e = c
    \<and> build_in (images s) (ef_buildId e) = Some b"
proof -
  obtain e where e: "e \<in> set (ib_effects (images s))" "ef_id e = i" "ef_command e = c"
      "effect_ok (images s) e"
    using request_row [OF assms] .
  moreover have "keys_ok (images s)"
    using reachable_ok [OF assms(1)] by (simp add: factory_ok_def)
  ultimately show ?thesis using lookup_keys(2) [of "images s" e] by (auto simp: effect_ok_def)
qed

theorem image_requests_recorded_witness:
  "\<exists>i e b. (i, key_command bench_admission) \<in> set (requests bench_passed)
     \<and> effect_in (images bench_passed) i = Some e \<and> build_in (images bench_passed) (ef_buildId e) = Some b"
proof -
  obtain i where "(i, key_command bench_admission) \<in> set (requests bench_passed)"
    using bench_passed_request by auto
  with image_requests_recorded [OF bench_passed_reachable this] show ?thesis by blast
qed

text \<open>
  C30. Nothing of a running build is deleted, and no snapshot unless its build is being cleaned: the
  snapshot behind a release that is being prepared or retained is never deleted.
\<close>

theorem deletion_warranted:
  assumes "factory_reachable s" "e \<in> set (ib_effects (images s))" "ef_command e = Delete_image ref"
    and "build_in (images s) (ef_buildId e) = Some b"
  shows "ib_state b \<noteq> Running
    \<and> (im_kind ref = Im_snapshot \<longrightarrow> (\<exists>x. ib_state b = Cleaning x) \<or> (\<exists>t. ib_state b = Cleaned t))"
proof -
  have "effect_ok (images s) e"
    using reachable_ok [OF assms(1)] assms(2) by (auto simp: factory_ok_def journal_ok_def)
  with assms(3,4) show ?thesis by (cases "ib_state b") (auto simp: effect_ok_def)
qed

theorem deletion_warranted_witness:
  "\<exists>e b. e \<in> set (ib_effects removed_images) \<and> ef_command e = Delete_image (bench_ref Im_snapshot ''5'')
     \<and> build_in removed_images (ef_buildId e) = Some b \<and> ib_state b \<noteq> Running"
proof -
  obtain e where e: "e \<in> set (ib_effects removed_images)" "ef_buildId e = bench_id"
      "ef_command e = Delete_image (bench_ref Im_snapshot ''5'')"
    using kept_removed(4) by (auto simp: removed_facts_def list_ex_iff)
  obtain b where b: "build_in removed_images bench_id = Some b"
    using kept_removed(4) by (auto simp: removed_facts_def split: option.splits)
  with e deletion_warranted [OF removed_reachable, of e] show ?thesis by (auto simp: with_images_def)
qed

text \<open>
  C28. A snapshot is only taken of the recorded builder after its access was erased: the erasure receipt
  names this build and the manifest it was admitted with, and the stop of that very server with that
  receipt was confirmed before.
\<close>

theorem snapshot_after_sanitation:
  assumes "factory_reachable s" "e \<in> set (ib_effects (images s))"
    and "ef_command e = Create_snapshot name l server"
    and "build_in (images s) (ef_buildId e) = Some b"
  shows "\<exists>w r receipt. work_in (images s) (ef_buildId e) = Some w \<and> bw_serverId w = server
    \<and> bw_progress w = Sanitized r receipt \<and> san_builderId receipt = ib_id b
    \<and> san_manifestDigest receipt = src_manifestDigest (ad_source (ib_admission b))
    \<and> stop_confirmed (images s) (ef_buildId e) server receipt"
proof -
  have ok: "effect_ok (images s) e" "work_ok (images s)"
    using reachable_ok [OF assms(1)] assms(2) by (auto simp: factory_ok_def journal_ok_def)
  then obtain w r p where w: "work_in (images s) (ef_buildId e) = Some w" "bw_serverId w = server"
      "bw_progress w = Sanitized r p" "stop_confirmed (images s) (ef_buildId e) server p"
    using assms(3) by (auto simp: effect_ok_def)
  then have "sanitized_work (images s) (ef_buildId e) w p" by (simp add: sanitized_work_def)
  then have "\<exists>b. build_in (images s) (ef_buildId e) = Some b \<and> sanitation_evidence b p"
    using ok(2) by (auto simp: work_ok_def)
  with w assms(4) show ?thesis by (auto simp: sanitation_evidence_def)
qed

theorem snapshot_after_sanitation_witness:
  "\<exists>w receipt. work_in kept_images bench_id = Some w \<and> bw_serverId w = ''4''
     \<and> stop_confirmed kept_images bench_id ''4'' receipt"
proof -
  obtain e where e: "e \<in> set (ib_effects kept_images)" "ef_buildId e = bench_id"
      "ef_command e = snapshot_command bench_admission ''4''"
    using kept_removed(3) by (auto simp: kept_facts_def list_ex_iff)
  obtain b where b: "build_in kept_images bench_id = Some b"
    using kept_removed(3) by (auto simp: kept_facts_def split: option.splits)
  with e show ?thesis
    using snapshot_after_sanitation [OF kept_reachable, of e _ _ "''4''" b]
    by (auto simp: with_images_def snapshot_command_def)
qed

section \<open>Releases and cleanup\<close>

text \<open>
  C29. The release of a retained build is what the build was admitted for: it was signed for the
  publication that was prepared, names this build and its admitted manifest, inputs, artifacts and
  retention, carries the erasure receipt of this build, and was booted with the admitted digest on a
  server other than the one that was erased.
\<close>

theorem release_provenance:
  assumes "factory_reachable s" "build_in (images s) i = Some b" "ib_state b = Retained t"
  shows "\<exists>p release. publication_in (images s) i = Some p \<and> pb_release p = Some release
    \<and> sg_issuedAt release = t
    \<and> (let ev = sg_evidence release; a = ib_admission b; src = ad_source a in
       ev_buildId ev = i \<and> ad_retention a = Retain (ev_retainUntil ev)
       \<and> ev_manifest ev = src_manifest src \<and> ev_inputs ev = src_inputs src \<and> ev_artifacts ev = src_artifacts src
       \<and> san_builderId (ev_sanitation ev) = i \<and> san_manifestDigest (ev_sanitation ev) = src_manifestDigest src
       \<and> rs_sourceServerId (ev_snapshot ev) = ev_sanitizedServer ev
       \<and> ev_bootDigest ev = src_manifestDigest src \<and> ev_bootServer ev \<noteq> ev_sanitizedServer ev)"
proof -
  have ok: "release_ok (images s)" "results_ok (images s)" "work_ok (images s)"
    using reachable_ok [OF assms(1)] by (simp_all add: factory_ok_def)
  have b: "b \<in> set (ib_builds (images s))" "ib_id b = i" using lookup_SomeD(1) [OF assms(2)] by auto
  then obtain p r where p: "publication_in (images s) i = Some p" "pb_release p = Some r" "sg_issuedAt r = t"
    using ok(1) assms(3) unfolding release_ok_def by blast
  then have "publication_ok (images s) i p" using ok(1) by (auto simp: release_ok_def)
  then obtain w san v where w: "sanitized_work (images s) i w san" "result_in (images s) i = Some v"
      "evidence_of (ib_admission b) w san v (pb_evidence p)" "sg_evidence r = pb_evidence p"
    using assms(2) p(2) by (auto simp: publication_ok_def)
  have "verified_boot (images s) i v" using ok(2) w(2) by (auto simp: results_ok_def)
  then have v: "vr_serverId v \<noteq> bw_serverId w"
      "pf_manifestDigest (rt_proof (vr_runtime v)) = src_manifestDigest (ad_source (ib_admission b))"
    using w(1) assms(2) by (auto simp: verified_boot_def sanitized_work_def)
  have "sanitation_evidence b san" using ok(3) w(1) assms(2) unfolding work_ok_def by (metis option.inject)
  moreover have "ad_id (ib_admission b) = i" using ok(1) b by (auto simp: release_ok_def)
  ultimately show ?thesis
    using p w(3,4) v b(2) by (auto simp: evidence_of_def sanitation_evidence_def Let_def)
qed

theorem release_provenance_witness:
  "\<exists>p release. publication_in kept_images bench_id = Some p \<and> pb_release p = Some release
     \<and> sg_issuedAt release = 5000 \<and> ev_manifest (sg_evidence release) = bench_manifest"
proof -
  obtain b where b: "build_in kept_images bench_id = Some b" "ib_admission b = bench_admission"
      "ib_state b = Retained 5000"
    using kept_removed(3) by (auto simp: kept_facts_def split: option.splits)
  then show ?thesis
    using release_provenance [OF kept_reachable, of bench_id b 5000]
    by (auto simp: with_images_def Let_def bench_admission_def bench_source_def)
qed

text \<open>
  C31. A cleaned build has left nothing: none of its effects is undecided, and each resource ever
  recorded for it is absent.
\<close>

theorem cleaned_leaves_nothing:
  assumes "factory_reachable s" "build_in (images s) i = Some b" "ib_state b = Cleaned t"
  shows "(\<forall>e\<in>set (ib_effects (images s)). ef_buildId e = i \<longrightarrow> ef_resolution e \<noteq> Im_pending)
    \<and> (\<forall>r\<in>set (ib_resources (images s)). rr_buildId r = i \<longrightarrow> is_absent (rr_state r))"
proof -
  have "closed_ok (images s)" using reachable_ok [OF assms(1)] by (simp add: factory_ok_def)
  moreover have "b \<in> set (ib_builds (images s))" "ib_id b = i" using lookup_SomeD(1) [OF assms(2)] by auto
  ultimately have "\<not> pending_in (images s) i" "all_absent (images s) i False"
    using assms(3) by (auto simp: closed_ok_def)
  then show ?thesis by (auto simp: pending_in_iff all_absent_iff)
qed

theorem cleaned_leaves_nothing_witness:
  "\<not> pending_in removed_images bench_id \<and> all_absent removed_images bench_id False"
proof -
  obtain b where "build_in removed_images bench_id = Some b" "ib_state b = Cleaned 5000"
    using kept_removed(4) by (auto simp: removed_facts_def split: option.splits)
  then show ?thesis
    using cleaned_leaves_nothing [OF removed_reachable, of bench_id b 5000]
    by (auto simp: with_images_def pending_in_iff all_absent_iff)
qed

end
