(* ===== verification/Image_Refinement.thy ===== *)
theory Image_Refinement
  imports Image_Guarantees
begin

text \<open>
  The abstract lifecycle of a build and its refinement by the factory: whatever the handlers and
  other sessions do, a build moves only along \<open>life_step\<close>, so it changes its state at most four
  times.
\<close>

section \<open>The abstract lifecycle\<close>

datatype life = Building | Publishing | Kept | Removing | Gone

inductive life_step :: "life \<Rightarrow> life \<Rightarrow> bool" where
  publish: "life_step Building Publishing"
| keep: "life_step Publishing Kept"
| remove: "l \<in> {Building, Publishing, Kept} \<Longrightarrow> life_step l Removing"
| finish: "life_step Removing Gone"

inductive_simps life_step_from [simp]:
  "life_step Building l" "life_step Publishing l" "life_step Kept l" "life_step Removing l"
  "life_step Gone l"

fun life_of :: "build_state \<Rightarrow> life" where
  "life_of Running = Building"
| "life_of Releasing = Publishing"
| "life_of (Retained t) = Kept"
| "life_of (Cleaning r) = Removing"
| "life_of (Cleaned t) = Gone"

lemma guard_build_state_life:
  "guard_build_state clock d b s \<Longrightarrow> s = ib_state b \<or> life_step (life_of (ib_state b)) (life_of s)"
  by (auto simp: guard_build_state_def split: build_state.splits)

text \<open>One accepted statement is at most one step of the lifecycle.\<close>

definition follows :: "image_build_row \<Rightarrow> image_build_row \<Rightarrow> bool" where
  "follows b b' \<longleftrightarrow> ib_admission b' = ib_admission b
     \<and> (ib_state b' = ib_state b \<or> life_step (life_of (ib_state b)) (life_of (ib_state b')))"

lemma write_follows:
  assumes k: "keys_ok d" and w: "image_writes d d'" and b: "build_in d i = Some b"
  shows "\<exists>b'. build_in d' i = Some b' \<and> follows b b'"
proof -
  obtain now clock c st where st: "image_accepts now clock c st d" "d' = image_effect now clock st d"
    using w by (auto simp: image_writes_def image_apply_def split: if_splits)
  obtain b' where b': "build_in d' i = Some b'" "build_evolves b b'"
    using build_in_grow [OF k st(1) b] st(2) by blast
  have mine: "x = b" if "x \<in> set (ib_builds d)" "ib_id x = i" for x
    using lookup_keys(1) [OF k that(1)] that(2) b by simp
  have "b' \<in> set (ib_builds d')" "ib_id b' = i" using lookup_SomeD(1) [OF b'(1)] by auto
  note b'' = this
  from k st(1) b''(1) [unfolded st(2)] have "follows b b'"
  proof (cases rule: build_step)
    case old
    then show ?thesis using mine b'' by (simp add: follows_def)
  next
    case (inserted j a)
    then have "i \<notin> ib_id ` set (ib_builds d)" using b'' by simp
    then show ?thesis using lookup_SomeD(1) [OF b] by auto
  next
    case (state x s)
    then show ?thesis using mine [of x] b'' by (auto simp: follows_def dest: guard_build_state_life)
  next
    case (run x)
    then show ?thesis using mine [of x] b'' by (auto simp: follows_def)
  next
    case (access x)
    then show ?thesis using mine [of x] b'' by (auto simp: follows_def)
  qed
  with b' show ?thesis by blast
qed

lemma wrote_follows:
  assumes "image_wrote d d'" "factory_ok d" "build_in d i = Some b"
  shows "\<exists>b'. build_in d' i = Some b' \<and> ib_admission b' = ib_admission b
    \<and> life_step\<^sup>*\<^sup>* (life_of (ib_state b)) (life_of (ib_state b'))
    \<and> (ib_state b' = ib_state b \<or> phase (ib_state b) < phase (ib_state b'))"
  using assms(1)
proof (induction rule: rtranclp_induct)
  case base
  then show ?case using assms(3) by blast
next
  case (step y z)
  then obtain x where x: "build_in y i = Some x" "ib_admission x = ib_admission b"
      "life_step\<^sup>*\<^sup>* (life_of (ib_state b)) (life_of (ib_state x))"
      "ib_state x = ib_state b \<or> phase (ib_state b) < phase (ib_state x)" by blast
  have k: "keys_ok y" using factory_ok_wrote [OF step.hyps(1) assms(2)] by (simp add: factory_ok_def)
  obtain b' where b': "build_in z i = Some b'" "follows x b'"
    using write_follows [OF k step.hyps(2) x(1)] by blast
  have "ib_state b' = ib_state x \<or> phase (ib_state x) < phase (ib_state b')"
    using b'(2) by (cases "ib_state x"; cases "ib_state b'") (auto simp: follows_def)
  with b' x show ?case by (auto simp: follows_def intro: rtranclp.rtrancl_into_rtrancl)
qed

text \<open>
  C32. The factory refines the lifecycle: whatever step it takes, a build keeps the admission it was
  made with and its state moves only along the abstract lifecycle Building, Publishing, Kept, with
  Removing and Gone reachable from each and never left backwards.
\<close>

theorem factory_refines_lifecycle:
  assumes "factory_reachable s" "factory_step s t" "build_in (images s) i = Some b"
  shows "\<exists>b'. build_in (images t) i = Some b' \<and> ib_admission b' = ib_admission b
    \<and> life_step\<^sup>*\<^sup>* (life_of (ib_state b)) (life_of (ib_state b'))"
  using wrote_follows [OF _ reachable_ok [OF assms(1)] assms(3)] tables.step [OF assms(2)]
  by (auto simp: tables_step_def)

theorem factory_refines_lifecycle_witness:
  "\<exists>b'. build_in (images (taken_over 9 (with_images kept_images))) bench_id = Some b'
     \<and> life_step\<^sup>*\<^sup>* Kept (life_of (ib_state b'))"
proof -
  obtain b where "build_in kept_images bench_id = Some b" "ib_state b = Retained 5000"
    using kept_removed(3) by (auto simp: kept_facts_def split: option.splits)
  moreover have "factory_step (with_images kept_images) (taken_over 9 (with_images kept_images))"
    by (rule factory_step.moved) (simp_all add: taken_over_def)
  ultimately show ?thesis
    using factory_refines_lifecycle [OF kept_reachable, of _ bench_id b] by (auto simp: with_images_def)
qed

section \<open>Builds settle\<close>

definition state_of_build :: "id \<Rightarrow> 'p factory \<Rightarrow> build_state option" where
  "state_of_build i s = map_option ib_state (build_in (images s) i)"

fun changes :: "'a list \<Rightarrow> nat" where
  "changes (x # y # xs) = (if x = y then 0 else 1) + changes (y # xs)"
| "changes _ = 0"

lemma steps_reachable: "factory_step\<^sup>*\<^sup>* s t \<Longrightarrow> factory_reachable s \<Longrightarrow> factory_reachable t"
  by (induction rule: rtranclp_induct) (auto intro: factory_reachable.stepped)

lemma steps_wrote: "factory_step\<^sup>*\<^sup>* s t \<Longrightarrow> image_wrote (images s) (images t)"
  by (induction rule: rtranclp_induct) (auto dest: tables.step simp: tables_step_def)

lemma changes_bound:
  assumes "factory_reachable (hd ss)" "ss \<noteq> []" "successively factory_step\<^sup>*\<^sup>* ss"
    and "state_of_build i (hd ss) = Some x"
  shows "changes (map (state_of_build i) ss) + phase x \<le> 4"
  using assms
proof (induction ss arbitrary: x rule: induct_list012)
  case (2 s)
  have "phase x \<le> 4" by (cases x) auto
  then show ?case by simp
next
  case (3 s t ss)
  obtain b where b: "build_in (images s) i = Some b" "ib_state b = x"
    using 3(6) by (auto simp: state_of_build_def)
  have st: "factory_step\<^sup>*\<^sup>* s t" and s: "factory_reachable s" using 3(3,5) by auto
  then obtain b' where b': "build_in (images t) i = Some b'"
      "ib_state b' = x \<or> phase x < phase (ib_state b')"
    using wrote_follows [OF steps_wrote reachable_ok b(1)] b(2) by blast
  have now: "state_of_build i s = Some x" "state_of_build i t = Some (ib_state b')"
    using b b'(1) by (simp_all add: state_of_build_def)
  have "changes (map (state_of_build i) (t # ss)) + phase (ib_state b') \<le> 4"
    using 3(2) [of "ib_state b'"] 3(5) steps_reachable [OF st s] now(2) by simp
  moreover have "changes (map (state_of_build i) (s # t # ss))
      = (if x = ib_state b' then 0 else 1) + changes (map (state_of_build i) (t # ss))"
    using now by simp
  ultimately show ?case using b'(2) by (auto split: if_splits)
qed simp

text \<open>
  C33. A build settles: over any run of the factory, observed as often as one likes, its state changes
  at most four times.
\<close>

theorem build_settles:
  assumes "factory_reachable (hd ss)" "ss \<noteq> []" "successively factory_step\<^sup>*\<^sup>* ss"
    and "state_of_build i (hd ss) \<noteq> None"
  shows "changes (map (state_of_build i) ss) \<le> 4"
  using changes_bound [OF assms(1-3)] assms(4) by fastforce

lemma written_steps: "image_wrote (images s) d \<Longrightarrow> factory_step\<^sup>*\<^sup>* s (s\<lparr>images := d\<rparr>)"
proof (induction rule: rtranclp_induct)
  case (step y z)
  then show ?case using factory_step.written [of "s\<lparr>images := y\<rparr>" z] by (auto intro: rtranclp.rtrancl_into_rtrancl)
qed simp

theorem build_settles_witness:
  "changes (map (state_of_build bench_id) [with_images kept_images, with_images removed_images]) \<in> {1..4}"
proof -
  have states: "state_of_build bench_id (with_images kept_images) = Some (Retained 5000)"
      "state_of_build bench_id (with_images removed_images) = Some (Cleaned 5000)"
    using kept_removed(3,4)
    by (auto simp: state_of_build_def with_images_def kept_facts_def removed_facts_def split: option.splits)
  have "factory_step\<^sup>*\<^sup>* (with_images kept_images) (with_images removed_images)"
    using written_steps [of "with_images kept_images" removed_images] kept_removed(2)
    by (simp add: with_images_def)
  then show ?thesis
    using build_settles [of "[with_images kept_images, with_images removed_images]" bench_id]
      kept_reachable states by simp
qed

end
