(* ===== verification/Image_Release_Laws.thy ===== *)
theory Image_Release_Laws
  imports Image_Refinement
begin

text \<open>
  Laws of single parts of the image factory: the budget of an admission, the plan of a pass, the
  verification of a signed release, and the images whose verification cannot be prepared.
\<close>

section \<open>Budget\<close>

text \<open>
  C34. The reservation of an admitted build covers its machines: however long the builder and the
  verifier each run between admission and deadline, billed by the started hour at the admitted
  price, the bill is within the reservation, which is within the build's own budget.
\<close>

theorem reservation_covers_machines:
  assumes "checkImageAdmission a now = Inr ()"
    and "0 \<le> item_hourlyMicros (ad_offer a)"
    and "ad_admittedAt a \<le> b0" "b0 \<le> b1" "b1 \<le> ad_deadlineAt a"
    and "ad_admittedAt a \<le> v0" "v0 \<le> v1" "v1 \<le> ad_deadlineAt a"
  shows "hours_up (b1 - b0) * item_hourlyMicros (ad_offer a)
       + hours_up (v1 - v0) * item_hourlyMicros (ad_offer a) \<le> bu_maxVmGrossMicros (ad_budget a)"
proof -
  obtain c where c: "imageReservation a = Inr c"
    and vm: "cost_vmGrossMicros c \<le> bu_maxVmGrossMicros (ad_budget a)"
    using assms(1) by (rule checkImageAdmission_ok)
  let ?h = "hours_up (ad_deadlineAt a - ad_admittedAt a)" and ?p = "item_hourlyMicros (ad_offer a)"
  have "hours_up (b1 - b0) \<le> ?h" "hours_up (v1 - v0) \<le> ?h"
    using assms by (auto intro!: hours_up_mono)
  then have "hours_up (b1 - b0) * ?p \<le> ?h * ?p" "hours_up (v1 - v0) * ?p \<le> ?h * ?p"
    using assms(2) by (auto intro: mult_right_mono)
  then show ?thesis using imageReservation_ok(3) [OF c] vm by simp
qed

theorem reservation_covers_machines_witness:
  "hours_up 3600000 * 9600 + hours_up 7200000 * 9600 \<le> bu_maxVmGrossMicros (ad_budget bench_admission)"
proof -
  have "checkImageAdmission bench_admission 1000 = Inr ()" by code_simp
  from reservation_covers_machines [OF this, of 1000 3601000 1000 7201000] show ?thesis
    by (simp add: bench_admission_def bench_offer_def simulated_item_def)
qed

section \<open>Plan\<close>

text \<open>
  What a pass does next: it only plans an effect for a running build before its deadline; when an
  effect is undecided it plans that very command again and nothing else; otherwise it plans the
  create of the first role in order whose predecessors are all confirmed and observed, labelled for
  this build, or the stop of the builder whose erasure was recorded.
\<close>

theorem plan_effect_safe:
  assumes "planImageRelease b now verification publication = Plan_effect c"
  shows "bd_state b = Running \<and> now < ad_deadlineAt (bd_admission b)
    \<and> (case pending_effect b of
         Some e \<Rightarrow> c = ef_command e
       | None \<Rightarrow> (\<exists>role. planned_create b role c) \<or> planned_stop b c)"
proof -
  have s: "bd_state b = Running" "now < ad_deadlineAt (bd_admission b)"
    and p: "plan_running b now verification publication = Plan_effect c"
    using assms by (auto simp: planImageRelease_def split: build_state.splits retention.splits if_splits)
  show ?thesis
  proof (cases "pending_effect b")
    case None
    with plan_running_effect [OF p None] s show ?thesis by simp
  next
    case (Some e)
    with p s show ?thesis by (simp add: plan_running_def Let_def)
  qed
qed

definition bench_view :: image_build where
  "bench_view = \<lparr>bd_admission = bench_admission, bd_state = Running, bd_runRequestedAt = Some 2000,
     bd_accessRemovedAt = None, bd_publication = Pub_waiting, bd_verification = Ver_waiting,
     bd_builderWork = Work_waiting, bd_effects = [], bd_resources = []\<rparr>"

theorem plan_effect_safe_witness:
  "pending_effect bench_view = None \<and> (\<exists>role. planned_create bench_view role (key_command bench_admission))"
proof -
  have p: "planImageRelease bench_view 3000 True True = Plan_effect (key_command bench_admission)"
    by code_simp
  have e: "pending_effect bench_view = None" by (simp add: pending_effect_def bench_view_def select_one_def)
  have "\<not> planned_stop bench_view (key_command bench_admission)"
    by (simp add: planned_stop_def bench_view_def)
  with e plan_effect_safe [OF p] show ?thesis by simp
qed

section \<open>Verification of releases\<close>

text \<open>The policy a set of keys states: every trusted key is a key, no two have the same id, and each
  is valid for signing first and for verification at least as long.\<close>

fun trusted_policy :: "image_release_key \<Rightarrow> bool" where
  "trusted_policy (Trusted_key k a b c) = True"
| "trusted_policy (Revoked_key i) = False"

fun policy_id :: "release_crypto \<Rightarrow> image_release_key \<Rightarrow> string option" where
  "policy_id C (Trusted_key k a b c) = cr_keyId C k"
| "policy_id C (Revoked_key i) = Some i"

definition keys_valid :: "release_crypto \<Rightarrow> image_release_key list \<Rightarrow> bool" where
  "keys_valid C ks \<longleftrightarrow> (\<forall>k a b c. Trusted_key k a b c \<in> set ks \<longrightarrow> cr_keyId C k \<noteq> None \<and> a < b \<and> b \<le> c)
     \<and> distinct (map (policy_id C) (filter trusted_policy ks))"

definition release_trusted :: "release_crypto \<Rightarrow> signed_release \<Rightarrow> image_release_key list \<Rightarrow> instant \<Rightarrow> bool" where
  "release_trusted C r ks now \<longleftrightarrow> keys_valid C ks \<and> Revoked_key (sg_keyId r) \<notin> set ks
     \<and> validatePayload C (sg_evidence r) (sg_issuedAt r)
     \<and> (\<exists>k a b c. Trusted_key k a b c \<in> set ks \<and> cr_keyId C k = Some (sg_keyId r)
          \<and> within_policy r a b c now \<and> cr_verify C (sg_evidence r) (sg_issuedAt r) k (sg_value r))"

lemma trusted_keys_in:
  "trusted_keys C ks = Some ts \<Longrightarrow>
     (i, t) \<in> set ts \<longleftrightarrow> t \<in> set ks \<and> trusted_policy t \<and> policy_id C t = Some i"
proof (induction C ks arbitrary: ts rule: trusted_keys.induct)
  case (3 C k a b c ks)
  then show ?case by (auto split: option.splits if_splits)
qed auto

lemma trusted_keys_valid:
  "trusted_keys C ks = Some ts \<Longrightarrow> keys_valid C ks \<and> distinct (map fst ts)"
proof (induction C ks arbitrary: ts rule: trusted_keys.induct)
  case (3 C k a b c ks)
  then obtain us i where us: "trusted_keys C ks = Some us" "cr_keyId C k = Some i"
      "\<not> list_ex (\<lambda>(j, t). j = i) us" "a < b" "b \<le> c" "ts = (i, Trusted_key k a b c) # us"
    by (auto split: option.splits if_splits)
  then have "keys_valid C ks \<and> distinct (map fst us)" using 3(1) by blast
  moreover have "i \<notin> fst ` set us" using us(3) by (force simp: list_ex_iff)
  moreover have "Some i \<notin> set (map (policy_id C) (filter trusted_policy ks))"
    using calculation(2) trusted_keys_in [OF us(1), of i] by (force simp: image_iff)
  ultimately show ?case using us(2,4,5,6) by (auto simp: keys_valid_def)
qed (auto simp: keys_valid_def)

lemma trusted_keys_none:
  "keys_valid C ks \<Longrightarrow> trusted_keys C ks \<noteq> None"
proof (induction C ks rule: trusted_keys.induct)
  case (3 C k a b c ks)
  have "keys_valid C ks" using 3(2) by (auto simp: keys_valid_def)
  then obtain ts where ts: "trusted_keys C ks = Some ts" using 3(1) by blast
  obtain i where i: "cr_keyId C k = Some i" "a < b" "b \<le> c" using 3(2) by (fastforce simp: keys_valid_def)
  have "Some i \<notin> set (map (policy_id C) (filter trusted_policy ks))"
    using 3(2) i by (simp add: keys_valid_def)
  then have "i \<notin> fst ` set ts" using trusted_keys_in [OF ts, of i] by (force simp: image_iff)
  then have "\<not> list_ex (\<lambda>(j, t). j = i) ts" by (force simp: list_ex_iff)
  then show ?case using ts i by simp
qed (auto simp: keys_valid_def)

text \<open>
  C36. Verifying a signed release decides its trust policy: the loop over the keys, the map by key id
  and the early returns accept exactly the releases that the policy trusts, and give the image the
  release describes.
\<close>

theorem verify_decides_policy:
  "verifySignedImageRelease C r ks now =
     (if release_trusted C r ks now then Some (release_image C (sg_evidence r)) else None)"
proof (cases "trusted_keys C ks")
  case None
  then have "\<not> keys_valid C ks" using trusted_keys_none by blast
  with None show ?thesis by (simp add: verifySignedImageRelease_def release_trusted_def)
next
  case (Some ts)
  have "map_of ts (sg_keyId r) = Some t \<longleftrightarrow>
      t \<in> set ks \<and> trusted_policy t \<and> policy_id C t = Some (sg_keyId r)" for t
    using trusted_keys_valid [OF Some] trusted_keys_in [OF Some] by simp
  note key = this
  show ?thesis
  proof (cases "map_of ts (sg_keyId r)")
    case None
    then have "\<not> (t \<in> set ks \<and> trusted_policy t \<and> policy_id C t = Some (sg_keyId r))" for t
      using key [of t] by simp
    then have "\<not> release_trusted C r ks now"
      unfolding release_trusted_def by (metis trusted_policy.simps(1) policy_id.simps(1))
    with Some None show ?thesis by (simp add: verifySignedImageRelease_def)
  next
    case (Some t)
    then have t: "t \<in> set ks" "trusted_policy t" "policy_id C t = Some (sg_keyId r)" using key by auto
    from t(2) obtain k a b c where k: "t = Trusted_key k a b c" by (cases t rule: image_release_key.exhaust) auto
    have "release_trusted C r ks now \<longleftrightarrow> Revoked_key (sg_keyId r) \<notin> set ks
        \<and> validatePayload C (sg_evidence r) (sg_issuedAt r) \<and> within_policy r a b c now
        \<and> cr_verify C (sg_evidence r) (sg_issuedAt r) k (sg_value r)"
      using trusted_keys_valid [OF \<open>trusted_keys C ks = Some ts\<close>] key Some t k
      by (fastforce simp: release_trusted_def)
    with Some k \<open>trusted_keys C ks = Some ts\<close> show ?thesis
      by (auto simp: verifySignedImageRelease_def revoked_key_def list_ex_iff)
  qed
qed

section \<open>Images with customer SSH\<close>

text \<open>The database only accepts a bootstrap of an image without the customer SSH field.\<close>

definition plain_bootstraps :: "image_db \<Rightarrow> bool" where
  "plain_bootstraps d \<longleftrightarrow> (\<forall>r\<in>set (ib_bootstraps d). \<not> gi_customerSsh (vs_image (bt_spec r)))"

lemma plain_bootstraps_writes:
  assumes "plain_bootstraps d" "image_writes d d'"
  shows "plain_bootstraps d'"
proof -
  obtain now clock c st where st: "image_accepts now clock c st d" "d' = image_effect now clock st d"
    using assms(2) by (auto simp: image_writes_def image_apply_def split: if_splits)
  with assms(1) show ?thesis
    by (cases st) (auto simp: plain_bootstraps_def guard_bootstrap_insert_def expected_image_def Let_def
      in_update_where split: option.splits if_splits)
qed

lemma plain_bootstraps_wrote: "image_wrote d d' \<Longrightarrow> plain_bootstraps d \<Longrightarrow> plain_bootstraps d'"
  by (induction rule: rtranclp_induct) (auto intro: plain_bootstraps_writes)

lemma plain_bootstraps_reachable:
  assumes "factory_reachable s"
  shows "plain_bootstraps (images s)"
  using assms
proof (induction rule: factory_reachable.induct)
  case (fresh s)
  then show ?case by (simp add: plain_bootstraps_def empty_images_def)
next
  case (stepped s t)
  then show ?case
    using tables.step [of s t] plain_bootstraps_wrote by (auto simp: tables_step_def)
qed

text \<open>What a read returned was in the tables at some moment since.\<close>

lemma look_success:
  assumes "look g s = (Inr x, t)"
  obtains clock c d where "image_wrote (images s) d" "x = g clock c d" "images t = d"
proof -
  let ?i = "ticks s"
  let ?u = "meddled ?i (s\<lparr>ticks := Suc ?i\<rparr>)"
  have "calm_step (s\<lparr>ticks := Suc ?i\<rparr>) ?u" by (rule calm_meddled)
  then show thesis
    using assms that
    by (auto simp: look_def iprim_def prim_success Let_def ticked_def calm_step_def split: if_splits)
qed

lemma inspect_success:
  assumes "inspectImageBuild i s = (Inr b, t)"
  obtains row where "image_wrote (images s) (images t)" "build_in (images t) i = Some row"
    "bd_admission b = ib_admission row"
proof -
  obtain x u where u: "look (\<lambda>clock c d. read_build i d) s = (Inr x, u)" "x = Some b" "t = u"
    using assms by (auto simp: inspectImageBuild_def success)
  then show thesis
    using that by (elim look_success) (auto simp: read_build_def image_build_of_def)
qed

lemma from_sum_success [success]: "from_sum r s = (Inr y, t) \<longleftrightarrow> r = Inr y \<and> t = s"
  by (auto simp: from_sum_def success split: sum.splits)

lemma build_lock_success:
  assumes "withImageBuildLock i m s = (Inr (Some x), t)"
  obtains u v where "calm_step s u" "m u = (Inr x, v)"
proof -
  obtain b w where w: "tryLock s = (Inr b, w)" "b"
      "(\<lambda>s. case bind m (\<lambda>x. ret (Some x)) (s\<lparr>held := Some i\<rparr>) of (r, s') \<Rightarrow> (r, s'\<lparr>held := None\<rparr>)) w
        = (Inr (Some x), t)"
    using assms by (auto simp: withImageBuildLock_def bind_success ret_success split: if_splits)
  have "calm_step s w" using staysD [OF calm_footprint [OF footprint_tryLock] w(1)] .
  then have "calm_step s (w\<lparr>held := Some i\<rparr>)" by (simp add: calm_step_def)
  moreover obtain v where "m (w\<lparr>held := Some i\<rparr>) = (Inr x, v)"
    using w(3) by (auto simp: success split: prod.splits)
  ultimately show thesis by (rule that)
qed

text \<open>A preparation that returns has inserted a row the trigger accepted, or found the row it would
  have written.\<close>

lemma placed_plain:
  assumes "place_bootstrap seal i snap spec existing s = (Inr x, t)"
    and "existing = bootstrap_in d i" "plain_bootstraps d"
  shows "\<not> gi_customerSsh (vs_image spec)"
proof (cases existing)
  case None
  then obtain hash sealed u where
    "post (Insert_verifier_bootstrap i snap spec hash sealed (vs_expiresAt spec)) u = (Inr (), t)"
    using assms(1) by (auto simp: place_bootstrap_def bind_success)
  then obtain now clock c d where
    "image_apply now clock c (Insert_verifier_bootstrap i snap spec hash sealed (vs_expiresAt spec)) d
      = Some (images t)" by (rule post_success)
  then show ?thesis
    by (auto simp: image_apply_def guard_bootstrap_insert_def expected_image_def Let_def
        split: if_splits option.splits)
next
  case (Some row)
  then have "row \<in> set (ib_bootstraps d)" "bt_spec row = spec"
    using assms(1,2) select_one_SomeD [of _ "ib_bootstraps d" row]
    by (auto simp: bootstrap_in_def place_bootstrap_def unless_success)
  with assms(3) show ?thesis by (auto simp: plain_bootstraps_def)
qed

lemma unprepared:
  assumes p: "prepare_bootstrap seal url i b snap s = (Inr x, t)" and plain: "plain_bootstraps (images s)"
  shows "\<exists>expires. \<not> gi_customerSsh (vs_image (prepared_spec b url expires snap))"
proof -
  obtain u v where u: "calm_step s u" and m: "bind (requireActiveImageBuild i) (\<lambda>_.
      bind (look (\<lambda>clock c d. bootstrap_in d i)) (\<lambda>existing.
      bind (verifier_expiry b existing) (\<lambda>expires.
      let spec = prepared_spec b url expires snap in
      bind (place_bootstrap seal i snap spec existing) (\<lambda>_.
      ret (vs_subject spec))))) u = (Inr x, v)"
    using p unfolding prepare_bootstrap_def by (rule image_transaction_success)
  obtain w where w: "calm_step s w" and m: "bind (look (\<lambda>clock c d. bootstrap_in d i)) (\<lambda>existing.
      bind (verifier_expiry b existing) (\<lambda>expires.
      let spec = prepared_spec b url expires snap in
      bind (place_bootstrap seal i snap spec existing) (\<lambda>_.
      ret (vs_subject spec)))) w = (Inr x, v)"
    using calm_bind_success [OF m calm_release_1(1) u] .
  then obtain existing w1 expires w2 y w3 where l: "look (\<lambda>clock c d. bootstrap_in d i) w = (Inr existing, w1)"
      and r: "place_bootstrap seal i snap (prepared_spec b url expires snap) existing w2 = (Inr y, w3)"
    unfolding bind_success Let_def by blast
  obtain clock c d where d: "image_wrote (images w) d" "existing = bootstrap_in d i"
    using look_success [OF l] by metis
  have "image_wrote (images s) d" using w d(1) by (metis calm_step_def rtranclp_trans)
  then have "plain_bootstraps d" using plain_bootstraps_wrote plain by blast
  with placed_plain [OF r d(2)] show ?thesis by blast
qed

text \<open>
  C37. An image that carries the customer SSH field can never be verified: for a build whose admitted
  manifest has it, in no reachable state does the preparation of the verification return a subject,
  because the specification it writes has the field and the trigger of the table requires it absent.
\<close>

theorem customer_image_unprepared:
  assumes "factory_reachable s" "build_in (images s) i = Some row"
    and "man_customerSsh (src_manifest (ad_source (ib_admission row)))"
  shows "fst (prepareImageVerification seal url i s) \<noteq> Inr (Some x)"
proof
  assume "fst (prepareImageVerification seal url i s) = Inr (Some x)"
  then obtain t where "prepareImageVerification seal url i s = (Inr (Some x), t)"
    by (metis prod.collapse)
  then obtain u v where u: "calm_step s u" and m: "bind (inspectImageBuild i) (\<lambda>b.
      bind (from_sum (verifierSnapshot b)) (\<lambda>snapshot.
      prepare_bootstrap seal url i b (ref_id_of snapshot))) u = (Inr x, v)"
    unfolding prepareImageVerification_def by (rule build_lock_success)
  then obtain b w snapshot where b: "inspectImageBuild i u = (Inr b, w)"
      and p: "prepare_bootstrap seal url i b (ref_id_of snapshot) w = (Inr x, v)"
    unfolding bind_success from_sum_success by blast
  have su: "image_wrote (images s) (images u)" using u by (simp add: calm_step_def)
  obtain row' where uw: "image_wrote (images u) (images w)" and row': "build_in (images w) i = Some row'"
      "bd_admission b = ib_admission row'"
    using inspect_success [OF b] .
  have sw: "image_wrote (images s) (images w)" using su uw by (rule rtranclp_trans)
  have spec: "gi_customerSsh (vs_image (prepared_spec b url expires snap))" for expires snap
    using wrote_follows [OF sw reachable_ok [OF assms(1)] assms(2)] row' assms(3)
    by (auto simp: prepared_spec_def Let_def)
  have "plain_bootstraps (images w)"
    using plain_bootstraps_wrote [OF sw plain_bootstraps_reachable [OF assms(1)]] .
  then show False using unprepared [OF p] spec by blast
qed

definition ssh_manifest :: guest_manifest where
  "ssh_manifest = bench_manifest\<lparr>man_customerSsh := True\<rparr>"

definition ssh_images :: image_db where
  "ssh_images = image_effect 1000 1000
     (Insert_build bench_id (bench_admission\<lparr>ad_source := bench_source\<lparr>src_manifest := ssh_manifest\<rparr>\<rparr>)) empty_images"

theorem customer_image_unprepared_witness:
  "fst (prepareImageVerification (vr_seal bench_verification) ''https://control'' bench_id (with_images ssh_images))
     \<noteq> Inr (Some bench_id)"
proof -
  have "image_writes empty_images ssh_images"
    unfolding image_writes_def image_apply_def ssh_images_def
    by (intro exI [of _ 1000] exI [of _ no_customers] exI [of _ "Insert_build bench_id
      (bench_admission\<lparr>ad_source := bench_source\<lparr>src_manifest := ssh_manifest\<rparr>\<rparr>)"])
      (simp add: bench_admission_def empty_images_def build_in_def select_one_def)
  then have "factory_reachable (with_images ssh_images)" by (intro with_images_reachable) simp
  moreover obtain row where "build_in ssh_images bench_id = Some row"
      "man_customerSsh (src_manifest (ad_source (ib_admission row)))"
    by (simp add: ssh_images_def empty_images_def build_in_def select_one_def ssh_manifest_def)
  ultimately show ?thesis
    using customer_image_unprepared [of "with_images ssh_images" bench_id row] by (simp add: with_images_def)
qed

end
