(* ===== verification/Customer_Signer.thy ===== *)
theory Customer_Signer
  imports Auth
begin

text \<open>
  \<^verbatim>\<open>packages/pki/src/customer-ssh.ts\<close>: the claim a customer certificate is requested with, the
  inspection of the certificate that comes back, and how an exchange with the authority is
  reported. The authority itself (its token, its TLS request, the timeout and the inspection tool)
  is a parameter that answers a claim; \<open>fingerprint\<close> is \<open>sshFingerprint\<close>.
\<close>

section \<open>The claim\<close>

record ssh_claim =
  sc_keyId :: string
  sc_principal :: string
  sc_publicKeyWire :: string
  sc_sourceAddresses :: "string list"
  sc_validAfter :: instant
  sc_validBefore :: instant

definition whole_seconds :: "instant \<Rightarrow> instant" where
  "whole_seconds t = t div 1000 * 1000"

definition claim_limit :: "session_row \<Rightarrow> authority \<Rightarrow> instant" where
  "claim_limit session authority = whole_seconds (min (au_expiresAt authority)
     (min (as_hardDeadline session) (au_checkedAt authority + 240000)))"

definition ssh_claim_ok :: "ssh_claim \<Rightarrow> bool" where
  "ssh_claim_ok c \<longleftrightarrow> sc_keyId c \<noteq> [] \<and> length (sc_keyId c) \<le> 256 \<and> sc_principal c \<noteq> []
     \<and> length (sc_principal c) \<le> 128 \<and> length (sc_publicKeyWire c) = 68
     \<and> list_all is_base64 (sc_publicKeyWire c)"

definition claim_text :: "session_row \<Rightarrow> string" where
  "claim_text session = ''customer:'' @ as_id session @ '':'' @ as_grantId session @ '':''
     @ as_machineId session"

definition claim_for :: "session_row \<Rightarrow> authority \<Rightarrow> ssh_claim" where
  "claim_for session authority =
     \<lparr>sc_keyId = claim_text session, sc_principal = ''customer-'' @ as_allocationId session,
      sc_publicKeyWire = drop 12 (as_publicKey session),
      sc_sourceAddresses = sort (gw_egressCidrs (as_gateway session)),
      sc_validAfter = whole_seconds (au_checkedAt authority) - 60000,
      sc_validBefore = claim_limit session authority\<rparr>"

definition customerSshClaim :: "session_row \<Rightarrow> authority \<Rightarrow> exn + ssh_claim" where
  "customerSshClaim session authority =
     (let now = au_checkedAt authority in
      if \<not> accessSession_ok session then Inl Defect
      else if (case as_issuance session of Iss_attempted t \<Rightarrow> now < t | _ \<Rightarrow> True)
        \<or> as_connection session \<noteq> Open_connection Unclaimed
        \<or> as_issueDeadline session \<le> now \<or> claim_limit session authority \<le> now
      then Inl (Cloud (cloud_error Permission_denied))
      else if ssh_claim_ok (claim_for session authority) then Inr (claim_for session authority)
      else Inl Defect)"

section \<open>The answer\<close>

record certificate_inspection =
  ci_type :: string
  ci_keyName :: string
  ci_keyFingerprint :: string
  ci_signingKeyFingerprint :: string
  ci_keyId :: string
  ci_principals :: "string list"
  ci_validAfter :: instant
  ci_validBefore :: instant
  ci_criticalOptions :: labels
  ci_extensions :: labels

fun joined :: "string list \<Rightarrow> string" where
  "joined [] = ''''"
| "joined [x] = x"
| "joined (x # xs) = x @ '','' @ joined xs"

text \<open>The expiry of an acceptable certificate; \<open>None\<close> is the thrown error.\<close>

definition inspectCustomerSsh :: "(string \<Rightarrow> string) \<Rightarrow> string \<Rightarrow> ssh_claim \<Rightarrow> certificate_inspection \<Rightarrow> instant option" where
  "inspectCustomerSsh fingerprint userCa claim v =
     (if ci_type v = ''user'' \<and> ci_keyName v = ''ssh-ed25519-cert-v01@openssh.com''
         \<and> ci_keyFingerprint v = fingerprint (''ssh-ed25519 '' @ sc_publicKeyWire claim)
         \<and> ci_signingKeyFingerprint v = fingerprint userCa \<and> ci_keyId v = sc_keyId claim
         \<and> ci_principals v = [sc_principal claim]
         \<and> ci_criticalOptions v = [(''source-address'', joined (sc_sourceAddresses claim))]
         \<and> ci_extensions v = [(''permit-pty'', '''')]
         \<and> ci_validAfter v = sc_validAfter claim \<and> ci_validBefore v = sc_validBefore claim
      then Some (ci_validBefore v) else None)"

text \<open>What became of one exchange: it failed before the request was sent, the request was sent
  and its answer lost or unusable, it was refused, or a certificate came back. The result never
  claims a failure after the request was sent.\<close>

datatype ca_exchange =
    Not_submitted
  | Answer_lost
  | Ca_refused
  | Ca_certificate string certificate_inspection

datatype signing_result =
    Sign_issued string instant
  | Sign_rejected
  | Sign_failed
  | Sign_unknown

definition certificate_body_ok :: "string \<Rightarrow> bool" where
  "certificate_body_ok s \<longleftrightarrow> s \<noteq> [] \<and> length s \<le> 16300
     \<and> (let body = dropWhile (\<lambda>c. c = CHR ''='') (rev s) in
          body \<noteq> [] \<and> length s - length body \<le> 2 \<and> list_all is_base64 body)"

definition signing_result_of :: "(string \<Rightarrow> string) \<Rightarrow> string \<Rightarrow> ssh_claim \<Rightarrow> ca_exchange \<Rightarrow> signing_result" where
  "signing_result_of fingerprint userCa claim x = (case x of
      Not_submitted \<Rightarrow> Sign_failed
    | Answer_lost \<Rightarrow> Sign_unknown
    | Ca_refused \<Rightarrow> Sign_rejected
    | Ca_certificate crt v \<Rightarrow>
        if \<not> certificate_body_ok crt then Sign_unknown
        else (case inspectCustomerSsh fingerprint userCa claim v of
                None \<Rightarrow> Sign_unknown
              | Some expires \<Rightarrow> Sign_issued (''ssh-ed25519-cert-v01@openssh.com '' @ crt) expires))"

section \<open>Bounds of a certificate\<close>

lemma whole_seconds_le: "whole_seconds t \<le> t"
  unfolding whole_seconds_def using div_mult_mod_eq [of t 1000] pos_mod_sign [of 1000 t] by linarith

lemma customerSshClaim_Inr:
  assumes "customerSshClaim session authority = Inr claim"
  shows "claim = claim_for session authority" "accessSession_ok session"
    "\<exists>t. as_issuance session = Iss_attempted t \<and> t \<le> au_checkedAt authority"
    "as_connection session = Open_connection Unclaimed"
    "au_checkedAt authority < as_issueDeadline session"
    "au_checkedAt authority < sc_validBefore claim"
  using assms by (auto simp: customerSshClaim_def claim_for_def Let_def split: if_splits access_issuance.splits)

lemma claim_within:
  "sc_validBefore (claim_for session authority) \<le> au_expiresAt authority"
  "sc_validBefore (claim_for session authority) \<le> as_hardDeadline session"
  "sc_validBefore (claim_for session authority) \<le> au_checkedAt authority + 240000"
  using whole_seconds_le [of "min (au_expiresAt authority)
      (min (as_hardDeadline session) (au_checkedAt authority + 240000))"]
  by (simp_all add: claim_for_def claim_limit_def)

lemma issued_as_claimed:
  "signing_result_of f ca claim x = Sign_issued crt expires \<Longrightarrow> expires = sc_validBefore claim"
  by (auto simp: signing_result_of_def inspectCustomerSsh_def split: ca_exchange.splits if_splits option.splits)

end
