(* ===== verification/Access_Sessions.thy ===== *)
theory Access_Sessions
  imports Lifecycle Provider Customer_Signer
begin

text \<open>
  \<^verbatim>\<open>apps/control/src/access-sessions.ts\<close>, \<^verbatim>\<open>guest-observation.ts\<close> and
  \<open>assertRestoreAccessible\<close> of \<^verbatim>\<open>backups.ts\<close>: the decisions that API, worker and gateway share.
  The state extends that of a process by the provider, the record of the signatures requested, the
  session lock and what other sessions do: before every transaction and every query outside one,
  \<open>rivals\<close> says which statements others commit. Nobody else alters the issuance of a session
  whose lock is held: only \<open>issue\<close> writes it, under that lock. Transactions are serial, as the
  locks on machine and account make them for the rows they decide about.
\<close>

section \<open>State and interference\<close>

text \<open>Others execute any statement the schema accepts, or provision and restore guests.\<close>

datatype rival =
    Writes statement
  | Provisions "bootstrap_row list" "guest_identity_row list" "restore_row list"

record 'p access_world = process +
  fleet :: 'p
  signings :: "(id \<times> ssh_claim) list"
  session_lock :: "id option"
  rivals :: "nat \<Rightarrow> rival list"

type_synonym ('p, 'a) access_act = "('p access_world, 'a) prog"

definition session_in :: "db \<Rightarrow> id \<Rightarrow> session_row option" where
  "session_in d i = select_one (\<lambda>s. as_id s = i) (sessions d)"

definition respects_lock :: "id option \<Rightarrow> db \<Rightarrow> db \<Rightarrow> bool" where
  "respects_lock lock d d' = (case lock of
      None \<Rightarrow> True
    | Some i \<Rightarrow> map_option as_issuance (session_in d' i) = map_option as_issuance (session_in d i))"

fun intrude :: "instant \<Rightarrow> rival \<Rightarrow> 'p access_world \<Rightarrow> 'p access_world" where
  "intrude clock (Writes st) s = (case apply_stmt clock clock st (store s) of
      None \<Rightarrow> s
    | Some (d, n) \<Rightarrow> if respects_lock (session_lock s) (store s) d then s\<lparr>store := d\<rparr> else s)"
| "intrude clock (Provisions bs gs rs) s =
     s\<lparr>store := (store s)\<lparr>guest_bootstraps := bs, guest_identities := gs, restores := rs\<rparr>\<rparr>"

definition disturbed :: "'p access_world \<Rightarrow> 'p access_world" where
  "disturbed s = fold (intrude (or_clock (outside s) (ticks s))) (rivals s (ticks s)) s"

definition amid :: "('p, 'a) access_act \<Rightarrow> ('p, 'a) access_act" where
  "amid m s = m (disturbed s)"

section \<open>Interactions\<close>

definition contact :: "('p, 'a) port \<Rightarrow> ('p, 'a) access_act" where
  "contact f = bind (prim (\<lambda>i s. (let (r, p) = f (or_wall (outside s) i) (fleet s)
     in (Inr r, s\<lparr>fleet := p\<rparr>)))) reply"

definition returned :: "exn + 'a \<Rightarrow> ('s, 'a) prog" where
  "returned r = (case r of Inl e \<Rightarrow> raise e | Inr x \<Rightarrow> ret x)"

definition throwRetryable :: "error_code \<Rightarrow> ('s, 'a) prog" where
  "throwRetryable c = raise (Cloud (cloud_error_retryable c))"

text \<open>\<open>withAccessSessionLock\<close>; the lock is released when the work ends, however it ends.\<close>

definition withAccessSessionLock :: "id \<Rightarrow> ('p, 'a) access_act \<Rightarrow> ('p, 'a option) access_act" where
  "withAccessSessionLock i work = bind tryLock (\<lambda>acquired.
     if acquired
     then (\<lambda>s. case bind work (\<lambda>x. ret (Some x)) (s\<lparr>session_lock := Some i\<rparr>) of
                 (r, t) \<Rightarrow> (r, t\<lparr>session_lock := None\<rparr>))
     else ret None)"

definition machineLocked :: "('p, 'a) access_act \<Rightarrow> ('p, 'a) access_act" where
  "machineLocked work = bind (withMachineLock (amid (transaction work))) (\<lambda>r. case r of
     None \<Rightarrow> throwRetryable Resource_busy | Some x \<Rightarrow> ret x)"

text \<open>\<open>accessSessionRecord\<close> of \<^verbatim>\<open>records.ts\<close>: the whole schema is asked of every row that is read.\<close>

definition accessSessionRecord :: "session_row \<Rightarrow> session_row option" where
  "accessSessionRecord row = (if accessSession_ok row then Some row else None)"

definition readSession :: "id \<Rightarrow> ('e, session_row) tx" where
  "readSession i = bind (query (\<lambda>d. session_in d i)) (\<lambda>found.
     bind (present Not_found found) (\<lambda>row. parsed (accessSessionRecord row)))"

definition setIssuance :: "id \<Rightarrow> access_issuance \<Rightarrow> ('e, unit) tx" where
  "setIssuance i x = run (Update_sessions (\<lambda>s. as_id s = i) (\<lambda>s. s\<lparr>as_issuance := x\<rparr>))"

definition unavailable :: "id \<Rightarrow> unavailable_reason \<Rightarrow> ('e, unit) tx" where
  "unavailable i r = setIssuance i (Iss_unavailable r)"

section \<open>The current target (current, unchanged)\<close>

record access_context =
  cx_authority :: authority
  cx_machine :: machine
  cx_allocation :: allocation_row
  cx_spec :: bootstrap_spec
  cx_pin :: identity_pin

definition assertRestoreAccessible :: "id \<Rightarrow> ('e, unit) tx" where
  "assertRestoreAccessible machine =
     bind (query (\<lambda>d. select_one (\<lambda>r. rs_machineId r = machine) (restores d))) (\<lambda>row.
     unless (case row of None \<Rightarrow> True | Some r \<Rightarrow> rs_restored r) Resource_busy)"

text \<open>The allocation and image digest of a running machine with a verified guest.\<close>

fun verified_guest :: "machine_state \<Rightarrow> (id \<times> string) option" where
  "verified_guest (Allocated a s Power_running (Guest_ssh t v digest boot) b) = Some (a, digest)"
| "verified_guest _ = None"

definition active_operation :: "db \<Rightarrow> id \<Rightarrow> bool" where
  "active_operation d machine =
     list_ex (\<lambda>p. op_machineId p = machine \<and> \<not> isOperationTerminal p) (operations d)"

definition guest_supported :: "id \<Rightarrow> id \<Rightarrow> id \<Rightarrow> string \<Rightarrow> bootstrap_spec \<Rightarrow> guest_identity_row \<Rightarrow> bool" where
  "guest_supported account machine allocation digest spec identity \<longleftrightarrow>
     gm_customerSsh (bs_image spec) \<and> gid_issued identity \<and> bs_accountId spec = account
     \<and> bs_machineId spec = machine \<and> bs_allocationId spec = allocation
     \<and> digest = gm_manifestDigest (bs_image spec)"

text \<open>The recorded owned server and address of an allocation; \<open>None\<close> unless there is one of each,
  both of this provider, and the server is the allocation's.\<close>

definition owned_pair :: "provider_kind \<Rightarrow> allocation_row \<Rightarrow> resource_row list \<Rightarrow> (resource_row \<times> resource_row) option" where
  "owned_pair kind a rs =
     (case (filter (\<lambda>r. pr_kind r = Server) rs, filter (\<lambda>r. pr_kind r = Primary_ip) rs) of
        ([server], [ip]) \<Rightarrow>
          if Some (pr_providerId server) = al_serverId a \<and> pr_provider server = kind
             \<and> pr_provider ip = kind
          then Some (server, ip) else None
      | _ \<Rightarrow> None)"

definition owned_resources :: "db \<Rightarrow> id \<Rightarrow> id \<Rightarrow> resource_row list" where
  "owned_resources d account allocation = filter (\<lambda>r. pr_allocationId r = allocation
     \<and> pr_accountId r = account \<and> pr_absentAt r = None) (resources d)"

definition pin_for :: "provider_kind \<Rightarrow> resource_row \<Rightarrow> resource_row \<Rightarrow> id \<Rightarrow> bootstrap_spec \<Rightarrow> guest_identity_row \<Rightarrow> identity_pin" where
  "pin_for kind server ip allocation spec identity =
     \<lparr>pin_provider = kind, pin_serverId = pr_providerId server, pin_primaryIpId = pr_providerId ip,
      pin_hostAlias = hostAlias allocation, pin_sshHostCa = gm_sshHostCa (bs_image spec),
      pin_guestHostPublicKey = gid_sshHostPublicKey identity,
      pin_imageManifestDigest = gm_manifestDigest (bs_image spec)\<rparr>"

text \<open>The records of the guest of an allocation, read one after the other.\<close>

definition guestRecords :: "id \<Rightarrow> id \<Rightarrow> ('e, allocation_row \<times> bootstrap_spec \<times> guest_identity_row) tx" where
  "guestRecords account allocation =
     bind (query (\<lambda>d. select_one (\<lambda>a. al_id a = allocation \<and> al_accountId a = account
       \<and> al_retiredAt a = None) (allocations d))) (\<lambda>a.
     bind (query (\<lambda>d. select_one (\<lambda>b. gb_allocationId b = allocation) (guest_bootstraps d))) (\<lambda>b.
     bind (query (\<lambda>d. select_one (\<lambda>g. gid_allocationId g = allocation) (guest_identities d))) (\<lambda>g.
     case (a, b, g) of
       (Some a', Some b', Some g') \<Rightarrow> ret (a', gb_spec b', g')
     | _ \<Rightarrow> throw Resource_busy)))"

definition current :: "provider_kind \<Rightarrow> id \<Rightarrow> id \<Rightarrow> id \<Rightarrow> ('e, access_context) tx" where
  "current kind account grant machine =
     bind (lockAccount account) (\<lambda>_.
     bind (loadAuthority grant) (\<lambda>authority.
     bind (unless (accountId (au_principal authority) = account) Permission_denied) (\<lambda>_.
     bind (ownMachine machine account) (\<lambda>row.
     bind (pure_of (authorize (au_principal authority) Machine_exec (Some (mc_projectId row)))) (\<lambda>_.
     bind (assertRestoreAccessible (mc_id row)) (\<lambda>_.
     bind (present Resource_busy (verified_guest (mc_state row))) (\<lambda>(allocation, digest).
     bind (query (\<lambda>d. active_operation d (mc_id row))) (\<lambda>active.
     bind (unless (\<not> active) Resource_busy) (\<lambda>_.
     bind (guestRecords account allocation) (\<lambda>(a, spec, identity).
     bind (unless (guest_supported account (mc_id row) (al_id a) digest spec identity) Permission_denied) (\<lambda>_.
     bind (query (\<lambda>d. owned_resources d account (al_id a))) (\<lambda>rs.
     bind (present Resource_busy (owned_pair kind a rs)) (\<lambda>(server, ip).
     let pin = pin_for kind server ip (al_id a) spec identity in
     bind (parsed (if accessIdentityPin_ok pin then Some pin else None)) (\<lambda>_.
     ret \<lparr>cx_authority = authority, cx_machine = machineRecord row, cx_allocation = a,
          cx_spec = spec, cx_pin = pin\<rparr>))))))))))))))"

definition currentOf :: "provider_kind \<Rightarrow> session_row \<Rightarrow> ('e, access_context) tx" where
  "currentOf kind s = current kind (as_accountId s) (as_grantId s) (as_machineId s)"

definition unchanged :: "access_config \<Rightarrow> session_row \<Rightarrow> access_context \<Rightarrow> ('s, unit) prog" where
  "unchanged config s cx = unless (as_machineVersion s = mc_version (cx_machine cx)
     \<and> as_allocationId s = al_id (cx_allocation cx) \<and> as_identityPin s = cx_pin cx
     \<and> as_gateway s = ac_gateway config) Permission_denied"

text \<open>\<open>current\<close> followed by \<open>unchanged\<close>.\<close>

definition reviewed :: "access_config \<Rightarrow> provider_kind \<Rightarrow> session_row \<Rightarrow> ('e, access_context) tx" where
  "reviewed config kind s = bind (currentOf kind s) (\<lambda>cx. bind (unchanged config s cx) (\<lambda>_. ret cx))"

section \<open>Observing the guest (guest-observation.ts)\<close>

definition guest_labels :: "bootstrap_spec \<Rightarrow> labels" where
  "guest_labels spec = [(''managed_by'', ''agent-cloud''), (''account_id'', bs_accountId spec),
     (''machine_id'', bs_machineId spec), (''allocation_id'', bs_allocationId spec),
     (''operation_id'', bs_operationId spec)]"

definition guest_pair :: "provider_kind \<Rightarrow> allocation_row \<Rightarrow> resource_row list \<Rightarrow> (resource_row \<times> resource_row) option" where
  "guest_pair kind a rs =
     (case (filter (\<lambda>r. pr_kind r = Server) rs, filter (\<lambda>r. pr_kind r = Primary_ip) rs) of
        ([server], [ip]) \<Rightarrow>
          if Some (pr_providerId server) = al_serverId a \<and> list_all (\<lambda>r. pr_provider r = kind) rs
          then Some (server, ip) else None
      | _ \<Rightarrow> None)"

definition guest_confirmed :: "labels \<Rightarrow> resource_row \<Rightarrow> resource_row \<Rightarrow> catalog_item \<Rightarrow> provider_server \<Rightarrow> provider_primary_ip \<Rightarrow> bool" where
  "guest_confirmed expected serverResource ipResource offer server ip \<longleftrightarrow>
     srv_serverType server = serverType offer \<and> srv_region server = region_name (item_region offer)
     \<and> ip_region ip = region_name (item_region offer)
     \<and> srv_id server = pr_providerId serverResource \<and> ip_id ip = pr_providerId ipResource
     \<and> matchesLabels (srv_labels server) expected \<and> matchesLabels (ip_labels ip) expected
     \<and> srv_primaryIpId server = Some (ip_id ip) \<and> srv_ipv4 server = Some (ip_ipv4 ip)
     \<and> ip_assignment ip = Assigned_server (srv_id server) \<and> srv_power server = Power_running"

text \<open>The two requests run concurrently in the code; here the server is asked first.\<close>

definition observeGuest :: "'p machine_provider \<Rightarrow> allocation_row \<Rightarrow> bootstrap_spec \<Rightarrow> ('p, string) access_act" where
  "observeGuest P a spec =
     (let refuse = throwRetryable Provider_unavailable; expected = guest_labels spec in
      if al_provider a \<noteq> mp_kind P \<or> al_serverId a = None then refuse
      else bind (amid (query (\<lambda>d. owned_resources d (bs_accountId spec) (bs_allocationId spec)))) (\<lambda>rs.
        case guest_pair (mp_kind P) a rs of
          None \<Rightarrow> refuse
        | Some (serverResource, ipResource) \<Rightarrow>
            if \<not> matchesLabels (ownedLabels serverResource) expected
               \<or> \<not> matchesLabels (ownedLabels ipResource) expected
            then refuse
            else bind (contact (mp_getServer P (pr_providerId serverResource))) (\<lambda>server.
              bind (contact (mp_getPrimaryIp P (pr_providerId ipResource))) (\<lambda>ip.
              case (server, ip) of
                (Some s, Some i) \<Rightarrow>
                  bind (parsed (case al_offer a of None \<Rightarrow> None
                    | Some offer \<Rightarrow> if catalog_item_ok offer then Some offer else None)) (\<lambda>offer.
                  if guest_confirmed expected serverResource ipResource offer s i
                  then ret (ip_ipv4 i) else refuse)
              | _ \<Rightarrow> refuse))))"

section \<open>Admission\<close>

definition access_json :: "id \<Rightarrow> access_request \<Rightarrow> string" where
  "access_json machine r = ''{'' @ member ''machineId'' (quoted machine) @ '',''
     @ member ''publicKey'' (quoted (ar_publicKey r)) @ '',''
     @ member ''ticketHash'' (quoted (ar_ticketHash r)) @ ''}''"

text \<open>The counts of the admission query: sessions admitted in the last five minutes, and open
  sessions that may still hold or obtain a connection.\<close>

definition recent :: "instant \<Rightarrow> session_row \<Rightarrow> bool" where
  "recent now s \<longleftrightarrow> now - 300000 < as_admittedAt s"

definition reserved_until :: "session_row \<Rightarrow> instant" where
  "reserved_until s = (case as_connection s of
      Open_connection (Claimed g c t) \<Rightarrow> as_hardDeadline s
    | _ \<Rightarrow> (case as_issuance s of
          Iss_issued c \<Rightarrow> is_ticketDeadline c | _ \<Rightarrow> as_issueDeadline s))"

definition reserving :: "instant \<Rightarrow> session_row \<Rightarrow> bool" where
  "reserving now s \<longleftrightarrow> \<not> closed_connection (as_connection s) \<and> now < reserved_until s"

definition counted :: "id \<Rightarrow> instant \<Rightarrow> db \<Rightarrow> session_row list" where
  "counted account now d = filter (\<lambda>s. as_accountId s = account
     \<and> (recent now s \<or> now < as_hardDeadline s)) (sessions d)"

definition rate_free :: "id \<Rightarrow> instant \<Rightarrow> session_row list \<Rightarrow> bool" where
  "rate_free grant now ss \<longleftrightarrow> length (filter (recent now) ss) < 60
     \<and> length (filter (\<lambda>s. as_grantId s = grant \<and> recent now s) ss) < 30"

definition slots_free :: "id \<Rightarrow> instant \<Rightarrow> session_row list \<Rightarrow> bool" where
  "slots_free grant now ss \<longleftrightarrow> length (filter (reserving now) ss) < 20
     \<and> length (filter (\<lambda>s. as_grantId s = grant \<and> reserving now s) ss) < 4"

definition publicSession :: "session_row \<Rightarrow> session_view" where
  "publicSession s = \<lparr>sv_id = as_id s, sv_accountId = as_accountId s, sv_projectId = as_projectId s,
     sv_grantId = as_grantId s, sv_machineId = as_machineId s, sv_allocationId = as_allocationId s,
     sv_machineVersion = as_machineVersion s, sv_requestKey = as_requestKey s,
     sv_publicKey = as_publicKey s, sv_identityPin = as_identityPin s, sv_gateway = as_gateway s,
     sv_admittedAt = as_admittedAt s, sv_issueDeadline = as_issueDeadline s,
     sv_hardDeadline = as_hardDeadline s, sv_issuance = as_issuance s, sv_connection = as_connection s\<rparr>"

definition new_session :: "access_config \<Rightarrow> principal \<Rightarrow> id \<Rightarrow> access_request \<Rightarrow> string \<Rightarrow> string \<Rightarrow> access_context \<Rightarrow> instant \<Rightarrow> id \<Rightarrow> session_row" where
  "new_session config p machine r key fp cx hard i =
     (let now = au_checkedAt (cx_authority cx) in
      \<lparr>as_id = i, as_accountId = accountId p, as_projectId = mc_projectId (cx_machine cx),
       as_grantId = grantId p, as_machineId = machine, as_allocationId = bs_allocationId (cx_spec cx),
       as_machineVersion = mc_version (cx_machine cx), as_requestKey = key, as_fingerprint = fp,
       as_publicKey = ar_publicKey r, as_ticketHash = ar_ticketHash r, as_identityPin = cx_pin cx,
       as_gateway = ac_gateway config, as_admittedAt = now, as_issueDeadline = now + 90000,
       as_hardDeadline = hard, as_issuance = Iss_pending, as_connection = Open_connection Unclaimed\<rparr>)"

definition enqueueAccess :: "id \<Rightarrow> ('e, unit) tx" where
  "enqueueAccess i = run (Enqueue_access i)"

definition replayAccess :: "authority \<Rightarrow> string \<Rightarrow> session_row \<Rightarrow> ('e, session_view) tx" where
  "replayAccess authority fp previous =
     bind (parsed (accessSessionRecord previous)) (\<lambda>session.
     bind (pure_of (authorize (au_principal authority) Machine_exec (Some (as_projectId session)))) (\<lambda>_.
     bind (unless (as_fingerprint session = fp) Idempotency_conflict) (\<lambda>_.
     ret (publicSession session))))"

definition newAccess :: "access_config \<Rightarrow> provider_kind \<Rightarrow> principal \<Rightarrow> id \<Rightarrow> access_request \<Rightarrow> string \<Rightarrow> string \<Rightarrow> ('e, session_view) tx" where
  "newAccess config kind p machine r key fp =
     bind (current kind (accountId p) (grantId p) machine) (\<lambda>cx.
     let now = au_checkedAt (cx_authority cx);
         hard = min (now + 3600000) (au_expiresAt (cx_authority cx)) in
     bind (unless (10000 \<le> hard - now) Permission_denied) (\<lambda>_.
     bind (query (counted (accountId p) now)) (\<lambda>ss.
     bind (if rate_free (grantId p) now ss then ret () else throwRetryable Quota_exceeded) (\<lambda>_.
     bind (if slots_free (grantId p) now ss then ret () else throwRetryable Quota_exceeded) (\<lambda>_.
     bind (new_id Access_session_id) (\<lambda>i.
     let session = new_session config p machine r key fp cx hard i in
     bind (query (\<lambda>d. list_ex (\<lambda>s. as_ticketHash s = ar_ticketHash r) (sessions d))) (\<lambda>collision.
     bind (unless (\<not> collision) Idempotency_conflict) (\<lambda>_.
     bind (run (Insert_session session)) (\<lambda>_.
     bind (enqueueAccess i) (\<lambda>_.
     ret (publicSession session)))))))))))"

definition admitAccess :: "(string \<Rightarrow> string) \<Rightarrow> access_config \<Rightarrow> provider_kind \<Rightarrow> principal \<Rightarrow> id \<Rightarrow> access_request \<Rightarrow> string \<Rightarrow> ('p, session_view) access_act" where
  "admitAccess sha256 config kind p machine r key = (let fp = sha256 (access_json machine r) in
     machineLocked
       (bind (lockAccount (accountId p)) (\<lambda>_.
        bind (loadAuthority (grantId p)) (\<lambda>authority.
        bind (query (\<lambda>d. select_one (\<lambda>s. as_accountId s = accountId p \<and> as_grantId s = grantId p
          \<and> as_requestKey s = key) (sessions d))) (\<lambda>previous. case previous of
          Some row \<Rightarrow> replayAccess authority fp row
        | None \<Rightarrow> newAccess config kind p machine r key fp)))))"

section \<open>Inspection\<close>

fun grant_chain :: "grant_row list \<Rightarrow> id \<Rightarrow> id \<Rightarrow> nat \<Rightarrow> id list" where
  "grant_chain gs account i 0 = []"
| "grant_chain gs account i (Suc n) =
     (case select_one (\<lambda>g. gr_id g = i \<and> gr_accountId g = account) gs of
        None \<Rightarrow> []
      | Some g \<Rightarrow> gr_id g # (case gr_parentId g of
          None \<Rightarrow> [] | Some p \<Rightarrow> grant_chain gs account p n))"

definition inspectAccess :: "principal \<Rightarrow> id \<Rightarrow> ('p, session_view) access_act" where
  "inspectAccess p i =
     bind (amid (readSession i)) (\<lambda>session.
     bind (unless (accountId p = as_accountId session) Not_found) (\<lambda>_.
     bind (pure_of (authorize p (if grantId p = as_grantId session then Machine_exec else Machine_read)
       (Some (as_projectId session)))) (\<lambda>_.
     bind (amid (query (\<lambda>d. grantId p \<in> set (grant_chain (grants d) (accountId p) (as_grantId session) 32)))) (\<lambda>allowed.
     bind (unless allowed Not_found) (\<lambda>_.
     ret (publicSession session))))))"

end
