(* ===== verification/Access_Service.thy ===== *)
theory Access_Service
  imports Access_Sessions Api
begin

text \<open>
  The second half of \<^verbatim>\<open>apps/control/src/access-sessions.ts\<close>: signing a session's key, and the
  gateway's claim, check and close; then the routes of \<^verbatim>\<open>app.ts\<close> and the tasks of \<^verbatim>\<open>tasks.ts\<close> that
  call them. The network check and the certificate authority are parameters.
\<close>

record 'p access_deployment =
  ad_sha256 :: "string \<Rightarrow> string"
  ad_config :: access_config
  ad_provider :: "'p machine_provider"
  ad_checkNetwork :: "('p, unit) port"
  ad_signer :: "('p, unit) port"
  ad_ca :: "ssh_claim \<Rightarrow> instant \<Rightarrow> 'p \<Rightarrow> ca_exchange \<times> 'p"
  ad_fingerprint :: "string \<Rightarrow> string"
  ad_userCa :: string

definition kindOf :: "'p access_deployment \<Rightarrow> provider_kind" where
  "kindOf D = mp_kind (ad_provider D)"

definition review :: "'p access_deployment \<Rightarrow> session_row \<Rightarrow> ('e, access_context) tx" where
  "review D s = reviewed (ad_config D) (kindOf D) s"

section \<open>Signing (issue)\<close>

definition unissued :: "access_issuance \<Rightarrow> bool" where
  "unissued x = (case x of Iss_pending \<Rightarrow> True | Iss_attempted t \<Rightarrow> True | _ \<Rightarrow> False)"

definition open_unclaimed :: "session_row \<Rightarrow> bool" where
  "open_unclaimed s \<longleftrightarrow> as_connection s = Open_connection Unclaimed"

definition reviewPending :: "'p access_deployment \<Rightarrow> id \<Rightarrow> session_row \<Rightarrow> ('e, access_context option) tx" where
  "reviewPending D i session =
     catch_cloud
       (bind (review D session) (\<lambda>cx.
        bind (unless (open_unclaimed session) Permission_denied) (\<lambda>_. ret (Some cx))))
       (\<lambda>f. bind (unavailable i (if code f = Unauthenticated then Un_authorization_changed
                                 else Un_target_changed)) (\<lambda>_. ret None))"

definition prepareSigning :: "'p access_deployment \<Rightarrow> id \<Rightarrow> ('e, access_context option) tx" where
  "prepareSigning D i = bind (readSession i) (\<lambda>session. case as_issuance session of
      Iss_attempted t \<Rightarrow> bind (unavailable i Un_signing_unknown) (\<lambda>_. ret None)
    | Iss_pending \<Rightarrow> bind databaseTime (\<lambda>now.
        if issue_limit session \<le> now
        then bind (unavailable i Un_deadline_exceeded) (\<lambda>_. ret None)
        else reviewPending D i session)
    | _ \<Rightarrow> ret None)"

definition recordAttempt :: "'p access_deployment \<Rightarrow> id \<Rightarrow> ('e, (session_row \<times> authority) option) tx" where
  "recordAttempt D i = bind (readSession i) (\<lambda>session. catch_cloud
     (bind (review D session) (\<lambda>cx. let now = au_checkedAt (cx_authority cx) in
        if \<not> open_unclaimed session \<or> as_issuance session \<noteq> Iss_pending then ret None
        else if issue_limit session \<le> now
        then bind (unavailable i Un_deadline_exceeded) (\<lambda>_. ret None)
        else bind (setIssuance i (Iss_attempted now)) (\<lambda>_.
             ret (Some (session\<lparr>as_issuance := Iss_attempted now\<rparr>, cx_authority cx)))))
     (\<lambda>f. bind (unavailable i Un_authorization_changed) (\<lambda>_. ret None)))"

text \<open>\<open>signer.sign\<close>: the request is logged when it goes to the authority. The process may die
  before the request, or after it and before the answer is read.\<close>

definition sign :: "'p access_deployment \<Rightarrow> session_row \<Rightarrow> authority \<Rightarrow> ('p, signing_result) access_act" where
  "sign D session authority =
     bind (returned (customerSshClaim session authority)) (\<lambda>claim.
     bind (prim (\<lambda>i s. (let (x, p) = ad_ca D claim (or_wall (outside s) i) (fleet s) in
       (Inr x, s\<lparr>fleet := p, signings := signings s @ [(as_id session, claim)]\<rparr>)))) (\<lambda>x.
     reply (Inr (signing_result_of (ad_fingerprint D) (ad_userCa D) claim x))))"

fun refusal_of :: "signing_result \<Rightarrow> unavailable_reason" where
  "refusal_of Sign_unknown = Un_signing_unknown"
| "refusal_of Sign_rejected = Un_provider_rejected"
| "refusal_of _ = Un_signing_failed"

definition publication_limit :: "session_row \<Rightarrow> authority \<Rightarrow> instant" where
  "publication_limit session authority = min (issue_limit session) (au_expiresAt authority)"

definition issued_by :: "session_row \<Rightarrow> authority \<Rightarrow> string \<Rightarrow> string \<Rightarrow> instant \<Rightarrow> access_issuance" where
  "issued_by session authority address certificate expires = (let now = au_checkedAt authority in
     Iss_issued \<lparr>is_certificate = certificate, is_issuedAt = now,
       is_ticketDeadline = min (now + 60000) (publication_limit session authority),
       is_certificateExpiresAt = expires,
       is_target = identity_pin.extend (as_identityPin session) \<lparr>tg_address = address\<rparr>\<rparr>)"

definition publication :: "session_row \<Rightarrow> authority \<Rightarrow> string \<Rightarrow> signing_result \<Rightarrow> access_issuance" where
  "publication session authority address result = (let now = au_checkedAt authority in
     if publication_limit session authority \<le> now \<or> \<not> open_unclaimed session
     then Iss_unavailable Un_deadline_exceeded
     else (case result of
         Sign_issued certificate expires \<Rightarrow>
           if expires \<le> now then Iss_unavailable Un_deadline_exceeded
           else issued_by session authority address certificate expires
       | r \<Rightarrow> Iss_unavailable (refusal_of r)))"

definition publishResult :: "'p access_deployment \<Rightarrow> id \<Rightarrow> string \<Rightarrow> signing_result \<Rightarrow> ('e, unit) tx" where
  "publishResult D i address result = bind (readSession i) (\<lambda>session. case as_issuance session of
      Iss_attempted t \<Rightarrow> catch_cloud
        (bind (review D session) (\<lambda>cx.
         setIssuance i (publication session (cx_authority cx) address result)))
        (\<lambda>f. unavailable i Un_authorization_changed)
    | _ \<Rightarrow> ret ())"

text \<open>\<open>catch (error)\<close> around the observation: only a retryable \<open>CloudError\<close> leaves the session
  pending. \<open>None\<close> is the early return.\<close>

definition observed :: "'p access_deployment \<Rightarrow> id \<Rightarrow> access_context \<Rightarrow> ('p, string option) access_act" where
  "observed D i cx s =
     (let refuse = bind (machineLocked (bind (readSession i) (\<lambda>_. unavailable i Un_provider_rejected)))
                     (\<lambda>_. ret None) in
      case bind (contact (ad_checkNetwork D)) (\<lambda>_.
             observeGuest (ad_provider D) (cx_allocation cx) (cx_spec cx)) s of
        (Inr address, t) \<Rightarrow> (Inr (Some address), t)
      | (Inl Died, t) \<Rightarrow> (Inl Died, t)
      | (Inl Defect, t) \<Rightarrow> refuse t
      | (Inl (Cloud f), t) \<Rightarrow> if retryable f then (Inr None, t) else refuse t)"

definition signAttempt :: "'p access_deployment \<Rightarrow> id \<Rightarrow> string \<Rightarrow> ('p, unit) access_act" where
  "signAttempt D i address =
     bind (machineLocked (recordAttempt D i)) (\<lambda>attempt. case attempt of
       None \<Rightarrow> ret ()
     | Some (session, authority) \<Rightarrow>
         bind (contact (ad_signer D)) (\<lambda>_.
         bind (sign D session authority) (\<lambda>result.
         machineLocked (publishResult D i address result))))"

definition issueLocked :: "'p access_deployment \<Rightarrow> id \<Rightarrow> ('p, unit) access_act" where
  "issueLocked D i =
     bind (amid (readSession i)) (\<lambda>session.
     if \<not> unissued (as_issuance session) then ret ()
     else bind (machineLocked (prepareSigning D i)) (\<lambda>prepared. case prepared of
         None \<Rightarrow> ret ()
       | Some cx \<Rightarrow> bind (observed D i cx) (\<lambda>seen. case seen of
             None \<Rightarrow> ret ()
           | Some address \<Rightarrow> signAttempt D i address)))"

definition issue :: "'p access_deployment \<Rightarrow> id \<Rightarrow> ('p, unit option) access_act" where
  "issue D i = withAccessSessionLock i (issueLocked D i)"

section \<open>The gateway (authenticateGateway, claim, check, close)\<close>

definition authenticateGateway :: "'p access_deployment \<Rightarrow> string option \<Rightarrow> failure + unit" where
  "authenticateGateway D authorization = (case authorization of
      None \<Rightarrow> Inl (cloud_error Unauthenticated)
    | Some h \<Rightarrow>
        if length h = 55 \<and> take 12 h = ''Bearer aclg_'' \<and> list_all is_token_char (drop 12 h)
           \<and> ad_sha256 D (drop 7 h) = ac_tokenHash (ad_config D)
        then Inr () else Inl (cloud_error Unauthenticated))"

definition held_by :: "session_row \<Rightarrow> string \<Rightarrow> string \<Rightarrow> bool" where
  "held_by s gateway connection = (case as_connection s of
      Open_connection (Claimed g c t) \<Rightarrow> g = gateway \<and> c = connection | _ \<Rightarrow> False)"

definition validConnection :: "'p access_deployment \<Rightarrow> session_row \<Rightarrow> gateway_connection \<Rightarrow> ('e, gateway_lease) tx" where
  "validConnection D session c =
     bind (review D session) (\<lambda>cx. case as_issuance session of
       Iss_issued credential \<Rightarrow>
         bind (unless (held_by session (gn_gatewayInstanceId c) (gn_connectionId c)) Permission_denied) (\<lambda>_.
         let remaining = min (as_hardDeadline session) (au_expiresAt (cx_authority cx))
               - au_checkedAt (cx_authority cx) in
         bind (unless (0 < remaining) Unauthenticated) (\<lambda>_.
         ret \<lparr>ls_sessionId = as_id session, ls_connectionId = gn_connectionId c,
              ls_remainingMs = remaining, ls_target = is_target credential\<rparr>))
     | _ \<Rightarrow> throw Permission_denied)"

definition claimable :: "instant \<Rightarrow> session_row \<Rightarrow> bool" where
  "claimable now s \<longleftrightarrow> open_unclaimed s \<and> (case as_issuance s of
      Iss_issued c \<Rightarrow> now < min (is_ticketDeadline c)
        (min (is_certificateExpiresAt c) (as_hardDeadline s))
    | _ \<Rightarrow> False)"

definition claimTicket :: "'p access_deployment \<Rightarrow> id \<Rightarrow> gateway_claim \<Rightarrow> ('e, gateway_lease) tx" where
  "claimTicket D i r =
     bind (readSession i) (\<lambda>session.
     bind (review D session) (\<lambda>cx.
     let now = au_checkedAt (cx_authority cx);
         claimed = Open_connection (Claimed (gc_gatewayInstanceId r) (gc_connectionId r) now) in
     bind (unless (claimable now session) Unauthenticated) (\<lambda>_.
     bind (run (Update_sessions (\<lambda>s. as_id s = i) (\<lambda>s. s\<lparr>as_connection := claimed\<rparr>))) (\<lambda>_.
     validConnection D (session\<lparr>as_connection := claimed\<rparr>)
       \<lparr>gn_gatewayInstanceId = gc_gatewayInstanceId r, gn_connectionId = gc_connectionId r,
        gn_sessionId = as_id session\<rparr>))))"

definition claim :: "'p access_deployment \<Rightarrow> gateway_claim \<Rightarrow> ('p, gateway_lease) access_act" where
  "claim D r =
     bind (amid (query (\<lambda>d. select_one (\<lambda>s. as_ticketHash s = ad_sha256 D (gc_ticket r)) (sessions d)))) (\<lambda>found.
     bind (present Unauthenticated found) (\<lambda>row.
     bind (parsed (accessSessionRecord row)) (\<lambda>original.
     bind (machineLocked (review D original)) (\<lambda>cx.
     bind (contact (ad_checkNetwork D)) (\<lambda>_.
     bind (observeGuest (ad_provider D) (cx_allocation cx) (cx_spec cx)) (\<lambda>address.
     bind (unless (case as_issuance original of
         Iss_issued c \<Rightarrow> address = tg_address (is_target c) | _ \<Rightarrow> False) Permission_denied) (\<lambda>_.
     machineLocked (claimTicket D (as_id original) r))))))))"

text \<open>A check that fails with a \<open>CloudError\<close> leaves its connection out of the answer.\<close>

definition checkOne :: "'p access_deployment \<Rightarrow> gateway_connection \<Rightarrow> ('p, gateway_lease) access_act" where
  "checkOne D c = bind (amid (readSession (gn_sessionId c))) (\<lambda>_.
     machineLocked (bind (readSession (gn_sessionId c)) (\<lambda>session. validConnection D session c)))"

definition checkConnections :: "'p access_deployment \<Rightarrow> gateway_connection list \<Rightarrow> ('p, gateway_lease list) access_act" where
  "checkConnections D cs = foldM (\<lambda>leases c. catch_cloud
     (bind (checkOne D c) (\<lambda>lease. ret (leases @ [lease]))) (\<lambda>f. ret leases)) [] cs"

definition claim_held_by :: "session_row \<Rightarrow> gateway_connection \<Rightarrow> bool" where
  "claim_held_by s c = (case claim_of (as_connection s) of
      Claimed g n t \<Rightarrow> n = gn_connectionId c \<and> g = gn_gatewayInstanceId c | Unclaimed \<Rightarrow> False)"

definition closeConnection :: "session_row \<Rightarrow> gateway_connection \<Rightarrow> close_reason \<Rightarrow> ('e, unit) tx" where
  "closeConnection session c reason =
     bind (lockAccount (as_accountId session)) (\<lambda>_.
     bind (readSession (as_id session)) (\<lambda>latest.
     bind (unless (claim_held_by latest c) Not_found) (\<lambda>_.
     onlyIf (\<not> closed_connection (as_connection latest))
       (bind databaseTime (\<lambda>now.
        run (Update_sessions (\<lambda>s. as_id s = as_id session)
          (\<lambda>s. s\<lparr>as_connection := Closed_connection (claim_of (as_connection latest)) reason now\<rparr>)))))))"

definition closeAccess :: "'p access_deployment \<Rightarrow> gateway_connection \<Rightarrow> close_reason \<Rightarrow> ('p, unit) access_act" where
  "closeAccess D c reason =
     bind (amid (readSession (gn_sessionId c))) (\<lambda>session.
     bind (unless (gw_id (as_gateway session) = gw_id (ac_gateway (ad_config D))) Not_found) (\<lambda>_.
     machineLocked (closeConnection session c reason)))"

section \<open>Routes (app.ts) and tasks (tasks.ts)\<close>

definition asCustomer :: "'p access_deployment \<Rightarrow> string option \<Rightarrow> (principal \<Rightarrow> ('p, 'a) access_act) \<Rightarrow> ('p, 'a) access_act" where
  "asCustomer D header route = bind (amid (authenticate (ad_sha256 D) header)) route"

definition asGateway :: "'p access_deployment \<Rightarrow> string option \<Rightarrow> ('p, 'a) access_act \<Rightarrow> ('p, 'a) access_act" where
  "asGateway D header route = bind (pure_of (authenticateGateway D header)) (\<lambda>_. route)"

definition postAccessSession :: "'p access_deployment \<Rightarrow> string \<Rightarrow> access_request \<Rightarrow> string \<Rightarrow> principal \<Rightarrow> ('p, session_view) access_act" where
  "postAccessSession D machine r key p =
     bind (parsedId Machine_id machine) (\<lambda>m.
     bind (parsed (if accessSessionRequest_ok r then Some r else None)) (\<lambda>_.
     bind (parsedKey key) (\<lambda>_.
     admitAccess (ad_sha256 D) (ad_config D) (kindOf D) p m r key)))"

definition getAccessSession :: "string \<Rightarrow> principal \<Rightarrow> ('p, session_view) access_act" where
  "getAccessSession i p = bind (parsedId Access_session_id i) (\<lambda>s. inspectAccess p s)"

definition postClaim :: "'p access_deployment \<Rightarrow> gateway_claim \<Rightarrow> ('p, gateway_lease) access_act" where
  "postClaim D r = bind (parsed (if gatewayClaim_ok r then Some r else None)) (\<lambda>_. claim D r)"

definition postCheck :: "'p access_deployment \<Rightarrow> gateway_connection list \<Rightarrow> ('p, gateway_lease list) access_act" where
  "postCheck D cs = bind (parsed (if gatewayCheck_ok cs then Some cs else None)) (\<lambda>_. checkConnections D cs)"

definition postClose :: "'p access_deployment \<Rightarrow> gateway_connection \<Rightarrow> close_reason \<Rightarrow> ('p, unit) access_act" where
  "postClose D c reason =
     bind (parsed (if gatewayConnection_ok c then Some c else None)) (\<lambda>_. closeAccess D c reason)"

text \<open>The task \<open>issue_access_session\<close>; the result is the time of the next pass, if any.\<close>

definition issueAccessTask :: "'p access_deployment \<Rightarrow> string \<Rightarrow> ('p, instant option) access_act" where
  "issueAccessTask D payload =
     bind (parsedId Access_session_id payload) (\<lambda>i.
     bind (issue D i) (\<lambda>_.
     bind (amid (query (\<lambda>d. session_in d i))) (\<lambda>row.
     if (case row of None \<Rightarrow> False | Some s \<Rightarrow> unissued (as_issuance s))
     then bind (amid databaseTime) (\<lambda>now. bind (amid (enqueueAccess i)) (\<lambda>_. ret (Some (now + 1000))))
     else ret None)))"

definition reconcileAccess :: "('p, unit) access_act" where
  "reconcileAccess =
     bind (amid (query (\<lambda>d. take 1000 (map as_id (filter (\<lambda>s. unissued (as_issuance s)) (sessions d)))))) (\<lambda>pending.
     foldM (\<lambda>_ i. amid (enqueueAccess i)) () pending)"

end
