(* ===== verification/Access_Lifecycle.thy ===== *)
theory Access_Lifecycle
  imports Database_Laws
begin

text \<open>
  The abstract specification of an access session and the proof that the guard of its table
  implements it: whatever statement the database accepts, a session moves along \<open>session_step\<close>
  only, and a stored row satisfies the refinements of its contract. These laws hold for every
  statement, not only for those the program issues.
\<close>

section \<open>The specification\<close>

text \<open>One signing attempt, one result, one claim, one closure.\<close>

inductive session_step :: "session_row \<Rightarrow> session_row \<Rightarrow> bool" where
  attempt: "as_issuance s = Iss_pending \<Longrightarrow> as_connection s = Open_connection Unclaimed \<Longrightarrow>
     as_admittedAt s \<le> t \<Longrightarrow> t < issue_limit s \<Longrightarrow>
     session_step s (s\<lparr>as_issuance := Iss_attempted t\<rparr>)"
| publish: "as_issuance s = Iss_attempted t \<Longrightarrow> as_connection s = Open_connection Unclaimed \<Longrightarrow>
     credential_ok s c \<Longrightarrow> t \<le> is_issuedAt c \<Longrightarrow> session_step s (s\<lparr>as_issuance := Iss_issued c\<rparr>)"
| refuse: "as_issuance s = Iss_pending \<Longrightarrow> \<not> signing_outcome (Iss_unavailable r) \<Longrightarrow>
     session_step s (s\<lparr>as_issuance := Iss_unavailable r\<rparr>)"
| fail: "as_issuance s = Iss_attempted t \<Longrightarrow> session_step s (s\<lparr>as_issuance := Iss_unavailable r\<rparr>)"
| claim: "as_issuance s = Iss_issued c \<Longrightarrow> as_connection s = Open_connection Unclaimed \<Longrightarrow>
     is_issuedAt c \<le> t \<Longrightarrow> t < min (is_ticketDeadline c) (as_hardDeadline s) \<Longrightarrow>
     session_step s (s\<lparr>as_connection := Open_connection (Claimed gateway connection t)\<rparr>)"
| close: "as_connection s = Open_connection p \<Longrightarrow> as_admittedAt s \<le> t \<Longrightarrow>
     (case p of Unclaimed \<Rightarrow> True | Claimed g n u \<Rightarrow> u \<le> t) \<Longrightarrow>
     session_step s (s\<lparr>as_connection := Closed_connection p r t\<rparr>)"

abbreviation session_moves :: "session_row \<Rightarrow> session_row \<Rightarrow> bool" where
  "session_moves \<equiv> session_step\<^sup>*\<^sup>*"

text \<open>How far a session has come; every step goes one further.\<close>

fun issuance_rank :: "access_issuance \<Rightarrow> nat" where
  "issuance_rank Iss_pending = 0"
| "issuance_rank (Iss_attempted t) = 1"
| "issuance_rank (Iss_issued c) = 2"
| "issuance_rank (Iss_unavailable r) = 2"

fun connection_rank :: "access_connection \<Rightarrow> nat" where
  "connection_rank (Open_connection Unclaimed) = 0"
| "connection_rank (Open_connection (Claimed g c t)) = 1"
| "connection_rank (Closed_connection p r t) = 2"

definition session_rank :: "session_row \<Rightarrow> nat" where
  "session_rank s = issuance_rank (as_issuance s) + connection_rank (as_connection s)"

definition same_admission :: "session_row \<Rightarrow> session_row \<Rightarrow> bool" where
  "same_admission s s' \<longleftrightarrow>
     s'\<lparr>as_issuance := as_issuance s, as_connection := as_connection s\<rparr> = s"

lemma same_admission_refl: "same_admission s s"
  by (simp add: same_admission_def)

lemma same_admission_trans: "same_admission s t \<Longrightarrow> same_admission t u \<Longrightarrow> same_admission s u"
  by (cases s; cases t; cases u) (auto simp: same_admission_def)

lemma same_admission_fields:
  "same_admission s s' \<Longrightarrow> as_id s' = as_id s \<and> as_accountId s' = as_accountId s
     \<and> as_projectId s' = as_projectId s \<and> as_grantId s' = as_grantId s
     \<and> as_machineId s' = as_machineId s \<and> as_allocationId s' = as_allocationId s
     \<and> as_machineVersion s' = as_machineVersion s \<and> as_ticketHash s' = as_ticketHash s
     \<and> as_publicKey s' = as_publicKey s \<and> as_requestKey s' = as_requestKey s
     \<and> as_fingerprint s' = as_fingerprint s \<and> as_identityPin s' = as_identityPin s
     \<and> as_gateway s' = as_gateway s \<and> as_admittedAt s' = as_admittedAt s
     \<and> as_issueDeadline s' = as_issueDeadline s \<and> as_hardDeadline s' = as_hardDeadline s"
  by (cases s; cases s') (auto simp: same_admission_def)

lemma step_admission: "session_step s s' \<Longrightarrow> same_admission s s'"
  by (erule session_step.cases) (auto simp: same_admission_def)

lemma step_rank: "session_step s s' \<Longrightarrow> session_rank s < session_rank s'"
  by (erule session_step.cases; simp add: session_rank_def) (auto split: access_claim.splits)

lemma moves_admission: "session_moves s s' \<Longrightarrow> same_admission s s'"
  by (induction rule: rtranclp_induct)
     (auto intro: same_admission_refl same_admission_trans dest: step_admission)

lemma moves_rank: "session_moves s s' \<Longrightarrow> session_rank s \<le> session_rank s'"
  by (induction rule: rtranclp_induct) (auto dest: step_rank)

lemma rank_bound: "session_rank s \<le> 4"
proof -
  have "issuance_rank x \<le> 2" for x by (cases x) auto
  moreover have "connection_rank c \<le> 2" for c by (cases c rule: connection_rank.cases) auto
  ultimately show ?thesis unfolding session_rank_def by (metis add_mono numeral_Bit0)
qed

text \<open>What is settled stays settled.\<close>

lemma step_issuance:
  "session_step s s' \<Longrightarrow> as_issuance s' = as_issuance s \<or> issuance_move (as_issuance s) (as_issuance s')"
  by (erule session_step.cases) auto

lemma moves_issued:
  "session_moves s s' \<Longrightarrow> 2 \<le> issuance_rank (as_issuance s) \<Longrightarrow> as_issuance s' = as_issuance s"
proof (induction rule: rtranclp_induct)
  case (step t u)
  then have "2 \<le> issuance_rank (as_issuance t)" by simp
  with step_issuance [OF step.hyps(2)] have "as_issuance u = as_issuance t"
    by (cases "as_issuance t"; cases "as_issuance u") auto
  with step.IH step.prems show ?case by simp
qed simp

lemma moves_not_pending:
  "session_moves s s' \<Longrightarrow> as_issuance s \<noteq> Iss_pending \<Longrightarrow> as_issuance s' \<noteq> Iss_pending"
proof (induction rule: rtranclp_induct)
  case (step t u)
  with step_issuance [OF step.hyps(2)] show ?case
    by (cases "as_issuance t"; cases "as_issuance u") auto
qed simp

lemma moves_claim:
  "session_moves s s' \<Longrightarrow> claim_of (as_connection s) \<noteq> Unclaimed \<Longrightarrow>
     claim_of (as_connection s') = claim_of (as_connection s)"
proof (induction rule: rtranclp_induct)
  case (step t u)
  then have "claim_of (as_connection t) \<noteq> Unclaimed" by simp
  with step.hyps(2) have "claim_of (as_connection u) = claim_of (as_connection t)"
    by (cases rule: session_step.cases) auto
  with step.IH step.prems show ?case by simp
qed simp

section \<open>The guard implements the specification\<close>

lemma identical:
  "same_admission s s' \<Longrightarrow> as_issuance s' = i \<Longrightarrow> as_connection s' = c \<Longrightarrow>
     s' = s\<lparr>as_issuance := i, as_connection := c\<rparr>"
  by (cases s; cases s') (auto simp: same_admission_def)

lemma guard_admission_kept:
  "guard_access_update clock s s' \<Longrightarrow> same_admission s s'"
  by (simp add: guard_access_update_def same_admission_def)

lemma issuance_moves:
  assumes "guard_access_update clock s s'"
  shows "session_moves s (s\<lparr>as_issuance := as_issuance s'\<rparr>)"
proof (cases "as_issuance s' = as_issuance s")
  case True
  then have "s\<lparr>as_issuance := as_issuance s'\<rparr> = s" by simp
  then show ?thesis by simp
next
  case False
  note same = same_admission_fields [OF guard_admission_kept [OF assms]]
  have g: "guard_issuance clock s'" "guard_issuance_move clock s s'"
    using assms by (simp_all add: guard_access_update_def)
  have "session_step s (s\<lparr>as_issuance := as_issuance s'\<rparr>)"
  proof (cases "as_issuance s'")
    case (Iss_attempted t)
    with g False same show ?thesis
      by (auto simp: guard_issuance_def guard_issuance_move_def issue_limit_def
          intro!: session_step.attempt elim: issuance_move.elims)
  next
    case (Iss_issued c)
    with g(2) False obtain t where "as_issuance s = Iss_attempted t" "t \<le> is_issuedAt c"
      by (auto simp: guard_issuance_move_def elim: issuance_move.elims)
    with Iss_issued g False same show ?thesis
      by (auto simp: guard_issuance_def guard_issuance_move_def issue_limit_def credential_ok_def
          intro!: session_step.publish)
  next
    case (Iss_unavailable r)
    with g(2) False show ?thesis
      by (auto simp: guard_issuance_move_def intro: session_step.refuse session_step.fail
          elim: issuance_move.elims)
  next
    case Iss_pending
    with g(2) False show ?thesis by (auto simp: guard_issuance_move_def elim: issuance_move.elims)
  qed
  then show ?thesis by blast
qed

lemma connection_moves:
  assumes "guard_access_update clock s s'"
  shows "session_moves (s\<lparr>as_issuance := as_issuance s'\<rparr>) s'"
proof (cases "as_connection s' = as_connection s")
  case True
  from identical [OF guard_admission_kept [OF assms] refl this]
  have "s\<lparr>as_issuance := as_issuance s'\<rparr> = s'" by simp
  then show ?thesis by simp
next
  case False
  let ?m = "s\<lparr>as_issuance := as_issuance s'\<rparr>"
  note same = same_admission_fields [OF guard_admission_kept [OF assms]]
  have s': "s' = ?m\<lparr>as_connection := as_connection s'\<rparr>"
    using identical [OF guard_admission_kept [OF assms] refl refl] by simp
  have g: "guard_connection clock s'" "guard_connection_move clock s s'"
    using assms by (simp_all add: guard_access_update_def)
  have "session_step ?m (?m\<lparr>as_connection := as_connection s'\<rparr>)"
  proof (cases "as_connection s'")
    case (Open_connection p)
    with g(2) False obtain gateway connection t c where p: "p = Claimed gateway connection t"
        "as_connection s = Open_connection Unclaimed" "as_issuance s = Iss_issued c"
        "as_issuance s' = Iss_issued c"
      by (auto simp: guard_connection_move_def split: access_connection.splits access_claim.splits
          access_issuance.splits)
    with g(1) same Open_connection show ?thesis
      by (auto simp: guard_connection_def intro!: session_step.claim)
  next
    case (Closed_connection p r t)
    with g(2) False have "as_connection s = Open_connection p"
      by (auto simp: guard_connection_move_def split: access_connection.splits access_claim.splits)
    with g(1) same Closed_connection show ?thesis
      by (auto simp: guard_connection_def intro!: session_step.close split: access_claim.splits)
  qed
  then show ?thesis using s' by (metis r_into_rtranclp)
qed

lemma guarded_moves: "guard_access_update clock s s' \<Longrightarrow> session_moves s s'"
  using issuance_moves connection_moves by (meson rtranclp_trans)

lemma accepted_sessions:
  assumes "apply_stmt now clock st d = Some (d', n)"
  shows "evolves session_moves (sessions d) (sessions d')"
proof -
  have "triggers_ok clock st d" "d' = fst (effect_of now clock st d)"
    using assms by (auto simp: apply_stmt_def Let_def split: if_splits)
  then show ?thesis
    by (cases st) (auto simp: updated_rows_def list_all_iff
        intro!: evolves_refl evolves_append evolves_update guarded_moves)
qed

text \<open>A new session starts at the beginning.\<close>

lemma accepted_admission:
  assumes "apply_stmt now clock st d = Some (d', n)" "s \<in> set (drop (length (sessions d)) (sessions d'))"
  shows "guard_admission clock s"
proof -
  have "triggers_ok clock st d" "d' = fst (effect_of now clock st d)"
    using assms(1) by (auto simp: apply_stmt_def Let_def split: if_splits)
  with assms(2) show ?thesis
    by (cases st) (auto simp: guard_access_insert_def split: if_splits)
qed

interpretation session_history: write_law T "\<lambda>d d'. evolves session_moves (sessions d) (sessions d')" for T
proof unfold_locales
  fix d d' assume "writes_in T d d'"
  then show "evolves session_moves (sessions d) (sessions d')"
    unfolding writes_in_def by (blast intro: accepted_sessions)
qed (auto intro: evolves_refl evolves_trans [OF rtranclp_trans])

section \<open>Stored rows satisfy their contract\<close>

definition sessions_valid :: "db \<Rightarrow> bool" where
  "sessions_valid d \<longleftrightarrow> list_all accessSession_refined (sessions d)"

lemma guarded_valid:
  assumes "guard_issuance clock s" "guard_connection clock s" "deadlines_ok s" "0 < as_machineVersion s"
    and "pin_hostAlias (as_identityPin s) = hostAlias (as_allocationId s)"
  shows "accessSession_refined s"
proof -
  have "issuance_ok s"
    using assms(1) by (auto simp: guard_issuance_def issuance_ok_def credential_ok_def
        split: access_issuance.splits)
  moreover have "claim_ok s"
    using assms(2) by (auto simp: guard_connection_def claim_ok_def
        split: access_claim.splits access_issuance.splits)
  moreover have "closure_ok s"
    using assms(2) by (auto simp: guard_connection_def closure_ok_def
        split: access_claim.splits access_connection.splits)
  ultimately show ?thesis using assms(3-5) by (simp add: accessSession_refined_def)
qed

lemma accepted_valid:
  assumes "apply_stmt now clock st d = Some (d', n)" "sessions_valid d"
  shows "sessions_valid d'"
proof -
  have d': "triggers_ok clock st d" "d' = fst (effect_of now clock st d)" "schema_ok d'"
    using assms(1) by (auto simp: apply_stmt_def Let_def split: if_splits)
  have checks: "deadlines_ok s \<and> 0 < as_machineVersion s" if "s \<in> set (sessions d')" for s
    using d'(3) that by (auto simp: schema_ok_def sessions_ok_def list_all_iff)
  have "accessSession_refined s" if "s \<in> set (sessions d')" for s
  proof (cases st)
    case (Insert_session x)
    with d' that assms(2) checks [OF that] show ?thesis
      by (auto simp: guard_access_insert_def guard_admission_def Let_def sessions_valid_def list_all_iff
          intro: guarded_valid)
  next
    case (Update_sessions P f)
    with d' that obtain x where x: "x \<in> set (sessions d)" "s = (if P x then f x else x)"
      by (auto simp: in_update_where)
    show ?thesis
    proof (cases "P x")
      case True
      then have g: "guard_access_update clock x s"
        using x d'(1) Update_sessions by (auto simp: updated_rows_def list_all_iff)
      have "accessSession_refined x" using x assms(2) by (auto simp: sessions_valid_def list_all_iff)
      with g checks [OF that] same_admission_fields [OF guard_admission_kept [OF g]] show ?thesis
        by (intro guarded_valid) (auto simp: guard_access_update_def accessSession_refined_def)
    qed (use x assms(2) in \<open>auto simp: sessions_valid_def list_all_iff\<close>)
  qed (use d' that assms(2) in \<open>auto simp: sessions_valid_def list_all_iff split: if_splits\<close>)
  then show ?thesis by (simp add: sessions_valid_def list_all_iff)
qed

interpretation valid_sessions: write_invariant T sessions_valid for T
proof unfold_locales
  fix d d' assume "writes_in T d d'" "sessions_valid d"
  then show "sessions_valid d'" unfolding writes_in_def by (blast intro: accepted_valid)
qed

section \<open>Stored rows parse\<close>

text \<open>The trigger asks for every format of the schema but those of the five identifiers a session
  takes over from its owner.\<close>

definition sessions_parse :: "db \<Rightarrow> bool" where
  "sessions_parse d \<longleftrightarrow> (\<forall>s\<in>set (sessions d). owner_ids_ok s \<longrightarrow> accessSession_ok s)"

lemma alias_ok:
  assumes "id_ok Allocation_id a"
  shows "take 6 (hostAlias a) = ''alloc-'' \<and> is_uuid (take 36 (drop 6 (hostAlias a)))
    \<and> drop 42 (hostAlias a) = guest_domain"
proof -
  have a: "take 6 a = ''alloc_''" "is_uuid (drop 6 a)"
    using assms by (simp_all add: id_ok_def prefixed_uuid_def eval_nat_numeral)
  then have "length (drop 6 a) = 36" by (simp only: is_uuid_def)
  moreover have "hostAlias a = ''alloc-'' @ drop 6 a @ guest_domain" using a(1) by (simp add: hostAlias_def)
  ultimately show ?thesis using a(2) by simp
qed

lemma guarded_issuance:
  "guard_issuance clock s \<Longrightarrow> accessIdentityPin_ok (as_identityPin s) \<Longrightarrow> issuance_shape (as_issuance s)"
  by (cases "as_issuance s") (simp_all add: guard_issuance_def)

lemma guarded_claim: "guard_connection clock s \<Longrightarrow> claim_shape (claim_of (as_connection s))"
  by (cases "claim_of (as_connection s)") (simp_all add: guard_connection_def)

lemma admitted_shape:
  assumes "guard_admission clock s" "owner_ids_ok s" "0 < as_machineVersion s"
  shows "accessSession_shape s"
proof -
  have "accessIdentityPin_ok (as_identityPin s)"
    using assms(1,2) alias_ok [of "as_allocationId s"]
    by (simp add: guard_admission_def accessIdentityPin_ok_def owner_ids_ok_def Let_def)
  with assms show ?thesis by (simp add: guard_admission_def accessSession_shape_def Let_def)
qed

lemma updated_shape:
  assumes "guard_access_update clock old new" "accessSession_shape old"
  shows "accessSession_shape new"
proof -
  have "new = old\<lparr>as_issuance := as_issuance new, as_connection := as_connection new\<rparr>"
    using assms(1) by (cases old; cases new) (simp add: guard_access_update_def)
  then obtain i c where new: "new = old\<lparr>as_issuance := i, as_connection := c\<rparr>" by blast
  have "issuance_shape i" "claim_shape (claim_of c)"
    using guarded_issuance [of clock new] guarded_claim [of clock new] assms new
    by (simp_all add: guard_access_update_def accessSession_shape_def)
  with assms(2) show ?thesis by (simp add: new accessSession_shape_def owner_ids_ok_def)
qed

lemma shape_owned: "accessSession_shape s \<Longrightarrow> owner_ids_ok s"
  by (simp add: accessSession_shape_def)

lemma guard_update_owner: "guard_access_update clock old new \<Longrightarrow> owner_ids_ok new = owner_ids_ok old"
  by (cases old; cases new) (simp add: guard_access_update_def owner_ids_ok_def)

lemma accepted_parse:
  assumes "apply_stmt now clock st d = Some (d', n)" "sessions_parse d"
  shows "sessions_parse d'"
proof -
  have d': "triggers_ok clock st d" "d' = fst (effect_of now clock st d)" "schema_ok d'"
    using assms(1) by (auto simp: apply_stmt_def Let_def split: if_splits)
  have checks: "deadlines_ok s \<and> 0 < as_machineVersion s" if "s \<in> set (sessions d')" for s
    using d'(3) that by (auto simp: schema_ok_def sessions_ok_def list_all_iff)
  have "accessSession_ok s" if "s \<in> set (sessions d')" "owner_ids_ok s" for s
  proof (cases st)
    case (Insert_session x)
    with d' that assms(2) checks [OF that(1)] admitted_shape [of clock s] guarded_valid [of clock s] show ?thesis
      by (auto simp: guard_access_insert_def guard_admission_def Let_def sessions_parse_def accessSession_ok_def)
  next
    case (Update_sessions P f)
    with d' that(1) obtain x where x: "x \<in> set (sessions d)" "s = (if P x then f x else x)"
      by (auto simp: in_update_where)
    show ?thesis
    proof (cases "P x")
      case True
      then have g: "guard_access_update clock x s"
        using x d'(1) Update_sessions by (auto simp: updated_rows_def list_all_iff)
      have ok: "accessSession_ok x"
        using x(1) assms(2) that(2) guard_update_owner [OF g] by (simp add: sessions_parse_def)
      have "accessSession_refined s"
        using g checks [OF that(1)] same_admission_fields [OF guard_admission_kept [OF g]] ok
        by (intro guarded_valid) (auto simp: guard_access_update_def accessSession_ok_def accessSession_refined_def)
      with updated_shape [OF g] ok show ?thesis by (simp add: accessSession_ok_def)
    qed (use x that(2) assms(2) in \<open>auto simp: sessions_parse_def\<close>)
  qed (use d' that assms(2) in \<open>auto simp: sessions_parse_def split: if_splits\<close>)
  then show ?thesis by (simp add: sessions_parse_def)
qed

interpretation parsing_sessions: write_invariant T sessions_parse for T
proof unfold_locales
  fix d d' assume "writes_in T d d'" "sessions_parse d"
  then show "sessions_parse d'" unfolding writes_in_def by (blast intro: accepted_parse)
qed

end
