(* ===== verification/Access_Laws.thy ===== *)
theory Access_Laws
  imports Access_Service Access_Lifecycle Auth_Laws
begin

text \<open>
  What the access handlers do to the world: all but the signer's request are \<open>quiet\<close>, they and the
  other sessions change the database by accepted statements only; the request follows the
  recorded attempt of the same session. From this follows that a session's key is signed once.
\<close>

section \<open>Changes of the database\<close>

text \<open>Accepted statements of anybody, and the guest tables that other components write.\<close>

definition alters :: "db \<Rightarrow> db \<Rightarrow> bool" where
  "alters d d' \<longleftrightarrow> writes d d' \<or>
     (\<exists>bs gs rs. d' = d\<lparr>guest_bootstraps := bs, guest_identities := gs, restores := rs\<rparr>)"

abbreviation changed :: "db \<Rightarrow> db \<Rightarrow> bool" where
  "changed \<equiv> alters\<^sup>*\<^sup>*"

lemma schema_guests:
  "schema_ok (d\<lparr>guest_bootstraps := bs, guest_identities := gs, restores := rs\<rparr>) = schema_ok d"
  by (simp add: schema_ok_def accounts_ok_def projects_ok_def grants_ok_def machines_ok_def
      allocations_ok_def reservations_ok_def sessions_ok_def operations_ok_def cleanups_ok_def
      attempts_ok_def recoveries_ok_def idempotency_ok_def audit_ok_def resources_ok_def)

lemma writes_changed: "apply_stmt now clock st d = Some (d', n) \<Longrightarrow> changed d d'"
  unfolding alters_def writes_def by blast

lemma wrote_in_changed: "wrote_in T d d' \<Longrightarrow> changed d d'"
proof (induction rule: rtranclp_induct)
  case (step d1 d2)
  then obtain now clock s n where "apply_stmt now clock s d1 = Some (d2, n)"
    by (auto simp: writes_in_def)
  with step.IH show ?case by (meson writes_changed rtranclp_trans)
qed simp

lemma changed_schema: "changed d d' \<Longrightarrow> schema_ok d \<Longrightarrow> schema_ok d'"
  by (induction rule: rtranclp_induct)
     (auto simp: alters_def writes_def schema_guests apply_stmt_def Let_def split: if_splits)

lemma changed_valid: "changed d d' \<Longrightarrow> sessions_valid d \<Longrightarrow> sessions_valid d'"
  by (induction rule: rtranclp_induct)
     (auto simp: alters_def writes_def sessions_valid_def [of "_\<lparr>restores := _\<rparr>"]
        dest: accepted_valid simp flip: sessions_valid_def)

lemma changed_parse: "changed d d' \<Longrightarrow> sessions_parse d \<Longrightarrow> sessions_parse d'"
  by (induction rule: rtranclp_induct)
     (auto simp: alters_def writes_def sessions_parse_def [of "_\<lparr>restores := _\<rparr>"]
        dest: accepted_parse simp flip: sessions_parse_def)

lemma changed_sessions: "changed d d' \<Longrightarrow> evolves session_moves (sessions d) (sessions d')"
proof (induction rule: rtranclp_induct)
  case (step e f)
  have "evolves session_moves (sessions e) (sessions f)"
    using step.hyps(2) by (auto simp: alters_def writes_def intro: accepted_sessions evolves_refl)
  with step.IH show ?case by (meson evolves_trans rtranclp_trans)
qed (auto intro: evolves_refl)

lemma changed_receipts: "changed d d' \<Longrightarrow> set (signing_receipts d) \<subseteq> set (signing_receipts d')"
proof (induction rule: rtranclp_induct)
  case (step e f)
  have "set (signing_receipts e) \<subseteq> set (signing_receipts f)" if "apply_stmt now clock st e = Some (f, n)"
    for now clock st n
    using that by (cases st) (auto simp: apply_stmt_def Let_def split: if_splits)
  with step.hyps(2) have "set (signing_receipts e) \<subseteq> set (signing_receipts f)"
    unfolding alters_def writes_def by (elim disjE exE) (blast, simp)
  with step.IH show ?case by blast
qed simp

lemma changed_session:
  assumes "changed d d'" "s \<in> set (sessions d)"
  shows "\<exists>s'\<in>set (sessions d'). session_moves s s'"
  using evolves_in [OF changed_sessions [OF assms(1)] assms(2)] .

section \<open>Quiet steps\<close>

definition access_quiet :: "'p access_world \<Rightarrow> 'p access_world \<Rightarrow> bool" where
  "access_quiet s s' \<longleftrightarrow> outside s' = outside s \<and> ticks s \<le> ticks s' \<and> rivals s' = rivals s
     \<and> signings s' = signings s \<and> changed (store s) (store s')"

interpretation access: step_relation access_quiet
proof
  fix s t u :: "'p access_world"
  show "access_quiet s s" by (simp add: access_quiet_def)
  show "access_quiet s u" if "access_quiet s t" "access_quiet t u"
    using that by (auto simp: access_quiet_def)
qed

lemma access_foot: "footstep T s s' \<Longrightarrow> access_quiet s s'"
  unfolding footstep_def access_quiet_def
  by (cases s; cases s') (auto intro: wrote_in_changed)

lemma access_footprint: "footprint UNIV m \<Longrightarrow> stays access_quiet m"
  by (erule stays_mono) (rule access_foot)

lemma access_prim:
  fixes f :: "nat \<Rightarrow> ('p, 'a) access_act"
  assumes f: "\<And>i s. access_quiet s (snd (f i s))"
  shows "stays access_quiet (prim f)"
proof (rule staysI)
  fix s :: "'p access_world"
  have "access_quiet s (s\<lparr>ticks := Suc (ticks s)\<rparr>)" by (simp add: access_quiet_def)
  with f [of "s\<lparr>ticks := Suc (ticks s)\<rparr>" "ticks s"] show "access_quiet s (snd (prim f s))"
    by (auto simp: prim_def Let_def intro: access.step_trans)
qed

lemma provisions_changed:
  "changed d (d\<lparr>guest_bootstraps := bs, guest_identities := gs, restores := rs\<rparr>)"
  unfolding alters_def by blast

lemma intrude_quiet: "access_quiet s (intrude clock r s)"
  by (cases r) (auto simp: access_quiet_def provisions_changed intro: writes_changed split: option.splits)

lemma disturbed_quiet: "access_quiet s (disturbed s)"
proof -
  have "access_quiet s (fold (intrude clock) rs s)" for clock rs
    by (induction rs arbitrary: s) (auto intro: access.step_refl access.step_trans intrude_quiet)
  then show ?thesis by (simp add: disturbed_def)
qed

lemma access_amid: "stays access_quiet m \<Longrightarrow> stays access_quiet (amid m)"
  unfolding stays_def amid_def by (blast intro: access.step_trans disturbed_quiet)

lemma access_contact: "stays access_quiet (contact f)"
  unfolding contact_def
  by (intro access.bind access_prim access_footprint [OF footprint_reply])
     (auto simp: access_quiet_def split: prod.splits)

lemma access_returned: "stays access_quiet (returned r)"
  unfolding returned_def by (auto intro: access.raise access.ret split: sum.splits)

lemma access_retryable: "stays access_quiet (throwRetryable c)"
  unfolding throwRetryable_def by (rule access.raise)

lemma access_lock: "stays access_quiet m \<Longrightarrow> stays access_quiet (withMachineLock m)"
  unfolding withMachineLock_def by (intro access.rules access_footprint [OF footprint_tryLock])

lemma access_locked:
  assumes "footprint UNIV m"
  shows "stays access_quiet (machineLocked m)"
  unfolding machineLocked_def
  by (intro access.rules access_lock access_amid access_footprint footprint_transaction assms
      access_retryable)

lemma read_into: "access_quiet s u \<Longrightarrow> access_quiet t v \<Longrightarrow> clock_read u t now \<Longrightarrow> clock_read s v now"
  by (rule clock_read_within [of u t now s v]) (simp_all add: access_quiet_def)

lemma prod_split: "(\<And>a b. x = (a, b) \<Longrightarrow> stays R (f a b)) \<Longrightarrow> stays R (case x of (a, b) \<Rightarrow> f a b)"
  by (cases x) simp

lemma foot_retryable: "footprint T (throwRetryable c)"
  unfolding throwRetryable_def by (rule foot.raise)

section \<open>Footprints\<close>

lemma footprint_readSession: "footprint T (readSession i)"
  unfolding readSession_def by (intro footprint_rules)

lemma footprint_setIssuance: "T_upd_sessions \<in> T \<Longrightarrow> footprint T (setIssuance i x)"
  unfolding setIssuance_def by (intro footprint_run) (auto simp: keeps_defs)

lemma footprint_unavailable: "T_upd_sessions \<in> T \<Longrightarrow> footprint T (unavailable i r)"
  unfolding unavailable_def by (rule footprint_setIssuance)

lemma footprint_guestRecords: "footprint T (guestRecords account allocation)"
  unfolding guestRecords_def by (intro footprint_rules) (auto split: option.splits intro: footprint_rules)

lemma footprint_current: "footprint T (current kind account grant machine)"
  unfolding current_def lockAccount_def ownMachine_def assertRestoreAccessible_def
  by (intro footprint_rules footprint_loadAuthority footprint_guestRecords prod_split)

lemma footprint_review: "footprint T (review D s)"
  unfolding review_def reviewed_def currentOf_def unchanged_def
  by (intro footprint_rules footprint_current)

lemma footprint_newAccess: "footprint UNIV (newAccess config kind p machine r key fp)"
  unfolding newAccess_def enqueueAccess_def
  by (intro footprint_rules footprint_current foot_retryable) auto

lemma footprint_replayAccess: "footprint T (replayAccess authority fp previous)"
  unfolding replayAccess_def by (intro footprint_rules)

lemma footprint_prepareSigning: "footprint UNIV (prepareSigning D i)"
  unfolding prepareSigning_def reviewPending_def
  by (intro footprint_rules footprint_readSession)
     (auto split: access_issuance.splits
        intro!: footprint_rules footprint_unavailable footprint_review)

lemma footprint_recordAttempt: "footprint UNIV (recordAttempt D i)"
  unfolding recordAttempt_def
  by (intro footprint_rules footprint_readSession footprint_unavailable footprint_setIssuance
      footprint_review) simp_all

lemma footprint_publishResult: "footprint UNIV (publishResult D i address result)"
  unfolding publishResult_def
  by (intro footprint_rules footprint_readSession)
     (auto split: access_issuance.splits
        intro!: footprint_rules footprint_unavailable footprint_setIssuance footprint_review)

lemma footprint_validConnection: "footprint T (validConnection D session c)"
  unfolding validConnection_def
  by (intro footprint_rules footprint_review)
     (auto split: access_issuance.splits intro!: footprint_rules simp: Let_def)

lemma footprint_claimTicket: "footprint UNIV (claimTicket D i r)"
  unfolding claimTicket_def
  by (intro footprint_rules footprint_readSession footprint_review footprint_validConnection)
     (auto simp: keeps_defs)

lemma footprint_closeConnection: "footprint UNIV (closeConnection session c reason)"
  unfolding closeConnection_def lockAccount_def
  by (intro footprint_rules footprint_readSession) (auto simp: keeps_defs)

lemmas access_rules = access.rules access_amid access_contact access_returned access_retryable
  access_locked access_footprint [OF footprint_query] access_footprint [OF footprint_readSession]
  access_footprint [OF footprint_databaseTime] access_footprint [OF footprint_reply]

section \<open>Quiet handlers\<close>

lemma access_observeGuest: "stays access_quiet (observeGuest P a spec)"
  unfolding observeGuest_def Let_def
  by (intro access_rules) (auto split: option.splits intro!: access_rules)

lemma access_enqueue: "stays access_quiet (enqueueAccess i)"
  unfolding enqueueAccess_def by (intro access_footprint footprint_run) simp_all

lemma access_admit: "stays access_quiet (admitAccess sha config kind p m r key)"
  unfolding admitAccess_def lockAccount_def
  by (intro access_rules footprint_rules footprint_loadAuthority footprint_newAccess footprint_replayAccess)

lemma access_inspect: "stays access_quiet (inspectAccess p i)"
  unfolding inspectAccess_def by (intro access_rules)

lemma access_refuse:
  "access_quiet t (snd (bind (machineLocked (bind (readSession i) (\<lambda>_. unavailable i r))) (\<lambda>_. ret None) t))"
  by (rule stays_def [THEN iffD1, rule_format],
      intro access_rules footprint_rules footprint_readSession footprint_unavailable) simp

lemma access_observed: "stays access_quiet (observed D i cx)"
proof (rule staysI)
  fix s
  have "stays access_quiet (bind (contact (ad_checkNetwork D)) (\<lambda>_.
      observeGuest (ad_provider D) (cx_allocation cx) (cx_spec cx)))"
    by (intro access_rules access_observeGuest)
  note see = staysD [OF this]
  show "access_quiet s (snd (observed D i cx s))"
    unfolding observed_def Let_def
    by (auto split: prod.splits sum.splits exn.splits dest!: see intro: access.step_trans access_refuse)
qed

lemma access_claim: "stays access_quiet (claim D r)"
  unfolding claim_def
  by (intro access_rules access_observeGuest footprint_review footprint_claimTicket)

lemma access_checkOne: "stays access_quiet (checkOne D c)"
  unfolding checkOne_def
  by (intro access_rules footprint_rules footprint_readSession footprint_validConnection)

lemma access_check: "stays access_quiet (checkConnections D cs)"
  unfolding checkConnections_def by (intro access_rules access_checkOne)

lemma access_closeAccess: "stays access_quiet (closeAccess D c reason)"
  unfolding closeAccess_def by (intro access_rules footprint_closeConnection)

end
