(* ===== verification/Access_Signing.thy ===== *)
theory Access_Signing
  imports Access_Laws
begin

text \<open>
  Signing follows the record of its attempt. \<open>asked_once\<close> relates the log of requested signatures to
  the stored sessions; \<open>armed\<close> is what holds between the recorded attempt of a session and the
  request of its signature. The handlers and what is reachable through them are at the end.
\<close>

section \<open>The invariant\<close>

definition fits :: "ssh_claim \<Rightarrow> session_row \<Rightarrow> bool" where
  "fits c s \<longleftrightarrow> sc_keyId c = claim_text s \<and> sc_principal c = ''customer-'' @ as_allocationId s
     \<and> sc_publicKeyWire c = drop 12 (as_publicKey s)
     \<and> set (sc_sourceAddresses c) = set (gw_egressCidrs (as_gateway s))
     \<and> sc_validBefore c \<le> as_hardDeadline s"

definition recorded :: "db \<Rightarrow> id \<Rightarrow> ssh_claim \<Rightarrow> bool" where
  "recorded d i c \<longleftrightarrow> (\<exists>r\<in>set (sessions d). as_id r = i \<and> as_issuance r \<noteq> Iss_pending \<and> fits c r)
     \<and> i \<in> fst ` set (signing_receipts d)"

definition asked_once :: "'p access_world \<Rightarrow> bool" where
  "asked_once s \<longleftrightarrow> schema_ok (store s) \<and> distinct (map fst (signings s))
     \<and> (\<forall>(i, c)\<in>set (signings s). recorded (store s) i c)"

lemma fits_kept: "fits c s \<Longrightarrow> same_admission s s' \<Longrightarrow> fits c s'"
  using same_admission_fields [of s s'] by (simp add: fits_def claim_text_def)

lemma recorded_kept:
  assumes "changed d d'" "recorded d i c"
  shows "recorded d' i c"
proof -
  obtain r where r: "r \<in> set (sessions d)" "as_id r = i" "as_issuance r \<noteq> Iss_pending" "fits c r"
    using assms(2) by (auto simp: recorded_def)
  from changed_session [OF assms(1) r(1)] obtain r' where r': "r' \<in> set (sessions d')" "session_moves r r'"
    by blast
  with r moves_not_pending [OF r'(2)] fits_kept [OF r(4) moves_admission [OF r'(2)]]
    same_admission_fields [OF moves_admission [OF r'(2)]]
  show ?thesis using assms changed_receipts [OF assms(1)] unfolding recorded_def by blast
qed

lemma quiet_asked: "access_quiet s s' \<Longrightarrow> asked_once s \<Longrightarrow> asked_once s'"
  unfolding asked_once_def access_quiet_def
  by (auto intro: changed_schema recorded_kept)

lemma pending_unasked:
  assumes "asked_once s" "r \<in> set (sessions (store s))" "as_issuance r = Iss_pending"
  shows "as_id r \<notin> fst ` set (signings s)"
proof
  assume "as_id r \<in> fst ` set (signings s)"
  then obtain c where "(as_id r, c) \<in> set (signings s)" by auto
  with assms(1) obtain x where x: "x \<in> set (sessions (store s))" "as_id x = as_id r"
      "as_issuance x \<noteq> Iss_pending"
    by (auto simp: asked_once_def recorded_def)
  have "inj_on as_id (set (sessions (store s)))"
    using assms(1) by (simp add: asked_once_def schema_ok_def sessions_ok_def unique_by_def distinct_map)
  with x assms(2) have "x = r" by (simp add: inj_on_eq_iff)
  with x(3) assms(3) show False by simp
qed

section \<open>From the attempt to the request\<close>

definition armed :: "session_row \<Rightarrow> 'p access_world \<Rightarrow> bool" where
  "armed session s \<longleftrightarrow> asked_once s \<and> as_id session \<notin> fst ` set (signings s)
     \<and> (\<exists>r\<in>set (sessions (store s)). same_admission session r \<and> as_issuance r \<noteq> Iss_pending)
     \<and> as_id session \<in> fst ` set (signing_receipts (store s))"

lemma quiet_armed:
  assumes "access_quiet s s'" "armed session s"
  shows "armed session s'"
proof -
  have c: "changed (store s) (store s')" using assms(1) by (simp add: access_quiet_def)
  obtain r where r: "r \<in> set (sessions (store s))" "same_admission session r" "as_issuance r \<noteq> Iss_pending"
    using assms(2) by (auto simp: armed_def)
  from changed_session [OF c r(1)] obtain r' where r': "r' \<in> set (sessions (store s'))" "session_moves r r'"
    by blast
  have "same_admission session r'"
    using same_admission_trans [OF r(2) moves_admission [OF r'(2)]] .
  moreover have "signings s' = signings s" using assms(1) by (simp add: access_quiet_def)
  moreover have "asked_once s'" using quiet_asked [OF assms(1)] assms(2) by (simp add: armed_def)
  moreover have "as_id session \<in> fst ` set (signing_receipts (store s'))"
    using changed_receipts [OF c] assms(2) by (auto simp: armed_def)
  ultimately show ?thesis
    using assms(2) r'(1) moves_not_pending [OF r'(2) r(3)] by (auto simp: armed_def)
qed

lemma catch_cloud_success [success]:
  "catch_cloud m h s = (Inr x, t) \<longleftrightarrow>
     m s = (Inr x, t) \<or> (\<exists>f u. m s = (Inl (Cloud f), u) \<and> h f u = (Inr x, t))"
  by (auto simp: catch_cloud_def split: prod.splits sum.splits exn.splits)

lemma readSession_success [success]:
  "readSession i s = (Inr x, t) \<longleftrightarrow> healthy s \<and> t = ticked s \<and> session_in (store s) i = Some x
     \<and> accessSession_ok x"
  by (auto simp: readSession_def accessSessionRecord_def success split: if_splits)

lemma silent_store: "footprint {} m \<Longrightarrow> m s = (r, t) \<Longrightarrow> store t = store s"
  by (drule (1) staysD) (auto simp: footstep_def dest: wrote_nothing)

lemmas review_silent = silent_store [OF footprint_review]

lemma catch_cloud_Some:
  assumes "catch_cloud m h s = (Inr (Some x), t)" "\<And>f u t. h f u \<noteq> (Inr (Some x), t)"
  shows "m s = (Inr (Some x), t)"
  using assms by (auto simp: success)

lemma recordAttempt_Some:
  assumes "recordAttempt D i s = (Inr (Some (session, authority)), t)"
  obtains r u n where "session_in (store s) i = Some r" "as_issuance r = Iss_pending" "store u = store s"
    "session = r\<lparr>as_issuance := Iss_attempted (au_checkedAt authority)\<rparr>"
    "accepted (Update_sessions (\<lambda>s. as_id s = i)
       (\<lambda>s. s\<lparr>as_issuance := Iss_attempted (au_checkedAt authority)\<rparr>)) u n t"
proof -
  obtain r where r: "session_in (store s) i = Some r"
    and c: "catch_cloud
     (bind (review D r) (\<lambda>cx. let now = au_checkedAt (cx_authority cx) in
        if \<not> open_unclaimed r \<or> as_issuance r \<noteq> Iss_pending then ret None
        else if issue_limit r \<le> now
        then bind (unavailable i Un_deadline_exceeded) (\<lambda>_. ret None)
        else bind (setIssuance i (Iss_attempted now)) (\<lambda>_.
             ret (Some (r\<lparr>as_issuance := Iss_attempted now\<rparr>, cx_authority cx)))))
     (\<lambda>f. bind (unavailable i Un_authorization_changed) (\<lambda>_. ret None)) (ticked s)
       = (Inr (Some (session, authority)), t)"
    using assms by (auto simp: recordAttempt_def success simp del: catch_cloud_success)
  have "bind (review D r) (\<lambda>cx. let now = au_checkedAt (cx_authority cx) in
        if \<not> open_unclaimed r \<or> as_issuance r \<noteq> Iss_pending then ret None
        else if issue_limit r \<le> now
        then bind (unavailable i Un_deadline_exceeded) (\<lambda>_. ret None)
        else bind (setIssuance i (Iss_attempted now)) (\<lambda>_.
             ret (Some (r\<lparr>as_issuance := Iss_attempted now\<rparr>, cx_authority cx)))) (ticked s)
       = (Inr (Some (session, authority)), t)"
    by (rule catch_cloud_Some [OF c]) (simp add: success)
  then obtain cx u n where "review D r (ticked s) = (Inr cx, u)" "as_issuance r = Iss_pending"
      "session = r\<lparr>as_issuance := Iss_attempted (au_checkedAt (cx_authority cx))\<rparr>" "authority = cx_authority cx"
      "accepted (Update_sessions (\<lambda>s. as_id s = i)
         (\<lambda>s. s\<lparr>as_issuance := Iss_attempted (au_checkedAt (cx_authority cx))\<rparr>)) u n t"
    by (auto simp: success Let_def setIssuance_def split: if_splits)
  with r review_silent [of D r "ticked s"] show thesis by (intro that) auto
qed

lemma accepted_attempt:
  assumes "accepted (Update_sessions (\<lambda>s. as_id s = i) (\<lambda>s. s\<lparr>as_issuance := Iss_attempted now\<rparr>)) u n t"
    and "session_in (store u) i = Some r" "as_issuance r = Iss_pending"
  shows "r\<lparr>as_issuance := Iss_attempted now\<rparr> \<in> set (sessions (store t))"
    and "i \<in> fst ` set (signing_receipts (store t))" "as_id r = i"
proof -
  have r: "r \<in> set (sessions (store u))" "as_id r = i"
    using assms(2) by (auto simp: session_in_def dest: select_one_SomeD)
  note t = accepted_store [OF assms(1)]
  from t r show "r\<lparr>as_issuance := Iss_attempted now\<rparr> \<in> set (sessions (store t))"
    by (auto simp: in_update_where intro!: bexI [of _ r])
  have "(i, now) \<in> set (List.map_filter signing_receipt (updated_rows (\<lambda>s. as_id s = i)
      (\<lambda>s. s\<lparr>as_issuance := Iss_attempted now\<rparr>) (sessions (store u))))"
    using r assms(3)
    by (auto simp: List.map_filter_def updated_rows_def signing_receipt_def image_iff split: option.splits
        intro!: bexI [of _ r])
  with t show "i \<in> fst ` set (signing_receipts (store t))" by (force simp: image_iff)
  show "as_id r = i" by (rule r(2))
qed

lemma lockedE:
  assumes "machineLocked m s = (Inr x, t)"
  obtains u where "m (opened (disturbed (ticked s))) = (Inr x, u)" "healthy u"
    "t = (ticked u)\<lparr>began := began (disturbed (ticked s))\<rparr>"
proof -
  obtain v where v: "withMachineLock (amid (transaction m)) s = (Inr (Some x), v)" "t = v"
    using assms by (auto simp: machineLocked_def throwRetryable_def success split: option.splits)
  then have "transaction m (disturbed (ticked s)) = (Inr x, t)"
    by (auto simp: success amid_def split: if_splits)
  with that show thesis by (auto simp: success)
qed

lemma quiet_into:
  "access_quiet s (ticked s)" "access_quiet s (opened (disturbed (ticked s)))"
  "access_quiet u ((ticked u)\<lparr>began := b\<rparr>)"
proof -
  have t: "access_quiet s (ticked s)" for s :: "'a access_world"
    by (simp add: access_quiet_def ticked_def)
  then show "access_quiet s (ticked s)" .
  have "access_quiet v (opened v)" for v :: "'a access_world"
    by (simp add: access_quiet_def opened_def ticked_def)
  with t disturbed_quiet show "access_quiet s (opened (disturbed (ticked s)))"
    by (meson access.step_trans)
  show "access_quiet u ((ticked u)\<lparr>began := b\<rparr>)" by (simp add: access_quiet_def ticked_def)
qed

lemma recordAttempt_armed:
  assumes "machineLocked (recordAttempt D i) s = (Inr (Some (session, authority)), t)" "asked_once s"
  shows "armed session t \<and> as_id session = i"
proof -
  let ?s = "opened (disturbed (ticked s))"
  obtain u where u: "recordAttempt D i ?s = (Inr (Some (session, authority)), u)"
      "t = (ticked u)\<lparr>began := began (disturbed (ticked s))\<rparr>"
    using lockedE [OF assms(1)] by metis
  from recordAttempt_Some [OF u(1)] obtain r v n where r: "session_in (store ?s) i = Some r"
      "as_issuance r = Iss_pending" "store v = store ?s"
      "session = r\<lparr>as_issuance := Iss_attempted (au_checkedAt authority)\<rparr>"
      "accepted (Update_sessions (\<lambda>s. as_id s = i)
         (\<lambda>s. s\<lparr>as_issuance := Iss_attempted (au_checkedAt authority)\<rparr>)) v n u"
    by metis
  have asked: "asked_once ?s" using quiet_asked [OF quiet_into(2) assms(2)] .
  have "access_quiet ?s u"
    using staysD [OF access_footprint [OF footprint_recordAttempt] u(1)] .
  then have q: "access_quiet ?s t" using u(2) quiet_into(3) access.step_trans by metis
  note row = accepted_attempt [OF r(5) r(1) [folded r(3)] r(2)]
  have "as_id r \<notin> fst ` set (signings ?s)"
    using pending_unasked [OF asked _ r(2)] r(1) by (auto simp: session_in_def dest: select_one_SomeD)
  moreover have "signings t = signings ?s" using q by (simp add: access_quiet_def)
  moreover have "store t = store u" using u(2) by simp
  ultimately show ?thesis
    using row r(4) quiet_asked [OF q asked] by (auto simp: armed_def intro: same_admission_refl)
qed

lemma reply_quiet: "access_quiet s (snd (reply r s))"
  by (rule stays_def [THEN iffD1, rule_format]) (rule access_footprint [OF footprint_reply])

lemma sign_asked:
  assumes "armed session s"
  shows "asked_once (snd (sign D session authority s))"
proof (cases "customerSshClaim session authority")
  case (Inl e)
  then show ?thesis
    using assms by (simp add: sign_def bind_def returned_def raise_def armed_def)
next
  case (Inr claim)
  then have "claim = claim_for session authority" by (rule customerSshClaim_Inr)
  then have fit: "fits claim session" "as_id session = i \<Longrightarrow> claim_text session = claim_text session" for i
    using claim_within(2) [of session authority] by (simp_all add: fits_def claim_for_def)
  let ?a = "\<lambda>p. (ticked s)\<lparr>fleet := p, signings := signings s @ [(as_id session, claim)]\<rparr>"
  have "asked_once (?a p)" for p
  proof -
    obtain r where r: "r \<in> set (sessions (store s))" "same_admission session r" "as_issuance r \<noteq> Iss_pending"
      using assms by (auto simp: armed_def)
    then have "recorded (store s) (as_id session) claim"
      using assms fits_kept [OF fit(1) r(2)] same_admission_fields [OF r(2)]
      by (auto simp: recorded_def armed_def intro!: bexI [of _ r])
    with assms show ?thesis by (auto simp: asked_once_def armed_def ticked_def)
  qed
  moreover have "asked_once (ticked s)"
    by (rule quiet_asked [OF quiet_into(1)]) (use assms in \<open>simp add: armed_def\<close>)
  ultimately show ?thesis
    using Inr by (auto simp: sign_def bind_def returned_def ret_def prim_def Let_def ticked_def
        split: prod.splits sum.splits intro: quiet_asked [OF reply_quiet])
qed

lemma quiet_asked_snd: "stays access_quiet m \<Longrightarrow> asked_once s \<Longrightarrow> asked_once (snd (m s))"
  unfolding stays_def by (blast intro: quiet_asked)

lemma bind_asked:
  assumes "asked_once (snd (m s))" "\<And>x t. m s = (Inr x, t) \<Longrightarrow> asked_once (snd (f x t))"
  shows "asked_once (snd (bind m f s))"
  using assms by (auto simp: bind_def split: prod.splits sum.splits)

lemma signAttempt_asked:
  assumes "asked_once s"
  shows "asked_once (snd (signAttempt D i address s))"
  unfolding signAttempt_def
proof (rule bind_asked)
  show "asked_once (snd (machineLocked (recordAttempt D i) s))"
    by (intro quiet_asked_snd access_locked footprint_recordAttempt assms)
  fix x t assume r: "machineLocked (recordAttempt D i) s = (Inr x, t)"
  show "asked_once (snd ((case x of None \<Rightarrow> ret ()
     | Some (session, authority) \<Rightarrow> bind (contact (ad_signer D)) (\<lambda>_.
         bind (sign D session authority) (\<lambda>result. machineLocked (publishResult D i address result)))) t))"
  proof (cases x)
    case None
    then show ?thesis
      using quiet_asked [OF staysD [OF access_locked [OF footprint_recordAttempt] r] assms]
      by (simp add: ret_def)
  next
    case (Some p)
    obtain session authority where p: "p = (session, authority)" by (cases p)
    then have arm: "armed session t" using recordAttempt_armed r Some assms by blast
    have "asked_once (snd (bind (contact (ad_signer D)) (\<lambda>_.
         bind (sign D session authority) (\<lambda>result. machineLocked (publishResult D i address result))) t))"
    proof (rule bind_asked)
      show "asked_once (snd (contact (ad_signer D) t))"
        using arm by (intro quiet_asked_snd access_contact) (simp add: armed_def)
      fix y u assume "contact (ad_signer D) t = (Inr y, u)"
      then have "armed session u" using quiet_armed [OF staysD [OF access_contact] arm] by metis
      then have "asked_once (snd (sign D session authority u))" by (rule sign_asked)
      then show "asked_once (snd (bind (sign D session authority)
          (\<lambda>result. machineLocked (publishResult D i address result)) u))"
        by (rule bind_asked)
           (metis quiet_asked_snd access_locked footprint_publishResult snd_conv
             \<open>asked_once (snd (sign D session authority u))\<close>)
    qed
    with Some p show ?thesis by simp
  qed
qed

lemma issueLocked_asked:
  assumes "asked_once s"
  shows "asked_once (snd (issueLocked D i s))"
  unfolding issueLocked_def
proof (rule bind_asked)
  have r: "stays access_quiet (amid (readSession i))" by (intro access_rules)
  show "asked_once (snd (amid (readSession i) s))" by (intro quiet_asked_snd r assms)
  fix x t assume "amid (readSession i) s = (Inr x, t)"
  then have t: "asked_once t" using quiet_asked [OF staysD [OF r] assms] by metis
  have p: "stays access_quiet (machineLocked (prepareSigning D i))"
    by (intro access_locked footprint_prepareSigning)
  show "asked_once (snd ((if \<not> unissued (as_issuance x) then ret ()
     else bind (machineLocked (prepareSigning D i)) (\<lambda>prepared. case prepared of None \<Rightarrow> ret ()
       | Some cx \<Rightarrow> bind (observed D i cx) (\<lambda>seen. case seen of None \<Rightarrow> ret ()
           | Some address \<Rightarrow> signAttempt D i address))) t))"
  proof (cases "unissued (as_issuance x)")
    case False
    with t show ?thesis by (simp add: ret_def)
  next
    case True
    have "asked_once (snd (bind (machineLocked (prepareSigning D i)) (\<lambda>prepared. case prepared of None \<Rightarrow> ret ()
       | Some cx \<Rightarrow> bind (observed D i cx) (\<lambda>seen. case seen of None \<Rightarrow> ret ()
           | Some address \<Rightarrow> signAttempt D i address)) t))"
    proof (rule bind_asked)
      show "asked_once (snd (machineLocked (prepareSigning D i) t))" by (intro quiet_asked_snd p t)
      fix y u assume "machineLocked (prepareSigning D i) t = (Inr y, u)"
      then have u: "asked_once u" using quiet_asked [OF staysD [OF p] t] by metis
      show "asked_once (snd ((case y of None \<Rightarrow> ret ()
         | Some cx \<Rightarrow> bind (observed D i cx) (\<lambda>seen. case seen of None \<Rightarrow> ret ()
             | Some address \<Rightarrow> signAttempt D i address)) u))"
      proof (cases y)
        case (Some cx)
        have "asked_once (snd (bind (observed D i cx) (\<lambda>seen. case seen of None \<Rightarrow> ret ()
             | Some address \<Rightarrow> signAttempt D i address) u))"
        proof (rule bind_asked)
          show "asked_once (snd (observed D i cx u))" by (intro quiet_asked_snd access_observed u)
          fix z v assume "observed D i cx u = (Inr z, v)"
          then have "asked_once v" using quiet_asked [OF staysD [OF access_observed] u] by metis
          then show "asked_once (snd ((case z of None \<Rightarrow> ret () | Some address \<Rightarrow> signAttempt D i address) v))"
            by (cases z) (auto simp: ret_def intro: signAttempt_asked)
        qed
        with Some show ?thesis by simp
      qed (use u in \<open>simp add: ret_def\<close>)
    qed
    with True show ?thesis by simp
  qed
qed

end
