(* ===== verification/Access_Leases.thy ===== *)
theory Access_Leases
  imports Access_Signing
begin

text \<open>
  What the gateway is told. \<open>connectable\<close> says when a session may be connected at a moment: its
  credential, machine, guest, resources and gateway are those of its admission and in order. A
  lease is given only then, a ticket is taken once, and admission keeps the limits.
\<close>

section \<open>When a session may be connected\<close>

definition target_current :: "'p access_deployment \<Rightarrow> db \<Rightarrow> session_row \<Rightarrow> machine_row \<Rightarrow> bool" where
  "target_current D d s m \<longleftrightarrow> m \<in> set (machines d) \<and> mc_id m = as_machineId s
     \<and> mc_accountId m = as_accountId s \<and> mc_version m = as_machineVersion s
     \<and> verified_guest (mc_state m) = Some (as_allocationId s, pin_imageManifestDigest (as_identityPin s))
     \<and> \<not> active_operation d (mc_id m)
     \<and> (case select_one (\<lambda>r. rs_machineId r = mc_id m) (restores d) of None \<Rightarrow> True | Some r \<Rightarrow> rs_restored r)
     \<and> (\<exists>a\<in>set (allocations d). al_id a = as_allocationId s \<and> al_accountId a = as_accountId s
          \<and> al_retiredAt a = None
          \<and> (\<exists>server ip. owned_pair (kindOf D) a (owned_resources d (as_accountId s) (al_id a)) = Some (server, ip)
               \<and> pin_serverId (as_identityPin s) = pr_providerId server
               \<and> pin_primaryIpId (as_identityPin s) = pr_providerId ip))"

definition connectable :: "'p access_deployment \<Rightarrow> db \<Rightarrow> instant \<Rightarrow> session_row \<Rightarrow> grant_row list \<Rightarrow> bool" where
  "connectable D d now s chain \<longleftrightarrow> chain \<noteq> [] \<and> lineage (grants d) (as_grantId s) chain \<and> length chain \<le> 32
     \<and> list_all (usable (as_accountId s) now) chain
     \<and> Machine_exec \<in> set (capabilities (gr_policy (hd chain)))
     \<and> as_gateway s = ac_gateway (ad_config D)
     \<and> (\<exists>m. target_current D d s m \<and> in_scope (policy_projects (gr_policy (hd chain))) (mc_projectId m))"

definition authority_end :: "grant_row list \<Rightarrow> instant" where
  "authority_end chain = Min (gr_expiresAt ` set chain)"

lemma authorize_Inr:
  "authorize p c (Some i) = Inr () \<Longrightarrow> c \<in> set (capabilities (policy p)) \<and> in_scope (policy_projects (policy p)) i"
  by (auto simp: authorize_def in_scope_def split: if_splits project_scope.splits)

lemma guestRecords_success:
  "guestRecords account allocation s = (Inr (a, spec, g), t) \<Longrightarrow>
     select_one (\<lambda>a. al_id a = allocation \<and> al_accountId a = account \<and> al_retiredAt a = None)
       (allocations (store s)) = Some a \<and> store t = store s"
  by (auto simp: guestRecords_def success split: option.splits)

lemma guestRecords_ticks:
  assumes "guestRecords account allocation s = (Inr x, t)"
  shows "ticks s \<le> ticks t"
  using staysD [OF footprint_guestRecords assms] by (simp add: footstep_def)

lemma loaded_chain:
  assumes "authority_of now grant (ancestry (grants d) grant 32) = Some au" "schema_ok d"
  obtains chain where "chain \<noteq> []" "lineage (grants d) grant chain" "length chain \<le> 32"
    "list_all (usable (accountId (au_principal au)) now) chain"
    "policy (au_principal au) = gr_policy (hd chain)" "au_expiresAt au = authority_end chain"
    "au_checkedAt au = now"
proof -
  obtain leaf rest where c: "lineage (grants d) grant (leaf # rest)" "length (leaf # rest) \<le> 32"
      "list_all (usable (gr_accountId leaf) now) (leaf # rest)"
      "au = \<lparr>au_principal = principal_of leaf, au_checkedAt = now,
         au_expiresAt = Min (gr_expiresAt ` set (leaf # rest)),
         au_delegationDepth = length (leaf # rest)\<rparr>"
    using assms(1) authority_iff [OF schema_grants [OF assms(2)]] by metis
  then have "accountId (au_principal au) = gr_accountId leaf" "policy (au_principal au) = gr_policy leaf"
    by (simp_all add: principal_of_def)
  with c show thesis by (intro that [of "leaf # rest"]) (simp_all add: authority_end_def)
qed

lemma current_success:
  assumes "current kind account grant machine s = (Inr cx, t)"
  obtains now m where "clock_read s t now"
    "authority_of now grant (ancestry (grants (store s)) grant 32) = Some (cx_authority cx)"
    "accountId (au_principal (cx_authority cx)) = account"
    "select_one (\<lambda>m. mc_id m = machine \<and> mc_accountId m = account) (machines (store s)) = Some m"
    "cx_machine cx = machineRecord m"
    "authorize (au_principal (cx_authority cx)) Machine_exec (Some (mc_projectId m)) = Inr ()"
    "case select_one (\<lambda>r. rs_machineId r = mc_id m) (restores (store s)) of
       None \<Rightarrow> True | Some r \<Rightarrow> rs_restored r"
    "verified_guest (mc_state m) = Some (al_id (cx_allocation cx), pin_imageManifestDigest (cx_pin cx))"
    "\<not> active_operation (store s) (mc_id m)"
    "cx_allocation cx \<in> set (allocations (store s))" "al_accountId (cx_allocation cx) = account"
    "al_retiredAt (cx_allocation cx) = None"
    "\<exists>server ip. owned_pair kind (cx_allocation cx)
        (owned_resources (store s) account (al_id (cx_allocation cx))) = Some (server, ip)
      \<and> pin_serverId (cx_pin cx) = pr_providerId server \<and> pin_primaryIpId (cx_pin cx) = pr_providerId ip"
    "bs_allocationId (cx_spec cx) = al_id (cx_allocation cx)"
    "pin_hostAlias (cx_pin cx) = hostAlias (al_id (cx_allocation cx))"
  using assms
  apply (clarsimp simp: current_def lockAccount_def ownMachine_def assertRestoreAccessible_def success
      Let_def split: prod.splits if_splits)
  apply (frule guestRecords_success)
  apply (drule guestRecords_ticks)
  subgoal for x au m
    by (intro that [of "clock_of (ticked s)" m])
       (auto simp: guest_supported_def pin_for_def intro!: clock_readI dest: select_one_SomeD [where xs = "allocations _"])
  done

lemma review_success:
  assumes "review D session s = (Inr cx, t)" "schema_ok (store s)"
  obtains chain where "connectable D (store s) (au_checkedAt (cx_authority cx)) session chain"
    "au_expiresAt (cx_authority cx) = authority_end chain" "store t = store s"
    "clock_read s t (au_checkedAt (cx_authority cx))"
proof -
  obtain u where u: "current (kindOf D) (as_accountId session) (as_grantId session) (as_machineId session) s
      = (Inr cx, u)"
    and same: "as_machineVersion session = mc_version (cx_machine cx)"
      "as_allocationId session = al_id (cx_allocation cx)" "as_identityPin session = cx_pin cx"
      "as_gateway session = ac_gateway (ad_config D)"
      "ticks u = ticks t"
    using assms(1) by (auto simp: review_def reviewed_def currentOf_def unchanged_def success)
  obtain now m where read: "clock_read s u now" and c:
    "authority_of now (as_grantId session) (ancestry (grants (store s)) (as_grantId session) 32)
       = Some (cx_authority cx)"
    "accountId (au_principal (cx_authority cx)) = as_accountId session"
    "select_one (\<lambda>m. mc_id m = as_machineId session \<and> mc_accountId m = as_accountId session)
       (machines (store s)) = Some m"
    "cx_machine cx = machineRecord m"
    "authorize (au_principal (cx_authority cx)) Machine_exec (Some (mc_projectId m)) = Inr ()"
    "case select_one (\<lambda>r. rs_machineId r = mc_id m) (restores (store s)) of
       None \<Rightarrow> True | Some r \<Rightarrow> rs_restored r"
    "verified_guest (mc_state m) = Some (al_id (cx_allocation cx), pin_imageManifestDigest (cx_pin cx))"
    "\<not> active_operation (store s) (mc_id m)"
    "cx_allocation cx \<in> set (allocations (store s))" "al_accountId (cx_allocation cx) = as_accountId session"
    "al_retiredAt (cx_allocation cx) = None"
    "\<exists>server ip. owned_pair (kindOf D) (cx_allocation cx)
        (owned_resources (store s) (as_accountId session) (al_id (cx_allocation cx))) = Some (server, ip)
      \<and> pin_serverId (cx_pin cx) = pr_providerId server \<and> pin_primaryIpId (cx_pin cx) = pr_providerId ip"
    by (rule current_success [OF u], rule that, assumption+)
  from loaded_chain [OF c(1) assms(2)] obtain chain where ch: "chain \<noteq> []"
      "lineage (grants (store s)) (as_grantId session) chain" "length chain \<le> 32"
      "list_all (usable (as_accountId session) now) chain"
      "policy (au_principal (cx_authority cx)) = gr_policy (hd chain)"
      "au_expiresAt (cx_authority cx) = authority_end chain" "au_checkedAt (cx_authority cx) = now"
    using c(2) by metis
  have "mc_version (machineRecord m) = mc_version m" by (simp add: machineRecord_def machine.defs)
  then have "target_current D (store s) session m"
    using c same select_one_SomeD [OF c(3)] by (auto simp: target_current_def intro!: bexI [of _ "cx_allocation cx"])
  with ch authorize_Inr [OF c(5)] same(4)
  have "connectable D (store s) (au_checkedAt (cx_authority cx)) session chain"
    by (auto simp: connectable_def)
  moreover have "clock_read s t now" using read same(5) by (simp add: clock_read_def)
  ultimately show thesis using ch review_silent [OF assms(1)] by (intro that) auto
qed

section \<open>Leases\<close>

text \<open>The instant \<open>now\<close> is the one at which the lease was measured; the laws below say that it is a
  reading of the database clock within the call.\<close>

definition leased :: "'p access_deployment \<Rightarrow> db \<Rightarrow> instant \<Rightarrow> string \<Rightarrow> string \<Rightarrow> session_row \<Rightarrow> gateway_lease \<Rightarrow> bool" where
  "leased D d now gateway connection session lease \<longleftrightarrow> session \<in> set (sessions d)
     \<and> held_by session gateway connection \<and> ls_sessionId lease = as_id session
     \<and> ls_connectionId lease = connection \<and> 0 < ls_remainingMs lease
     \<and> (\<exists>credential chain. as_issuance session = Iss_issued credential
          \<and> ls_target lease = is_target credential \<and> connectable D d now session chain
          \<and> now + ls_remainingMs lease = min (as_hardDeadline session) (authority_end chain))"

lemma validConnection_leased:
  assumes "validConnection D session c s = (Inr lease, t)" "schema_ok (store s)"
    and "session \<in> set (sessions (store s))"
  shows "\<exists>now. clock_read s t now \<and> store t = store s
    \<and> leased D (store s) now (gn_gatewayInstanceId c) (gn_connectionId c) session lease"
proof -
  obtain cx u credential where u: "review D session s = (Inr cx, u)"
      "as_issuance session = Iss_issued credential"
      "held_by session (gn_gatewayInstanceId c) (gn_connectionId c)"
      "0 < min (as_hardDeadline session) (au_expiresAt (cx_authority cx)) - au_checkedAt (cx_authority cx)"
      "lease = \<lparr>ls_sessionId = as_id session, ls_connectionId = gn_connectionId c,
         ls_remainingMs = min (as_hardDeadline session) (au_expiresAt (cx_authority cx))
           - au_checkedAt (cx_authority cx), ls_target = is_target credential\<rparr>" "t = u"
    using assms(1) by (cases "as_issuance session") (auto simp: validConnection_def success Let_def)
  from review_success [OF u(1) assms(2)] obtain chain where
      "connectable D (store s) (au_checkedAt (cx_authority cx)) session chain"
      "au_expiresAt (cx_authority cx) = authority_end chain" "store u = store s"
      "clock_read s u (au_checkedAt (cx_authority cx))" by metis
  with u assms(3) show ?thesis
    by (intro exI [of _ "au_checkedAt (cx_authority cx)"]) (auto simp: leased_def intro!: exI [of _ chain])
qed

lemma session_in_set: "session_in d i = Some r \<Longrightarrow> r \<in> set (sessions d) \<and> as_id r = i"
  by (auto simp: session_in_def dest: select_one_SomeD)

lemma locked_quiet:
  assumes "machineLocked m s = (Inr x, t)" "footprint UNIV m"
  obtains u where "m (opened (disturbed (ticked s))) = (Inr x, u)" "store t = store u"
    "access_quiet u t" "access_quiet s (opened (disturbed (ticked s)))" "access_quiet (opened (disturbed (ticked s))) u"
    "access_quiet s t"
proof -
  obtain u where u: "m (opened (disturbed (ticked s))) = (Inr x, u)"
      "t = (ticked u)\<lparr>began := began (disturbed (ticked s))\<rparr>"
    using lockedE [OF assms(1)] by metis
  moreover have "access_quiet (opened (disturbed (ticked s))) u"
    using staysD [OF access_footprint [OF assms(2)] u(1)] .
  moreover have "access_quiet s t" using staysD [OF access_locked [OF assms(2)] assms(1)] .
  moreover have "access_quiet u t" unfolding u(2) by (rule quiet_into(3))
  ultimately show thesis using quiet_into(2) by (intro that) auto
qed

lemma quiet_schema: "access_quiet s t \<Longrightarrow> schema_ok (store s) \<Longrightarrow> schema_ok (store t)"
  by (auto simp: access_quiet_def intro: changed_schema)

lemma checkOne_leased:
  assumes "checkOne D c s = (Inr lease, t)" "schema_ok (store s)"
  shows "\<exists>session now. as_id session = gn_sessionId c \<and> clock_read s t now
     \<and> leased D (store t) now (gn_gatewayInstanceId c) (gn_connectionId c) session lease"
proof -
  let ?m = "bind (readSession (gn_sessionId c)) (\<lambda>session. validConnection D session c)"
  obtain x v where v: "amid (readSession (gn_sessionId c)) s = (Inr x, v)" "machineLocked ?m v = (Inr lease, t)"
    using assms(1) by (auto simp: checkOne_def success)
  have "stays access_quiet (amid (readSession (gn_sessionId c)))" by (intro access_rules)
  note q = staysD [OF this v(1)]
  from quiet_schema [OF q assms(2)] have ok: "schema_ok (store v)" .
  have f: "footprint UNIV ?m" by (intro footprint_rules footprint_readSession footprint_validConnection)
  from locked_quiet [OF v(2) f] obtain u where u: "?m (opened (disturbed (ticked v))) = (Inr lease, u)"
      "store t = store u" "access_quiet u t" "access_quiet v (opened (disturbed (ticked v)))" by metis
  then obtain session where session: "session_in (store (opened (disturbed (ticked v)))) (gn_sessionId c) = Some session"
      "validConnection D session c (ticked (opened (disturbed (ticked v)))) = (Inr lease, u)"
    by (auto simp: success)
  have "schema_ok (store (ticked (opened (disturbed (ticked v)))))"
    using quiet_schema [OF u(4) ok] by simp
  from validConnection_leased [OF session(2) this] session_in_set [OF session(1)] u(2)
  obtain now where now: "clock_read (ticked (opened (disturbed (ticked v)))) u now"
      "leased D (store t) now (gn_gatewayInstanceId c) (gn_connectionId c) session lease" by auto
  have "access_quiet s (ticked (opened (disturbed (ticked v))))"
    using access.step_trans [OF access.step_trans [OF q u(4)] quiet_into(1)] .
  with now u(3) session_in_set [OF session(1)] show ?thesis by (blast intro: read_into)
qed

text \<open>Each lease of a check was connectable at a moment of the check.\<close>

lemma check_fold_leased:
  assumes "foldM (\<lambda>leases c. catch_cloud (bind (checkOne D c) (\<lambda>lease. ret (leases @ [lease])))
     (\<lambda>f. ret leases)) acc cs s = (Inr leases, t)" "schema_ok (store s)"
    and "lease \<in> set leases" "lease \<notin> set acc"
  shows "\<exists>c\<in>set cs. \<exists>d session now. changed (store s) d \<and> changed d (store t)
     \<and> as_id session = gn_sessionId c \<and> clock_read s t now
     \<and> leased D d now (gn_gatewayInstanceId c) (gn_connectionId c) session lease"
  using assms
proof (induction cs arbitrary: acc s)
  case (Cons c cs)
  let ?one = "\<lambda>acc. catch_cloud (bind (checkOne D c) (\<lambda>lease. ret (acc @ [lease]))) (\<lambda>f. ret acc)"
  let ?rest = "foldM (\<lambda>leases c. catch_cloud (bind (checkOne D c) (\<lambda>lease. ret (leases @ [lease])))
     (\<lambda>f. ret leases))"
  from Cons.prems(1) obtain acc' u where u: "?one acc s = (Inr acc', u)" "?rest acc' cs u = (Inr leases, t)"
    by (auto simp: success simp del: catch_cloud_success)
  have q: "access_quiet s u"
    using u(1) by (rule staysD [rotated]) (intro access_rules access_checkOne)
  have r: "access_quiet u t"
    using u(2) by (rule staysD [rotated]) (intro access_rules access_checkOne)
  have ok: "schema_ok (store u)" using quiet_schema [OF q Cons.prems(2)] .
  show ?case
  proof (cases "lease \<in> set acc'")
    case True
    with u(1) Cons.prems(4) have one: "checkOne D c s = (Inr lease, u)" by (auto simp: success)
    from checkOne_leased [OF this Cons.prems(2)] obtain session now where c: "as_id session = gn_sessionId c"
        "clock_read s u now" "leased D (store u) now (gn_gatewayInstanceId c) (gn_connectionId c) session lease"
      by blast
    have "clock_read s t now" using read_into [OF access.step_refl r c(2)] .
    with c q r show ?thesis
      by (intro bexI [of _ c] exI [of _ "store u"] exI [of _ session] exI [of _ now])
         (simp_all add: access_quiet_def)
  next
    case False
    from Cons.IH [OF u(2) ok Cons.prems(3) False] obtain c' d session now where c: "c' \<in> set cs"
        "changed (store u) d" "changed d (store t)" "as_id session = gn_sessionId c'" "clock_read u t now"
        "leased D d now (gn_gatewayInstanceId c') (gn_connectionId c') session lease" by blast
    moreover have "clock_read s t now" using read_into [OF q access.step_refl c(5)] .
    moreover have "changed (store s) d" using q c(2) by (simp add: access_quiet_def) (meson rtranclp_trans)
    ultimately show ?thesis by (intro bexI [of _ c'] exI [of _ d] exI [of _ session] exI [of _ now]) simp_all
  qed
qed (auto simp: success)

section \<open>Claims\<close>

lemma accepted_update_in:
  assumes "accepted (Update_sessions (\<lambda>s. as_id s = i) f) u n t" "session_in (store u) i = Some r"
  shows "f r \<in> set (sessions (store t))"
  using accepted_store [OF assms(1)] session_in_set [OF assms(2)]
  by (auto simp: in_update_where intro!: bexI [of _ r])

lemma claimTicket_leased:
  assumes "claimTicket D i r s = (Inr lease, t)" "schema_ok (store s)"
  obtains before session now where "session_in (store s) i = Some before"
    "as_connection before = Open_connection Unclaimed" "same_admission before session" "clock_read s t now"
    "leased D (store t) now (gc_gatewayInstanceId r) (gc_connectionId r) session lease"
proof -
  obtain before cx u n v where b: "session_in (store s) i = Some before"
      "review D before (ticked s) = (Inr cx, u)" "claimable (au_checkedAt (cx_authority cx)) before"
    and w: "accepted (Update_sessions (\<lambda>s. as_id s = i) (\<lambda>s. s\<lparr>as_connection := Open_connection
        (Claimed (gc_gatewayInstanceId r) (gc_connectionId r) (au_checkedAt (cx_authority cx)))\<rparr>)) u n v"
    and c: "validConnection D (before\<lparr>as_connection := Open_connection
        (Claimed (gc_gatewayInstanceId r) (gc_connectionId r) (au_checkedAt (cx_authority cx)))\<rparr>)
       \<lparr>gn_gatewayInstanceId = gc_gatewayInstanceId r, gn_connectionId = gc_connectionId r,
        gn_sessionId = as_id before\<rparr> v = (Inr lease, t)"
    using assms(1) by (auto simp: claimTicket_def success Let_def)
  have "store u = store s" using review_silent [OF b(2)] by simp
  then have "session_in (store u) i = Some before" using b(1) by simp
  note row = accepted_update_in [OF w this]
  have "schema_ok (store v)" using accepted_store [OF w] by blast
  from validConnection_leased [OF c this row] obtain now where l: "clock_read v t now" "store t = store v"
      "leased D (store t) now (gc_gatewayInstanceId r) (gc_connectionId r) (before\<lparr>as_connection := Open_connection
        (Claimed (gc_gatewayInstanceId r) (gc_connectionId r) (au_checkedAt (cx_authority cx)))\<rparr>) lease"
    by auto
  have "footstep {} (ticked s) u" using staysD [OF footprint_review b(2)] .
  with accepted_fields [OF w] have "clock_read s t now"
    by (intro clock_read_within [OF l(1)]) (simp_all add: footstep_def)
  with l(3) b show thesis
    by (intro that [OF b(1)]) (auto simp: claimable_def open_unclaimed_def same_admission_def)
qed

lemma session_unique:
  assumes "schema_ok d" "x \<in> set (sessions d)" "y \<in> set (sessions d)"
  shows "as_id x = as_id y \<Longrightarrow> x = y" "as_ticketHash x = as_ticketHash y \<Longrightarrow> x = y"
  using assms by (auto simp: schema_ok_def sessions_ok_def unique_by_def distinct_map inj_on_eq_iff)

lemma claim_steps:
  assumes "claim D r s = (Inr lease, t)" "schema_ok (store s)"
  obtains original before session d now where
    "original \<in> set (sessions (store (disturbed s)))"
    "as_ticketHash original = ad_sha256 D (gc_ticket r)" "changed (store (disturbed s)) d"
    "schema_ok d" "before \<in> set (sessions d)" "as_id before = as_id original"
    "as_connection before = Open_connection Unclaimed" "same_admission before session"
    "changed d (store t)" "clock_read s t now"
    "leased D (store t) now (gc_gatewayInstanceId r) (gc_connectionId r) session lease"
proof -
  obtain original cx v1 v2 v3 y address where o:
      "select_one (\<lambda>s. as_ticketHash s = ad_sha256 D (gc_ticket r)) (sessions (store (disturbed s))) = Some original"
      "machineLocked (review D original) (ticked (disturbed s)) = (Inr cx, v1)"
      "contact (ad_checkNetwork D) v1 = (Inr y, v2)"
      "observeGuest (ad_provider D) (cx_allocation cx) (cx_spec cx) v2 = (Inr address, v3)"
      "machineLocked (claimTicket D (as_id original) r) v3 = (Inr lease, t)"
    using assms(1) by (auto simp: claim_def amid_def success accessSessionRecord_def split: if_splits)
  have q: "access_quiet (disturbed s) v3"
    using quiet_into(1) staysD [OF access_locked [OF footprint_review] o(2)] staysD [OF access_contact o(3)]
      staysD [OF access_observeGuest o(4)] by (meson access.step_trans)
  let ?w = "opened (disturbed (ticked v3))"
  from locked_quiet [OF o(5) footprint_claimTicket] obtain u where u:
      "claimTicket D (as_id original) r ?w = (Inr lease, u)" "store t = store u" "access_quiet v3 ?w"
      "access_quiet ?w u" "access_quiet u t" by metis
  have w: "access_quiet (disturbed s) ?w" using q u(3) by (rule access.step_trans)
  note into = access.step_trans [OF disturbed_quiet w]
  note w
  moreover from this have ok: "schema_ok (store ?w)"
    using quiet_schema [OF _ quiet_schema [OF disturbed_quiet assms(2)]] by blast
  moreover obtain before session now where "session_in (store ?w) (as_id original) = Some before"
    "as_connection before = Open_connection Unclaimed" "same_admission before session" "clock_read ?w u now"
    "leased D (store u) now (gc_gatewayInstanceId r) (gc_connectionId r) session lease"
    by (rule claimTicket_leased [OF u(1) ok])
  ultimately show thesis
    using select_one_SomeD [OF o(1)] session_in_set u read_into [OF into u(5)]
    by (intro that [of original "store ?w" before session now]) (auto simp: access_quiet_def)
qed

section \<open>Admission\<close>

definition own_sessions :: "id \<Rightarrow> db \<Rightarrow> session_row list" where
  "own_sessions account d = filter (\<lambda>s. as_accountId s = account) (sessions d)"

definition within_quotas :: "id \<Rightarrow> id \<Rightarrow> instant \<Rightarrow> db \<Rightarrow> bool" where
  "within_quotas account grant now d \<longleftrightarrow> (let own = own_sessions account d in
     length (filter (recent now) own) \<le> 60
     \<and> length (filter (\<lambda>s. as_grantId s = grant \<and> recent now s) own) \<le> 30
     \<and> length (filter (reserving now) own) \<le> 20
     \<and> length (filter (\<lambda>s. as_grantId s = grant \<and> reserving now s) own) \<le> 4)"

text \<open>The window of the admission query loses no reservation.\<close>

lemma reserved_in_window:
  assumes "accessSession_refined s" "reserving now s"
  shows "recent now s \<or> now < as_hardDeadline s"
proof (cases "as_connection s = Open_connection (claim_of (as_connection s)) \<and> claim_of (as_connection s) \<noteq> Unclaimed")
  case True
  then obtain g c t where "as_connection s = Open_connection (Claimed g c t)"
    by (metis access_claim.exhaust)
  with assms(2) show ?thesis by (simp add: reserving_def reserved_until_def)
next
  case False
  with assms(2) have until: "now < (case as_issuance s of
      Iss_issued c \<Rightarrow> is_ticketDeadline c | _ \<Rightarrow> as_issueDeadline s)"
    by (auto simp: reserving_def reserved_until_def split: access_connection.splits access_claim.splits)
  show ?thesis
  proof (cases "as_issuance s")
    case (Iss_issued c)
    with until assms(1) show ?thesis
      by (auto simp: accessSession_refined_def issuance_ok_def credential_ok_def issue_limit_def)
  qed (use until assms(1) in \<open>auto simp: accessSession_refined_def deadlines_ok_def recent_def\<close>)
qed

lemma counted_recent:
  "filter (\<lambda>s. Q s \<and> recent now s) (counted account now d) = filter (\<lambda>s. Q s \<and> recent now s) (own_sessions account d)"
  by (auto simp: counted_def own_sessions_def intro!: filter_cong)

lemma counted_reserved:
  assumes "sessions_valid d"
  shows "filter (\<lambda>s. Q s \<and> reserving now s) (counted account now d)
     = filter (\<lambda>s. Q s \<and> reserving now s) (own_sessions account d)"
  using assms reserved_in_window
  by (auto simp: counted_def own_sessions_def sessions_valid_def list_all_iff intro!: filter_cong)

lemma quotas_after:
  assumes "sessions_valid d" "rate_free grant now (counted account now d)"
    and "slots_free grant now (counted account now d)" "sessions d' = sessions d @ [session]"
  shows "within_quotas account grant now d'"
proof -
  have one: "length (filter P (own_sessions account d')) \<le> Suc (length (filter P (own_sessions account d)))" for P
    using assms(4) by (simp add: own_sessions_def)
  have r: "length (filter (\<lambda>s. Q s \<and> recent now s) (own_sessions account d)) = 
      length (filter (\<lambda>s. Q s \<and> recent now s) (counted account now d))" for Q
    by (simp add: counted_recent)
  have v: "length (filter (\<lambda>s. Q s \<and> reserving now s) (own_sessions account d)) = 
      length (filter (\<lambda>s. Q s \<and> reserving now s) (counted account now d))" for Q
    by (simp add: counted_reserved [OF assms(1)])
  show ?thesis
    using assms(2,3) one [of "recent now"] one [of "\<lambda>s. as_grantId s = grant \<and> recent now s"]
      one [of "reserving now"] one [of "\<lambda>s. as_grantId s = grant \<and> reserving now s"]
      r [of "\<lambda>_. True"] r [of "\<lambda>s. as_grantId s = grant"] v [of "\<lambda>_. True"] v [of "\<lambda>s. as_grantId s = grant"]
    by (simp add: within_quotas_def rate_free_def slots_free_def)
qed

lemma newAccess_success:
  assumes "newAccess config kind p machine r key fp s = (Inr view, t)" "schema_ok (store s)"
    and "sessions_valid (store s)"
  obtains session chain where "view = publicSession session"
    "sessions (store t) = sessions (store s) @ [session]"
    "as_accountId session = accountId p" "as_grantId session = grantId p" "as_machineId session = machine"
    "as_requestKey session = key" "as_fingerprint session = fp" "as_ticketHash session = ar_ticketHash r"
    "as_publicKey session = ar_publicKey r" "as_issuance session = Iss_pending"
    "lineage (grants (store s)) (grantId p) chain" "list_all (usable (accountId p) (as_admittedAt session)) chain"
    "Machine_exec \<in> set (capabilities (gr_policy (hd chain)))"
    "as_admittedAt session + 10000 \<le> as_hardDeadline session"
    "as_hardDeadline session = min (as_admittedAt session + 3600000) (authority_end chain)"
    "within_quotas (accountId p) (grantId p) (as_admittedAt session) (store t)"
    "as_id session \<in> set (access_jobs (store t))"
proof -
  obtain cx u i n m w where n:
      "current kind (accountId p) (grantId p) machine s = (Inr cx, u)"
      "10000 \<le> min (au_checkedAt (cx_authority cx) + 3600000) (au_expiresAt (cx_authority cx))
         - au_checkedAt (cx_authority cx)"
      "rate_free (grantId p) (au_checkedAt (cx_authority cx))
         (counted (accountId p) (au_checkedAt (cx_authority cx)) (store u))"
      "slots_free (grantId p) (au_checkedAt (cx_authority cx))
         (counted (accountId p) (au_checkedAt (cx_authority cx)) (store u))"
    and w: "accepted (Insert_session (new_session config p machine r key fp cx
         (min (au_checkedAt (cx_authority cx) + 3600000) (au_expiresAt (cx_authority cx))) i))
         (ticked (ticked (ticked u))) n w"
      "accepted (Enqueue_access i) w m t"
      "view = publicSession (new_session config p machine r key fp cx
         (min (au_checkedAt (cx_authority cx) + 3600000) (au_expiresAt (cx_authority cx))) i)"
    using assms(1)
    by (auto simp: newAccess_def success Let_def throwRetryable_def enqueueAccess_def split: if_splits)
  let ?session = "new_session config p machine r key fp cx
         (min (au_checkedAt (cx_authority cx) + 3600000) (au_expiresAt (cx_authority cx))) i"
  have u: "store u = store s" using silent_store [OF footprint_current n(1)] .
  obtain now and m :: machine_row where c:
      "authority_of now (grantId p) (ancestry (grants (store s)) (grantId p) 32) = Some (cx_authority cx)"
      "accountId (au_principal (cx_authority cx)) = accountId p"
      "authorize (au_principal (cx_authority cx)) Machine_exec (Some (mc_projectId m)) = Inr ()"
    by (rule current_success [OF n(1)], rule that, assumption+)
  from loaded_chain [OF c(1) assms(2)] obtain chain where ch:
      "lineage (grants (store s)) (grantId p) chain" "list_all (usable (accountId p) now) chain"
      "policy (au_principal (cx_authority cx)) = gr_policy (hd chain)"
      "au_expiresAt (cx_authority cx) = authority_end chain" "au_checkedAt (cx_authority cx) = now"
    using c(2) by metis
  have t: "sessions (store t) = sessions (store s) @ [?session]" "i \<in> set (access_jobs (store t))"
    using accepted_store [OF w(1)] accepted_store [OF w(2)] u by (auto simp: new_session_def)
  show thesis
    using ch authorize_Inr [OF c(3)] n(2-4) t w(3) u quotas_after [OF assms(3) _ _ t(1)]
    by (intro that [of ?session chain]) (simp_all add: new_session_def Let_def)
qed

end
