(* ===== verification/Access_Control.thy ===== *)
theory Access_Control
  imports Access_Leases
begin

text \<open>
  The routes and tasks of access sessions as one step: whatever handler runs, with whatever faults,
  deaths and rivals, the database changes by accepted statements only. \<open>access_reachable\<close> is what a
  process can come to by handling calls one after the other.
\<close>

section \<open>Handlers\<close>

text \<open>The routes carry their authorization header; the tasks carry their payload.\<close>

datatype access_call =
    Ask_session "string option" string access_request string
  | Look_session "string option" string
  | Gateway_claim "string option" gateway_claim
  | Gateway_check "string option" "gateway_connection list"
  | Gateway_close "string option" gateway_connection close_reason
  | Issue_task string
  | Reconcile_task

fun access_handle :: "'p access_deployment \<Rightarrow> access_call \<Rightarrow> 'p access_world \<Rightarrow> 'p access_world" where
  "access_handle D (Ask_session h machine r key) s = snd (asCustomer D h (postAccessSession D machine r key) s)"
| "access_handle D (Look_session h i) s = snd (asCustomer D h (getAccessSession i) s)"
| "access_handle D (Gateway_claim h r) s = snd (asGateway D h (postClaim D r) s)"
| "access_handle D (Gateway_check h cs) s = snd (asGateway D h (postCheck D cs) s)"
| "access_handle D (Gateway_close h c reason) s = snd (asGateway D h (postClose D c reason) s)"
| "access_handle D (Issue_task payload) s = snd (issueAccessTask D payload s)"
| "access_handle D Reconcile_task s = snd (reconcileAccess s)"

text \<open>Between two calls the provider and the surroundings may change.\<close>

inductive access_reachable :: "'p access_deployment \<Rightarrow> 'p access_world \<Rightarrow> bool" for D where
  start: "schema_ok (store s) \<Longrightarrow> sessions_valid (store s) \<Longrightarrow> signings s = [] \<Longrightarrow> access_reachable D s"
| handle: "access_reachable D s \<Longrightarrow> access_reachable D (access_handle D c s)"
| elapse: "access_reachable D s \<Longrightarrow>
    access_reachable D (s\<lparr>outside := o', rivals := rs, fleet := p\<rparr>)"

inductive_cases access_reachableE: "access_reachable D s"

section \<open>Quiet routes\<close>

lemma access_customer:
  assumes "\<And>p. stays access_quiet (route p)"
  shows "stays access_quiet (asCustomer D h route)"
  unfolding asCustomer_def by (intro access_rules access_footprint footprint_authenticate assms)

lemma access_gateway_route: "stays access_quiet route \<Longrightarrow> stays access_quiet (asGateway D h route)"
  unfolding asGateway_def by (intro access_rules)

lemma access_routes:
  "stays access_quiet (postAccessSession D machine r key p)" "stays access_quiet (getAccessSession i p)"
  "stays access_quiet (postClaim D claim')" "stays access_quiet (postCheck D cs)"
  "stays access_quiet (postClose D c reason)" "stays access_quiet reconcileAccess"
  unfolding postAccessSession_def getAccessSession_def postClaim_def postCheck_def postClose_def
    reconcileAccess_def parsedId_def parsedKey_def
  by (intro access_rules access_admit access_inspect access_claim access_check access_closeAccess
      access_enqueue)+

lemma quiet_handle:
  "(\<forall>payload. c \<noteq> Issue_task payload) \<Longrightarrow> access_quiet s (access_handle D c s)"
  by (cases c; simp) (rule stays_def [THEN iffD1, rule_format],
      rule access_customer access_gateway_route access_routes, (rule access_routes)?)+

section \<open>Issuing\<close>

lemma asked_environment:
  "asked_once (s\<lparr>session_lock := lk\<rparr>) = asked_once s"
  "asked_once (s\<lparr>outside := o', rivals := rs, fleet := p\<rparr>) = asked_once s"
  by (simp_all add: asked_once_def)

lemma issue_asked:
  assumes "asked_once s"
  shows "asked_once (snd (issue D i s))"
  unfolding issue_def withAccessSessionLock_def
proof (rule bind_asked)
  have q: "stays access_quiet tryLock" by (rule access_footprint [OF footprint_tryLock])
  show "asked_once (snd (tryLock s))" by (intro quiet_asked_snd q assms)
  fix x t assume "tryLock s = (Inr x, t)"
  then have t: "asked_once t" using quiet_asked [OF staysD [OF q] assms] by metis
  have "asked_once (snd (bind (issueLocked D i) (\<lambda>x. ret (Some x)) (t\<lparr>session_lock := Some i\<rparr>)))"
    by (rule bind_asked) (use t in \<open>auto simp: asked_environment ret_def intro: issueLocked_asked\<close>,
        metis asked_environment(1) issueLocked_asked snd_conv)
  with t show "asked_once (snd ((if x then \<lambda>s. case bind (issueLocked D i) (\<lambda>x. ret (Some x))
      (s\<lparr>session_lock := Some i\<rparr>) of (r, t) \<Rightarrow> (r, t\<lparr>session_lock := None\<rparr>) else ret None) t))"
    by (auto simp: ret_def asked_environment split: prod.splits)
qed

lemma issueAccessTask_asked:
  assumes "asked_once s"
  shows "asked_once (snd (issueAccessTask D payload s))"
  unfolding issueAccessTask_def parsedId_def
proof (rule bind_asked)
  have q: "stays access_quiet (parsed x)" for x :: "'x option" by (rule access.parsed)
  show "asked_once (snd (parsed (if id_ok Access_session_id payload then Some payload else None) s))"
    by (intro quiet_asked_snd q assms)
  fix i t assume "parsed (if id_ok Access_session_id payload then Some payload else None) s = (Inr i, t)"
  then have t: "asked_once t" using quiet_asked [OF staysD [OF q] assms] by metis
  have rest: "stays access_quiet (bind (amid (query (\<lambda>d. session_in d i))) (\<lambda>row.
     if (case row of None \<Rightarrow> False | Some s \<Rightarrow> unissued (as_issuance s))
     then bind (amid databaseTime) (\<lambda>now. bind (amid (enqueueAccess i)) (\<lambda>_. ret (Some (now + 1000))))
     else ret None))"
    by (intro access_rules access_enqueue)
  show "asked_once (snd (bind (issue D i) (\<lambda>_. bind (amid (query (\<lambda>d. session_in d i))) (\<lambda>row.
     if (case row of None \<Rightarrow> False | Some s \<Rightarrow> unissued (as_issuance s))
     then bind (amid databaseTime) (\<lambda>now. bind (amid (enqueueAccess i)) (\<lambda>_. ret (Some (now + 1000))))
     else ret None)) t))"
  proof (rule bind_asked)
    show "asked_once (snd (issue D i t))" using t by (rule issue_asked)
    then show "asked_once (snd (bind (amid (query (\<lambda>d. session_in d i))) (\<lambda>row.
       if (case row of None \<Rightarrow> False | Some s \<Rightarrow> unissued (as_issuance s))
       then bind (amid databaseTime) (\<lambda>now. bind (amid (enqueueAccess i)) (\<lambda>_. ret (Some (now + 1000))))
       else ret None) u))" if "issue D i t = (Inr y, u)" for y u
      using that by (intro quiet_asked_snd rest) simp
  qed
qed

lemma reachable_asked: "access_reachable D s \<Longrightarrow> asked_once s"
proof (induction rule: access_reachable.induct)
  case (handle s c)
  show ?case
  proof (cases "\<exists>payload. c = Issue_task payload")
    case True
    with handle show ?thesis by (auto intro: issueAccessTask_asked)
  qed (use handle in \<open>auto intro: quiet_asked [OF quiet_handle]\<close>)
qed (auto simp: asked_environment, simp add: asked_once_def)

section \<open>Changes of the database\<close>

definition access_changes :: "'p access_world \<Rightarrow> 'p access_world \<Rightarrow> bool" where
  "access_changes s s' \<longleftrightarrow> changed (store s) (store s')"

interpretation changing: step_relation access_changes
  by unfold_locales (auto simp: access_changes_def)

lemma quiet_changes: "stays access_quiet m \<Longrightarrow> stays access_changes m"
  by (erule stays_mono) (simp add: access_quiet_def access_changes_def)

lemma sign_changes: "stays access_changes (sign D session authority)"
  unfolding sign_def returned_def
  by (intro changing.bind quiet_changes [OF access_footprint [OF footprint_reply]])
     (auto simp: stays_def access_changes_def prim_def Let_def raise_def ret_def split: sum.splits prod.splits)

lemmas changing_rules = changing.rules sign_changes
  quiet_changes [OF access_contact] quiet_changes [OF access_observed]
  quiet_changes [OF access_locked [OF footprint_recordAttempt]]
  quiet_changes [OF access_locked [OF footprint_prepareSigning]]
  quiet_changes [OF access_locked [OF footprint_publishResult]]
  quiet_changes [OF access_amid [OF access_footprint [OF footprint_readSession]]]
  quiet_changes [OF access_amid [OF access_enqueue]]
  quiet_changes [OF access_amid [OF access_footprint [OF footprint_query]]]
  quiet_changes [OF access_amid [OF access_footprint [OF footprint_databaseTime]]]
  quiet_changes [OF access_footprint [OF footprint_tryLock]]

lemma issueLocked_changes: "stays access_changes (issueLocked D i)"
  unfolding issueLocked_def signAttempt_def
  by (intro changing_rules prod_split)

lemma lock_changes:
  assumes "stays access_changes m"
  shows "stays access_changes (withAccessSessionLock i m)"
  unfolding withAccessSessionLock_def
proof (rule changing.bind)
  show "stays access_changes tryLock" by (rule changing_rules)
  fix x
  have m: "stays access_changes (bind m (\<lambda>x. ret (Some x)))" by (intro changing_rules assms)
  show "stays access_changes (if x then \<lambda>s. case bind m (\<lambda>x. ret (Some x)) (s\<lparr>session_lock := Some i\<rparr>) of
      (r, t) \<Rightarrow> (r, t\<lparr>session_lock := None\<rparr>) else ret None)"
  proof (rule staysI)
    fix s :: "'a access_world"
    obtain r t where t: "bind m (\<lambda>x. ret (Some x)) (s\<lparr>session_lock := Some i\<rparr>) = (r, t)" by fastforce
    with staysD [OF m t] show "access_changes s (snd ((if x then \<lambda>s. case bind m (\<lambda>x. ret (Some x))
        (s\<lparr>session_lock := Some i\<rparr>) of (r, t) \<Rightarrow> (r, t\<lparr>session_lock := None\<rparr>) else ret None) s))"
      by (simp add: access_changes_def ret_def)
  qed
qed

lemma handle_changes: "changed (store s) (store (access_handle D c s))"
proof (cases "\<exists>payload. c = Issue_task payload")
  case True
  then obtain payload where c: "c = Issue_task payload" by blast
  have "stays access_changes (issueAccessTask D payload)"
    unfolding issueAccessTask_def parsedId_def issue_def
    by (intro changing_rules lock_changes issueLocked_changes)
  with c show ?thesis by (simp add: stays_def access_changes_def)
next
  case False
  then show ?thesis using quiet_handle [of c s D] by (simp add: access_quiet_def)
qed

lemma reachable_valid: "access_reachable D s \<Longrightarrow> schema_ok (store s) \<and> sessions_valid (store s)"
  by (induction rule: access_reachable.induct)
     (auto intro: changed_schema [OF handle_changes] changed_valid [OF handle_changes])

end
