(* ===== verification/Access_Examples.thy ===== *)
theory Access_Examples
  imports Access_Leases Examples
begin

text \<open>
  A deployment with one verified machine, its credential lineage, its guest records, a provider
  that shows its server and address and an authority that certifies what it is asked, and the
  runs the witnesses evaluate: a session is admitted, signed, claimed and checked.
\<close>

section \<open>The deployment\<close>

definition gate_key :: string where
  "gate_key = ''ssh-ed25519 AAAAC3NzaC1lZDI1NTE5AAAAIAAAAAAAAAAAAAAAAAAAAAAAAAAAAAAAAAAAAAAAAAAA''"

definition gate_allocation :: id where
  "gate_allocation = ''alloc_00000000-0000-4000-8000-000000000000''"

definition gate_owner :: id where
  "gate_owner = ''acc_00000000-0000-4000-8000-000000000011''"

definition gate_project :: id where
  "gate_project = ''prj_00000000-0000-4000-8000-000000000012''"

definition gate_box :: id where
  "gate_box = ''vm_00000000-0000-4000-8000-000000000013''"

definition gate_root :: id where
  "gate_root = ''grant_00000000-0000-4000-8000-000000000014''"

definition gate_leaf :: id where
  "gate_leaf = ''grant_00000000-0000-4000-8000-000000000015''"

definition gate_session :: id where
  "gate_session = ''access_00000000-0000-4000-8000-000000000001''"

definition gate_digest :: string where
  "gate_digest = replicate 64 (CHR ''0'')"

definition gate_instance :: string where
  "gate_instance = ''00000000-0000-4000-8000-000000000002''"

definition gate_policy :: grant_policy where
  "gate_policy = demo_policy\<lparr>capabilities := [Machine_exec]\<rparr>"

definition gate_account :: account_row where
  "gate_account = demo_account\<lparr>acc_id := gate_owner\<rparr>"

definition gate_grant :: "id \<Rightarrow> id option \<Rightarrow> instant \<Rightarrow> grant_row" where
  "gate_grant i parent expires = (demo_grant i parent gate_policy expires)\<lparr>gr_accountId := gate_owner\<rparr>"

definition gate_item :: catalog_item where
  "gate_item = simulated_item ''EUR'' Nbg1 (Small, ''cx23'', 2, 4, 40, 9600)"

definition gate_machine :: machine_row where
  "gate_machine = demo_machine\<lparr>mc_id := gate_box, mc_accountId := gate_owner, mc_projectId := gate_project, mc_state := Allocated gate_allocation ''srv'' Power_running
     (Guest_ssh 500 ''v1'' gate_digest ''boot'') Backup_disabled\<rparr>"

definition gate_allocation_row :: allocation_row where
  "gate_allocation_row = demo_allocation\<lparr>al_id := gate_allocation, al_accountId := gate_owner,
     al_machineId := gate_box, al_offer := Some gate_item\<rparr>"

definition gate_spec :: bootstrap_spec where
  "gate_spec = \<lparr>bs_accountId = gate_owner, bs_machineId = gate_box, bs_allocationId = gate_allocation,
     bs_operationId = ''op'', bs_image = \<lparr>gm_manifestDigest = gate_digest, gm_sshHostCa = gate_key,
       gm_customerSsh = True\<rparr>\<rparr>"

definition gate_resource :: "resource_kind \<Rightarrow> string \<Rightarrow> resource_row" where
  "gate_resource kind i = \<lparr>pr_provider = Hetzner, pr_kind = kind, pr_providerId = i,
     pr_accountId = gate_owner, pr_allocationId = gate_allocation, pr_labels = guest_labels gate_spec,
     pr_absentAt = None, pr_createdAt = 0\<rparr>"

definition gate_gateway :: access_gateway where
  "gate_gateway = \<lparr>gw_id = ''gate'', gw_origin = ''wss://gate.example'',
     gw_egressCidrs = [''192.0.2.0/24'']\<rparr>"

definition gate_pin :: identity_pin where
  "gate_pin = \<lparr>pin_provider = Hetzner, pin_serverId = ''srv'', pin_primaryIpId = ''ip'',
     pin_hostAlias = hostAlias gate_allocation, pin_sshHostCa = gate_key,
     pin_guestHostPublicKey = gate_key, pin_imageManifestDigest = gate_digest\<rparr>"

definition gate_row :: "access_issuance \<Rightarrow> access_connection \<Rightarrow> session_row" where
  "gate_row issuance connection = \<lparr>as_id = gate_session, as_accountId = gate_owner,
     as_projectId = gate_project, as_grantId = gate_leaf, as_machineId = gate_box,
     as_allocationId = gate_allocation, as_machineVersion = 3, as_requestKey = ''request-00001'',
     as_fingerprint = gate_digest, as_publicKey = gate_key, as_ticketHash = gate_digest,
     as_identityPin = gate_pin, as_gateway = gate_gateway, as_admittedAt = 2000,
     as_issueDeadline = 92000, as_hardDeadline = 3602000, as_issuance = issuance,
     as_connection = connection\<rparr>"

definition gate_db :: "session_row list \<Rightarrow> (id \<times> instant) list \<Rightarrow> db" where
  "gate_db rows receipts = demo_db\<lparr>accounts := [gate_account],
     projects := [\<lparr>prj_id = gate_project, prj_accountId = gate_owner, prj_name = ''demo'', prj_createdAt = 0\<rparr>],
     grants := [gate_grant gate_root None 9000000, gate_grant gate_leaf (Some gate_root) 8000000],
     machines := [gate_machine], allocations := [gate_allocation_row],
     resources := [gate_resource Server ''srv'', gate_resource Primary_ip ''ip''],
     guest_bootstraps := [\<lparr>gb_allocationId = gate_allocation, gb_spec = gate_spec\<rparr>],
     guest_identities := [\<lparr>gid_allocationId = gate_allocation, gid_issued = True,
       gid_sshHostPublicKey = gate_key\<rparr>],
     sessions := rows, signing_receipts := receipts\<rparr>"

section \<open>Its surroundings\<close>

definition gate_server :: provider_server where
  "gate_server = \<lparr>srv_id = ''srv'', srv_name = ''srv'', srv_serverType = ''cx23'', srv_region = ''nbg1'',
     srv_power = Power_running, srv_labels = guest_labels gate_spec, srv_ipv4 = Some ''192.0.2.7'',
     srv_primaryIpId = Some ''ip'', srv_backupStatus = Backup_disabled\<rparr>"

definition gate_ip :: provider_primary_ip where
  "gate_ip = \<lparr>ip_id = ''ip'', ip_name = ''ip'', ip_region = ''nbg1'', ip_ipv4 = ''192.0.2.7'',
     ip_labels = guest_labels gate_spec, ip_autoDelete = False, ip_assignment = Assigned_server ''srv''\<rparr>"

definition gate_provider :: "unit machine_provider" where
  "gate_provider = \<lparr>mp_kind = Hetzner, mp_getCatalog = (\<lambda>now p. (Inl Defect, p)),
     mp_submit = (\<lambda>i c now p. (Inl Defect, p)), mp_getAction = (\<lambda>a now p. (Inl Defect, p)),
     mp_getServer = (\<lambda>i now p. (Inr (Some gate_server), p)),
     mp_findServers = (\<lambda>ls now p. (Inr [], p)),
     mp_getPrimaryIp = (\<lambda>i now p. (Inr (Some gate_ip), p)),
     mp_findPrimaryIps = (\<lambda>ls now p. (Inr [], p))\<rparr>"

definition gate_inspection :: "ssh_claim \<Rightarrow> certificate_inspection" where
  "gate_inspection c = \<lparr>ci_type = ''user'', ci_keyName = ''ssh-ed25519-cert-v01@openssh.com'',
     ci_keyFingerprint = '''', ci_signingKeyFingerprint = '''', ci_keyId = sc_keyId c,
     ci_principals = [sc_principal c], ci_validAfter = sc_validAfter c,
     ci_validBefore = sc_validBefore c,
     ci_criticalOptions = [(''source-address'', joined (sc_sourceAddresses c))],
     ci_extensions = [(''permit-pty'', '''')]\<rparr>"

definition gate_deployment :: "unit access_deployment" where
  "gate_deployment = \<lparr>ad_sha256 = (\<lambda>_. gate_digest),
     ad_config = \<lparr>ac_gateway = gate_gateway, ac_tokenHash = gate_digest\<rparr>,
     ad_provider = gate_provider, ad_checkNetwork = (\<lambda>now p. (Inr (), p)),
     ad_signer = (\<lambda>now p. (Inr (), p)),
     ad_ca = (\<lambda>c now p. (Ca_certificate ''AAAA'' (gate_inspection c), p)),
     ad_fingerprint = (\<lambda>_. ''''), ad_userCa = ''''\<rparr>"

definition gate_outside :: outside where
  "gate_outside = calm\<lparr>or_uuid := (\<lambda>_. ''00000000-0000-4000-8000-000000000001''), or_clock := (\<lambda>_. 2000), or_wall := (\<lambda>_. 2000)\<rparr>"

section \<open>Evaluation\<close>

text \<open>The runs below are evaluated with the texts (keys, digests, identifiers) kept folded.\<close>

lemma gate_environment [simp]:
  "or_clock gate_outside i = 2000" "or_wall gate_outside i = 2000" "\<not> or_fault gate_outside i"
  "or_uuid gate_outside i = ''00000000-0000-4000-8000-000000000001''"
  "\<not> or_lost gate_outside i" "\<not> or_dies gate_outside i" "\<not> or_busy gate_outside i"
  by (simp_all add: gate_outside_def calm_def)

lemma gate_tables [simp]:
  "machines (gate_db ss rs) = [gate_machine]" "allocations (gate_db ss rs) = [gate_allocation_row]"
  "accounts (gate_db ss rs) = [gate_account]" "operations (gate_db ss rs) = []"
  "restores (gate_db ss rs) = []"
  "guest_bootstraps (gate_db ss rs) = [\<lparr>gb_allocationId = gate_allocation, gb_spec = gate_spec\<rparr>]"
  "guest_identities (gate_db ss rs) = [\<lparr>gid_allocationId = gate_allocation, gid_issued = True,
     gid_sshHostPublicKey = gate_key\<rparr>]"
  "resources (gate_db ss rs) = [gate_resource Server ''srv'', gate_resource Primary_ip ''ip'']"
  "sessions (gate_db ss rs) = ss"
  by (simp_all add: gate_db_def demo_db_def empty_db_def)

definition gate_chain :: "grant_row list" where
  "gate_chain = [gate_grant gate_leaf (Some gate_root) 8000000, gate_grant gate_root None 9000000]"

definition gate_authority :: authority where
  "gate_authority = \<lparr>au_principal = \<lparr>accountId = gate_owner, grantId = gate_leaf, policy = gate_policy\<rparr>,
     au_checkedAt = 2000, au_expiresAt = 8000000, au_delegationDepth = 2\<rparr>"

lemma gate_grants [simp]: "gate_root \<noteq> gate_leaf" "gate_leaf \<noteq> gate_root"
  by (simp_all add: gate_root_def gate_leaf_def)

lemma gate_ancestry [simp]: "ancestry (grants (gate_db ss rs)) gate_leaf 32 = gate_chain"
  by (simp add: gate_db_def gate_chain_def gate_grant_def demo_grant_def numeral_eq_Suc)

lemma gate_authority_of [simp]: "authority_of 2000 gate_leaf gate_chain = Some gate_authority"
  by (simp add: gate_chain_def gate_authority_def authority_of_def gate_grant_def demo_grant_def principal_of_def)

lemma gate_pin_ok [simp]: "accessIdentityPin_ok gate_pin"
  by code_simp

lemma gate_pin_for [simp]:
  "pin_for Hetzner (gate_resource Server ''srv'') (gate_resource Primary_ip ''ip'') gate_allocation gate_spec
     \<lparr>gid_allocationId = gate_allocation, gid_issued = True, gid_sshHostPublicKey = gate_key\<rparr> = gate_pin"
  by (simp add: pin_for_def gate_resource_def gate_spec_def gate_pin_def)

definition gate_context :: access_context where
  "gate_context = \<lparr>cx_authority = gate_authority, cx_machine = machineRecord gate_machine,
     cx_allocation = gate_allocation_row, cx_spec = gate_spec, cx_pin = gate_pin\<rparr>"

definition gate_at :: "nat \<Rightarrow> db \<Rightarrow> instant option \<Rightarrow> (id \<times> ssh_claim) list \<Rightarrow> id option \<Rightarrow> unit access_world" where
  "gate_at n d b sg lk = \<lparr>outside = gate_outside, ticks = n, store = d, began = b, fleet = (),
     signings = sg, session_lock = lk, rivals = (\<lambda>_. [])\<rparr>"

lemma gate_at_fields [simp]:
  "outside (gate_at n d b sg lk) = gate_outside" "ticks (gate_at n d b sg lk) = n"
  "store (gate_at n d b sg lk) = d" "began (gate_at n d b sg lk) = b"
  "signings (gate_at n d b sg lk) = sg" "fleet (gate_at n d b sg lk) = ()"
  "(gate_at n d b sg lk)\<lparr>ticks := m\<rparr> = gate_at m d b sg lk"
  "(gate_at n d b sg lk)\<lparr>store := e\<rparr> = gate_at n e b sg lk"
  "(gate_at n d b sg lk)\<lparr>began := c\<rparr> = gate_at n d c sg lk"
  "(gate_at n d b sg lk)\<lparr>fleet := u\<rparr> = gate_at n d b sg lk"
  "(gate_at n d b sg lk)\<lparr>signings := sg'\<rparr> = gate_at n d b sg' lk"
  "(gate_at n d b sg lk)\<lparr>session_lock := lk'\<rparr> = gate_at n d b sg lk'"
  "disturbed (gate_at n d b sg lk) = gate_at n d b sg lk"
  by (simp_all add: gate_at_def disturbed_def)

lemma gate_query: "query g (gate_at n d b sg lk) = (Inr (g d), gate_at (Suc n) d b sg lk)"
  by (simp add: query_def observe_def prim_def Let_def)

lemma gate_authority_loaded:
  "loadAuthority gate_leaf (gate_at n (gate_db ss rs) b sg lk) = (Inr gate_authority, gate_at (Suc n) (gate_db ss rs) b sg lk)"
  by (simp add: loadAuthority_def observe_def prim_def bind_def present_def ret_def)

lemma gate_records [simp]:
  "al_id gate_allocation_row = gate_allocation" "al_accountId gate_allocation_row = gate_owner"
  "al_retiredAt gate_allocation_row = None" "al_serverId gate_allocation_row = Some ''srv''"
  "al_provider gate_allocation_row = Hetzner" "al_offer gate_allocation_row = Some gate_item"
  by (simp_all add: gate_allocation_row_def demo_allocation_def)

lemma gate_machines [simp]:
  "mc_id gate_machine = gate_box" "mc_accountId gate_machine = gate_owner" "mc_projectId gate_machine = gate_project"
  "mc_version gate_machine = 3"
  "verified_guest (mc_state gate_machine) = Some (gate_allocation, gate_digest)"
  by (simp_all add: gate_machine_def demo_machine_def)


lemma gate_lineup [simp]:
  "owned_resources (gate_db ss rs) gate_owner gate_allocation =
     [gate_resource Server ''srv'', gate_resource Primary_ip ''ip'']"
  "owned_pair Hetzner gate_allocation_row [gate_resource Server ''srv'', gate_resource Primary_ip ''ip''] =
     Some (gate_resource Server ''srv'', gate_resource Primary_ip ''ip'')"
  "\<not> active_operation (gate_db ss rs) gate_box"
  by (simp_all add: owned_resources_def owned_pair_def active_operation_def gate_resource_def)

lemma gate_support [simp]:
  "guest_supported gate_owner gate_box gate_allocation gate_digest gate_spec
     \<lparr>gid_allocationId = gate_allocation, gid_issued = True, gid_sshHostPublicKey = gate_key\<rparr>"
  by (simp add: guest_supported_def gate_spec_def)

lemma gate_authorized [simp]:
  "accountId (au_principal gate_authority) = gate_owner"
  "authorize (au_principal gate_authority) Machine_exec (Some gate_project) = Inr ()"
  by (simp_all add: gate_authority_def authorize_def gate_policy_def demo_policy_def)

lemma gate_accounts [simp]: "acc_id gate_account = gate_owner"
  by (simp add: gate_account_def)

lemma gate_deployed [simp]:
  "mp_kind (ad_provider gate_deployment) = Hetzner" "ac_gateway (ad_config gate_deployment) = gate_gateway"
  by (simp_all add: gate_deployment_def gate_provider_def)

lemma gate_contexts [simp]:
  "cx_authority gate_context = gate_authority" "cx_machine gate_context = machineRecord gate_machine"
  "cx_allocation gate_context = gate_allocation_row" "cx_spec gate_context = gate_spec"
  "cx_pin gate_context = gate_pin" "mc_version (machineRecord gate_machine) = 3"
  by (simp_all add: gate_context_def machineRecord_def machine.defs)

lemmas flow_simps = bind_def ret_def raise_def throw_def unless_def present_def parsed_def pure_of_def
  gate_query

lemma gate_fields [simp]:
  "as_id (gate_row i c) = gate_session" "as_issuance (gate_row i c) = i" "as_connection (gate_row i c) = c"
  "(gate_row i c)\<lparr>as_issuance := i'\<rparr> = gate_row i' c" "(gate_row i c)\<lparr>as_connection := c'\<rparr> = gate_row i c'"
  "issue_limit (gate_row i c) = 92000" "as_hardDeadline (gate_row i c) = 3602000"
  "as_issueDeadline (gate_row i c) = 92000"
  "as_ticketHash (gate_row i c) = gate_digest" "as_identityPin (gate_row i c) = gate_pin"
  "as_admittedAt (gate_row i c) = 2000" "as_accountId (gate_row i c) = gate_owner"
  "as_grantId (gate_row i c) = gate_leaf" "as_machineId (gate_row i c) = gate_box"
  "as_gateway (gate_row i c) = gate_gateway" "as_machineVersion (gate_row i c) = 3"
  "as_allocationId (gate_row i c) = gate_allocation" "pin_hostAlias gate_pin = hostAlias gate_allocation"
  by (simp_all add: gate_row_def issue_limit_def gate_pin_def)

lemma gate_loads:
  "current Hetzner gate_owner gate_leaf gate_box (gate_at n (gate_db ss rs) b sg lk)
     = (Inr gate_context, gate_at (9 + n) (gate_db ss rs) b sg lk)"
  by (simp add: gate_context_def [symmetric] current_def flow_simps lockAccount_def gate_authority_loaded
      ownMachine_def assertRestoreAccessible_def guestRecords_def Let_def) (simp add: eval_nat_numeral)

lemma gate_review:
  "review gate_deployment (gate_row i c) (gate_at n (gate_db ss rs) b sg lk)
     = (Inr gate_context, gate_at (9 + n) (gate_db ss rs) b sg lk)"
  by (simp add: review_def reviewed_def currentOf_def unchanged_def kindOf_def flow_simps gate_loads)

lemma gate_contact:
  "contact f (gate_at n d b sg lk) = (fst (f 2000 ()), gate_at (2 + n) d b sg lk)"
  by (cases "f 2000 ()") (simp add: contact_def prim_def reply_def bind_def split: sum.splits)

lemma gate_ports [simp]:
  "mp_kind gate_provider = Hetzner" "mp_getServer gate_provider i t p = (Inr (Some gate_server), p)"
  "mp_getPrimaryIp gate_provider i t p = (Inr (Some gate_ip), p)"
  by (simp_all add: gate_provider_def)

lemma gate_specs [simp]: "bs_accountId gate_spec = gate_owner" "bs_allocationId gate_spec = gate_allocation"
  by (simp_all add: gate_spec_def)

lemma gate_guest [simp]:
  "guest_pair Hetzner gate_allocation_row [gate_resource Server ''srv'', gate_resource Primary_ip ''ip''] =
     Some (gate_resource Server ''srv'', gate_resource Primary_ip ''ip'')"
  "matchesLabels (ownedLabels (gate_resource k i)) (guest_labels gate_spec)"
  "catalog_item_ok gate_item"
  "guest_confirmed (guest_labels gate_spec) (gate_resource Server ''srv'') (gate_resource Primary_ip ''ip'')
     gate_item gate_server gate_ip"
  "ip_ipv4 gate_ip = ''192.0.2.7''"
  by code_simp+

lemma gate_observes:
  "observeGuest gate_provider gate_allocation_row gate_spec (gate_at n (gate_db ss rs) b sg lk)
     = (Inr ''192.0.2.7'', gate_at (5 + n) (gate_db ss rs) b sg lk)"
  by (simp add: observeGuest_def Let_def amid_def flow_simps gate_contact) (simp add: eval_nat_numeral)

lemma gate_locked:
  "m (gate_at (2 + n) d (Some 2000) sg lk) = (Inr x, gate_at k e (Some 2000) sg lk) \<Longrightarrow>
   machineLocked m (gate_at n d None sg lk) = (Inr x, gate_at (Suc k) e None sg lk)"
  by (simp add: machineLocked_def withMachineLock_def tryLock_def amid_def transaction_def commit_def
     prim_def tx_now_def flow_simps)

lemma gate_schema_base: "schema_ok (gate_db [] [])"
  by code_simp

lemma schema_sessions:
  "schema_ok d \<Longrightarrow> sessions_ok (d\<lparr>sessions := ss, signing_receipts := rs\<rparr>) \<Longrightarrow>
     schema_ok (d\<lparr>sessions := ss, signing_receipts := rs\<rparr>)"
  by (simp add: schema_ok_def accounts_ok_def projects_ok_def grants_ok_def machines_ok_def
      allocations_ok_def reservations_ok_def operations_ok_def cleanups_ok_def
      attempts_ok_def recoveries_ok_def idempotency_ok_def audit_ok_def resources_ok_def)

lemma gate_schema: "unique_by fst rs \<Longrightarrow> set rs \<subseteq> {gate_session} \<times> UNIV \<Longrightarrow> schema_ok (gate_db [gate_row i c] rs)"
proof -
  assume r: "unique_by fst rs" "set rs \<subseteq> {gate_session} \<times> UNIV"
  have "gate_db [gate_row i c] rs = (gate_db [] [])\<lparr>sessions := [gate_row i c], signing_receipts := rs\<rparr>"
    by (simp add: gate_db_def)
  moreover have "sessions_ok (gate_db [gate_row i c] rs)"
    using r by (auto simp: sessions_ok_def gate_db_def gate_row_def deadlines_ok_def references_def list_all_iff
      unique_by_def List.map_filter_def
      gate_machine_def demo_machine_def gate_allocation_row_def demo_allocation_def gate_grant_def demo_grant_def)
  ultimately show ?thesis using schema_sessions [OF gate_schema_base, where ss = "[gate_row i c]" and rs = rs] by simp
qed


text \<open>The rows and writes of the run.\<close>

abbreviation gate_open :: access_connection where
  "gate_open \<equiv> Open_connection Unclaimed"

abbreviation gate_attempted :: session_row where
  "gate_attempted \<equiv> gate_row (Iss_attempted 2000) gate_open"

definition gate_asked :: ssh_claim where
  "gate_asked = claim_for gate_attempted gate_authority"

definition gate_certificate :: string where
  "gate_certificate = ''ssh-ed25519-cert-v01@openssh.com AAAA''"

definition gate_target :: owned_target where
  "gate_target = identity_pin.extend gate_pin \<lparr>tg_address = ''192.0.2.7''\<rparr>"

definition gate_issued :: access_issuance where
  "gate_issued = Iss_issued \<lparr>is_certificate = gate_certificate, is_issuedAt = 2000,
     is_ticketDeadline = 62000, is_certificateExpiresAt = 242000, is_target = gate_target\<rparr>"

definition gate_claimed :: access_connection where
  "gate_claimed = Open_connection (Claimed gate_instance gate_instance 2000)"

lemma gate_texts [simp]:
  "identity_pin.truncate gate_target = gate_pin" "tg_address gate_target = ''192.0.2.7''"
  "gate_certificate \<noteq> []" "length gate_certificate \<le> 16384" "stored_uuidv4 gate_instance"
  by (simp_all add: gate_target_def gate_pin_def identity_pin.defs gate_certificate_def)
     code_simp+

lemma gate_update:
  assumes "f (gate_row i c) = gate_row i' c'" "guard_access_update 2000 (gate_row i c) (gate_row i' c')"
    and "rs' = rs @ List.map_filter signing_receipt [(gate_row i c, gate_row i' c')]"
    and "unique_by fst rs'" "set rs' \<subseteq> {gate_session} \<times> UNIV"
  shows "run (Update_sessions (\<lambda>s. as_id s = gate_session) f) (gate_at n (gate_db [gate_row i c] rs) b sg lk)
    = (Inr (), gate_at (Suc n) (gate_db [gate_row i' c'] rs') b sg lk)"
proof -
  have "(gate_db [gate_row i c] rs)\<lparr>sessions := [gate_row i' c'], signing_receipts := rs'\<rparr>
      = gate_db [gate_row i' c'] rs'" "signing_receipts (gate_db [gate_row i c] rs) = rs"
    by (simp_all add: gate_db_def)
  with assms gate_schema [OF assms(4,5), of i' c'] show ?thesis
    by (simp add: run_def exec_def apply_stmt_def Let_def prim_def bind_def ret_def updated_rows_def)
qed

lemma gate_refined:
  "accessSession_refined (gate_row Iss_pending gate_open)"
  "accessSession_refined gate_attempted"
  "accessSession_refined (gate_row gate_issued gate_open)"
  "accessSession_refined (gate_row gate_issued gate_claimed)"
  by (simp_all add: accessSession_defs gate_issued_def gate_claimed_def)

lemma gate_owned: "owner_ids_ok (gate_row i c)"
proof -
  have "id_ok Account_id gate_owner" "id_ok Project_id gate_project" "id_ok Grant_id gate_leaf"
    "id_ok Machine_id gate_box" "id_ok Allocation_id gate_allocation" by code_simp+
  then show ?thesis by (simp add: owner_ids_ok_def gate_row_def)
qed

lemma gate_shape:
  assumes "issuance_shape i" "claim_shape (claim_of c)"
  shows "accessSession_shape (gate_row i c)"
proof -
  have "id_ok Access_session_id gate_session" "idempotency_key_ok ''request-00001''" "sha256_ok gate_digest"
    "customerPublicKey_ok gate_key" "accessGateway_ok gate_gateway" by code_simp+
  with assms gate_owned [of i c] show ?thesis by (simp add: accessSession_shape_def) (simp add: gate_row_def)
qed

lemma gate_settled:
  "accessSession_ok (gate_row Iss_pending gate_open)"
  "accessSession_ok gate_attempted"
  "accessSession_ok (gate_row gate_issued gate_open)"
  "accessSession_ok (gate_row gate_issued gate_claimed)"
  by (simp_all add: accessSession_ok_def gate_refined gate_shape, simp_all add: gate_shape gate_issued_def gate_claimed_def)

lemma gate_guards:
  "guard_access_update 2000 (gate_row Iss_pending gate_open) gate_attempted"
  "guard_access_update 2000 gate_attempted (gate_row gate_issued gate_open)"
  "guard_access_update 2000 (gate_row gate_issued gate_open) (gate_row gate_issued gate_claimed)"
  by (simp_all add: guard_access_update_def guard_issuance_def guard_issuance_move_def guard_connection_def
     guard_connection_move_def gate_issued_def gate_claimed_def)


lemma gate_claims [simp]:
  "customerSshClaim gate_attempted gate_authority = Inr gate_asked"
proof -
  have "ssh_claim_ok (claim_for gate_attempted gate_authority)" by code_simp
  then show ?thesis
    by (simp add: customerSshClaim_def gate_settled gate_asked_def) (simp add: gate_authority_def claim_limit_def whole_seconds_def)
qed

lemma gate_signed [simp]:
  "signing_result_of (ad_fingerprint gate_deployment) (ad_userCa gate_deployment) gate_asked
     (Ca_certificate ''AAAA'' (gate_inspection gate_asked)) = Sign_issued gate_certificate 242000"
  by (simp add: signing_result_of_def inspectCustomerSsh_def gate_inspection_def gate_deployment_def gate_certificate_def
    certificate_body_ok_def is_base64_def is_alnum_def is_upper_def gate_asked_def claim_for_def gate_authority_def claim_limit_def whole_seconds_def)

lemma gate_published [simp]:
  "publication gate_attempted gate_authority ''192.0.2.7'' (Sign_issued gate_certificate 242000) = gate_issued"
  by (simp add: publication_def publication_limit_def gate_authority_def open_unclaimed_def issued_by_def
    gate_issued_def gate_target_def identity_pin.defs)


section \<open>The runs\<close>

abbreviation gate_pending_db :: db where
  "gate_pending_db \<equiv> gate_db [gate_row Iss_pending gate_open] []"

definition gate_receipts :: "(id \<times> instant) list" where
  "gate_receipts = [(gate_session, 2000)]"

abbreviation gate_issued_db :: db where
  "gate_issued_db \<equiv> gate_db [gate_row gate_issued gate_open] gate_receipts"

abbreviation gate_claimed_db :: db where
  "gate_claimed_db \<equiv> gate_db [gate_row gate_issued gate_claimed] gate_receipts"

definition gate_claim :: gateway_claim where
  "gate_claim = \<lparr>gc_ticket = '''', gc_gatewayInstanceId = gate_instance, gc_connectionId = gate_instance\<rparr>"

definition gate_connection :: gateway_connection where
  "gate_connection = \<lparr>gn_gatewayInstanceId = gate_instance, gn_connectionId = gate_instance,
     gn_sessionId = gate_session\<rparr>"

definition gate_lease :: gateway_lease where
  "gate_lease = \<lparr>ls_sessionId = gate_session, ls_connectionId = gate_instance, ls_remainingMs = 3600000,
     ls_target = gate_target\<rparr>"

lemma gate_authorities [simp]: "au_checkedAt gate_authority = 2000" "au_expiresAt gate_authority = 8000000"
  by (simp_all add: gate_authority_def)

lemma gate_calls [simp]:
  "gc_gatewayInstanceId gate_claim = gate_instance" "gc_connectionId gate_claim = gate_instance"
  "gn_gatewayInstanceId gate_connection = gate_instance" "gn_connectionId gate_connection = gate_instance"
  "gn_sessionId gate_connection = gate_session"
  by (simp_all add: gate_claim_def gate_connection_def)

lemma gate_reads:
  "accessSession_ok (gate_row i c) \<Longrightarrow>
   readSession gate_session (gate_at n (gate_db [gate_row i c] rs) b sg lk) =
     (Inr (gate_row i c), gate_at (Suc n) (gate_db [gate_row i c] rs) b sg lk)"
  by (simp add: readSession_def session_in_def accessSessionRecord_def flow_simps)

lemma gate_clock:
  "databaseTime (gate_at n d b sg lk) = (Inr 2000, gate_at (Suc n) d b sg lk)"
  by (simp add: databaseTime_def observe_def prim_def Let_def)

lemma gate_prepares:
  "prepareSigning gate_deployment gate_session (gate_at n gate_pending_db b sg lk) =
     (Inr (Some gate_context), gate_at (11 + n) gate_pending_db b sg lk)"
  by (simp add: prepareSigning_def reviewPending_def catch_cloud_def flow_simps gate_reads gate_settled
     gate_clock gate_review open_unclaimed_def)

lemma gate_receipted:
  "signing_receipt (gate_row Iss_pending c, gate_attempted) = Some (gate_session, 2000)"
  "signing_receipt (gate_attempted, gate_row gate_issued c) = None"
  "signing_receipt (gate_row gate_issued c, r) = None"
  by (simp_all add: signing_receipt_def gate_issued_def)

lemma gate_updates:
  "run (Update_sessions (\<lambda>s. as_id s = gate_session) (\<lambda>s. s\<lparr>as_issuance := Iss_attempted 2000\<rparr>))
     (gate_at n gate_pending_db b sg lk) = (Inr (), gate_at (Suc n) (gate_db [gate_attempted] gate_receipts) b sg lk)"
  "run (Update_sessions (\<lambda>s. as_id s = gate_session) (\<lambda>s. s\<lparr>as_issuance := gate_issued\<rparr>))
     (gate_at n (gate_db [gate_attempted] gate_receipts) b sg lk) = (Inr (), gate_at (Suc n) gate_issued_db b sg lk)"
  "run (Update_sessions (\<lambda>s. as_id s = gate_session) (\<lambda>s. s\<lparr>as_connection := gate_claimed\<rparr>))
     (gate_at n gate_issued_db b sg lk) = (Inr (), gate_at (Suc n) gate_claimed_db b sg lk)"
  by (rule gate_update; simp add: gate_guards gate_receipted gate_receipts_def List.map_filter_def unique_by_def)+

lemma gate_attempts:
  "recordAttempt gate_deployment gate_session (gate_at n gate_pending_db b sg lk) =
     (Inr (Some (gate_attempted, gate_authority)), gate_at (11 + n) (gate_db [gate_attempted] gate_receipts) b sg lk)"
  by (simp add: recordAttempt_def catch_cloud_def flow_simps gate_reads gate_settled setIssuance_def
     gate_review open_unclaimed_def gate_updates)

lemma gate_signs:
  "sign gate_deployment gate_attempted gate_authority (gate_at n d b sg lk) =
     (Inr (Sign_issued gate_certificate 242000), gate_at (2 + n) d b (sg @ [(gate_session, gate_asked)]) lk)"
proof -
  have "ad_ca gate_deployment c t p = (Ca_certificate ''AAAA'' (gate_inspection c), p)" for c t p
    by (simp add: gate_deployment_def)
  then show ?thesis by (simp add: sign_def returned_def prim_def reply_def flow_simps)
qed

lemma gate_publishes:
  "publishResult gate_deployment gate_session ''192.0.2.7'' (Sign_issued gate_certificate 242000)
     (gate_at n (gate_db [gate_attempted] gate_receipts) b sg lk) = (Inr (), gate_at (11 + n) gate_issued_db b sg lk)"
  by (simp add: publishResult_def catch_cloud_def flow_simps gate_reads gate_settled setIssuance_def
     gate_review gate_updates)

lemmas gate_sections =
  gate_locked [where m = "prepareSigning gate_deployment gate_session", OF gate_prepares]
  gate_locked [where m = "recordAttempt gate_deployment gate_session", OF gate_attempts]
  gate_locked [where m = "publishResult gate_deployment gate_session a x" for a x, OF gate_publishes]

lemma gate_surroundings [simp]:
  "ad_checkNetwork gate_deployment t p = (Inr (), p)" "ad_signer gate_deployment t p = (Inr (), p)"
  "ad_provider gate_deployment = gate_provider" "ad_sha256 gate_deployment x = gate_digest"
  by (simp_all add: gate_deployment_def)

lemma gate_issues:
  "issueLocked gate_deployment gate_session (gate_at n gate_pending_db None [] lk) =
     (Inr (), gate_at (54 + n) gate_issued_db None [(gate_session, gate_asked)] lk)"
  by (simp add: issueLocked_def amid_def flow_simps gate_reads gate_settled unissued_def
     gate_sections observed_def gate_contact gate_observes signAttempt_def gate_signs)

lemma gate_valid:
  "validConnection gate_deployment (gate_row gate_issued gate_claimed) gate_connection
     (gate_at n gate_claimed_db b sg lk) = (Inr gate_lease, gate_at (9 + n) gate_claimed_db b sg lk)"
  by (simp add: validConnection_def flow_simps gate_review held_by_def gate_claimed_def gate_lease_def
     split: access_issuance.split) (simp add: gate_issued_def)

lemma gate_takes:
  "claimTicket gate_deployment gate_session gate_claim (gate_at n gate_issued_db b sg lk) =
     (Inr gate_lease, gate_at (20 + n) gate_claimed_db b sg lk)"
  by (simp add: claimTicket_def flow_simps gate_reads gate_settled gate_review gate_updates Let_def
     claimable_def open_unclaimed_def gate_valid [unfolded gate_connection_def] flip: gate_claimed_def)
    (simp add: gate_issued_def)

lemma gate_claims_ticket:
  "claim gate_deployment gate_claim (gate_at n gate_issued_db None sg lk) =
     (Inr gate_lease, gate_at (43 + n) gate_claimed_db None sg lk)"
  by (simp add: claim_def amid_def flow_simps gate_settled accessSessionRecord_def gate_contact gate_observes
    gate_locked [where m = "review gate_deployment (gate_row gate_issued gate_open)", OF gate_review]
    gate_locked [where m = "claimTicket gate_deployment gate_session gate_claim", OF gate_takes])
     (simp add: gate_issued_def)

lemma gate_checks:
  "checkConnections gate_deployment [gate_connection] (gate_at n gate_claimed_db None sg lk) =
     (Inr [gate_lease], gate_at (14 + n) gate_claimed_db None sg lk)"
proof -
  let ?m = "bind (readSession gate_session) (\<lambda>session. validConnection gate_deployment session gate_connection)"
  have "?m (gate_at n gate_claimed_db b sg lk) = (Inr gate_lease, gate_at (10 + n) gate_claimed_db b sg lk)" for n b
    by (simp add: flow_simps gate_reads gate_settled gate_valid)
  note one = gate_locked [where m = ?m, OF this]
  have "checkOne gate_deployment gate_connection (gate_at n gate_claimed_db None sg lk) =
      (Inr gate_lease, gate_at (14 + n) gate_claimed_db None sg lk)"
    unfolding checkOne_def by (subst bind_def) (simp add: amid_def gate_reads gate_settled one)
  then show ?thesis by (simp add: checkConnections_def flow_simps catch_cloud_def)
qed

section \<open>Admission\<close>

definition gate_principal :: principal where
  "gate_principal = \<lparr>accountId = gate_owner, grantId = gate_leaf, policy = gate_policy\<rparr>"

definition gate_request :: access_request where
  "gate_request = \<lparr>ar_publicKey = gate_key, ar_ticketHash = gate_digest\<rparr>"

abbreviation gate_admitted_db :: db where
  "gate_admitted_db \<equiv> gate_pending_db\<lparr>access_jobs := [gate_session]\<rparr>"

lemma gate_new_session:
  "new_session (ad_config gate_deployment) gate_principal gate_box gate_request ''request-00001'' gate_digest gate_context
     3602000 gate_session = gate_row Iss_pending gate_open"
  by (simp add: new_session_def gate_row_def gate_request_def gate_principal_def machineRecord_def machine.defs
     gate_machine_def demo_machine_def)

lemma gate_admissible: "guard_access_insert 2000 (gate_row Iss_pending gate_open)"
proof -
  have "guard_admission 2000 (gate_row Iss_pending gate_open)" by code_simp
  then show ?thesis by (simp add: guard_access_insert_def guard_issuance_def guard_connection_def)
qed

lemma schema_jobs: "schema_ok (d\<lparr>access_jobs := j\<rparr>) = schema_ok d"
  by (simp add: schema_ok_def accounts_ok_def projects_ok_def grants_ok_def machines_ok_def
      allocations_ok_def reservations_ok_def sessions_ok_def operations_ok_def cleanups_ok_def
      attempts_ok_def recoveries_ok_def idempotency_ok_def audit_ok_def resources_ok_def)

lemma gate_inserts:
  "run (Insert_session (gate_row Iss_pending gate_open)) (gate_at n (gate_db [] []) b sg lk)
     = (Inr (), gate_at (Suc n) gate_pending_db b sg lk)"
  "run (Enqueue_access gate_session) (gate_at n gate_pending_db b sg lk)
     = (Inr (), gate_at (Suc n) gate_admitted_db b sg lk)"
proof -
  have "schema_ok gate_pending_db" by (rule gate_schema) (simp_all add: unique_by_def)
  moreover have "(gate_db [] [])\<lparr>sessions := [x]\<rparr> = gate_db [x] []" for x by (simp add: gate_db_def)
  moreover have "access_jobs (gate_db ss rs) = []" for ss rs by (simp add: gate_db_def demo_db_def empty_db_def)
  ultimately show
  "run (Insert_session (gate_row Iss_pending gate_open)) (gate_at n (gate_db [] []) b sg lk)
     = (Inr (), gate_at (Suc n) gate_pending_db b sg lk)"
  "run (Enqueue_access gate_session) (gate_at n gate_pending_db b sg lk)
     = (Inr (), gate_at (Suc n) gate_admitted_db b sg lk)"
    by (simp_all add: run_def exec_def apply_stmt_def Let_def prim_def bind_def ret_def gate_admissible schema_jobs)
qed

lemma gate_new_id: "new_id Access_session_id (gate_at n d b sg lk) = (Inr gate_session, gate_at (Suc n) d b sg lk)"
proof -
  have "newId Access_session_id ''00000000-0000-4000-8000-000000000001'' = Some gate_session" by code_simp
  then show ?thesis by (simp add: new_id_def randomUUID_def prim_def flow_simps Let_def)
qed

lemma gate_admits:
  "admitAccess (ad_sha256 gate_deployment) (ad_config gate_deployment) Hetzner gate_principal gate_box gate_request
     ''request-00001'' (gate_at n (gate_db [] []) None sg lk) =
     (Inr (publicSession (gate_row Iss_pending gate_open)), gate_at (20 + n) gate_admitted_db None sg lk)"
proof -
  have p: "accountId gate_principal = gate_owner" "grantId gate_principal = gate_leaf"
    by (simp_all add: gate_principal_def)
  let ?m = "bind (lockAccount (accountId gate_principal)) (\<lambda>_.
        bind (loadAuthority (grantId gate_principal)) (\<lambda>authority.
        bind (query (\<lambda>d. select_one (\<lambda>s. as_accountId s = accountId gate_principal \<and> as_grantId s = grantId gate_principal
          \<and> as_requestKey s = ''request-00001'') (sessions d))) (\<lambda>previous. case previous of
          Some row \<Rightarrow> replayAccess authority gate_digest row
        | None \<Rightarrow> newAccess (ad_config gate_deployment) Hetzner gate_principal gate_box gate_request ''request-00001'' gate_digest)))"
  have "newAccess (ad_config gate_deployment) Hetzner gate_principal gate_box gate_request ''request-00001'' gate_digest
      (gate_at n (gate_db [] []) b sg lk)
     = (Inr (publicSession (gate_row Iss_pending gate_open)), gate_at (14 + n) gate_admitted_db b sg lk)" for n b
    by (simp add: newAccess_def flow_simps Let_def p gate_loads counted_def rate_free_def slots_free_def gate_new_id
       gate_new_session gate_inserts enqueueAccess_def)
  then have "?m (gate_at n (gate_db [] []) b sg lk)
     = (Inr (publicSession (gate_row Iss_pending gate_open)), gate_at (17 + n) gate_admitted_db b sg lk)" for n b
    by (simp add: flow_simps p lockAccount_def gate_authority_loaded)
  from gate_locked [where m = ?m, OF this] show ?thesis by (simp add: admitAccess_def Let_def)
qed

end
