(* ===== verification/Access_Guarantees.thy ===== *)
theory Access_Guarantees
  imports Access_Control Access_Examples
begin

text \<open>
  The properties of access sessions and their witnesses, on the deployment of \<open>Access_Examples\<close>.
\<close>

section \<open>Signing\<close>

lemma gate_starts: "access_reachable gate_deployment (gate_at n gate_pending_db None [] None)"
proof (rule access_reachable.start)
  show "schema_ok (store (gate_at n gate_pending_db None [] None))"
    using gate_schema [of "[]"] by (simp add: unique_by_def)
qed (simp_all add: sessions_valid_def gate_refined)

lemma gate_issuing:
  "access_handle gate_deployment (Issue_task gate_session) (gate_at 0 gate_pending_db None [] None)
     = gate_at 56 gate_issued_db None [(gate_session, gate_asked)] None"
proof -
  have "parsedId Access_session_id gate_session s = (Inr gate_session, s)" for s :: "unit access_world"
  proof -
    have "id_ok Access_session_id gate_session" by code_simp
    then show ?thesis by (simp add: parsedId_def flow_simps)
  qed
  then show ?thesis
    by (simp add: issueAccessTask_def issue_def withAccessSessionLock_def tryLock_def prim_def flow_simps
        gate_issues amid_def session_in_def unissued_def Let_def)
       (simp add: gate_issued_def)
qed

lemma gate_issue_run:
  "access_reachable gate_deployment
     (gate_at 56 gate_issued_db None [(gate_session, gate_asked)] None)"
  using access_reachable.handle [OF gate_starts [of 0], of "Issue_task gate_session"] gate_issuing by simp

text \<open>
  C7. The key of a session is signed at most once: however the issuing tasks of a process repeat,
  are interrupted or interfered with, its log of requests names a session once, and for each
  request the session's attempt and its receipt are stored and the requested claim is that
  session's: its key identifier, guest principal, key and gateway networks, and no validity past
  the hard deadline.
\<close>

theorem session_signed_once:
  assumes "access_reachable D s"
  shows "distinct (map fst (signings s)) \<and> (\<forall>(i, c)\<in>set (signings s). \<exists>r\<in>set (sessions (store s)).
     as_id r = i \<and> as_issuance r \<noteq> Iss_pending \<and> i \<in> fst ` set (signing_receipts (store s)) \<and> fits c r)"
  using reachable_asked [OF assms] by (fastforce simp: asked_once_def recorded_def)

theorem session_signed_once_witness:
  "distinct (map fst [(gate_session, gate_asked)]) \<and> fits gate_asked (gate_row gate_issued gate_open)"
  using session_signed_once [OF gate_issue_run] by simp

section \<open>The lifecycle\<close>

text \<open>
  C24. Refinement: whatever handler runs, with whatever faults and rivals, every stored session
  moves along the steps of its abstract lifecycle (one attempt, one result, one claim, one closure,
  each within its deadlines) and keeps its admission; no session is lost or exchanged, and at most
  four steps are ever left to it.
\<close>

theorem access_refines_lifecycle:
  "evolves session_moves (sessions (store s)) (sessions (store (access_handle D c s)))"
  using changed_sessions [OF handle_changes] .



section \<open>The gateway\<close>

lemma claim_leased:
  assumes "claim D r s = (Inr lease, t)" "schema_ok (store s)"
  obtains session now where "clock_read s t now" "as_ticketHash session = ad_sha256 D (gc_ticket r)"
    "leased D (store t) now (gc_gatewayInstanceId r) (gc_connectionId r) session lease"
proof -
  obtain original before session d now where c: "as_ticketHash original = ad_sha256 D (gc_ticket r)"
      "original \<in> set (sessions (store (disturbed s)))" "changed (store (disturbed s)) d" "schema_ok d"
      "before \<in> set (sessions d)" "as_id before = as_id original" "same_admission before session"
      "clock_read s t now" "leased D (store t) now (gc_gatewayInstanceId r) (gc_connectionId r) session lease"
    by (rule claim_steps [OF assms]) blast
  from changed_session [OF c(3,2)] obtain x where x: "x \<in> set (sessions d)" "session_moves original x"
    by blast
  then have "x = before"
    using session_unique(1) [OF c(4) x(1) c(5)] c(6) same_admission_fields [OF moves_admission [OF x(2)]] by simp
  with c x(2) same_admission_fields [OF moves_admission [OF x(2)]] same_admission_fields [OF c(7)]
  show thesis by (intro that [of now session]) auto
qed

text \<open>
  C8. A gateway's claim is warranted: when it succeeds, the ticket is that of a stored session which
  the gateway instance and connection now hold, whose credential was issued, and at a moment the
  database clock showed during the claim the grant lineage of the session is live and carries
  \<open>machine.exec\<close> over the machine's project, and machine, guest, resources and gateway are those
  of its admission; the lease lasts from that moment to the first of the session's hard deadline and
  the lineage's expiry.
\<close>

theorem claim_warranted:
  assumes "claim D r s = (Inr lease, t)" "schema_ok (store s)"
  shows "\<exists>session now. clock_read s t now \<and> as_ticketHash session = ad_sha256 D (gc_ticket r)
     \<and> leased D (store t) now (gc_gatewayInstanceId r) (gc_connectionId r) session lease"
  by (rule claim_leased [OF assms]) blast

lemma gate_issued_ok: "schema_ok gate_issued_db" "schema_ok gate_claimed_db"
  by (rule gate_schema; simp add: gate_receipts_def unique_by_def)+

theorem claim_warranted_witness:
  "\<exists>session. as_ticketHash session = gate_digest
     \<and> leased gate_deployment gate_claimed_db 2000 gate_instance gate_instance session gate_lease"
  using claim_warranted [OF gate_claims_ticket [of 0 "[]" None]] gate_issued_ok by (auto simp: clock_read_def)

text \<open>
  C9. A ticket is claimed once: after a successful claim no later claim with the same ticket
  succeeds, whichever gateway makes it and whatever was written in between.
\<close>

theorem ticket_claimed_once:
  assumes "claim D r s = (Inr lease, t)" "schema_ok (store s)" "changed (store t) (store u)"
    and "ad_sha256 D (gc_ticket r') = ad_sha256 D (gc_ticket r)"
  shows "\<exists>e. fst (claim D r' u) = Inl e"
proof (cases "claim D r' u")
  case (Pair out v)
  show ?thesis
  proof (cases out)
    case (Inr lease')
    obtain session now where session: "as_ticketHash session = ad_sha256 D (gc_ticket r)"
        "leased D (store t) now (gc_gatewayInstanceId r) (gc_connectionId r) session lease"
      using claim_leased [OF assms(1,2)] by blast
    have "schema_ok (store t)" using quiet_schema [OF staysD [OF access_claim assms(1)] assms(2)] .
    then have ok: "schema_ok (store u)" using assms(3) by (rule changed_schema [rotated])
    obtain original before d where c: "original \<in> set (sessions (store (disturbed u)))"
        "as_ticketHash original = ad_sha256 D (gc_ticket r')" "changed (store (disturbed u)) d"
        "schema_ok d" "before \<in> set (sessions d)" "as_id before = as_id original"
        "as_connection before = Open_connection Unclaimed"
      using claim_steps [OF Pair [unfolded Inr] ok] by metis
    have rest: "changed (store t) d"
      using assms(3) disturbed_quiet [of u] c(3) by (auto simp: access_quiet_def intro: rtranclp_trans)
    have stored: "session \<in> set (sessions (store t))" using session(2) by (simp add: leased_def)
    obtain x y where "x \<in> set (sessions d)" "session_moves session x" "y \<in> set (sessions d)" "session_moves original y"
      using changed_session [OF rest stored] changed_session [OF c(3,1)] by blast
    moreover from this have "x = before"
      using c session(1) assms(4) session_unique [OF c(4)]
        same_admission_fields [OF moves_admission [of session x]]
        same_admission_fields [OF moves_admission [of original y]] by metis
    moreover have "claim_of (as_connection session) \<noteq> Unclaimed"
      using session(2) by (auto simp: leased_def held_by_def split: access_connection.splits access_claim.splits)
    ultimately show ?thesis using moves_claim c(7) by fastforce
  qed (use Pair in simp)
qed

theorem ticket_claimed_once_witness:
  "\<exists>e. fst (claim gate_deployment gate_claim (gate_at 43 gate_claimed_db None [] None)) = Inl e"
  by (rule ticket_claimed_once [OF gate_claims_ticket [of 0 "[]" None]]) (simp_all add: gate_issued_ok)

text \<open>
  C10. A check is warranted: for every lease it returns there is a state of the database during the
  check and a moment the database clock showed during it at which the connection held that session
  and the session could be connected; the lease lasts from that moment to the first of the session's
  hard deadline and the lineage's expiry.
\<close>

theorem check_warranted:
  assumes "checkConnections D cs s = (Inr leases, t)" "schema_ok (store s)" "lease \<in> set leases"
  shows "\<exists>c\<in>set cs. \<exists>d session now. changed (store s) d \<and> changed d (store t)
     \<and> as_id session = gn_sessionId c \<and> clock_read s t now
     \<and> leased D d now (gn_gatewayInstanceId c) (gn_connectionId c) session lease"
  using check_fold_leased [OF assms(1) [unfolded checkConnections_def] assms(2,3)] by simp

theorem check_warranted_witness:
  "\<exists>d session. changed gate_claimed_db d \<and> changed d gate_claimed_db \<and> as_id session = gate_session
     \<and> leased gate_deployment d 2000 gate_instance gate_instance session gate_lease"
  using check_warranted [OF gate_checks [of 0 "[]" None], of gate_lease] gate_issued_ok
  by (auto simp: clock_read_def)

section \<open>Admission\<close>

text \<open>
  C15. Admission keeps the limits: a successful request answers with a stored session of its
  account, grant, key and request. Either the session was there before, or it is the one new row,
  pending, for a lineage that is live and carries \<open>machine.exec\<close>, with the hard deadline at the
  lineage's expiry or an hour, its task queued, and the account then has admitted at most 60
  sessions in five minutes (30 for the grant) and reserves at most 20 connections (4 for the grant).
\<close>

theorem admission_within_quotas:
  assumes "admitAccess sha config kind p m r key s = (Inr view, t)" "schema_ok (store s)"
    and "sessions_valid (store s)"
  shows "\<exists>session\<in>set (sessions (store t)). view = publicSession session
     \<and> as_accountId session = accountId p \<and> as_grantId session = grantId p
     \<and> as_requestKey session = key \<and> as_fingerprint session = sha (access_json m r)
     \<and> ((\<exists>d. changed (store s) d \<and> session \<in> set (sessions d) \<and> sessions (store t) = sessions d)
       \<or> (\<exists>d chain. changed (store s) d \<and> sessions (store t) = sessions d @ [session]
           \<and> as_issuance session = Iss_pending \<and> as_id session \<in> set (access_jobs (store t))
           \<and> lineage (grants d) (grantId p) chain
           \<and> list_all (usable (accountId p) (as_admittedAt session)) chain
           \<and> Machine_exec \<in> set (capabilities (gr_policy (hd chain)))
           \<and> as_hardDeadline session = min (as_admittedAt session + 3600000) (authority_end chain)
           \<and> within_quotas (accountId p) (grantId p) (as_admittedAt session) (store t)))"
proof -
  let ?find = "\<lambda>s. as_accountId s = accountId p \<and> as_grantId s = grantId p \<and> as_requestKey s = key"
  let ?m = "bind (lockAccount (accountId p)) (\<lambda>_.
        bind (loadAuthority (grantId p)) (\<lambda>authority.
        bind (query (\<lambda>d. select_one ?find (sessions d))) (\<lambda>previous. case previous of
          Some row \<Rightarrow> replayAccess authority (sha (access_json m r)) row
        | None \<Rightarrow> newAccess config kind p m r key (sha (access_json m r)))))"
  have f: "footprint UNIV ?m" unfolding lockAccount_def
    by (intro footprint_rules footprint_loadAuthority footprint_newAccess footprint_replayAccess)
  have l: "machineLocked ?m s = (Inr view, t)" using assms(1) by (simp add: admitAccess_def Let_def)
  obtain w u where u: "?m w = (Inr view, u)" "store t = store u" "access_quiet s w"
    by (rule locked_quiet [OF l f], rule that, assumption+)
  have c: "changed (store s) (store w)" using u(3) by (simp add: access_quiet_def)
  note ok = changed_schema [OF c assms(2)] changed_valid [OF c assms(3)]
  obtain au v1 v2 where v: "loadAuthority (grantId p) v1 = (Inr au, v2)" "store v1 = store w"
      "(case select_one ?find (sessions (store v2)) of
          Some row \<Rightarrow> replayAccess au (sha (access_json m r)) row
        | None \<Rightarrow> newAccess config kind p m r key (sha (access_json m r))) (ticked v2) = (Inr view, u)"
    using u(1) by (auto simp: success lockAccount_def)
  have v2: "store v2 = store w" using silent_store [OF footprint_loadAuthority v(1)] v(2) by simp
  show ?thesis
  proof (cases "select_one ?find (sessions (store w))")
    case (Some session)
    then have "view = publicSession session" "as_fingerprint session = sha (access_json m r)" "store u = store w"
      using v(3) v2 by (auto simp: replayAccess_def success accessSessionRecord_def split: if_splits)
    with select_one_SomeD [OF Some] u(2) c show ?thesis by (intro bexI [of _ session]) auto
  next
    case None
    then have "newAccess config kind p m r key (sha (access_json m r)) (ticked v2) = (Inr view, u)"
      using v(3) v2 by simp
    from newAccess_success [OF this] ok v2 obtain session chain where "view = publicSession session"
      "sessions (store u) = sessions (store w) @ [session]"
      "as_accountId session = accountId p" "as_grantId session = grantId p" "as_machineId session = m"
      "as_requestKey session = key" "as_fingerprint session = sha (access_json m r)"
      "as_issuance session = Iss_pending"
      "lineage (grants (store w)) (grantId p) chain" "list_all (usable (accountId p) (as_admittedAt session)) chain"
      "Machine_exec \<in> set (capabilities (gr_policy (hd chain)))"
      "as_hardDeadline session = min (as_admittedAt session + 3600000) (authority_end chain)"
      "within_quotas (accountId p) (grantId p) (as_admittedAt session) (store u)"
      "as_id session \<in> set (access_jobs (store u))"
      by simp metis
    with c u(2) show ?thesis by (intro bexI [of _ session]) auto
  qed
qed

theorem admission_within_quotas_witness:
  "\<exists>session\<in>set (sessions gate_admitted_db). as_requestKey session = ''request-00001''
     \<and> publicSession (gate_row Iss_pending gate_open) = publicSession session"
  using admission_within_quotas [OF gate_admits [of 0 "[]" None]] gate_schema_base
  by (simp add: sessions_valid_def)

end
