(* ===== verification/Backup_Contracts.thy ===== *)
theory Backup_Contracts
  imports Access_Contracts
begin

text \<open>
  The data of backups: \<^verbatim>\<open>packages/contracts/src/backups.ts\<close>, \<^verbatim>\<open>backup-purges.ts\<close>,
  \<^verbatim>\<open>backup-schedules.ts\<close>, what they use of \<^verbatim>\<open>compose.ts\<close>, the stages of the worker in
  \<^verbatim>\<open>apps/control/src/backup-records.ts\<close> and the receipts of \<^verbatim>\<open>packages/backup-store/src/schema.ts\<close>.
  Reasons for people are omitted.
\<close>

section \<open>Recipes\<close>

definition composeApp_ok :: "string \<Rightarrow> bool" where
  "composeApp_ok s \<longleftrightarrow> s \<noteq> [] \<and> length s \<le> 40 \<and> is_lower (hd s)
     \<and> list_all (\<lambda>c. is_lower c \<or> is_digit c \<or> c = CHR ''-'') (tl s)"

fun path_parts :: "string \<Rightarrow> string list" where
  "path_parts [] = [[]]"
| "path_parts (c # s) = (if c = CHR ''/'' then [] # path_parts s
     else (case path_parts s of p # ps \<Rightarrow> (c # p) # ps | [] \<Rightarrow> [[c]]))"

definition composePath_ok :: "string \<Rightarrow> bool" where
  "composePath_ok s \<longleftrightarrow> s \<noteq> [] \<and> length s \<le> 1024
     \<and> list_all (\<lambda>p. p \<noteq> [] \<and> p \<noteq> ''.'' \<and> p \<noteq> ''..'') (path_parts s)
     \<and> list_all (\<lambda>c. (32::nat) \<le> of_char c \<and> of_char c \<noteq> (127::nat) \<and> of_char c \<noteq> (92::nat)) s"

definition service_name_ok :: "string \<Rightarrow> bool" where
  "service_name_ok s \<longleftrightarrow> s \<noteq> [] \<and> length s \<le> 128 \<and> is_alnum (hd s)
     \<and> list_all (\<lambda>c. is_alnum c \<or> c \<in> set ''_.-'') (tl s)"

definition postgres_name_ok :: "string \<Rightarrow> bool" where
  "postgres_name_ok s \<longleftrightarrow> s \<noteq> [] \<and> length s \<le> 63 \<and> (is_upper (hd s) \<or> is_lower (hd s) \<or> hd s = CHR ''_'')
     \<and> list_all (\<lambda>c. is_alnum c \<or> c = CHR ''_'') (tl s)"

record backup_recipe =
  rc_app :: string
  rc_releaseId :: string
  rc_service :: string
  rc_database :: string
  rc_user :: string
  rc_files :: "string list"

definition backupRecipe_ok :: "backup_recipe \<Rightarrow> bool" where
  "backupRecipe_ok r \<longleftrightarrow> composeApp_ok (rc_app r) \<and> stored_uuidv4 (rc_releaseId r)
     \<and> service_name_ok (rc_service r) \<and> postgres_name_ok (rc_database r)
     \<and> postgres_name_ok (rc_user r) \<and> length (rc_files r) \<le> 100 \<and> list_all composePath_ok (rc_files r)"

record backup_limits =
  bl_maxBytes :: int
  bl_timeoutSeconds :: int

definition backupLimits_ok :: "backup_limits \<Rightarrow> bool" where
  "backupLimits_ok l \<longleftrightarrow> 1048576 \<le> bl_maxBytes l \<and> bl_maxBytes l \<le> 1073741824
     \<and> 30 \<le> bl_timeoutSeconds l \<and> bl_timeoutSeconds l \<le> 900"

record capture_request =
  cr_id :: string
  cr_recipe :: backup_recipe

definition captureRequest_ok :: "capture_request \<Rightarrow> bool" where
  "captureRequest_ok r \<longleftrightarrow> uuidv4 (cr_id r) \<and> backupRecipe_ok (cr_recipe r)"

section \<open>Captures and protected objects\<close>

record capture_manifest =
  mf_recipe :: backup_recipe
  mf_capturedAt :: instant
  mf_completedAt :: instant
  mf_postgresVersion :: string
  mf_sourceFiles :: int
  mf_declaredFiles :: "string list"
  mf_exclusions :: "string list"

record guest_capture =
  cp_id :: string
  cp_manifest :: capture_manifest
  cp_bytes :: int
  cp_sha256 :: string

datatype capture_state =
    Capture_missing
  | Capture_pending string string
  | Capture_failed string
  | Capture_done guest_capture

definition guestCapture_ok :: "guest_capture \<Rightarrow> bool" where
  "guestCapture_ok c \<longleftrightarrow> uuidv4 (cp_id c) \<and> backupRecipe_ok (mf_recipe (cp_manifest c))
     \<and> 0 < cp_bytes c \<and> sha256_ok (cp_sha256 c)"

text \<open>The envelope of the encryption: the binding it was made for and its byte counts and digests;
  the wrapped key material is one text.\<close>

record backup_binding =
  bi_accountId :: id
  bi_backupId :: string
  bi_manifestSha256 :: string

record encryption = backup_binding +
  en_keyVersion :: string
  en_wrapped :: string
  en_plaintextBytes :: int
  en_plaintextSha256 :: string
  en_ciphertextBytes :: int
  en_ciphertextSha256 :: string

datatype retention_mode = Governance | Compliance

record upload_intent =
  ui_storeId :: string
  ui_bucket :: string
  ui_key :: string
  ui_attemptId :: string
  ui_ciphertextSha256 :: string
  ui_contentMd5 :: string
  ui_size :: int
  ui_mode :: retention_mode
  ui_retainUntil :: instant

record object_receipt = upload_intent +
  ob_versionId :: string

record sealed =
  se_capture :: guest_capture
  se_encryption :: encryption
  se_intent :: upload_intent

text \<open>\<open>backupWorkSchema\<close>: the durable stage of a backup and how often it was tried; the last flag
  of a stored backup is \<open>guestCleanup = 'done'\<close>.\<close>

datatype backup_work =
    Wk_capture nat
  | Wk_encrypt guest_capture nat
  | Wk_ready sealed
  | Wk_submitted sealed nat
  | Wk_stored sealed object_receipt bool nat

datatype restore_work = Rw_waiting | Rw_prepare nat | Rw_submitted nat | Rw_done

section \<open>Summaries\<close>

datatype validation = Captured_only | Restore_verified

datatype backup_state =
    Bk_pending
  | Bk_blocked
  | Bk_captured int instant validation capture_manifest
  | Bk_purge_pending string
  | Bk_purged string instant

record backup_summary =
  bk_id :: string
  bk_accountId :: id
  bk_projectId :: id
  bk_machineId :: id
  bk_allocationId :: id
  bk_createdAt :: instant
  bk_retainUntil :: instant
  bk_state :: backup_state

record restore_request =
  rr_id :: string
  rr_backupId :: string
  rr_app :: string
  rr_machine :: machine_spec

definition restoreRequest_ok :: "restore_request \<Rightarrow> bool" where
  "restoreRequest_ok r \<longleftrightarrow> uuidv4 (rr_id r) \<and> uuidv4 (rr_backupId r) \<and> composeApp_ok (rr_app r)
     \<and> machine_spec_ok (rr_machine r)"

record restored_state =
  rd_id :: string
  rd_app :: string
  rd_releaseId :: string
  rd_postgresVersion :: string

datatype restore_answer =
    Restore_pending string
  | Restore_failed string
  | Restore_done restored_state

text \<open>The flag of a pending restore is \<open>waitingFor = 'backup_key'\<close>.\<close>

datatype restore_state = Rt_pending bool | Rt_blocked | Rt_restored restored_state

record restore_summary =
  rt_id :: string
  rt_backupId :: string
  rt_accountId :: id
  rt_projectId :: id
  rt_targetId :: id
  rt_operationId :: id
  rt_createdAt :: instant
  rt_state :: restore_state

record restore_guest_request =
  rg_id :: string
  rg_backupId :: string
  rg_app :: string
  rg_limits :: backup_limits
  rg_bytes :: int
  rg_sha256 :: string

datatype purge_reason = Purge_customer | Purge_retention

datatype purge_state =
    Pg_waiting instant
  | Pg_submitted instant
  | Pg_blocked instant
  | Pg_purged instant

record purge_summary =
  pg_id :: string
  pg_backupId :: string
  pg_accountId :: id
  pg_projectId :: id
  pg_reason :: purge_reason
  pg_createdAt :: instant
  pg_state :: purge_state

record schedule_request =
  sq_id :: string
  sq_recipe :: backup_recipe

definition scheduleRequest_ok :: "schedule_request \<Rightarrow> bool" where
  "scheduleRequest_ok r \<longleftrightarrow> uuidv4 (sq_id r) \<and> backupRecipe_ok (sq_recipe r)"

datatype schedule_attempt =
    At_none
  | At_admitted instant string
  | At_refused instant failure

text \<open>The deleter's answer about one object version.\<close>

datatype purge_outcome = Absent | Retained instant

end
