(* ===== verification/Backup_Store.thy ===== *)
theory Backup_Store
  imports Backup_Contracts Effects
begin

text \<open>
  The five tables of backups (\<^verbatim>\<open>packages/db/src/schema.ts\<close>), their constraints and statements, and the
  process that works with them: the state of a process is extended by the \<open>vault\<close> of these tables,
  by the guests, the object store and the disk it reaches, by the record of the effects requested,
  and by what other processes do. Audit entries of backups are kept with them.

  Outside a transaction every interaction is preceded by the changes other processes commit. Another
  process keeps every row, and moves its stage forward only (\<open>keeps_vault\<close>); while this process
  holds the worker lock, others touch an existing backup only to claim it for a purge.
\<close>

section \<open>Rows\<close>

record backup_row =
  bw_id :: string
  bw_accountId :: id
  bw_projectId :: id
  bw_machineId :: id
  bw_allocationId :: id
  bw_grantId :: id
  bw_digest :: string
  bw_recipe :: backup_recipe
  bw_limits :: backup_limits
  bw_record :: backup_summary
  bw_work :: backup_work
  bw_reservedBytes :: int
  bw_createdAt :: instant

record restore_entry =
  re_id :: string
  re_accountId :: id
  re_backupId :: string
  re_machineId :: id
  re_grantId :: id
  re_digest :: string
  re_request :: restore_request
  re_record :: restore_summary
  re_work :: restore_work
  re_createdAt :: instant

record purge_row =
  pu_id :: string
  pu_accountId :: id
  pu_backupId :: string
  pu_grantId :: "id option"
  pu_record :: purge_summary
  pu_nextAttemptAt :: "instant option"

record schedule_row =
  sd_id :: string
  sd_accountId :: id
  sd_projectId :: id
  sd_machineId :: id
  sd_allocationId :: id
  sd_grantId :: id
  sd_digest :: string
  sd_recipe :: backup_recipe
  sd_nextRunAt :: instant
  sd_disabledAt :: "instant option"
  sd_lastAttempt :: schedule_attempt
  sd_createdAt :: instant

record schedule_run =
  sr_accountId :: id
  sr_scheduleId :: string
  sr_backupId :: string
  sr_dueAt :: instant

datatype backup_event =
    Backup_admitted id id instant int
  | Restore_admitted string id id
  | Purge_admitted string purge_reason "id option"
  | Backup_purged string int
  | Schedule_created id id
  | Schedule_disabled id

datatype backup_job = Backup_job string | Restore_job string

record vault =
  vt_backups :: "backup_row list"
  vt_restores :: "restore_entry list"
  vt_purges :: "purge_row list"
  vt_schedules :: "schedule_row list"
  vt_runs :: "schedule_run list"
  vt_events :: "(id \<times> string \<times> backup_event) list"
  vt_jobs :: "backup_job list"

section \<open>Constraints\<close>

definition backups_ok :: "db \<Rightarrow> vault \<Rightarrow> bool" where
  "backups_ok d v \<longleftrightarrow> unique_by bw_id (vt_backups v)
     \<and> references (\<lambda>b. (bw_accountId b, bw_projectId b)) (vt_backups v) (\<lambda>p. (prj_accountId p, prj_id p)) (projects d)
     \<and> references (\<lambda>b. (bw_accountId b, bw_machineId b)) (vt_backups v) (\<lambda>m. (mc_accountId m, mc_id m)) (machines d)
     \<and> references (\<lambda>b. (bw_accountId b, bw_allocationId b)) (vt_backups v) (\<lambda>a. (al_accountId a, al_id a)) (allocations d)
     \<and> references (\<lambda>b. (bw_accountId b, bw_grantId b)) (vt_backups v) (\<lambda>g. (gr_accountId g, gr_id g)) (grants d)
     \<and> list_all (\<lambda>b. 0 \<le> bw_reservedBytes b \<and> bw_reservedBytes b \<le> 1073741824) (vt_backups v)"

definition restores_ok :: "db \<Rightarrow> vault \<Rightarrow> bool" where
  "restores_ok d v \<longleftrightarrow> unique_by re_id (vt_restores v) \<and> unique_by re_machineId (vt_restores v)
     \<and> references (\<lambda>r. (re_accountId r, re_backupId r)) (vt_restores v) (\<lambda>b. (bw_accountId b, bw_id b)) (vt_backups v)
     \<and> references (\<lambda>r. (re_accountId r, re_machineId r)) (vt_restores v) (\<lambda>m. (mc_accountId m, mc_id m)) (machines d)
     \<and> references (\<lambda>r. (re_accountId r, re_grantId r)) (vt_restores v) (\<lambda>g. (gr_accountId g, gr_id g)) (grants d)"

definition purges_ok :: "db \<Rightarrow> vault \<Rightarrow> bool" where
  "purges_ok d v \<longleftrightarrow> unique_by pu_id (vt_purges v) \<and> unique_by pu_backupId (vt_purges v)
     \<and> references (\<lambda>p. (pu_accountId p, pu_backupId p)) (vt_purges v) (\<lambda>b. (bw_accountId b, bw_id b)) (vt_backups v)
     \<and> references (\<lambda>p. (pu_accountId p, the (pu_grantId p))) (filter (\<lambda>p. pu_grantId p \<noteq> None) (vt_purges v))
         (\<lambda>g. (gr_accountId g, gr_id g)) (grants d)"

definition schedules_ok :: "db \<Rightarrow> vault \<Rightarrow> bool" where
  "schedules_ok d v \<longleftrightarrow> unique_by sd_id (vt_schedules v)
     \<and> unique_by (\<lambda>s. (sd_machineId s, rc_app (sd_recipe s))) (filter (\<lambda>s. sd_disabledAt s = None) (vt_schedules v))
     \<and> references (\<lambda>s. (sd_accountId s, sd_projectId s)) (vt_schedules v) (\<lambda>p. (prj_accountId p, prj_id p)) (projects d)
     \<and> references (\<lambda>s. (sd_accountId s, sd_machineId s)) (vt_schedules v) (\<lambda>m. (mc_accountId m, mc_id m)) (machines d)
     \<and> references (\<lambda>s. (sd_accountId s, sd_allocationId s)) (vt_schedules v) (\<lambda>a. (al_accountId a, al_id a)) (allocations d)
     \<and> references (\<lambda>s. (sd_accountId s, sd_grantId s)) (vt_schedules v) (\<lambda>g. (gr_accountId g, gr_id g)) (grants d)"

definition runs_ok :: "vault \<Rightarrow> bool" where
  "runs_ok v \<longleftrightarrow> unique_by sr_backupId (vt_runs v) \<and> unique_by (\<lambda>r. (sr_scheduleId r, sr_dueAt r)) (vt_runs v)
     \<and> references (\<lambda>r. (sr_accountId r, sr_scheduleId r)) (vt_runs v) (\<lambda>s. (sd_accountId s, sd_id s)) (vt_schedules v)
     \<and> references (\<lambda>r. (sr_accountId r, sr_backupId r)) (vt_runs v) (\<lambda>b. (bw_accountId b, bw_id b)) (vt_backups v)"

definition vault_ok :: "db \<Rightarrow> vault \<Rightarrow> bool" where
  "vault_ok d v \<longleftrightarrow> backups_ok d v \<and> restores_ok d v \<and> purges_ok d v \<and> schedules_ok d v \<and> runs_ok v"

section \<open>Statements\<close>

datatype vault_statement =
    Insert_backup backup_row
  | Update_backup string "backup_row \<Rightarrow> backup_row"
  | Insert_restore restore_entry
  | Update_restore string "restore_entry \<Rightarrow> restore_entry"
  | Insert_purge purge_row
  | Update_purge string "purge_row \<Rightarrow> purge_row"
  | Insert_schedule schedule_row
  | Update_schedule string "schedule_row \<Rightarrow> schedule_row"
  | Insert_schedule_run schedule_run
  | Insert_backup_event id string backup_event
  | Enqueue_backup backup_job

text \<open>\<open>created_at\<close> defaults to \<open>now()\<close>.\<close>

fun vault_effect :: "instant \<Rightarrow> vault_statement \<Rightarrow> vault \<Rightarrow> vault" where
  "vault_effect now (Insert_backup b) v = v\<lparr>vt_backups := vt_backups v @ [b\<lparr>bw_createdAt := now\<rparr>]\<rparr>"
| "vault_effect now (Update_backup i f) v = v\<lparr>vt_backups := update_where (\<lambda>b. bw_id b = i) f (vt_backups v)\<rparr>"
| "vault_effect now (Insert_restore r) v = v\<lparr>vt_restores := vt_restores v @ [r\<lparr>re_createdAt := now\<rparr>]\<rparr>"
| "vault_effect now (Update_restore i f) v = v\<lparr>vt_restores := update_where (\<lambda>r. re_id r = i) f (vt_restores v)\<rparr>"
| "vault_effect now (Insert_purge p) v = v\<lparr>vt_purges := vt_purges v @ [p]\<rparr>"
| "vault_effect now (Update_purge i f) v = v\<lparr>vt_purges := update_where (\<lambda>p. pu_id p = i) f (vt_purges v)\<rparr>"
| "vault_effect now (Insert_schedule s) v = v\<lparr>vt_schedules := vt_schedules v @ [s\<lparr>sd_createdAt := now\<rparr>]\<rparr>"
| "vault_effect now (Update_schedule i f) v = v\<lparr>vt_schedules := update_where (\<lambda>s. sd_id s = i) f (vt_schedules v)\<rparr>"
| "vault_effect now (Insert_schedule_run r) v = v\<lparr>vt_runs := vt_runs v @ [r]\<rparr>"
| "vault_effect now (Insert_backup_event a i e) v = v\<lparr>vt_events := vt_events v @ [(a, i, e)]\<rparr>"
| "vault_effect now (Enqueue_backup j) v =
     (if j \<in> set (vt_jobs v) then v else v\<lparr>vt_jobs := vt_jobs v @ [j]\<rparr>)"

definition vault_apply :: "db \<Rightarrow> instant \<Rightarrow> vault_statement \<Rightarrow> vault \<Rightarrow> vault option" where
  "vault_apply d now st v = (let w = vault_effect now st v in if vault_ok d w then Some w else None)"

definition backup_at :: "vault \<Rightarrow> string \<Rightarrow> backup_row option" where
  "backup_at v i = select_one (\<lambda>b. bw_id b = i) (vt_backups v)"

definition restore_at :: "vault \<Rightarrow> string \<Rightarrow> restore_entry option" where
  "restore_at v i = select_one (\<lambda>r. re_id r = i) (vt_restores v)"

definition purge_at :: "vault \<Rightarrow> string \<Rightarrow> purge_row option" where
  "purge_at v i = select_one (\<lambda>p. pu_id p = i) (vt_purges v)"

definition schedule_at :: "vault \<Rightarrow> string \<Rightarrow> schedule_row option" where
  "schedule_at v i = select_one (\<lambda>s. sd_id s = i) (vt_schedules v)"

section \<open>What another process may do\<close>

text \<open>The stage of a backup, and what is settled at that stage.\<close>

fun work_stage :: "backup_work \<Rightarrow> nat" where
  "work_stage (Wk_capture n) = 0"
| "work_stage (Wk_encrypt c n) = 1"
| "work_stage (Wk_ready x) = 2"
| "work_stage (Wk_submitted x n) = 3"
| "work_stage (Wk_stored x r done n) = 4"

fun submitted_intent :: "backup_work \<Rightarrow> upload_intent option" where
  "submitted_intent (Wk_submitted x n) = Some (se_intent x)"
| "submitted_intent (Wk_stored x r done n) = Some (se_intent x)"
| "submitted_intent _ = None"

fun stored_receipt :: "backup_work \<Rightarrow> object_receipt option" where
  "stored_receipt (Wk_stored x r done n) = Some r"
| "stored_receipt _ = None"

fun claimed_purge :: "backup_state \<Rightarrow> string option" where
  "claimed_purge (Bk_purge_pending p) = Some p"
| "claimed_purge (Bk_purged p t) = Some p"
| "claimed_purge _ = None"

fun restore_stage :: "restore_work \<Rightarrow> nat" where
  "restore_stage Rw_waiting = 0"
| "restore_stage (Rw_prepare n) = 1"
| "restore_stage (Rw_submitted n) = 2"
| "restore_stage Rw_done = 3"

definition forward :: "('a \<Rightarrow> 'b option) \<Rightarrow> 'a \<Rightarrow> 'a \<Rightarrow> bool" where
  "forward f x x' \<longleftrightarrow> f x = None \<or> f x' = f x"

text \<open>How a row may move: its stage does not go back, a recorded intent, receipt or target stays.\<close>

definition work_moves :: "backup_work \<Rightarrow> backup_work \<Rightarrow> bool" where
  "work_moves w w' \<longleftrightarrow> work_stage w \<le> work_stage w' \<and> forward submitted_intent w w' \<and> forward stored_receipt w w'"

definition row_moves :: "backup_row \<Rightarrow> backup_row \<Rightarrow> bool" where
  "row_moves b b' \<longleftrightarrow> bw_id b' = bw_id b \<and> work_moves (bw_work b) (bw_work b')"

definition restore_moves :: "restore_entry \<Rightarrow> restore_entry \<Rightarrow> bool" where
  "restore_moves e e' \<longleftrightarrow> re_id e' = re_id e \<and> restore_stage (re_work e) \<le> restore_stage (re_work e')"

definition purge_moves :: "purge_row \<Rightarrow> purge_row \<Rightarrow> bool" where
  "purge_moves p p' \<longleftrightarrow> pu_id p' = pu_id p \<and> pu_backupId p' = pu_backupId p"

text \<open>Every row found under its key is found there later, moved along its relation. This is all that
  is assumed of other processes, and it is what \<open>Backup_Laws\<close> proves of this one.\<close>

definition moved :: "('a \<Rightarrow> 'a \<Rightarrow> bool) \<Rightarrow> 'a option \<Rightarrow> 'a option \<Rightarrow> bool" where
  "moved K x y = (case x of None \<Rightarrow> True | Some a \<Rightarrow> (case y of None \<Rightarrow> False | Some b \<Rightarrow> K a b))"

definition keeps_vault :: "vault \<Rightarrow> vault \<Rightarrow> bool" where
  "keeps_vault v w \<longleftrightarrow>
     list_all (\<lambda>b. moved row_moves (backup_at v (bw_id b)) (backup_at w (bw_id b))) (vt_backups v)
     \<and> list_all (\<lambda>e. moved restore_moves (restore_at v (re_id e)) (restore_at w (re_id e))) (vt_restores v)
     \<and> list_all (\<lambda>p. moved purge_moves (purge_at v (pu_id p)) (purge_at w (pu_id p))) (vt_purges v)"

text \<open>\<open>grown K xs ys\<close>: every row of \<open>xs\<close> has moved along \<open>K\<close>, and new rows follow.\<close>

definition grown :: "('a \<Rightarrow> 'a \<Rightarrow> bool) \<Rightarrow> 'a list \<Rightarrow> 'a list \<Rightarrow> bool" where
  "grown K xs ys \<longleftrightarrow> list_all2 K xs (take (length xs) ys)"

text \<open>Without the worker lock a backup can only be claimed for a purge.\<close>

definition only_claimed :: "backup_row \<Rightarrow> backup_row \<Rightarrow> bool" where
  "only_claimed b b' \<longleftrightarrow> b' = b \<or>
     (case (bk_state (bw_record b), bk_state (bw_record b')) of
        (Bk_captured n t x m, Bk_purge_pending p) \<Rightarrow>
          b' = b\<lparr>bw_record := (bw_record b)\<lparr>bk_state := Bk_purge_pending p\<rparr>\<rparr>
      | _ \<Rightarrow> False)"

definition leaves_worker :: "vault \<Rightarrow> vault \<Rightarrow> bool" where
  "leaves_worker v w \<longleftrightarrow> grown only_claimed (vt_backups v) (vt_backups w)
     \<and> grown (=) (vt_restores v) (vt_restores w) \<and> grown (=) (vt_purges v) (vt_purges w)"

section \<open>Processes\<close>

datatype intruder = Stores statement | Vaults vault

record 'k backup_world = process +
  vault :: vault
  keep :: 'k
  puts :: "(string \<times> upload_intent) list"
  runs_sent :: "string list"
  deletions :: "(string \<times> object_receipt) list"
  worker :: bool
  intruders :: "nat \<Rightarrow> intruder list"

type_synonym ('k, 'a) backup_act = "('k backup_world, 'a) prog"

fun intruded :: "instant \<Rightarrow> intruder \<Rightarrow> 'k backup_world \<Rightarrow> 'k backup_world" where
  "intruded clock (Stores st) s = (case apply_stmt clock clock st (store s) of
      None \<Rightarrow> s | Some (d, n) \<Rightarrow> if vault_ok d (vault s) then s\<lparr>store := d\<rparr> else s)"
| "intruded clock (Vaults w) s =
     (if vault_ok (store s) w \<and> keeps_vault (vault s) w \<and> (worker s \<longrightarrow> leaves_worker (vault s) w)
      then s\<lparr>vault := w\<rparr> else s)"

definition interrupted :: "nat \<Rightarrow> 'k backup_world \<Rightarrow> 'k backup_world" where
  "interrupted i s = (if began s = None
     then fold (intruded (or_clock (outside s) i)) (intruders s i) s else s)"

definition bprim :: "(nat \<Rightarrow> ('k, 'a) backup_act) \<Rightarrow> ('k, 'a) backup_act" where
  "bprim f = prim (\<lambda>i s. f i (interrupted i s))"

definition seek :: "(instant \<Rightarrow> db \<Rightarrow> vault \<Rightarrow> 'a) \<Rightarrow> ('k, 'a) backup_act" where
  "seek g = bprim (\<lambda>i s. if or_fault (outside s) i then (Inl Defect, s)
     else (Inr (g (or_clock (outside s) i) (store s) (vault s)), s))"

definition put :: "vault_statement \<Rightarrow> ('k, unit) backup_act" where
  "put st = bprim (\<lambda>i s.
     if or_fault (outside s) i then (Inl Defect, s)
     else (case vault_apply (store s) (tx_now s i) st (vault s) of
             None \<Rightarrow> (Inl Defect, s)
           | Some w \<Rightarrow> ((if or_lost (outside s) i then Inl Defect else Inr ()), s\<lparr>vault := w\<rparr>)))"

text \<open>A transaction whose body returns \<open>None\<close> is rolled back and nothing is thrown: its body has
  thrown an error that the surrounding code takes apart from the others.\<close>

definition rolled_back :: "'k backup_world \<Rightarrow> 'k backup_world \<Rightarrow> 'k backup_world" where
  "rolled_back s t = t\<lparr>store := store s, vault := vault s, began := began s\<rparr>"

definition vault_attempt :: "('k, 'a option) backup_act \<Rightarrow> ('k, 'a option) backup_act" where
  "vault_attempt m = bprim (\<lambda>i s.
     if or_fault (outside s) i then (Inl Defect, s)
     else (case m (s\<lparr>began := Some (tx_now s i)\<rparr>) of
             (Inl e, t) \<Rightarrow> (Inl e, rolled_back s t)
           | (Inr None, t) \<Rightarrow> (Inr None, rolled_back s t)
           | (Inr (Some x), t) \<Rightarrow> (case commit t of
                 (Inl e, u) \<Rightarrow> (Inl e, rolled_back s u)
               | (Inr lost, u) \<Rightarrow> ((if lost then Inl Defect else Inr (Some x)), u\<lparr>began := began s\<rparr>))))"

definition vault_transaction :: "('k, 'a) backup_act \<Rightarrow> ('k, 'a) backup_act" where
  "vault_transaction m = bind (vault_attempt (bind m (\<lambda>x. ret (Some x)))) parsed"

definition raiseRetryable :: "error_code \<Rightarrow> ('s, 'a) prog" where
  "raiseRetryable c = raise (Cloud (cloud_error_retryable c))"

text \<open>\<open>withBackupWorkerLock\<close>; the lock is released when the work ends, however it ends.\<close>

definition withBackupWorkerLock :: "('k, 'a) backup_act \<Rightarrow> ('k, 'a option) backup_act" where
  "withBackupWorkerLock work = bind tryLock (\<lambda>acquired.
     if acquired
     then (\<lambda>s. case bind work (\<lambda>x. ret (Some x)) (s\<lparr>worker := True\<rparr>) of
                 (r, t) \<Rightarrow> (r, t\<lparr>worker := False\<rparr>))
     else ret None)"

text \<open>A request to a guest, the object store, the key file or the disk.\<close>

definition reach :: "('k, 'a) port \<Rightarrow> ('k, 'a) backup_act" where
  "reach f = bind (prim (\<lambda>i s. (let (r, k) = f (or_wall (outside s) i) (keep s)
     in (Inr r, s\<lparr>keep := k\<rparr>)))) reply"

text \<open>Requests that cannot be taken back are logged when they go out.\<close>

definition reach_put :: "('k, 'a) port \<Rightarrow> string \<Rightarrow> upload_intent \<Rightarrow> ('k, 'a) backup_act" where
  "reach_put f i x = bind (prim (\<lambda>j s. (let (r, k) = f (or_wall (outside s) j) (keep s)
     in (Inr r, s\<lparr>keep := k, puts := puts s @ [(i, x)]\<rparr>)))) reply"

definition reach_replay :: "('k, 'a) port \<Rightarrow> string \<Rightarrow> ('k, 'a) backup_act" where
  "reach_replay f i = bind (prim (\<lambda>j s. (let (r, k) = f (or_wall (outside s) j) (keep s)
     in (Inr r, s\<lparr>keep := k, runs_sent := runs_sent s @ [i]\<rparr>)))) reply"

definition reach_delete :: "('k, 'a) port \<Rightarrow> string \<Rightarrow> object_receipt \<Rightarrow> ('k, 'a) backup_act" where
  "reach_delete f i x = bind (prim (\<lambda>j s. (let (r, k) = f (or_wall (outside s) j) (keep s)
     in (Inr r, s\<lparr>keep := k, deletions := deletions s @ [(i, x)]\<rparr>)))) reply"

text \<open>\<open>try \<dots> finally\<close>; an error of the clean-up replaces the outcome of the body.\<close>

definition ending :: "('s, 'a) prog \<Rightarrow> ('s, unit) prog \<Rightarrow> ('s, 'a) prog" where
  "ending m c s = (case m s of
      (Inl Died, t) \<Rightarrow> (Inl Died, t)
    | (r, t) \<Rightarrow> (case c t of (Inl e, u) \<Rightarrow> (Inl e, u) | (Inr x, u) \<Rightarrow> (r, u)))"

end
