(* ===== verification/Backup_Service.thy ===== *)
theory Backup_Service
  imports Backup_Store Lifecycle
begin

text \<open>
  Admission of backups: \<^verbatim>\<open>apps/control/src/backups.ts\<close> (captures and restores, their inspection),
  \<^verbatim>\<open>backup-purges.ts\<close> (customers' purges and the retention policy) and \<^verbatim>\<open>backup-schedules.ts\<close>
  (daily captures), over the records of \<^verbatim>\<open>backup-records.ts\<close>. SHA-256 is a parameter.
\<close>

section \<open>Records (backup-records.ts)\<close>

definition backupRecord :: "backup_row \<Rightarrow> backup_summary option" where
  "backupRecord b = (let r = bw_record b in
     if bk_id r = bw_id b \<and> bk_accountId r = bw_accountId b \<and> bk_projectId r = bw_projectId b
       \<and> bk_machineId r = bw_machineId b \<and> bk_allocationId r = bw_allocationId b
     then Some r else None)"

definition restoreRecord :: "restore_entry \<Rightarrow> restore_summary option" where
  "restoreRecord e = (let r = re_record e in
     if rt_id r = re_id e \<and> rt_accountId r = re_accountId e \<and> rt_backupId r = re_backupId e
       \<and> rt_targetId r = re_machineId e
     then Some r else None)"

fun work_attempts :: "backup_work \<Rightarrow> nat" where
  "work_attempts (Wk_capture n) = n"
| "work_attempts (Wk_encrypt c n) = n"
| "work_attempts (Wk_ready x) = 0"
| "work_attempts (Wk_submitted x n) = n"
| "work_attempts (Wk_stored x r done n) = n"

fun restore_attempts :: "restore_work \<Rightarrow> nat" where
  "restore_attempts (Rw_prepare n) = n"
| "restore_attempts (Rw_submitted n) = n"
| "restore_attempts _ = 0"

definition backupWork :: "backup_row \<Rightarrow> backup_work option" where
  "backupWork b = (if work_attempts (bw_work b) \<le> 5 then Some (bw_work b) else None)"

definition restoreWork :: "restore_entry \<Rightarrow> restore_work option" where
  "restoreWork e = (if restore_attempts (re_work e) \<le> 5 then Some (re_work e) else None)"

fun stored_work :: "backup_work \<Rightarrow> bool" where
  "stored_work (Wk_stored x r done n) = True"
| "stored_work _ = False"

fun captured_state :: "backup_state \<Rightarrow> bool" where
  "captured_state (Bk_captured n t x m) = True"
| "captured_state _ = False"

fun restored :: "restore_state \<Rightarrow> bool" where
  "restored (Rt_restored r) = True"
| "restored _ = False"

text \<open>\<open>JSON.stringify\<close> of parsed requests. Names and paths have no control characters and no
  backslash.\<close>

fun escaped :: "string \<Rightarrow> string" where
  "escaped [] = []"
| "escaped (c # s) = (if of_char c = (34::nat) then [char_of (92::nat), c] else [c]) @ escaped s"

fun json_list :: "string list \<Rightarrow> string" where
  "json_list [] = ''''"
| "json_list [x] = x"
| "json_list (x # y # xs) = x @ '','' @ json_list (y # xs)"

definition recipe_json :: "backup_recipe \<Rightarrow> string" where
  "recipe_json r = ''{'' @ member ''kind'' (quoted ''compose-postgres'') @ '','' @ member ''app'' (quoted (rc_app r))
     @ '','' @ member ''releaseId'' (quoted (rc_releaseId r)) @ '','' @ member ''service'' (quoted (rc_service r))
     @ '','' @ member ''database'' (quoted (rc_database r)) @ '','' @ member ''user'' (quoted (rc_user r))
     @ '','' @ member ''files'' (''['' @ json_list (map (\<lambda>f. quoted (escaped f)) (rc_files r)) @ '']'') @ ''}''"

definition request_json :: "id \<Rightarrow> string \<Rightarrow> backup_recipe \<Rightarrow> string" where
  "request_json machine i r = ''{'' @ member ''machineId'' (quoted machine) @ '','' @ member ''request''
     (''{'' @ member ''id'' (quoted i) @ '','' @ member ''recipe'' (recipe_json r) @ ''}'') @ ''}''"

definition restore_json :: "restore_request \<Rightarrow> string" where
  "restore_json r = ''{'' @ member ''id'' (quoted (rr_id r)) @ '','' @ member ''backupId'' (quoted (rr_backupId r))
     @ '','' @ member ''app'' (quoted (rr_app r)) @ '','' @ member ''machine''
       (''{'' @ member ''name'' (quoted (spec_name (rr_machine r)))
         @ '','' @ member ''size'' (quoted (size_name (spec_size (rr_machine r))))
         @ '','' @ member ''region'' (quoted (region_name (spec_region (rr_machine r)))) @ ''}'') @ ''}''"

section \<open>Configuration\<close>

record backup_config =
  bc_retentionDays :: int
  bc_retentionMode :: retention_mode
  bc_limits :: backup_limits
  bc_maxAccountBytes :: int
  bc_maxGlobalBytes :: int

definition backupConfig_ok :: "backup_config \<Rightarrow> bool" where
  "backupConfig_ok c \<longleftrightarrow> 1 \<le> bc_retentionDays c \<and> bc_retentionDays c \<le> 30 \<and> backupLimits_ok (bc_limits c)
     \<and> 0 < bc_maxAccountBytes c \<and> bc_maxAccountBytes c \<le> 21474836480
     \<and> 0 < bc_maxGlobalBytes c \<and> bc_maxGlobalBytes c \<le> 1099511627776"

text \<open>The service, and what \<open>admit\<close> needs to provision the target of a restore.\<close>

record backup_deployment =
  bd_sha256 :: "string \<Rightarrow> string"
  bd_config :: backup_config
  bd_provider :: provider_kind
  bd_catalog :: catalog_source
  bd_limits :: limits
  bd_images :: "image_pinning option"

section \<open>Captures (backups.ts)\<close>

definition enqueueBackup :: "backup_job \<Rightarrow> ('k, unit) backup_act" where
  "enqueueBackup j = put (Enqueue_backup j)"

fun ssh_allocation :: "machine_state \<Rightarrow> id option" where
  "ssh_allocation (Allocated a s p (Guest_ssh t v digest boot) b) = Some a"
| "ssh_allocation _ = None"

definition dayMs :: int where
  "dayMs = 86400000"

definition whole_second :: "instant \<Rightarrow> instant" where
  "whole_second t = - ((- t) div 1000) * 1000"

definition owned_bytes :: "id \<Rightarrow> vault \<Rightarrow> int" where
  "owned_bytes account v = total bw_reservedBytes (filter (\<lambda>b. bw_accountId b = account) (vt_backups v))"

definition global_bytes :: "vault \<Rightarrow> int" where
  "global_bytes v = total bw_reservedBytes (vt_backups v)"

definition recent_captures :: "id \<Rightarrow> instant \<Rightarrow> vault \<Rightarrow> nat" where
  "recent_captures account clock v =
     length (filter (\<lambda>b. bw_accountId b = account \<and> clock - 3600000 < bw_createdAt b) (vt_backups v))"

definition new_backup :: "backup_deployment \<Rightarrow> principal \<Rightarrow> machine_row \<Rightarrow> id \<Rightarrow> instant \<Rightarrow> capture_request \<Rightarrow> string \<Rightarrow> backup_row" where
  "new_backup D p m allocation now r digest =
     \<lparr>bw_id = cr_id r, bw_accountId = accountId p, bw_projectId = mc_projectId m, bw_machineId = mc_id m,
      bw_allocationId = allocation, bw_grantId = grantId p, bw_digest = digest, bw_recipe = cr_recipe r,
      bw_limits = bc_limits (bd_config D),
      bw_record = \<lparr>bk_id = cr_id r, bk_accountId = accountId p, bk_projectId = mc_projectId m,
        bk_machineId = mc_id m, bk_allocationId = allocation, bk_createdAt = now,
        bk_retainUntil = whole_second (now + bc_retentionDays (bd_config D) * dayMs),
        bk_state = Bk_pending\<rparr>,
      bw_work = Wk_capture 0, bw_reservedBytes = bl_maxBytes (bc_limits (bd_config D)), bw_createdAt = now\<rparr>"

definition replayCapture :: "principal \<Rightarrow> authority \<Rightarrow> string \<Rightarrow> backup_row \<Rightarrow> ('k, backup_summary) backup_act" where
  "replayCapture p authority digest b =
     bind (unless (bw_accountId b = accountId p \<and> bw_digest b = digest) Idempotency_conflict) (\<lambda>_.
     bind (parsed (backupRecord b)) (\<lambda>record.
     bind (pure_of (authorize (au_principal authority) Backup_create (Some (bk_projectId record)))) (\<lambda>_.
     ret record)))"

definition newCapture :: "backup_deployment \<Rightarrow> principal \<Rightarrow> authority \<Rightarrow> id \<Rightarrow> capture_request \<Rightarrow> string \<Rightarrow> ('k, backup_summary) backup_act" where
  "newCapture D p authority machine r digest = (let config = bd_config D; account = accountId p in
     bind (ownMachine machine account) (\<lambda>m.
     bind (pure_of (authorize (au_principal authority) Backup_create (Some (mc_projectId m)))) (\<lambda>_.
     bind (present Resource_busy (ssh_allocation (mc_state m))) (\<lambda>allocation.
     bind (seek (\<lambda>clock d v. (owned_bytes account v, global_bytes v, recent_captures account clock v)))
       (\<lambda>(owned, total, recent).
     bind (unless (owned + bl_maxBytes (bc_limits config) \<le> bc_maxAccountBytes config
       \<and> total + bl_maxBytes (bc_limits config) \<le> bc_maxGlobalBytes config) Quota_exceeded) (\<lambda>_.
     bind (unless (recent < 10) Quota_exceeded) (\<lambda>_.
     let b = new_backup D p m allocation (au_checkedAt authority) r digest in
     bind (put (Insert_backup b)) (\<lambda>_.
     bind (put (Insert_backup_event account (cr_id r) (Backup_admitted (mc_id m) (grantId p)
       (bk_retainUntil (bw_record b)) (bw_reservedBytes b)))) (\<lambda>_.
     bind (enqueueBackup (Backup_job (cr_id r))) (\<lambda>_.
     ret (bw_record b)))))))))))"

definition captureInTransaction :: "backup_deployment \<Rightarrow> principal \<Rightarrow> id \<Rightarrow> capture_request \<Rightarrow> ('k, backup_summary) backup_act" where
  "captureInTransaction D p machine r =
     (let digest = bd_sha256 D (request_json machine (cr_id r) (cr_recipe r)) in
     bind (lockAccount (accountId p)) (\<lambda>_.
     bind (loadAuthority (grantId p)) (\<lambda>authority.
     bind (seek (\<lambda>clock d v. backup_at v (cr_id r))) (\<lambda>existing. case existing of
       Some b \<Rightarrow> replayCapture p authority digest b
     | None \<Rightarrow> newCapture D p authority machine r digest))))"

definition capture :: "backup_deployment \<Rightarrow> principal \<Rightarrow> id \<Rightarrow> capture_request \<Rightarrow> ('k, backup_summary) backup_act" where
  "capture D p machine r = vault_transaction (captureInTransaction D p machine r)"

definition inspectBackup :: "principal \<Rightarrow> string \<Rightarrow> ('k, backup_summary) backup_act" where
  "inspectBackup p i =
     bind (seek (\<lambda>clock d v. select_one (\<lambda>b. bw_id b = i \<and> bw_accountId b = accountId p) (vt_backups v))) (\<lambda>row.
     bind (present Not_found row) (\<lambda>b.
     bind (parsed (backupRecord b)) (\<lambda>record.
     bind (pure_of (authorize p Backup_read (Some (bk_projectId record)))) (\<lambda>_.
     ret record))))"

text \<open>\<open>ORDER BY created_at DESC LIMIT 100\<close>.\<close>

definition latest :: "('a \<Rightarrow> instant) \<Rightarrow> 'a list \<Rightarrow> 'a list" where
  "latest f xs = take 100 (sort_key (\<lambda>x. - f x) xs)"

definition ownedMachine :: "principal \<Rightarrow> id \<Rightarrow> ('k, machine_row) backup_act" where
  "ownedMachine p machine =
     bind (seek (\<lambda>clock d v. select_one (\<lambda>m. mc_id m = machine \<and> mc_accountId m = accountId p) (machines d)))
       (present Not_found)"

definition listBackups :: "principal \<Rightarrow> id \<Rightarrow> ('k, backup_summary list) backup_act" where
  "listBackups p machine =
     bind (ownedMachine p machine) (\<lambda>m.
     bind (pure_of (authorize p Backup_read (Some (mc_projectId m)))) (\<lambda>_.
     bind (seek (\<lambda>clock d v. latest bw_createdAt
       (filter (\<lambda>b. bw_machineId b = machine \<and> bw_accountId b = accountId p) (vt_backups v)))) (\<lambda>rows.
     parsed (those (map backupRecord rows)))))"

section \<open>Restores (backups.ts)\<close>

definition restore_key :: "string \<Rightarrow> string" where
  "restore_key i = ''backup-restore:'' @ i"

definition replayRestore :: "principal \<Rightarrow> authority \<Rightarrow> string \<Rightarrow> restore_entry \<Rightarrow> ('k, restore_summary) backup_act" where
  "replayRestore p authority digest e =
     bind (unless (re_accountId e = accountId p \<and> re_digest e = digest) Idempotency_conflict) (\<lambda>_.
     bind (parsed (restoreRecord e)) (\<lambda>record.
     bind (pure_of (authorize (au_principal authority) Backup_restore (Some (rt_projectId record)))) (\<lambda>_.
     ret record)))"

definition new_restore :: "principal \<Rightarrow> authority \<Rightarrow> backup_summary \<Rightarrow> operation \<Rightarrow> restore_request \<Rightarrow> string \<Rightarrow> restore_entry" where
  "new_restore p authority backup operation r digest = (let now = au_checkedAt authority in
     \<lparr>re_id = rr_id r, re_accountId = accountId p, re_backupId = bk_id backup,
      re_machineId = op_machineId operation, re_grantId = grantId p, re_digest = digest, re_request = r,
      re_record = \<lparr>rt_id = rr_id r, rt_backupId = bk_id backup, rt_accountId = accountId p,
        rt_projectId = bk_projectId backup, rt_targetId = op_machineId operation,
        rt_operationId = op_id operation, rt_createdAt = now, rt_state = Rt_pending False\<rparr>,
      re_work = Rw_waiting, re_createdAt = now\<rparr>)"

definition newRestore :: "backup_deployment \<Rightarrow> principal \<Rightarrow> authority \<Rightarrow> restore_request \<Rightarrow> string \<Rightarrow> ('k, restore_summary) backup_act" where
  "newRestore D p authority r digest =
     bind (seek (\<lambda>clock d v. select_one (\<lambda>b. bw_id b = rr_backupId r \<and> bw_accountId b = accountId p) (vt_backups v))) (\<lambda>row.
     bind (present Not_found row) (\<lambda>b.
     bind (parsed (backupRecord b)) (\<lambda>backup.
     bind (pure_of (authorize (au_principal authority) Backup_restore (Some (bk_projectId backup)))) (\<lambda>_.
     bind (unless (captured_state (bk_state backup)) Resource_busy) (\<lambda>_.
     bind (parsed (backupWork b)) (\<lambda>work.
     bind (unless (stored_work work) Resource_busy) (\<lambda>_.
     bind (admit (bd_sha256 D) (bd_provider D) (bd_catalog D) (bd_limits D) (bd_images D)
       (au_principal authority) (Create_request (bk_projectId backup) (rr_machine r)) (restore_key (rr_id r))) (\<lambda>operation.
     let e = new_restore p authority backup operation r digest in
     bind (put (Insert_restore e)) (\<lambda>_.
     bind (put (Insert_backup_event (accountId p) (rr_id r)
       (Restore_admitted (bk_id backup) (op_machineId operation) (grantId p)))) (\<lambda>_.
     bind (enqueueBackup (Restore_job (rr_id r))) (\<lambda>_.
     ret (re_record e))))))))))))"

definition restore :: "backup_deployment \<Rightarrow> principal \<Rightarrow> restore_request \<Rightarrow> ('k, restore_summary) backup_act" where
  "restore D p r = (let digest = bd_sha256 D (restore_json r) in
     vault_transaction (
     bind (lockAccount (accountId p)) (\<lambda>_.
     bind (loadAuthority (grantId p)) (\<lambda>authority.
     bind (seek (\<lambda>clock d v. restore_at v (rr_id r))) (\<lambda>existing. case existing of
       Some e \<Rightarrow> replayRestore p authority digest e
     | None \<Rightarrow> newRestore D p authority r digest)))))"

definition inspectRestore :: "principal \<Rightarrow> string \<Rightarrow> ('k, restore_summary) backup_act" where
  "inspectRestore p i =
     bind (seek (\<lambda>clock d v. select_one (\<lambda>e. re_id e = i \<and> re_accountId e = accountId p) (vt_restores v))) (\<lambda>row.
     bind (present Not_found row) (\<lambda>e.
     bind (parsed (restoreRecord e)) (\<lambda>record.
     bind (pure_of (authorize p Backup_read (Some (rt_projectId record)))) (\<lambda>_.
     ret record))))"

end
