(* ===== verification/Backup_Retention.thy ===== *)
theory Backup_Retention
  imports Backup_Service
begin

text \<open>
  The end of a backup: purges asked for by customers and by the retention policy
  (\<^verbatim>\<open>apps/control/src/backup-purges.ts\<close>), and the operator process that deletes object versions
  (\<^verbatim>\<open>backup-retention.ts\<close>). The deleter of \<^verbatim>\<open>packages/backup-store\<close> is a parameter.
\<close>

section \<open>Admission of purges (backup-purges.ts)\<close>

definition purgeRecord :: "purge_row \<Rightarrow> purge_summary option" where
  "purgeRecord p = (let r = pu_record p in
     if pg_id r = pu_id p \<and> pg_backupId r = pu_backupId p \<and> pg_accountId r = pu_accountId p
     then Some r else None)"

fun cleanup_done :: "backup_work \<Rightarrow> bool" where
  "cleanup_done (Wk_stored x r done n) = done"
| "cleanup_done _ = False"

fun receipt_matches :: "string \<Rightarrow> int \<Rightarrow> backup_work \<Rightarrow> bool" where
  "receipt_matches i bytes (Wk_stored x r done n) \<longleftrightarrow>
     ui_attemptId r = i \<and> cp_id (se_capture x) = i \<and> ui_size r = bytes"
| "receipt_matches i bytes _ = False"

definition machine_destroyed :: "db \<Rightarrow> id \<Rightarrow> bool" where
  "machine_destroyed d machine =
     (case select_one (\<lambda>m. mc_id m = machine) (machines d) of
        None \<Rightarrow> False | Some m \<Rightarrow> state_destroyed (mc_state m))"

text \<open>A restore that is not done pins its backup until its target is destroyed. The scan of the
  joined rows ends at the first such restore and fails at a row that does not parse.\<close>

definition target_alive :: "db \<Rightarrow> restore_entry \<Rightarrow> bool" where
  "target_alive d e = list_ex (\<lambda>m. mc_id m = re_machineId e \<and> \<not> state_destroyed (mc_state m)) (machines d)"

definition pinned :: "db \<Rightarrow> vault \<Rightarrow> string \<Rightarrow> bool" where
  "pinned d v i = list_ex (\<lambda>e. re_backupId e = i \<and> re_work e \<noteq> Rw_done \<and> target_alive d e) (vt_restores v)"

definition joined_restores :: "db \<Rightarrow> vault \<Rightarrow> string \<Rightarrow> restore_entry list" where
  "joined_restores d v i = filter (\<lambda>e. re_backupId e = i
     \<and> list_ex (\<lambda>m. mc_id m = re_machineId e) (machines d)) (vt_restores v)"

fun unfinished_among :: "db \<Rightarrow> restore_entry list \<Rightarrow> bool option" where
  "unfinished_among d [] = Some False"
| "unfinished_among d (e # es) = (case restoreWork e of
      None \<Rightarrow> None
    | Some w \<Rightarrow> if w \<noteq> Rw_done \<and> target_alive d e then Some True else unfinished_among d es)"

definition assertPurgeable :: "backup_row \<Rightarrow> ('k, backup_summary) backup_act" where
  "assertPurgeable b =
     bind (parsed (backupRecord b)) (\<lambda>backup.
     bind (parsed (backupWork b)) (\<lambda>work.
     bind (unless (captured_state (bk_state backup) \<and> stored_work work) Resource_busy) (\<lambda>_.
     bind (parsed (if receipt_matches (bk_id backup) (bw_reservedBytes b) work then Some () else None)) (\<lambda>_.
     bind (if cleanup_done work then ret ()
       else bind (seek (\<lambda>clock d v. machine_destroyed d (bk_machineId backup))) (\<lambda>gone. unless gone Resource_busy)) (\<lambda>_.
     bind (seek (\<lambda>clock d v. unfinished_among d (joined_restores d v (bk_id backup)))) (\<lambda>scan.
     bind (parsed scan) (\<lambda>unfinished.
     bind (unless (\<not> unfinished) Resource_busy) (\<lambda>_.
     ret backup))))))))"

definition new_purge :: "backup_summary \<Rightarrow> string \<Rightarrow> principal option \<Rightarrow> instant \<Rightarrow> purge_row" where
  "new_purge backup i caller now =
     \<lparr>pu_id = i, pu_accountId = bk_accountId backup, pu_backupId = bk_id backup,
      pu_grantId = map_option grantId caller,
      pu_record = \<lparr>pg_id = i, pg_backupId = bk_id backup, pg_accountId = bk_accountId backup,
        pg_projectId = bk_projectId backup,
        pg_reason = (if caller = None then Purge_retention else Purge_customer), pg_createdAt = now,
        pg_state = Pg_waiting (bk_retainUntil backup)\<rparr>,
      pu_nextAttemptAt = Some (max now (bk_retainUntil backup))\<rparr>"

definition set_backup_state :: "string \<Rightarrow> backup_summary \<Rightarrow> backup_state \<Rightarrow> ('k, unit) backup_act" where
  "set_backup_state i record st = put (Update_backup i (\<lambda>b. b\<lparr>bw_record := record\<lparr>bk_state := st\<rparr>\<rparr>))"

text \<open>Without a caller the retention policy admits the purge.\<close>

definition admitPurge :: "backup_row \<Rightarrow> string \<Rightarrow> principal option \<Rightarrow> ('k, purge_summary) backup_act" where
  "admitPurge b i caller =
     bind (assertPurgeable b) (\<lambda>backup.
     bind databaseTime (\<lambda>now.
     let p = new_purge backup i caller now in
     bind (put (Insert_purge p)) (\<lambda>_.
     bind (set_backup_state (bk_id backup) backup (Bk_purge_pending i)) (\<lambda>_.
     bind (put (Insert_backup_event (bk_accountId backup) i
       (Purge_admitted (bk_id backup) (pg_reason (pu_record p)) (pu_grantId p)))) (\<lambda>_.
     ret (pu_record p))))))"

definition customers_purge :: "principal \<Rightarrow> string \<Rightarrow> purge_row \<Rightarrow> ('k, purge_summary) backup_act" where
  "customers_purge p i existing =
     bind (unless (pu_accountId existing = accountId p \<and> pu_backupId existing = i) Idempotency_conflict) (\<lambda>_.
     bind (parsed (purgeRecord existing)) (\<lambda>record.
     bind (unless (pg_reason record = Purge_customer) Idempotency_conflict) (\<lambda>_.
     ret record)))"

definition requestPurge :: "principal \<Rightarrow> string \<Rightarrow> string \<Rightarrow> ('k, purge_summary) backup_act" where
  "requestPurge p i purge = vault_transaction (
     bind (lockAccount (accountId p)) (\<lambda>_.
     bind (loadAuthority (grantId p)) (\<lambda>authority.
     bind (seek (\<lambda>clock d v. select_one (\<lambda>b. bw_id b = i \<and> bw_accountId b = accountId p) (vt_backups v))) (\<lambda>row.
     bind (present Not_found row) (\<lambda>b.
     bind (parsed (backupRecord b)) (\<lambda>backup.
     bind (pure_of (authorize (au_principal authority) Backup_purge (Some (bk_projectId backup)))) (\<lambda>_.
     bind (seek (\<lambda>clock d v. purge_at v purge)) (\<lambda>existing. case existing of
       Some e \<Rightarrow> customers_purge p i e
     | None \<Rightarrow>
         bind (unless (claimed_purge (bk_state backup) = None) Resource_busy) (\<lambda>_.
         admitPurge b purge (Some (au_principal authority)))))))))))"

definition inspectPurge :: "principal \<Rightarrow> string \<Rightarrow> ('k, purge_summary) backup_act" where
  "inspectPurge p i =
     bind (seek (\<lambda>clock d v. select_one (\<lambda>q. pu_id q = i \<and> pu_accountId q = accountId p) (vt_purges v))) (\<lambda>row.
     bind (present Not_found row) (\<lambda>q.
     bind (parsed (purgeRecord q)) (\<lambda>record.
     bind (pure_of (authorize p Backup_read (Some (pg_projectId record)))) (\<lambda>_.
     ret record))))"

section \<open>The retention policy\<close>

definition scheduled :: "vault \<Rightarrow> string \<Rightarrow> bool" where
  "scheduled v i = list_ex (\<lambda>r. sr_backupId r = i) (vt_runs v)"

text \<open>The recipe without its release.\<close>

definition same_data :: "backup_recipe \<Rightarrow> backup_recipe \<Rightarrow> bool" where
  "same_data r r' \<longleftrightarrow> r'\<lparr>rc_releaseId := rc_releaseId r\<rparr> = r"

definition utc_day :: "instant \<Rightarrow> int" where
  "utc_day t = t div dayMs"

definition newer_days :: "vault \<Rightarrow> backup_row \<Rightarrow> int set" where
  "newer_days v b = set (map (\<lambda>x. utc_day (bw_createdAt x)) (filter (\<lambda>x. scheduled v (bw_id x)
     \<and> bw_machineId x = bw_machineId b \<and> bw_accountId x = bw_accountId b
     \<and> captured_state (bk_state (bw_record x)) \<and> utc_day (bw_createdAt b) < utc_day (bw_createdAt x)
     \<and> same_data (bw_recipe b) (bw_recipe x)) (vt_backups v)))"

definition retention_eligible :: "instant \<Rightarrow> db \<Rightarrow> vault \<Rightarrow> backup_row \<Rightarrow> bool" where
  "retention_eligible clock d v b \<longleftrightarrow> captured_state (bk_state (bw_record b))
     \<and> bk_retainUntil (bw_record b) \<le> clock \<and> stored_work (bw_work b)
     \<and> (cleanup_done (bw_work b)
         \<or> list_ex (\<lambda>m. mc_id m = bw_machineId b \<and> state_destroyed (mc_state m)) (machines d))
     \<and> scheduled v (bw_id b) \<and> \<not> pinned d v (bw_id b) \<and> 7 \<le> card (newer_days v b)"

definition retentionCandidates :: "nat \<Rightarrow> ('k, string list) backup_act" where
  "retentionCandidates limit = seek (\<lambda>clock d v.
     map bw_id (take limit (sort_key bw_createdAt (filter (retention_eligible clock d v) (vt_backups v)))))"

definition admitExpiredBackup :: "string \<Rightarrow> ('k, purge_summary option) backup_act" where
  "admitExpiredBackup i = vault_transaction (
     bind (seek (\<lambda>clock d v. backup_at v i)) (\<lambda>selected. case selected of
       None \<Rightarrow> ret None
     | Some x \<Rightarrow>
         bind (lockAccount (bw_accountId x)) (\<lambda>_.
         bind (seek (\<lambda>clock d v. select_one (\<lambda>b. bw_id b = i \<and> retention_eligible clock d v b) (vt_backups v))) (\<lambda>row.
         case row of
           None \<Rightarrow> ret None
         | Some b \<Rightarrow> bind randomUUID (\<lambda>u. bind (admitPurge b u None) (\<lambda>p. ret (Some p)))))))"

section \<open>The deleting process (backup-retention.ts)\<close>

type_synonym 'k deleter = "object_receipt \<Rightarrow> ('k, purge_outcome) port"

definition set_purge :: "string \<Rightarrow> purge_summary \<Rightarrow> purge_state \<Rightarrow> ('k, unit) backup_act" where
  "set_purge i record st = put (Update_purge i (\<lambda>p. p\<lparr>pu_record := record\<lparr>pg_state := st\<rparr>\<rparr>))"

definition schedule_purge :: "string \<Rightarrow> purge_summary \<Rightarrow> purge_state \<Rightarrow> instant option \<Rightarrow> ('k, unit) backup_act" where
  "schedule_purge i record st next_attempt = put (Update_purge i (\<lambda>p. p\<lparr>pu_record := record\<lparr>pg_state := st\<rparr>,
     pu_nextAttemptAt := next_attempt\<rparr>))"

definition completePurge :: "purge_summary \<Rightarrow> ('k, unit) backup_act" where
  "completePurge purge = vault_transaction (
     bind (lockAccount (pg_accountId purge)) (\<lambda>_.
     bind (seek (\<lambda>clock d v. backup_at v (pg_backupId purge))) (\<lambda>row.
     bind (parsed row) (\<lambda>b.
     bind (parsed (backupRecord b)) (\<lambda>backup.
     bind (parsed (if bk_state backup = Bk_purge_pending (pg_id purge) then Some () else None)) (\<lambda>_.
     bind databaseTime (\<lambda>purgedAt.
     bind (put (Update_backup (bk_id backup) (\<lambda>b. b\<lparr>bw_reservedBytes := 0,
       bw_record := backup\<lparr>bk_state := Bk_purged (pg_id purge) purgedAt\<rparr>\<rparr>))) (\<lambda>_.
     bind (schedule_purge (pg_id purge) purge (Pg_purged purgedAt) None) (\<lambda>_.
     put (Insert_backup_event (pg_accountId purge) (pg_id purge)
       (Backup_purged (pg_backupId purge) (bw_reservedBytes b))))))))))))"

text \<open>The receipt of the backup that a purge owns.\<close>

fun owned_receipt :: "purge_summary \<Rightarrow> backup_summary \<Rightarrow> backup_work \<Rightarrow> object_receipt option" where
  "owned_receipt purge backup (Wk_stored x r done n) =
     (if bk_accountId backup = pg_accountId purge \<and> bk_projectId backup = pg_projectId purge
        \<and> bk_state backup = Bk_purge_pending (pg_id purge) \<and> ui_attemptId r = bk_id backup
      then Some r else None)"
| "owned_receipt purge backup _ = None"

definition settle :: "string \<Rightarrow> purge_summary \<Rightarrow> purge_outcome option \<Rightarrow> ('k, unit) backup_act" where
  "settle i purge outcome = (case outcome of
       None \<Rightarrow> bind databaseTime (\<lambda>t. schedule_purge i purge (Pg_blocked (t + 300000)) (Some (t + 300000)))
     | Some (Retained t) \<Rightarrow>
         bind wallTime (\<lambda>now. schedule_purge i purge (Pg_waiting t) (Some (max t (now + 1000))))
     | Some Absent \<Rightarrow> completePurge purge)"

definition purgeOwned :: "'k deleter \<Rightarrow> string \<Rightarrow> purge_summary \<Rightarrow> instant \<Rightarrow> ('k, unit) backup_act" where
  "purgeOwned deleter i purge now =
     bind (seek (\<lambda>clock d v. backup_at v (pg_backupId purge))) (\<lambda>row.
     bind (parsed row) (\<lambda>b.
     bind (parsed (backupRecord b)) (\<lambda>backup.
     bind (parsed (backupWork b)) (\<lambda>work.
     bind (parsed (owned_receipt purge backup work)) (\<lambda>receipt.
     bind (set_purge i purge (Pg_submitted now)) (\<lambda>_.
     bind (catch_any (bind (reach_delete (deleter receipt) i receipt) (\<lambda>x. ret (Some x))) (ret None)) (\<lambda>outcome.
     settle i purge outcome)))))))"

fun is_purged :: "purge_state \<Rightarrow> bool" where
  "is_purged (Pg_purged t) = True"
| "is_purged _ = False"

definition advancePurge :: "'k deleter \<Rightarrow> string \<Rightarrow> ('k, unit option) backup_act" where
  "advancePurge deleter i = withBackupWorkerLock (
     bind (seek (\<lambda>clock d v. purge_at v i)) (\<lambda>selected.
     case selected of None \<Rightarrow> ret () | Some q \<Rightarrow>
     case pu_nextAttemptAt q of None \<Rightarrow> ret () | Some due \<Rightarrow>
       bind databaseTime (\<lambda>now. if now < due then ret () else
       bind (parsed (purgeRecord q)) (\<lambda>purge.
       if is_purged (pg_state purge) then ret () else purgeOwned deleter i purge now))))"

text \<open>\<open>run\<close>: the policy's candidates are admitted and the due purges advanced until the deadline;
  a busy worker lock ends the run.\<close>

fun admitCandidates :: "instant \<Rightarrow> string list \<Rightarrow> nat \<Rightarrow> ('k, nat) backup_act" where
  "admitCandidates deadline [] n = ret n"
| "admitCandidates deadline (i # is) n = bind wallTime (\<lambda>now. if deadline \<le> now then ret n else
     bind (admitExpiredBackup i) (\<lambda>p. admitCandidates deadline is (if p = None then n else Suc n)))"

fun advancePurges :: "'k deleter \<Rightarrow> instant \<Rightarrow> string list \<Rightarrow> nat \<Rightarrow> ('k, nat) backup_act" where
  "advancePurges deleter deadline [] n = ret n"
| "advancePurges deleter deadline (i # is) n = bind wallTime (\<lambda>now. if deadline \<le> now then ret n else
     bind (advancePurge deleter i) (\<lambda>r. if r = None then ret n else advancePurges deleter deadline is (Suc n)))"

definition due_purges :: "instant \<Rightarrow> vault \<Rightarrow> purge_row list" where
  "due_purges clock v = filter (\<lambda>p. case pu_nextAttemptAt p of None \<Rightarrow> False | Some t \<Rightarrow> t \<le> clock) (vt_purges v)"

definition runRetention :: "'k deleter \<Rightarrow> nat \<Rightarrow> int \<Rightarrow> bool \<Rightarrow> ('k, nat \<times> nat) backup_act" where
  "runRetention deleter maxObjects maxRunSeconds pruneScheduled =
     bind wallTime (\<lambda>start. let deadline = start + maxRunSeconds * 1000 in
     bind (if pruneScheduled
       then bind (retentionCandidates maxObjects) (\<lambda>is. admitCandidates deadline is 0) else ret 0) (\<lambda>admitted.
     bind (seek (\<lambda>clock d v. map pu_id (take maxObjects
       (sort_key (\<lambda>p. the (pu_nextAttemptAt p)) (due_purges clock v))))) (\<lambda>due.
     bind (advancePurges deleter deadline due 0) (\<lambda>advanced.
     ret (admitted, advanced)))))"

end
