(* ===== verification/Backup_Schedules.thy ===== *)
theory Backup_Schedules
  imports Backup_Service
begin

text \<open>
  Daily captures: \<^verbatim>\<open>apps/control/src/backup-schedules.ts\<close>. A run admits one capture in the
  transaction that moves the schedule to its next day; a refused run moves it as well.
\<close>

section \<open>Views\<close>

datatype attempt_view =
    View_none
  | View_admitted instant backup_summary
  | View_refused instant failure

record schedule_view =
  sv_schedule :: schedule_row
  sv_attempt :: attempt_view
  sv_successful :: "backup_summary option"

definition successful_backup :: "vault \<Rightarrow> string \<Rightarrow> backup_row option" where
  "successful_backup v i =
     (case sort_key (\<lambda>(r, b). - sr_dueAt r)
        (filter (\<lambda>(r, b). sr_scheduleId r = i \<and> bw_id b = sr_backupId r \<and> captured_state (bk_state (bw_record b)))
          (List.product (vt_runs v) (vt_backups v))) of
        [] \<Rightarrow> None | (r, b) # rest \<Rightarrow> Some b)"

definition attempted :: "schedule_row \<Rightarrow> ('k, attempt_view) backup_act" where
  "attempted s = (case sd_lastAttempt s of
       At_none \<Rightarrow> ret View_none
     | At_refused t f \<Rightarrow> ret (View_refused t f)
     | At_admitted t i \<Rightarrow>
         bind (seek (\<lambda>clock d v. select_one (\<lambda>b. bw_id b = i \<and> bw_accountId b = sd_accountId s) (vt_backups v))) (\<lambda>row.
         bind (parsed row) (\<lambda>b.
         bind (parsed (backupRecord b)) (\<lambda>record.
         ret (View_admitted t record)))))"

definition scheduleSummary :: "schedule_row \<Rightarrow> ('k, schedule_view) backup_act" where
  "scheduleSummary s =
     bind (seek (\<lambda>clock d v. successful_backup v (sd_id s))) (\<lambda>successful.
     bind (attempted s) (\<lambda>last.
     bind (case successful of None \<Rightarrow> ret None
       | Some b \<Rightarrow> bind (parsed (backupRecord b)) (\<lambda>record. ret (Some record))) (\<lambda>done.
     ret \<lparr>sv_schedule = s, sv_attempt = last, sv_successful = done\<rparr>)))"

definition ownedSchedule :: "principal \<Rightarrow> string \<Rightarrow> ('k, schedule_row) backup_act" where
  "ownedSchedule p i =
     bind (seek (\<lambda>clock d v. select_one (\<lambda>s. sd_id s = i \<and> sd_accountId s = accountId p) (vt_schedules v)))
       (present Not_found)"

definition inspectSchedule :: "principal \<Rightarrow> string \<Rightarrow> ('k, schedule_view) backup_act" where
  "inspectSchedule p i =
     bind (ownedSchedule p i) (\<lambda>s.
     bind (pure_of (authorize p Backup_read (Some (sd_projectId s)))) (\<lambda>_.
     scheduleSummary s))"

fun summaries :: "schedule_row list \<Rightarrow> ('k, schedule_view list) backup_act" where
  "summaries [] = ret []"
| "summaries (s # ss) = bind (scheduleSummary s) (\<lambda>x. bind (summaries ss) (\<lambda>xs. ret (x # xs)))"

definition listSchedules :: "principal \<Rightarrow> id \<Rightarrow> ('k, schedule_view list) backup_act" where
  "listSchedules p machine =
     bind (ownedMachine p machine) (\<lambda>m.
     bind (pure_of (authorize p Backup_read (Some (mc_projectId m)))) (\<lambda>_.
     bind (seek (\<lambda>clock d v. latest sd_createdAt (filter (\<lambda>s. sd_machineId s = machine) (vt_schedules v)))) (\<lambda>rows.
     summaries rows)))"

section \<open>Admission\<close>

definition new_schedule :: "principal \<Rightarrow> machine_row \<Rightarrow> id \<Rightarrow> instant \<Rightarrow> schedule_request \<Rightarrow> string \<Rightarrow> schedule_row" where
  "new_schedule p m allocation now r digest =
     \<lparr>sd_id = sq_id r, sd_accountId = accountId p, sd_projectId = mc_projectId m, sd_machineId = mc_id m,
      sd_allocationId = allocation, sd_grantId = grantId p, sd_digest = digest, sd_recipe = sq_recipe r,
      sd_nextRunAt = now, sd_disabledAt = None, sd_lastAttempt = At_none, sd_createdAt = now\<rparr>"

definition active_schedules :: "id \<Rightarrow> vault \<Rightarrow> schedule_row list" where
  "active_schedules account v =
     filter (\<lambda>s. sd_accountId s = account \<and> sd_disabledAt s = None) (vt_schedules v)"

definition recent_schedules :: "id \<Rightarrow> instant \<Rightarrow> vault \<Rightarrow> schedule_row list" where
  "recent_schedules account clock v =
     take 30 (filter (\<lambda>s. sd_accountId s = account \<and> clock - 3600000 < sd_createdAt s) (vt_schedules v))"

definition admitSchedule :: "principal \<Rightarrow> authority \<Rightarrow> id \<Rightarrow> schedule_request \<Rightarrow> string \<Rightarrow> ('k, schedule_row) backup_act" where
  "admitSchedule p authority machine r digest =
     bind (ownMachine machine (accountId p)) (\<lambda>m.
     bind (pure_of (authorize (au_principal authority) Backup_create (Some (mc_projectId m)))) (\<lambda>_.
     bind (present Resource_busy (ssh_allocation (mc_state m))) (\<lambda>allocation.
     bind (seek (\<lambda>clock d v. active_schedules (accountId p) v)) (\<lambda>active.
     bind (unless (\<not> list_ex (\<lambda>s. sd_machineId s = machine \<and> rc_app (sd_recipe s) = rc_app (sq_recipe r)) active)
       Resource_busy) (\<lambda>_.
     bind (unless (length active < 10) Quota_exceeded) (\<lambda>_.
     bind (seek (\<lambda>clock d v. recent_schedules (accountId p) clock v)) (\<lambda>recent.
     bind (unless (length recent < 30) Quota_exceeded) (\<lambda>_.
     let s = new_schedule p m allocation (au_checkedAt authority) r digest in
     bind (put (Insert_schedule s)) (\<lambda>_.
     bind (seek (\<lambda>clock d v. schedule_at v (sq_id r))) (\<lambda>created.
     bind (put (Insert_backup_event (accountId p) (sq_id r) (Schedule_created machine (grantId p)))) (\<lambda>_.
     parsed created)))))))))))"

definition createSchedule :: "backup_deployment \<Rightarrow> principal \<Rightarrow> id \<Rightarrow> schedule_request \<Rightarrow> ('k, schedule_view) backup_act" where
  "createSchedule D p machine r =
     (let digest = bd_sha256 D (request_json machine (sq_id r) (sq_recipe r)) in
     bind (vault_transaction (
       bind (lockAccount (accountId p)) (\<lambda>_.
       bind (loadAuthority (grantId p)) (\<lambda>authority.
       bind (seek (\<lambda>clock d v. schedule_at v (sq_id r))) (\<lambda>existing. case existing of
         Some s \<Rightarrow>
           bind (unless (sd_accountId s = accountId p \<and> sd_digest s = digest) Idempotency_conflict) (\<lambda>_.
           bind (pure_of (authorize (au_principal authority) Backup_create (Some (sd_projectId s)))) (\<lambda>_.
           ret s))
       | None \<Rightarrow> admitSchedule p authority machine r digest))))) scheduleSummary)"

definition disableSchedule :: "principal \<Rightarrow> string \<Rightarrow> ('k, schedule_view) backup_act" where
  "disableSchedule p i =
     bind (vault_transaction (
       bind (lockAccount (accountId p)) (\<lambda>_.
       bind (loadAuthority (grantId p)) (\<lambda>authority.
       bind (ownedSchedule p i) (\<lambda>s.
       bind (pure_of (authorize (au_principal authority) Backup_create (Some (sd_projectId s)))) (\<lambda>_.
       if sd_disabledAt s \<noteq> None then ret s else
       bind (put (Update_schedule i (\<lambda>s. s\<lparr>sd_disabledAt := Some (au_checkedAt authority)\<rparr>))) (\<lambda>_.
       bind (seek (\<lambda>clock d v. schedule_at v i)) (\<lambda>updated.
       bind (parsed updated) (\<lambda>s.
       bind (put (Insert_backup_event (accountId p) i (Schedule_disabled (grantId p)))) (\<lambda>_.
       ret s)))))))))) scheduleSummary"

section \<open>Runs\<close>

fun allocated_as :: "machine_state \<Rightarrow> id \<Rightarrow> bool" where
  "allocated_as (Allocated a s p g b) i \<longleftrightarrow> a = i"
| "allocated_as _ i \<longleftrightarrow> False"

definition scheduledCapture :: "backup_deployment \<Rightarrow> schedule_row \<Rightarrow> instant \<Rightarrow> ('k, schedule_attempt) backup_act" where
  "scheduledCapture D s now =
     bind (loadAuthority (sd_grantId s)) (\<lambda>authority.
     bind (pure_of (authorize (au_principal authority) Backup_create (Some (sd_projectId s)))) (\<lambda>_.
     bind (query (\<lambda>d. select_one (\<lambda>m. mc_id m = sd_machineId s) (machines d))) (\<lambda>row.
     bind (parsed row) (\<lambda>m.
     bind (unless (allocated_as (mc_state m) (sd_allocationId s)) Resource_busy) (\<lambda>_.
     bind randomUUID (\<lambda>u.
     bind (parsed (if uuidv4 u then Some u else None)) (\<lambda>i.
     bind (captureInTransaction D (au_principal authority) (mc_id m) \<lparr>cr_id = i, cr_recipe = sd_recipe s\<rparr>) (\<lambda>b.
     bind (put (Insert_schedule_run \<lparr>sr_accountId = sd_accountId s, sr_scheduleId = sd_id s,
       sr_backupId = bk_id b, sr_dueAt = sd_nextRunAt s\<rparr>)) (\<lambda>_.
     ret (At_admitted now (bk_id b)))))))))))"

definition unauthorized :: "failure \<Rightarrow> bool" where
  "unauthorized f \<longleftrightarrow> code f = Unauthenticated \<or> code f = Permission_denied"

definition runSchedule :: "backup_deployment \<Rightarrow> string \<Rightarrow> schedule_row \<Rightarrow> instant \<Rightarrow> ('k, unit) backup_act" where
  "runSchedule D i s now =
     bind (catch_cloud (bind (scheduledCapture D s now) (\<lambda>a. ret (a, None)))
       (\<lambda>f. ret (At_refused now f, if unauthorized f then Some now else None))) (\<lambda>(attempt, disabled).
     put (Update_schedule i (\<lambda>s. s\<lparr>sd_lastAttempt := attempt, sd_disabledAt := disabled,
       sd_nextRunAt := now + dayMs\<rparr>)))"

definition advanceSchedule :: "backup_deployment \<Rightarrow> string \<Rightarrow> ('k, unit) backup_act" where
  "advanceSchedule D i = vault_transaction (
     bind (seek (\<lambda>clock d v. schedule_at v i)) (\<lambda>selected. case selected of None \<Rightarrow> ret () | Some x \<Rightarrow>
     bind (lockAccount (sd_accountId x)) (\<lambda>_.
     bind (seek (\<lambda>clock d v. schedule_at v i)) (\<lambda>row.
     bind databaseTime (\<lambda>now. case row of None \<Rightarrow> ret () | Some s \<Rightarrow>
     if sd_disabledAt s \<noteq> None \<or> now < sd_nextRunAt s then ret () else runSchedule D i s now)))))"

definition due_schedules :: "instant \<Rightarrow> vault \<Rightarrow> string list" where
  "due_schedules clock v = map sd_id (take 100 (sort_key sd_nextRunAt
     (filter (\<lambda>s. sd_disabledAt s = None \<and> sd_nextRunAt s \<le> clock) (vt_schedules v))))"

definition reconcileSchedules :: "backup_deployment \<Rightarrow> ('k, unit) backup_act" where
  "reconcileSchedules D = bind (seek (\<lambda>clock d v. due_schedules clock v)) (\<lambda>due.
     foldM (\<lambda>_ i. advanceSchedule D i) () due)"

text \<open>What \<open>reconcile_operations\<close> does for backups (\<^verbatim>\<open>tasks.ts\<close>): the due schedules, then a job for
  every backup and restore with work left.\<close>

definition unsettled_backup :: "backup_row \<Rightarrow> bool" where
  "unsettled_backup b \<longleftrightarrow> bk_state (bw_record b) = Bk_pending
     \<or> captured_state (bk_state (bw_record b)) \<and> stored_work (bw_work b)
        \<and> (case bw_work b of Wk_stored x r done n \<Rightarrow> \<not> done \<and> n < 5 | _ \<Rightarrow> False)"

fun pending_restore :: "restore_state \<Rightarrow> bool" where
  "pending_restore (Rt_pending w) = True"
| "pending_restore _ = False"

definition pending_jobs :: "vault \<Rightarrow> backup_job list" where
  "pending_jobs v = take 1000 (map (\<lambda>b. Backup_job (bw_id b)) (filter unsettled_backup (vt_backups v))
     @ map (\<lambda>e. Restore_job (re_id e)) (filter (\<lambda>e. pending_restore (rt_state (re_record e))) (vt_restores v)))"

definition reconcileBackups :: "backup_deployment \<Rightarrow> ('k, unit) backup_act" where
  "reconcileBackups D = bind (reconcileSchedules D) (\<lambda>_.
     bind (seek (\<lambda>clock d v. pending_jobs v)) (\<lambda>jobs. foldM (\<lambda>_ j. enqueueBackup j) () jobs))"

end
