(* ===== verification/Backup_Work.thy ===== *)
theory Backup_Work
  imports Backup_Service
begin

text \<open>
  The worker of backups and restores: \<^verbatim>\<open>apps/control/src/backup-work.ts\<close>, what it uses of
  \<^verbatim>\<open>backup-crypto.ts\<close> and the submission of a restore in \<^verbatim>\<open>packages/remote/src/backups.ts\<close>. The guest,
  the object store, the key file, the ciphers and the scratch directory are ports. Each stage of a
  capture is a function that ends the work, finds the admitting credential unauthorized, or hands the next stage on.
\<close>

section \<open>Ports\<close>

record guest_scope =
  gs_accountId :: id
  gs_machineId :: id
  gs_allocationId :: id

record keyring =
  kr_current :: string
  kr_keys :: "string \<Rightarrow> string option"

text \<open>What a transfer through the cipher measured and produced: plaintext bytes and digest, the
  wrapped key, ciphertext bytes and digest.\<close>

record transfer =
  tf_bytes :: int
  tf_sha256 :: string
  tf_wrapped :: string
  tf_cipherBytes :: int
  tf_cipherSha256 :: string

datatype upload_recovery = Found object_receipt | Unresolved

datatype scratch_kind = Scratch_backup | Scratch_restore

datatype scratch_file = Archive_enc | Archive_tar

record 'k backup_ports =
  guestCapture :: "guest_scope \<Rightarrow> string \<Rightarrow> backup_recipe \<Rightarrow> backup_limits \<Rightarrow> ('k, capture_state) port"
  guestTransfer :: "guest_scope \<Rightarrow> string \<Rightarrow> backup_limits \<Rightarrow> string \<Rightarrow> backup_binding \<Rightarrow> ('k, transfer) port"
  guestRemove :: "guest_scope \<Rightarrow> string \<Rightarrow> ('k, unit) port"
  guestOpen :: "guest_scope \<Rightarrow> ('k, unit) port"
  guestRestore :: "guest_scope \<Rightarrow> restore_guest_request \<Rightarrow> ('k, restore_answer) port"
  guestInspect :: "guest_scope \<Rightarrow> string \<Rightarrow> ('k, restore_answer option) port"
  prepareUpload :: "string \<Rightarrow> retention_mode \<Rightarrow> instant \<Rightarrow> ('k, upload_intent) port"
  upload :: "upload_intent \<Rightarrow> ('k, object_receipt) port"
  recover :: "upload_intent \<Rightarrow> ('k, upload_recovery) port"
  download :: "object_receipt \<Rightarrow> ('k, unit) port"
  decrypt :: "encryption \<Rightarrow> backup_binding \<Rightarrow> keyring \<Rightarrow> backup_limits \<Rightarrow> ('k, unit) port"
  readKeyring :: "('k, keyring) port"
  makeScratch :: "scratch_kind \<Rightarrow> string \<Rightarrow> ('k, unit) port"
  removeFile :: "scratch_kind \<Rightarrow> string \<Rightarrow> scratch_file \<Rightarrow> ('k, unit) port"
  cleanScratch :: "string \<Rightarrow> ('k, unit) port"
  scratchSpace :: "('k, int) port"
  unwraps :: "string \<Rightarrow> encryption \<Rightarrow> bool"
  manifestDigest :: "capture_manifest \<Rightarrow> string"

section \<open>Envelopes (backup-crypto.ts)\<close>

definition binding :: "'k backup_ports \<Rightarrow> backup_summary \<Rightarrow> guest_capture \<Rightarrow> backup_binding" where
  "binding P record c = \<lparr>bi_accountId = bk_accountId record, bi_backupId = bk_id record,
     bi_manifestSha256 = manifestDigest P (cp_manifest c)\<rparr>"

text \<open>\<open>verifyBackupKey\<close>: \<open>Some False\<close> is \<open>BackupWrappingKeyUnavailable\<close>, \<open>None\<close> any other error.\<close>

definition verifyBackupKey :: "'k backup_ports \<Rightarrow> encryption \<Rightarrow> backup_binding \<Rightarrow> keyring \<Rightarrow> bool option" where
  "verifyBackupKey P e b keys =
     (if backup_binding.truncate e \<noteq> b then None
      else Some (case kr_keys keys (en_keyVersion e) of None \<Rightarrow> False | Some key \<Rightarrow> unwraps P key e))"

definition envelope :: "backup_binding \<Rightarrow> keyring \<Rightarrow> transfer \<Rightarrow> encryption" where
  "envelope b keys t = backup_binding.extend b \<lparr>en_keyVersion = kr_current keys, en_wrapped = tf_wrapped t,
     en_plaintextBytes = tf_bytes t, en_plaintextSha256 = tf_sha256 t,
     en_ciphertextBytes = tf_cipherBytes t, en_ciphertextSha256 = tf_cipherSha256 t\<rparr>"

text \<open>\<open>guest.read\<close> with \<open>encryptBackup\<close> as its consumer; an error of the consumer is a transport failure.\<close>

definition encryptBackup :: "'k backup_ports \<Rightarrow> guest_scope \<Rightarrow> string \<Rightarrow> backup_limits \<Rightarrow> keyring \<Rightarrow> backup_binding \<Rightarrow> ('k, encryption) backup_act" where
  "encryptBackup P scope i limits keys b =
     bind (case kr_keys keys (kr_current keys) of
        None \<Rightarrow> bind (reach (guestOpen P scope)) (\<lambda>_. raiseRetryable Guest_unreachable)
      | Some key \<Rightarrow> reach (guestTransfer P scope i limits key b)) (\<lambda>t.
     ret (envelope b keys t))"

section \<open>Authority of effects\<close>

definition authorizedFor :: "id \<Rightarrow> id \<Rightarrow> id \<Rightarrow> capability \<Rightarrow> ('e, bool) tx" where
  "authorizedFor grant account project cap =
     catch_cloud (
       bind (loadAuthority grant) (\<lambda>a.
       bind (unless (accountId (au_principal a) = account) Permission_denied) (\<lambda>_.
       bind (pure_of (authorize (au_principal a) cap (Some project))) (\<lambda>_.
       ret True))))
     (\<lambda>f. if code f = Unauthenticated \<or> code f = Permission_denied then ret False else raise (Cloud f))"

text \<open>\<open>False\<close> is a thrown \<open>BackupAuthorityError\<close>.\<close>

definition authorizeBackupEffect :: "id \<Rightarrow> id \<Rightarrow> id \<Rightarrow> capability \<Rightarrow> ('k, unit) backup_act \<Rightarrow> ('k, bool) backup_act" where
  "authorizeBackupEffect grant account project cap work =
     bind (vault_attempt (
       bind (lockAccount account) (\<lambda>_.
       bind (authorizedFor grant account project cap) (\<lambda>ok.
       if ok then bind work (\<lambda>_. ret (Some ())) else ret None)))) (\<lambda>r.
     ret (r \<noteq> None))"

section \<open>Captures\<close>

datatype 'w verdict = Stop | Denied | Next 'w

definition proceed :: "('w \<Rightarrow> ('k, 'w verdict) backup_act) \<Rightarrow> 'w verdict \<Rightarrow> ('k, 'w verdict) backup_act" where
  "proceed f r = (case r of Next w \<Rightarrow> f w | _ \<Rightarrow> ret r)"

definition saveWork :: "string \<Rightarrow> backup_work \<Rightarrow> ('k, unit) backup_act" where
  "saveWork i w = put (Update_backup i (\<lambda>b. b\<lparr>bw_work := w\<rparr>))"

definition saveStored :: "string \<Rightarrow> backup_summary \<Rightarrow> sealed \<Rightarrow> object_receipt \<Rightarrow> ('k, unit) backup_act" where
  "saveStored i record x r = put (Update_backup i (\<lambda>b. b\<lparr>bw_work := Wk_stored x r False 0,
     bw_reservedBytes := ui_size r,
     bw_record := record\<lparr>bk_state := Bk_captured (ui_size r) (mf_capturedAt (cp_manifest (se_capture x)))
       Captured_only (cp_manifest (se_capture x))\<rparr>\<rparr>))"

definition blockBackup :: "string \<Rightarrow> backup_summary \<Rightarrow> ('k, unit) backup_act" where
  "blockBackup i record = put (Update_backup i (\<lambda>b. b\<lparr>bw_record := record\<lparr>bk_state := Bk_blocked\<rparr>\<rparr>))"

definition authorizeCapture :: "backup_row \<Rightarrow> backup_summary \<Rightarrow> backup_work \<Rightarrow> ('k, bool) backup_act" where
  "authorizeCapture b record w = authorizeBackupEffect (bw_grantId b) (bk_accountId record) (bk_projectId record)
     Backup_create (saveWork (bw_id b) w)"

definition requireScratchSpace :: "'k backup_ports \<Rightarrow> int \<Rightarrow> ('k, unit) backup_act" where
  "requireScratchSpace P maxBytes = bind (reach (scratchSpace P)) (\<lambda>available.
     if available < 2 * maxBytes + 268435456 then raiseRetryable Resource_busy else ret ())"

fun captured_of :: "capture_state \<Rightarrow> guest_capture option" where
  "captured_of (Capture_done c) = (if guestCapture_ok c then Some c else None)"
| "captured_of _ = None"

definition scope_of :: "backup_summary \<Rightarrow> guest_scope" where
  "scope_of r = \<lparr>gs_accountId = bk_accountId r, gs_machineId = bk_machineId r, gs_allocationId = bk_allocationId r\<rparr>"

definition capture_matches :: "backup_deployment \<Rightarrow> backup_row \<Rightarrow> backup_summary \<Rightarrow> guest_capture \<Rightarrow> bool" where
  "capture_matches D b record c \<longleftrightarrow> cp_id c = bk_id record
     \<and> bd_sha256 D (recipe_json (mf_recipe (cp_manifest c))) = bd_sha256 D (recipe_json (bw_recipe b))
     \<and> cp_bytes c \<le> bl_maxBytes (bw_limits b)"

definition captureStage :: "backup_deployment \<Rightarrow> 'k backup_ports \<Rightarrow> backup_row \<Rightarrow> backup_summary \<Rightarrow> backup_work \<Rightarrow> ('k, backup_work verdict) backup_act" where
  "captureStage D P b record work = (case work of
     Wk_capture n \<Rightarrow>
       if 5 \<le> n then bind (blockBackup (bw_id b) record) (\<lambda>_. ret Stop)
       else bind (authorizeCapture b record (Wk_capture (Suc n))) (\<lambda>ok.
         if \<not> ok then ret Denied else
         bind (reach (guestCapture P (scope_of record) (bw_id b) (bw_recipe b) (bw_limits b))) (\<lambda>state.
         bind (parsed (captured_of state)) (\<lambda>c.
         bind (parsed (if capture_matches D b record c then Some () else None)) (\<lambda>_.
         bind (saveWork (bw_id b) (Wk_encrypt c 0)) (\<lambda>_.
         ret (Next (Wk_encrypt c 0)))))))
   | _ \<Rightarrow> ret (Next work))"

definition sealArchive :: "backup_deployment \<Rightarrow> 'k backup_ports \<Rightarrow> backup_row \<Rightarrow> backup_summary \<Rightarrow> guest_capture \<Rightarrow> ('k, backup_work verdict) backup_act" where
  "sealArchive D P b record c =
     bind (reach (readKeyring P)) (\<lambda>keys.
     bind (encryptBackup P (scope_of record) (bw_id b) (bw_limits b) keys (binding P record c)) (\<lambda>e.
     bind (parsed (if en_plaintextBytes e = cp_bytes c \<and> en_plaintextSha256 e = cp_sha256 c then Some () else None)) (\<lambda>_.
     bind (reach (prepareUpload P (bw_id b) (bc_retentionMode (bd_config D)) (bk_retainUntil record))) (\<lambda>intent.
     let w = Wk_ready \<lparr>se_capture = c, se_encryption = e, se_intent = intent\<rparr> in
     bind (saveWork (bw_id b) w) (\<lambda>_. ret (Next w))))))"

definition encryptStage :: "backup_deployment \<Rightarrow> 'k backup_ports \<Rightarrow> backup_row \<Rightarrow> backup_summary \<Rightarrow> backup_work \<Rightarrow> ('k, backup_work verdict) backup_act" where
  "encryptStage D P b record work = (case work of
     Wk_encrypt c n \<Rightarrow>
       if 5 \<le> n then bind (blockBackup (bw_id b) record) (\<lambda>_. ret Stop)
       else bind (reach (makeScratch P Scratch_backup (bw_id b))) (\<lambda>_.
         bind (reach (removeFile P Scratch_backup (bw_id b) Archive_enc)) (\<lambda>_.
         bind (requireScratchSpace P (bl_maxBytes (bw_limits b))) (\<lambda>_.
         bind (authorizeCapture b record (Wk_encrypt c (Suc n))) (\<lambda>ok.
         if \<not> ok then ret Denied else sealArchive D P b record c))))
   | _ \<Rightarrow> ret (Next work))"

text \<open>A timeout or a lost receipt only leads to the recovery of the recorded intent.\<close>

definition uploadStage :: "'k backup_ports \<Rightarrow> backup_row \<Rightarrow> backup_summary \<Rightarrow> backup_work \<Rightarrow> ('k, backup_work verdict) backup_act" where
  "uploadStage P b record work = (case work of
     Wk_ready x \<Rightarrow>
       bind (saveWork (bw_id b) (Wk_submitted x 0)) (\<lambda>_.
       bind (reach_put (upload P (se_intent x)) (bw_id b) (se_intent x)) (\<lambda>receipt.
       bind (saveStored (bw_id b) record x receipt) (\<lambda>_.
       ret (Next (Wk_stored x receipt False 0)))))
   | Wk_submitted x n \<Rightarrow>
       if 5 \<le> n then bind (blockBackup (bw_id b) record) (\<lambda>_. ret Stop)
       else bind (saveWork (bw_id b) (Wk_submitted x (Suc n))) (\<lambda>_.
         bind (reach (recover P (se_intent x))) (\<lambda>r. case r of
           Unresolved \<Rightarrow> raiseRetryable Provider_unavailable
         | Found receipt \<Rightarrow> bind (saveStored (bw_id b) record x receipt) (\<lambda>_.
             ret (Next (Wk_stored x receipt False 0)))))
   | _ \<Rightarrow> ret (Next work))"

definition cleanupStage :: "'k backup_ports \<Rightarrow> backup_row \<Rightarrow> backup_summary \<Rightarrow> backup_work \<Rightarrow> ('k, backup_work verdict) backup_act" where
  "cleanupStage P b record work = (case work of
     Wk_stored x r done n \<Rightarrow>
       bind (reach (removeFile P Scratch_backup (bw_id b) Archive_enc)) (\<lambda>_.
       if done \<or> 5 \<le> n then ret Stop else
       bind (saveWork (bw_id b) (Wk_stored x r False (Suc n))) (\<lambda>_.
       bind (seek (\<lambda>clock d v. select_one (\<lambda>m. mc_id m = bk_machineId record) (machines d))) (\<lambda>row.
       bind (case row of
           Some m \<Rightarrow> if state_destroyed (mc_state m) then ret ()
             else reach (guestRemove P (scope_of record) (bw_id b))
         | None \<Rightarrow> ret ()) (\<lambda>_.
       bind (saveWork (bw_id b) (Wk_stored x r True (Suc n))) (\<lambda>_.
       ret Stop)))))
   | _ \<Rightarrow> ret Stop)"

fun workable :: "backup_state \<Rightarrow> bool" where
  "workable Bk_pending = True"
| "workable (Bk_captured n t x m) = True"
| "workable _ = False"

definition advanceStages :: "backup_deployment \<Rightarrow> 'k backup_ports \<Rightarrow> backup_row \<Rightarrow> backup_summary \<Rightarrow> backup_work \<Rightarrow> ('k, backup_work verdict) backup_act" where
  "advanceStages D P b record work =
     bind (captureStage D P b record work) (\<lambda>r1.
     bind (proceed (encryptStage D P b record) r1) (\<lambda>r2.
     bind (proceed (uploadStage P b record) r2) (\<lambda>r3.
     proceed (cleanupStage P b record) r3)))"

definition advanceCapture :: "backup_deployment \<Rightarrow> 'k backup_ports \<Rightarrow> string \<Rightarrow> ('k, backup_work verdict) backup_act" where
  "advanceCapture D P i =
     bind (seek (\<lambda>clock d v. backup_at v i)) (\<lambda>row. case row of None \<Rightarrow> ret Stop | Some b \<Rightarrow>
     bind (parsed (backupRecord b)) (\<lambda>record.
     if \<not> workable (bk_state record) then ret Stop else
     bind (parsed (backupWork b)) (\<lambda>work. advanceStages D P b record work)))"

end
