(* ===== verification/Backup_Restore.thy ===== *)
theory Backup_Restore
  imports Backup_Work
begin

text \<open>
  The worker of restores and its entry point: the rest of \<^verbatim>\<open>apps/control/src/backup-work.ts\<close>, and
  \<open>runRestoreCommand\<close> of \<^verbatim>\<open>packages/remote/src/backups.ts\<close>. The submission is recorded in
  a transaction of its own before any byte of the request reaches the guest.
\<close>

section \<open>Rows of a restore\<close>

definition saveRestore :: "string \<Rightarrow> restore_work \<Rightarrow> ('k, unit) backup_act" where
  "saveRestore i w = put (Update_restore i (\<lambda>e. e\<lparr>re_work := w\<rparr>))"

definition setRestore :: "string \<Rightarrow> restore_summary \<Rightarrow> restore_state \<Rightarrow> ('k, unit) backup_act" where
  "setRestore i record st = put (Update_restore i (\<lambda>e. e\<lparr>re_record := record\<lparr>rt_state := st\<rparr>\<rparr>))"

definition blockRestore :: "'k backup_ports \<Rightarrow> string \<Rightarrow> restore_summary \<Rightarrow> ('k, unit) backup_act" where
  "blockRestore P i record = bind (reach (cleanScratch P i)) (\<lambda>_. setRestore i record Rt_blocked)"

definition authorizeRestore :: "restore_entry \<Rightarrow> restore_summary \<Rightarrow> ('k, unit) backup_act \<Rightarrow> ('k, bool) backup_act" where
  "authorizeRestore e record work = authorizeBackupEffect (re_grantId e) (rt_accountId record) (rt_projectId record)
     Backup_restore work"

definition verified_state :: "backup_state \<Rightarrow> backup_state option" where
  "verified_state st = (case st of Bk_captured n t x m \<Rightarrow> Some (Bk_captured n t Restore_verified m) | _ \<Rightarrow> None)"

definition finishRestore :: "'k backup_ports \<Rightarrow> string \<Rightarrow> restore_entry \<Rightarrow> restore_summary \<Rightarrow> restored_state \<Rightarrow> ('k, unit) backup_act" where
  "finishRestore P i e record result =
     bind (parsed (if rd_id result = rt_id record \<and> rd_app result = rr_app (re_request e) then Some () else None)) (\<lambda>_.
     bind (reach (cleanScratch P i)) (\<lambda>_.
     vault_transaction (
       bind (put (Update_restore i (\<lambda>e. e\<lparr>re_work := Rw_done,
         re_record := record\<lparr>rt_state := Rt_restored result\<rparr>\<rparr>))) (\<lambda>_.
       bind (seek (\<lambda>clock d v. backup_at v (rt_backupId record))) (\<lambda>row.
       bind (parsed row) (\<lambda>b.
       bind (parsed (backupRecord b)) (\<lambda>backup.
       bind (parsed (verified_state (bk_state backup))) (\<lambda>st.
       put (Update_backup (rt_backupId record) (\<lambda>b. b\<lparr>bw_record := backup\<lparr>bk_state := st\<rparr>\<rparr>))))))))))"

text \<open>The answer of the guest. \<open>None\<close> and a pending answer settle nothing.\<close>

definition settleAnswer :: "'k backup_ports \<Rightarrow> string \<Rightarrow> restore_entry \<Rightarrow> restore_summary \<Rightarrow> restore_answer option \<Rightarrow> ('k, unit) backup_act \<Rightarrow> ('k, unit) backup_act" where
  "settleAnswer P i e record answer otherwise = (case answer of
     Some (Restore_done result) \<Rightarrow> finishRestore P i e record result
   | Some (Restore_failed reason) \<Rightarrow> blockRestore P i record
   | _ \<Rightarrow> otherwise)"

section \<open>Submission\<close>

text \<open>\<open>runRestoreCommand\<close>: the connection, then \<open>beforeSubmit\<close>, then the request; whatever
  \<open>beforeSubmit\<close> throws is reported as a transport failure.\<close>

definition runRestoreCommand :: "'k backup_ports \<Rightarrow> guest_scope \<Rightarrow> restore_guest_request \<Rightarrow> ('k, bool) backup_act \<Rightarrow> ('k, restore_answer) backup_act" where
  "runRestoreCommand P scope request beforeSubmit =
     bind (reach (guestOpen P scope)) (\<lambda>_.
     bind (catch_any beforeSubmit (ret False)) (\<lambda>recorded.
     if \<not> recorded then raiseRetryable Guest_unreachable
     else reach_replay (guestRestore P scope request) (rg_id request)))"

definition guest_request :: "backup_deployment \<Rightarrow> restore_entry \<Rightarrow> restore_summary \<Rightarrow> encryption \<Rightarrow> restore_guest_request" where
  "guest_request D e record x = \<lparr>rg_id = rt_id record, rg_backupId = rt_backupId record,
     rg_app = rr_app (re_request e), rg_limits = bc_limits (bd_config D),
     rg_bytes = en_plaintextBytes x, rg_sha256 = en_plaintextSha256 x\<rparr>"

definition submitArchive :: "backup_deployment \<Rightarrow> 'k backup_ports \<Rightarrow> guest_scope \<Rightarrow> restore_entry \<Rightarrow> restore_summary \<Rightarrow> encryption \<Rightarrow> ('k, unit) backup_act" where
  "submitArchive D P scope e record x = (let i = re_id e in
     bind (runRestoreCommand P scope (guest_request D e record x)
       (authorizeRestore e record (saveRestore i (Rw_submitted 0)))) (\<lambda>answer.
     settleAnswer P i e record (Some answer) (ret ())))"

definition transferArchive :: "backup_deployment \<Rightarrow> 'k backup_ports \<Rightarrow> guest_scope \<Rightarrow> restore_entry \<Rightarrow> restore_summary \<Rightarrow> keyring \<Rightarrow> sealed \<Rightarrow> object_receipt \<Rightarrow> backup_binding \<Rightarrow> ('k, unit) backup_act" where
  "transferArchive D P scope e record keys x receipt b = (let i = re_id e in
     ending
       (bind (reach (download P receipt)) (\<lambda>_.
        bind (reach (decrypt P (se_encryption x) b keys (bc_limits (bd_config D)))) (\<lambda>_.
        submitArchive D P scope e record (se_encryption x))))
       (bind (reach (removeFile P Scratch_restore i Archive_tar)) (\<lambda>_.
        reach (removeFile P Scratch_restore i Archive_enc))))"

text \<open>\<open>keyUnavailable\<close>: the wait is recorded, if the credential is still authorized.\<close>

definition keyUnavailable :: "restore_entry \<Rightarrow> restore_summary \<Rightarrow> ('k, 'w verdict) backup_act" where
  "keyUnavailable e record = bind (authorizeRestore e record (setRestore (re_id e) record (Rt_pending True))) (\<lambda>ok.
     if ok then raiseRetryable Resource_busy else ret Denied)"

text \<open>\<open>input.keyring().catch\<close> and \<open>verifyBackupKey\<close>; \<open>None\<close> when the key is unavailable.\<close>

definition availableKey :: "'k backup_ports \<Rightarrow> encryption \<Rightarrow> backup_binding \<Rightarrow> ('k, keyring option) backup_act" where
  "availableKey P x b =
     bind (catch_any (bind (reach (readKeyring P)) (\<lambda>keys. ret (Some keys))) (ret None)) (\<lambda>keys. case keys of
       None \<Rightarrow> ret None
     | Some keys \<Rightarrow> bind (parsed (verifyBackupKey P x b keys)) (\<lambda>ok. ret (if ok then Some keys else None)))"

fun sealed_object :: "backup_work \<Rightarrow> (sealed \<times> object_receipt) option" where
  "sealed_object (Wk_stored x r done n) = Some (x, r)"
| "sealed_object _ = None"

definition prepareRestore :: "backup_deployment \<Rightarrow> 'k backup_ports \<Rightarrow> guest_scope \<Rightarrow> restore_entry \<Rightarrow> restore_summary \<Rightarrow> nat \<Rightarrow> ('k, unit verdict) backup_act" where
  "prepareRestore D P scope e record n =
     bind (reach (makeScratch P Scratch_restore (re_id e))) (\<lambda>_.
     bind (reach (cleanScratch P (re_id e))) (\<lambda>_.
     bind (requireScratchSpace P (bl_maxBytes (bc_limits (bd_config D)))) (\<lambda>_.
     bind (authorizeRestore e record (ret ())) (\<lambda>ok. if \<not> ok then ret Denied else
     bind (seek (\<lambda>clock d v. select_one (\<lambda>b. bw_id b = rt_backupId record \<and> bw_accountId b = rt_accountId record) (vt_backups v))) (\<lambda>row.
     bind (parsed row) (\<lambda>b.
     bind (parsed (backupRecord b)) (\<lambda>source.
     bind (parsed (backupWork b)) (\<lambda>work.
     bind (parsed (sealed_object work)) (\<lambda>(x, receipt).
     let bound = binding P source (se_capture x) in
     bind (availableKey P (se_encryption x) bound) (\<lambda>keys. case keys of
       None \<Rightarrow> keyUnavailable e record
     | Some keys \<Rightarrow>
         bind (authorizeRestore e record (put (Update_restore (re_id e) (\<lambda>e. e\<lparr>
           re_record := record\<lparr>rt_state := Rt_pending False\<rparr>, re_work := Rw_prepare (Suc n)\<rparr>)))) (\<lambda>ok.
         if \<not> ok then ret Denied else
         bind (transferArchive D P scope e record keys x receipt bound) (\<lambda>_. ret Stop))))))))))))"

section \<open>Advancing a restore\<close>

datatype provisioning = Provisioned | Provisioning_open | Provisioning_failed

fun provisioning_of :: "operation_progress \<Rightarrow> provisioning" where
  "provisioning_of (Succeeded t) = Provisioned"
| "provisioning_of (Failed t f) = Provisioning_failed"
| "provisioning_of (Cancelled t) = Provisioning_failed"
| "provisioning_of (Blocked r) = Provisioning_failed"
| "provisioning_of _ = Provisioning_open"

definition awaitTarget :: "'k backup_ports \<Rightarrow> restore_entry \<Rightarrow> restore_summary \<Rightarrow> restore_work \<Rightarrow> ('k, restore_work verdict) backup_act" where
  "awaitTarget P e record work = (case work of
     Rw_waiting \<Rightarrow>
       bind (seek (\<lambda>clock d v. select_one (\<lambda>p. op_id p = rt_operationId record) (operations d))) (\<lambda>row.
       bind (parsed row) (\<lambda>operation. case provisioning_of (op_progress operation) of
         Provisioning_failed \<Rightarrow> bind (blockRestore P (re_id e) record) (\<lambda>_. ret Stop)
       | Provisioning_open \<Rightarrow> ret Stop
       | Provisioned \<Rightarrow> bind (saveRestore (re_id e) (Rw_prepare 0)) (\<lambda>_. ret (Next (Rw_prepare 0)))))
   | _ \<Rightarrow> ret (Next work))"

definition inspectSubmitted :: "'k backup_ports \<Rightarrow> guest_scope \<Rightarrow> restore_entry \<Rightarrow> restore_summary \<Rightarrow> nat \<Rightarrow> ('k, unit) backup_act" where
  "inspectSubmitted P scope e record n = (let i = re_id e in
     bind (reach (cleanScratch P i)) (\<lambda>_.
     if 5 \<le> n then blockRestore P i record else
     bind (saveRestore i (Rw_submitted (Suc n))) (\<lambda>_.
     bind (reach (guestInspect P scope i)) (\<lambda>answer.
     settleAnswer P i e record answer (raiseRetryable Guest_unreachable)))))"

definition restoreStage :: "backup_deployment \<Rightarrow> 'k backup_ports \<Rightarrow> machine_row \<Rightarrow> restore_entry \<Rightarrow> restore_summary \<Rightarrow> restore_work \<Rightarrow> ('k, unit verdict) backup_act" where
  "restoreStage D P target e record work = (case ssh_allocation (mc_state target) of
     None \<Rightarrow> raiseRetryable Resource_busy
   | Some allocation \<Rightarrow>
       let scope = \<lparr>gs_accountId = rt_accountId record, gs_machineId = rt_targetId record,
         gs_allocationId = allocation\<rparr> in
       (case work of
          Rw_submitted n \<Rightarrow> bind (inspectSubmitted P scope e record n) (\<lambda>_. ret Stop)
        | Rw_prepare n \<Rightarrow>
            if 5 \<le> n then bind (blockRestore P (re_id e) record) (\<lambda>_. ret Stop)
            else prepareRestore D P scope e record n
        | _ \<Rightarrow> ret Stop))"

fun pending_answer :: "restore_state \<Rightarrow> bool" where
  "pending_answer (Rt_pending w) = True"
| "pending_answer _ = False"

definition advanceTarget :: "backup_deployment \<Rightarrow> 'k backup_ports \<Rightarrow> restore_entry \<Rightarrow> restore_summary \<Rightarrow> restore_work \<Rightarrow> ('k, unit verdict) backup_act" where
  "advanceTarget D P e record work =
     bind (seek (\<lambda>clock d v. select_one (\<lambda>m. mc_id m = rt_targetId record \<and> mc_accountId m = rt_accountId record) (machines d))) (\<lambda>row.
     bind (parsed row) (\<lambda>target.
     if state_destroyed (mc_state target) then bind (blockRestore P (re_id e) record) (\<lambda>_. ret Stop) else
     bind (awaitTarget P e record work) (\<lambda>r. case r of
       Next w \<Rightarrow> restoreStage D P target e record w
     | Denied \<Rightarrow> ret Denied
     | Stop \<Rightarrow> ret Stop)))"

definition advanceRestore :: "backup_deployment \<Rightarrow> 'k backup_ports \<Rightarrow> string \<Rightarrow> ('k, unit verdict) backup_act" where
  "advanceRestore D P i =
     bind (seek (\<lambda>clock d v. restore_at v i)) (\<lambda>row. case row of None \<Rightarrow> ret Stop | Some e \<Rightarrow>
     bind (parsed (restoreRecord e)) (\<lambda>record.
     if \<not> pending_answer (rt_state record) then ret Stop else
     bind (parsed (restoreWork e)) (\<lambda>work. advanceTarget D P e record work)))"

section \<open>The worker\<close>

text \<open>A \<open>BackupAuthorityError\<close> blocks the row; the archive of a backup that is not ready to upload is removed.\<close>

definition denyBackup :: "string \<Rightarrow> ('k, unit) backup_act" where
  "denyBackup i = bind (seek (\<lambda>clock d v. backup_at v i)) (\<lambda>row. case row of None \<Rightarrow> ret () | Some b \<Rightarrow>
     bind (parsed (backupRecord b)) (\<lambda>record. blockBackup i record))"

definition denyRestore :: "'k backup_ports \<Rightarrow> string \<Rightarrow> ('k, unit) backup_act" where
  "denyRestore P i = bind (seek (\<lambda>clock d v. restore_at v i)) (\<lambda>row. case row of None \<Rightarrow> ret () | Some e \<Rightarrow>
     bind (parsed (restoreRecord e)) (\<lambda>record. blockRestore P i record))"

fun ready_work :: "backup_work \<Rightarrow> bool" where
  "ready_work (Wk_ready x) = True"
| "ready_work _ = False"

definition discardArchive :: "'k backup_ports \<Rightarrow> string \<Rightarrow> ('k, unit) backup_act" where
  "discardArchive P i = bind (seek (\<lambda>clock d v. backup_at v i)) (\<lambda>row. case row of None \<Rightarrow> ret () | Some b \<Rightarrow>
     bind (parsed (backupWork b)) (\<lambda>work. if ready_work work then ret () else
     bind (parsed (backupRecord b)) (\<lambda>record.
     reach (removeFile P Scratch_backup (bk_id record) Archive_enc))))"

fun advanceJob :: "backup_deployment \<Rightarrow> 'k backup_ports \<Rightarrow> backup_job \<Rightarrow> ('k, unit) backup_act" where
  "advanceJob D P (Backup_job i) = ending
     (bind (advanceCapture D P i) (\<lambda>r. case r of Denied \<Rightarrow> denyBackup i | _ \<Rightarrow> ret ()))
     (discardArchive P i)"
| "advanceJob D P (Restore_job i) =
     bind (advanceRestore D P i) (\<lambda>r. case r of Denied \<Rightarrow> denyRestore P i | _ \<Rightarrow> ret ())"

definition advanceBackup :: "backup_deployment \<Rightarrow> 'k backup_ports \<Rightarrow> backup_job \<Rightarrow> ('k, unit) backup_act" where
  "advanceBackup D P j = bind (withBackupWorkerLock (advanceJob D P j)) (\<lambda>r. case r of
     None \<Rightarrow> raiseRetryable Resource_busy
   | Some u \<Rightarrow> ret u)"

end
