(* ===== verification/Backup_Laws.thy ===== *)
theory Backup_Laws
  imports Backup_Retention Backup_Schedules Backup_Restore Advance_Laws
begin

text \<open>
  The laws of the backup tables: which changes rows can undergo (\<open>vault_moves\<close>), the requests that
  must be covered by recorded rows (\<open>accounted\<close>), the programs that make no such request
  (\<open>serene\<close>), and the handlers that are such programs: admissions, inspections, schedules and the
  retention policy. They move rows forward only.
\<close>

section \<open>Rows that move\<close>

text \<open>Every row found under a key is found later, moved along its relation.\<close>

definition kept_rows :: "('a \<Rightarrow> 'a \<Rightarrow> bool) \<Rightarrow> (string \<Rightarrow> 'a option) \<Rightarrow> (string \<Rightarrow> 'a option) \<Rightarrow> bool" where
  "kept_rows K f g \<longleftrightarrow> (\<forall>i x. f i = Some x \<longrightarrow> (\<exists>y. g i = Some y \<and> K x y))"

definition vault_moves :: "vault \<Rightarrow> vault \<Rightarrow> bool" where
  "vault_moves v w \<longleftrightarrow> kept_rows row_moves (backup_at v) (backup_at w)
     \<and> kept_rows restore_moves (restore_at v) (restore_at w) \<and> kept_rows purge_moves (purge_at v) (purge_at w)"

lemma work_moves_refl [simp]: "work_moves w w"
  by (simp add: work_moves_def forward_def)

lemma work_moves_trans: "work_moves u v \<Longrightarrow> work_moves v w \<Longrightarrow> work_moves u w"
  by (auto simp: work_moves_def forward_def)

lemma kept_rows_refl: "(\<And>x. K x x) \<Longrightarrow> kept_rows K f f"
  by (auto simp: kept_rows_def)

lemma kept_rows_trans:
  "kept_rows K f g \<Longrightarrow> kept_rows K g h \<Longrightarrow> (\<And>x y z. K x y \<Longrightarrow> K y z \<Longrightarrow> K x z) \<Longrightarrow> kept_rows K f h"
  unfolding kept_rows_def by meson

lemma vault_moves_refl [simp]: "vault_moves v v"
  unfolding vault_moves_def
  by (auto intro!: kept_rows_refl simp: row_moves_def restore_moves_def purge_moves_def)

lemma vault_moves_trans: "vault_moves u v \<Longrightarrow> vault_moves v w \<Longrightarrow> vault_moves u w"
  unfolding vault_moves_def
  by (auto elim!: kept_rows_trans simp: row_moves_def restore_moves_def purge_moves_def intro: work_moves_trans)

lemma find_append: "find P (xs @ ys) = (case find P xs of None \<Rightarrow> find P ys | Some x \<Rightarrow> Some x)"
  by (induction xs) auto

lemma find_update:
  "(\<And>x. k (f x) = k x) \<Longrightarrow> find (\<lambda>x. k x = i) (update_where (\<lambda>x. k x = j) f xs) =
     map_option (\<lambda>x. if i = j then f x else x) (find (\<lambda>x. k x = i) xs)"
  by (induction xs) (auto simp: update_where_def)

lemma find_grown:
  "grown K xs ys \<Longrightarrow> find P xs = Some x \<Longrightarrow> (\<And>x y. K x y \<Longrightarrow> P y = P x) \<Longrightarrow>
     \<exists>y. find P ys = Some y \<and> K x y"
proof (induction xs arbitrary: ys)
  case (Cons a xs)
  then obtain z zs where "ys = z # zs" "K a z" "grown K xs zs"
    by (cases ys) (auto simp: grown_def)
  with Cons show ?case by (auto split: if_splits)
qed simp

lemma kept_grown:
  assumes "grown K xs ys" "find (\<lambda>x. k x = i) xs = Some x" "\<And>x y. K x y \<Longrightarrow> k y = k x \<and> L x y"
  shows "\<exists>y. find (\<lambda>x. k x = i) ys = Some y \<and> L x y"
  using find_grown [OF assms(1,2)] assms(3) by auto

lemma find_key: "find (\<lambda>x. k x = i) xs = Some x \<Longrightarrow> k x = i"
  by (auto simp: find_Some_iff)

lemma at_key:
  "backup_at v i = Some b \<Longrightarrow> bw_id b = i" "restore_at v i = Some e \<Longrightarrow> re_id e = i" "purge_at v i = Some p \<Longrightarrow> pu_id p = i"
  by (auto simp: backup_at_def restore_at_def purge_at_def select_one_def dest: find_key)

section \<open>Statements\<close>

fun tame :: "vault_statement \<Rightarrow> bool" where
  "tame (Update_backup i f) \<longleftrightarrow> (\<forall>b. row_moves b (f b))"
| "tame (Update_restore i f) \<longleftrightarrow> (\<forall>e. restore_moves e (f e))"
| "tame (Update_purge i f) \<longleftrightarrow> (\<forall>p. purge_moves p (f p))"
| "tame st \<longleftrightarrow> True"

lemmas at_defs = backup_at_def restore_at_def purge_at_def select_one_def

lemma at_updates [simp]:
  "restore_at (v\<lparr>vt_backups := bs\<rparr>) = restore_at v" "purge_at (v\<lparr>vt_backups := bs\<rparr>) = purge_at v"
  "backup_at (v\<lparr>vt_restores := es\<rparr>) = backup_at v" "purge_at (v\<lparr>vt_restores := es\<rparr>) = purge_at v"
  "backup_at (v\<lparr>vt_purges := ps\<rparr>) = backup_at v" "restore_at (v\<lparr>vt_purges := ps\<rparr>) = restore_at v"
  "backup_at (v\<lparr>vt_schedules := ss\<rparr>) = backup_at v" "restore_at (v\<lparr>vt_schedules := ss\<rparr>) = restore_at v"
  "purge_at (v\<lparr>vt_schedules := ss\<rparr>) = purge_at v"
  "backup_at (v\<lparr>vt_runs := rs\<rparr>) = backup_at v" "restore_at (v\<lparr>vt_runs := rs\<rparr>) = restore_at v"
  "purge_at (v\<lparr>vt_runs := rs\<rparr>) = purge_at v"
  "backup_at (v\<lparr>vt_events := xs\<rparr>) = backup_at v" "restore_at (v\<lparr>vt_events := xs\<rparr>) = restore_at v"
  "purge_at (v\<lparr>vt_events := xs\<rparr>) = purge_at v"
  "backup_at (v\<lparr>vt_jobs := js\<rparr>) = backup_at v" "restore_at (v\<lparr>vt_jobs := js\<rparr>) = restore_at v"
  "purge_at (v\<lparr>vt_jobs := js\<rparr>) = purge_at v"
  by (auto simp: fun_eq_iff at_defs)

lemma moves_refl [simp]: "row_moves b b" "restore_moves e e" "purge_moves p p"
  by (auto simp: row_moves_def restore_moves_def purge_moves_def)

lemma kept_inserted:
  "kept_rows row_moves (backup_at v) (backup_at (v\<lparr>vt_backups := vt_backups v @ bs\<rparr>))"
  "kept_rows restore_moves (restore_at v) (restore_at (v\<lparr>vt_restores := vt_restores v @ es\<rparr>))"
  "kept_rows purge_moves (purge_at v) (purge_at (v\<lparr>vt_purges := vt_purges v @ ps\<rparr>))"
  by (auto simp: kept_rows_def at_defs find_append)

lemma kept_updated:
  "(\<forall>b. row_moves b (f b)) \<Longrightarrow> kept_rows row_moves (backup_at v)
     (backup_at (v\<lparr>vt_backups := update_where (\<lambda>b. bw_id b = j) f (vt_backups v)\<rparr>))"
  "(\<forall>e. restore_moves e (g e)) \<Longrightarrow> kept_rows restore_moves (restore_at v)
     (restore_at (v\<lparr>vt_restores := update_where (\<lambda>e. re_id e = j) g (vt_restores v)\<rparr>))"
  "(\<forall>p. purge_moves p (h p)) \<Longrightarrow> kept_rows purge_moves (purge_at v)
     (purge_at (v\<lparr>vt_purges := update_where (\<lambda>p. pu_id p = j) h (vt_purges v)\<rparr>))"
  by (auto simp: kept_rows_def at_defs find_update row_moves_def restore_moves_def purge_moves_def)

lemma kept_same [simp]: "kept_rows row_moves f f" "kept_rows restore_moves g g" "kept_rows purge_moves h h"
  by (simp_all add: kept_rows_refl)

lemma tame_moves: "tame st \<Longrightarrow> vault_moves v (vault_effect now st v)"
  by (cases st) (simp_all add: vault_moves_def kept_inserted kept_updated)

text \<open>The worker's updates of one backup: the recorded stage is known.\<close>

lemma update_moves:
  assumes "backup_at v i = Some b" "\<And>x. bw_id (f x) = bw_id x" "work_moves (bw_work b) (bw_work (f b))"
  shows "vault_moves v (vault_effect now (Update_backup i f) v)"
proof -
  have "kept_rows row_moves (backup_at v) (backup_at (vault_effect now (Update_backup i f) v))"
    using assms by (auto simp: kept_rows_def at_defs find_update row_moves_def)
  then show ?thesis by (auto simp: vault_moves_def intro!: kept_rows_refl)
qed

lemma update_restore_moves:
  assumes "restore_at v i = Some e" "\<And>x. re_id (f x) = re_id x"
    "restore_stage (re_work e) \<le> restore_stage (re_work (f e))"
  shows "vault_moves v (vault_effect now (Update_restore i f) v)"
proof -
  have "kept_rows restore_moves (restore_at v) (restore_at (vault_effect now (Update_restore i f) v))"
    using assms by (auto simp: kept_rows_def at_defs find_update restore_moves_def)
  then show ?thesis by (auto simp: vault_moves_def intro!: kept_rows_refl)
qed

section \<open>Other processes\<close>

text \<open>What is assumed of other processes is the relation that is proved of this one.\<close>

lemma list_moved:
  assumes "\<And>i x. f i = Some x \<Longrightarrow> x \<in> set xs \<and> k x = i"
  shows "list_all (\<lambda>x. moved K (f (k x)) (g (k x))) xs \<longleftrightarrow> kept_rows K f g"
proof
  assume l: "list_all (\<lambda>x. moved K (f (k x)) (g (k x))) xs"
  have "\<exists>y. g i = Some y \<and> K x y" if x: "f i = Some x" for i x
  proof -
    from assms [OF x] l have "moved K (f i) (g i)" by (auto simp: list_all_iff)
    with x show ?thesis by (auto simp: moved_def split: option.splits)
  qed
  then show "kept_rows K f g" by (simp add: kept_rows_def)
next
  assume k: "kept_rows K f g"
  have "moved K (f i) (g i)" for i
    using k by (cases "f i") (fastforce simp: kept_rows_def moved_def)+
  then show "list_all (\<lambda>x. moved K (f (k x)) (g (k x))) xs" by (simp add: list_all_iff)
qed

lemma keeps_iff: "keeps_vault v w \<longleftrightarrow> vault_moves v w"
proof -
  have b: "b \<in> set (vt_backups v) \<and> bw_id b = i" if "backup_at v i = Some b" for i b
    using that by (auto simp: at_defs find_Some_iff)
  have e: "e \<in> set (vt_restores v) \<and> re_id e = i" if "restore_at v i = Some e" for i e
    using that by (auto simp: at_defs find_Some_iff)
  have p: "p \<in> set (vt_purges v) \<and> pu_id p = i" if "purge_at v i = Some p" for i p
    using that by (auto simp: at_defs find_Some_iff)
  show ?thesis
    by (simp add: keeps_vault_def vault_moves_def list_moved [OF b] list_moved [OF e] list_moved [OF p])
qed

lemmas keeps_moves = keeps_iff [THEN iffD1]

section \<open>Requests and rows\<close>

text \<open>Every upload, restore and deletion requested so far is covered by a recorded row, and no
  backup is uploaded and no restore submitted twice.\<close>

definition uploads_recorded :: "'k backup_world \<Rightarrow> bool" where
  "uploads_recorded s \<longleftrightarrow> distinct (map fst (puts s)) \<and> (\<forall>(i, x)\<in>set (puts s).
     \<exists>b. backup_at (vault s) i = Some b \<and> submitted_intent (bw_work b) = Some x)"

definition restores_recorded :: "'k backup_world \<Rightarrow> bool" where
  "restores_recorded s \<longleftrightarrow> distinct (runs_sent s) \<and> (\<forall>i\<in>set (runs_sent s).
     \<exists>e. restore_at (vault s) i = Some e \<and> 2 \<le> restore_stage (re_work e))"

definition purge_covers :: "vault \<Rightarrow> string \<Rightarrow> object_receipt \<Rightarrow> bool" where
  "purge_covers v p r \<longleftrightarrow> (\<exists>q b. purge_at v p = Some q \<and> backup_at v (pu_backupId q) = Some b
     \<and> stored_receipt (bw_work b) = Some r)"

definition deletions_recorded :: "'k backup_world \<Rightarrow> bool" where
  "deletions_recorded s \<longleftrightarrow> (\<forall>(p, r)\<in>set (deletions s). purge_covers (vault s) p r)"

definition accounted :: "'k backup_world \<Rightarrow> bool" where
  "accounted s \<longleftrightarrow> uploads_recorded s \<and> restores_recorded s \<and> deletions_recorded s"

definition same_requests :: "'k backup_world \<Rightarrow> 'k backup_world \<Rightarrow> bool" where
  "same_requests s t \<longleftrightarrow> puts t = puts s \<and> runs_sent t = runs_sent s \<and> deletions t = deletions s"

lemma moved_rows:
  "vault_moves v w \<Longrightarrow> backup_at v i = Some b \<Longrightarrow> \<exists>b'. backup_at w i = Some b' \<and> row_moves b b'"
  "vault_moves v w \<Longrightarrow> restore_at v i = Some e \<Longrightarrow> \<exists>e'. restore_at w i = Some e' \<and> restore_moves e e'"
  "vault_moves v w \<Longrightarrow> purge_at v i = Some p \<Longrightarrow> \<exists>p'. purge_at w i = Some p' \<and> purge_moves p p'"
  unfolding vault_moves_def kept_rows_def by blast+

lemma moves_intent: "row_moves b b' \<Longrightarrow> submitted_intent (bw_work b) = Some x \<Longrightarrow> submitted_intent (bw_work b') = Some x"
  and moves_receipt: "row_moves b b' \<Longrightarrow> stored_receipt (bw_work b) = Some r \<Longrightarrow> stored_receipt (bw_work b') = Some r"
  and moves_stage: "restore_moves e e' \<Longrightarrow> n \<le> restore_stage (re_work e) \<Longrightarrow> n \<le> restore_stage (re_work e')"
  by (auto simp: row_moves_def work_moves_def forward_def restore_moves_def)

lemma moved_covers:
  assumes "purge_covers v p r" "vault_moves v w"
  shows "purge_covers w p r"
proof -
  obtain q b where q: "purge_at v p = Some q" "backup_at v (pu_backupId q) = Some b" "stored_receipt (bw_work b) = Some r"
    using assms(1) by (auto simp: purge_covers_def)
  obtain q' b' where "purge_at w p = Some q'" "purge_moves q q'" "backup_at w (pu_backupId q) = Some b'" "row_moves b b'"
    using moved_rows(1) [OF assms(2) q(2)] moved_rows(3) [OF assms(2) q(1)] by blast
  with q(3) show ?thesis by (auto simp: purge_covers_def purge_moves_def dest: moves_receipt)
qed

lemma accounted_moves:
  assumes "accounted s" "vault_moves (vault s) (vault t)" "same_requests s t"
  shows "accounted t"
  unfolding accounted_def
proof (intro conjI)
  have "\<exists>b. backup_at (vault t) i = Some b \<and> submitted_intent (bw_work b) = Some x" if "(i, x) \<in> set (puts s)" for i x
  proof -
    obtain b where "backup_at (vault s) i = Some b" "submitted_intent (bw_work b) = Some x"
      using assms(1) \<open>(i, x) \<in> set (puts s)\<close> by (auto simp: accounted_def uploads_recorded_def)
    with moved_rows(1) [OF assms(2)] show ?thesis by (metis moves_intent)
  qed
  with assms show "uploads_recorded t"
    by (auto simp: accounted_def uploads_recorded_def same_requests_def)
  show "restores_recorded t" using assms moved_rows(2) [OF assms(2)] moves_stage
    unfolding accounted_def restores_recorded_def same_requests_def by clarsimp blast
  show "deletions_recorded t" using assms moved_covers [OF _ assms(2)]
    unfolding accounted_def deletions_recorded_def same_requests_def by clarsimp blast
qed

section \<open>Calm programs\<close>

definition serene_step :: "'k backup_world \<Rightarrow> 'k backup_world \<Rightarrow> bool" where
  "serene_step s t \<longleftrightarrow> outside t = outside s \<and> intruders t = intruders s \<and> same_requests s t
     \<and> vault_moves (vault s) (vault t)"

abbreviation serene :: "('k, 'a) backup_act \<Rightarrow> bool" where
  "serene m \<equiv> stays serene_step m"

interpretation serenely: step_relation serene_step
proof
  fix s t u :: "'k backup_world"
  show "serene_step s s" by (simp add: serene_step_def same_requests_def)
  show "serene_step s u" if "serene_step s t" "serene_step t u"
    using that by (auto simp: serene_step_def same_requests_def intro: vault_moves_trans)
qed

lemma serene_foot: "footstep T s t \<Longrightarrow> serene_step s t"
  unfolding footstep_def serene_step_def same_requests_def by (cases s; cases t) auto

lemma serene_footprint: "footprint T m \<Longrightarrow> serene m"
  by (erule stays_mono) (rule serene_foot)

lemma intruded_fields [simp]:
  "outside (intruded c x s) = outside s" "intruders (intruded c x s) = intruders s"
  "puts (intruded c x s) = puts s" "runs_sent (intruded c x s) = runs_sent s"
  "deletions (intruded c x s) = deletions s" "worker (intruded c x s) = worker s"
  "began (intruded c x s) = began s" "ticks (intruded c x s) = ticks s" "keep (intruded c x s) = keep s"
  by (cases x; auto split: option.splits)+

lemma intruded_moves: "vault_moves (vault s) (vault (intruded c x s))"
  by (cases x) (auto split: option.splits intro: keeps_moves)

lemma intruded_calm: "serene_step s (intruded c x s)"
  by (simp add: serene_step_def same_requests_def intruded_moves)

lemma interrupted_calm: "serene_step s (interrupted i s)"
proof -
  have "serene_step s (fold (intruded c) xs s)" for c xs
    by (induction xs arbitrary: s) (auto intro: serenely.step_refl serenely.step_trans intruded_calm)
  then show ?thesis by (simp add: interrupted_def serenely.step_refl)
qed

lemma serene_prim:
  fixes f :: "nat \<Rightarrow> ('k, 'a) backup_act"
  assumes f: "\<And>i s. serene_step s (snd (f i s))"
  shows "serene (prim f)"
proof (rule staysI)
  fix s :: "'k backup_world"
  have "serene_step s (s\<lparr>ticks := Suc (ticks s)\<rparr>)" by (simp add: serene_step_def same_requests_def)
  with f [of "s\<lparr>ticks := Suc (ticks s)\<rparr>" "ticks s"] show "serene_step s (snd (prim f s))"
    by (auto simp: prim_def Let_def intro: serenely.step_trans)
qed

lemma serene_bprim:
  assumes "\<And>i s. serene_step s (snd (f i s))"
  shows "serene (bprim f)"
  unfolding bprim_def by (rule serene_prim) (blast intro: serenely.step_trans interrupted_calm assms)

lemma serene_seek: "serene (seek g)"
  unfolding seek_def by (rule serene_bprim) (simp add: serenely.step_refl)

lemma serene_put: "tame st \<Longrightarrow> serene (put st)"
  unfolding put_def
  by (rule serene_bprim) (auto simp: serene_step_def same_requests_def vault_apply_def Let_def tame_moves split: option.splits)

lemma serene_reach: "serene (reach f)"
  unfolding reach_def
  by (intro serenely.bind serene_prim serene_footprint [OF footprint_reply])
     (auto simp: serene_step_def same_requests_def split: prod.splits)

lemma rolled_back_calm: "serene_step s t \<Longrightarrow> serene_step s (rolled_back s t)"
  by (simp add: serene_step_def same_requests_def rolled_back_def)

lemma serene_began: "serene_step s (t\<lparr>began := x\<rparr>) = serene_step s t" "serene_step (s\<lparr>began := x\<rparr>) t = serene_step s t"
  by (simp_all add: serene_step_def same_requests_def)

lemma serene_attempt:
  assumes m: "serene m"
  shows "serene (vault_attempt m)"
  unfolding vault_attempt_def
proof (rule serene_bprim)
  fix i and s :: "'a backup_world"
  obtain r t where t: "m (s\<lparr>began := Some (tx_now s i)\<rparr>) = (r, t)" by fastforce
  obtain c u where u: "commit t = (c, u)" by fastforce
  have st: "serene_step s t" using staysD [OF m t] by (simp add: serene_began)
  have "serene_step t u" using staysD [OF serene_footprint [OF footprint_commit] u] .
  with st have su: "serene_step s u" by (rule serenely.step_trans)
  show "serene_step s (snd (if or_fault (outside s) i then (Inl Defect, s)
     else (case m (s\<lparr>began := Some (tx_now s i)\<rparr>) of
             (Inl e, t) \<Rightarrow> (Inl e, rolled_back s t)
           | (Inr None, t) \<Rightarrow> (Inr None, rolled_back s t)
           | (Inr (Some x), t) \<Rightarrow> (case commit t of
                 (Inl e, u) \<Rightarrow> (Inl e, rolled_back s u)
               | (Inr lost, u) \<Rightarrow> ((if lost then Inl Defect else Inr (Some x)), u\<lparr>began := began s\<rparr>)))))"
    using st su by (auto simp: t u serene_began serenely.step_refl rolled_back_calm split: sum.splits option.splits)
qed

lemma serene_transaction: "serene m \<Longrightarrow> serene (vault_transaction m)"
  unfolding vault_transaction_def by (intro serenely.bind serene_attempt serenely.ret serenely.parsed)

lemma serene_lock:
  assumes m: "serene m"
  shows "serene (withBackupWorkerLock m)"
  unfolding withBackupWorkerLock_def
proof (rule serenely.bind)
  show "serene tryLock" by (rule serene_footprint [OF footprint_tryLock])
  have m': "serene (bind m (\<lambda>x. ret (Some x)))" by (intro serenely.bind m serenely.ret)
  fix x
  have "serene (\<lambda>s. case bind m (\<lambda>x. ret (Some x)) (s\<lparr>worker := True\<rparr>) of (r, t) \<Rightarrow> (r, t\<lparr>worker := False\<rparr>))"
  proof (rule staysI)
    fix s :: "'a backup_world"
    obtain r t where t: "bind m (\<lambda>x. ret (Some x)) (s\<lparr>worker := True\<rparr>) = (r, t)" by fastforce
    show "serene_step s (snd (case bind m (\<lambda>x. ret (Some x)) (s\<lparr>worker := True\<rparr>) of (r, t) \<Rightarrow> (r, t\<lparr>worker := False\<rparr>)))"
      using staysD [OF m' t] by (simp add: t serene_step_def same_requests_def)
  qed
  then show "serene (if x then \<lambda>s. case bind m (\<lambda>x. ret (Some x)) (s\<lparr>worker := True\<rparr>) of (r, t) \<Rightarrow> (r, t\<lparr>worker := False\<rparr>)
      else ret None)" by (simp add: serenely.ret)
qed

lemma serene_retryable: "serene (raiseRetryable c)"
  unfolding raiseRetryable_def by (rule serenely.raise)

lemma serene_prod: "(\<And>a b. x = (a, b) \<Longrightarrow> serene (f a b)) \<Longrightarrow> serene (case x of (a, b) \<Rightarrow> f a b)"
  by (cases x) simp

lemma serene_triple: "(\<And>a b c. x = (a, b, c) \<Longrightarrow> serene (f a b c)) \<Longrightarrow> serene (case x of (a, b, c) \<Rightarrow> f a b c)"
  by (cases x) simp

section \<open>Handlers that request nothing outside\<close>

lemmas serene_rules = serenely.rules serene_seek serene_put serene_reach serene_attempt serene_transaction serene_lock
  serene_retryable serene_prod serene_triple serene_footprint [OF footprint_loadAuthority]
  serene_footprint [OF footprint_ownMachine] serene_footprint [OF footprint_databaseTime]
  serene_footprint [OF footprint_wallTime] serene_footprint [OF footprint_randomUUID]
  serene_footprint [OF footprint_admit] serene_footprint [OF footprint_query]

lemma serene_lockAccount: "serene (lockAccount a)"
  unfolding lockAccount_def by (intro serene_rules)

lemma serene_enqueue: "serene (enqueueBackup j)"
  unfolding enqueueBackup_def by (intro serene_rules) simp

lemma serene_replayCapture: "serene (replayCapture p a digest b)"
  unfolding replayCapture_def by (intro serene_rules)

lemma serene_newCapture: "serene (newCapture D p a machine r digest)"
  unfolding newCapture_def Let_def by (intro serene_rules serene_enqueue; simp)

lemma serene_captureIn: "serene (captureInTransaction D p machine r)"
  unfolding captureInTransaction_def Let_def
  by (intro serene_rules serene_lockAccount serene_replayCapture serene_newCapture)

lemma serene_capture: "serene (capture D p machine r)"
  unfolding capture_def by (intro serene_rules serene_captureIn)

lemma serene_reads:
  "serene (inspectBackup p i)" "serene (ownedMachine p machine)" "serene (inspectRestore p i)" "serene (inspectPurge p i)"
  unfolding inspectBackup_def ownedMachine_def inspectRestore_def inspectPurge_def by (intro serene_rules)+

lemma serene_listBackups: "serene (listBackups p machine)"
  unfolding listBackups_def by (intro serene_rules serene_reads)

lemma serene_replayRestore: "serene (replayRestore p a digest e)"
  unfolding replayRestore_def by (intro serene_rules)

lemma serene_newRestore: "serene (newRestore D p a r digest)"
  unfolding newRestore_def Let_def by (intro serene_rules serene_enqueue; simp)

lemma serene_restore: "serene (restore D p r)"
  unfolding restore_def Let_def by (intro serene_rules serene_lockAccount serene_replayRestore serene_newRestore)

lemma serene_setState: "serene (set_backup_state i record st)"
  unfolding set_backup_state_def by (intro serene_rules) (simp add: row_moves_def)

lemma serene_assertPurgeable: "serene (assertPurgeable b)"
  unfolding assertPurgeable_def by (intro serene_rules)

lemma serene_admitPurge: "serene (admitPurge b i caller)"
  unfolding admitPurge_def Let_def by (intro serene_rules serene_assertPurgeable serene_setState; simp)

lemma serene_requestPurge: "serene (requestPurge p i purge)"
  unfolding requestPurge_def customers_purge_def
  by (intro serene_rules serene_lockAccount serene_admitPurge)

lemma serene_expired: "serene (admitExpiredBackup i)"
  unfolding admitExpiredBackup_def by (intro serene_rules serene_lockAccount serene_admitPurge)

lemma serene_candidates: "serene (admitCandidates deadline is n)"
  by (induction "is" arbitrary: n) (auto intro!: serene_rules serene_expired)

lemma serene_setPurge: "serene (set_purge i record st)" "serene (schedule_purge i record st t)"
  unfolding set_purge_def schedule_purge_def by (intro serene_rules; simp add: purge_moves_def)+

lemma serene_completePurge: "serene (completePurge purge)"
  unfolding completePurge_def
  by (intro serene_rules serene_lockAccount serene_setPurge; simp add: row_moves_def)

lemma serene_settle: "serene (settle i purge outcome)"
  unfolding settle_def
  by (cases outcome rule: option.exhaust; simp split: purge_outcome.split)
     (intro allI impI conjI serene_rules serene_setPurge serene_completePurge)+

lemma serene_attempted: "serene (attempted s)"
  unfolding attempted_def by (cases "sd_lastAttempt s"; simp; intro serene_rules)

lemma serene_summary: "serene (scheduleSummary s)"
  unfolding scheduleSummary_def by (intro serene_rules serene_attempted)

lemma serene_summaries: "serene (summaries ss)"
  by (induction ss) (auto intro!: serene_rules serene_summary)

lemma serene_ownedSchedule: "serene (ownedSchedule p i)"
  unfolding ownedSchedule_def by (intro serene_rules)

lemma serene_scheduleReads: "serene (inspectSchedule p i)" "serene (listSchedules p machine)"
  unfolding inspectSchedule_def listSchedules_def
  by (intro serene_rules serene_ownedSchedule serene_summary serene_summaries serene_reads)+

lemma serene_admitSchedule: "serene (admitSchedule p a machine r digest)"
  unfolding admitSchedule_def Let_def by (intro serene_rules; simp)

lemma serene_createSchedule: "serene (createSchedule D p machine r)"
  unfolding createSchedule_def Let_def
  by (intro serene_rules serene_lockAccount serene_admitSchedule serene_summary)

lemma serene_disableSchedule: "serene (disableSchedule p i)"
  unfolding disableSchedule_def
  by (intro serene_rules serene_lockAccount serene_ownedSchedule serene_summary; simp)

lemma serene_scheduledCapture: "serene (scheduledCapture D s now)"
  unfolding scheduledCapture_def by (intro serene_rules serene_captureIn; simp)

lemma serene_runSchedule: "serene (runSchedule D i s now)"
  unfolding runSchedule_def by (intro serene_rules serene_scheduledCapture; simp)

lemma serene_advanceSchedule: "serene (advanceSchedule D i)"
  unfolding advanceSchedule_def by (intro serene_rules serene_lockAccount serene_runSchedule)

lemma serene_reconcile: "serene (reconcileBackups D)"
  unfolding reconcileBackups_def reconcileSchedules_def
  by (intro serene_rules serene_advanceSchedule serene_enqueue)

end
