(* ===== verification/Backup_Steady.thy ===== *)
theory Backup_Steady
  imports Backup_Laws
begin

text \<open>
  A Hoare calculus for the worker. An assertion is \<open>steady\<close> when the worker's own reads and requests and the
  changes of other processes preserve it. The two assertions used are \<open>holding\<close> and
  \<open>resting\<close>: the worker holds its lock, and the row it works on records a known stage.
\<close>

section \<open>Triples\<close>

definition hoare :: "('s \<Rightarrow> bool) \<Rightarrow> ('s, 'a) prog \<Rightarrow> ('a \<Rightarrow> 's \<Rightarrow> bool) \<Rightarrow> ('s \<Rightarrow> bool) \<Rightarrow> bool" where
  "hoare P m Q E \<longleftrightarrow> (\<forall>s. P s \<longrightarrow> (case m s of (Inr x, t) \<Rightarrow> Q x t | (Inl e, t) \<Rightarrow> E t))"

lemma hoareI:
  "(\<And>s x t. P s \<Longrightarrow> m s = (Inr x, t) \<Longrightarrow> Q x t) \<Longrightarrow> (\<And>s e t. P s \<Longrightarrow> m s = (Inl e, t) \<Longrightarrow> E t) \<Longrightarrow> hoare P m Q E"
  by (auto simp: hoare_def split: prod.splits sum.splits)

lemma hoareD: "hoare P m Q E \<Longrightarrow> P s \<Longrightarrow> m s = (Inr x, t) \<Longrightarrow> Q x t"
  by (fastforce simp: hoare_def)

lemma hoareE: "hoare P m Q E \<Longrightarrow> P s \<Longrightarrow> m s = (Inl e, t) \<Longrightarrow> E t"
  by (fastforce simp: hoare_def)

lemma hoare_weaken:
  "hoare P m Q E \<Longrightarrow> (\<And>s. P' s \<Longrightarrow> P s) \<Longrightarrow> (\<And>x s. Q x s \<Longrightarrow> Q' x s) \<Longrightarrow> (\<And>s. E s \<Longrightarrow> E' s) \<Longrightarrow> hoare P' m Q' E'"
  by (rule hoareI) (blast dest: hoareD hoareE)+

lemma hoare_pre: "(\<And>s. P s \<Longrightarrow> P' s) \<Longrightarrow> hoare P' m Q E \<Longrightarrow> hoare P m Q E"
  by (rule hoare_weaken)

lemma hoare_post: "hoare P m R E \<Longrightarrow> (\<And>x s. R x s \<Longrightarrow> Q x s) \<Longrightarrow> hoare P m Q E"
  by (rule hoare_weaken)

lemma hoare_assume: "(\<And>s. P s \<Longrightarrow> hoare P m Q E) \<Longrightarrow> hoare P m Q E"
  by (rule hoareI) (blast dest: hoareD hoareE)+

lemma hoare_ret: "(\<And>s. P s \<Longrightarrow> Q x s) \<Longrightarrow> hoare P (ret x) Q E"
  by (rule hoareI) (auto simp: ret_def)

lemma hoare_raise: "(\<And>s. P s \<Longrightarrow> E s) \<Longrightarrow> hoare P (raise e) Q E"
  by (rule hoareI) (auto simp: raise_def)

lemma hoare_retryable: "(\<And>s. P s \<Longrightarrow> E s) \<Longrightarrow> hoare P (raiseRetryable c) Q E"
  unfolding raiseRetryable_def by (rule hoare_raise)

lemma hoare_bind: "hoare P m R E \<Longrightarrow> (\<And>x. hoare (R x) (f x) Q E) \<Longrightarrow> hoare P (bind m f) Q E"
  by (rule hoareI; simp add: bind_def split: prod.splits sum.splits) (blast dest: hoareD hoareE)+

lemma hoare_parsed: "(\<And>s y. P s \<Longrightarrow> x = Some y \<Longrightarrow> Q y s) \<Longrightarrow> (\<And>s. P s \<Longrightarrow> E s) \<Longrightarrow> hoare P (parsed x) Q E"
  unfolding parsed_def by (cases x) (auto intro: hoare_ret hoare_raise)

lemma hoare_if: "(b \<Longrightarrow> hoare P m Q E) \<Longrightarrow> (\<not> b \<Longrightarrow> hoare P n Q E) \<Longrightarrow> hoare P (if b then m else n) Q E"
  by simp

lemma hoare_option:
  "(x = None \<Longrightarrow> hoare P m Q E) \<Longrightarrow> (\<And>v. x = Some v \<Longrightarrow> hoare P (f v) Q E) \<Longrightarrow>
     hoare P (case x of None \<Rightarrow> m | Some v \<Rightarrow> f v) Q E"
  by (cases x) auto

lemma hoare_calm:
  "serene m \<Longrightarrow> (\<And>s t. P s \<Longrightarrow> serene_step s t \<Longrightarrow> R t) \<Longrightarrow> hoare P m (\<lambda>_. R) R"
  by (rule hoareI) (blast dest: staysD)+

lemma hoare_catch_any:
  "hoare P m Q E' \<Longrightarrow> hoare E' h Q E \<Longrightarrow> (\<And>s. E' s \<Longrightarrow> E s) \<Longrightarrow> hoare P (catch_any m h) Q E"
  by (rule hoareI; simp add: catch_any_def split: prod.splits sum.splits exn.splits)
     (blast dest: hoareD hoareE)+

lemma hoare_ending:
  assumes "hoare P m (\<lambda>_. R) R" "hoare R c (\<lambda>_. R) R"
  shows "hoare P (ending m c) (\<lambda>_. R) R"
proof (rule hoareI)
  have "R t" if "P s" "ending m c s = (r, t)" for s r t
  proof -
    obtain r1 t1 where m: "m s = (r1, t1)" by fastforce
    then have t1: "R t1" using hoareD [OF assms(1) that(1)] hoareE [OF assms(1) that(1)] by (cases r1) auto
    obtain r2 t2 where c: "c t1 = (r2, t2)" by fastforce
    then have t2: "R t2" using hoareD [OF assms(2) t1] hoareE [OF assms(2) t1] by (cases r2) auto
    show ?thesis using that(2) t1 t2 by (auto simp: ending_def m c split: sum.splits exn.splits)
  qed
  then show "R t" if "P s" "ending m c s = (Inr x, t)" for s x t using that by blast
  show "R t" if "P s" "ending m c s = (Inl e, t)" for s e t
    using that \<open>\<And>s r t. P s \<Longrightarrow> ending m c s = (r, t) \<Longrightarrow> R t\<close> by blast
qed

section \<open>Worlds since a point in time\<close>

definition since :: "vault \<Rightarrow> 'k backup_world \<Rightarrow> bool" where
  "since v s \<longleftrightarrow> accounted s \<and> vault_moves v (vault s)"

lemma since_calm: "since v s \<Longrightarrow> serene_step s t \<Longrightarrow> since v t"
  unfolding since_def serene_step_def by (blast intro: accounted_moves vault_moves_trans)

lemma since_moved:
  "since v s \<Longrightarrow> vault_moves (vault s) w \<Longrightarrow> since v (s\<lparr>vault := w\<rparr>)"
  unfolding since_def
  by (auto intro: vault_moves_trans elim!: accounted_moves simp: same_requests_def)

lemma hoare_since: "serene m \<Longrightarrow> (\<And>s. P s \<Longrightarrow> since v s) \<Longrightarrow> hoare P m (\<lambda>_. since v) (since v)"
  by (rule hoare_calm) (blast intro: since_calm)+

lemma since_frame: "since v (s\<lparr>ticks := n\<rparr>) = since v s" "since v (s\<lparr>store := d\<rparr>) = since v s"
  "since v (s\<lparr>keep := k\<rparr>) = since v s" "since v (s\<lparr>began := b\<rparr>) = since v s"
  "since v (s\<lparr>worker := w\<rparr>) = since v s"
  by (simp_all add: since_def accounted_def uploads_recorded_def restores_recorded_def deletions_recorded_def)

section \<open>Steady assertions\<close>

lemma silent_tick:
  assumes "footprint {} m" "m s = (r, t)"
  shows "t = s\<lparr>ticks := ticks t\<rparr>"
  using staysD [OF assms] by (cases s; cases t) (auto simp: footstep_def dest: wrote_nothing)

lemma hoare_silent:
  fixes m :: "('k, 'a) backup_act"
  assumes "footprint {} m"
  shows "hoare (\<lambda>u. \<exists>n. u = s\<lparr>ticks := n\<rparr>) m (\<lambda>_ u. \<exists>n. u = s\<lparr>ticks := n\<rparr>) (\<lambda>u. \<exists>n. u = s\<lparr>ticks := n\<rparr>)"
proof (rule hoareI)
  have "\<exists>n. t = s\<lparr>ticks := n\<rparr>" if "\<exists>n. u = s\<lparr>ticks := n\<rparr>" "m u = (r, t)" for u r t
    using silent_tick [OF assms that(2)] that(1) by auto
  then show "\<exists>n. t = s\<lparr>ticks := n\<rparr>" if "\<exists>n. u = s\<lparr>ticks := n\<rparr>" "m u = (Inr x, t)" for u x t using that by blast
  show "\<exists>n. t = s\<lparr>ticks := n\<rparr>" if "\<exists>n. u = s\<lparr>ticks := n\<rparr>" "m u = (Inl e, t)" for u e t
    using silent_tick [OF assms that(2)] that(1) by auto
qed

text \<open>The work of a transaction started in \<open>s\<close> changes nothing but the tables.\<close>

definition works :: "('k backup_world \<Rightarrow> bool) \<Rightarrow> ('k, unit) backup_act \<Rightarrow> ('k backup_world \<Rightarrow> bool) \<Rightarrow> bool" where
  "works I work I' \<longleftrightarrow> (\<forall>s. I s \<longrightarrow> (\<forall>now n. case work (s\<lparr>began := Some now, ticks := n\<rparr>) of (r, t) \<Rightarrow>
     rolled_back s t = s\<lparr>ticks := ticks t\<rparr> \<and> (r = Inr () \<longrightarrow> I' (t\<lparr>began := None\<rparr>))))"

locale steady =
  fixes I :: "'k backup_world \<Rightarrow> bool"
  assumes frame: "I s \<Longrightarrow> I (s\<lparr>ticks := n, store := d, keep := k\<rparr>)"
    and intrusion: "I s \<Longrightarrow> I (intruded c x s)"
    and alone: "I s \<Longrightarrow> began s = None"
begin

lemma frames: "I s \<Longrightarrow> I (s\<lparr>ticks := n\<rparr>)" "I s \<Longrightarrow> I (s\<lparr>keep := k\<rparr>)" "I s \<Longrightarrow> I (s\<lparr>store := d\<rparr>)"
  using frame [where s = s and n = n and d = "store s" and k = "keep s"]
    frame [where s = s and n = "ticks s" and d = "store s" and k = k]
    frame [where s = s and n = "ticks s" and d = d and k = "keep s"]
  by simp_all

lemma interruption: "I s \<Longrightarrow> I (interrupted i s)"
proof -
  have "I s \<Longrightarrow> I (fold (intruded c) xs s)" for c xs
    by (induction xs arbitrary: s) (auto intro: intrusion)
  then show "I s \<Longrightarrow> I (interrupted i s)" by (simp add: interrupted_def)
qed

lemma prim:
  assumes "\<And>i s. I s \<Longrightarrow> (case f i s of (Inr x, t) \<Rightarrow> Q x t | (Inl e, t) \<Rightarrow> E t)" "\<And>s. I s \<Longrightarrow> E s"
  shows "hoare I (prim f) Q E"
proof (rule hoareI)
  fix s x t assume "I s" "prim f s = (Inr x, t)"
  then show "Q x t" using assms(1) [OF frames(1) [of s "Suc (ticks s)"], of "ticks s"]
    by (auto simp: prim_def Let_def split: if_splits)
next
  fix s e t assume "I s" "prim f s = (Inl e, t)"
  then show "E t" using assms(1) [OF frames(1) [of s "Suc (ticks s)"], of "ticks s"]
      assms(2) [OF frames(1) [of s "Suc (ticks s)"]]
    by (auto simp: prim_def Let_def split: if_splits)
qed

lemma bprim:
  assumes "\<And>i s. I s \<Longrightarrow> (case f i s of (Inr x, t) \<Rightarrow> Q x t | (Inl e, t) \<Rightarrow> E t)" "\<And>s. I s \<Longrightarrow> E s"
  shows "hoare I (bprim f) Q E"
  unfolding bprim_def
proof (rule prim)
  show "case f i (interrupted i s) of (Inr x, t) \<Rightarrow> Q x t | (Inl e, t) \<Rightarrow> E t" if "I s" for i s
    using assms(1) [OF interruption [OF that]] .
qed (rule assms(2))

lemma seek: "hoare I (seek g) (\<lambda>x s. I s \<and> (\<exists>c. x = g c (store s) (vault s))) I"
  unfolding seek_def by (rule bprim) auto

lemma reads: "hoare I (seek g) (\<lambda>_. I) I"
  by (rule hoare_post [OF seek]) simp

lemma put:
  assumes "\<And>s now. I s \<Longrightarrow> I' (s\<lparr>vault := vault_effect now st (vault s)\<rparr>)"
  shows "hoare I (put st) (\<lambda>_. I') (\<lambda>s. I s \<or> I' s)"
  unfolding put_def
  by (rule bprim) (auto simp: vault_apply_def Let_def intro: assms split: option.splits)

lemma request: "hoare I (reach f) (\<lambda>_. I) I"
  unfolding reach_def reply_def
  by (rule hoare_bind [where R = "\<lambda>_. I"]; rule prim) (auto intro: frames split: prod.splits sum.splits)

lemma works_ret: "works I (ret ()) I"
proof -
  have "I (s\<lparr>ticks := n, began := None\<rparr>)" if "I s" for s n
    using frames(1) [OF that, of n] alone [OF that] by (cases s) simp
  then show ?thesis by (auto simp: works_def ret_def rolled_back_def)
qed

text \<open>\<open>authorizeEffect\<close>: the work runs in the transaction that finds the credential authorized.\<close>

lemma effect:
  assumes w: "works I work I'" and I': "\<And>s n. I' s \<Longrightarrow> I' (s\<lparr>ticks := n\<rparr>)"
  shows "hoare I (authorizeBackupEffect grant account project cap work)
    (\<lambda>ok s. if ok then I' s else I s) (\<lambda>s. I s \<or> I' s)"
  unfolding authorizeBackupEffect_def
proof (rule hoare_bind [where R = "\<lambda>r s. if r = None then I s else I' s"])
  let ?body = "bind (lockAccount account) (\<lambda>_. bind (authorizedFor grant account project cap) (\<lambda>ok.
       if ok then bind work (\<lambda>_. ret (Some ())) else ret None)) :: ('k, unit option) backup_act"
  have body: "hoare (\<lambda>u. \<exists>n. u = s\<lparr>began := Some now, ticks := n\<rparr>) ?body
      (\<lambda>r t. rolled_back s t = s\<lparr>ticks := ticks t\<rparr> \<and> (r \<noteq> None \<longrightarrow> I' (t\<lparr>began := None\<rparr>)))
      (\<lambda>t. rolled_back s t = s\<lparr>ticks := ticks t\<rparr>)" if "I s" for s now
  proof -
    have silent: "footprint {} (lockAccount account)" "footprint {} (authorizedFor grant account project cap)"
      unfolding lockAccount_def authorizedFor_def by (intro footprint_rules footprint_loadAuthority)+
    have same: "rolled_back s (s\<lparr>began := Some now, ticks := n\<rparr>) = s\<lparr>ticks := n\<rparr>" for n
      by (simp add: rolled_back_def)
    have one: "rolled_back s t = s\<lparr>ticks := ticks t\<rparr> \<and> (r = Inr () \<longrightarrow> I' (t\<lparr>began := None\<rparr>))"
      if "work (s\<lparr>began := Some now, ticks := n\<rparr>) = (r, t)" for n r t
      using w [unfolded works_def, rule_format, OF \<open>I s\<close>, of n now] that by simp
    have work: "hoare (\<lambda>u. \<exists>n. u = s\<lparr>began := Some now, ticks := n\<rparr>) work
        (\<lambda>_ t. rolled_back s t = s\<lparr>ticks := ticks t\<rparr> \<and> I' (t\<lparr>began := None\<rparr>))
        (\<lambda>t. rolled_back s t = s\<lparr>ticks := ticks t\<rparr>)"
      by (rule hoareI) (auto dest: one)
    have quiet: "hoare (\<lambda>u. \<exists>n. u = s\<lparr>began := Some now, ticks := n\<rparr>) m
        (\<lambda>_ u. \<exists>n. u = s\<lparr>began := Some now, ticks := n\<rparr>) (\<lambda>t. rolled_back s t = s\<lparr>ticks := ticks t\<rparr>)"
      if "footprint {} m" for m :: "('k, 'x) backup_act"
      by (rule hoare_weaken [OF hoare_silent [OF that, where s = "s\<lparr>began := Some now\<rparr>"]]) (auto simp: same)
    show ?thesis
      by (intro hoare_bind [OF quiet [OF silent(1)]] hoare_bind [OF quiet [OF silent(2)]] hoare_if
          hoare_bind [OF work] hoare_ret) (auto simp: same)
  qed
  show "hoare I (vault_attempt ?body) (\<lambda>r s. if r = None then I s else I' s) (\<lambda>s. I s \<or> I' s)"
    unfolding vault_attempt_def
  proof (rule bprim)
    fix i and s :: "'k backup_world" assume s: "I s"
    obtain r t where t: "?body (s\<lparr>began := Some (tx_now s i)\<rparr>) = (r, t)" by fastforce
    obtain c u where u: "commit t = (c, u)" by fastforce
    have u': "u = t\<lparr>ticks := ticks u\<rparr>" using silent_tick [OF footprint_commit u] .
    have pre: "\<exists>n. s\<lparr>began := Some (tx_now s i)\<rparr> = s\<lparr>began := Some (tx_now s i), ticks := n\<rparr>"
      by (rule exI [of _ "ticks s"]) simp
    have rb: "rolled_back s t = s\<lparr>ticks := ticks t\<rparr>"
      using hoareD [OF body [OF s] pre] hoareE [OF body [OF s] pre] t by (cases r) blast+
    have rt: "I (rolled_back s t)" by (simp add: rb frames s)
    have "rolled_back s u = (rolled_back s t)\<lparr>ticks := ticks u\<rparr>"
      by (subst u') (simp add: rolled_back_def)
    then have ru: "I (rolled_back s u)" by (simp add: rt frames)
    have committed: "I' (u\<lparr>began := began s\<rparr>)" if "r = Inr (Some ())"
    proof -
      have "I' (t\<lparr>began := None\<rparr>)" using hoareD [OF body [OF s] pre] t that by blast
      from I' [OF this, of "ticks u"] have "I' (t\<lparr>began := None, ticks := ticks u\<rparr>)" .
      moreover have "u\<lparr>began := None\<rparr> = t\<lparr>began := None, ticks := ticks u\<rparr>"
        by (subst u') (cases t; simp)
      ultimately show ?thesis using alone [OF s] by simp
    qed
    show "case if or_fault (outside s) i then (Inl Defect, s)
     else (case ?body (s\<lparr>began := Some (tx_now s i)\<rparr>) of
             (Inl e, t) \<Rightarrow> (Inl e, rolled_back s t)
           | (Inr None, t) \<Rightarrow> (Inr None, rolled_back s t)
           | (Inr (Some x), t) \<Rightarrow> (case commit t of
                 (Inl e, u) \<Rightarrow> (Inl e, rolled_back s u)
               | (Inr lost, u) \<Rightarrow> ((if lost then Inl Defect else Inr (Some x)), u\<lparr>began := began s\<rparr>))) of
       (Inr r, s) \<Rightarrow> if r = None then I s else I' s | (Inl e, s) \<Rightarrow> I s \<or> I' s"
      using s rt ru committed by (auto simp: t u split: sum.splits option.splits if_splits)
  qed blast
qed (auto intro: hoare_ret)

end

lemma works_put:
  assumes "\<And>s now n. I s \<Longrightarrow> I' (s\<lparr>ticks := n, vault := vault_effect now st (vault s), began := None\<rparr>)"
  shows "works I (put st) I'"
  unfolding works_def
proof (intro allI impI)
  fix s :: "'a backup_world" and now n assume s: "I s"
  have "rolled_back s t = s\<lparr>ticks := ticks t\<rparr> \<and> (r = Inr () \<longrightarrow> I' (t\<lparr>began := None\<rparr>))"
    if "put st (s\<lparr>began := Some now, ticks := n\<rparr>) = (r, t)" for r t
    using that assms [OF s] unfolding put_def bprim_def prim_def interrupted_def vault_apply_def Let_def
    by (auto simp: rolled_back_def tx_now_def split: if_splits)
  then show "case put st (s\<lparr>began := Some now, ticks := n\<rparr>) of (r, t) \<Rightarrow>
      rolled_back s t = s\<lparr>ticks := ticks t\<rparr> \<and> (r = Inr () \<longrightarrow> I' (t\<lparr>began := None\<rparr>))"
    by (auto split: prod.splits)
qed

end
