(* ===== verification/Backup_Worker.thy ===== *)
theory Backup_Worker
  imports Backup_Steady
begin

text \<open>
  The worker uploads a backup and submits a restore at most once: the stage recorded before the request
  is checked under the worker lock, and no later stage leads to a second request.
\<close>

section \<open>The row of a backup under the worker lock\<close>

text \<open>With \<open>F\<close> the backup has not been uploaded yet.\<close>

definition holding :: "vault \<Rightarrow> string \<Rightarrow> backup_work \<Rightarrow> bool \<Rightarrow> 'k backup_world \<Rightarrow> bool" where
  "holding v i W F s \<longleftrightarrow> since v s \<and> worker s \<and> began s = None
     \<and> (\<exists>b. backup_at (vault s) i = Some b \<and> bw_work b = W) \<and> (F \<longrightarrow> i \<notin> fst ` set (puts s))"

definition idle :: "vault \<Rightarrow> 'k backup_world \<Rightarrow> bool" where
  "idle v s \<longleftrightarrow> since v s \<and> worker s \<and> began s = None"

definition resting :: "vault \<Rightarrow> string \<Rightarrow> restore_work \<Rightarrow> bool \<Rightarrow> 'k backup_world \<Rightarrow> bool" where
  "resting v i W F s \<longleftrightarrow> since v s \<and> worker s \<and> began s = None
     \<and> (\<exists>e. restore_at (vault s) i = Some e \<and> re_work e = W) \<and> (F \<longrightarrow> i \<notin> set (runs_sent s))"

lemma since_intruded: "since v s \<Longrightarrow> since v (intruded c x s)"
  using since_calm intruded_calm by blast

lemma leaves_row:
  assumes "leaves_worker v w" "backup_at v i = Some b"
  shows "\<exists>b'. backup_at w i = Some b' \<and> bw_work b' = bw_work b"
proof -
  have "bw_id y = bw_id x \<and> bw_work y = bw_work x" if "only_claimed x y" for x y
    using that by (auto simp: only_claimed_def split: backup_state.splits)
  then show ?thesis using assms
      kept_grown [of only_claimed "vt_backups v" "vt_backups w" bw_id i b "\<lambda>x y. bw_work y = bw_work x"]
    by (simp add: leaves_worker_def at_defs)
qed

lemma leaves_restore:
  assumes "leaves_worker v w" "restore_at v i = Some e"
  shows "restore_at w i = Some e"
proof -
  have "grown (=) (vt_restores v) (vt_restores w)" "find (\<lambda>e. re_id e = i) (vt_restores v) = Some e"
    using assms by (simp_all add: leaves_worker_def at_defs)
  from find_grown [OF this] show ?thesis by (auto simp: at_defs)
qed

lemma intruded_leaves: "worker s \<Longrightarrow> vault (intruded c x s) = vault s \<or> leaves_worker (vault s) (vault (intruded c x s))"
  by (cases x) (auto split: option.splits)

interpretation idle: steady "idle v" for v
  by unfold_locales (auto simp: idle_def since_frame intro: since_intruded)

interpretation holding: steady "holding v i W F" for v i W F
proof
  fix s :: "'a backup_world" and c x
  assume s: "holding v i W F s"
  then show "began s = None" by (simp add: holding_def)
  show "holding v i W F (s\<lparr>ticks := n, store := d, keep := k\<rparr>)" for n d k
    using s by (simp add: holding_def since_frame)
  have "\<exists>b. backup_at (vault (intruded c x s)) i = Some b \<and> bw_work b = W"
    using s intruded_leaves [of s c x] leaves_row by (fastforce simp: holding_def)
  with s show "holding v i W F (intruded c x s)" by (simp add: holding_def since_intruded)
qed

interpretation resting: steady "resting v i W F" for v i W F
proof
  fix s :: "'a backup_world" and c x
  assume s: "resting v i W F s"
  then show "began s = None" by (simp add: resting_def)
  show "resting v i W F (s\<lparr>ticks := n, store := d, keep := k\<rparr>)" for n d k
    using s by (simp add: resting_def since_frame)
  have "\<exists>e. restore_at (vault (intruded c x s)) i = Some e \<and> re_work e = W"
    using s intruded_leaves [of s c x] leaves_restore by (fastforce simp: resting_def)
  with s show "resting v i W F (intruded c x s)" by (simp add: resting_def since_intruded)
qed

lemma holding_since: "holding v i W F s \<Longrightarrow> since v s" and holding_idle: "holding v i W F s \<Longrightarrow> idle v s"
  and resting_since: "resting v i R F s \<Longrightarrow> since v s" and resting_idle: "resting v i R F s \<Longrightarrow> idle v s"
  and idle_since: "idle v s \<Longrightarrow> since v s"
  by (auto simp: holding_def resting_def idle_def)

lemma holding_loosen: "holding v i W F s \<Longrightarrow> holding v i W False s"
  and resting_loosen: "resting v i R F s \<Longrightarrow> resting v i R False s"
  by (auto simp: holding_def resting_def)

text \<open>Before its submission is recorded, a backup has not been uploaded and a restore not been sent.\<close>

lemma holding_fresh: "holding v i W False s \<Longrightarrow> submitted_intent W = None \<Longrightarrow> holding v i W True s"
  by (fastforce simp: holding_def since_def accounted_def uploads_recorded_def)

lemma resting_fresh: "resting v i W False s \<Longrightarrow> restore_stage W < 2 \<Longrightarrow> resting v i W True s"
  by (fastforce simp: resting_def since_def accounted_def restores_recorded_def)

section \<open>Recording a stage\<close>

lemma holding_updated:
  assumes "holding v i W F s" "work_moves W W'" "\<And>b. bw_id (f b) = bw_id b \<and> bw_work (f b) = W'"
  shows "holding v i W' F (s\<lparr>vault := vault_effect now (Update_backup i f) (vault s)\<rparr>)"
proof -
  obtain b where b: "backup_at (vault s) i = Some b" "bw_work b = W" using assms(1) by (auto simp: holding_def)
  have "vault_moves (vault s) (vault_effect now (Update_backup i f) (vault s))"
    by (rule update_moves [OF b(1)]) (use assms b in auto)
  moreover have "\<exists>b. backup_at (vault_effect now (Update_backup i f) (vault s)) i = Some b \<and> bw_work b = W'"
    using b assms(3) by (auto simp: at_defs find_update)
  ultimately show ?thesis using assms(1) by (simp add: holding_def since_moved)
qed

lemma resting_updated:
  assumes "resting v i W F s" "restore_stage W \<le> restore_stage W'"
    "\<And>e. re_id (f e) = re_id e \<and> re_work (f e) = W'"
  shows "resting v i W' F (s\<lparr>vault := vault_effect now (Update_restore i f) (vault s)\<rparr>)"
proof -
  obtain e where e: "restore_at (vault s) i = Some e" "re_work e = W" using assms(1) by (auto simp: resting_def)
  have "vault_moves (vault s) (vault_effect now (Update_restore i f) (vault s))"
    by (rule update_restore_moves [OF e(1)]) (use assms e in auto)
  moreover have "\<exists>e. restore_at (vault_effect now (Update_restore i f) (vault s)) i = Some e \<and> re_work e = W'"
    using e assms(3) by (auto simp: at_defs find_update)
  ultimately show ?thesis using assms(1) by (simp add: resting_def since_moved)
qed

lemma holding_put:
  assumes "work_moves W W'" "\<And>b. bw_id (f b) = bw_id b \<and> bw_work (f b) = W'"
  shows "hoare (holding v i W F) (put (Update_backup i f)) (\<lambda>_. holding v i W' F) (since v)"
  by (rule hoare_weaken [OF holding.put [where I' = "holding v i W' F"]])
     (use assms in \<open>auto intro: holding_updated holding_since simp del: vault_effect.simps\<close>)

lemma resting_put:
  assumes "restore_stage W \<le> restore_stage W'" "\<And>e. re_id (f e) = re_id e \<and> re_work (f e) = W'"
  shows "hoare (resting v i W F) (put (Update_restore i f)) (\<lambda>_. resting v i W' F) (since v)"
  by (rule hoare_weaken [OF resting.put [where I' = "resting v i W' F"]])
     (use assms in \<open>auto intro: resting_updated resting_since simp del: vault_effect.simps\<close>)

lemma holding_settled: "holding v i W F (s\<lparr>ticks := n, began := None\<rparr>) = holding v i W F s" if "began s = None"
  using that by (simp add: holding_def since_frame)

lemma holding_effect:
  assumes "work_moves W W'" "\<And>b. bw_id (f b) = bw_id b \<and> bw_work (f b) = W'"
  shows "hoare (holding v i W F :: 'k backup_world \<Rightarrow> bool) (authorizeBackupEffect g a p c (put (Update_backup i f)))
    (\<lambda>ok s. if ok then holding v i W' F s else holding v i W F s) (since v)"
proof -
  have "works (holding v i W F :: 'k backup_world \<Rightarrow> bool) (put (Update_backup i f)) (holding v i W' F)"
  proof (rule works_put)
    fix s :: "'k backup_world" and now n assume "holding v i W F s"
    from holding_updated [OF this assms] show "holding v i W' F
        (s\<lparr>ticks := n, vault := vault_effect now (Update_backup i f) (vault s), began := None\<rparr>)"
      by (simp add: holding_def since_def accounted_def uploads_recorded_def restores_recorded_def deletions_recorded_def
          del: vault_effect.simps)
  qed
  then show ?thesis
    by (rule hoare_weaken [OF holding.effect]) (auto intro: holding.frames holding_since)
qed

lemma resting_effect:
  assumes "restore_stage W \<le> restore_stage W'" "\<And>e. re_id (f e) = re_id e \<and> re_work (f e) = W'"
  shows "hoare (resting v i W F :: 'k backup_world \<Rightarrow> bool) (authorizeBackupEffect g a p c (put (Update_restore i f)))
    (\<lambda>ok s. if ok then resting v i W' F s else resting v i W F s) (since v)"
proof -
  have "works (resting v i W F :: 'k backup_world \<Rightarrow> bool) (put (Update_restore i f)) (resting v i W' F)"
  proof (rule works_put)
    fix s :: "'k backup_world" and now n assume "resting v i W F s"
    from resting_updated [OF this assms] show "resting v i W' F
        (s\<lparr>ticks := n, vault := vault_effect now (Update_restore i f) (vault s), began := None\<rparr>)"
      by (simp add: resting_def since_def accounted_def uploads_recorded_def restores_recorded_def deletions_recorded_def
          del: vault_effect.simps)
  qed
  then show ?thesis
    by (rule hoare_weaken [OF resting.effect]) (auto intro: resting.frames resting_since)
qed

lemma holding_request: "hoare (holding v i W F) (reach f) (\<lambda>_. holding v i W F) (since v)"
  by (rule hoare_weaken [OF holding.request]) (auto intro: holding_since)

lemma resting_request: "hoare (resting v i W F) (reach f) (\<lambda>_. resting v i W F) (since v)"
  by (rule hoare_weaken [OF resting.request]) (auto intro: resting_since)

lemma holding_seek: "hoare (holding v i W F) (seek g) (\<lambda>_. holding v i W F) (since v)"
  by (rule hoare_weaken [OF holding.reads]) (auto intro: holding_since)

lemma resting_seek: "hoare (resting v i W F) (seek g) (\<lambda>_. resting v i W F) (since v)"
  by (rule hoare_weaken [OF resting.reads]) (auto intro: resting_since)

section \<open>The requests\<close>

lemma holding_upload:
  assumes "submitted_intent W = Some x"
  shows "hoare (holding v i W True) (reach_put f i x) (\<lambda>_. holding v i W False) (since v)"
proof -
  have logged: "holding v i W False (s\<lparr>puts := puts s @ [(i, x)]\<rparr>)" if s: "holding v i W True s" for s :: "'a backup_world"
  proof -
    have "accounted (s\<lparr>puts := puts s @ [(i, x)]\<rparr>)"
      using s assms by (auto simp: holding_def since_def accounted_def uploads_recorded_def restores_recorded_def deletions_recorded_def)
    with s show ?thesis by (simp add: holding_def since_def)
  qed
  have kept: "s\<lparr>keep := k, puts := ps\<rparr> = s\<lparr>puts := ps, keep := k\<rparr>" for s :: "'a backup_world" and k ps
    by (cases s) simp
  have "hoare (holding v i W True) (prim (\<lambda>j s. (let (r, k) = f (or_wall (outside s) j) (keep s)
     in (Inr r, s\<lparr>keep := k, puts := puts s @ [(i, x)]\<rparr>)))) (\<lambda>_. holding v i W False) (since v)"
    by (rule holding.prim) (auto simp: kept split: prod.splits intro: holding.frames logged holding_since)
  then show ?thesis unfolding reach_put_def reply_def
  proof (rule hoare_bind)
    show "hoare (holding v i W False) (prim (\<lambda>j s. (r, s))) (\<lambda>_. holding v i W False) (since v)" for r :: "exn + 'b"
      by (rule holding.prim) (auto split: sum.splits intro: holding_since)
  qed
qed

lemma resting_submit:
  assumes "2 \<le> restore_stage W"
  shows "hoare (resting v i W True) (reach_replay f i) (\<lambda>_. resting v i W False) (since v)"
proof -
  have logged: "resting v i W False (s\<lparr>runs_sent := runs_sent s @ [i]\<rparr>)" if s: "resting v i W True s" for s :: "'a backup_world"
  proof -
    have "accounted (s\<lparr>runs_sent := runs_sent s @ [i]\<rparr>)"
      using s assms by (auto simp: resting_def since_def accounted_def uploads_recorded_def restores_recorded_def deletions_recorded_def)
    with s show ?thesis by (simp add: resting_def since_def)
  qed
  have kept: "s\<lparr>keep := k, runs_sent := ps\<rparr> = s\<lparr>runs_sent := ps, keep := k\<rparr>" for s :: "'a backup_world" and k ps
    by (cases s) simp
  have "hoare (resting v i W True) (prim (\<lambda>j s. (let (r, k) = f (or_wall (outside s) j) (keep s)
     in (Inr r, s\<lparr>keep := k, runs_sent := runs_sent s @ [i]\<rparr>)))) (\<lambda>_. resting v i W False) (since v)"
    by (rule resting.prim) (auto simp: kept split: prod.splits intro: resting.frames logged resting_since)
  then show ?thesis unfolding reach_replay_def reply_def
  proof (rule hoare_bind)
    show "hoare (resting v i W False) (prim (\<lambda>j s. (r, s))) (\<lambda>_. resting v i W False) (since v)" for r :: "exn + 'b"
      by (rule resting.prim) (auto split: sum.splits intro: resting_since)
  qed
qed

end
