(* ===== verification/Backup_Stages.thy ===== *)
theory Backup_Stages
  imports Backup_Worker
begin

text \<open>
  The stages of captures, restores and purges preserve the account of the requests, whatever fails
  and wherever the process dies.
\<close>

lemma parsed_keeps: "(\<And>s. P s \<Longrightarrow> E s) \<Longrightarrow> hoare P (parsed x) (\<lambda>y s. P s \<and> x = Some y) E"
  by (rule hoare_parsed) auto

lemma hoare_conj_pre: "(b \<Longrightarrow> hoare P m Q E) \<Longrightarrow> hoare (\<lambda>s. P s \<and> b) m Q E"
  by (rule hoare_assume) (auto elim: hoare_pre [rotated])

section \<open>Captures\<close>

definition staged :: "vault \<Rightarrow> string \<Rightarrow> backup_work verdict \<Rightarrow> 'k backup_world \<Rightarrow> bool" where
  "staged v i r s \<longleftrightarrow> (case r of Next W \<Rightarrow> holding v i W False s | _ \<Rightarrow> since v s)"

lemma serene_block: "serene (blockBackup i record)"
  unfolding blockBackup_def by (intro serene_rules) (simp add: row_moves_def)

lemma hoare_blocked: "hoare (holding v i W F) (bind (blockBackup j record) (\<lambda>_. ret Stop)) (staged v k) (since v)"
  by (rule hoare_bind [OF hoare_since [OF serene_block]]) (auto intro: holding_since hoare_ret simp: staged_def)

lemma hoare_next: "hoare (holding v i W F) (ret (Next W)) (staged v i) (since v)"
  by (rule hoare_ret) (auto simp: staged_def intro: holding_loosen)

lemma hoare_denied: "hoare (holding v i W F) (ret Denied) (staged v i) (since v)"
  by (rule hoare_ret) (auto simp: staged_def intro: holding_since)

lemma holding_save: "work_moves W W' \<Longrightarrow> hoare (holding v i W F) (saveWork i W') (\<lambda>_. holding v i W' F) (since v)"
  unfolding saveWork_def by (rule holding_put) auto

lemma holding_authorize:
  "work_moves W W' \<Longrightarrow> hoare (holding v (bw_id b) W F) (authorizeCapture b record W')
     (\<lambda>ok s. if ok then holding v (bw_id b) W' F s else holding v (bw_id b) W F s) (since v)"
  unfolding authorizeCapture_def saveWork_def by (rule holding_effect) auto

lemma holding_parsed: "hoare (holding v i W F) (parsed x) (\<lambda>_. holding v i W F) (since v)"
  by (rule hoare_parsed) (auto intro: holding_since)

lemma holding_space: "hoare (holding v i W F) (requireScratchSpace P n) (\<lambda>_. holding v i W F) (since v)"
  unfolding requireScratchSpace_def
  by (intro hoare_bind [OF holding_request] hoare_if hoare_retryable hoare_ret) (auto intro: holding_since)

lemma holding_encrypt: "hoare (holding v i W F) (encryptBackup P scope j limits keys b) (\<lambda>_. holding v i W F) (since v)"
  unfolding encryptBackup_def
  by (intro hoare_bind [where R = "\<lambda>_. holding v i W F"] hoare_option holding_request hoare_retryable hoare_ret)
     (auto intro: holding_since)

lemmas work_moves_simps = work_moves_def forward_def

lemma captureStage_staged:
  "hoare (holding v (bw_id b) W False) (captureStage D P b record W) (staged v (bw_id b)) (since v)"
proof (cases W)
  case (Wk_capture n)
  have a: "work_moves (Wk_capture n) (Wk_capture (Suc n))" and e: "\<And>c. work_moves (Wk_capture (Suc n)) (Wk_encrypt c 0)"
    by (simp_all add: work_moves_simps)
  show ?thesis unfolding captureStage_def Wk_capture backup_work.case
    by (intro hoare_if hoare_blocked hoare_bind [OF holding_authorize [OF a]] hoare_denied [THEN hoare_pre [rotated]])
       (auto intro!: hoare_denied hoare_bind [OF holding_request] hoare_bind [OF holding_parsed] hoare_bind [OF holding_save [OF e]] hoare_next)
qed (auto simp: captureStage_def intro: hoare_next)

lemma sealArchive_staged:
  "hoare (holding v (bw_id b) (Wk_encrypt c n) F) (sealArchive D P b record c) (staged v (bw_id b)) (since v)"
proof -
  have e: "\<And>x. work_moves (Wk_encrypt c n) (Wk_ready x)" by (simp add: work_moves_simps)
  show ?thesis unfolding sealArchive_def Let_def
    by (intro hoare_bind [OF holding_request] hoare_bind [OF holding_encrypt] hoare_bind [OF holding_parsed]
        hoare_bind [OF holding_save [OF e]] hoare_next)
qed

lemma encryptStage_staged:
  "hoare (holding v (bw_id b) W False) (encryptStage D P b record W) (staged v (bw_id b)) (since v)"
proof (cases W)
  case (Wk_encrypt c n)
  have a: "work_moves (Wk_encrypt c n) (Wk_encrypt c (Suc n))" by (simp add: work_moves_simps)
  show ?thesis unfolding encryptStage_def Wk_encrypt backup_work.case
    by (intro hoare_if hoare_blocked hoare_bind [OF holding_request] hoare_bind [OF holding_space] hoare_bind [OF holding_authorize [OF a]])
       (auto intro!: hoare_denied sealArchive_staged)
qed (auto simp: encryptStage_def intro: hoare_next)

lemma holding_stored:
  "work_moves W (Wk_stored x r False 0) \<Longrightarrow>
     hoare (holding v i W F) (saveStored i record x r) (\<lambda>_. holding v i (Wk_stored x r False 0) F) (since v)"
  unfolding saveStored_def by (rule holding_put) auto

lemma uploadStage_staged:
  "hoare (holding v (bw_id b) W False) (uploadStage P b record W) (staged v (bw_id b)) (since v)"
proof (cases W)
  case (Wk_ready x)
  have a: "work_moves (Wk_ready x) (Wk_submitted x 0)" and e: "\<And>r. work_moves (Wk_submitted x 0) (Wk_stored x r False 0)"
    by (simp_all add: work_moves_simps)
  have "hoare (holding v (bw_id b) (Wk_ready x) True) (uploadStage P b record (Wk_ready x)) (staged v (bw_id b)) (since v)"
    unfolding uploadStage_def backup_work.case
    by (intro hoare_bind [OF holding_save [OF a]] hoare_bind [OF holding_upload] hoare_bind [OF holding_stored [OF e]] hoare_next) simp
  then show ?thesis unfolding Wk_ready by (rule hoare_pre [rotated]) (rule holding_fresh, assumption, simp)
next
  case (Wk_submitted x n)
  have a: "work_moves (Wk_submitted x n) (Wk_submitted x (Suc n))"
    and e: "\<And>r. work_moves (Wk_submitted x (Suc n)) (Wk_stored x r False 0)" by (simp_all add: work_moves_simps)
  have found: "hoare (holding v (bw_id b) (Wk_submitted x (Suc n)) False) (case r of
         Unresolved \<Rightarrow> raiseRetryable Provider_unavailable
       | Found receipt \<Rightarrow> bind (saveStored (bw_id b) record x receipt) (\<lambda>_. ret (Next (Wk_stored x receipt False 0))))
       (staged v (bw_id b)) (since v)" for r
    by (cases r) (auto intro!: hoare_retryable hoare_bind [OF holding_stored [OF e]] hoare_next intro: holding_since)
  show ?thesis unfolding uploadStage_def Wk_submitted backup_work.case
    by (intro hoare_if hoare_blocked hoare_bind [OF holding_save [OF a]] hoare_bind [OF holding_request] found)
qed (auto simp: uploadStage_def intro: hoare_next)

lemma cleanupStage_staged:
  "hoare (holding v (bw_id b) W False) (cleanupStage P b record W) (staged v (bw_id b)) (since v)"
proof (cases W)
  case (Wk_stored x r fin n)
  have a: "work_moves (Wk_stored x r fin n) (Wk_stored x r False (Suc n))"
    and e: "work_moves (Wk_stored x r False (Suc n)) (Wk_stored x r True (Suc n))" by (simp_all add: work_moves_simps)
  have removed: "hoare (holding v (bw_id b) (Wk_stored x r False (Suc n)) False) (case row of
           Some m \<Rightarrow> if state_destroyed (mc_state m) then ret ()
             else reach (guestRemove P (scope_of record) (bw_id b))
         | None \<Rightarrow> ret ()) (\<lambda>_. holding v (bw_id b) (Wk_stored x r False (Suc n)) False) (since v)" for row :: "machine_row option"
    by (intro hoare_option hoare_if holding_request hoare_ret)
  show ?thesis unfolding cleanupStage_def Wk_stored backup_work.case
    by (intro hoare_bind [OF holding_request] hoare_if hoare_bind [OF holding_save [OF a]] hoare_bind [OF holding_seek]
        hoare_bind [OF removed] hoare_bind [OF holding_save [OF e]] hoare_ret)
       (auto simp: staged_def intro: holding_since)
qed (auto simp: cleanupStage_def staged_def intro!: hoare_ret intro: holding_since)

lemma staged_proceed:
  assumes "\<And>W. hoare (holding v i W False) (f W) (staged v i) (since v)"
  shows "hoare (staged v i r) (proceed f r) (staged v i) (since v)"
  by (cases r) (auto simp: proceed_def staged_def intro!: hoare_ret hoare_pre [OF _ assms])

lemma advanceStages_staged:
  "hoare (holding v (bw_id b) W False) (advanceStages D P b record W) (staged v (bw_id b)) (since v)"
  unfolding advanceStages_def
  by (intro hoare_bind [OF captureStage_staged] hoare_bind [OF staged_proceed [OF encryptStage_staged]]
      hoare_bind [OF staged_proceed [OF uploadStage_staged]] staged_proceed cleanupStage_staged)

lemma staged_since: "staged v i r s \<Longrightarrow> since v s"
  by (cases r) (auto simp: staged_def intro: holding_since)

lemma advanceCapture_since: "hoare (idle v) (advanceCapture D P i) (\<lambda>_. since v) (since v)"
  unfolding advanceCapture_def
proof (rule hoare_bind)
  let ?R = "\<lambda>row s. idle v s \<and> row = backup_at (vault s) i"
  show "hoare (idle v) (seek (\<lambda>clock d v. backup_at v i)) ?R (since v)"
    by (rule hoare_weaken [OF idle.seek]) (auto intro: idle_since)
  fix row
  show "hoare (?R row) (case row of None \<Rightarrow> ret Stop | Some b \<Rightarrow>
     bind (parsed (backupRecord b)) (\<lambda>record. if \<not> workable (bk_state record) then ret Stop else
     bind (parsed (backupWork b)) (\<lambda>work. advanceStages D P b record work))) (\<lambda>_. since v) (since v)"
  proof (cases row)
    case None
    then show ?thesis by (auto intro!: hoare_ret intro: idle_since)
  next
    case (Some b)
    have "hoare (holding v (bw_id b) (bw_work b) False) (bind (parsed (backupRecord b)) (\<lambda>record. if \<not> workable (bk_state record) then ret Stop else
       bind (parsed (backupWork b)) (\<lambda>work. advanceStages D P b record work))) (\<lambda>_. since v) (since v)"
      by (rule hoare_bind [OF holding_parsed], intro hoare_if hoare_ret, erule holding_since,
          rule hoare_bind [OF parsed_keeps [OF holding_since]], assumption, rule hoare_conj_pre)
         (auto simp: backupWork_def split: if_splits intro: hoare_post [OF advanceStages_staged] staged_since)
    then show ?thesis unfolding Some option.case
      by (rule hoare_pre [rotated]) (auto simp: holding_def idle_def eq_commute [of "Some b"] dest: at_key(1))
  qed
qed

section \<open>Restores\<close>

lemma serene_setRestore: "serene (setRestore i record st)"
  unfolding setRestore_def by (intro serene_rules) (simp add: restore_moves_def)

lemma serene_blockRestore: "serene (blockRestore P i record)"
  unfolding blockRestore_def by (intro serene_rules serene_setRestore)

lemma serene_finishRestore: "serene (finishRestore P i e record result)"
proof -
  have "restore_stage w \<le> restore_stage Rw_done" for w by (cases w) auto
  then show ?thesis unfolding finishRestore_def
    by (intro serene_rules) (simp_all add: restore_moves_def row_moves_def)
qed

lemma serene_settleAnswer: "serene m \<Longrightarrow> serene (settleAnswer P i e record answer m)"
  unfolding settleAnswer_def
  by (auto split: option.split restore_answer.split intro!: serene_finishRestore serene_blockRestore)

lemma resting_save: "restore_stage W \<le> restore_stage W' \<Longrightarrow>
  hoare (resting v i W F) (saveRestore i W') (\<lambda>_. resting v i W' F) (since v)"
  unfolding saveRestore_def by (rule resting_put) auto

lemma resting_calm: "serene m \<Longrightarrow> hoare (resting v i W F) m (\<lambda>_. since v) (since v)"
  by (rule hoare_since) (auto intro: resting_since)

lemma resting_stop: "hoare (resting v i W F) (ret x) (\<lambda>_. since v) (since v)"
  by (rule hoare_ret) (rule resting_since)

lemma resting_parsed: "hoare (resting v i W F) (parsed x) (\<lambda>_. resting v i W F) (since v)"
  by (rule hoare_parsed) (auto intro: resting_since)

lemma resting_space: "hoare (resting v i W F) (requireScratchSpace P n) (\<lambda>_. resting v i W F) (since v)"
  unfolding requireScratchSpace_def
  by (intro hoare_bind [OF resting_request] hoare_if hoare_retryable hoare_ret) (auto intro: resting_since)

lemma since_ret: "hoare (since v) (ret x) (\<lambda>_. since v) (since v)"
  by (rule hoare_ret)

lemma submitArchive_since:
  fixes P :: "'k backup_ports"
  assumes "re_id e = i" "rt_id record = i"
  shows "hoare (resting v i (Rw_prepare n) True) (submitArchive D P scope e record x) (\<lambda>_. since v) (since v)"
proof -
  let ?before = "authorizeRestore e record (saveRestore i (Rw_submitted 0))"
  have "hoare (resting v i (Rw_prepare n) True) ?before
      (\<lambda>ok s. if ok then resting v i (Rw_submitted 0) True s else resting v i (Rw_prepare n) True s) (since v)"
    unfolding authorizeRestore_def saveRestore_def by (rule resting_effect) auto
  then have "hoare (resting v i (Rw_prepare n) True) ?before
      (\<lambda>ok s. if ok then resting v i (Rw_submitted 0) True s else since v s) (since v)"
    by (rule hoare_post) (auto intro: resting_since split: if_splits)
  then have before: "hoare (resting v i (Rw_prepare n) True) (catch_any ?before (ret False))
      (\<lambda>ok s. if ok then resting v i (Rw_submitted 0) True s else since v s) (since v)"
    by (rule hoare_catch_any) (auto intro: hoare_ret)
  have "hoare (resting v i (Rw_prepare n) True)
      (runRestoreCommand P scope (guest_request D e record x) ?before) (\<lambda>_. since v) (since v)"
    unfolding runRestoreCommand_def
    by (rule hoare_bind [OF resting_request], rule hoare_bind [OF before])
       (auto intro!: hoare_retryable simp: guest_request_def assms intro: hoare_post [OF resting_submit] resting_since)
  then show ?thesis unfolding submitArchive_def Let_def assms(1)
    by (rule hoare_bind) (intro hoare_since serene_settleAnswer serenely.ret)
qed

lemma transferArchive_since:
  assumes "re_id e = i" "rt_id record = i"
  shows "hoare (resting v i (Rw_prepare n) True) (transferArchive D P scope e record keys x receipt b) (\<lambda>_. since v) (since v)"
  unfolding transferArchive_def Let_def
  by (intro hoare_ending hoare_bind [OF resting_request] submitArchive_since assms hoare_since serene_rules)

lemma keyUnavailable_since: "hoare (resting v i W F) (keyUnavailable e record) (\<lambda>_. since v) (since v)"
proof (rule resting_calm)
  have "footprint {} (authorizedFor g a p c)" for g a p c
    unfolding authorizedFor_def by (intro footprint_rules footprint_loadAuthority)
  then show "serene (keyUnavailable e record)"
    unfolding keyUnavailable_def authorizeRestore_def authorizeBackupEffect_def
    by (intro serene_rules serene_lockAccount serene_setRestore serene_footprint)
qed

lemma availableKey_resting:
  "hoare (resting v i W F) (availableKey P x b) (\<lambda>_. resting v i W F) (since v)"
proof -
  have "hoare (resting v i W F) (catch_any (bind (reach (readKeyring P)) (\<lambda>keys. ret (Some keys))) (ret None))
      (\<lambda>_. resting v i W F) (since v)"
    by (rule hoare_catch_any [where E' = "resting v i W F"])
       (auto intro!: hoare_bind [OF resting.request] hoare_ret intro: resting_since)
  then show ?thesis unfolding availableKey_def
    by (intro hoare_bind [where R = "\<lambda>_. resting v i W F"] hoare_option resting_parsed hoare_ret)
qed

lemma prepareRestore_since:
  fixes P :: "'k backup_ports"
  assumes "re_id e = i" "rt_id record = i"
  shows "hoare (resting v i (Rw_prepare n) False) (prepareRestore D P scope e record n) (\<lambda>_. since v) (since v)"
proof -
  have unspent: "hoare (resting v i (Rw_prepare n) False :: 'k backup_world \<Rightarrow> bool) (authorizeRestore e record (ret ()))
      (\<lambda>_. resting v i (Rw_prepare n) False) (since v)"
    unfolding authorizeRestore_def
    by (rule hoare_weaken [OF resting.effect [OF resting.works_ret]]) (auto intro: resting.frames resting_since split: if_splits)
  have again: "hoare (resting v i (Rw_prepare n) False :: 'k backup_world \<Rightarrow> bool) (authorizeRestore e record (put (Update_restore (re_id e) (\<lambda>e. e\<lparr>
           re_record := record\<lparr>rt_state := Rt_pending False\<rparr>, re_work := Rw_prepare (Suc n)\<rparr>))))
      (\<lambda>ok s. if ok then resting v i (Rw_prepare (Suc n)) False s else resting v i (Rw_prepare n) False s) (since v)"
    unfolding authorizeRestore_def assms(1) by (rule resting_effect) auto
  have transfer: "hoare (resting v i (Rw_prepare (Suc n)) False)
      (bind (transferArchive D P scope e record keys x receipt b) (\<lambda>_. ret r)) (\<lambda>_. since v) (since v)"
    for keys x receipt b and r :: "unit verdict"
    by (rule hoare_pre [rotated], rule hoare_bind [OF transferArchive_since [OF assms]], rule since_ret)
       (auto intro: resting_fresh)
  show ?thesis unfolding prepareRestore_def Let_def
    by (intro hoare_bind [OF resting_request] hoare_bind [OF resting_space] hoare_bind [OF unspent] hoare_if resting_stop
          hoare_bind [OF resting_seek] hoare_bind [OF resting_parsed])
       (auto intro!: hoare_bind [OF availableKey_resting] hoare_option keyUnavailable_since hoare_bind [OF again] transfer resting_stop)
qed

lemma inspectSubmitted_since:
  assumes "re_id e = i"
  shows "hoare (resting v i (Rw_submitted n) False) (inspectSubmitted P scope e record n) (\<lambda>_. since v) (since v)"
  unfolding inspectSubmitted_def Let_def assms
  by (intro hoare_bind [OF resting_request] hoare_if resting_calm serene_blockRestore hoare_bind [OF resting_save]
      serene_settleAnswer serene_retryable) simp

lemma restoreStage_since:
  assumes "re_id e = i" "rt_id record = i"
  shows "hoare (resting v i W False) (restoreStage D P target e record W) (\<lambda>_. since v) (since v)"
proof (cases "ssh_allocation (mc_state target)")
  case None
  then show ?thesis by (auto simp: restoreStage_def intro: hoare_retryable resting_since)
next
  case (Some a)
  then show ?thesis
    by (cases W) (auto simp: restoreStage_def Let_def
        intro!: resting_stop hoare_bind [OF inspectSubmitted_since [OF assms(1)]] since_ret
          hoare_bind [OF resting_calm [OF serene_blockRestore]] prepareRestore_since assms)
qed

lemma advanceTarget_since:
  assumes "re_id e = i" "rt_id record = i"
  shows "hoare (resting v i W False) (advanceTarget D P e record W) (\<lambda>_. since v) (since v)"
proof -
  have await: "hoare (resting v i W False) (awaitTarget P e record W)
      (\<lambda>r s. case r of Next W' \<Rightarrow> resting v i W' False s | _ \<Rightarrow> since v s) (since v)"
  proof (cases "W = Rw_waiting")
    case True
    have "hoare (resting v i Rw_waiting False) (case x of
         Provisioning_failed \<Rightarrow> bind (blockRestore P (re_id e) record) (\<lambda>_. ret Stop)
       | Provisioning_open \<Rightarrow> ret Stop
       | Provisioned \<Rightarrow> bind (saveRestore (re_id e) (Rw_prepare 0)) (\<lambda>_. ret (Next (Rw_prepare 0))))
      (\<lambda>r s. case r of Next W' \<Rightarrow> resting v i W' False s | _ \<Rightarrow> since v s) (since v)" for x
      unfolding assms(1)
      by (cases x) (auto intro!: hoare_bind [OF resting_save] hoare_bind [OF resting_calm [OF serene_blockRestore]] hoare_ret
          intro: resting_since)
    with True show ?thesis unfolding awaitTarget_def
      by (auto intro!: hoare_bind [OF resting_seek] hoare_bind [OF resting_parsed])
  next
    case False
    then show ?thesis by (cases W) (auto simp: awaitTarget_def intro!: hoare_ret)
  qed
  have next_stage: "hoare (\<lambda>s. case r of Next W' \<Rightarrow> resting v i W' False s | _ \<Rightarrow> since v s) (case r of
       Next w \<Rightarrow> restoreStage D P target e record w | Denied \<Rightarrow> ret Denied | Stop \<Rightarrow> ret Stop) (\<lambda>_. since v) (since v)"
    for r target by (cases r) (auto intro: since_ret restoreStage_since [OF assms])
  show ?thesis unfolding advanceTarget_def
    by (intro hoare_bind [OF resting_seek] hoare_bind [OF resting_parsed] hoare_if
        hoare_bind [OF resting_calm [OF serene_blockRestore]] since_ret hoare_bind [OF await] next_stage)
qed

lemma advanceRestore_since: "hoare (idle v) (advanceRestore D P i) (\<lambda>_. since v) (since v)"
  unfolding advanceRestore_def
proof (rule hoare_bind)
  let ?R = "\<lambda>row s. idle v s \<and> row = restore_at (vault s) i"
  show "hoare (idle v) (seek (\<lambda>clock d v. restore_at v i)) ?R (since v)"
    by (rule hoare_weaken [OF idle.seek]) (auto intro: idle_since)
  fix row
  show "hoare (?R row) (case row of None \<Rightarrow> ret Stop | Some e \<Rightarrow>
     bind (parsed (restoreRecord e)) (\<lambda>record. if \<not> pending_answer (rt_state record) then ret Stop else
     bind (parsed (restoreWork e)) (\<lambda>work. advanceTarget D P e record work))) (\<lambda>_. since v) (since v)"
  proof (cases row)
    case None
    then show ?thesis by (auto intro!: hoare_ret intro: idle_since)
  next
    case (Some e)
    have "hoare (resting v (re_id e) (re_work e) False) (bind (parsed (restoreRecord e)) (\<lambda>record.
       if \<not> pending_answer (rt_state record) then ret Stop else
       bind (parsed (restoreWork e)) (\<lambda>work. advanceTarget D P e record work))) (\<lambda>_. since v) (since v)"
      by (rule hoare_bind [OF parsed_keeps [OF resting_since]], assumption, rule hoare_conj_pre, intro hoare_if resting_stop,
          rule hoare_bind [OF parsed_keeps [OF resting_since]], assumption, rule hoare_conj_pre)
         (auto simp: restoreWork_def restoreRecord_def Let_def split: if_splits intro!: advanceTarget_since)
    then show ?thesis unfolding Some option.case
      by (rule hoare_pre [rotated]) (auto simp: resting_def idle_def eq_commute [of "Some e"] dest: at_key(2))
  qed
qed

end
