(* ===== verification/Backup_Control.thy ===== *)
theory Backup_Control
  imports Backup_Stages
begin

text \<open>
  The routes, tasks and operator runs of backups as one step: \<open>backup_reachable\<close> is what a process can
  come to by handling calls one after the other, each on a connection without an open
  transaction. Every call keeps the account of the requests and moves rows forward only.
\<close>

section \<open>Deletions\<close>

definition covered :: "vault \<Rightarrow> string \<Rightarrow> object_receipt \<Rightarrow> 'k backup_world \<Rightarrow> bool" where
  "covered v i r s \<longleftrightarrow> since v s \<and> purge_covers (vault s) i r"

lemma covered_calm: "covered v i r s \<Longrightarrow> serene_step s t \<Longrightarrow> covered v i r t"
  unfolding covered_def by (auto intro: since_calm moved_covers simp: serene_step_def)

lemma hoare_lasting: "serene m \<Longrightarrow> (\<And>s t. P s \<Longrightarrow> serene_step s t \<Longrightarrow> P t) \<Longrightarrow> (\<And>s. P s \<Longrightarrow> since v s) \<Longrightarrow>
  hoare P m (\<lambda>_. P) (since v)"
  by (rule hoareI) (blast dest: staysD)+

lemma seek_value:
  assumes "\<And>s t. P s \<Longrightarrow> serene_step s t \<Longrightarrow> P t" "\<And>s. P s \<Longrightarrow> since v s"
  shows "hoare P (seek g) (\<lambda>x s. P s \<and> (\<exists>c. x = g c (store s) (vault s))) (since v)"
proof (rule hoareI)
  show "since v t" if "P s" "seek g s = (Inl e, t)" for s e t
    using assms staysD [OF serene_seek that(2)] that(1) by blast
  show "P t \<and> (\<exists>c. x = g c (store t) (vault t))" if "P s" "seek g s = (Inr x, t)" for s x t
    using assms(1) [OF that(1) staysD [OF serene_seek that(2)]] that(2)
    by (auto simp: seek_def bprim_def prim_def Let_def split: if_splits)
qed

lemma covered_delete: "hoare (covered v i r) (reach_delete f i r) (\<lambda>_. since v) (since v)"
proof -
  have logged: "since v (s\<lparr>ticks := n, keep := k, deletions := deletions s @ [(i, r)]\<rparr>)" if "covered v i r s"
    for s :: "'a backup_world" and n k
    using that by (auto simp: covered_def since_def accounted_def uploads_recorded_def restores_recorded_def deletions_recorded_def)
  have "hoare (covered v i r) (prim (\<lambda>j s. (let (r', k) = f (or_wall (outside s) j) (keep s)
     in (Inr r', s\<lparr>keep := k, deletions := deletions s @ [(i, r)]\<rparr>)))) (\<lambda>_. since v) (since v)"
    by (rule hoareI) (auto simp: prim_def Let_def covered_def since_frame split: if_splits prod.splits
        dest: logged [unfolded covered_def, OF conjI])
  then show ?thesis unfolding reach_delete_def
    by (rule hoare_bind) (rule hoare_since [OF serene_footprint [OF footprint_reply]])
qed

lemma purgeOwned_since:
  "hoare (\<lambda>s. since v s \<and> (\<exists>q. purge_at (vault s) i = Some q \<and> pu_backupId q = pg_backupId purge))
     (purgeOwned deleter i purge now) (\<lambda>_. since v) (since v)"
proof -
  let ?P = "\<lambda>s. since v s \<and> (\<exists>q. purge_at (vault s) i = Some q \<and> pu_backupId q = pg_backupId purge)"
  have stable: "?P t" if "?P s" "serene_step s t" for s t :: "'a backup_world"
    using that since_calm [of v s t] moved_rows(3) [of "vault s" "vault t" i]
    by (auto simp: serene_step_def purge_moves_def)
  have rest: "hoare (covered v i receipt)
     (bind (set_purge i purge (Pg_submitted now)) (\<lambda>_.
      bind (catch_any (bind (reach_delete (deleter receipt) i receipt) (\<lambda>x. ret (Some x))) (ret None)) (\<lambda>outcome.
      settle i purge outcome))) (\<lambda>_. since v) (since v)" for receipt
    by (intro hoare_bind [OF hoare_lasting [OF serene_setPurge(1) covered_calm]]
          hoare_bind [OF hoare_catch_any [OF hoare_bind [OF covered_delete]]] hoare_ret hoare_since serene_settle)
       (auto simp: covered_def)
  have owned: "hoare (\<lambda>s. ?P s \<and> (\<exists>b. backup_at (vault s) (pg_backupId purge) = Some b \<and> bw_work b = work))
     (bind (parsed (owned_receipt purge backup work)) (\<lambda>receipt.
      bind (set_purge i purge (Pg_submitted now)) (\<lambda>_.
      bind (catch_any (bind (reach_delete (deleter receipt) i receipt) (\<lambda>x. ret (Some x))) (ret None)) (\<lambda>outcome.
      settle i purge outcome)))) (\<lambda>_. since v) (since v)" for backup work
  proof (rule hoare_bind [OF parsed_keeps], blast, rule hoare_conj_pre, rule hoare_pre [OF _ rest])
    fix receipt and s :: "'a backup_world"
    assume "owned_receipt purge backup work = Some receipt"
      "?P s \<and> (\<exists>b. backup_at (vault s) (pg_backupId purge) = Some b \<and> bw_work b = work)"
    then show "covered v i receipt s" by (cases work) (auto simp: covered_def purge_covers_def split: if_splits)
  qed
  show ?thesis unfolding purgeOwned_def
  proof (rule hoare_bind [OF seek_value])
    fix row
    show "hoare (\<lambda>s. ?P s \<and> (\<exists>c. row = backup_at (vault s) (pg_backupId purge)))
     (bind (parsed row) (\<lambda>b. bind (parsed (backupRecord b)) (\<lambda>backup. bind (parsed (backupWork b)) (\<lambda>work.
     bind (parsed (owned_receipt purge backup work)) (\<lambda>receipt.
     bind (set_purge i purge (Pg_submitted now)) (\<lambda>_.
     bind (catch_any (bind (reach_delete (deleter receipt) i receipt) (\<lambda>x. ret (Some x))) (ret None)) (\<lambda>outcome.
     settle i purge outcome))))))) (\<lambda>_. since v) (since v)"
      by (rule hoare_bind [OF parsed_keeps], blast, rule hoare_bind [OF parsed_keeps], blast,
          rule hoare_bind [OF parsed_keeps], blast, rule hoare_pre [OF _ owned])
         (auto simp: backupWork_def split: if_splits)
  qed (erule (1) stable, erule conjunct1)
qed

lemma advancePurge_since: "hoare (since v) (bind (seek (\<lambda>clock d v. purge_at v i)) (\<lambda>selected.
     case selected of None \<Rightarrow> ret () | Some q \<Rightarrow>
     case pu_nextAttemptAt q of None \<Rightarrow> ret () | Some due \<Rightarrow>
       bind databaseTime (\<lambda>now. if now < due then ret () else
       bind (parsed (purgeRecord q)) (\<lambda>purge.
       if is_purged (pg_state purge) then ret () else purgeOwned deleter i purge now)))) (\<lambda>_. since v) (since v)"
proof (rule hoare_bind [OF seek_value], erule (1) since_calm, assumption)
  fix selected
  let ?Q = "\<lambda>q s. since v s \<and> purge_at (vault s) i \<noteq> None \<and> pu_backupId (the (purge_at (vault s) i)) = pu_backupId q"
  have stable: "?Q q t" if "?Q q s" "serene_step s t" for q and s t :: "'a backup_world"
    using that since_calm [of v s t] moved_rows(3) [of "vault s" "vault t" i]
    by (fastforce simp: serene_step_def purge_moves_def)
  have due: "hoare (?Q q) (bind databaseTime (\<lambda>now. if now < t then ret () else
       bind (parsed (purgeRecord q)) (\<lambda>purge.
       if is_purged (pg_state purge) then ret () else purgeOwned deleter i purge now))) (\<lambda>_. since v) (since v)" for q t
    by (rule hoare_bind [OF hoare_lasting [OF serene_footprint [OF footprint_databaseTime] stable]], assumption, assumption, blast,
        rule hoare_if, rule hoare_ret, blast, rule hoare_bind [OF parsed_keeps], blast, rule hoare_if, rule hoare_ret, blast,
        rule hoare_conj_pre, rule hoare_pre [OF _ purgeOwned_since])
       (auto simp: purgeRecord_def Let_def split: if_splits)
  show "hoare (\<lambda>s. since v s \<and> (\<exists>c. selected = purge_at (vault s) i)) (case selected of None \<Rightarrow> ret () | Some q \<Rightarrow>
     case pu_nextAttemptAt q of None \<Rightarrow> ret () | Some due \<Rightarrow>
       bind databaseTime (\<lambda>now. if now < due then ret () else
       bind (parsed (purgeRecord q)) (\<lambda>purge.
       if is_purged (pg_state purge) then ret () else purgeOwned deleter i purge now))) (\<lambda>_. since v) (since v)"
    by (intro hoare_option hoare_ret, blast, blast, rule hoare_pre [OF _ due]) (auto simp: eq_commute [of "Some _"])
qed

section \<open>Under the worker lock\<close>

lemma lock_since:
  assumes "hoare (idle v) m (\<lambda>_. since v) (since v)"
  shows "hoare (\<lambda>s. since v s \<and> began s = None) (withBackupWorkerLock m) (\<lambda>_ s. since v s) (since v)"
  unfolding withBackupWorkerLock_def
proof (rule hoare_bind)
  let ?P = "\<lambda>s. since v s \<and> began s = None"
  show "hoare ?P tryLock (\<lambda>_. ?P) (since v)"
    by (rule hoareI) (auto simp: tryLock_def prim_def Let_def since_frame split: if_splits)
  fix acquired
  have "hoare (idle v) (bind m (\<lambda>x. ret (Some x))) (\<lambda>_. since v) (since v)"
    by (rule hoare_bind [OF assms]) (rule since_ret)
  note m = this
  have "hoare ?P (\<lambda>s. case bind m (\<lambda>x. ret (Some x)) (s\<lparr>worker := True\<rparr>) of (r, t) \<Rightarrow> (r, t\<lparr>worker := False\<rparr>))
      (\<lambda>_. since v) (since v)"
  proof (unfold hoare_def, intro allI impI)
    fix s :: "'a backup_world" assume "?P s"
    then have s: "idle v (s\<lparr>worker := True\<rparr>)" by (simp add: idle_def since_frame)
    obtain r t where t: "bind m (\<lambda>x. ret (Some x)) (s\<lparr>worker := True\<rparr>) = (r, t)" by fastforce
    with hoareD [OF m s] hoareE [OF m s] have "since v t" by (cases r) auto
    then show "case case bind m (\<lambda>x. ret (Some x)) (s\<lparr>worker := True\<rparr>) of (r, t) \<Rightarrow> (r, t\<lparr>worker := False\<rparr>) of
        (Inr x, t) \<Rightarrow> since v t | (Inl e, t) \<Rightarrow> since v t"
      by (simp add: t since_frame split: sum.split)
  qed
  then show "hoare ?P (if acquired then \<lambda>s. case bind m (\<lambda>x. ret (Some x)) (s\<lparr>worker := True\<rparr>) of
      (r, t) \<Rightarrow> (r, t\<lparr>worker := False\<rparr>) else ret None) (\<lambda>_. since v) (since v)"
    by (auto intro: hoare_ret)
qed

lemma serene_discard: "serene (discardArchive P i)"
  unfolding discardArchive_def by (intro serene_rules)

lemma serene_deny: "serene (denyBackup i)" "serene (denyRestore P i)"
  unfolding denyBackup_def denyRestore_def by (intro serene_rules serene_block serene_blockRestore)+

lemma advanceJob_since: "hoare (idle v) (advanceJob D P j) (\<lambda>_. since v) (since v)"
proof (cases j)
  case (Backup_job i)
  have "hoare (since v) (case r of Denied \<Rightarrow> denyBackup i | _ \<Rightarrow> ret ()) (\<lambda>_. since v) (since v)"
    for r :: "backup_work verdict" by (cases r) (auto intro: since_ret hoare_since serene_deny)
  then show ?thesis unfolding Backup_job advanceJob.simps
    by (intro hoare_ending hoare_bind [OF advanceCapture_since]) (auto intro: hoare_since serene_discard)
next
  case (Restore_job i)
  have "hoare (since v) (case r of Denied \<Rightarrow> denyRestore P i | _ \<Rightarrow> ret ()) (\<lambda>_. since v) (since v)"
    for r :: "unit verdict" by (cases r) (auto intro: since_ret hoare_since serene_deny)
  then show ?thesis unfolding Restore_job advanceJob.simps by (rule hoare_bind [OF advanceRestore_since])
qed

lemma advanceBackup_since:
  "hoare (\<lambda>s. since v s \<and> began s = None) (advanceBackup D P j) (\<lambda>_. since v) (since v)"
  unfolding advanceBackup_def
  by (rule hoare_bind [OF lock_since [OF advanceJob_since]]) (intro hoare_option since_ret hoare_retryable)

section \<open>Calls\<close>

datatype backup_call =
    Capture_machine principal id capture_request
  | List_backups principal id
  | Inspect_backup principal string
  | Restore_backup principal restore_request
  | Inspect_restore principal string
  | Purge_backup principal string string
  | Inspect_purge principal string
  | Create_schedule principal id schedule_request
  | List_schedules principal id
  | Inspect_schedule principal string
  | Disable_schedule principal string
  | Advance_job backup_job
  | Reconcile_backups
  | Expire_backup string
  | Delete_version string

definition connected :: "'k backup_world \<Rightarrow> 'k backup_world" where
  "connected s = s\<lparr>began := None, worker := False\<rparr>"

fun backup_run :: "backup_deployment \<Rightarrow> 'k backup_ports \<Rightarrow> 'k deleter \<Rightarrow> backup_call \<Rightarrow> ('k, unit) backup_act" where
  "backup_run D P X (Capture_machine p m r) = bind (capture D p m r) (\<lambda>_. ret ())"
| "backup_run D P X (List_backups p m) = bind (listBackups p m) (\<lambda>_. ret ())"
| "backup_run D P X (Inspect_backup p i) = bind (inspectBackup p i) (\<lambda>_. ret ())"
| "backup_run D P X (Restore_backup p r) = bind (restore D p r) (\<lambda>_. ret ())"
| "backup_run D P X (Inspect_restore p i) = bind (inspectRestore p i) (\<lambda>_. ret ())"
| "backup_run D P X (Purge_backup p i q) = bind (requestPurge p i q) (\<lambda>_. ret ())"
| "backup_run D P X (Inspect_purge p i) = bind (inspectPurge p i) (\<lambda>_. ret ())"
| "backup_run D P X (Create_schedule p m r) = bind (createSchedule D p m r) (\<lambda>_. ret ())"
| "backup_run D P X (List_schedules p m) = bind (listSchedules p m) (\<lambda>_. ret ())"
| "backup_run D P X (Inspect_schedule p i) = bind (inspectSchedule p i) (\<lambda>_. ret ())"
| "backup_run D P X (Disable_schedule p i) = bind (disableSchedule p i) (\<lambda>_. ret ())"
| "backup_run D P X (Advance_job j) = advanceBackup D P j"
| "backup_run D P X Reconcile_backups = reconcileBackups D"
| "backup_run D P X (Expire_backup i) = bind (admitExpiredBackup i) (\<lambda>_. ret ())"
| "backup_run D P X (Delete_version i) = bind (advancePurge X i) (\<lambda>_. ret ())"

definition backup_handle :: "backup_deployment \<Rightarrow> 'k backup_ports \<Rightarrow> 'k deleter \<Rightarrow> backup_call \<Rightarrow> 'k backup_world \<Rightarrow> 'k backup_world" where
  "backup_handle D P X c s = snd (backup_run D P X c (connected s))"

text \<open>Between two calls the outside may change.\<close>

inductive backup_reachable :: "backup_deployment \<Rightarrow> 'k backup_ports \<Rightarrow> 'k deleter \<Rightarrow> 'k backup_world \<Rightarrow> bool"
  for D P X where
  start: "puts s = [] \<Longrightarrow> runs_sent s = [] \<Longrightarrow> deletions s = [] \<Longrightarrow> backup_reachable D P X s"
| handle: "backup_reachable D P X s \<Longrightarrow> backup_reachable D P X (backup_handle D P X c s)"
| elapse: "backup_reachable D P X s \<Longrightarrow> backup_reachable D P X (s\<lparr>outside := o', intruders := xs, keep := k\<rparr>)"

lemma run_since: "hoare (\<lambda>s. since v s \<and> began s = None) (backup_run D P X c) (\<lambda>_. since v) (since v)"
proof (cases "(\<exists>j. c = Advance_job j) \<or> (\<exists>i. c = Delete_version i)")
  case True
  have "hoare (idle v) m (\<lambda>_. since v) (since v)" if "hoare (since v) m (\<lambda>_. since v) (since v)" for m :: "('a, 'x) backup_act"
    by (rule hoare_pre [OF _ that]) (rule idle_since)
  then have "hoare (\<lambda>s. since v s \<and> began s = None) (advancePurge X i) (\<lambda>_. since v) (since v)" for i
    unfolding advancePurge_def by (intro lock_since) (blast intro: advancePurge_since)
  then have "hoare (\<lambda>s. since v s \<and> began s = None) (backup_run D P X (Delete_version i)) (\<lambda>_. since v) (since v)" for i
    unfolding backup_run.simps by (rule hoare_bind) (rule since_ret)
  with True advanceBackup_since show ?thesis by (elim disjE exE) (simp_all only: backup_run.simps)
next
  case False
  have "serene (backup_run D P X c)"
    using False by (cases c) (auto intro!: serenely.bind serenely.ret serene_capture serene_listBackups serene_reads serene_restore
        serene_requestPurge serene_createSchedule serene_scheduleReads serene_disableSchedule serene_reconcile serene_expired)
  then show ?thesis by (rule hoare_since) simp
qed

lemma handle_since: "since v s \<Longrightarrow> since v (backup_handle D P X c s)"
proof -
  assume "since v s"
  then have s: "since v (connected s) \<and> began (connected s) = None" by (simp add: connected_def since_frame)
  obtain r t where t: "backup_run D P X c (connected s) = (r, t)" by fastforce
  with hoareD [OF run_since s] hoareE [OF run_since s] have "since v t" by (cases r) auto
  then show ?thesis by (simp add: backup_handle_def t)
qed

lemma reachable_accounted: "backup_reachable D P X s \<Longrightarrow> accounted s"
proof (induction rule: backup_reachable.induct)
  case (handle s c)
  then have "since (vault s) s" by (simp add: since_def)
  from handle_since [OF this] show ?case by (simp add: since_def)
qed (auto simp: accounted_def uploads_recorded_def restores_recorded_def deletions_recorded_def)

lemma handle_moves:
  assumes "backup_reachable D P X s"
  shows "vault_moves (vault s) (vault (backup_handle D P X c s))"
proof -
  have "since (vault s) s" using reachable_accounted [OF assms] by (simp add: since_def)
  from handle_since [OF this] show ?thesis by (simp add: since_def)
qed

end
