(* ===== verification/Backup_Outcomes.thy ===== *)
theory Backup_Outcomes
  imports Backup_Control Outcomes
begin

text \<open>
  What successful admissions of backups have done: inversion of transactions over the backup
  tables, and the effects of captures, purges and scheduled runs that returned a result.
\<close>

section \<open>The clock of a run\<close>

text \<open>\<open>during s t\<close>: a run of this process leads from \<open>s\<close> to \<open>t\<close>, as far as its clock can tell.\<close>

definition during :: "'e process_scheme \<Rightarrow> 'e process_scheme \<Rightarrow> bool" where
  "during s t \<longleftrightarrow> outside t = outside s \<and> ticks s \<le> ticks t"

lemma during_refl [simp]: "during s s"
  by (simp add: during_def)

lemma during_trans: "during s t \<Longrightarrow> during t u \<Longrightarrow> during s u"
  by (simp add: during_def)

lemma during_ticked: "during s t \<Longrightarrow> during s (ticked t)"
  by (simp add: during_def)

lemma read_at: "during s u \<Longrightarrow> during (ticked u) t \<Longrightarrow> clock_read s t (clock_of u)"
  by (rule clock_readI) (simp_all add: during_def)

lemma read_during: "clock_read u v now \<Longrightarrow> during s u \<Longrightarrow> during v t \<Longrightarrow> clock_read s t now"
  by (rule clock_read_within [of u v]) (simp_all add: during_def)

lemma silent_during: "footprint {} m \<Longrightarrow> m s = (r, t) \<Longrightarrow> during s t"
  by (drule (1) staysD) (simp add: footstep_def during_def)

lemma interrupted_during: "during s (interrupted i s)" "during (interrupted i s) s"
proof -
  have one: "outside (intruded c x s) = outside s \<and> ticks (intruded c x s) = ticks s" for c x and s :: "'a backup_world"
    by (cases x) (auto split: option.splits)
  have "outside (fold (intruded c) xs s) = outside s \<and> ticks (fold (intruded c) xs s) = ticks s" for c xs
    by (induction xs arbitrary: s) (simp_all add: one)
  then show "during s (interrupted i s)" "during (interrupted i s) s"
    by (simp_all add: interrupted_def during_def)
qed

section \<open>Successful runs inside a transaction\<close>

lemma ticked_backup [simp]:
  "vault (ticked s) = vault s" "vault (opened s) = vault s" "intruders (ticked s) = intruders s"
  "puts (ticked s) = puts s" "worker (ticked s) = worker s" "keep (ticked s) = keep s"
  by (simp_all add: ticked_def opened_def)

lemma seek_within:
  "began s \<noteq> None \<Longrightarrow> seek g s = (Inr x, t) \<longleftrightarrow> healthy s \<and> x = g (clock_of s) (store s) (vault s) \<and> t = ticked s"
  by (auto simp: seek_def bprim_def prim_success interrupted_def healthy_def clock_of_def)

definition stored_by :: "vault_statement \<Rightarrow> 'k backup_world \<Rightarrow> 'k backup_world \<Rightarrow> bool" where
  "stored_by st s t \<longleftrightarrow> healthy s \<and> vault_ok (store s) (vault_effect (tx_now s (ticks s)) st (vault s))
     \<and> t = (ticked s)\<lparr>vault := vault_effect (tx_now s (ticks s)) st (vault s)\<rparr>"

lemma put_within: "began s \<noteq> None \<Longrightarrow> put st s = (Inr u, t) \<Longrightarrow> stored_by st s t"
  by (auto simp: put_def bprim_def prim_success interrupted_def stored_by_def healthy_def vault_apply_def Let_def
      split: option.splits if_splits)

lemma stored_by_fields: "stored_by st s t \<Longrightarrow> began t = began s \<and> store t = store s \<and> outside t = outside s
     \<and> ticks t = Suc (ticks s) \<and> vault t = vault_effect (tx_now s (ticks s)) st (vault s)"
  by (auto simp: stored_by_def)

lemma stored_during: "stored_by st s t \<Longrightarrow> during (ticked s) t"
  by (drule stored_by_fields) (simp add: during_def)

text \<open>The world in which a transaction that starts in \<open>s\<close> runs.\<close>

definition entering :: "'k backup_world \<Rightarrow> 'k backup_world" where
  "entering s = (let w = interrupted (ticks s) (ticked s) in w\<lparr>began := Some (tx_now w (ticks s))\<rparr>)"

lemma entering_began [simp]: "began (entering s) = Some (tx_now (interrupted (ticks s) (ticked s)) (ticks s))"
  by (simp add: entering_def Let_def)

lemma entering_during: "during s (entering s)"
proof -
  have "during (ticked s) (entering s)"
    using interrupted_during(1) [of "ticked s" "ticks s"] by (simp add: entering_def Let_def during_def)
  then show ?thesis by (simp add: during_def)
qed

lemma transaction_within:
  assumes "vault_transaction m s = (Inr x, t)"
  shows "\<exists>u. m (entering s) = (Inr x, u) \<and> vault t = vault u \<and> store t = store u \<and> during u t"
proof -
  let ?w = "interrupted (ticks s) (ticked s)"
  obtain r where "vault_attempt (bind m (\<lambda>x. ret (Some x))) s = (Inr (Some r), t)" and r: "x = r"
    using assms by (auto simp: vault_transaction_def success)
  then have "(case bind m (\<lambda>x. ret (Some x)) (entering s) of
             (Inl e, t) \<Rightarrow> (Inl e, rolled_back ?w t)
           | (Inr None, t) \<Rightarrow> (Inr None, rolled_back ?w t)
           | (Inr (Some x), t) \<Rightarrow> (case commit t of
                 (Inl e, u) \<Rightarrow> (Inl e, rolled_back ?w u)
               | (Inr lost, u) \<Rightarrow> ((if lost then Inl Defect else Inr (Some x)), u\<lparr>began := began ?w\<rparr>)))
        = (Inr (Some r), t)"
    by (auto simp: vault_attempt_def bprim_def prim_success entering_def Let_def split: if_splits)
  then obtain u where u: "bind m (\<lambda>x. ret (Some x)) (entering s) = (Inr (Some r), u)"
    and t: "(case commit u of (Inl e, v) \<Rightarrow> (Inl e, rolled_back ?w v)
               | (Inr lost, v) \<Rightarrow> ((if lost then Inl Defect else Inr (Some r)), v\<lparr>began := began ?w\<rparr>))
        = (Inr (Some r), t)"
    by (auto split: prod.splits sum.splits option.splits if_splits)
  then have "vault t = vault u" "store t = store u" "during u t"
    by (auto simp: commit_success during_def split: prod.splits sum.splits if_splits)
  with u r show ?thesis by (auto simp: success)
qed

lemma silent_same:
  assumes "footprint {} m" "m s = (Inr x, t)"
  shows "store t = store s \<and> vault t = vault s \<and> began t = began s \<and> during s t"
  using silent_tick [OF assms] silent_during [OF assms] by (cases s; cases t) simp

section \<open>Captures\<close>

lemma total_append: "total f (xs @ ys) = total f xs + total f ys"
  by (simp add: total_def)

lemma silent_parts: "footprint {} (ownMachine m a)" "footprint {} (lockAccount a)" "footprint {} (loadAuthority g)"
  "footprint {} (databaseTime :: ('e, instant) tx)" "footprint {} (randomUUID :: ('e, string) tx)"
  unfolding lockAccount_def by (intro footprint_rules footprint_ownMachine footprint_loadAuthority)+

lemma newCapture_law:
  assumes run: "newCapture D p a machine r digest s = (Inr rec, t)" and "began s \<noteq> None"
  shows "\<exists>m allocation now n. mc_accountId m = accountId p \<and> mc_id m = machine \<and> m \<in> set (machines (store s))
      \<and> ssh_allocation (mc_state m) = Some allocation
      \<and> owned_bytes (accountId p) (vault s) + bl_maxBytes (bc_limits (bd_config D)) \<le> bc_maxAccountBytes (bd_config D)
      \<and> global_bytes (vault s) + bl_maxBytes (bc_limits (bd_config D)) \<le> bc_maxGlobalBytes (bd_config D)
      \<and> recent_captures (accountId p) now (vault s) < 10
      \<and> rec = bw_record (new_backup D p m allocation (au_checkedAt a) r digest)
      \<and> vt_backups (vault t) = vt_backups (vault s) @ [(new_backup D p m allocation (au_checkedAt a) r digest)\<lparr>bw_createdAt := n\<rparr>]
      \<and> Backup_job (cr_id r) \<in> set (vt_jobs (vault t)) \<and> vt_runs (vault t) = vt_runs (vault s)
      \<and> vt_schedules (vault t) = vt_schedules (vault s) \<and> store t = store s \<and> began t = began s
      \<and> clock_read s t now \<and> during s t"
proof -
  obtain m s1 where m: "ownMachine machine (accountId p) s = (Inr m, s1)"
    and r1: "bind (pure_of (authorize (au_principal a) Backup_create (Some (mc_projectId m)))) (\<lambda>_.
     bind (present Resource_busy (ssh_allocation (mc_state m))) (\<lambda>allocation.
     bind (seek (\<lambda>clock d v. (owned_bytes (accountId p) v, global_bytes v, recent_captures (accountId p) clock v)))
       (\<lambda>(owned, total, recent).
     bind (unless (owned + bl_maxBytes (bc_limits (bd_config D)) \<le> bc_maxAccountBytes (bd_config D)
       \<and> total + bl_maxBytes (bc_limits (bd_config D)) \<le> bc_maxGlobalBytes (bd_config D)) Quota_exceeded) (\<lambda>_.
     bind (unless (recent < 10) Quota_exceeded) (\<lambda>_.
     let b = new_backup D p m allocation (au_checkedAt a) r digest in
     bind (put (Insert_backup b)) (\<lambda>_.
     bind (put (Insert_backup_event (accountId p) (cr_id r) (Backup_admitted (mc_id m) (grantId p)
       (bk_retainUntil (bw_record b)) (bw_reservedBytes b)))) (\<lambda>_.
     bind (enqueueBackup (Backup_job (cr_id r))) (\<lambda>_.
     ret (bw_record b))))))))) s1 = (Inr rec, t)"
    using run by (auto simp: newCapture_def Let_def bind_success)
  have s1: "store s1 = store s" "vault s1 = vault s" "began s1 = began s" "during s s1"
    using silent_same [OF silent_parts(1) m] by auto
  have machine: "mc_accountId m = accountId p" "mc_id m = machine" "m \<in> set (machines (store s))"
    using m by (auto simp: ownMachine_def success select_one_def find_Some_iff)
  from r1 obtain allocation s2 where al: "ssh_allocation (mc_state m) = Some allocation"
    and q: "owned_bytes (accountId p) (vault s1) + bl_maxBytes (bc_limits (bd_config D)) \<le> bc_maxAccountBytes (bd_config D)"
      "global_bytes (vault s1) + bl_maxBytes (bc_limits (bd_config D)) \<le> bc_maxGlobalBytes (bd_config D)"
      "recent_captures (accountId p) (clock_of s1) (vault s1) < 10" and s2: "s2 = ticked s1"
    and r2: "bind (put (Insert_backup (new_backup D p m allocation (au_checkedAt a) r digest))) (\<lambda>_.
     bind (put (Insert_backup_event (accountId p) (cr_id r) (Backup_admitted (mc_id m) (grantId p)
       (bk_retainUntil (bw_record (new_backup D p m allocation (au_checkedAt a) r digest)))
       (bw_reservedBytes (new_backup D p m allocation (au_checkedAt a) r digest))))) (\<lambda>_.
     bind (enqueueBackup (Backup_job (cr_id r))) (\<lambda>_.
     ret (bw_record (new_backup D p m allocation (au_checkedAt a) r digest))))) s2 = (Inr rec, t)"
    using assms(2) s1 by (auto simp: success seek_within Let_def)
  from r2 obtain u v w where u: "put (Insert_backup (new_backup D p m allocation (au_checkedAt a) r digest)) s2 = (Inr (), u)"
    and v: "put (Insert_backup_event (accountId p) (cr_id r) (Backup_admitted (mc_id m) (grantId p)
       (bk_retainUntil (bw_record (new_backup D p m allocation (au_checkedAt a) r digest)))
       (bw_reservedBytes (new_backup D p m allocation (au_checkedAt a) r digest)))) u = (Inr (), v)"
    and w: "put (Enqueue_backup (Backup_job (cr_id r))) v = (Inr (), t)"
    and rec: "rec = bw_record (new_backup D p m allocation (au_checkedAt a) r digest)"
    by (auto simp: success enqueueBackup_def)
  have u': "stored_by (Insert_backup (new_backup D p m allocation (au_checkedAt a) r digest)) s2 u"
    using put_within [OF _ u] s1 s2 assms(2) by simp
  note u'' = stored_by_fields [OF u']
  have v': "stored_by (Insert_backup_event (accountId p) (cr_id r) (Backup_admitted (mc_id m) (grantId p)
       (bk_retainUntil (bw_record (new_backup D p m allocation (au_checkedAt a) r digest)))
       (bw_reservedBytes (new_backup D p m allocation (au_checkedAt a) r digest)))) u v"
    using put_within [OF _ v] u'' s1 s2 assms(2) by simp
  note v'' = stored_by_fields [OF v']
  have w': "stored_by (Enqueue_backup (Backup_job (cr_id r))) v t"
    using put_within [OF _ w] v'' u'' s1 s2 assms(2) by simp
  note w'' = stored_by_fields [OF w']
  have "during (ticked s1) t" using u'' v'' w'' s2 by (simp add: during_def)
  with s1(4) have "clock_read s t (clock_of s1)" "during s t" by (simp_all add: read_at) (simp add: during_def)
  then show ?thesis
    by (intro exI [of _ m] exI [of _ allocation] exI [of _ "clock_of s1"] exI [of _ "tx_now s2 (ticks s2)"])
       (use machine al q s1 s2 rec u'' v'' w'' in simp)
qed

text \<open>What a capture admitted inside a transaction has done to the tables; \<open>now\<close> is the moment at which
  the captures of the hour were counted. The laws say that it is a reading of the clock in the call.\<close>

definition admitted_capture :: "backup_deployment \<Rightarrow> instant \<Rightarrow> principal \<Rightarrow> id \<Rightarrow> capture_request \<Rightarrow> backup_summary \<Rightarrow> db \<Rightarrow> vault \<Rightarrow> vault \<Rightarrow> bool" where
  "admitted_capture D now p machine r rec d v w \<longleftrightarrow>
    (let digest = bd_sha256 D (request_json machine (cr_id r) (cr_recipe r)) in
    case backup_at v (cr_id r) of
      Some b \<Rightarrow> w = v \<and> rec = bw_record b \<and> bw_accountId b = accountId p \<and> bw_digest b = digest
    | None \<Rightarrow> (\<exists>b. vt_backups w = vt_backups v @ [b] \<and> rec = bw_record b \<and> bw_id b = cr_id r
        \<and> bk_state rec = Bk_pending \<and> bw_work b = Wk_capture 0 \<and> bw_machineId b = machine \<and> bw_digest b = digest
        \<and> (\<exists>m\<in>set (machines d). mc_id m = machine \<and> mc_accountId m = accountId p
             \<and> ssh_allocation (mc_state m) = Some (bw_allocationId b))
        \<and> owned_bytes (accountId p) w \<le> bc_maxAccountBytes (bd_config D)
        \<and> global_bytes w \<le> bc_maxGlobalBytes (bd_config D)
        \<and> recent_captures (accountId p) now v < 10 \<and> Backup_job (cr_id r) \<in> set (vt_jobs w)
        \<and> vt_runs w = vt_runs v \<and> vt_schedules w = vt_schedules v))"

lemma captureIn_law:
  assumes u: "captureInTransaction D p machine r s = (Inr rec, u)" and "began s \<noteq> None"
  shows "\<exists>now. clock_read s u now \<and> admitted_capture D now p machine r rec (store u) (vault s) (vault u)
    \<and> began u = began s \<and> store u = store s \<and> during s u"
proof -
  let ?digest = "bd_sha256 D (request_json machine (cr_id r) (cr_recipe r))"
  obtain acc s1 a s2 where l: "lockAccount (accountId p) s = (Inr acc, s1)" "loadAuthority (grantId p) s1 = (Inr a, s2)"
    and rest: "bind (seek (\<lambda>clock d v. backup_at v (cr_id r))) (\<lambda>existing. case existing of
       Some b \<Rightarrow> replayCapture p a ?digest b | None \<Rightarrow> newCapture D p a machine r ?digest) s2 = (Inr rec, u)"
    using u by (auto simp: captureInTransaction_def Let_def bind_success)
  have s2: "vault s2 = vault s" "store s2 = store s" "began s2 = began s" "during s s2"
    using silent_same [OF silent_parts(2) l(1)] silent_same [OF silent_parts(3) l(2)] by (auto intro: during_trans)
  have rest': "(case backup_at (vault s) (cr_id r) of
       Some b \<Rightarrow> replayCapture p a ?digest b | None \<Rightarrow> newCapture D p a machine r ?digest) (ticked s2) = (Inr rec, u)"
    using rest s2 assms(2) by (auto simp: bind_success seek_within)
  show ?thesis
  proof (cases "backup_at (vault s) (cr_id r)")
    case (Some b)
    with rest' have "rec = bw_record b \<and> bw_accountId b = accountId p \<and> bw_digest b = ?digest \<and> u = ticked s2"
      by (auto simp: replayCapture_def success backupRecord_def Let_def split: if_splits)
    with Some s2 read_at [OF s2(4), of u] show ?thesis
      by (intro exI [of _ "clock_of s2"]) (simp add: admitted_capture_def during_ticked)
  next
    case None
    with rest' have "newCapture D p a machine r ?digest (ticked s2) = (Inr rec, u)" by simp
    from newCapture_law [OF this] s2 assms(2) obtain m allocation now n where law:
      "mc_accountId m = accountId p" "mc_id m = machine" "m \<in> set (machines (store s2))"
      "ssh_allocation (mc_state m) = Some allocation"
      "owned_bytes (accountId p) (vault s2) + bl_maxBytes (bc_limits (bd_config D)) \<le> bc_maxAccountBytes (bd_config D)"
      "global_bytes (vault s2) + bl_maxBytes (bc_limits (bd_config D)) \<le> bc_maxGlobalBytes (bd_config D)"
      "recent_captures (accountId p) now (vault s2) < 10"
      "rec = bw_record (new_backup D p m allocation (au_checkedAt a) r ?digest)"
      "vt_backups (vault u) = vt_backups (vault s2) @ [(new_backup D p m allocation (au_checkedAt a) r ?digest)\<lparr>bw_createdAt := n\<rparr>]"
      "Backup_job (cr_id r) \<in> set (vt_jobs (vault u))" "store u = store s2" "began u = began s2"
      "vt_runs (vault u) = vt_runs (vault s2)" "vt_schedules (vault u) = vt_schedules (vault s2)"
      "clock_read (ticked s2) u now" "during (ticked s2) u"
      by auto
    have times: "clock_read s u now" "during s u"
      using read_during [OF law(15) during_ticked [OF s2(4)] during_refl] during_trans [OF during_ticked [OF s2(4)] law(16)] .
    have "owned_bytes (accountId p) (vault u) \<le> bc_maxAccountBytes (bd_config D)"
      "global_bytes (vault u) \<le> bc_maxGlobalBytes (bd_config D)"
      using law by (simp_all add: owned_bytes_def global_bytes_def total_append) (simp_all add: total_def new_backup_def)
    moreover have "bk_state rec = Bk_pending" using law by (simp add: new_backup_def)
    moreover have "bw_allocationId (new_backup D p m allocation (au_checkedAt a) r ?digest) = allocation"
      "bw_machineId (new_backup D p m allocation (au_checkedAt a) r ?digest) = machine"
      "bw_digest (new_backup D p m allocation (au_checkedAt a) r ?digest) = ?digest"
      "bw_work (new_backup D p m allocation (au_checkedAt a) r ?digest) = Wk_capture 0"
      "bw_id (new_backup D p m allocation (au_checkedAt a) r ?digest) = cr_id r"
      using law by (simp_all add: new_backup_def)
    moreover have "began u = began s \<and> store u = store s" using law s2 by simp
    ultimately show ?thesis unfolding admitted_capture_def None Let_def option.case
      by (intro exI [of _ now] exI [of _ "(new_backup D p m allocation (au_checkedAt a) r ?digest)\<lparr>bw_createdAt := n\<rparr>"]
            conjI bexI [of _ m])
         (use law s2 times in simp_all)
  qed
qed

section \<open>Refusals\<close>

text \<open>Refusals come before writes: a run that ends in a \<open>CloudError\<close> has changed no table.\<close>

definition refuses_first :: "('k, 'a) backup_act \<Rightarrow> bool" where
  "refuses_first m \<longleftrightarrow> (\<forall>s f t. began s \<noteq> None \<longrightarrow> m s = (Inl (Cloud f), t) \<longrightarrow>
     vault t = vault s \<and> began t = began s \<and> during s t)"

definition no_refusal :: "('k, 'a) backup_act \<Rightarrow> bool" where
  "no_refusal m \<longleftrightarrow> (\<forall>s f t. m s \<noteq> (Inl (Cloud f), t))"

lemma no_refusal_put: "no_refusal (put st)"
  by (auto simp: no_refusal_def put_def bprim_def prim_def Let_def split: option.splits if_splits)

lemma no_refusal_ret: "no_refusal (ret x)"
  by (simp add: no_refusal_def ret_def)

lemma no_refusal_bind: "no_refusal m \<Longrightarrow> (\<And>x. no_refusal (f x)) \<Longrightarrow> no_refusal (bind m f)"
  unfolding no_refusal_def bind_def by (auto split: prod.splits sum.splits)

lemma refuses_silent: "footprint {} m \<Longrightarrow> refuses_first m"
  unfolding refuses_first_def
proof (intro allI impI)
  fix s f t assume m: "footprint {} m" "m s = (Inl (Cloud f), t)"
  from silent_tick [OF m] silent_during [OF m] show "vault t = vault s \<and> began t = began s \<and> during s t"
    by (cases s; cases t) simp
qed

lemma refuses_no_refusal: "no_refusal m \<Longrightarrow> refuses_first m"
  by (simp add: refuses_first_def no_refusal_def)

lemma refuses_bind_silent:
  assumes "footprint {} m" "\<And>x. refuses_first (f x)"
  shows "refuses_first (bind m f)"
  unfolding refuses_first_def
proof (intro allI impI)
  fix s g t assume s: "began s \<noteq> None" "bind m f s = (Inl (Cloud g), t)"
  obtain r u where u: "m s = (r, u)" by fastforce
  have same: "vault u = vault s" "began u = began s" using silent_tick [OF assms(1) u] by (cases s; cases u; simp)+
  note time = silent_during [OF assms(1) u]
  show "vault t = vault s \<and> began t = began s \<and> during s t"
  proof (cases r)
    case (Inl e)
    with s u same time show ?thesis by (simp add: bind_def)
  next
    case (Inr x)
    with s u have "f x u = (Inl (Cloud g), t)" by (simp add: bind_def)
    moreover have "began u \<noteq> None" using s(1) same by simp
    ultimately have "vault t = vault u \<and> began t = began u \<and> during u t"
      using assms(2) [of x] unfolding refuses_first_def by blast
    with same time show ?thesis by (simp add: during_def)
  qed
qed

lemma refuses_bind_seek:
  assumes "\<And>x. refuses_first (f x)"
  shows "refuses_first (bind (seek g) f)"
  unfolding refuses_first_def
proof (intro allI impI)
  fix s h t assume s: "began s \<noteq> None" "bind (seek g) f s = (Inl (Cloud h), t)"
  obtain r u where u: "seek g s = (r, u)" by fastforce
  have still: "interrupted i (s\<lparr>ticks := n\<rparr>) = s\<lparr>ticks := n\<rparr>" for i n using s(1) by (auto simp: interrupted_def)
  have same: "vault u = vault s" "began u = began s" "during s u" and cloud: "r \<noteq> Inl (Cloud h)"
    using u by (auto simp: seek_def bprim_def prim_def Let_def still during_def split: if_splits)
  have "(case r of Inl e \<Rightarrow> (Inl e, u) | Inr x \<Rightarrow> f x u) = (Inl (Cloud h), t)"
    using s(2) u by (simp add: bind_def)
  then obtain x where "r = Inr x" "f x u = (Inl (Cloud h), t)" using cloud by (cases r) simp_all
  moreover have "began u \<noteq> None" using s(1) same by simp
  ultimately have "vault t = vault u \<and> began t = began u \<and> during u t"
    using assms [of x] unfolding refuses_first_def by blast
  with same show "vault t = vault s \<and> began t = began s \<and> during s t" by (simp add: during_def)
qed

lemma refuses_bind_last:
  assumes "refuses_first m" "\<And>x. no_refusal (f x)"
  shows "refuses_first (bind m f)"
  unfolding refuses_first_def
proof (intro allI impI)
  fix s h t assume s: "began s \<noteq> None" "bind m f s = (Inl (Cloud h), t)"
  obtain r u where u: "m s = (r, u)" by fastforce
  have "(case r of Inl e \<Rightarrow> (Inl e, u) | Inr x \<Rightarrow> f x u) = (Inl (Cloud h), t)"
    using s(2) u by (simp add: bind_def)
  then have "r = Inl (Cloud h)" "u = t" using assms(2) by (cases r; simp add: no_refusal_def)+
  with assms(1) s(1) u show "vault t = vault s \<and> began t = began s \<and> during s t" unfolding refuses_first_def by blast
qed

lemma refuses_triple: "(\<And>a b c. refuses_first (f a b c)) \<Longrightarrow> refuses_first (case x of (a, b, c) \<Rightarrow> f a b c)"
  by (cases x) simp

lemma refuses_option: "refuses_first m \<Longrightarrow> (\<And>y. refuses_first (f y)) \<Longrightarrow> refuses_first (case x of None \<Rightarrow> m | Some y \<Rightarrow> f y)"
  by (cases x) auto

lemmas refuses_rules = refuses_triple refuses_bind_seek refuses_bind_silent [OF silent_parts(1)] refuses_bind_silent [OF silent_parts(2)]
  refuses_bind_silent [OF silent_parts(3)] refuses_bind_silent [OF silent_parts(5)] refuses_bind_silent [OF foot.pure_of]
  refuses_bind_silent [OF foot.present] refuses_bind_silent [OF foot.unless] refuses_bind_silent [OF foot.parsed]
  refuses_bind_silent [OF footprint_query] refuses_silent [OF foot.ret]
  refuses_no_refusal no_refusal_put no_refusal_ret no_refusal_bind

lemma refuses_captureIn: "refuses_first (captureInTransaction D p machine r)"
proof -
  have "refuses_first (replayCapture p a digest b)" for a digest b
    unfolding replayCapture_def by (intro refuses_rules)
  moreover have "refuses_first (newCapture D p a machine r digest)" for a digest
    unfolding newCapture_def Let_def enqueueBackup_def
    by (intro refuses_rules)
  ultimately show ?thesis unfolding captureInTransaction_def Let_def
    by (intro refuses_option refuses_bind_seek refuses_bind_silent [OF silent_parts(2)] refuses_bind_silent [OF silent_parts(3)])
qed

lemma refuses_scheduled: "refuses_first (scheduledCapture D x now)"
  unfolding scheduledCapture_def
  by (intro refuses_rules refuses_bind_last [OF refuses_captureIn])

section \<open>Scheduled runs\<close>

lemma scheduledCapture_law:
  assumes run: "scheduledCapture D x now s = (Inr att, t)" and s: "began s \<noteq> None"
  shows "\<exists>counted p r rec w. clock_read s t counted
    \<and> admitted_capture D counted p (sd_machineId x) r rec (store s) (vault s) w \<and> cr_recipe r = sd_recipe x
    \<and> vault t = w\<lparr>vt_runs := vt_runs w @ [\<lparr>sr_accountId = sd_accountId x, sr_scheduleId = sd_id x,
        sr_backupId = bk_id rec, sr_dueAt = sd_nextRunAt x\<rparr>]\<rparr>
    \<and> att = At_admitted now (bk_id rec) \<and> began t = began s \<and> store t = store s \<and> during s t"
proof -
  obtain a s1 where a: "loadAuthority (sd_grantId x) s = (Inr a, s1)"
    and r1: "bind (pure_of (authorize (au_principal a) Backup_create (Some (sd_projectId x)))) (\<lambda>_.
     bind (query (\<lambda>d. select_one (\<lambda>m. mc_id m = sd_machineId x) (machines d))) (\<lambda>row.
     bind (parsed row) (\<lambda>m.
     bind (unless (allocated_as (mc_state m) (sd_allocationId x)) Resource_busy) (\<lambda>_.
     bind randomUUID (\<lambda>u.
     bind (parsed (if uuidv4 u then Some u else None)) (\<lambda>i.
     bind (captureInTransaction D (au_principal a) (mc_id m) \<lparr>cr_id = i, cr_recipe = sd_recipe x\<rparr>) (\<lambda>b.
     bind (put (Insert_schedule_run \<lparr>sr_accountId = sd_accountId x, sr_scheduleId = sd_id x,
       sr_backupId = bk_id b, sr_dueAt = sd_nextRunAt x\<rparr>)) (\<lambda>_.
     ret (At_admitted now (bk_id b)))))))))) s1 = (Inr att, t)"
    using run by (auto simp: scheduledCapture_def bind_success)
  have s1: "store s1 = store s" "vault s1 = vault s" "began s1 = began s" "during s s1"
    using silent_same [OF silent_parts(3) a] by auto
  from r1 obtain m i b u where m: "select_one (\<lambda>m. mc_id m = sd_machineId x) (machines (store s1)) = Some m"
    and c: "captureInTransaction D (au_principal a) (mc_id m) \<lparr>cr_id = i, cr_recipe = sd_recipe x\<rparr>
       (ticked (ticked s1)) = (Inr b, u)"
    and p: "put (Insert_schedule_run \<lparr>sr_accountId = sd_accountId x, sr_scheduleId = sd_id x,
       sr_backupId = bk_id b, sr_dueAt = sd_nextRunAt x\<rparr>) u = (Inr (), t)" and att: "att = At_admitted now (bk_id b)"
    by (auto simp: success)
  have mid: "mc_id m = sd_machineId x" using m by (auto simp: select_one_def find_Some_iff)
  obtain counted where law: "admitted_capture D counted (au_principal a) (sd_machineId x) \<lparr>cr_id = i, cr_recipe = sd_recipe x\<rparr> b
      (store s) (vault s) (vault u)"
    "began u = began s" "store u = store s" "clock_read (ticked (ticked s1)) u counted" "during (ticked (ticked s1)) u"
    using captureIn_law [OF c] s s1 mid by auto
  from put_within [OF _ p] law s have "stored_by (Insert_schedule_run \<lparr>sr_accountId = sd_accountId x, sr_scheduleId = sd_id x,
       sr_backupId = bk_id b, sr_dueAt = sd_nextRunAt x\<rparr>) u t" by simp
  note put = stored_by_fields [OF this]
  then have "during u t" by (simp add: during_def)
  with s1(4) law(4,5) have "clock_read s t counted" "during s t"
    by (blast intro: read_during during_ticked, blast intro: during_trans during_ticked)
  with put law att show ?thesis
    by (intro exI [of _ counted] exI [of _ "au_principal a"] exI [of _ "\<lparr>cr_id = i, cr_recipe = sd_recipe x\<rparr>"] exI [of _ b] exI [of _ "vault u"]) simp
qed

text \<open>A due run: \<open>now\<close> is the clock that found it due, \<open>counted\<close> the one at which its capture was counted.\<close>

definition due_run :: "backup_deployment \<Rightarrow> schedule_row \<Rightarrow> instant \<Rightarrow> instant \<Rightarrow> db \<Rightarrow> vault \<Rightarrow> vault \<Rightarrow> schedule_row \<Rightarrow> bool" where
  "due_run D x now counted d v w x' \<longleftrightarrow> sd_nextRunAt x' = now + dayMs \<and>
    ((\<exists>f. sd_lastAttempt x' = At_refused now f \<and> vt_backups w = vt_backups v \<and> vt_runs w = vt_runs v
        \<and> (sd_disabledAt x' \<noteq> None \<longleftrightarrow> unauthorized f))
     \<or> (\<exists>p r rec u. admitted_capture D counted p (sd_machineId x) r rec d v u \<and> cr_recipe r = sd_recipe x
        \<and> vt_backups w = vt_backups u \<and> sd_lastAttempt x' = At_admitted now (bk_id rec) \<and> sd_disabledAt x' = None
        \<and> vt_runs w = vt_runs v @ [\<lparr>sr_accountId = sd_accountId x, sr_scheduleId = sd_id x,
            sr_backupId = bk_id rec, sr_dueAt = sd_nextRunAt x\<rparr>]))"

lemma admitted_runs: "admitted_capture D counted p m r rec d v w \<Longrightarrow> vt_runs w = vt_runs v \<and> vt_schedules w = vt_schedules v"
  by (auto simp: admitted_capture_def Let_def split: option.splits)

lemma schedule_updated:
  "schedule_at v i = Some x \<Longrightarrow> (\<And>s. sd_id (f s) = sd_id s) \<Longrightarrow>
     schedule_at (v\<lparr>vt_schedules := update_where (\<lambda>s. sd_id s = i) f (vt_schedules v)\<rparr>) i = Some (f x)"
  by (simp add: schedule_at_def select_one_def find_update)

lemma runSchedule_law:
  assumes run: "runSchedule D i x now s = (Inr (), t)" and s: "began s \<noteq> None" and x: "schedule_at (vault s) i = Some x"
  shows "\<exists>counted x'. clock_read s t counted \<and> during s t \<and> schedule_at (vault t) i = Some x'
    \<and> due_run D x now counted (store s) (vault s) (vault t) x'"
proof -
  let ?set = "\<lambda>att dis. put (Update_schedule i (\<lambda>s. s\<lparr>sd_lastAttempt := att, sd_disabledAt := dis, sd_nextRunAt := now + dayMs\<rparr>))"
  have "catch_cloud (bind (scheduledCapture D x now) (\<lambda>a. ret (a, None)))
       (\<lambda>f. ret (At_refused now f, if unauthorized f then Some now else None)) s = (Inr (att, dis), u) \<and>
     ?set att dis u = (Inr (), t) \<Longrightarrow> ?thesis" for att dis u
  proof (cases "scheduledCapture D x now s")
    case (Pair r w)
    assume c: "catch_cloud (bind (scheduledCapture D x now) (\<lambda>a. ret (a, None)))
       (\<lambda>f. ret (At_refused now f, if unauthorized f then Some now else None)) s = (Inr (att, dis), u) \<and>
     ?set att dis u = (Inr (), t)"
    have "u = w \<and> ((r = Inr att \<and> dis = None) \<or> (\<exists>f. r = Inl (Cloud f) \<and> att = At_refused now f \<and>
        dis = (if unauthorized f then Some now else None)))"
      using c Pair by (cases r) (auto simp: catch_cloud_def bind_def ret_def split: exn.splits)
    then have u: "u = w" and how: "(r = Inr att \<and> dis = None) \<or> (\<exists>f. r = Inl (Cloud f) \<and> att = At_refused now f \<and>
        dis = (if unauthorized f then Some now else None))" by blast+
    have stored: "stored_by (Update_schedule i (\<lambda>s. s\<lparr>sd_lastAttempt := att, sd_disabledAt := dis, sd_nextRunAt := now + dayMs\<rparr>)) w t"
      if "began w = began s" using put_within [of w _ "()" t] c u that s by simp
    from how show ?thesis
    proof (elim disjE conjE exE)
      assume r: "r = Inr att" "dis = None"
      then obtain counted p q rec v where law: "admitted_capture D counted p (sd_machineId x) q rec (store s) (vault s) v" "cr_recipe q = sd_recipe x"
        "vault w = v\<lparr>vt_runs := vt_runs v @ [\<lparr>sr_accountId = sd_accountId x, sr_scheduleId = sd_id x,
          sr_backupId = bk_id rec, sr_dueAt = sd_nextRunAt x\<rparr>]\<rparr>"
        "att = At_admitted now (bk_id rec)" "began w = began s" "store w = store s" "clock_read s w counted" "during s w"
        using scheduledCapture_law [of D x now s att w] Pair s by blast
      have "schedule_at (vault w) i = Some x" using x admitted_runs [OF law(1)] law(3) by (simp add: schedule_at_def)
      moreover have "during w t" using stored_during [OF stored [OF law(5)]] by (simp add: during_def)
      moreover from this have "clock_read s t counted" "during s t"
        using law(7,8) by (blast intro: read_during during_refl, blast intro: during_trans)
      ultimately show ?thesis
        using schedule_updated [of "vault w" i x] stored_by_fields [OF stored [OF law(5)]] admitted_runs [OF law(1)] law r
        by (intro exI [of _ counted] exI [of _ "x\<lparr>sd_lastAttempt := att, sd_disabledAt := dis, sd_nextRunAt := now + dayMs\<rparr>"])
           (auto simp: due_run_def)
    next
      fix f assume r: "r = Inl (Cloud f)" "att = At_refused now f" "dis = (if unauthorized f then Some now else None)"
      have same: "vault w = vault s" "began w = began s" "during s w"
        using refuses_scheduled [of D x now] Pair r(1) s unfolding refuses_first_def by blast+
      from same x have "schedule_at (vault w) i = Some x" by simp
      moreover have time: "during (ticked w) t" using stored_during [OF stored [OF same(2)]] .
      moreover have "clock_read s t (clock_of w)" "during s t"
        using read_at [OF same(3) time] same(3) time by (simp_all add: during_def)
      ultimately show ?thesis
        using schedule_updated [of "vault w" i x] stored_by_fields [OF stored [OF same(2)]] same r
        by (intro exI [of _ "clock_of w"] exI [of _ "x\<lparr>sd_lastAttempt := att, sd_disabledAt := dis, sd_nextRunAt := now + dayMs\<rparr>"])
           (auto simp: due_run_def)
    qed
  qed
  then show ?thesis using run by (auto simp: runSchedule_def bind_success)
qed

section \<open>Purges\<close>

lemma unfinished_none: "unfinished_among d es = Some False \<Longrightarrow> e \<in> set es \<Longrightarrow> re_work e \<noteq> Rw_done \<Longrightarrow> \<not> target_alive d e"
  by (induction es) (auto simp: restoreWork_def split: option.splits if_splits)

lemma unpinned: "unfinished_among d (joined_restores d v i) = Some False \<Longrightarrow> \<not> pinned d v i"
  using unfinished_none [of d "joined_restores d v i"]
  by (auto simp: pinned_def list_ex_iff joined_restores_def target_alive_def)

text \<open>What a backup must be when a purge claims it, and what the claim leaves.\<close>

definition purgeable :: "db \<Rightarrow> vault \<Rightarrow> backup_row \<Rightarrow> bool" where
  "purgeable d v b \<longleftrightarrow> captured_state (bk_state (bw_record b)) \<and> receipt_matches (bw_id b) (bw_reservedBytes b) (bw_work b)
     \<and> (cleanup_done (bw_work b) \<or> machine_destroyed d (bw_machineId b)) \<and> \<not> pinned d v (bw_id b)"

definition claimed :: "backup_row \<Rightarrow> string \<Rightarrow> purge_summary \<Rightarrow> vault \<Rightarrow> vault \<Rightarrow> bool" where
  "claimed b i rec v w \<longleftrightarrow>
     vt_backups w = update_where (\<lambda>x. bw_id x = bw_id b)
       (\<lambda>x. x\<lparr>bw_record := (bw_record b)\<lparr>bk_state := Bk_purge_pending i\<rparr>\<rparr>) (vt_backups v)
     \<and> (\<exists>p due. vt_purges w = vt_purges v @ [p] \<and> pu_id p = i \<and> pu_backupId p = bw_id b \<and> pu_record p = rec
          \<and> pu_nextAttemptAt p = Some due \<and> bk_retainUntil (bw_record b) \<le> due)
     \<and> vt_runs w = vt_runs v \<and> vt_restores w = vt_restores v \<and> unique_by bw_id (vt_backups v)"

lemma guarded_unit: "(if P then Some () else None) = Some y \<longleftrightarrow> P"
  by simp

lemma assertPurgeable_law:
  assumes run: "assertPurgeable b s = (Inr backup, t)" and s: "began s \<noteq> None"
  shows "backup = bw_record b \<and> backupRecord b = Some backup \<and> purgeable (store s) (vault s) b
    \<and> vault t = vault s \<and> store t = store s \<and> began t = began s \<and> during s t"
proof -
  obtain work s1 where w: "backupRecord b = Some backup" "backupWork b = Some work" "captured_state (bk_state backup)" "stored_work work"
      "receipt_matches (bk_id backup) (bw_reservedBytes b) work"
    and r1: "(if cleanup_done work then ret ()
       else bind (seek (\<lambda>clock d v. machine_destroyed d (bk_machineId backup))) (\<lambda>gone. unless gone Resource_busy)) s = (Inr (), s1)"
    and r2: "seek (\<lambda>clock d v. unfinished_among d (joined_restores d v (bk_id backup))) s1 = (Inr (Some False), t)"
    using run by (auto simp: assertPurgeable_def bind_success parsed_success unless_success ret_success guarded_unit simp del: if_split split del: if_split)
  have s1: "vault s1 = vault s" "store s1 = store s" "began s1 = began s" "during s s1"
    and gone: "cleanup_done work \<or> machine_destroyed (store s) (bk_machineId backup)"
    using r1 s by (auto simp: success seek_within during_ticked split: if_splits)
  have "unfinished_among (store s) (joined_restores (store s) (vault s) (bk_id backup)) = Some False"
    "vault t = vault s" "store t = store s" "began t = began s" "during s t"
    using r2 s s1 by (auto simp: success seek_within during_ticked)
  moreover have "backup = bw_record b" "bk_id backup = bw_id b" "bk_machineId backup = bw_machineId b" "work = bw_work b"
    using w by (auto simp: backupRecord_def backupWork_def Let_def split: if_splits)
  ultimately show ?thesis using w gone by (auto simp: purgeable_def dest: unpinned)
qed

lemma admitPurge_law:
  assumes run: "admitPurge b i caller s = (Inr rec, t)" and s: "began s \<noteq> None"
  shows "purgeable (store s) (vault s) b \<and> claimed b i rec (vault s) (vault t) \<and> pg_reason rec =
    (if caller = None then Purge_retention else Purge_customer) \<and> during s t"
proof -
  obtain backup s1 s2 now u v e1 e2 e3 last where a: "assertPurgeable b s = (Inr backup, s1)" and d: "databaseTime s1 = (Inr now, s2)"
    and u: "put (Insert_purge (new_purge backup i caller now)) s2 = (Inr e1, u)"
    and v: "set_backup_state (bk_id backup) backup (Bk_purge_pending i) u = (Inr e2, v)"
    and w: "put (Insert_backup_event (bk_accountId backup) i (Purge_admitted (bk_id backup)
       (pg_reason (pu_record (new_purge backup i caller now))) (pu_grantId (new_purge backup i caller now)))) v = (Inr e3, last)"
    and rec: "rec = pu_record (new_purge backup i caller now)" and last: "t = last"
    by (insert run [unfolded admitPurge_def Let_def bind_success ret_success], elim exE conjE, rule that)
  note w = w [folded last]
  note law = assertPurgeable_law [OF a s]
  have time: "during s s2" using silent_during [OF silent_parts(4) d] law by (blast intro: during_trans)
  have s2: "vault s2 = vault s" "store s2 = store s" "began s2 = began s"
    using silent_same [OF silent_parts(4) d] conjunct2 [OF conjunct2 [OF conjunct2 [OF law]]] by simp_all
  have eq: "backup = bw_record b" "purgeable (store s) (vault s) b" using law by blast+
  have "backupRecord b = Some backup" using law by blast
  then have bid: "bk_id backup = bw_id b" by (simp add: backupRecord_def Let_def split: if_splits)
  have u': "stored_by (Insert_purge (new_purge backup i caller now)) s2 u" using put_within [OF _ u] s2 s by simp
  note u'' = stored_by_fields [OF u']
  have v': "stored_by (Update_backup (bk_id backup) (\<lambda>b. b\<lparr>bw_record := backup\<lparr>bk_state := Bk_purge_pending i\<rparr>\<rparr>)) u v"
    using put_within [OF _ v [unfolded set_backup_state_def]] u'' s2 s by simp
  note v'' = stored_by_fields [OF v']
  have w': "stored_by (Insert_backup_event (bk_accountId backup) i (Purge_admitted (bk_id backup)
       (pg_reason (pu_record (new_purge backup i caller now))) (pu_grantId (new_purge backup i caller now)))) v t"
    using put_within [OF _ w] v'' u'' s2 s by simp
  note w'' = stored_by_fields [OF w']
  have "unique_by bw_id (vt_backups (vault s))"
    using u' s2 by (auto simp: stored_by_def vault_ok_def backups_ok_def)
  moreover have "vt_backups (vault t) = update_where (\<lambda>x. bw_id x = bw_id b)
       (\<lambda>x. x\<lparr>bw_record := (bw_record b)\<lparr>bk_state := Bk_purge_pending i\<rparr>\<rparr>) (vt_backups (vault s))"
    "vt_purges (vault t) = vt_purges (vault s) @ [new_purge backup i caller now]"
    "vt_runs (vault t) = vt_runs (vault s)" "vt_restores (vault t) = vt_restores (vault s)"
    using u'' v'' w'' s2 eq(1) bid by simp_all
  ultimately have "claimed b i rec (vault s) (vault t)"
    using rec bid eq(1) by (auto simp: claimed_def new_purge_def)
  moreover have "during s t" using time u'' v'' w'' by (simp add: during_def)
  ultimately show ?thesis using eq(2) rec by (simp add: new_purge_def)
qed

text \<open>A claim of one backup leaves the days on which newer ones were captured.\<close>

lemma claimed_days:
  assumes "claimed b i rec v w" "b \<in> set (vt_backups v)"
  shows "newer_days w b = newer_days v b"
proof -
  have "vt_runs w = vt_runs v" and un: "unique_by bw_id (vt_backups v)"
    and w: "vt_backups w = map (\<lambda>x. if bw_id x = bw_id b then x\<lparr>bw_record := (bw_record b)\<lparr>bk_state := Bk_purge_pending i\<rparr>\<rparr> else x) (vt_backups v)"
    using assms(1) by (auto simp: claimed_def update_where_def)
  then have sch: "scheduled w = scheduled v" by (simp add: fun_eq_iff scheduled_def)
  have same: "x = b" if "x \<in> set (vt_backups v)" "bw_id x = bw_id b" for x
    using un that assms(2) by (auto simp: unique_by_def distinct_map inj_on_def)
  show ?thesis unfolding newer_days_def w sch using same by (auto simp: image_iff; force)
qed

end
