(* ===== verification/Backup_Examples.thy ===== *)
theory Backup_Examples
  imports Backup_Outcomes Examples
begin

text \<open>
  A deployment with one machine, a store and a guest that answer, and the runs that the witnesses
  evaluate: a backup is uploaded, restored and deleted, a capture is admitted, a schedule is
  refused and a backup expires.
\<close>

section \<open>The deployment\<close>

definition depot_policy :: grant_policy where
  "depot_policy = demo_policy\<lparr>capabilities := [Backup_create, Backup_restore, Backup_purge]\<rparr>"

definition depot_machine :: machine_row where
  "depot_machine = demo_machine\<lparr>mc_state := Allocated ''alloc'' ''srv'' Power_running
     (Guest_ssh 500 ''v1'' ''image'' ''boot'') Backup_disabled\<rparr>"

definition depot_db :: db where
  "depot_db = demo_db\<lparr>grants := [demo_grant ''g0'' None depot_policy 9000000000], machines := [depot_machine],
     allocations := [demo_allocation\<lparr>al_id := ''alloc''\<rparr>]\<rparr>"

definition depot_recipe :: backup_recipe where
  "depot_recipe = \<lparr>rc_app = ''app'', rc_releaseId = ''r'', rc_service = ''db'', rc_database = ''db'',
     rc_user = ''db'', rc_files = []\<rparr>"

definition depot_limits :: backup_limits where
  "depot_limits = \<lparr>bl_maxBytes = 1048576, bl_timeoutSeconds = 30\<rparr>"

definition depot_intent :: upload_intent where
  "depot_intent = \<lparr>ui_storeId = ''store'', ui_bucket = ''bucket'', ui_key = ''k'', ui_attemptId = ''b'',
     ui_ciphertextSha256 = ''c'', ui_contentMd5 = ''m'', ui_size = 20, ui_mode = Compliance, ui_retainUntil = 1000\<rparr>"

definition depot_receipt :: object_receipt where
  "depot_receipt = upload_intent.extend depot_intent \<lparr>ob_versionId = ''v1''\<rparr>"

definition depot_manifest :: capture_manifest where
  "depot_manifest = \<lparr>mf_recipe = depot_recipe, mf_capturedAt = 100, mf_completedAt = 200, mf_postgresVersion = ''17'',
     mf_sourceFiles = 1, mf_declaredFiles = [], mf_exclusions = []\<rparr>"

definition depot_binding :: backup_binding where
  "depot_binding = \<lparr>bi_accountId = ''acc'', bi_backupId = ''b'', bi_manifestSha256 = ''manifest''\<rparr>"

definition depot_encryption :: encryption where
  "depot_encryption = backup_binding.extend depot_binding \<lparr>en_keyVersion = ''k1'', en_wrapped = ''w'',
     en_plaintextBytes = 10, en_plaintextSha256 = ''p'', en_ciphertextBytes = 20, en_ciphertextSha256 = ''c''\<rparr>"

definition depot_sealed :: sealed where
  "depot_sealed = \<lparr>se_capture = \<lparr>cp_id = ''b'', cp_manifest = depot_manifest, cp_bytes = 10, cp_sha256 = ''p''\<rparr>,
     se_encryption = depot_encryption, se_intent = depot_intent\<rparr>"

definition depot_summary :: "backup_state \<Rightarrow> backup_summary" where
  "depot_summary st = \<lparr>bk_id = ''b'', bk_accountId = ''acc'', bk_projectId = ''prj'', bk_machineId = ''vm'',
     bk_allocationId = ''alloc'', bk_createdAt = 0, bk_retainUntil = 1000, bk_state = st\<rparr>"

definition depot_backup :: "backup_work \<Rightarrow> backup_state \<Rightarrow> int \<Rightarrow> backup_row" where
  "depot_backup w st n = \<lparr>bw_id = ''b'', bw_accountId = ''acc'', bw_projectId = ''prj'', bw_machineId = ''vm'',
     bw_allocationId = ''alloc'', bw_grantId = ''g0'', bw_digest = ''digest'', bw_recipe = depot_recipe,
     bw_limits = depot_limits, bw_record = depot_summary st, bw_work = w, bw_reservedBytes = n, bw_createdAt = 0\<rparr>"

definition depot_vault :: "backup_row list \<Rightarrow> restore_entry list \<Rightarrow> purge_row list \<Rightarrow> schedule_row list \<Rightarrow> vault" where
  "depot_vault bs es ps ss = \<lparr>vt_backups = bs, vt_restores = es, vt_purges = ps, vt_schedules = ss, vt_runs = [],
     vt_events = [], vt_jobs = []\<rparr>"

definition depot_keyring :: keyring where
  "depot_keyring = \<lparr>kr_current = ''k1'', kr_keys = (\<lambda>v. if v = ''k1'' then Some ''key'' else None)\<rparr>"

definition depot_ports :: "unit backup_ports" where
  "depot_ports = \<lparr>guestCapture = (\<lambda>_ _ _ _ _ k. (Inl Defect, k)), guestTransfer = (\<lambda>_ _ _ _ _ _ k. (Inl Defect, k)),
     guestRemove = (\<lambda>_ _ _ k. (Inr (), k)), guestOpen = (\<lambda>_ _ k. (Inr (), k)),
     guestRestore = (\<lambda>_ q _ k. (Inr (Restore_pending (rg_id q)), k)), guestInspect = (\<lambda>_ _ _ k. (Inr None, k)),
     prepareUpload = (\<lambda>_ _ _ _ k. (Inr depot_intent, k)), upload = (\<lambda>_ _ k. (Inr depot_receipt, k)),
     recover = (\<lambda>_ _ k. (Inr Unresolved, k)), download = (\<lambda>_ _ k. (Inr (), k)),
     decrypt = (\<lambda>_ _ _ _ _ k. (Inr (), k)), readKeyring = (\<lambda>_ k. (Inr depot_keyring, k)),
     makeScratch = (\<lambda>_ _ _ k. (Inr (), k)), removeFile = (\<lambda>_ _ _ _ k. (Inr (), k)),
     cleanScratch = (\<lambda>_ _ k. (Inr (), k)), scratchSpace = (\<lambda>_ k. (Inr 300000000, k)),
     unwraps = (\<lambda>_ _. True), manifestDigest = (\<lambda>_. ''manifest'')\<rparr>"

lemma depot_port [simp]:
  "guestCapture depot_ports x1 i x2 x3 t k = (Inl Defect, k)"
  "guestRemove depot_ports x1 i t k = (Inr (), k)" "guestOpen depot_ports x1 t k = (Inr (), k)"
  "guestRestore depot_ports x1 q t k = (Inr (Restore_pending (rg_id q)), k)"
  "upload depot_ports x t k = (Inr depot_receipt, k)" "download depot_ports r t k = (Inr (), k)"
  "decrypt depot_ports x5 x6 x7 x8 t k = (Inr (), k)" "readKeyring depot_ports t k = (Inr depot_keyring, k)"
  "makeScratch depot_ports x9 i t k = (Inr (), k)" "removeFile depot_ports x9 i x10 t k = (Inr (), k)"
  "cleanScratch depot_ports i t k = (Inr (), k)" "scratchSpace depot_ports t k = (Inr 300000000, k)"
  "unwraps depot_ports key x5" "manifestDigest depot_ports m = ''manifest''"
  by (simp_all add: depot_ports_def)

definition depot_deployment :: backup_deployment where
  "depot_deployment = \<lparr>bd_sha256 = (\<lambda>_. ''digest''), bd_config = \<lparr>bc_retentionDays = 7, bc_retentionMode = Compliance,
     bc_limits = depot_limits, bc_maxAccountBytes = 2000000, bc_maxGlobalBytes = 2000000\<rparr>,
     bd_provider = Hetzner, bd_catalog = (\<lambda>_. Inl (cloud_error Provider_unavailable)),
     bd_limits = \<lparr>lim_maxMachines = 5, lim_currency = ''EUR'', lim_maxHourlyMicros = 100000\<rparr>, bd_images = None\<rparr>"

section \<open>Evaluation\<close>

definition depot_uuid :: string where
  "depot_uuid = ''00000000-0000-4000-8000-000000000000''"

lemma depot_uuid [simp]: "uuidv4 depot_uuid"
  by code_simp

definition depot_outside :: outside where
  "depot_outside = calm\<lparr>or_uuid := (\<lambda>_. depot_uuid), or_clock := (\<lambda>_. 864005000), or_wall := (\<lambda>_. 864005000)\<rparr>"

lemma depot_environment [simp]:
  "or_clock depot_outside i = 864005000" "or_wall depot_outside i = 864005000" "\<not> or_fault depot_outside i"
  "\<not> or_lost depot_outside i" "or_uuid depot_outside i = depot_uuid" "\<not> or_dies depot_outside i" "\<not> or_busy depot_outside i"
  by (simp_all add: depot_outside_def calm_def)

definition depot_at :: "nat \<Rightarrow> instant option \<Rightarrow> vault \<Rightarrow> bool \<Rightarrow> (string \<times> upload_intent) list \<Rightarrow> string list \<Rightarrow> (string \<times> object_receipt) list \<Rightarrow> unit backup_world" where
  "depot_at n b v w ps rs ds = \<lparr>outside = depot_outside, ticks = n, store = depot_db, began = b, vault = v, keep = (),
     puts = ps, runs_sent = rs, deletions = ds, worker = w, intruders = (\<lambda>_. [])\<rparr>"

lemma depot_fields [simp]:
  "outside (depot_at n b v w ps rs ds) = depot_outside" "ticks (depot_at n b v w ps rs ds) = n"
  "store (depot_at n b v w ps rs ds) = depot_db" "began (depot_at n b v w ps rs ds) = b"
  "vault (depot_at n b v w ps rs ds) = v" "keep (depot_at n b v w ps rs ds) = ()"
  "puts (depot_at n b v w ps rs ds) = ps" "runs_sent (depot_at n b v w ps rs ds) = rs"
  "deletions (depot_at n b v w ps rs ds) = ds" "worker (depot_at n b v w ps rs ds) = w"
  "(depot_at n b v w ps rs ds)\<lparr>ticks := m\<rparr> = depot_at m b v w ps rs ds"
  "(depot_at n b v w ps rs ds)\<lparr>began := c\<rparr> = depot_at n c v w ps rs ds"
  "(depot_at n b v w ps rs ds)\<lparr>store := depot_db\<rparr> = depot_at n b v w ps rs ds"
  "(depot_at n b v w ps rs ds)\<lparr>vault := v'\<rparr> = depot_at n b v' w ps rs ds"
  "(depot_at n b v w ps rs ds)\<lparr>keep := u\<rparr> = depot_at n b v w ps rs ds"
  "(depot_at n b v w ps rs ds)\<lparr>worker := w'\<rparr> = depot_at n b v w' ps rs ds"
  "(depot_at n b v w ps rs ds)\<lparr>puts := ps'\<rparr> = depot_at n b v w ps' rs ds"
  "(depot_at n b v w ps rs ds)\<lparr>runs_sent := rs'\<rparr> = depot_at n b v w ps rs' ds"
  "(depot_at n b v w ps rs ds)\<lparr>deletions := ds'\<rparr> = depot_at n b v w ps rs ds'"
  "connected (depot_at n b v w ps rs ds) = depot_at n None v False ps rs ds"
  by (simp_all add: depot_at_def connected_def)

lemma depot_undisturbed [simp]:
  "interrupted i (depot_at n b v w ps rs ds) = depot_at n b v w ps rs ds"
  "tx_now (depot_at n b v w ps rs ds) i = (case b of None \<Rightarrow> 864005000 | Some t \<Rightarrow> t)"
  by (cases b; simp add: depot_at_def interrupted_def tx_now_def)+

lemma depot_seek: "seek g (depot_at n b v w ps rs ds) = (Inr (g 864005000 depot_db v), depot_at (Suc n) b v w ps rs ds)"
  by (simp add: seek_def bprim_def prim_def Let_def)

lemma depot_put:
  "put st (depot_at n b v w ps rs ds) = (let v' = vault_effect (case b of None \<Rightarrow> 864005000 | Some t \<Rightarrow> t) st v in
     if vault_ok depot_db v' then (Inr (), depot_at (Suc n) b v' w ps rs ds)
     else (Inl Defect, depot_at (Suc n) b v w ps rs ds))"
  by (simp add: put_def bprim_def prim_def Let_def vault_apply_def)

lemma depot_reach: "reach f (depot_at n b v w ps rs ds) = (fst (f 864005000 ()), depot_at (Suc (Suc n)) b v w ps rs ds)"
  by (simp add: reach_def reply_def prim_def bind_def Let_def split: prod.splits)

lemma depot_reach_put: "reach_put f i x (depot_at n b v w ps rs ds) =
  (fst (f 864005000 ()), depot_at (Suc (Suc n)) b v w (ps @ [(i, x)]) rs ds)"
  by (simp add: reach_put_def reply_def prim_def bind_def Let_def split: prod.splits)

lemma depot_reach_replay: "reach_replay f i (depot_at n b v w ps rs ds) =
  (fst (f 864005000 ()), depot_at (Suc (Suc n)) b v w ps (rs @ [i]) ds)"
  by (simp add: reach_replay_def reply_def prim_def bind_def Let_def split: prod.splits)

lemma depot_reach_delete: "reach_delete f i x (depot_at n b v w ps rs ds) =
  (fst (f 864005000 ()), depot_at (Suc (Suc n)) b v w ps rs (ds @ [(i, x)]))"
  by (simp add: reach_delete_def reply_def prim_def bind_def Let_def split: prod.splits)

lemma depot_observations:
  "randomUUID (depot_at n b v w ps rs ds) = (Inr depot_uuid, depot_at (Suc n) b v w ps rs ds)"
  "tryLock (depot_at n b v w ps rs ds) = (Inr True, depot_at (Suc n) b v w ps rs ds)"
  "databaseTime (depot_at n b v w ps rs ds) = (Inr 864005000, depot_at (Suc n) b v w ps rs ds)"
  "commit (depot_at n b v w ps rs ds) = (Inr False, depot_at (Suc n) b v w ps rs ds)"
  "query h (depot_at n b v w ps rs ds) = (Inr (h depot_db), depot_at (Suc n) b v w ps rs ds)"
  by (simp_all add: randomUUID_def tryLock_def databaseTime_def observe_def commit_def query_def prim_def Let_def)

lemma depot_attempt: "vault_attempt m (depot_at n b v w ps rs ds) =
  (case m (depot_at (Suc n) (Some (case b of None \<Rightarrow> 864005000 | Some t \<Rightarrow> t)) v w ps rs ds) of
     (Inl e, t) \<Rightarrow> (Inl e, rolled_back (depot_at (Suc n) b v w ps rs ds) t)
   | (Inr None, t) \<Rightarrow> (Inr None, rolled_back (depot_at (Suc n) b v w ps rs ds) t)
   | (Inr (Some x), t) \<Rightarrow> (case commit t of
         (Inl e, u) \<Rightarrow> (Inl e, rolled_back (depot_at (Suc n) b v w ps rs ds) u)
       | (Inr lost, u) \<Rightarrow> ((if lost then Inl Defect else Inr (Some x)), u\<lparr>began := b\<rparr>)))"
  by (simp add: vault_attempt_def bprim_def prim_def Let_def split: prod.splits sum.splits option.splits)

definition depot_authority :: authority where
  "depot_authority = \<lparr>au_principal = \<lparr>accountId = ''acc'', grantId = ''g0'', policy = depot_policy\<rparr>,
     au_checkedAt = 864005000, au_expiresAt = 9000000000, au_delegationDepth = 1\<rparr>"

lemma depot_principal [simp]:
  "accountId (au_principal depot_authority) = ''acc''" "grantId (au_principal depot_authority) = ''g0''"
  "au_checkedAt depot_authority = 864005000"
  "authorize (au_principal depot_authority) Backup_create p = Inr ()"
  "authorize (au_principal depot_authority) Backup_restore p = Inr ()"
  "authorize (au_principal depot_authority) Backup_purge p = Inr ()"
  by (simp_all add: depot_authority_def depot_policy_def demo_policy_def authorize_def split: option.split)

lemma depot_tables [simp]:
  "machines depot_db = [depot_machine]" "accounts depot_db = [demo_account]"
  "grants depot_db = [demo_grant ''g0'' None depot_policy 9000000000]"
  "allocations depot_db = [demo_allocation\<lparr>al_id := ''alloc''\<rparr>]"
  "projects depot_db = projects demo_db" "operations depot_db = []"
  by (simp_all add: depot_db_def demo_db_def empty_db_def)

lemma depot_loaded: "loadAuthority ''g0'' (depot_at n b v w ps rs ds) = (Inr depot_authority, depot_at (Suc n) b v w ps rs ds)"
  by (simp add: loadAuthority_def observe_def prim_def bind_def present_def ret_def Let_def depot_authority_def
      authority_of_def demo_grant_def principal_of_def numeral_eq_Suc)


section \<open>Runs\<close>

lemmas depot_steps = depot_seek depot_put depot_reach depot_reach_put depot_reach_replay depot_reach_delete
  depot_observations depot_attempt depot_loaded bind_def ret_def raise_def parsed_def unless_def present_def
  pure_of_def rolled_back_def

text \<open>Concrete rows satisfy the constraints.\<close>

lemmas depot_constraints = vault_ok_def backups_ok_def restores_ok_def purges_ok_def schedules_ok_def runs_ok_def
  unique_by_def references_def

lemmas depot_data = depot_vault_def depot_backup_def depot_summary_def depot_machine_def demo_machine_def
  demo_account_def demo_grant_def demo_allocation_def demo_db_def at_defs



definition depot_world :: "vault \<Rightarrow> unit backup_world" where
  "depot_world v = depot_at 0 None v False [] [] []"

definition depot_deleter :: "unit deleter" where
  "depot_deleter = (\<lambda>r t k. (Inr Absent, k))"

lemma depot_lookup [simp]: "select_one P [] = None" "select_one P (x # xs) = (if P x then Some x else select_one P xs)"
  by (simp_all add: select_one_def)

text \<open>A backup that is ready is uploaded.\<close>

definition ready_vault :: vault where
  "ready_vault = depot_vault [depot_backup (Wk_ready depot_sealed) Bk_pending 1048576] [] [] []"

lemma upload_ran: "puts (backup_handle depot_deployment depot_ports depot_deleter (Advance_job (Backup_job ''b''))
  (depot_world ready_vault)) = [(''b'', depot_intent)]"
proof -
  let ?s = "depot_world ready_vault"
  show ?thesis
  by (simp add: backup_handle_def depot_world_def advanceBackup_def withBackupWorkerLock_def ending_def discardArchive_def
       advanceCapture_def depot_steps depot_data backupRecord_def backupWork_def ready_vault_def
       advanceStages_def proceed_def captureStage_def encryptStage_def uploadStage_def cleanupStage_def
      saveWork_def saveStored_def depot_constraints update_where_def
      depot_sealed_def depot_intent_def depot_receipt_def upload_intent.extend_def)
qed


text \<open>A stored backup.\<close>

definition depot_stored :: "backup_state \<Rightarrow> backup_row" where
  "depot_stored st = depot_backup (Wk_stored depot_sealed depot_receipt True 1) st 20"

definition captured_as :: backup_state where
  "captured_as = Bk_captured 20 100 Captured_only depot_manifest"

text \<open>A restore whose target is ready is submitted.\<close>

definition depot_restore :: restore_entry where
  "depot_restore = \<lparr>re_id = ''r'', re_accountId = ''acc'', re_backupId = ''b'', re_machineId = ''vm'', re_grantId = ''g0'',
     re_digest = ''digest'', re_request = \<lparr>rr_id = ''r'', rr_backupId = ''b'', rr_app = ''app'', rr_machine = mc_spec depot_machine\<rparr>,
     re_record = \<lparr>rt_id = ''r'', rt_backupId = ''b'', rt_accountId = ''acc'', rt_projectId = ''prj'', rt_targetId = ''vm'',
       rt_operationId = ''op'', rt_createdAt = 0, rt_state = Rt_pending False\<rparr>, re_work = Rw_prepare 0, re_createdAt = 0\<rparr>"

definition restore_vault :: vault where
  "restore_vault = depot_vault [depot_stored captured_as] [depot_restore] [] []"

lemmas depot_restored = advanceRestore_def advanceTarget_def awaitTarget_def restoreStage_def prepareRestore_def
  requireScratchSpace_def authorizeRestore_def authorizeBackupEffect_def authorizedFor_def lockAccount_def
  availableKey_def verifyBackupKey_def binding_def transferArchive_def submitArchive_def runRestoreCommand_def
  settleAnswer_def guest_request_def saveRestore_def depot_keyring_def depot_deployment_def depot_limits_def

lemma restore_ran: "runs_sent (backup_handle depot_deployment depot_ports depot_deleter (Advance_job (Restore_job ''r''))
  (depot_world restore_vault)) = [''r'']"
  by (simp add: backup_handle_def depot_world_def advanceBackup_def withBackupWorkerLock_def ending_def
       Let_def depot_encryption_def depot_binding_def backup_binding.truncate_def backup_binding.extend_def throw_def
       depot_steps depot_data restoreRecord_def restoreWork_def restore_vault_def depot_restored depot_restore_def
       depot_stored_def captured_as_def
      backupRecord_def backupWork_def catch_any_def catch_cloud_def
      depot_constraints update_where_def
      depot_sealed_def depot_intent_def depot_receipt_def upload_intent.extend_def)

text \<open>A due purge deletes the recorded version.\<close>

definition depot_purge :: purge_row where
  "depot_purge = \<lparr>pu_id = ''q'', pu_accountId = ''acc'', pu_backupId = ''b'', pu_grantId = None,
     pu_record = \<lparr>pg_id = ''q'', pg_backupId = ''b'', pg_accountId = ''acc'', pg_projectId = ''prj'',
       pg_reason = Purge_retention, pg_createdAt = 1000, pg_state = Pg_waiting 1000\<rparr>, pu_nextAttemptAt = Some 1000\<rparr>"

definition purge_vault :: vault where
  "purge_vault = depot_vault [depot_stored (Bk_purge_pending ''q'')] [] [depot_purge] []"

lemma deletion_ran: "deletions (backup_handle depot_deployment depot_ports depot_deleter (Delete_version ''q'')
  (depot_world purge_vault)) = [(''q'', depot_receipt)]"
  by (simp add: backup_handle_def depot_world_def advancePurge_def withBackupWorkerLock_def
       Let_def depot_steps depot_data purgeRecord_def purge_vault_def depot_purge_def depot_stored_def
       purgeOwned_def set_purge_def settle_def completePurge_def schedule_purge_def vault_transaction_def lockAccount_def
      backupRecord_def backupWork_def catch_any_def catch_cloud_def depot_deleter_def
      depot_constraints update_where_def
      depot_sealed_def depot_intent_def depot_receipt_def upload_intent.extend_def)


text \<open>A capture is admitted.\<close>

definition depot_caller :: principal where
  "depot_caller = au_principal depot_authority"

definition depot_request :: capture_request where
  "depot_request = \<lparr>cr_id = ''b'', cr_recipe = depot_recipe\<rparr>"

lemmas depot_admitted = capture_def captureInTransaction_def newCapture_def ownMachine_def lockAccount_def
  vault_transaction_def new_backup_def enqueueBackup_def owned_bytes_def global_bytes_def recent_captures_def total_def
  throw_def whole_second_def dayMs_def depot_deployment_def depot_limits_def

lemma capture_ran: "\<exists>rec t. capture depot_deployment depot_caller ''vm'' depot_request
  (depot_world (depot_vault [] [] [] [])) = (Inr rec, t)"
  by (simp add: depot_world_def Let_def depot_steps depot_data depot_constraints depot_admitted depot_caller_def depot_request_def)

text \<open>A due schedule runs.\<close>

definition depot_schedule :: schedule_row where
  "depot_schedule = \<lparr>sd_id = ''s'', sd_accountId = ''acc'', sd_projectId = ''prj'', sd_machineId = ''vm'',
     sd_allocationId = ''alloc'', sd_grantId = ''g0'', sd_digest = ''digest'', sd_recipe = depot_recipe,
     sd_nextRunAt = 864000000, sd_disabledAt = None, sd_lastAttempt = At_none, sd_createdAt = 0\<rparr>"

definition schedule_vault :: vault where
  "schedule_vault = depot_vault [] [] [] [depot_schedule]"

lemma schedule_ran: "\<exists>t. advanceSchedule depot_deployment ''s'' (depot_world schedule_vault) = (Inr (), t)"
  by (simp add: depot_world_def Let_def depot_steps depot_data depot_constraints depot_admitted schedule_vault_def depot_schedule_def
     schedule_at_def advanceSchedule_def runSchedule_def scheduledCapture_def catch_cloud_def update_where_def)


text \<open>A scheduled backup expires once seven newer days are captured.\<close>

definition depot_day :: "string \<Rightarrow> int \<Rightarrow> backup_row" where
  "depot_day i n = (depot_stored captured_as)\<lparr>bw_id := i, bw_record := (depot_summary captured_as)\<lparr>bk_id := i\<rparr>,
     bw_createdAt := n * 86400000\<rparr>"

definition expiry_vault :: vault where
  "expiry_vault = (depot_vault [depot_day ''b'' 0, depot_day ''c'' 1, depot_day ''d'' 2, depot_day ''e'' 3, depot_day ''f'' 4,
     depot_day ''g'' 5, depot_day ''h'' 6, depot_day ''i'' 7] [] [] [depot_schedule])\<lparr>vt_runs := map (\<lambda>(i, n).
       \<lparr>sr_accountId = ''acc'', sr_scheduleId = ''s'', sr_backupId = i, sr_dueAt = n\<rparr>)
     [(''b'', 0), (''c'', 1), (''d'', 2), (''e'', 3), (''f'', 4), (''g'', 5), (''h'', 6), (''i'', 7)]\<rparr>"

lemma expiry_due: "retention_eligible 864005000 depot_db expiry_vault (depot_day ''b'' 0)"
  by (simp add: retention_eligible_def expiry_vault_def depot_day_def depot_stored_def captured_as_def depot_data pinned_def
      scheduled_def newer_days_def utc_day_def same_data_def dayMs_def)


lemma purge_ran: "\<exists>rec u v. admitPurge (depot_day ''b'' 0) depot_uuid None
  (depot_at n (Some 864005000) expiry_vault False [] [] []) = (Inr rec, depot_at u (Some 864005000) v False [] [] [])"
  by (simp add: admitPurge_def assertPurgeable_def new_purge_def set_backup_state_def Let_def depot_steps
     backupRecord_def backupWork_def depot_day_def depot_stored_def captured_as_def depot_sealed_def depot_receipt_def depot_intent_def
     upload_intent.extend_def depot_data joined_restores_def
     expiry_vault_def depot_constraints depot_schedule_def update_where_def) blast

lemma expiry_ran: "\<exists>rec t. admitExpiredBackup ''b'' (depot_world expiry_vault) = (Inr (Some rec), t)"
proof -
  have "backup_at expiry_vault ''b'' = Some (depot_day ''b'' 0)"
    "select_one (\<lambda>b. bw_id b = ''b'' \<and> retention_eligible 864005000 depot_db expiry_vault b) (vt_backups expiry_vault) =
       Some (depot_day ''b'' 0)"
    using expiry_due by (simp_all add: expiry_vault_def depot_vault_def depot_day_def backup_at_def)
  moreover have "bw_accountId (depot_day ''b'' 0) = ''acc''" by (simp add: depot_day_def depot_stored_def depot_backup_def)
  moreover obtain rec u v where "admitPurge (depot_day ''b'' 0) depot_uuid None
    (depot_at (Suc (Suc (Suc (Suc (Suc 0))))) (Some 864005000) expiry_vault False [] [] []) = (Inr rec, depot_at u (Some 864005000) v False [] [] [])"
    using purge_ran by blast
  ultimately show ?thesis
   by (simp add: admitExpiredBackup_def depot_world_def Let_def depot_steps vault_transaction_def lockAccount_def
     demo_account_def)
qed

end
