(* ===== verification/Backup_Guarantees.thy ===== *)
theory Backup_Guarantees
  imports Backup_Examples
begin

text \<open>
  What backups guarantee: nothing is uploaded, restored or deleted twice or without its recorded row, rows
  only move forward, captures stay within the allowances, a purge is unpinned, the retention
  policy keeps seven newer days, and a schedule runs at most once a day.
\<close>

lemma depot_reached: "backup_reachable depot_deployment depot_ports depot_deleter
  (backup_handle depot_deployment depot_ports depot_deleter c (depot_world v))"
  by (intro backup_reachable.handle backup_reachable.start) (simp_all add: depot_world_def)

lemma depot_read: "clock_read (depot_world v) t now \<Longrightarrow> now = 864005000"
  by (auto simp: clock_read_def depot_world_def depot_at_def depot_outside_def)

lemma schedule_due: "schedule_at (vault (entering (depot_world schedule_vault))) ''s'' = Some depot_schedule"
  "sd_disabledAt depot_schedule = None" "sd_nextRunAt depot_schedule = 864000000"
  by (simp_all add: entering_def Let_def interrupted_def depot_world_def depot_at_def schedule_at_def schedule_vault_def
      depot_vault_def depot_schedule_def)

section \<open>Requests\<close>

text \<open>
  C4. In every state a process can come to by handling requests, tasks and operator runs, with any
  faults, lost replies, deaths and interleaved writes of other processes, it has sent the upload of a
  backup to the object store at most once, and the row of the backup records the very intent it sent.
\<close>

theorem backup_uploaded_once:
  assumes "backup_reachable D P X s"
  shows "distinct (map fst (puts s)) \<and> (\<forall>(i, x)\<in>set (puts s). \<exists>b\<in>set (vt_backups (vault s)).
    bw_id b = i \<and> submitted_intent (bw_work b) = Some x)"
proof -
  have "uploads_recorded s" using reachable_accounted [OF assms] by (simp add: accounted_def)
  moreover have "b \<in> set (vt_backups v)" "bw_id b = i" if "backup_at v i = Some b" for v i b
    using that by (auto simp: at_defs find_Some_iff)
  ultimately show ?thesis unfolding uploads_recorded_def by fastforce
qed

theorem backup_uploaded_once_witness:
  "\<exists>b\<in>set (vt_backups (vault (backup_handle depot_deployment depot_ports depot_deleter (Advance_job (Backup_job ''b''))
     (depot_world ready_vault)))). bw_id b = ''b'' \<and> submitted_intent (bw_work b) = Some depot_intent"
  using backup_uploaded_once [OF depot_reached [of "Advance_job (Backup_job ''b'')" ready_vault]] by (simp add: upload_ran)

text \<open>
  C5. In every state a process can come to, it has submitted a restore to its target guest at most
  once, and the recorded stage of the restore is past the submission: SQL is never replayed.
\<close>

theorem restore_submitted_once:
  assumes "backup_reachable D P X s"
  shows "distinct (runs_sent s) \<and> (\<forall>i\<in>set (runs_sent s). \<exists>e\<in>set (vt_restores (vault s)).
    re_id e = i \<and> (\<exists>n. re_work e = Rw_submitted n \<or> re_work e = Rw_done))"
proof -
  have "restores_recorded s" using reachable_accounted [OF assms] by (simp add: accounted_def)
  moreover have "e \<in> set (vt_restores v)" "re_id e = i" if "restore_at v i = Some e" for v i e
    using that by (auto simp: at_defs find_Some_iff)
  moreover have "\<exists>n. w = Rw_submitted n \<or> w = Rw_done" if "2 \<le> restore_stage w" for w using that by (cases w) auto
  ultimately show ?thesis unfolding restores_recorded_def by metis
qed

theorem restore_submitted_once_witness:
  "\<exists>e\<in>set (vt_restores (vault (backup_handle depot_deployment depot_ports depot_deleter (Advance_job (Restore_job ''r''))
     (depot_world restore_vault)))). re_id e = ''r'' \<and> (\<exists>n. re_work e = Rw_submitted n \<or> re_work e = Rw_done)"
  using restore_submitted_once [OF depot_reached [of "Advance_job (Restore_job ''r'')" restore_vault]] by (simp add: restore_ran)

text \<open>
  C6. In every state a process can come to, each object version it has asked the store to delete is the
  receipt recorded for the backup of the purge in whose name it asked.
\<close>

theorem deleted_versions_recorded:
  assumes "backup_reachable D P X s" "(p, r) \<in> set (deletions s)"
  shows "\<exists>q\<in>set (vt_purges (vault s)). \<exists>b\<in>set (vt_backups (vault s)). pu_id q = p
    \<and> bw_id b = pu_backupId q \<and> stored_receipt (bw_work b) = Some r"
proof -
  have "purge_covers (vault s) p r"
    using reachable_accounted [OF assms(1)] assms(2) by (auto simp: accounted_def deletions_recorded_def)
  then obtain q b where "purge_at (vault s) p = Some q" "backup_at (vault s) (pu_backupId q) = Some b"
    "stored_receipt (bw_work b) = Some r" by (auto simp: purge_covers_def)
  then show ?thesis by (auto simp: at_defs find_Some_iff intro!: bexI)
qed

theorem deleted_versions_recorded_witness:
  "\<exists>q\<in>set (vt_purges (vault (backup_handle depot_deployment depot_ports depot_deleter (Delete_version ''q'') (depot_world purge_vault)))).
     pu_id q = ''q''"
  using deleted_versions_recorded [OF depot_reached [of "Delete_version ''q''" purge_vault], of "''q''" depot_receipt]
  by (auto simp: deletion_ran)

text \<open>
  C25. Whatever a process handles, with any faults and interleaved writes, every backup and every restore
  remains, its recorded stage never goes back, and a recorded upload intent or object receipt never
  changes: what this process assumes of others it guarantees itself.
\<close>

theorem backup_rows_move_forward:
  assumes "backup_reachable D P X s"
  shows "vault_moves (vault s) (vault (backup_handle D P X c s))"
  using assms by (rule handle_moves)

theorem backup_rows_move_forward_witness:
  "vault_moves (vault (backup_handle depot_deployment depot_ports depot_deleter (Advance_job (Backup_job ''b'')) (depot_world ready_vault)))
     (vault (backup_handle depot_deployment depot_ports depot_deleter Reconcile_backups
       (backup_handle depot_deployment depot_ports depot_deleter (Advance_job (Backup_job ''b'')) (depot_world ready_vault))))"
  by (rule backup_rows_move_forward [OF depot_reached])

section \<open>Captures, purges and schedules\<close>

text \<open>
  C16. When a capture is admitted, either the answer replays the backup already admitted under that id for
  the same account and request and nothing is written, or the one new pending backup with its job is
  stored for a machine of the account with a verified guest, and the bytes reserved, the new
  ones included, stay within the allowances of the account and of the deployment, and fewer than ten
  captures of the account were stored in the hour before a moment the database clock showed during the call.
\<close>

theorem capture_within_allowances:
  assumes "capture D p machine r s = (Inr rec, t)"
  shows "\<exists>now. clock_read s t now
    \<and> admitted_capture D now p machine r rec (store t) (vault (entering s)) (vault t)"
proof -
  obtain u where u: "captureInTransaction D p machine r (entering s) = (Inr rec, u)" "vault t = vault u" "store t = store u"
    "during u t"
    using transaction_within [OF assms [unfolded capture_def]] by auto
  from captureIn_law [OF u(1)] obtain now where now: "clock_read (entering s) u now"
    "admitted_capture D now p machine r rec (store u) (vault (entering s)) (vault u)" by auto
  have "clock_read s t now" using read_during [OF now(1) entering_during u(4)] .
  with now(2) u show ?thesis by auto
qed

theorem capture_within_allowances_witness:
  "\<exists>rec (t :: unit backup_world). admitted_capture depot_deployment 864005000 depot_caller ''vm'' depot_request rec (store t)
     (vault (entering (depot_world (depot_vault [] [] [] [])))) (vault t)"
proof -
  obtain rec t where "capture depot_deployment depot_caller ''vm'' depot_request (depot_world (depot_vault [] [] [] [])) = (Inr rec, t)"
    using capture_ran by blast
  from capture_within_allowances [OF this] show ?thesis by (auto dest!: depot_read)
qed

text \<open>
  C17. When the retention policy admits a purge, it admits the purge of a captured, scheduled, stored
  backup whose retention had ended at a moment the database clock showed during the call, that no unfinished restore pins and whose guest staging is gone, its deletion
  is not due before the retention ends, and seven newer UTC days of the same data remain captured.
\<close>

theorem expiry_keeps_week:
  assumes "admitExpiredBackup i s = (Inr (Some rec), t)"
  shows "\<exists>b\<in>set (vt_backups (vault (entering s))). \<exists>now u. bw_id b = i \<and> clock_read s t now
    \<and> bk_retainUntil (bw_record b) \<le> now \<and> stored_work (bw_work b) \<and> scheduled (vault (entering s)) i
    \<and> purgeable (store (entering s)) (vault (entering s)) b
    \<and> claimed b u rec (vault (entering s)) (vault t) \<and> pg_reason rec = Purge_retention
    \<and> 7 \<le> card (newer_days (vault t) b)"
proof -
  let ?v = "vault (entering s)" and ?d = "store (entering s)"
  obtain w where w: "bind (seek (\<lambda>clock d v. backup_at v i)) (\<lambda>selected. case selected of
       None \<Rightarrow> ret None
     | Some x \<Rightarrow> bind (lockAccount (bw_accountId x)) (\<lambda>_.
         bind (seek (\<lambda>clock d v. select_one (\<lambda>b. bw_id b = i \<and> retention_eligible clock d v b) (vt_backups v))) (\<lambda>row.
         case row of None \<Rightarrow> ret None
         | Some b \<Rightarrow> bind randomUUID (\<lambda>u. bind (admitPurge b u None) (\<lambda>p. ret (Some p)))))) (entering s) = (Inr (Some rec), w)"
    and t: "vault t = vault w" "during w t"
    using transaction_within [OF assms [unfolded admitExpiredBackup_def]] by auto
  obtain x where x: "backup_at ?v i = Some x"
    using w by (cases "backup_at ?v i") (auto simp: bind_success seek_within ret_success)
  with w obtain a s1 where l: "lockAccount (bw_accountId x) (ticked (entering s)) = (Inr a, s1)"
    and r: "bind (seek (\<lambda>clock d v. select_one (\<lambda>b. bw_id b = i \<and> retention_eligible clock d v b) (vt_backups v))) (\<lambda>row.
         case row of None \<Rightarrow> ret None
         | Some b \<Rightarrow> bind randomUUID (\<lambda>u. bind (admitPurge b u None) (\<lambda>p. ret (Some p)))) s1 = (Inr (Some rec), w)"
    by (auto simp: bind_success seek_within)
  have s1: "vault s1 = ?v" "store s1 = ?d" "began s1 \<noteq> None" using silent_same [OF silent_parts(2) l] by auto
  have during1: "during s s1"
    using entering_during silent_during [OF silent_parts(2) l] by (blast intro: during_trans during_ticked)
  obtain b u s2 where b: "select_one (\<lambda>b. bw_id b = i \<and> retention_eligible (clock_of s1) ?d ?v b) (vt_backups ?v) = Some b"
    and u: "randomUUID (ticked s1) = (Inr u, s2)" and p: "admitPurge b u None s2 = (Inr rec, w)"
    using r s1 by (auto simp: bind_success seek_within ret_success split: option.splits)
  have s2: "vault s2 = ?v" "store s2 = ?d" "began s2 \<noteq> None" using silent_same [OF silent_parts(5) u] s1 by auto
  have bi: "bw_id b = i" "retention_eligible (clock_of s1) ?d ?v b" "b \<in> set (vt_backups ?v)"
    using b by (auto simp: select_one_def find_Some_iff)
  have law: "purgeable ?d ?v b" "claimed b u rec ?v (vault t)" "pg_reason rec = Purge_retention"
    using admitPurge_law [OF p s2(3)] s2 t(1) by simp_all
  have "during (ticked s1) t"
    using silent_during [OF silent_parts(5) u] admitPurge_law [OF p s2(3)] t(2) by (blast intro: during_trans)
  note read = read_at [OF during1 this]
  have "7 \<le> card (newer_days (vault t) b)"
    using claimed_days [OF law(2) bi(3)] bi(2) by (simp add: retention_eligible_def)
  moreover have "bk_retainUntil (bw_record b) \<le> clock_of s1" "stored_work (bw_work b)" "scheduled ?v i"
    using bi by (simp_all add: retention_eligible_def)
  ultimately show ?thesis using bi(1,3) law read by blast
qed

theorem expiry_keeps_week_witness:
  "\<exists>b\<in>set (vt_backups (vault (entering (depot_world expiry_vault)))). bw_id b = ''b''
     \<and> bk_retainUntil (bw_record b) \<le> 864005000 \<and> 7 \<le> card (newer_days (vault (entering (depot_world expiry_vault))) b)"
proof -
  obtain rec t where "admitExpiredBackup ''b'' (depot_world expiry_vault) = (Inr (Some rec), t)" using expiry_ran by blast
  from expiry_keeps_week [OF this] show ?thesis by (metis depot_read claimed_days)
qed

text \<open>
  C18. At a moment the database clock shows during the call the schedule is due or not. Advancing one that
  is disabled or not due then changes nothing. A due one moves to a day after that moment, whether it ran once or several days late, and either admits one capture of its recipe in the
  same transaction with its run, or records the refusal and writes no backup; only a refused credential disables it.
\<close>

theorem schedule_runs_daily:
  assumes "advanceSchedule D i s = (Inr (), t)"
  shows "case schedule_at (vault (entering s)) i of
      None \<Rightarrow> vault t = vault (entering s)
    | Some x \<Rightarrow> \<exists>now. clock_read s t now \<and> (if sd_disabledAt x \<noteq> None \<or> now < sd_nextRunAt x then vault t = vault (entering s)
        else \<exists>counted x'. clock_read s t counted \<and> schedule_at (vault t) i = Some x'
          \<and> due_run D x now counted (store (entering s)) (vault (entering s)) (vault t) x')"
proof -
  let ?v = "vault (entering s)" and ?d = "store (entering s)"
  obtain w where w: "bind (seek (\<lambda>clock d v. schedule_at v i)) (\<lambda>selected. case selected of None \<Rightarrow> ret () | Some x \<Rightarrow>
     bind (lockAccount (sd_accountId x)) (\<lambda>_.
     bind (seek (\<lambda>clock d v. schedule_at v i)) (\<lambda>row.
     bind databaseTime (\<lambda>now. case row of None \<Rightarrow> ret () | Some s \<Rightarrow>
     if sd_disabledAt s \<noteq> None \<or> now < sd_nextRunAt s then ret () else runSchedule D i s now)))) (entering s) = (Inr (), w)"
    and t: "vault t = vault w" and last: "during w t"
    using transaction_within [OF assms [unfolded advanceSchedule_def]] by auto
  show ?thesis
  proof (cases "schedule_at ?v i")
    case None
    with w t show ?thesis by (auto simp: bind_success seek_within ret_success)
  next
    case (Some x)
    with w obtain a s1 where l: "lockAccount (sd_accountId x) (ticked (entering s)) = (Inr a, s1)"
      and r: "bind (seek (\<lambda>clock d v. schedule_at v i)) (\<lambda>row.
        bind databaseTime (\<lambda>now. case row of None \<Rightarrow> ret () | Some s \<Rightarrow>
        if sd_disabledAt s \<noteq> None \<or> now < sd_nextRunAt s then ret () else runSchedule D i s now)) s1 = (Inr (), w)"
      by (auto simp: bind_success seek_within)
    have s1: "vault s1 = ?v" "store s1 = ?d" "began s1 \<noteq> None" using silent_same [OF silent_parts(2) l] by auto
    obtain now s2 where n: "databaseTime (ticked s1) = (Inr now, s2)"
      and r2: "(if sd_disabledAt x \<noteq> None \<or> now < sd_nextRunAt x then ret () else runSchedule D i x now) s2 = (Inr (), w)"
      using r s1 Some by (auto simp: bind_success seek_within)
    have s2: "vault s2 = ?v" "store s2 = ?d" "began s2 \<noteq> None" using silent_same [OF silent_parts(4) n] s1 by auto
    have "during s (ticked s1)"
      using entering_during silent_during [OF silent_parts(2) l] by (blast intro: during_trans during_ticked)
    moreover have clock: "now = clock_of (ticked s1)" "s2 = ticked (ticked s1)" using n by (simp_all add: success)
    ultimately have read: "clock_read s t now" "during s s2" if "during s2 t"
      using read_at [of s "ticked s1" t] that by (simp_all add: during_ticked)
    show ?thesis
    proof (cases "sd_disabledAt x \<noteq> None \<or> now < sd_nextRunAt x")
      case True
      with r2 have "w = s2" by (simp add: ret_success)
      with True Some t s2 read last show ?thesis by auto
    next
      case False
      with r2 have "runSchedule D i x now s2 = (Inr (), w)" by simp
      from runSchedule_law [OF this s2(3)] Some s2 obtain counted x' where law: "clock_read s2 w counted" "during s2 w"
        "schedule_at (vault w) i = Some x'" "due_run D x now counted ?d ?v (vault w) x'" by auto
      have "during s2 t" using law(2) last by (rule during_trans)
      with read have "clock_read s t now" "clock_read s t counted" using read_during [OF law(1) _ last] by auto
      with law Some t False show ?thesis by auto
    qed
  qed
qed

theorem schedule_runs_daily_witness:
  "\<exists>t :: unit backup_world. case schedule_at (vault (entering (depot_world schedule_vault))) ''s'' of
      None \<Rightarrow> vault t = vault (entering (depot_world schedule_vault))
    | Some x \<Rightarrow> \<exists>x'. schedule_at (vault t) ''s'' = Some x'
          \<and> due_run depot_deployment x 864005000 864005000 (store (entering (depot_world schedule_vault)))
              (vault (entering (depot_world schedule_vault))) (vault t) x'"
proof -
  obtain t where "advanceSchedule depot_deployment ''s'' (depot_world schedule_vault) = (Inr (), t)" using schedule_ran by blast
  from schedule_runs_daily [OF this] schedule_due show ?thesis
    by (intro exI [of _ t]) (auto split: option.splits dest!: depot_read)
qed

end
