(* ===== verification/Spec2Isabelle.thy ===== *)
theory Spec2Isabelle
  imports Contract_Laws Guarantees Admission_Laws Image_Release_Laws Access_Guarantees Backup_Guarantees
begin

text \<open>
  Verification library of the control plane of agent-cloud, a service that rents machines to agents:
  the code under \<^verbatim>\<open>apps/control/src\<close>, the contracts it shares (\<^verbatim>\<open>packages/contracts/src\<close>), its
  database (\<^verbatim>\<open>packages/db\<close>), its image releases (\<^verbatim>\<open>packages/images/src/release.ts\<close>) and the signing of
  customer keys (\<^verbatim>\<open>packages/pki/src/customer-ssh.ts\<close>).

  \<^bold>\<open>The program.\<close> A customer holds a bearer credential, a grant delegated from another grant. A
  request is admitted (\<^verbatim>\<open>lifecycle.ts\<close>, \<^verbatim>\<open>cleanup-admission.ts\<close>): an operation, its idempotency
  record, its reservation and its job are committed together. A worker advances the operation
  (\<^verbatim>\<open>advance-operation.ts\<close>, \<^verbatim>\<open>machine-cleanup.ts\<close>): each provider command is journaled before it is
  submitted, its outcome recorded after, and uncertain outcomes are settled by reading the provider
  (\<^verbatim>\<open>effect-journal.ts\<close>). An operator may settle what the worker cannot (\<^verbatim>\<open>operator-recovery.ts\<close>).
  Machines boot from images, which a second controller builds: it admits a build with a budget, drives
  the provider to a builder machine, installs and sanitizes it, takes a snapshot, verifies the snapshot
  on a fresh machine, publishes a signed release and removes everything else (\<^verbatim>\<open>image-*.ts\<close>,
  \<^verbatim>\<open>advance-image-build.ts\<close>, \<^verbatim>\<open>allocation-image.ts\<close>).
  A customer reaches a running machine over SSH through a gateway (\<^verbatim>\<open>access-sessions.ts\<close>): a session
  is admitted for one key and one ticket, a worker has the key certified once, and the gateway claims
  the ticket, has its connection checked again and again and closes it.
  The data of a machine is backed up on request or daily (\<^verbatim>\<open>backups.ts\<close>, \<^verbatim>\<open>backup-schedules.ts\<close>): a
  worker has the guest capture an archive, encrypts it, uploads it once under a retention lock, and can
  restore it on a new machine (\<^verbatim>\<open>backup-work.ts\<close>); a process of the operator deletes the versions whose
  purge was admitted (\<^verbatim>\<open>backup-purges.ts\<close>, \<^verbatim>\<open>backup-retention.ts\<close>).
\<close>

section \<open>The model\<close>

text \<open>
  \<^bold>\<open>Programs.\<close> A handler is a function from a state to a result or exception and a new state
  (\<open>Effects\<close>). The state of a process holds the database, the transaction that is open, a tick
  counter and a record \<open>outside\<close> that fixes, for each tick, the clocks, the random identifiers, whether
  a query fails, whether a lock is free, whether the reply of a commit is lost and whether the process
  has crashed. A transaction that throws restores the database; a commit whose reply is lost keeps it
  and throws. The provider is a record of functions on a provider state (\<open>World\<close>, \<open>Image_Builds\<close>), so
  a theorem that does not fix the provider holds for every provider, also one that lies.

  \<^bold>\<open>Database.\<close> A table is the list of its rows in order of insertion. A statement is a value; it is
  accepted when the keys, foreign keys, checks and triggers of the migrations accept it
  (\<open>Database\<close>: \<open>accepted\<close>, \<open>schema_ok\<close>; \<open>Image_Store\<close>: \<open>image_accepts\<close>), and a refused statement throws.
  A \<open>jsonb\<close> column holds a value of the type its schema parses, so a parse of a stored value is the
  identity. A refusal for which a trigger has no model is covered by the fault of the tick.

  \<^bold>\<open>Concurrency.\<close> For the machine lifecycle a handler runs alone between two ticks of another, since the
  code holds a machine lock or a row lock where it writes; \<open>control_step\<close> (\<open>Control\<close>) interleaves whole
  handlers, crashes at any tick, and lets the provider change between them. For the image factory the
  code releases its row locks between statements, so every query and statement outside a transaction is
  preceded by whatever statements other sessions may commit (\<open>meddled\<close>, \<open>permitted\<close>): all that the
  triggers accept, but for the build whose advisory lock is held only those that the code issues without
  that lock. Access sessions are treated in the same way (\<open>disturbed\<close>, \<open>amid\<close>): every transaction and
  every query outside one is preceded by any statements others may commit, but the issuance of the
  session whose lock is held. The tables of backups stand beside the database (\<open>vault\<close>); other processes
  may change them whenever no transaction is open, moving rows forward only (\<open>keeps_vault\<close>), and while the
  worker lock is held they leave the stages of the worker alone (\<open>leaves_worker\<close>). The relation that is
  assumed of the others between two ticks is the one that is proved of every call of this process
  (\<open>keeps_iff\<close>, \<open>handle_moves\<close>). The advisory locks taken
  inside a transaction of backups make it atomic, and the model runs it as one step among the others.

  \<^bold>\<open>Time.\<close> A law that speaks of a moment of a call from \<open>s\<close> to \<open>t\<close> says \<open>clock_read s t now\<close>: \<open>now\<close> is what
  the database clock shows at one of the ticks of the call. The clock is an arbitrary function of the tick.

  \<^bold>\<open>Values.\<close> Prices are \<open>micros\<close>, whole numbers bounded by the safe integers of JavaScript; an overflow is
  the refusal of the schema (\<open>micros_parse\<close>). Instants are milliseconds. Texts are lists of characters;
  comparisons of the database's collation are comparisons of character codes. Messages for people are
  omitted.
\<close>

section \<open>Theories\<close>

text \<open>
  \<^item> \<open>Prelude\<close>, \<open>Money\<close>, \<open>Contracts\<close>: tables as lists, money and the data of \<^verbatim>\<open>packages/contracts\<close>;
    \<open>Contract_Laws\<close>: selection from a catalog, the simulated catalog, identifiers.
  \<^item> \<open>Database\<close>, \<open>Effects\<close>: the tables, statements and programs. \<open>Footprint\<close> (what a program may write,
    locales \<open>write_invariant\<close> and \<open>write_law\<close>), \<open>Outcomes\<close> (what a returned result implies), \<open>Triples\<close>
    (weakest preconditions) and the locale \<open>step_relation\<close> of \<open>Effects\<close> are the three ways to reason
    about a handler; \<open>Database_Laws\<close> and \<open>Ledger\<close> interpret the locales on the tables.
  \<^item> \<open>Auth\<close>: grants, \<open>loadAuthority\<close>, \<open>issueGrant\<close>, \<open>revokeGrant\<close>; \<open>Auth_Laws\<close>, \<open>Delegation\<close>: lineages,
    their policies and their revocation.
  \<^item> \<open>Provider\<close>, \<open>Journal\<close>, \<open>Resolution\<close>: authorization, journaling and resolution of an effect;
    \<open>Journal_Laws\<close>, \<open>Effect_Authority\<close>, \<open>Evaluation\<close>: what a submission and a verdict imply.
  \<^item> \<open>Machine_Cleanup\<close>, \<open>Advance\<close>: the state machine of an operation; \<open>Advance_Laws\<close>, \<open>Single_Effect\<close>:
    one effect at most per call, none repeated.
  \<^item> \<open>Lifecycle\<close>, \<open>Api\<close>: admission and the routes; \<open>Admission_Laws\<close>. \<open>Operator_Recovery\<close>: decisions of
    the operator. \<open>Simulated_Provider\<close>: the provider of development, used in the examples.
  \<^item> \<open>World\<close>, \<open>Control\<close>: the reachable states; \<open>Examples\<close>, \<open>Scenario\<close>: concrete databases and runs;
    \<open>Guarantees\<close>: the properties over reachable states.
  \<^item> \<open>Image_Contracts\<close>, \<open>Image_Budget\<close>, \<open>Image_Store\<close>: data, budget, tables and triggers of the factory.
    \<open>Image_Builds\<close>, \<open>Image_Plan\<close>, \<open>Image_Policy\<close>, \<open>Image_Journal\<close>, \<open>Image_Work\<close>, \<open>Image_Release\<close>,
    \<open>Image_Verification\<close>, \<open>Image_Control\<close>: its operations, one theory per group of files.
  \<^item> \<open>Image_Store_Laws\<close>, \<open>Image_Invariants\<close>: what accepted statements keep. \<open>Image_Calm\<close>, \<open>Image_Laws\<close>:
    programs that submit nothing and programs that do (locales \<open>factory_relation\<close>, \<open>effect_relation\<close>,
    interpreted for soundness of the journal and for the tables), and the reachable factories.
  \<^item> \<open>Image_Examples\<close>, \<open>Image_Guarantees\<close>, \<open>Image_Refinement\<close>, \<open>Image_Release_Laws\<close>: a concrete build from
    admission to removal, and the properties of the factory; \<open>Image_Refinement\<close> states the abstract
    lifecycle of a build, which the factory refines and on which builds settle.
  \<^item> \<open>Access_Contracts\<close>, \<open>Customer_Signer\<close>: the data of access sessions, the guard of their table and the
    claim of a certificate. \<open>Access_Sessions\<close>, \<open>Access_Service\<close>: admission and inspection, the observation
    of the guest, issuing, the gateway's calls, routes and tasks. \<open>Access_Lifecycle\<close>: the abstract
    lifecycle of a session, which the guard implements. \<open>Access_Laws\<close>, \<open>Access_Signing\<close>,
    \<open>Access_Leases\<close>: what handlers change (locale \<open>step_relation\<close>), when a key is signed and what a lease
    implies. \<open>Access_Control\<close>: the handlers as one step and what is reachable. \<open>Access_Examples\<close>,
    \<open>Access_Guarantees\<close>: a session from admission to check, and the properties.
  \<^item> \<open>Backup_Contracts\<close>, \<open>Backup_Store\<close>: the data of backups, their tables, and the process that works with
    them. \<open>Backup_Service\<close>, \<open>Backup_Schedules\<close>, \<open>Backup_Retention\<close>: admission, daily captures and the end of
    a backup. \<open>Backup_Work\<close>, \<open>Backup_Restore\<close>: the stages of the worker over ports for the guest, the object
    store, the key file, the ciphers and the scratch directory.
  \<^item> \<open>Backup_Laws\<close>: the programs that send nothing and keep every row's stage.
    \<open>Backup_Steady\<close> (locale \<open>steady\<close>), \<open>Backup_Worker\<close> (its interpretations), \<open>Backup_Stages\<close>: what holds
    of the worker's row between its steps, under interference. \<open>Backup_Control\<close>: the calls as one step and
    what is reachable. \<open>Backup_Outcomes\<close>: what a successful admission has done. \<open>Backup_Examples\<close>,
    \<open>Backup_Guarantees\<close>: concrete runs and the properties.
\<close>

section \<open>Bounds\<close>

text \<open>
  The recursive query over grants is bounded by 32 levels in the code, and the model keeps the bound
  (\<open>ancestry\<close>). The query over the descendants of a grant recurses in SQL until no row is new; the model
  recurses as often as there are grants, which is enough because parents are never cyclic in an accepted
  table. All other loops of the code run over lists and are recursions on them. No definition has a fuel
  that can run out.
\<close>

section \<open>Where the model is coarser than the code\<close>

text \<open>
  \<^item> Hashes, seals, signatures, certificates and the canonical manifest of image inputs are functions
    given as parameters; nothing is assumed of them but in the hypotheses of a theorem.
  \<^item> Closing the access of a grant and an \<open>INSERT ... RETURNING\<close> take two ticks; an operation of the simulated
    provider takes one. Reads that the code issues concurrently follow each other.
  \<^item> A job holds no start time in the machine lifecycle; for images it does.
  \<^item> The branch that admits no access when customer access is disabled is left out.
  \<^item> The logs of signature requests, uploads, submitted restores and deletions are those of one process,
    which handles its calls one after the other; other processes appear by what they write.
  \<^item> A run of the retention process is also the sequence of its admissions and deletions
    (\<open>Expire_backup\<close>, \<open>Delete_version\<close>); the reachable states are built from these. The restores that
    access sessions look up are the table of \<open>Database\<close>; the worker's restores are those of the \<open>vault\<close>.
  \<^item> The streams of an archive are the answers of ports: an encryption yields an envelope, a transfer the
    counts that were measured. The delayed job that the task of one backup adds for itself is left out;
    reconciliation enqueues the same job.
  \<^item> The text formats of sealed tokens, enrollment addresses, gateway addresses and signature values, and
    of guest bootstraps and identities all but the columns that are read here, are not modelled; the
    guards that check them accept more in the model than in the code.
\<close>

section \<open>Not modelled\<close>

text \<open>
  The HTTP layer and the remaining routes of \<^verbatim>\<open>app.ts\<close>; guests (\<^verbatim>\<open>guest-*.ts\<close>, \<^verbatim>\<open>packages/guestctl\<close>);
  the gateway's own process; customer login; hosting; the client of the object store (\<^verbatim>\<open>packages/backup-store\<close>), the
  ciphers and the scratch files of backups;
  recovery of the control plane itself (\<^verbatim>\<open>control-recovery*.ts\<close>); rendering of boot data, the store of
  access material and the inputs of images, which act on files; the adapters to the provider, the
  certificate authority and SSH (\<^verbatim>\<open>packages/hetzner\<close>, \<^verbatim>\<open>packages/pki\<close>, \<^verbatim>\<open>packages/remote\<close>), which are
  parameters here; the command line, the SDK, the web pages and the scripts.
\<close>

end
